(* ===== verification/Prelude.thy ===== *)
theory Prelude
  imports Main
begin

text \<open>
  Generic material the component theories share: the collections the proofs
  draw on and the lemmas about rows of a table (a list of records searched with
  \<open>find\<close>, updated with a guarded \<open>map\<close> and deleted from with
  \<open>filter\<close>), about options, and about JavaScript's notion of truth on an
  optional string.
\<close>

named_theorems svc "equations that run the service combinators on a world"
named_theorems svc_elim "what a successful or failed run of a combinator implies"
named_theorems svc_consts "constants of the services, unfolded"

subsection \<open>Rows of a table\<close>

text \<open>\<open>UPDATE ... SET ... WHERE p\<close>: every row that satisfies the condition is rewritten.\<close>

definition update_where :: "('r \<Rightarrow> bool) \<Rightarrow> ('r \<Rightarrow> 'r) \<Rightarrow> 'r list \<Rightarrow> 'r list" where
  "update_where p f rs = map (\<lambda>r. if p r then f r else r) rs"

text \<open>\<open>DELETE ... WHERE p\<close>.\<close>

definition delete_where :: "('r \<Rightarrow> bool) \<Rightarrow> 'r list \<Rightarrow> 'r list" where
  "delete_where p rs = filter (\<lambda>r. \<not> p r) rs"

lemma set_update_where: "set (update_where p f rs) = (\<lambda>r. if p r then f r else r) ` set rs"
  by (simp add: update_where_def)

lemma update_where_Nil [simp]: "update_where p f [] = []"
  by (simp add: update_where_def)

lemma update_where_Cons [simp]:
  "update_where p f (r # rs) = (if p r then f r else r) # update_where p f rs"
  by (simp add: update_where_def)

lemma length_update_where [simp]: "length (update_where p f rs) = length rs"
  by (simp add: update_where_def)

lemma update_where_id: "(\<And>r. r \<in> set rs \<Longrightarrow> \<not> p r) \<Longrightarrow> update_where p f rs = rs"
  unfolding update_where_def by (induction rs) auto

lemma delete_where_Nil [simp]: "delete_where p [] = []"
  by (simp add: delete_where_def)

lemma delete_where_Cons [simp]:
  "delete_where p (r # rs) = (if p r then delete_where p rs else r # delete_where p rs)"
  by (simp add: delete_where_def)

lemma set_delete_where [simp]: "set (delete_where p rs) = {r \<in> set rs. \<not> p r}"
  by (simp add: delete_where_def)

lemma delete_where_id: "(\<And>r. r \<in> set rs \<Longrightarrow> \<not> p r) \<Longrightarrow> delete_where p rs = rs"
  by (simp add: delete_where_def filter_id_conv)

lemma map_update_where:
  "(\<And>r. p r \<Longrightarrow> k (f r) = k r) \<Longrightarrow> map k (update_where p f rs) = map k rs"
  by (simp add: update_where_def)

lemma image_update_where:
  "(\<And>r. p r \<Longrightarrow> k (f r) = k r) \<Longrightarrow> k ` set (update_where p f rs) = k ` set rs"
  by (metis list.set_map map_update_where)

lemma distinct_delete_where: "distinct (map k rs) \<Longrightarrow> distinct (map k (delete_where p rs))"
  by (simp add: delete_where_def distinct_map_filter)

lemma find_Some_set: "find p xs = Some x \<Longrightarrow> x \<in> set xs \<and> p x"
  by (auto simp: find_Some_iff)

lemma find_None_set: "find p xs = None \<longleftrightarrow> (\<forall>x\<in>set xs. \<not> p x)"
  by (auto simp: find_None_iff)

lemma find_appended_rows:
  "find p (xs @ ys) = (case find p xs of None \<Rightarrow> find p ys | Some x \<Rightarrow> Some x)"
  by (induction xs) auto

lemma find_key_None: "i \<notin> k ` set rs \<Longrightarrow> find (\<lambda>r. k r = i) rs = None"
  by (induction rs) auto

lemma key_unique:
  "distinct (map k rs) \<Longrightarrow> a \<in> set rs \<Longrightarrow> b \<in> set rs \<Longrightarrow> k a = k b \<Longrightarrow> a = b"
  by (meson distinct_map inj_onD)

lemma find_key_unique:
  assumes "distinct (map k rs)" and "r \<in> set rs" and "p r" and "\<And>s. p s \<Longrightarrow> k s = k r"
  shows "find p rs = Some r"
proof (cases "find p rs")
  case None
  with assms(2,3) show ?thesis by (auto simp: find_None_iff)
next
  case (Some s)
  then have s: "s \<in> set rs" "p s" using find_Some_set by fastforce+
  have "s = r" by (rule key_unique [OF assms(1) s(1) assms(2) assms(4) [OF s(2)]])
  with Some show ?thesis by simp
qed

lemma filter_update_where_other:
  "(\<And>r. p r \<Longrightarrow> q (f r) = q r \<and> \<not> q r) \<Longrightarrow> filter q (update_where p f rs) = filter q rs"
  by (induction rs) auto

lemma filter_update_where_same:
  "(\<And>r. q r \<Longrightarrow> \<not> q (f r)) \<Longrightarrow> filter q (update_where q f rs) = []"
  by (induction rs) auto

subsection \<open>Options and JavaScript truth\<close>

text \<open>\<open>if (s)\<close> for a possibly missing string: the empty string is false as well.\<close>

definition truthy :: "string option \<Rightarrow> bool" where
  "truthy s \<longleftrightarrow> s \<noteq> None \<and> s \<noteq> Some []"

lemma truthy_simps [simp]: "\<not> truthy None" "truthy (Some s) \<longleftrightarrow> s \<noteq> []"
  by (simp_all add: truthy_def)

lemma truthyE: "truthy s \<Longrightarrow> \<exists>x. s = Some x \<and> x \<noteq> []"
  by (cases s) auto

text \<open>\<open>x ?? d\<close>.\<close>

definition nullish :: "'a option \<Rightarrow> 'a \<Rightarrow> 'a" where
  "nullish x d = (case x of None \<Rightarrow> d | Some v \<Rightarrow> v)"

lemma nullish_simps [simp]: "nullish None d = d" "nullish (Some v) d = v"
  by (simp_all add: nullish_def)

subsection \<open>Strings\<close>

text \<open>\<open>s.split(c)\<close> for a one-character separator: never empty.\<close>

fun split_on :: "char \<Rightarrow> string \<Rightarrow> string list" where
  "split_on c [] = [[]]"
| "split_on c (x # xs) =
     (if x = c then [] # split_on c xs
      else (case split_on c xs of [] \<Rightarrow> [[x]] | s # ss \<Rightarrow> (x # s) # ss))"

text \<open>\<open>parts.join(c)\<close>.\<close>

fun join_with :: "string \<Rightarrow> string list \<Rightarrow> string" where
  "join_with sep [] = []"
| "join_with sep [s] = s"
| "join_with sep (s # t # ss) = s @ sep @ join_with sep (t # ss)"

lemma split_on_nonempty [simp]: "split_on c s \<noteq> []"
  by (cases s) (auto split: list.splits)

lemma split_on_none: "c \<notin> set s \<Longrightarrow> split_on c s = [s]"
  by (induction s) auto

lemma split_on_append: "c \<notin> set s \<Longrightarrow> split_on c (s @ c # t) = s # split_on c t"
  by (induction s) auto

lemma split_join:
  "ss \<noteq> [] \<Longrightarrow> \<forall>s\<in>set ss. c \<notin> set s \<Longrightarrow> split_on c (join_with [c] ss) = ss"
  by (induction "[c]" ss rule: join_with.induct) (auto simp: split_on_none split_on_append)

lemma join_split: "join_with [c] (split_on c s) = s"
proof (induction s)
  case (Cons x s)
  then show ?case by (cases "split_on c s" rule: list.exhaust; cases "tl (split_on c s)") (auto split: list.splits)
qed simp

lemma join_with_middle:
  "join_with sep (as @ x # bs) = concat (map (\<lambda>a. a @ sep) as) @ x @ concat (map (\<lambda>b. sep @ b) bs)"
proof (induction as)
  case Nil
  show ?case
  proof (induction bs arbitrary: x)
    case (Cons b bs)
    show ?case using Cons [of b] by simp
  qed simp
next
  case (Cons a as)
  then show ?case by (cases "as @ x # bs") auto
qed

text \<open>\<open>s.startsWith(p)\<close>.\<close>

definition starts_with :: "string \<Rightarrow> string \<Rightarrow> bool" where
  "starts_with s p \<longleftrightarrow> take (length p) s = p"

lemma starts_with_append [simp]: "starts_with (p @ s) p"
  by (simp add: starts_with_def)

text \<open>\<open>n.toString()\<close> for a natural number.\<close>

definition digit :: "nat \<Rightarrow> char" where
  "digit d = char_of (48 + d)"

fun nat_to_string :: "nat \<Rightarrow> string" where
  "nat_to_string n = (if n < 10 then [digit n] else nat_to_string (n div 10) @ [digit (n mod 10)])"

declare nat_to_string.simps [simp del]

definition string_to_nat :: "string \<Rightarrow> nat" where
  "string_to_nat s = foldl (\<lambda>a c. 10 * a + (of_char c - 48)) 0 s"

lemma of_char_digit: "d < 10 \<Longrightarrow> of_char (digit d) = 48 + d"
  by (simp add: digit_def)

lemma string_to_nat_append: "string_to_nat (s @ [c]) = 10 * string_to_nat s + (of_char c - 48)"
  by (simp add: string_to_nat_def)

lemma string_to_nat_to_string: "string_to_nat (nat_to_string n) = n"
proof (induction n rule: nat_to_string.induct)
  case (1 n)
  show ?case
  proof (cases "n < 10")
    case True
    then show ?thesis by (simp add: nat_to_string.simps [of n] string_to_nat_def of_char_digit)
  next
    case False
    with 1 show ?thesis
      by (simp add: nat_to_string.simps [of n] string_to_nat_append of_char_digit)
  qed
qed

lemma nat_to_string_inj: "nat_to_string m = nat_to_string n \<longleftrightarrow> m = n"
  by (metis string_to_nat_to_string)

definition digit_chars :: "char set" where
  "digit_chars = set ''0123456789''"

lemma digits_listed: "map digit [0..<10] = ''0123456789''"
  by code_simp

lemma digit_range: "d < 10 \<Longrightarrow> digit d \<in> digit_chars"
  unfolding digit_chars_def digits_listed [symmetric] by auto

lemma nat_to_string_chars:
  "set (nat_to_string n) \<subseteq> digit_chars"
proof (induction n rule: nat_to_string.induct)
  case (1 n)
  show ?case
  proof (cases "n < 10")
    case True
    then show ?thesis using digit_range [of n] by (simp add: nat_to_string.simps [of n])
  next
    case False
    have "n mod 10 < 10" by simp
    with 1 [OF False] False digit_range [of "n mod 10"] show ?thesis
      by (simp add: nat_to_string.simps [of n])
  qed
qed

end
