(* ===== verification/ErrorCodes.thy ===== *)
theory ErrorCodes
  imports Prelude
begin

text \<open>
  The API's error vocabulary (\<open>common/exceptions\<close>) and the filter that turns a
  thrown value into an HTTP response (\<open>common/filters/api-exception.filter.ts\<close>).
  The user-facing Korean messages are kept symbolic: a message is the message of a
  code, an English status text, or the generic internal-error text.
\<close>

datatype error_code =
    INVALID_CREDENTIALS | TOKEN_EXPIRED | TOKEN_INVALID | REFRESH_TOKEN_INVALID | FORBIDDEN
  | USERNAME_TAKEN | ACCOUNT_DISABLED | ROLE_NOT_FOUND | REGISTRATION_FAILED
  | BACKUP_CODE_INVALID | TWOFA_CHALLENGE_NOT_FOUND | TWOFA_STRATEGY_NOT_FOUND
  | TWOFA_SETUP_NOT_SUPPORTED | TWOFA_TOTP_INVALID_CODE | TWOFA_TOTP_LOCKED
  | TWOFA_LAST_STRATEGY_CANNOT_REMOVE | DEVICE_NOT_FOUND | TRUSTED_DEVICE_NOT_FOUND
  | INVITATION_NOT_FOUND | INVITATION_EXPIRED | INVITATION_ALREADY_USED
  | FILE_NOT_FOUND | FOLDER_NOT_FOUND | FILE_UPLOAD_FAILED | FILE_ALREADY_DELETED
  | FOLDER_ALREADY_DELETED | INVALID_MOVE_TARGET | FOLDER_DEPTH_EXCEEDED
  | ZIP_LIMIT_EXCEEDED | PARENT_IN_TRASH
  | FILE_TOO_LARGE | UPLOAD_SESSION_NOT_FOUND | UPLOAD_SESSION_EXPIRED
  | UPLOAD_OBJECT_MISSING | UPLOAD_SIZE_MISMATCH
  | STORAGE_AGENT_UNAVAILABLE | STORAGE_AGENT_TARGET_CONFLICT
  | STORAGE_AGENT_TARGET_NOT_FOUND | STORAGE_AGENT_INTERNAL
  | DRIVE_NOT_FOUND | DRIVE_FORBIDDEN
  | MOUNT_CREDENTIAL_NOT_FOUND | MOUNT_CREDENTIAL_DUPLICATE_PROTOCOL
  | MOUNT_CREDENTIAL_REVOKED | MOUNT_CREDENTIAL_SECRET_WRITE_FAILED

text \<open>The \<open>status\<close> column of the \<open>ErrorCode\<close> table.\<close>

primrec error_status :: "error_code \<Rightarrow> nat" where
  "error_status INVALID_CREDENTIALS = 401"
| "error_status TOKEN_EXPIRED = 401"
| "error_status TOKEN_INVALID = 401"
| "error_status REFRESH_TOKEN_INVALID = 401"
| "error_status FORBIDDEN = 403"
| "error_status USERNAME_TAKEN = 409"
| "error_status ACCOUNT_DISABLED = 423"
| "error_status ROLE_NOT_FOUND = 500"
| "error_status REGISTRATION_FAILED = 500"
| "error_status BACKUP_CODE_INVALID = 401"
| "error_status TWOFA_CHALLENGE_NOT_FOUND = 404"
| "error_status TWOFA_STRATEGY_NOT_FOUND = 404"
| "error_status TWOFA_SETUP_NOT_SUPPORTED = 400"
| "error_status TWOFA_TOTP_INVALID_CODE = 400"
| "error_status TWOFA_TOTP_LOCKED = 429"
| "error_status TWOFA_LAST_STRATEGY_CANNOT_REMOVE = 400"
| "error_status DEVICE_NOT_FOUND = 404"
| "error_status TRUSTED_DEVICE_NOT_FOUND = 404"
| "error_status INVITATION_NOT_FOUND = 404"
| "error_status INVITATION_EXPIRED = 410"
| "error_status INVITATION_ALREADY_USED = 409"
| "error_status FILE_NOT_FOUND = 404"
| "error_status FOLDER_NOT_FOUND = 404"
| "error_status FILE_UPLOAD_FAILED = 500"
| "error_status FILE_ALREADY_DELETED = 409"
| "error_status FOLDER_ALREADY_DELETED = 409"
| "error_status INVALID_MOVE_TARGET = 400"
| "error_status FOLDER_DEPTH_EXCEEDED = 400"
| "error_status ZIP_LIMIT_EXCEEDED = 400"
| "error_status PARENT_IN_TRASH = 400"
| "error_status FILE_TOO_LARGE = 413"
| "error_status UPLOAD_SESSION_NOT_FOUND = 404"
| "error_status UPLOAD_SESSION_EXPIRED = 410"
| "error_status UPLOAD_OBJECT_MISSING = 400"
| "error_status UPLOAD_SIZE_MISMATCH = 400"
| "error_status STORAGE_AGENT_UNAVAILABLE = 503"
| "error_status STORAGE_AGENT_TARGET_CONFLICT = 409"
| "error_status STORAGE_AGENT_TARGET_NOT_FOUND = 404"
| "error_status STORAGE_AGENT_INTERNAL = 500"
| "error_status DRIVE_NOT_FOUND = 404"
| "error_status DRIVE_FORBIDDEN = 403"
| "error_status MOUNT_CREDENTIAL_NOT_FOUND = 404"
| "error_status MOUNT_CREDENTIAL_DUPLICATE_PROTOCOL = 409"
| "error_status MOUNT_CREDENTIAL_REVOKED = 410"
| "error_status MOUNT_CREDENTIAL_SECRET_WRITE_FAILED = 500"

text \<open>\<open>HttpStatusMessage\<close>: a partial table, \<open>None\<close> where it has no entry.\<close>

definition http_status_message :: "nat \<Rightarrow> string option" where
  "http_status_message s =
     (if s = 400 then Some ''Bad Request''
      else if s = 401 then Some ''Unauthorized''
      else if s = 403 then Some ''Forbidden''
      else if s = 404 then Some ''Not Found''
      else if s = 405 then Some ''Method Not Allowed''
      else if s = 409 then Some ''Conflict''
      else if s = 422 then Some ''Unprocessable Entity''
      else if s = 429 then Some ''Too Many Requests''
      else if s = 500 then Some ''Internal Server Error''
      else if s = 502 then Some ''Bad Gateway''
      else if s = 503 then Some ''Service Unavailable''
      else None)"

text \<open>
  What code can throw: an \<open>ApiException\<close>, another \<open>HttpException\<close> (with its status
  and internal message), an error of the Postgres driver (SQLSTATE and constraint), an
  error of a client library (its \<open>code\<close> and \<open>message\<close>), or a plain \<open>Error\<close>. The last
  constructor is no exception: it is the result of a method that never returns, because a
  loop of it never ends.
\<close>

datatype fault =
    ApiException error_code
  | HttpException nat string
  | PgError string string
  | ExtError string string
  | RawError string
  | NeverReturns

text \<open>\<open>new ApiException(code).getStatus()\<close>: the constructor looks the code's status up.\<close>

definition api_exception_status :: "error_code \<Rightarrow> nat" where
  "api_exception_status c = error_status c"

datatype response_code = Code error_code | HTTP_ERROR | INTERNAL_SERVER_ERROR

datatype response_message = MessageOf error_code | StatusText string | InternalMessage

record error_response =
  er_status :: nat
  er_code :: response_code
  er_message :: response_message

text \<open>\<open>ApiExceptionFilter.catch\<close>.\<close>

fun filter_catch :: "fault \<Rightarrow> error_response" where
  "filter_catch (ApiException c) =
     \<lparr>er_status = api_exception_status c, er_code = Code c, er_message = MessageOf c\<rparr>"
| "filter_catch (HttpException s m) =
     \<lparr>er_status = s, er_code = HTTP_ERROR,
      er_message = StatusText (nullish (http_status_message s) ''HTTP Error'')\<rparr>"
| "filter_catch e =
     \<lparr>er_status = 500, er_code = INTERNAL_SERVER_ERROR, er_message = InternalMessage\<rparr>"

text \<open>
  The \<open>ApiError(...keys)\<close> decorator groups the codes of a route by status, statuses in
  the order of their first occurrence (a \<open>Map\<close> keeps insertion order), codes in the
  order given.
\<close>

fun group_add :: "error_code \<Rightarrow> (nat \<times> error_code list) list \<Rightarrow> (nat \<times> error_code list) list" where
  "group_add k [] = [(error_status k, [k])]"
| "group_add k ((s, ks) # g) =
     (if s = error_status k then (s, ks @ [k]) # g else (s, ks) # group_add k g)"

definition api_error_groups :: "error_code list \<Rightarrow> (nat \<times> error_code list) list" where
  "api_error_groups keys = fold group_add keys []"

definition group_keys :: "(nat \<times> error_code list) list \<Rightarrow> error_code set" where
  "group_keys g = \<Union> (set ` snd ` set g)"

lemma group_keys_add: "group_keys (group_add k g) = insert k (group_keys g)"
  by (induction k g rule: group_add.induct) (auto simp: group_keys_def)

lemma group_add_fst:
  "map fst (group_add k g) =
     (if error_status k \<in> fst ` set g then map fst g else map fst g @ [error_status k])"
  by (induction k g rule: group_add.induct) force+

definition groups_wf :: "(nat \<times> error_code list) list \<Rightarrow> bool" where
  "groups_wf g \<longleftrightarrow> distinct (map fst g) \<and> (\<forall>(s, ks)\<in>set g. ks \<noteq> [] \<and> (\<forall>k\<in>set ks. error_status k = s))"

lemma group_add_mem:
  "\<forall>(s, ks)\<in>set g. ks \<noteq> [] \<and> (\<forall>k\<in>set ks. error_status k = s) \<Longrightarrow>
   \<forall>(s, ks)\<in>set (group_add k g). ks \<noteq> [] \<and> (\<forall>k\<in>set ks. error_status k = s)"
  by (induction k g rule: group_add.induct) auto

lemma group_add_wf: "groups_wf g \<Longrightarrow> groups_wf (group_add k g)"
  using group_add_mem [of g k] by (auto simp: groups_wf_def group_add_fst image_iff)

lemma fold_group_add_wf: "groups_wf g \<Longrightarrow> groups_wf (fold group_add keys g)"
  by (induction keys arbitrary: g) (simp_all add: group_add_wf)

lemma fold_group_add_keys: "group_keys (fold group_add keys g) = group_keys g \<union> set keys"
  by (induction keys arbitrary: g) (simp_all add: group_keys_add)

lemma api_exception_hides_nothing_internal:
  "er_code (filter_catch e) = INTERNAL_SERVER_ERROR \<longleftrightarrow>
     (\<forall>c. e \<noteq> ApiException c) \<and> (\<forall>s m. e \<noteq> HttpException s m)"
  by (cases e) auto

end
