(* ===== verification/Schema.thy ===== *)
theory Schema
  imports ErrorCodes "HOL-Library.Word"
begin

text \<open>
  The tables of \<open>database/schema\<close> as records, one record per row type and one list of
  rows per table, with the uniqueness constraints the schema declares. Identifiers and
  tokens are strings, timestamps are milliseconds (\<open>int\<close>), a nullable column is an
  \<open>option\<close>, and a \<open>bigint\<close> in number mode or an \<open>integer\<close> column is an \<open>int\<close>.
\<close>

type_synonym uuid = string
type_synonym millis = int
type_synonym byte = "8 word"

subsection \<open>Users, roles and permissions\<close>

record user_row =
  u_id :: uuid
  u_username :: string
  u_nickname :: string
  u_email :: "string option"
  u_password :: string
  u_active :: bool
  u_created_at :: millis
  u_updated_at :: millis

record role_row =
  r_id :: uuid
  r_name :: string
  r_is_system :: bool
  r_created_at :: millis

record permission_row =
  p_id :: uuid
  p_resource :: string
  p_action :: string

record role_permission_row =
  rp_role_id :: uuid
  rp_permission_id :: uuid

record user_role_row =
  ur_user_id :: uuid
  ur_role_id :: uuid

subsection \<open>Sessions, devices, invitations\<close>

record refresh_token_row =
  rt_id :: uuid
  rt_user_id :: uuid
  rt_token_hash :: string
  rt_device_id :: "uuid option"
  rt_expires_at :: millis
  rt_revoked_at :: "millis option"

record device_row =
  dv_id :: uuid
  dv_user_id :: uuid
  dv_push_token :: string
  dv_user_agent :: "string option"
  dv_created_at :: millis

record trusted_device_row =
  td_id :: uuid
  td_user_id :: uuid
  td_token_hash :: string
  td_user_agent :: "string option"
  td_expires_at :: millis
  td_created_at :: millis

record invitation_row =
  inv_id :: uuid
  inv_token :: uuid
  inv_created_by :: uuid
  inv_used_by :: "uuid option"
  inv_used_at :: "millis option"
  inv_expires_at :: millis
  inv_deactivated_at :: "millis option"
  inv_created_at :: millis

subsection \<open>Two-factor authentication\<close>

record backup_code_row =
  bc_id :: uuid
  bc_user_id :: uuid
  bc_code_hash :: string
  bc_used_at :: "millis option"
  bc_created_at :: millis

datatype challenge_status = PENDING | APPROVED | DENIED | EXPIRED

record challenge_row =
  ch_id :: uuid
  ch_user_id :: uuid
  ch_options :: string
  ch_correct_num :: string
  ch_status :: challenge_status
  ch_created_at :: millis
  ch_expires_at :: millis
  ch_responded_at :: "millis option"

text \<open>The \<open>algorithm\<close> column is an enum with the single value \<open>SHA1\<close>.\<close>

datatype totp_algorithm = SHA1

record totp_row =
  tp_id :: uuid
  tp_user_id :: uuid
  tp_secret_encrypted :: "byte list"
  tp_iv :: "byte list"
  tp_auth_tag :: "byte list"
  tp_algorithm :: totp_algorithm
  tp_digits :: int
  tp_period_sec :: int
  tp_created_at :: millis
  tp_last_used_at :: "millis option"

subsection \<open>Folders, files, uploads\<close>

record folder_row =
  fo_id :: uuid
  fo_user_id :: uuid
  fo_parent_id :: "uuid option"
  fo_name :: string
  fo_soft_deleted_at :: "millis option"
  fo_created_at :: millis
  fo_updated_at :: millis

record file_row =
  fi_id :: uuid
  fi_user_id :: uuid
  fi_folder_id :: "uuid option"
  fi_name :: string
  fi_minio_key :: string
  fi_size :: int
  fi_mime_type :: string
  fi_soft_deleted_at :: "millis option"
  fi_created_at :: millis
  fi_updated_at :: millis

datatype upload_kind = Single | Multipart

record upload_session_row =
  us_id :: uuid
  us_user_id :: uuid
  us_folder_id :: "uuid option"
  us_name :: string
  us_size :: int
  us_mime_type :: string
  us_minio_key :: string
  us_upload_kind :: upload_kind
  us_multipart_upload_id :: "string option"
  us_expires_at :: millis
  us_created_at :: millis

subsection \<open>Drives and mount credentials\<close>

record drive_row =
  dr_id :: uuid
  dr_owner_id :: uuid
  dr_name :: string
  dr_kind :: string
  dr_mount_path :: string
  dr_quota_bytes :: "int option"
  dr_created_at :: millis
  dr_updated_at :: millis

record mount_credential_row =
  mc_id :: uuid
  mc_drive_id :: uuid
  mc_user_id :: uuid
  mc_protocol :: string
  mc_os_username :: string
  mc_secret_ref :: string
  mc_iqn :: "string option"
  mc_last_used_at :: "millis option"
  mc_revoked_at :: "millis option"
  mc_created_at :: millis
  mc_updated_at :: millis

subsection \<open>The database\<close>

record database =
  users :: "user_row list"
  roles :: "role_row list"
  permissions :: "permission_row list"
  role_permissions :: "role_permission_row list"
  user_roles :: "user_role_row list"
  refresh_tokens :: "refresh_token_row list"
  devices :: "device_row list"
  trusted_devices :: "trusted_device_row list"
  invitations :: "invitation_row list"
  backup_codes :: "backup_code_row list"
  two_fa_challenges :: "challenge_row list"
  two_fa_totp :: "totp_row list"
  folders :: "folder_row list"
  files :: "file_row list"
  upload_sessions :: "upload_session_row list"
  drives :: "drive_row list"
  mount_credentials :: "mount_credential_row list"

definition empty_db :: database where
  "empty_db = \<lparr>users = [], roles = [], permissions = [], role_permissions = [], user_roles = [],
     refresh_tokens = [], devices = [], trusted_devices = [], invitations = [], backup_codes = [],
     two_fa_challenges = [], two_fa_totp = [], folders = [], files = [], upload_sessions = [],
     drives = [], mount_credentials = []\<rparr>"

text \<open>
  Keys of the partial unique index \<open>mount_credentials_active_unique\<close>: only rows that
  are not revoked take part.
\<close>

definition active_mount_keys :: "mount_credential_row list \<Rightarrow> (uuid \<times> uuid \<times> string) list" where
  "active_mount_keys rs =
     map (\<lambda>r. (mc_drive_id r, mc_user_id r, mc_protocol r)) (filter (\<lambda>r. mc_revoked_at r = None) rs)"

text \<open>
  The primary keys and unique constraints of the schema, as one predicate on a database.
  The tables' inserts below refuse a row that would break it.
\<close>

definition keys_ok :: "database \<Rightarrow> bool" where
  "keys_ok d \<longleftrightarrow>
     distinct (map u_id (users d)) \<and> distinct (map u_username (users d)) \<and>
     distinct (map rt_id (refresh_tokens d)) \<and>
     distinct (map dv_id (devices d)) \<and> distinct (map dv_push_token (devices d)) \<and>
     distinct (map td_id (trusted_devices d)) \<and>
     distinct (map inv_id (invitations d)) \<and> distinct (map inv_token (invitations d)) \<and>
     distinct (map bc_id (backup_codes d)) \<and>
     distinct (map ch_id (two_fa_challenges d)) \<and>
     distinct (map tp_id (two_fa_totp d)) \<and> distinct (map tp_user_id (two_fa_totp d)) \<and>
     distinct (map fo_id (folders d)) \<and>
     distinct (map fi_id (files d)) \<and> distinct (map fi_minio_key (files d)) \<and>
     distinct (map us_id (upload_sessions d)) \<and> distinct (map us_minio_key (upload_sessions d)) \<and>
     distinct (map dr_id (drives d)) \<and> distinct (map dr_mount_path (drives d)) \<and>
     distinct (map mc_id (mount_credentials d)) \<and> distinct (active_mount_keys (mount_credentials d))"

end
