(* ===== verification/World.thy ===== *)
theory World
  imports Schema
begin

text \<open>
  The world a request handler runs in and the small language the services are written
  in. A service method is a function from a world to a result (a fault or a value) and a
  world. The world holds the database, the list of calls made to everything outside the
  repository (newest first, each with the time it was made), the number of values drawn
  so far from the host (clock readings and random values), and whether a transaction is
  open. What the host answers is a parameter, the record \<open>host\<close>: the answers of the
  object store, the cache, the queue, the storage agent and the file system are
  functions of all the calls made before, and the cryptographic functions are functions
  of their arguments (and of a draw, where they are randomised).
\<close>

subsection \<open>Values that cross the boundary\<close>

record folder_item =
  foi_id :: uuid
  foi_name :: string
  foi_parent_id :: "uuid option"
  foi_created_at :: millis
  foi_updated_at :: millis

record file_item =
  fii_id :: uuid
  fii_name :: string
  fii_folder_id :: "uuid option"
  fii_size :: int
  fii_mime_type :: string
  fii_created_at :: millis
  fii_updated_at :: millis

text \<open>The listing spreads whole rows into its files (\<open>{ ...r }\<close>), not only the declared fields.\<close>

record folder_children =
  fc_folders :: "folder_item list"
  fc_files :: "file_row list"

record push_challenge_job =
  job_user_id :: uuid
  job_push_token :: string
  job_challenge_id :: uuid
  job_options :: string
  job_expires_at :: millis

record create_target_request =
  ct_iqn :: string
  ct_name :: string
  ct_os_username :: string
  ct_os_password :: string

datatype agent_method = AgentPost create_target_request | AgentGet string | AgentDelete string

record agent_target =
  at_iqn :: string
  at_name :: string
  at_status :: string
  at_connected :: bool

datatype agent_data = NoData | CreatedTarget int string | TargetInfo agent_target

text \<open>A reply of the agent: its payload is the one below \<open>data\<close> if the body has that field.\<close>

record agent_reply =
  ag_status :: nat
  ag_error_code :: "string option"
  ag_data :: agent_data

datatype cache_value = CountValue nat | ListingValue folder_children

text \<open>One constructor per call that leaves the process.\<close>

datatype ext_call =
    CacheGet string
  | CacheSet string cache_value int
  | CacheDel string
  | S3Stat string
  | S3Get string
  | S3Remove string
  | S3RemoveMany "string list"
  | S3Copy string string
  | S3PresignPut string nat
  | S3CreateMultipart string string
  | S3PresignPart string string nat nat
  | S3CompleteMultipart string string "(nat \<times> string) list"
  | S3AbortMultipart string string
  | QueueAdd push_challenge_job
  | FcmSend push_challenge_job
  | AgentRequest agent_method
  | SecretWrite string string
  | SecretRemove string
  | SetCookie string string int
  | ClearCookie string
  | Migrate

type_synonym calls = "(millis \<times> ext_call) list"

subsection \<open>The host\<close>

record host =
  h_clock :: "nat \<Rightarrow> millis"
  h_uuid :: "nat \<Rightarrow> uuid"
  h_random_int :: "nat \<Rightarrow> nat \<Rightarrow> nat"
  h_random_bytes :: "nat \<Rightarrow> nat \<Rightarrow> byte list"
  h_hmac_sha256 :: "string \<Rightarrow> string \<Rightarrow> string"
  h_sha256 :: "string \<Rightarrow> string"
  h_bcrypt_hash :: "nat \<Rightarrow> string \<Rightarrow> nat \<Rightarrow> string"
  h_bcrypt_compare :: "string \<Rightarrow> string \<Rightarrow> bool"
  h_jwt_sign :: "millis \<Rightarrow> uuid \<Rightarrow> string \<Rightarrow> string list \<Rightarrow> int \<Rightarrow> string"
  h_otp_secret :: "nat \<Rightarrow> string"
  h_otp_uri :: "string \<Rightarrow> string \<Rightarrow> string \<Rightarrow> string"
  h_otp_valid :: "millis \<Rightarrow> string \<Rightarrow> string \<Rightarrow> bool"
  h_aes_encrypt :: "byte list \<Rightarrow> byte list \<Rightarrow> byte list \<Rightarrow> byte list \<times> byte list"
  h_aes_decrypt :: "byte list \<Rightarrow> byte list \<Rightarrow> byte list \<Rightarrow> byte list \<Rightarrow> byte list option"
  h_mime_extension :: "string \<Rightarrow> string option"
  h_config :: "string \<Rightarrow> string option"
  h_access_exp_ms :: int
  h_refresh_exp_ms :: int
  h_pepper :: string
  h_master_key :: "byte list"
  h_cache_get :: "calls \<Rightarrow> millis \<Rightarrow> string \<Rightarrow> fault + cache_value option"
  h_unit :: "calls \<Rightarrow> millis \<Rightarrow> ext_call \<Rightarrow> fault + unit"
  h_text :: "calls \<Rightarrow> millis \<Rightarrow> ext_call \<Rightarrow> fault + string"
  h_stat :: "calls \<Rightarrow> millis \<Rightarrow> string \<Rightarrow> fault + int"
  h_agent :: "calls \<Rightarrow> millis \<Rightarrow> agent_method \<Rightarrow> fault + agent_reply"
  h_commit :: "calls \<Rightarrow> fault option"

record world =
  db :: database
  calls :: calls
  draws :: nat
  in_tx :: bool

type_synonym 'a svc = "world \<Rightarrow> (fault + 'a) \<times> world"

subsection \<open>Combinators\<close>

definition ret :: "'a \<Rightarrow> 'a svc" where
  "ret x w = (Inr x, w)"

definition raise :: "fault \<Rightarrow> 'a svc" where
  "raise e w = (Inl e, w)"

definition throw :: "error_code \<Rightarrow> 'a svc" where
  "throw c = raise (ApiException c)"

definition andThen :: "'a svc \<Rightarrow> ('a \<Rightarrow> 'b svc) \<Rightarrow> 'b svc" where
  "andThen m f w = (case m w of (Inl e, w') \<Rightarrow> (Inl e, w') | (Inr x, w') \<Rightarrow> f x w')"

text \<open>\<open>m.catch(h)\<close> and \<open>try { m } catch (e) { h(e) }\<close>: the effects of \<open>m\<close> stay.\<close>

definition catching :: "'a svc \<Rightarrow> (fault \<Rightarrow> 'a svc) \<Rightarrow> 'a svc" where
  "catching m h w = (case m w of (Inl e, w') \<Rightarrow> h e w' | (Inr x, w') \<Rightarrow> (Inr x, w'))"

text \<open>\<open>if (!b) throw new ApiException(c)\<close>.\<close>

definition require :: "bool \<Rightarrow> error_code \<Rightarrow> unit svc" where
  "require b c = (if b then ret () else throw c)"

text \<open>A query and a statement on the current database.\<close>

definition query :: "(database \<Rightarrow> 'a) \<Rightarrow> 'a svc" where
  "query q w = (Inr (q (db w)), w)"

definition statement :: "(database \<Rightarrow> database) \<Rightarrow> unit svc" where
  "statement f w = (Inr (), w\<lparr>db := f (db w)\<rparr>)"

text \<open>A draw from the host: \<open>new Date()\<close>, \<open>randomUUID()\<close>, \<open>randomInt(n)\<close>, \<open>randomBytes(n)\<close>.\<close>

definition draw :: "(nat \<Rightarrow> 'a) \<Rightarrow> 'a svc" where
  "draw f w = (Inr (f (draws w)), w\<lparr>draws := Suc (draws w)\<rparr>)"

definition new_date :: "host \<Rightarrow> millis svc" where
  "new_date H = draw (h_clock H)"

definition random_uuid :: "host \<Rightarrow> uuid svc" where
  "random_uuid H = draw (h_uuid H)"

definition random_int :: "host \<Rightarrow> nat \<Rightarrow> nat svc" where
  "random_int H n = draw (\<lambda>i. h_random_int H i n)"

definition random_bytes :: "host \<Rightarrow> nat \<Rightarrow> byte list svc" where
  "random_bytes H n = draw (\<lambda>i. h_random_bytes H i n)"

text \<open>A call outside the process: it is recorded with its time, whatever it answers.\<close>

definition call :: "host \<Rightarrow> (calls \<Rightarrow> millis \<Rightarrow> fault + 'a) \<Rightarrow> ext_call \<Rightarrow> 'a svc" where
  "call H f e w =
     (let t = h_clock H (draws w)
      in (f (calls w) t, w\<lparr>calls := (t, e) # calls w, draws := Suc (draws w)\<rparr>))"

definition call_unit :: "host \<Rightarrow> ext_call \<Rightarrow> unit svc" where
  "call_unit H e = call H (\<lambda>cs t. h_unit H cs t e) e"

definition call_text :: "host \<Rightarrow> ext_call \<Rightarrow> string svc" where
  "call_text H e = call H (\<lambda>cs t. h_text H cs t e) e"

text \<open>Setting a header of the response: recorded, it has no answer.\<close>

definition emit :: "host \<Rightarrow> ext_call \<Rightarrow> unit svc" where
  "emit H e = call H (\<lambda>_ _. Inr ()) e"

text \<open>\<open>ConfigService.getOrThrow\<close>.\<close>

definition config_or_throw :: "host \<Rightarrow> string \<Rightarrow> string svc" where
  "config_or_throw H k =
     (case h_config H k of None \<Rightarrow> raise (RawError k) | Some v \<Rightarrow> ret v)"

text \<open>
  \<open>Promise.all(ms)\<close>: every action is started, in order, whether or not another fails;
  the first failure is the outcome.
\<close>

fun promise_all :: "'a svc list \<Rightarrow> 'a list svc" where
  "promise_all [] w = (Inr [], w)"
| "promise_all (m # ms) w =
     (case m w of (r, w1) \<Rightarrow>
       (case promise_all ms w1 of (rs, w2) \<Rightarrow>
         (case r of Inl e \<Rightarrow> (Inl e, w2)
          | Inr x \<Rightarrow> (case rs of Inl e \<Rightarrow> (Inl e, w2) | Inr xs \<Rightarrow> (Inr (x # xs), w2)))))"

text \<open>A \<open>for ... of\<close> loop with an awaiting body: it stops at the first fault.\<close>

fun for_each :: "('a \<Rightarrow> unit svc) \<Rightarrow> 'a list \<Rightarrow> unit svc" where
  "for_each f [] = ret ()"
| "for_each f (x # xs) = andThen (f x) (\<lambda>_. for_each f xs)"

subsection \<open>Transactions\<close>

text \<open>
  \<open>ServiceCore.runInTx\<close> (\<open>database/core/service.core.ts\<close>) over
  \<open>TransactionContext\<close> (\<open>database/transaction-context.ts\<close>): inside an open transaction the
  body joins it; otherwise a transaction is opened, its database changes are discarded if
  the body throws or the commit fails, and calls outside the database are never undone.
\<close>

definition tx_current :: "world \<Rightarrow> bool" where
  "tx_current w = in_tx w"

definition tx_run :: "'a svc \<Rightarrow> 'a svc" where
  "tx_run m w = (case m (w\<lparr>in_tx := True\<rparr>) of (r, w') \<Rightarrow> (r, w'\<lparr>in_tx := in_tx w\<rparr>))"

definition db_transaction :: "host \<Rightarrow> 'a svc \<Rightarrow> 'a svc" where
  "db_transaction H m w =
     (case m w of
        (Inl e, w') \<Rightarrow> (Inl e, w'\<lparr>db := db w\<rparr>)
      | (Inr x, w') \<Rightarrow>
          (case h_commit H (calls w') of
             None \<Rightarrow> (Inr x, w')
           | Some e \<Rightarrow> (Inl e, w'\<lparr>db := db w\<rparr>)))"

definition run_in_tx :: "host \<Rightarrow> 'a svc \<Rightarrow> 'a svc" where
  "run_in_tx H m w = (if tx_current w then m w else db_transaction H (tx_run m) w)"

subsection \<open>Inserts and constraints\<close>

text \<open>SQLSTATE 23505, a unique violation, and 23503, a violated foreign key.\<close>

definition unique_violation :: "string \<Rightarrow> 'a svc" where
  "unique_violation c = raise (PgError ''23505'' c)"

definition foreign_key_violation :: "string \<Rightarrow> 'a svc" where
  "foreign_key_violation c = raise (PgError ''23503'' c)"

definition check_unique :: "(database \<Rightarrow> bool) \<Rightarrow> string \<Rightarrow> unit svc" where
  "check_unique clash c = andThen (query clash) (\<lambda>b. if b then unique_violation c else ret ())"

definition check_fk :: "(database \<Rightarrow> bool) \<Rightarrow> string \<Rightarrow> unit svc" where
  "check_fk present c = andThen (query present) (\<lambda>b. if b then ret () else foreign_key_violation c)"

definition user_exists :: "uuid \<Rightarrow> database \<Rightarrow> bool" where
  "user_exists u d \<longleftrightarrow> u \<in> u_id ` set (users d)"

definition folder_exists :: "uuid option \<Rightarrow> database \<Rightarrow> bool" where
  "folder_exists f d \<longleftrightarrow> (case f of None \<Rightarrow> True | Some i \<Rightarrow> i \<in> fo_id ` set (folders d))"

subsection \<open>Running the combinators\<close>

lemma svc_run [svc]:
  "ret x w = (Inr x, w)"
  "raise e w = (Inl e, w)"
  "throw c w = (Inl (ApiException c), w)"
  "require b c w = (if b then (Inr (), w) else (Inl (ApiException c), w))"
  "query q w = (Inr (q (db w)), w)"
  "statement f w = (Inr (), w\<lparr>db := f (db w)\<rparr>)"
  "unique_violation k w = (Inl (PgError ''23505'' k), w)"
  "foreign_key_violation k w = (Inl (PgError ''23503'' k), w)"
  "check_unique clash k w = (if clash (db w) then (Inl (PgError ''23505'' k), w) else (Inr (), w))"
  "check_fk present k w = (if present (db w) then (Inr (), w) else (Inl (PgError ''23503'' k), w))"
  by (simp_all add: ret_def raise_def throw_def require_def query_def statement_def
      unique_violation_def foreign_key_violation_def check_unique_def check_fk_def andThen_def)

lemma draw_run [svc]:
  "draw f w = (Inr (f (draws w)), w\<lparr>draws := Suc (draws w)\<rparr>)"
  "new_date H w = (Inr (h_clock H (draws w)), w\<lparr>draws := Suc (draws w)\<rparr>)"
  "random_uuid H w = (Inr (h_uuid H (draws w)), w\<lparr>draws := Suc (draws w)\<rparr>)"
  "random_int H n w = (Inr (h_random_int H (draws w) n), w\<lparr>draws := Suc (draws w)\<rparr>)"
  "random_bytes H n w = (Inr (h_random_bytes H (draws w) n), w\<lparr>draws := Suc (draws w)\<rparr>)"
  by (simp_all add: draw_def new_date_def random_uuid_def random_int_def random_bytes_def)

definition stamp :: "host \<Rightarrow> ext_call \<Rightarrow> world \<Rightarrow> world" where
  "stamp H e w = w\<lparr>calls := (h_clock H (draws w), e) # calls w, draws := Suc (draws w)\<rparr>"

lemma stamp_simps [simp]:
  "db (stamp H e w) = db w" "in_tx (stamp H e w) = in_tx w"
  "calls (stamp H e w) = (h_clock H (draws w), e) # calls w"
  "draws (stamp H e w) = Suc (draws w)"
  by (simp_all add: stamp_def)

lemma call_run [svc]:
  "call H f e w = (f (calls w) (h_clock H (draws w)), stamp H e w)"
  "call_unit H e w = (h_unit H (calls w) (h_clock H (draws w)) e, stamp H e w)"
  "call_text H e w = (h_text H (calls w) (h_clock H (draws w)) e, stamp H e w)"
  "emit H e w = (Inr (), stamp H e w)"
  by (simp_all add: call_def call_unit_def call_text_def emit_def stamp_def Let_def)

lemma config_run [svc]:
  "config_or_throw H k w = ((case h_config H k of None \<Rightarrow> Inl (RawError k) | Some v \<Rightarrow> Inr v), w)"
  by (simp add: config_or_throw_def svc split: option.split)

lemma andThen_Inr [svc_elim]:
  "andThen m f w = (Inr y, w'') \<longleftrightarrow> (\<exists>x w'. m w = (Inr x, w') \<and> f x w' = (Inr y, w''))"
  by (auto simp: andThen_def split: prod.splits sum.splits)

lemma andThen_Inl [svc_elim]:
  "andThen m f w = (Inl e, w'') \<longleftrightarrow>
     m w = (Inl e, w'') \<or> (\<exists>x w'. m w = (Inr x, w') \<and> f x w' = (Inl e, w''))"
  by (auto simp: andThen_def split: prod.splits sum.splits)

lemma andThen_run:
  "m w = (Inr x, w') \<Longrightarrow> andThen m f w = f x w'"
  "m w = (Inl e, w') \<Longrightarrow> andThen m f w = (Inl e, w')"
  by (simp_all add: andThen_def)

lemma tx_run_eq: "tx_run m w = (fst (m (w\<lparr>in_tx := True\<rparr>)), (snd (m (w\<lparr>in_tx := True\<rparr>)))\<lparr>in_tx := in_tx w\<rparr>)"
  by (simp add: tx_run_def split: prod.split)

text \<open>
  What a transaction means for its caller: a success outside a transaction is a
  success of the body, with the flag restored; a failure leaves the database as it was.
\<close>

lemma run_in_tx_Inr:
  assumes "run_in_tx H m w = (Inr x, w')"
  obtains v where "m (w\<lparr>in_tx := True\<rparr>) = (Inr x, v)"
    "db w' = db v" "draws w' = draws v" "calls w' = calls v"
proof (cases "in_tx w")
  case True
  then have "w\<lparr>in_tx := True\<rparr> = w" by simp
  with assms True that show thesis by (simp add: run_in_tx_def tx_current_def)
next
  case False
  with assms that show thesis
    by (auto simp: run_in_tx_def tx_current_def db_transaction_def tx_run_def
        split: prod.splits sum.splits option.splits)
qed

text \<open>A fault leaves the database alone, or it was raised inside a transaction the caller owns.\<close>

lemma run_in_tx_Inl:
  assumes "run_in_tx H m w = (Inl e, w')"
  obtains r v where "m (w\<lparr>in_tx := True\<rparr>) = (r, v)" "draws w' = draws v" "calls w' = calls v"
    "db w' = db w \<or> (in_tx w \<and> r = Inl e \<and> db w' = db v)"
    "r = Inl e \<or> h_commit H (calls v) = Some e"
proof (cases "in_tx w")
  case True
  then have "w\<lparr>in_tx := True\<rparr> = w" by simp
  with assms True that show thesis by (simp add: run_in_tx_def tx_current_def)
next
  case False
  with assms that show thesis
    by (auto simp: run_in_tx_def tx_current_def db_transaction_def tx_run_def
        split: prod.splits sum.splits option.splits)
qed

lemma run_in_tx_rollback:
  "run_in_tx H m w = (Inl e, w') \<Longrightarrow> \<not> in_tx w \<Longrightarrow> db w' = db w"
  by (auto simp: run_in_tx_def tx_current_def db_transaction_def tx_run_def
      split: prod.splits sum.splits option.splits if_splits)

lemma run_in_tx_body_Inl:
  "\<not> in_tx w \<Longrightarrow> m (w\<lparr>in_tx := True\<rparr>) = (Inl e, w1) \<Longrightarrow>
     run_in_tx H m w = (Inl e, w1\<lparr>in_tx := False, db := db w\<rparr>)"
  by (simp add: run_in_tx_def tx_current_def db_transaction_def tx_run_def)

lemma run_in_tx_body_Inr:
  "\<not> in_tx w \<Longrightarrow> m (w\<lparr>in_tx := True\<rparr>) = (Inr x, w1) \<Longrightarrow> h_commit H (calls w1) = None \<Longrightarrow>
     run_in_tx H m w = (Inr x, w1\<lparr>in_tx := False\<rparr>)"
  by (simp add: run_in_tx_def tx_current_def db_transaction_def tx_run_def)

end
