(* ===== verification/Wp.thy ===== *)
theory Wp
  imports World
begin

text \<open>
  Weakest preconditions for service methods. \<open>wp m Q w\<close> says that running \<open>m\<close> in \<open>w\<close>
  ends with a result and a world that satisfy \<open>Q\<close>; as methods are total functions there
  is no partial reading. The equations of the collection \<open>wp\<close> compute it through the
  combinators, so that an effect of a method is proved by simplification.
\<close>

named_theorems wp "equations that compute weakest preconditions"

definition wp :: "'a svc \<Rightarrow> (fault + 'a \<Rightarrow> world \<Rightarrow> bool) \<Rightarrow> world \<Rightarrow> bool" where
  "wp m Q w = (case m w of (r, w') \<Rightarrow> Q r w')"

lemma wp_use: "m w = (r, w') \<Longrightarrow> wp m Q w \<Longrightarrow> Q r w'"
  by (simp add: wp_def)

lemma wp_snd: "wp m (\<lambda>r w'. P w') w \<longleftrightarrow> P (snd (m w))"
  by (simp add: wp_def split: prod.split)

lemma wp_dbI: "wp m (\<lambda>_ w'. P (db w')) w \<Longrightarrow> P (db (snd (m w)))"
  by (simp add: wp_def split: prod.splits)

lemma wp_result: "m w = p \<longleftrightarrow> wp m (\<lambda>r w'. (r, w') = p) w"
  by (simp add: wp_def split: prod.split)

lemma wp_mono: "wp m Q w \<Longrightarrow> (\<And>r w'. Q r w' \<Longrightarrow> R r w') \<Longrightarrow> wp m R w"
  by (auto simp: wp_def split: prod.splits)

lemma wp_conj: "wp m (\<lambda>r w'. Q r w' \<and> R r w') w \<longleftrightarrow> wp m Q w \<and> wp m R w"
  by (simp add: wp_def split: prod.split)

lemma wp_primitive [wp]:
  "wp (ret x) Q w = Q (Inr x) w"
  "wp (raise e) Q' w = Q' (Inl e) w"
  "wp (throw c) Q' w = Q' (Inl (ApiException c)) w"
  "wp (require b c) R w = (if b then R (Inr ()) w else R (Inl (ApiException c)) w)"
  "wp (query q) S w = S (Inr (q (db w))) w"
  "wp (statement f) R w = R (Inr ()) (w\<lparr>db := f (db w)\<rparr>)"
  "wp (unique_violation k) Q' w = Q' (Inl (PgError ''23505'' k)) w"
  "wp (foreign_key_violation k) Q' w = Q' (Inl (PgError ''23503'' k)) w"
  "wp (check_unique clash k) R w =
     (if clash (db w) then R (Inl (PgError ''23505'' k)) w else R (Inr ()) w)"
  "wp (check_fk present k) R w =
     (if present (db w) then R (Inr ()) w else R (Inl (PgError ''23503'' k)) w)"
  "wp (config_or_throw H key) T w =
     (case h_config H key of None \<Rightarrow> T (Inl (RawError key)) w | Some v \<Rightarrow> T (Inr v) w)"
  by (simp_all add: wp_def svc split: option.split)

lemma wp_draw [wp]:
  "wp (draw f) Q w = Q (Inr (f (draws w))) (w\<lparr>draws := Suc (draws w)\<rparr>)"
  "wp (new_date H) R w = R (Inr (h_clock H (draws w))) (w\<lparr>draws := Suc (draws w)\<rparr>)"
  "wp (random_uuid H) S w = S (Inr (h_uuid H (draws w))) (w\<lparr>draws := Suc (draws w)\<rparr>)"
  "wp (random_int H n) T w = T (Inr (h_random_int H (draws w) n)) (w\<lparr>draws := Suc (draws w)\<rparr>)"
  "wp (random_bytes H n) U w = U (Inr (h_random_bytes H (draws w) n)) (w\<lparr>draws := Suc (draws w)\<rparr>)"
  by (simp_all add: wp_def svc)

lemma wp_call [wp]:
  "wp (call H f e) Q w = Q (f (calls w) (h_clock H (draws w))) (stamp H e w)"
  "wp (call_unit H e) R w = R (h_unit H (calls w) (h_clock H (draws w)) e) (stamp H e w)"
  "wp (call_text H e) S w = S (h_text H (calls w) (h_clock H (draws w)) e) (stamp H e w)"
  "wp (emit H e) R w = R (Inr ()) (stamp H e w)"
  by (simp_all add: wp_def svc)

lemma wp_andThen [wp]:
  "wp (andThen m f) Q w =
     wp m (\<lambda>r w'. case r of Inl e \<Rightarrow> Q (Inl e) w' | Inr x \<Rightarrow> wp (f x) Q w') w"
  by (simp add: wp_def andThen_def split: prod.split sum.split)

text \<open>The same one step at a time, where the rest is to stay as it is written.\<close>

named_theorems wp_then "a first step that always succeeds"

lemma wp_then_primitive [wp_then]:
  "wp (andThen (ret x) f) Q w = wp (f x) Q w"
  "wp (andThen (query q) g) Q w = wp (g (q (db w))) Q w"
  "wp (andThen (statement h) k) Q w = wp (k ()) Q (w\<lparr>db := h (db w)\<rparr>)"
  "wp (andThen (new_date H) l) Q w = wp (l (h_clock H (draws w))) Q (w\<lparr>draws := Suc (draws w)\<rparr>)"
  "wp (andThen (random_uuid H) m) Q w = wp (m (h_uuid H (draws w))) Q (w\<lparr>draws := Suc (draws w)\<rparr>)"
  "wp (andThen (throw c) n) Q w = Q (Inl (ApiException c)) w"
  by (simp_all add: wp_andThen wp_primitive wp_draw)

text \<open>A postcondition on worlds alone, through a first step.\<close>

lemma wp_inv_bind:
  assumes "wp m (\<lambda>r w'. P w' \<and> (\<forall>x. r = Inr x \<longrightarrow> wp (f x) (\<lambda>_. P) w')) w"
  shows "wp (andThen m f) (\<lambda>_. P) w"
  unfolding wp_andThen by (rule wp_mono [OF assms]) (simp split: sum.split)

lemma wp_inv_first:
  assumes "wp m (\<lambda>_. P) w" and "\<And>x w'. P w' \<Longrightarrow> wp (f x) (\<lambda>_. P) w'"
  shows "wp (andThen m f) (\<lambda>_. P) w"
  by (rule wp_inv_bind, rule wp_mono [OF assms(1)]) (simp add: assms(2))

text \<open>Sequencing, from a postcondition of the first step.\<close>

lemma wp_step:
  assumes "wp m P w" and "\<And>e v. P (Inl e) v \<Longrightarrow> Q (Inl e) v" and "\<And>x v. P (Inr x) v \<Longrightarrow> wp (f x) Q v"
  shows "wp (andThen m f) Q w"
  unfolding wp_andThen by (rule wp_mono [OF assms(1)]) (auto simp: assms split: sum.split)

lemma wp_catching [wp]:
  "wp (catching m h) Q w =
     wp m (\<lambda>r w'. case r of Inl e \<Rightarrow> wp (h e) Q w' | Inr x \<Rightarrow> Q (Inr x) w') w"
  by (simp add: wp_def catching_def split: prod.split sum.split)

lemma wp_step_catching:
  assumes "wp m P w" and "\<And>e v. P (Inl e) v \<Longrightarrow> wp (h e) Q v" and "\<And>x v. P (Inr x) v \<Longrightarrow> Q (Inr x) v"
  shows "wp (catching m h) Q w"
  unfolding wp_catching by (rule wp_mono [OF assms(1)]) (auto simp: assms split: sum.split)

lemma wp_if [wp]: "wp (if b then m else n) Q w = (if b then wp m Q w else wp n Q w)"
  by simp

lemma wp_case_option [wp]:
  "wp (case v of None \<Rightarrow> m | Some x \<Rightarrow> f x) Q w =
     (case v of None \<Rightarrow> wp m Q w | Some x \<Rightarrow> wp (f x) Q w)"
  by (simp split: option.split)

lemma wp_case_sum [wp]:
  "wp (case v of Inl e \<Rightarrow> g e | Inr x \<Rightarrow> f x) Q w =
     (case v of Inl e \<Rightarrow> wp (g e) Q w | Inr x \<Rightarrow> wp (f x) Q w)"
  by (simp split: sum.split)

lemma wp_case_list [wp]:
  "wp (case v of [] \<Rightarrow> m | x # xs \<Rightarrow> f x xs) Q w =
     (case v of [] \<Rightarrow> wp m Q w | x # xs \<Rightarrow> wp (f x xs) Q w)"
  by (simp split: list.split)

lemma wp_case_prod [wp]:
  "wp (case v of (a, b) \<Rightarrow> f a b) Q w = (case v of (a, b) \<Rightarrow> wp (f a b) Q w)"
  by (simp split: prod.split)

lemma wp_Let [wp]: "wp (let x = v in f x) Q w = (let x = v in wp (f x) Q w)"
  by (simp add: Let_def)

lemma wp_for_each [wp]:
  "wp (for_each f []) Q w = Q (Inr ()) w"
  "wp (for_each f (x # xs)) Q w = wp (andThen (f x) (\<lambda>_. for_each f xs)) Q w"
  by (simp_all add: wp_primitive)

lemma wp_run_in_tx [wp]:
  "wp (run_in_tx H m) Q w =
     (if in_tx w then wp m Q w
      else wp m (\<lambda>r w'. case r of
             Inl e \<Rightarrow> Q (Inl e) (w'\<lparr>in_tx := False, db := db w\<rparr>)
           | Inr x \<Rightarrow> (case h_commit H (calls w') of
               None \<Rightarrow> Q (Inr x) (w'\<lparr>in_tx := False\<rparr>)
             | Some e \<Rightarrow> Q (Inl e) (w'\<lparr>in_tx := False, db := db w\<rparr>))) (w\<lparr>in_tx := True\<rparr>))"
  by (simp add: wp_def run_in_tx_def tx_current_def db_transaction_def tx_run_def
      split: prod.split sum.split option.split)

text \<open>A loop whose body always succeeds, keeps \<open>I\<close>, and establishes \<open>G\<close> for its element for good.\<close>

lemma for_each_establishes:
  assumes "\<And>x w. x \<in> set xs \<Longrightarrow> I w \<Longrightarrow>
      \<exists>w'. f x w = (Inr (), w') \<and> I w' \<and> G x w' \<and> (\<forall>y. G y w \<longrightarrow> G y w')"
    and "I w"
  shows "\<exists>w'. for_each f xs w = (Inr (), w') \<and> I w' \<and> (\<forall>x\<in>set xs. G x w') \<and> (\<forall>y. G y w \<longrightarrow> G y w')"
  using assms
proof (induction xs arbitrary: w)
  case Nil
  then show ?case by (simp add: svc_run)
next
  case (Cons x xs)
  from Cons.prems obtain w1 where w1: "f x w = (Inr (), w1)" "I w1" "G x w1" "\<forall>y. G y w \<longrightarrow> G y w1"
    by (metis list.set_intros(1))
  from Cons.IH [OF Cons.prems(1) w1(2)] obtain w2 where
    "for_each f xs w1 = (Inr (), w2)" "I w2" "\<forall>x\<in>set xs. G x w2" "\<forall>y. G y w1 \<longrightarrow> G y w2"
    by auto
  with w1 show ?case by (auto simp: andThen_def)
qed

subsection \<open>Methods that keep a property of the database\<close>

definition keeps :: "(database \<Rightarrow> bool) \<Rightarrow> 'a svc \<Rightarrow> bool" where
  "keeps P m \<longleftrightarrow> (\<forall>w. P (db w) \<longrightarrow> P (db (snd (m w))))"

lemma keepsI: "(\<And>w. P (db w) \<Longrightarrow> wp m (\<lambda>_ w'. P (db w')) w) \<Longrightarrow> keeps P m"
  by (simp add: keeps_def wp_snd)

lemma keepsD: "keeps P m \<Longrightarrow> P (db w) \<Longrightarrow> P (db (snd (m w)))"
  by (simp add: keeps_def)

lemma keeps_result: "keeps P m \<Longrightarrow> P (db w) \<Longrightarrow> m w = (r, w') \<Longrightarrow> P (db w')"
  using keepsD [of P m w] by simp

text \<open>A method that keeps a part of the database, used inside a larger one.\<close>

lemma wp_frame:
  assumes "\<And>x. keeps (\<lambda>d. f d = x) m" and "\<And>r w'. f (db w') = f (db w) \<Longrightarrow> Q r w'"
  shows "wp m Q w"
proof -
  obtain r w' where run: "m w = (r, w')" by fastforce
  have "f (db w') = f (db w)" by (rule keeps_result [OF assms(1) refl run])
  then show ?thesis using assms(2) run by (simp add: wp_def)
qed

lemma keeps_statement: "(\<And>d. P d \<Longrightarrow> P (f d)) \<Longrightarrow> keeps P (statement f)"
  by (simp add: keeps_def svc)

lemma keeps_db_same: "(\<And>w. db (snd (m w)) = db w) \<Longrightarrow> keeps P m"
  by (simp add: keeps_def)

named_theorems keeps_intro "methods that keep a property"

lemma keeps_primitive [keeps_intro]:
  "keeps P (ret x)" "keeps P (raise e)" "keeps P (throw c)" "keeps P (query q)"
  "keeps P (draw f)" "keeps P (new_date H)" "keeps P (random_uuid H)" "keeps P (random_int H n)"
  "keeps P (random_bytes H n)" "keeps P (call H g ev)" "keeps P (call_unit H ev)"
  "keeps P (call_text H ev)" "keeps P (emit H ev)" "keeps P (config_or_throw H key)"
  "keeps P (check_unique clash k)" "keeps P (check_fk present k)" "keeps P (require b c)"
  by (simp_all add: keeps_def svc)

lemma keeps_andThen [keeps_intro]:
  assumes "keeps P m" and "\<And>x. keeps P (f x)"
  shows "keeps P (andThen m f)"
proof (unfold keeps_def, intro allI impI)
  fix w :: world assume P: "P (db w)"
  obtain r w' where m: "m w = (r, w')" by fastforce
  with P assms(1) have "P (db w')" by (blast intro: keeps_result)
  with m assms(2) show "P (db (snd (andThen m f w)))"
    by (cases r) (auto simp: andThen_def intro: keepsD)
qed

lemma keeps_catching [keeps_intro]:
  assumes "keeps P m" and "\<And>e. keeps P (h e)"
  shows "keeps P (catching m h)"
proof (unfold keeps_def, intro allI impI)
  fix w :: world assume P: "P (db w)"
  obtain r w' where m: "m w = (r, w')" by fastforce
  with P assms(1) have "P (db w')" by (blast intro: keeps_result)
  with m assms(2) show "P (db (snd (catching m h w)))"
    by (cases r) (auto simp: catching_def intro: keepsD)
qed

lemma keeps_for_each [keeps_intro]:
  "(\<And>x. x \<in> set xs \<Longrightarrow> keeps P (f x)) \<Longrightarrow> keeps P (for_each f xs)"
  by (induction xs) (auto intro!: keeps_andThen keeps_primitive)

lemma keeps_promise_all [keeps_intro]:
  assumes "\<And>m. m \<in> set ms \<Longrightarrow> keeps P m"
  shows "keeps P (promise_all ms)"
proof -
  have "P (db w) \<Longrightarrow> P (db (snd (promise_all ms w)))" for w
    using assms
  proof (induction ms arbitrary: w)
    case (Cons m ms)
    obtain r w1 where m: "m w = (r, w1)" by fastforce
    with Cons.prems have "P (db w1)" by (auto intro: keeps_result [of P m])
    with Cons.IH [of w1] Cons.prems m show ?case by (auto split: prod.split sum.split)
  qed simp
  then show ?thesis by (simp add: keeps_def)
qed

lemma keeps_run_in_tx [keeps_intro]:
  assumes "keeps P m"
  shows "keeps P (run_in_tx H m)"
proof (unfold keeps_def, intro allI impI)
  fix w :: world assume P: "P (db w)"
  obtain r w' where run: "run_in_tx H m w = (r, w')" by fastforce
  show "P (db (snd (run_in_tx H m w)))"
  proof (cases r)
    case (Inr x)
    with run obtain v where v: "m (w\<lparr>in_tx := True\<rparr>) = (Inr x, v)" "db w' = db v"
      by (auto elim: run_in_tx_Inr)
    have "P (db v)" by (rule keeps_result [OF assms _ v(1)]) (simp add: P)
    with run v(2) show ?thesis by simp
  next
    case (Inl e)
    with run obtain r' v where v: "m (w\<lparr>in_tx := True\<rparr>) = (r', v)" "db w' = db w \<or> db w' = db v"
      by (auto elim: run_in_tx_Inl)
    have "P (db v)" by (rule keeps_result [OF assms _ v(1)]) (simp add: P)
    with run v(2) P show ?thesis by auto
  qed
qed

lemma keeps_if [keeps_intro]: "keeps P m \<Longrightarrow> keeps P n \<Longrightarrow> keeps P (if b then m else n)"
  by simp

lemma keeps_case_option [keeps_intro]:
  "keeps P m \<Longrightarrow> (\<And>x. keeps P (f x)) \<Longrightarrow>
     keeps P (case v of None \<Rightarrow> m | Some x \<Rightarrow> f x)"
  by (cases v) auto

lemma keeps_case_sum [keeps_intro]:
  "(\<And>e. keeps P (g e)) \<Longrightarrow> (\<And>x. keeps P (f x)) \<Longrightarrow>
     keeps P (case v of Inl e \<Rightarrow> g e | Inr x \<Rightarrow> f x)"
  by (cases v) auto

lemma keeps_case_prod [keeps_intro]:
  "(\<And>a b. keeps P (f a b)) \<Longrightarrow> keeps P (case v of (a, b) \<Rightarrow> f a b)"
  by (cases v) auto

end
