(* ===== verification/Single_Use.thy ===== *)
theory Single_Use
  imports Main
begin

text \<open>
  The contract that refresh tokens, invitations, backup codes and two-factor challenges
  share: presenting a key may succeed, a success spends it, a spent key is refused, and
  nothing that happens later, another presentation or any other operation of the
  component, makes it usable again. What follows from the contract is proved once here;
  each provider interprets it on its own operations.
\<close>

text \<open>
  A history: requests that present a key (a request may carry more than the key),
  interleaved with other operations of the component.
\<close>

datatype ('u, 'o) event = Use 'u | Other 'o

text \<open>What each presentation of a history returned, and the state at its end.\<close>

fun run_events :: "('u \<Rightarrow> 's \<Rightarrow> ('e + 'a) \<times> 's) \<Rightarrow> ('o \<Rightarrow> 's \<Rightarrow> 's) \<Rightarrow> ('u, 'o) event list \<Rightarrow> 's \<Rightarrow>
    ('u \<times> ('e + 'a)) list \<times> 's" where
  "run_events use other [] s = ([], s)"
| "run_events use other (Use k # es) s =
     (case use k s of (r, s') \<Rightarrow>
       (case run_events use other es s' of (rs, s'') \<Rightarrow> ((k, r) # rs, s'')))"
| "run_events use other (Other a # es) s = run_events use other es (other a s)"

text \<open>How many requests with the key \<open>k\<close> succeeded.\<close>

definition successes :: "('u \<Rightarrow> 'k) \<Rightarrow> 'k \<Rightarrow> ('u \<times> ('e + 'a)) list \<Rightarrow> nat" where
  "successes key k rs = length (filter (\<lambda>(u, r). key u = k \<and> \<not> isl r) rs)"

lemma successes_simps [simp]:
  "successes key k [] = 0"
  "successes key k ((u, r) # rs) =
     (if key u = k \<and> \<not> isl r then Suc (successes key k rs) else successes key k rs)"
  by (simp_all add: successes_def)

locale single_use =
  fixes inv :: "'s \<Rightarrow> bool"
    and key :: "'u \<Rightarrow> 'k"
    and spent :: "'k \<Rightarrow> 's \<Rightarrow> bool"
    and use :: "'u \<Rightarrow> 's \<Rightarrow> ('e + 'a) \<times> 's"
    and other :: "'o \<Rightarrow> 's \<Rightarrow> 's"
  assumes inv_use: "inv s \<Longrightarrow> inv (snd (use u s))"
    and inv_other: "inv s \<Longrightarrow> inv (other a s)"
    and use_spends: "inv s \<Longrightarrow> use u s = (Inr v, s') \<Longrightarrow> spent (key u) s'"
    and spent_refused: "inv s \<Longrightarrow> spent (key u) s \<Longrightarrow> isl (fst (use u s))"
    and spent_use: "inv s \<Longrightarrow> spent k s \<Longrightarrow> spent k (snd (use u s))"
    and spent_other: "inv s \<Longrightarrow> spent k s \<Longrightarrow> spent k (other a s)"
begin

lemma spent_never_succeeds:
  "inv s \<Longrightarrow> spent k s \<Longrightarrow> successes key k (fst (run_events use other es s)) = 0"
proof (induction es arbitrary: s)
  case (Cons e es)
  show ?case
  proof (cases e)
    case (Use u)
    obtain r s' where use: "use u s = (r, s')" by fastforce
    have inv': "inv s'" and sp': "spent k s'"
      using inv_use [OF Cons.prems(1), of u] spent_use [OF Cons.prems, of u] use by auto
    have "key u = k \<Longrightarrow> isl r" using spent_refused [OF Cons.prems(1), of u] Cons.prems(2) use by auto
    with Cons.IH [OF inv' sp'] use Use show ?thesis by (auto split: prod.splits)
  next
    case (Other a)
    with Cons.IH [OF inv_other [OF Cons.prems(1)] spent_other [OF Cons.prems]] show ?thesis by simp
  qed
qed simp

theorem at_most_once: "inv s \<Longrightarrow> successes key k (fst (run_events use other es s)) \<le> 1"
proof (induction es arbitrary: s)
  case (Cons e es)
  show ?case
  proof (cases e)
    case (Other a)
    with Cons.IH [OF inv_other [OF Cons.prems]] show ?thesis by simp
  next
    case (Use u)
    obtain r s' where use: "use u s = (r, s')" by fastforce
    have inv': "inv s'" using inv_use [OF Cons.prems, of u] use by auto
    show ?thesis
    proof (cases "key u = k \<and> \<not> isl r")
      case True
      then obtain v where "use u s = (Inr v, s')" using use by (cases r) auto
      then have "spent (key u) s'" by (rule use_spends [OF Cons.prems])
      then have "spent k s'" using True by simp
      then have "successes key k (fst (run_events use other es s')) = 0"
        by (rule spent_never_succeeds [OF inv'])
      with use Use show ?thesis by (auto split: prod.splits)
    next
      case False
      with Cons.IH [OF inv'] use Use show ?thesis by (auto split: prod.splits)
    qed
  qed
qed simp

lemma inv_run: "inv s \<Longrightarrow> inv (snd (run_events use other es s))"
proof (induction es arbitrary: s)
  case (Cons e es)
  show ?case
  proof (cases e)
    case (Other a)
    with Cons.IH [OF inv_other [OF Cons.prems]] show ?thesis by simp
  next
    case (Use u)
    with Cons.IH [OF inv_use [OF Cons.prems, of u]] show ?thesis by (auto split: prod.splits)
  qed
qed simp

end

text \<open>
  The contract of a component with an invariant: every operation keeps it, so every history
  of operations does. Operations that leave a part of the state alone leave it alone over
  any history of them.
\<close>

locale history =
  fixes step :: "'o \<Rightarrow> 's \<Rightarrow> 's"
    and inv :: "'s \<Rightarrow> bool"
  assumes step_inv: "inv s \<Longrightarrow> inv (step a s)"
begin

lemma run_inv: "inv s \<Longrightarrow> inv (fold step ops s)"
  by (induction ops arbitrary: s) (simp_all add: step_inv)

end

locale history_frame = history +
  fixes quiet :: "'a \<Rightarrow> bool"
    and part :: "'b \<Rightarrow> 'c"
  assumes step_part: "inv s \<Longrightarrow> quiet a \<Longrightarrow> part (step a s) = part s"
begin

lemma run_part: "inv s \<Longrightarrow> \<forall>a\<in>set ops. quiet a \<Longrightarrow> part (fold step ops s) = part s"
  by (induction ops arbitrary: s) (simp_all add: step_inv step_part)

end

text \<open>
  A component that reacts to events with outputs. What an event owes and the state holds
  back is what the outputs pay and the next state holds back: then the books balance over
  any run, and so do those of a quantity that depends on the states in between.
\<close>

locale event_run =
  fixes step :: "'e \<Rightarrow> 's \<Rightarrow> 's \<times> 'o list"
    and run :: "'e list \<Rightarrow> 's \<Rightarrow> 's \<times> 'o list"
    and inv :: "'s \<Rightarrow> bool"
  assumes run_Nil: "run [] s = (s, [])"
    and run_Cons: "run (e # es) s = (case step e s of (s', out) \<Rightarrow> (case run es s' of (s'', out') \<Rightarrow> (s'', out @ out')))"
    and step_inv: "inv s \<Longrightarrow> inv (fst (step e s))"
begin

lemma run_parts:
  "fst (run (e # es) s) = fst (run es (fst (step e s)))"
  "snd (run (e # es) s) = snd (step e s) @ snd (run es (fst (step e s)))"
  by (simp_all add: run_Cons case_prod_beta)

lemma run_inv: "inv s \<Longrightarrow> inv (fst (run es s))"
  by (induction es arbitrary: s) (simp_all add: run_Nil run_parts step_inv)

lemma run_accounts:
  fixes owed :: "'e \<Rightarrow> 'm::comm_monoid_add"
  assumes "\<And>e s. inv s \<Longrightarrow> owed e + held s = sum_list (map paid (snd (step e s))) + held (fst (step e s))"
  shows "inv s \<Longrightarrow> sum_list (map owed es) + held s = sum_list (map paid (snd (run es s))) + held (fst (run es s))"
proof (induction es arbitrary: s)
  case (Cons e es)
  have "sum_list (map owed (e # es)) + held s = sum_list (map owed es) + (owed e + held s)" by (simp add: ac_simps)
  also have "\<dots> = sum_list (map paid (snd (step e s))) + (sum_list (map owed es) + held (fst (step e s)))"
    using arg_cong [OF assms [OF Cons.prems, of e], of "\<lambda>x. sum_list (map owed es) + x"] by (simp add: ac_simps)
  also note Cons.IH [OF step_inv [OF Cons.prems]]
  finally show ?case by (simp add: run_parts ac_simps)
qed (simp add: run_Nil)

lemma run_counts:
  fixes tally :: "'o list \<Rightarrow> nat"
  assumes "tally [] = 0" and "\<And>out out'. tally (out @ out') = tally out + tally out'"
    and "\<And>s. ones [] s = 0" and "\<And>e es s. ones (e # es) s = one e s + ones es (fst (step e s))"
    and "\<And>e s. inv s \<Longrightarrow> tally (snd (step e s)) + held s = one e s + held (fst (step e s))"
  shows "inv s \<Longrightarrow> tally (snd (run es s)) + held s = ones es s + held (fst (run es s))"
proof (induction es arbitrary: s)
  case (Cons e es)
  from Cons.IH [OF step_inv [OF Cons.prems], of e] assms(5) [OF Cons.prems, of e] show ?case
    by (simp add: run_parts assms(2,4))
qed (simp add: run_Nil assms)

end

end
