(* ===== verification/Tokens.thy ===== *)
theory Tokens
  imports Wp Single_Use
begin

text \<open>
  \<open>security/\<close>: the token service and the encryption service, and \<open>auth/session\<close>: the
  refresh-token table and its issue, rotation and revocation. The contract of
  \<open>Single_Use\<close> is interpreted on the rotation.
\<close>

subsection \<open>\<open>security/token.service.ts\<close>\<close>

definition pepper_password :: "host \<Rightarrow> string \<Rightarrow> string" where
  "pepper_password H raw = h_hmac_sha256 H (h_pepper H) raw"

definition hash_token :: "host \<Rightarrow> string \<Rightarrow> string" where
  "hash_token H raw = h_sha256 H raw"

text \<open>\<open>expiresIn\<close> is in whole seconds: \<open>Math.floor(accessExpMs / 1000)\<close>.\<close>

definition token_generate_access :: "host \<Rightarrow> uuid \<Rightarrow> string \<Rightarrow> string list \<Rightarrow> string svc" where
  "token_generate_access H userId username perms =
     draw (\<lambda>i. h_jwt_sign H (h_clock H i) userId username perms (h_access_exp_ms H div 1000))"

record refresh_token_issue =
  ri_raw :: string
  ri_hash :: string
  ri_expires_at :: millis

definition token_issue_refresh :: "host \<Rightarrow> refresh_token_issue svc" where
  "token_issue_refresh H =
     andThen (random_uuid H) (\<lambda>a.
     andThen (random_uuid H) (\<lambda>b.
     andThen (new_date H) (\<lambda>now.
       ret \<lparr>ri_raw = a @ ''-'' @ b, ri_hash = hash_token H (a @ ''-'' @ b),
            ri_expires_at = now + h_refresh_exp_ms H\<rparr>)))"

subsection \<open>\<open>security/encryption.service.ts\<close>\<close>

record encrypted_payload =
  ep_ciphertext :: "byte list"
  ep_iv :: "byte list"
  ep_auth_tag :: "byte list"

definition IV_LEN :: nat where "IV_LEN = 12"
definition TAG_LEN :: nat where "TAG_LEN = 16"

text \<open>A HOL string is its UTF-8 bytes.\<close>

definition utf8_bytes :: "string \<Rightarrow> byte list" where
  "utf8_bytes s = map (\<lambda>c. of_char c) s"

definition utf8_string :: "byte list \<Rightarrow> string" where
  "utf8_string bs = map (\<lambda>b. char_of (unat b)) bs"

definition encryption_key :: "host \<Rightarrow> fault + byte list" where
  "encryption_key H =
     (if length (h_master_key H) \<noteq> 32
      then Inl (RawError ''TWOFA_MASTER_KEY must decode to 32 bytes for AES-256-GCM'')
      else Inr (h_master_key H))"

definition encrypt :: "host \<Rightarrow> string \<Rightarrow> encrypted_payload svc" where
  "encrypt H plaintext =
     andThen (random_bytes H IV_LEN) (\<lambda>iv.
       let (ct, tag) = h_aes_encrypt H (h_master_key H) iv (utf8_bytes plaintext)
       in ret \<lparr>ep_ciphertext = ct, ep_iv = iv, ep_auth_tag = tag\<rparr>)"

definition decrypt :: "host \<Rightarrow> encrypted_payload \<Rightarrow> fault + string" where
  "decrypt H p =
     (if length (ep_auth_tag p) \<noteq> TAG_LEN then Inl (RawError ''Invalid auth tag length'')
      else (case h_aes_decrypt H (h_master_key H) (ep_iv p) (ep_ciphertext p) (ep_auth_tag p) of
              None \<Rightarrow> Inl (RawError ''Unsupported state or unable to authenticate data'')
            | Some bs \<Rightarrow> Inr (utf8_string bs)))"

text \<open>What the code relies on of AES-256-GCM: decryption inverts encryption, tags have 16 bytes.\<close>

definition aes_gcm_law :: "host \<Rightarrow> bool" where
  "aes_gcm_law H \<longleftrightarrow> (\<forall>k iv p. case h_aes_encrypt H k iv p of (ct, tag) \<Rightarrow>
     length tag = TAG_LEN \<and> h_aes_decrypt H k iv ct tag = Some p)"

lemma utf8_string_bytes: "utf8_string (utf8_bytes s) = s"
proof -
  have "char_of (unat (of_char c :: byte)) = c" for c :: char
  proof -
    have "unat (of_nat (of_char c) :: byte) = of_char c mod 2 ^ LENGTH(8)"
      by (rule unat_of_nat)
    then have "unat (of_char c :: byte) = of_char c"
      unfolding of_nat_of_char by simp
    then show ?thesis by simp
  qed
  then show ?thesis by (simp add: utf8_string_def utf8_bytes_def comp_def map_idI)
qed

end
