(* ===== verification/Demo.thy ===== *)
theory Demo
  imports Tokens
begin

text \<open>
  A concrete host, on which the hypotheses of the properties are shown to hold
  together: a clock that ticks with each draw, identifiers of growing length,
  transparent cryptography, and services that always answer.
\<close>

definition demo_host :: host where
  "demo_host = \<lparr>
     h_clock = int,
     h_uuid = (\<lambda>n. replicate (Suc n) CHR ''u''),
     h_random_int = (\<lambda>i n. i mod n),
     h_random_bytes = (\<lambda>i n. replicate n (of_nat i)),
     h_hmac_sha256 = (\<lambda>k s. s),
     h_sha256 = (\<lambda>s. s),
     h_bcrypt_hash = (\<lambda>i s n. s),
     h_bcrypt_compare = (\<lambda>s h. s = h),
     h_jwt_sign = (\<lambda>t u n ps e. u),
     h_otp_secret = (\<lambda>i. replicate (Suc i) CHR ''S''),
     h_otp_uri = (\<lambda>i l s. s),
     h_otp_valid = (\<lambda>t c s. c = s),
     h_aes_encrypt = (\<lambda>k iv p. (p, replicate 16 0)),
     h_aes_decrypt = (\<lambda>k iv c t. Some c),
     h_mime_extension = (\<lambda>m. if m = ''image/png'' then Some ''png'' else None),
     h_config = (\<lambda>k. Some ''v''),
     h_access_exp_ms = 900000,
     h_refresh_exp_ms = 1000000,
     h_pepper = ''p'',
     h_master_key = replicate 32 0,
     h_cache_get = (\<lambda>cs t k. Inr None),
     h_unit = (\<lambda>cs t e. Inr ()),
     h_text = (\<lambda>cs t e. Inr ''text''),
     h_stat = (\<lambda>cs t k. Inr 10),
     h_agent = (\<lambda>cs t m. Inr \<lparr>ag_status = 200, ag_error_code = None, ag_data = NoData\<rparr>),
     h_commit = (\<lambda>cs. None)\<rparr>"

lemma demo_host_simps [simp]:
  "h_clock demo_host n = int n" "h_uuid demo_host n = replicate (Suc n) CHR ''u''"
  "h_random_int demo_host n k = n mod k" "h_random_bytes demo_host n k = replicate k (of_nat n)"
  "h_hmac_sha256 demo_host s t = t" "h_sha256 demo_host s = s" "h_bcrypt_hash demo_host n s k = s"
  "h_bcrypt_compare demo_host s t = (s = t)" "h_jwt_sign demo_host m s t ss i = s"
  "h_otp_secret demo_host n = replicate (Suc n) CHR ''S''" "h_otp_uri demo_host s t r = r"
  "h_otp_valid demo_host m s t = (s = t)" "h_aes_encrypt demo_host b b' p = (p, replicate 16 0)"
  "h_mime_extension demo_host mime = (if mime = ''image/png'' then Some ''png'' else None)"
  "h_aes_decrypt demo_host b b' c t' = Some c" "h_config demo_host s = Some ''v''"
  "h_access_exp_ms demo_host = 900000" "h_refresh_exp_ms demo_host = 1000000"
  "h_pepper demo_host = ''p''" "h_master_key demo_host = replicate 32 0"
  "h_cache_get demo_host cs m s = Inr None" "h_unit demo_host cs m e = Inr ()"
  "h_text demo_host cs m e = Inr ''text''" "h_stat demo_host cs m s = Inr 10"
  "h_agent demo_host cs m a = Inr \<lparr>ag_status = 200, ag_error_code = None, ag_data = NoData\<rparr>"
  "h_commit demo_host cs = None"
  by (simp_all add: demo_host_def)

definition demo_world :: "database \<Rightarrow> world" where
  "demo_world d = \<lparr>db = d, calls = [], draws = 0, in_tx = False\<rparr>"

lemma demo_world_simps [simp]:
  "db (demo_world d) = d" "calls (demo_world d) = []" "draws (demo_world d) = 0"
  "in_tx (demo_world d) = False"
  by (simp_all add: demo_world_def)

lemma empty_db_simps [simp]:
  "users empty_db = []" "roles empty_db = []" "permissions empty_db = []"
  "role_permissions empty_db = []" "user_roles empty_db = []" "refresh_tokens empty_db = []"
  "devices empty_db = []" "trusted_devices empty_db = []" "invitations empty_db = []"
  "backup_codes empty_db = []" "two_fa_challenges empty_db = []" "two_fa_totp empty_db = []"
  "folders empty_db = []" "files empty_db = []" "upload_sessions empty_db = []"
  "drives empty_db = []" "mount_credentials empty_db = []"
  by (simp_all add: empty_db_def)

definition demo_user :: user_row where
  "demo_user = \<lparr>u_id = ''ada'', u_username = ''ada'', u_nickname = ''Ada'', u_email = None,
     u_password = ''pw'', u_active = True, u_created_at = 0, u_updated_at = 0\<rparr>"

end
