(* ===== verification/Sessions.thy ===== *)
theory Sessions
  imports Demo
begin

text \<open>
  \<open>auth/session\<close>: the refresh-token table, its issue, rotation and revocation. A rotation
  is one transaction: it looks the active row up by hash, revokes it and issues a new
  one. The contract of \<open>Single_Use\<close> is interpreted on the rotation.
\<close>

subsection \<open>\<open>session.repository.ts\<close>\<close>

definition session_find_active_by_hash :: "string \<Rightarrow> millis \<Rightarrow> refresh_token_row option svc" where
  "session_find_active_by_hash tokenHash now =
     query (\<lambda>d. find (\<lambda>r. rt_token_hash r = tokenHash \<and> rt_revoked_at r = None \<and> now < rt_expires_at r)
       (refresh_tokens d))"

definition session_repo_insert :: "host \<Rightarrow> uuid \<Rightarrow> string \<Rightarrow> millis \<Rightarrow> unit svc" where
  "session_repo_insert H userId tokenHash expiresAt =
     andThen (random_uuid H) (\<lambda>id.
     andThen (check_unique (\<lambda>d. id \<in> rt_id ` set (refresh_tokens d)) ''refresh_tokens_pkey'') (\<lambda>_.
     andThen (check_fk (user_exists userId) ''refresh_tokens_user_id_users_id_fk'') (\<lambda>_.
       statement (\<lambda>d. d\<lparr>refresh_tokens := refresh_tokens d @
         [\<lparr>rt_id = id, rt_user_id = userId, rt_token_hash = tokenHash, rt_device_id = None,
           rt_expires_at = expiresAt, rt_revoked_at = None\<rparr>]\<rparr>))))"

definition session_revoke_by_id :: "uuid \<Rightarrow> millis \<Rightarrow> unit svc" where
  "session_revoke_by_id tid revokedAt =
     statement (\<lambda>d. d\<lparr>refresh_tokens :=
       update_where (\<lambda>r. rt_id r = tid) (\<lambda>r. r\<lparr>rt_revoked_at := Some revokedAt\<rparr>) (refresh_tokens d)\<rparr>)"

subsection \<open>\<open>session.service.ts\<close>\<close>

record issued_refresh_token =
  irt_raw :: string
  irt_exp_ms :: int

definition session_issue_for_user :: "host \<Rightarrow> uuid \<Rightarrow> issued_refresh_token svc" where
  "session_issue_for_user H userId =
     andThen (token_issue_refresh H) (\<lambda>t.
     andThen (session_repo_insert H userId (ri_hash t) (ri_expires_at t)) (\<lambda>_.
       ret \<lparr>irt_raw = ri_raw t, irt_exp_ms = h_refresh_exp_ms H\<rparr>))"

definition session_rotate :: "host \<Rightarrow> string \<Rightarrow> (uuid \<times> issued_refresh_token) svc" where
  "session_rotate H raw = run_in_tx H
     (andThen (new_date H) (\<lambda>now.
      andThen (session_find_active_by_hash (hash_token H raw) now) (\<lambda>matched.
        case matched of
          None \<Rightarrow> throw REFRESH_TOKEN_INVALID
        | Some m \<Rightarrow>
            andThen (session_revoke_by_id (rt_id m) now) (\<lambda>_.
            andThen (session_issue_for_user H (rt_user_id m)) (\<lambda>issued.
              ret (rt_user_id m, issued))))))"

definition session_revoke_by_raw_token :: "host \<Rightarrow> string \<Rightarrow> uuid option svc" where
  "session_revoke_by_raw_token H raw =
     andThen (new_date H) (\<lambda>now.
     andThen (session_find_active_by_hash (hash_token H raw) now) (\<lambda>matched.
       case matched of
         Some m \<Rightarrow> andThen (session_revoke_by_id (rt_id m) now) (\<lambda>_. ret (Some (rt_user_id m)))
       | None \<Rightarrow> ret None))"

lemmas session_defs = session_find_active_by_hash_def session_repo_insert_def
  session_revoke_by_id_def session_issue_for_user_def token_issue_refresh_def

subsection \<open>What the operations do to the table\<close>

text \<open>The active row the lookup finds, and the hash of the token issued at a draw.\<close>

definition active_session :: "string \<Rightarrow> millis \<Rightarrow> refresh_token_row list \<Rightarrow> refresh_token_row option" where
  "active_session h now ts =
     find (\<lambda>r. rt_token_hash r = h \<and> rt_revoked_at r = None \<and> now < rt_expires_at r) ts"

definition issued_raw :: "host \<Rightarrow> nat \<Rightarrow> string" where
  "issued_raw H i = h_uuid H i @ ''-'' @ h_uuid H (Suc i)"

definition issued_hash :: "host \<Rightarrow> nat \<Rightarrow> string" where
  "issued_hash H i = hash_token H (issued_raw H i)"

definition revoke_row :: "uuid \<Rightarrow> millis \<Rightarrow> refresh_token_row list \<Rightarrow> refresh_token_row list" where
  "revoke_row i now ts = update_where (\<lambda>r. rt_id r = i) (\<lambda>r. r\<lparr>rt_revoked_at := Some now\<rparr>) ts"

definition new_session_row :: "host \<Rightarrow> uuid \<Rightarrow> nat \<Rightarrow> refresh_token_row" where
  "new_session_row H u i =
     \<lparr>rt_id = h_uuid H (i + 3), rt_user_id = u, rt_token_hash = issued_hash H i, rt_device_id = None,
      rt_expires_at = h_clock H (i + 2) + h_refresh_exp_ms H, rt_revoked_at = None\<rparr>"

lemma session_issue_Inr:
  "session_issue_for_user H u w = (Inr t, w') \<Longrightarrow>
     t = \<lparr>irt_raw = issued_raw H (draws w), irt_exp_ms = h_refresh_exp_ms H\<rparr> \<and>
     w' = w\<lparr>draws := draws w + 4,
            db := (db w)\<lparr>refresh_tokens := refresh_tokens (db w) @ [new_session_row H u (draws w)]\<rparr>\<rparr> \<and>
     h_uuid H (draws w + 3) \<notin> rt_id ` set (refresh_tokens (db w)) \<and> user_exists u (db w)"
  by (auto simp: session_defs svc svc_elim new_session_row_def issued_hash_def issued_raw_def
      eval_nat_numeral split: if_splits)

lemma session_issue_Inl:
  "session_issue_for_user H u w = (Inl e, w') \<Longrightarrow> w' = w\<lparr>draws := draws w + 4\<rparr>"
  by (auto simp: session_defs svc svc_elim eval_nat_numeral split: if_splits)

lemma user_exists_refresh_tokens [simp]:
  "user_exists u (d\<lparr>refresh_tokens := x\<rparr>) = user_exists u d"
  by (simp add: user_exists_def)

text \<open>What a rotation does, for either outcome.\<close>

definition rotate_effect :: "host \<Rightarrow> string \<Rightarrow> world \<Rightarrow> fault + uuid \<times> issued_refresh_token \<Rightarrow> world \<Rightarrow> bool" where
  "rotate_effect H raw w r w' \<longleftrightarrow>
     (let now = h_clock H (draws w); ts = refresh_tokens (db w); n = draws w in
      case r of
        Inr (u, t) \<Rightarrow> (\<exists>m. active_session (hash_token H raw) now ts = Some m \<and> u = rt_user_id m \<and>
          t = \<lparr>irt_raw = issued_raw H (n + 1), irt_exp_ms = h_refresh_exp_ms H\<rparr> \<and>
          draws w' = n + 5 \<and> calls w' = calls w \<and>
          db w' = (db w)\<lparr>refresh_tokens := revoke_row (rt_id m) now ts @ [new_session_row H u (n + 1)]\<rparr> \<and>
          h_uuid H (n + 4) \<notin> rt_id ` set ts \<and> user_exists u (db w))
      | Inl e \<Rightarrow> n \<le> draws w' \<and> (db w' = db w \<or>
          in_tx w \<and> (\<exists>i t. db w' = (db w)\<lparr>refresh_tokens := revoke_row i t ts\<rparr>)))"

lemma rotate_effect: "session_rotate H raw w = (r, w') \<Longrightarrow> rotate_effect H raw w r w'"
  by (erule wp_use)
    (auto simp: wp session_rotate_def session_defs rotate_effect_def revoke_row_def
      active_session_def new_session_row_def issued_hash_def issued_raw_def image_update_where
      eval_nat_numeral Let_def split: option.splits)

lemma session_rotate_Inr:
  "session_rotate H raw w = (Inr (u, t), w') \<Longrightarrow> \<exists>m.
     active_session (hash_token H raw) (h_clock H (draws w)) (refresh_tokens (db w)) = Some m \<and>
     draws w' = draws w + 5 \<and>
     refresh_tokens (db w') =
       revoke_row (rt_id m) (h_clock H (draws w)) (refresh_tokens (db w)) @ [new_session_row H u (draws w + 1)] \<and>
     h_uuid H (draws w + 4) \<notin> rt_id ` set (refresh_tokens (db w))"
  by (drule rotate_effect) (auto simp: rotate_effect_def Let_def)

lemma session_rotate_None:
  "active_session (hash_token H raw) (h_clock H (draws w)) (refresh_tokens (db w)) = None \<Longrightarrow>
     session_rotate H raw w = (Inl (ApiException REFRESH_TOKEN_INVALID), w\<lparr>draws := Suc (draws w)\<rparr>)"
  by (cases w) (simp add: session_rotate_def run_in_tx_def tx_current_def db_transaction_def tx_run_def
      andThen_def svc session_find_active_by_hash_def active_session_def)

subsection \<open>The contract of a single-use token\<close>

datatype session_op = IssueSession uuid | RevokeSession string

definition session_other :: "host \<Rightarrow> session_op \<Rightarrow> world \<Rightarrow> world" where
  "session_other H a w =
     (case a of IssueSession u \<Rightarrow> snd (session_issue_for_user H u w)
      | RevokeSession raw \<Rightarrow> snd (session_revoke_by_raw_token H raw w))"

text \<open>
  The tokens the host's generator will still issue are not in the table; what the
  schema's primary key and the randomness of UUIDs and SHA-256 give.
\<close>

definition session_inv :: "host \<Rightarrow> world \<Rightarrow> bool" where
  "session_inv H w \<longleftrightarrow> inj (issued_hash H) \<and>
     distinct (map rt_id (refresh_tokens (db w))) \<and>
     distinct (map rt_token_hash (refresh_tokens (db w))) \<and>
     (\<forall>i\<ge>draws w. issued_hash H i \<notin> rt_token_hash ` set (refresh_tokens (db w)))"

definition session_spent :: "host \<Rightarrow> string \<Rightarrow> world \<Rightarrow> bool" where
  "session_spent H raw w \<longleftrightarrow>
     (\<exists>r\<in>set (refresh_tokens (db w)). rt_token_hash r = hash_token H raw \<and> rt_revoked_at r \<noteq> None)"

lemma revoke_row_keys [simp]:
  "map rt_id (revoke_row i t ts) = map rt_id ts"
  "map rt_token_hash (revoke_row i t ts) = map rt_token_hash ts"
  "rt_id ` set (revoke_row i t ts) = rt_id ` set ts"
  "rt_token_hash ` set (revoke_row i t ts) = rt_token_hash ` set ts"
  by (simp_all add: revoke_row_def map_update_where image_update_where)

lemma revoke_row_spent:
  "\<exists>r\<in>set ts. rt_token_hash r = h \<and> rt_revoked_at r \<noteq> None \<Longrightarrow>
     \<exists>r\<in>set (revoke_row i t ts). rt_token_hash r = h \<and> rt_revoked_at r \<noteq> None"
  unfolding revoke_row_def set_update_where
  by (erule bexE, rule_tac x = "if rt_id r = i then r\<lparr>rt_revoked_at := Some t\<rparr> else r" in bexI) auto

lemma session_inv_revoke:
  "session_inv H w \<Longrightarrow> draws w \<le> draws w' \<Longrightarrow>
     refresh_tokens (db w') = revoke_row i t (refresh_tokens (db w)) \<Longrightarrow> session_inv H w'"
  by (simp add: session_inv_def)

lemma session_inv_same:
  "session_inv H w \<Longrightarrow> draws w \<le> draws w' \<Longrightarrow>
     refresh_tokens (db w') = refresh_tokens (db w) \<Longrightarrow> session_inv H w'"
  by (simp add: session_inv_def)

lemma session_inv_append:
  assumes "session_inv H w" and "draws w \<le> k" and "k < draws w'"
    and "refresh_tokens (db w') = refresh_tokens (db w) @ [new_session_row H u k]"
    and "h_uuid H (k + 3) \<notin> rt_id ` set (refresh_tokens (db w))"
  shows "session_inv H w'"
  using assms by (auto simp: session_inv_def new_session_row_def inj_eq)

lemma session_spent_mono:
  "session_spent H raw w \<Longrightarrow> refresh_tokens (db w') = revoke_row i t (refresh_tokens (db w)) @ rs \<Longrightarrow>
     session_spent H raw w'"
  unfolding session_spent_def using revoke_row_spent [of "refresh_tokens (db w)"]
  by (metis (no_types, lifting) UnCI set_append)

lemma session_spent_append:
  "session_spent H raw w \<Longrightarrow> refresh_tokens (db w') = refresh_tokens (db w) @ rs \<Longrightarrow>
     session_spent H raw w'"
  unfolding session_spent_def by (metis UnCI set_append)

lemma session_rotate_keeps:
  assumes "session_inv H w" and "session_rotate H raw w = (r, w')"
  shows "session_inv H w'"
proof (cases r)
  case (Inl e)
  with rotate_effect [OF assms(2)] show ?thesis
    by (auto simp: rotate_effect_def intro: session_inv_same session_inv_revoke assms(1))
next
  case (Inr p)
  let ?now = "h_clock H (draws w)"
  obtain u t where "p = (u, t)" by fastforce
  with assms(2) Inr have run: "session_rotate H raw w = (Inr (u, t), w')" by simp
  from session_rotate_Inr [OF run] obtain m :: refresh_token_row where m: "draws w' = draws w + 5"
    "refresh_tokens (db w') = revoke_row (rt_id m) ?now (refresh_tokens (db w))
       @ [new_session_row H u (draws w + 1)]"
    "h_uuid H (draws w + 4) \<notin> rt_id ` set (refresh_tokens (db w))"
    by blast
  let ?w1 = "w\<lparr>db := (db w)\<lparr>refresh_tokens := revoke_row (rt_id m) ?now (refresh_tokens (db w))\<rparr>\<rparr>"
  have "session_inv H ?w1" by (rule session_inv_revoke [OF assms(1)]) simp_all
  then show ?thesis
    by (rule session_inv_append [where k = "draws w + 1" and u = u]) (use m in \<open>auto simp: add.commute\<close>)
qed

lemma session_issue_keeps:
  assumes "session_inv H w" and "session_issue_for_user H u w = (r, w')"
  shows "session_inv H w'"
proof (cases r)
  case (Inl e)
  with assms session_issue_Inl show ?thesis by (fastforce intro: session_inv_same)
next
  case (Inr t)
  with assms(2) have "refresh_tokens (db w') = refresh_tokens (db w) @ [new_session_row H u (draws w)]"
    "h_uuid H (draws w + 3) \<notin> rt_id ` set (refresh_tokens (db w))" "draws w < draws w'"
    by (auto dest!: session_issue_Inr)
  then show ?thesis using assms(1) by (auto intro: session_inv_append)
qed

lemma session_revoke_effect:
  "session_revoke_by_raw_token H raw w = (r, w') \<Longrightarrow> draws w \<le> draws w' \<and>
     (refresh_tokens (db w') = refresh_tokens (db w) \<or>
      (\<exists>i t. refresh_tokens (db w') = revoke_row i t (refresh_tokens (db w))))"
  by (erule wp_use) (auto simp: wp session_revoke_by_raw_token_def session_defs revoke_row_def split: option.splits)

lemma session_other_effect:
  "draws w \<le> draws (session_other H a w) \<and>
   (\<exists>rs. refresh_tokens (db (session_other H a w)) = refresh_tokens (db w) @ rs \<or>
      (\<exists>i t. refresh_tokens (db (session_other H a w)) = revoke_row i t (refresh_tokens (db w))))"
proof (cases a)
  case (IssueSession u)
  then show ?thesis
    by (cases "session_issue_for_user H u w"; cases "fst (session_issue_for_user H u w)")
      (auto simp: session_other_def dest!: session_issue_Inl session_issue_Inr)
next
  case (RevokeSession raw)
  then show ?thesis
    using session_revoke_effect [of H raw w]
    by (cases "session_revoke_by_raw_token H raw w") (force simp: session_other_def)
qed

lemma session_other_keeps:
  assumes "session_inv H w"
  shows "session_inv H (session_other H a w)"
proof (cases a)
  case (IssueSession u)
  then show ?thesis
    using session_issue_keeps [OF assms] by (simp add: session_other_def) (metis surjective_pairing)
next
  case (RevokeSession raw)
  then show ?thesis
    using assms session_revoke_effect [of H raw w]
    by (cases "session_revoke_by_raw_token H raw w")
      (auto simp: session_other_def intro: session_inv_same session_inv_revoke)
qed

lemma session_spent_rotate:
  assumes "session_spent H raw w" and "session_rotate H raw' w = (r, w')"
  shows "session_spent H raw w'"
proof (cases r)
  case (Inl e)
  with rotate_effect [OF assms(2)] assms(1) show ?thesis
    by (auto simp: rotate_effect_def Let_def intro: session_spent_mono [where rs = "[]"]
        session_spent_append [where rs = "[]"])
next
  case (Inr p)
  with rotate_effect [OF assms(2)] assms(1) show ?thesis
    by (cases p) (auto simp: rotate_effect_def Let_def intro: session_spent_mono)
qed

lemma session_spent_other:
  assumes "session_spent H raw w"
  shows "session_spent H raw (session_other H a w)"
  using session_other_effect [of w H a] assms session_spent_mono [where rs = "[]"] session_spent_append
  by (metis append_Nil2)

lemma session_rotate_spends:
  assumes "session_rotate H raw w = (Inr p, w')"
  shows "session_spent H raw w'"
proof -
  obtain u t where "p = (u, t)" by fastforce
  with session_rotate_Inr assms obtain m rs where
    m: "active_session (hash_token H raw) (h_clock H (draws w)) (refresh_tokens (db w)) = Some m"
    and w': "refresh_tokens (db w') =
      revoke_row (rt_id m) (h_clock H (draws w)) (refresh_tokens (db w)) @ rs"
    by blast
  from m have "m \<in> set (refresh_tokens (db w))" "rt_token_hash m = hash_token H raw"
    unfolding active_session_def using find_Some_set by fastforce+
  then show ?thesis
    unfolding session_spent_def w' revoke_row_def
    by (intro bexI [of _ "m\<lparr>rt_revoked_at := Some (h_clock H (draws w))\<rparr>"])
      (auto simp: set_update_where intro!: image_eqI [of _ _ m])
qed

lemma session_spent_refused:
  assumes "session_inv H w" and "session_spent H raw w"
  shows "isl (fst (session_rotate H raw w))"
proof -
  from assms(2) obtain r where r: "r \<in> set (refresh_tokens (db w))"
    "rt_token_hash r = hash_token H raw" "rt_revoked_at r \<noteq> None"
    by (auto simp: session_spent_def)
  have "active_session (hash_token H raw) (h_clock H (draws w)) (refresh_tokens (db w)) = None"
    unfolding active_session_def find_None_set
    using assms(1) r key_unique [of rt_token_hash "refresh_tokens (db w)" r]
    by (metis session_inv_def)
  then show ?thesis by (simp add: session_rotate_None)
qed

interpretation session: single_use "session_inv H" "\<lambda>raw. raw" "session_spent H" "session_rotate H" "session_other H"
  for H
proof (unfold_locales, goal_cases)
  case (1 w raw)
  then show ?case by (metis session_rotate_keeps surjective_pairing)
next
  case (2 w a)
  then show ?case by (rule session_other_keeps)
next
  case (3 w raw p w')
  then show ?case by (blast intro: session_rotate_spends)
next
  case (4 w raw)
  then show ?case by (rule session_spent_refused)
next
  case (5 w raw raw')
  then show ?case by (metis session_spent_rotate surjective_pairing)
next
  case (6 w raw a)
  then show ?case by (blast intro: session_spent_other)
qed

subsection \<open>Properties\<close>

text \<open>
  C1: A refresh token is accepted by \<open>SessionService.rotate\<close> at most once, whatever other
  rotations, logins and logouts come before, between and after.
\<close>

theorem rotate_at_most_once:
  "session_inv H w \<Longrightarrow>
     successes (\<lambda>r. r) raw (fst (run_events (session_rotate H) (session_other H) es w)) \<le> 1"
  by (rule session.at_most_once)

definition demo_sessions :: database where
  "demo_sessions = empty_db\<lparr>users := [demo_user], refresh_tokens :=
     [\<lparr>rt_id = ''row'', rt_user_id = ''ada'', rt_token_hash = ''token'', rt_device_id = None,
       rt_expires_at = 100, rt_revoked_at = None\<rparr>]\<rparr>"

lemma inj_issued_hash_demo: "inj (issued_hash demo_host)"
proof (rule injI)
  fix i j assume "issued_hash demo_host i = issued_hash demo_host j"
  then have "length (issued_hash demo_host i) = length (issued_hash demo_host j)" by simp
  then show "i = j" by (simp add: issued_hash_def issued_raw_def hash_token_def)
qed

lemma session_inv_demo: "session_inv demo_host (demo_world demo_sessions)"
  by (simp add: session_inv_def inj_issued_hash_demo demo_sessions_def issued_hash_def
      issued_raw_def hash_token_def)

theorem rotate_at_most_once_witness:
  "successes (\<lambda>r. r) ''token'' (fst (run_events (session_rotate demo_host) (session_other demo_host)
     [Use ''token'', Other (IssueSession ''ada''), Use ''token''] (demo_world demo_sessions))) \<le> 1"
  by (rule rotate_at_most_once [OF session_inv_demo])

lemma session_rotate_run:
  assumes "\<not> in_tx w" and "h_commit H (calls w) = None"
    and "\<forall>r\<in>set (refresh_tokens (db w)). user_exists (rt_user_id r) (db w)"
    and "h_uuid H (draws w + 4) \<notin> rt_id ` set (refresh_tokens (db w))"
  shows "session_rotate H raw w =
    (let now = h_clock H (draws w); ts = refresh_tokens (db w); n = draws w in
     case active_session (hash_token H raw) now ts of
       None \<Rightarrow> (Inl (ApiException REFRESH_TOKEN_INVALID), w\<lparr>draws := n + 1\<rparr>)
     | Some m \<Rightarrow>
         (Inr (rt_user_id m, \<lparr>irt_raw = issued_raw H (n + 1), irt_exp_ms = h_refresh_exp_ms H\<rparr>),
          w\<lparr>draws := n + 5, db := (db w)\<lparr>refresh_tokens :=
            revoke_row (rt_id m) now ts @ [new_session_row H (rt_user_id m) (n + 1)]\<rparr>\<rparr>))"
proof (cases "active_session (hash_token H raw) (h_clock H (draws w)) (refresh_tokens (db w))")
  case None
  then show ?thesis by (simp add: session_rotate_None)
next
  case (Some m)
  have "m \<in> set (refresh_tokens (db w))"
    using Some find_Some_set unfolding active_session_def by fastforce
  then have "user_exists (rt_user_id m) (db w)" using assms(3) by blast
  with Some assms(1,2,4) show ?thesis
    by (cases w) (simp add: Let_def session_rotate_def session_defs active_session_def revoke_row_def svc run_in_tx_def
        tx_current_def db_transaction_def tx_run_def andThen_def
        new_session_row_def issued_hash_def issued_raw_def image_update_where eval_nat_numeral)
qed

text \<open>
  What \<open>SessionService.rotate\<close> does on every input: a token with an active row is
  revoked, a fresh one is issued to the same user with the configured lifetime and
  nothing else changes; any other token is refused with \<open>REFRESH_TOKEN_INVALID\<close> and
  changes nothing.
\<close>

theorem rotate_spec:
  assumes "\<not> in_tx w" and "h_commit H (calls w) = None"
    and "\<forall>r\<in>set (refresh_tokens (db w)). user_exists (rt_user_id r) (db w)"
    and "h_uuid H (draws w + 4) \<notin> rt_id ` set (refresh_tokens (db w))"
  shows "session_rotate H raw w =
    (let now = h_clock H (draws w); ts = refresh_tokens (db w); n = draws w in
     case active_session (hash_token H raw) now ts of
       None \<Rightarrow> (Inl (ApiException REFRESH_TOKEN_INVALID), w\<lparr>draws := n + 1\<rparr>)
     | Some m \<Rightarrow>
         (Inr (rt_user_id m, \<lparr>irt_raw = issued_raw H (n + 1), irt_exp_ms = h_refresh_exp_ms H\<rparr>),
          w\<lparr>draws := n + 5, db := (db w)\<lparr>refresh_tokens :=
            revoke_row (rt_id m) now ts @ [new_session_row H (rt_user_id m) (n + 1)]\<rparr>\<rparr>))"
  using assms by (rule session_rotate_run)

theorem rotate_spec_witness:
  "fst (session_rotate demo_host ''token'' (demo_world demo_sessions)) =
     Inr (''ada'', \<lparr>irt_raw = ''uu-uuu'', irt_exp_ms = 1000000\<rparr>)"
proof -
  have "\<not> in_tx (demo_world demo_sessions)" "h_commit demo_host (calls (demo_world demo_sessions)) = None"
    "\<forall>r\<in>set (refresh_tokens (db (demo_world demo_sessions))).
       user_exists (rt_user_id r) (db (demo_world demo_sessions))"
    "h_uuid demo_host (draws (demo_world demo_sessions) + 4)
       \<notin> rt_id ` set (refresh_tokens (db (demo_world demo_sessions)))"
    by (simp_all add: demo_sessions_def demo_user_def user_exists_def eval_nat_numeral)
  from rotate_spec [OF this, of "''token''"] show ?thesis
    by (simp add: demo_sessions_def active_session_def issued_raw_def hash_token_def Let_def eval_nat_numeral)
qed

end
