(* ===== verification/Users.thy ===== *)
theory Users
  imports Demo "HOL-Library.Multiset" "HOL-Library.List_Lexorder" "HOL-Library.Char_ord" "HOL-Library.Product_Lexorder"
begin

text \<open>
  \<open>user\<close>, \<open>auth/role\<close> and \<open>database/seed\<close>: the users and roles tables, the permissions a
  user has through its roles, the administrator's list, and the two seeders that
  \<open>DatabaseService\<close> runs at start-up. An \<open>ORDER BY\<close> is a stable sort, so that rows that
  compare equal keep the order of the table.
\<close>

subsection \<open>\<open>user.repository.ts\<close>\<close>

definition user_find_by_id :: "uuid \<Rightarrow> user_row option svc" where
  "user_find_by_id uid = query (\<lambda>d. find (\<lambda>u. u_id u = uid) (users d))"

definition user_find_by_username :: "string \<Rightarrow> user_row option svc" where
  "user_find_by_username name = query (\<lambda>d. find (\<lambda>u. u_username u = name) (users d))"

definition user_repo_insert :: "host \<Rightarrow> string \<Rightarrow> string \<Rightarrow> string \<Rightarrow> uuid svc" where
  "user_repo_insert H username nickname password =
     andThen (random_uuid H) (\<lambda>uid.
     andThen (new_date H) (\<lambda>now.
     andThen (check_unique (user_exists uid) ''users_pkey'') (\<lambda>_.
     andThen (check_unique (\<lambda>d. username \<in> u_username ` set (users d)) ''users_username_unique'') (\<lambda>_.
     andThen (statement (\<lambda>d. d\<lparr>users := users d @
         [\<lparr>u_id = uid, u_username = username, u_nickname = nickname, u_email = None,
           u_password = password, u_active = True, u_created_at = now, u_updated_at = now\<rparr>]\<rparr>)) (\<lambda>_.
       ret uid)))))"

record admin_user_row =
  au_id :: uuid
  au_username :: string
  au_nickname :: string
  au_created_at :: millis

definition user_repo_list :: "nat \<Rightarrow> nat \<Rightarrow> (admin_user_row list \<times> nat) svc" where
  "user_repo_list limit offset =
     query (\<lambda>d.
       (map (\<lambda>u. \<lparr>au_id = u_id u, au_username = u_username u, au_nickname = u_nickname u,
                  au_created_at = u_created_at u\<rparr>)
          (take limit (drop offset (sort_key (\<lambda>u. - u_created_at u) (users d)))),
        length (users d)))"

subsection \<open>\<open>role.repository.ts\<close>, \<open>role.service.ts\<close>\<close>

definition role_find_by_name :: "string \<Rightarrow> uuid option svc" where
  "role_find_by_name name = query (\<lambda>d. map_option r_id (find (\<lambda>r. r_name r = name) (roles d)))"

definition role_insert_user_role :: "uuid \<Rightarrow> uuid \<Rightarrow> unit svc" where
  "role_insert_user_role userId roleId =
     andThen (check_unique (\<lambda>d. \<lparr>ur_user_id = userId, ur_role_id = roleId\<rparr> \<in> set (user_roles d))
       ''user_roles_pkey'') (\<lambda>_.
     andThen (check_fk (user_exists userId) ''user_roles_user_id_users_id_fk'') (\<lambda>_.
     andThen (check_fk (\<lambda>d. roleId \<in> r_id ` set (roles d)) ''user_roles_role_id_roles_id_fk'') (\<lambda>_.
       statement (\<lambda>d. d\<lparr>user_roles := user_roles d @ [\<lparr>ur_user_id = userId, ur_role_id = roleId\<rparr>]\<rparr>))))"

text \<open>\<open>[...new Set(xs)]\<close>: the first occurrence of each element, in order.\<close>

definition unique_first :: "'a list \<Rightarrow> 'a list" where
  "unique_first xs = rev (remdups (rev xs))"

lemma set_unique_first [simp]: "set (unique_first xs) = set xs"
  by (simp add: unique_first_def)

lemma distinct_unique_first [simp]: "distinct (unique_first xs)"
  by (simp add: unique_first_def)

definition permission_key :: "permission_row \<Rightarrow> string" where
  "permission_key p = p_resource p @ '':'' @ p_action p"

definition permissions_of :: "uuid \<Rightarrow> database \<Rightarrow> string list" where
  "permissions_of userId d = unique_first
     [permission_key p. ur \<leftarrow> user_roles d, ur_user_id ur = userId,
        r \<leftarrow> roles d, r_id r = ur_role_id ur,
        rp \<leftarrow> role_permissions d, rp_role_id rp = r_id r,
        p \<leftarrow> permissions d, p_id p = rp_permission_id rp]"

definition role_find_permissions_by_user_id :: "uuid \<Rightarrow> string list svc" where
  "role_find_permissions_by_user_id userId = query (permissions_of userId)"

definition role_find_names_by_user_ids :: "uuid list \<Rightarrow> (uuid \<times> string) list svc" where
  "role_find_names_by_user_ids userIds = query (\<lambda>d. sort
     [(ur_user_id ur, r_name r). ur \<leftarrow> user_roles d, ur_user_id ur \<in> set userIds,
        r \<leftarrow> roles d, r_id r = ur_role_id ur])"

definition role_find_by_name_service :: "string \<Rightarrow> uuid option svc" where
  "role_find_by_name_service name = role_find_by_name name"

definition role_assign_user_role :: "uuid \<Rightarrow> uuid \<Rightarrow> unit svc" where
  "role_assign_user_role userId roleId = role_insert_user_role userId roleId"

definition role_get_permissions_by_user_id :: "uuid \<Rightarrow> string list svc" where
  "role_get_permissions_by_user_id userId = role_find_permissions_by_user_id userId"

definition push_role_name :: "uuid \<times> string \<Rightarrow> (uuid \<rightharpoonup> string list) \<Rightarrow> (uuid \<rightharpoonup> string list)" where
  "push_role_name row m = (case row of (userId, name) \<Rightarrow>
     (case m userId of Some existing \<Rightarrow> m(userId \<mapsto> existing @ [name]) | None \<Rightarrow> m(userId \<mapsto> [name])))"

definition role_get_names_by_user_ids :: "uuid list \<Rightarrow> (uuid \<rightharpoonup> string list) svc" where
  "role_get_names_by_user_ids userIds =
     (if userIds = [] then ret Map.empty
      else andThen (role_find_names_by_user_ids userIds) (\<lambda>rows.
        ret (fold push_role_name rows Map.empty)))"

subsection \<open>\<open>user.service.ts\<close>\<close>

definition user_create :: "host \<Rightarrow> string \<Rightarrow> string \<Rightarrow> string \<Rightarrow> uuid svc" where
  "user_create H username nickname password = user_repo_insert H username nickname password"

record user_dto =
  ud_id :: uuid
  ud_username :: string
  ud_nickname :: string
  ud_permissions :: "string list"

definition user_get_current_user :: "uuid \<Rightarrow> user_dto svc" where
  "user_get_current_user userId =
     andThen (user_find_by_id userId) (\<lambda>row. case row of
       None \<Rightarrow> throw INVALID_CREDENTIALS
     | Some u \<Rightarrow> andThen (role_get_permissions_by_user_id (u_id u)) (\<lambda>ps.
         ret \<lparr>ud_id = u_id u, ud_username = u_username u, ud_nickname = u_nickname u,
              ud_permissions = ps\<rparr>))"

record list_users_query =
  lq_limit :: "nat option"
  lq_offset :: "nat option"

text \<open>The class-validator decorators of \<open>ListUsersQueryDto\<close>, on integers.\<close>

definition list_users_query_valid :: "int option \<Rightarrow> int option \<Rightarrow> bool" where
  "list_users_query_valid limit offset \<longleftrightarrow>
     (case limit of None \<Rightarrow> True | Some l \<Rightarrow> 1 \<le> l \<and> l \<le> 100) \<and>
     (case offset of None \<Rightarrow> True | Some ofs \<Rightarrow> 0 \<le> ofs)"

record admin_user_item =
  ai_user :: admin_user_row
  ai_role_names :: "string list"

record admin_user_list =
  al_items :: "admin_user_item list"
  al_total :: nat
  al_limit :: nat
  al_offset :: nat

definition DEFAULT_LIST_LIMIT :: nat where "DEFAULT_LIST_LIMIT = 50"
definition DEFAULT_LIST_OFFSET :: nat where "DEFAULT_LIST_OFFSET = 0"

definition user_list_users :: "list_users_query \<Rightarrow> admin_user_list svc" where
  "user_list_users q =
     (let limit = nullish (lq_limit q) DEFAULT_LIST_LIMIT;
          offset = nullish (lq_offset q) DEFAULT_LIST_OFFSET
      in andThen (user_repo_list limit offset) (\<lambda>(items, total).
         andThen (role_get_names_by_user_ids (map au_id items)) (\<lambda>rolesByUserId.
           ret \<lparr>al_items = map (\<lambda>u. \<lparr>ai_user = u, ai_role_names = nullish (rolesByUserId (au_id u)) []\<rparr>) items,
                al_total = total, al_limit = limit, al_offset = offset\<rparr>)))"

subsection \<open>\<open>database/seed/rbac.seeder.ts\<close>\<close>

definition PERMISSIONS :: "(string \<times> string) list" where
  "PERMISSIONS =
     [(''file'', ''read''), (''file'', ''write''), (''file'', ''delete''), (''share'', ''create''),
      (''share'', ''manage''), (''user'', ''read''), (''user'', ''invite''), (''user'', ''manage''),
      (''user'', ''role''), (''storage'', ''read''), (''storage'', ''manage''),
      (''system'', ''monitor''), (''system'', ''config''), (''audit'', ''read'')]"

definition ROLE_PERMISSIONS :: "(string \<times> string list) list" where
  "ROLE_PERMISSIONS =
     [(''USER'', [''file:read'', ''file:write'', ''file:delete'', ''share:create'', ''storage:read'']),
      (''ADMIN'', [''file:read'', ''file:write'', ''file:delete'', ''share:create'', ''storage:read'',
         ''share:manage'', ''user:read'', ''user:invite'', ''user:manage'', ''storage:manage'',
         ''system:monitor'', ''audit:read'']),
      (''OWNER'', map (\<lambda>(r, a). r @ '':'' @ a) PERMISSIONS)]"

definition SYSTEM_ROLES :: "string list" where
  "SYSTEM_ROLES = [''OWNER'', ''ADMIN'', ''USER'']"

text \<open>\<open>INSERT ... ON CONFLICT DO NOTHING\<close>: a row that breaks a key is skipped.\<close>

definition seed_permission :: "host \<Rightarrow> string \<times> string \<Rightarrow> unit svc" where
  "seed_permission H v = (case v of (resource, action) \<Rightarrow>
     andThen (random_uuid H) (\<lambda>pid.
       statement (\<lambda>d.
         if pid \<in> p_id ` set (permissions d) \<or>
            (\<exists>p\<in>set (permissions d). p_resource p = resource \<and> p_action p = action)
         then d
         else d\<lparr>permissions := permissions d @ [\<lparr>p_id = pid, p_resource = resource, p_action = action\<rparr>]\<rparr>)))"

definition seed_role :: "host \<Rightarrow> string \<Rightarrow> unit svc" where
  "seed_role H name =
     andThen (random_uuid H) (\<lambda>rid.
     andThen (new_date H) (\<lambda>now.
       statement (\<lambda>d.
         if rid \<in> r_id ` set (roles d) \<or> name \<in> r_name ` set (roles d) then d
         else d\<lparr>roles := roles d @ [\<lparr>r_id = rid, r_name = name, r_is_system = True, r_created_at = now\<rparr>]\<rparr>)))"

definition seed_role_permission :: "role_permission_row \<Rightarrow> unit svc" where
  "seed_role_permission row =
     statement (\<lambda>d. if row \<in> set (role_permissions d) then d
       else d\<lparr>role_permissions := role_permissions d @ [row]\<rparr>)"

text \<open>\<open>Object.fromEntries\<close>: a later entry replaces an earlier one.\<close>

definition from_entries :: "(string \<times> 'v) list \<Rightarrow> (string \<rightharpoonup> 'v)" where
  "from_entries es = map_of (rev es)"

definition role_permission_entries :: "database \<Rightarrow> role_permission_row list" where
  "role_permission_entries d =
     (let roleMap = from_entries (map (\<lambda>r. (r_name r, r_id r)) (roles d));
          permMap = from_entries (map (\<lambda>p. (permission_key p, p_id p)) (permissions d))
      in concat (map (\<lambda>(roleName, perms).
           map (\<lambda>perm. \<lparr>rp_role_id = the (roleMap roleName), rp_permission_id = the (permMap perm)\<rparr>)
             (filter (\<lambda>perm. truthy (roleMap roleName) \<and> truthy (permMap perm)) perms))
           ROLE_PERMISSIONS))"

definition rbac_seed :: "host \<Rightarrow> unit svc" where
  "rbac_seed H =
     andThen (for_each (seed_permission H) PERMISSIONS) (\<lambda>_.
     andThen (for_each (seed_role H) SYSTEM_ROLES) (\<lambda>_.
     andThen (query role_permission_entries) (\<lambda>entries.
       if length entries > 0 then for_each seed_role_permission entries else ret ())))"

subsection \<open>\<open>database/seed/owner.seeder.ts\<close>, \<open>database.service.ts\<close>\<close>

definition OWNER_BCRYPT_ROUNDS :: nat where "OWNER_BCRYPT_ROUNDS = 10"

definition pg_code :: "fault \<Rightarrow> string option" where
  "pg_code e = (case e of PgError c _ \<Rightarrow> Some c | ExtError c _ \<Rightarrow> Some c | _ \<Rightarrow> None)"

definition owner_seed :: "host \<Rightarrow> unit svc" where
  "owner_seed H =
     (let ownerPassword = h_config H ''OWNER_PASSWORD'' in
      if \<not> truthy ownerPassword then ret ()
      else
       (let ownerUsername = nullish (h_config H ''OWNER_USERNAME'') ''owner'';
            ownerNickname = nullish (h_config H ''OWNER_NICKNAME'') ''Owner''
        in andThen (user_find_by_username ownerUsername) (\<lambda>existing. case existing of
             Some _ \<Rightarrow> ret ()
           | None \<Rightarrow>
             andThen (role_find_by_name ''OWNER'') (\<lambda>ownerRole. case ownerRole of
               None \<Rightarrow> raise (RawError ''OWNER role missing'')
             | Some roleId \<Rightarrow>
               andThen (draw (\<lambda>i. h_bcrypt_hash H i (pepper_password H (the ownerPassword)) OWNER_BCRYPT_ROUNDS)) (\<lambda>hashed.
                 catching
                   (andThen (user_repo_insert H ownerUsername ownerNickname hashed) (\<lambda>created.
                      role_insert_user_role created roleId))
                   (\<lambda>err. if pg_code err \<noteq> Some ''23505'' then raise err else ret ()))))))"

definition database_seed :: "host \<Rightarrow> unit svc" where
  "database_seed H = andThen (rbac_seed H) (\<lambda>_. owner_seed H)"

text \<open>
  \<open>onModuleInit\<close>: migrate and seed, up to \<open>n\<close> attempts left; the last fault is rethrown.
  The pause between two attempts has no effect on the state.
\<close>

fun database_init_attempts :: "host \<Rightarrow> nat \<Rightarrow> unit svc" where
  "database_init_attempts H 0 = ret ()"
| "database_init_attempts H (Suc n) =
     catching (andThen (call_unit H Migrate) (\<lambda>_. database_seed H))
       (\<lambda>e. if n = 0 then raise e else database_init_attempts H n)"

definition database_on_module_init :: "host \<Rightarrow> unit svc" where
  "database_on_module_init H = database_init_attempts H 10"

subsection \<open>What the seeder leaves behind\<close>

text \<open>The identifiers the host's generator will still draw are new and not empty.\<close>

definition seed_inv :: "host \<Rightarrow> world \<Rightarrow> bool" where
  "seed_inv H w \<longleftrightarrow> inj (h_uuid H) \<and> (\<forall>i. h_uuid H i \<noteq> []) \<and>
     (\<forall>p\<in>set (permissions (db w)). p_id p \<noteq> [] \<and> (\<forall>i\<ge>draws w. h_uuid H i \<noteq> p_id p)) \<and>
     (\<forall>r\<in>set (roles (db w)). r_id r \<noteq> [] \<and> (\<forall>i\<ge>draws w. h_uuid H i \<noteq> r_id r))"

definition has_permission_row :: "string \<times> string \<Rightarrow> database \<Rightarrow> bool" where
  "has_permission_row v d \<longleftrightarrow> (\<exists>p\<in>set (permissions d). p_resource p = fst v \<and> p_action p = snd v)"

definition has_role_row :: "string \<Rightarrow> database \<Rightarrow> bool" where
  "has_role_row n d \<longleftrightarrow> n \<in> r_name ` set (roles d)"

lemma seed_permission_step:
  assumes "seed_inv H w"
  shows "\<exists>w'. seed_permission H v w = (Inr (), w') \<and> seed_inv H w' \<and> has_permission_row v (db w') \<and>
    (\<forall>u. has_permission_row u (db w) \<longrightarrow> has_permission_row u (db w')) \<and>
    (has_permission_row v (db w) \<longrightarrow> db w' = db w)"
proof (cases "has_permission_row v (db w)")
  case True
  then have "seed_permission H v w = (Inr (), w\<lparr>draws := Suc (draws w)\<rparr>)"
    by (cases v) (simp add: seed_permission_def andThen_def svc has_permission_row_def)
  with True assms show ?thesis by (simp add: seed_inv_def)
next
  case False
  have new: "h_uuid H (draws w) \<notin> p_id ` set (permissions (db w))"
    using assms by (auto simp: seed_inv_def)
  let ?row = "\<lparr>p_id = h_uuid H (draws w), p_resource = fst v, p_action = snd v\<rparr>"
  let ?w = "w\<lparr>draws := Suc (draws w), db := (db w)\<lparr>permissions := permissions (db w) @ [?row]\<rparr>\<rparr>"
  have "seed_permission H v w = (Inr (), ?w)"
    using False new by (cases v) (simp add: seed_permission_def andThen_def svc has_permission_row_def)
  moreover have "seed_inv H ?w" using assms by (auto simp: seed_inv_def inj_eq)
  ultimately show ?thesis using False by (auto simp: has_permission_row_def)
qed

lemma seed_role_step:
  assumes "seed_inv H w"
  shows "\<exists>w'. seed_role H n w = (Inr (), w') \<and> seed_inv H w' \<and> has_role_row n (db w') \<and>
    (\<forall>u. has_role_row u (db w) \<longrightarrow> has_role_row u (db w')) \<and>
    permissions (db w') = permissions (db w) \<and>
    (has_role_row n (db w) \<longrightarrow> db w' = db w)"
proof (cases "has_role_row n (db w)")
  case True
  then have "seed_role H n w = (Inr (), w\<lparr>draws := Suc (Suc (draws w))\<rparr>)"
    by (simp add: seed_role_def andThen_def svc has_role_row_def)
  with True assms show ?thesis by (simp add: seed_inv_def)
next
  case False
  have new: "h_uuid H (draws w) \<notin> r_id ` set (roles (db w))"
    using assms by (auto simp: seed_inv_def)
  let ?row = "\<lparr>r_id = h_uuid H (draws w), r_name = n, r_is_system = True,
    r_created_at = h_clock H (Suc (draws w))\<rparr>"
  let ?w = "w\<lparr>draws := Suc (Suc (draws w)), db := (db w)\<lparr>roles := roles (db w) @ [?row]\<rparr>\<rparr>"
  have "seed_role H n w = (Inr (), ?w)"
    using False new by (simp add: seed_role_def andThen_def svc has_role_row_def)
  moreover have "seed_inv H ?w" using assms by (auto simp: seed_inv_def inj_eq)
  ultimately show ?thesis using False by (auto simp: has_role_row_def)
qed

lemma seed_role_permission_step:
  "\<exists>w'. seed_role_permission row w = (Inr (), w') \<and> roles (db w') = roles (db w) \<and>
     permissions (db w') = permissions (db w) \<and> draws w' = draws w \<and> row \<in> set (role_permissions (db w')) \<and>
     (\<forall>x. x \<in> set (role_permissions (db w)) \<longrightarrow> x \<in> set (role_permissions (db w'))) \<and>
     (row \<in> set (role_permissions (db w)) \<longrightarrow> db w' = db w)"
  by (auto simp: seed_role_permission_def svc)

definition rbac_seeded :: "database \<Rightarrow> bool" where
  "rbac_seeded d \<longleftrightarrow> (\<forall>v\<in>set PERMISSIONS. has_permission_row v d) \<and>
     (\<forall>n\<in>set SYSTEM_ROLES. has_role_row n d) \<and>
     set (role_permission_entries d) \<subseteq> set (role_permissions d)"

lemma rbac_seed_run:
  assumes "seed_inv H w"
  shows "\<exists>w'. rbac_seed H w = (Inr (), w') \<and> seed_inv H w' \<and> rbac_seeded (db w') \<and>
    (rbac_seeded (db w) \<longrightarrow> db w' = db w)"
proof -
  let ?d = "db w"
  have "\<exists>w1. for_each (seed_permission H) PERMISSIONS w = (Inr (), w1) \<and>
      (seed_inv H w1 \<and> (rbac_seeded ?d \<longrightarrow> db w1 = ?d)) \<and>
      (\<forall>v\<in>set PERMISSIONS. has_permission_row v (db w1)) \<and>
      (\<forall>v. has_permission_row v ?d \<longrightarrow> has_permission_row v (db w1))"
  proof (rule for_each_establishes [where G = "\<lambda>v w. has_permission_row v (db w)"], goal_cases)
    case (1 v u)
    then show ?case using seed_permission_step [of H u v] by (force simp: rbac_seeded_def)
  qed (simp add: assms)
  then obtain w1 where w1: "for_each (seed_permission H) PERMISSIONS w = (Inr (), w1)" "seed_inv H w1"
    "rbac_seeded ?d \<longrightarrow> db w1 = ?d" "\<forall>v\<in>set PERMISSIONS. has_permission_row v (db w1)" by blast
  have "\<exists>w2. for_each (seed_role H) SYSTEM_ROLES w1 = (Inr (), w2) \<and>
      (seed_inv H w2 \<and> permissions (db w2) = permissions (db w1) \<and> (rbac_seeded ?d \<longrightarrow> db w2 = ?d)) \<and>
      (\<forall>n\<in>set SYSTEM_ROLES. has_role_row n (db w2)) \<and>
      (\<forall>n. has_role_row n (db w1) \<longrightarrow> has_role_row n (db w2))"
  proof (rule for_each_establishes [where G = "\<lambda>n w. has_role_row n (db w)"], goal_cases)
    case (1 n u)
    then show ?case using seed_role_step [of H u n] by (force simp: rbac_seeded_def)
  qed (simp add: w1)
  then obtain w2 where w2: "for_each (seed_role H) SYSTEM_ROLES w1 = (Inr (), w2)" "seed_inv H w2"
    "permissions (db w2) = permissions (db w1)" "rbac_seeded ?d \<longrightarrow> db w2 = ?d"
    "\<forall>n\<in>set SYSTEM_ROLES. has_role_row n (db w2)" by blast
  let ?es = "role_permission_entries (db w2)"
  have "\<exists>w3. for_each seed_role_permission ?es w2 = (Inr (), w3) \<and>
      (roles (db w3) = roles (db w2) \<and> permissions (db w3) = permissions (db w2) \<and> draws w3 = draws w2 \<and>
       (rbac_seeded ?d \<longrightarrow> db w3 = ?d)) \<and>
      (\<forall>x\<in>set ?es. x \<in> set (role_permissions (db w3))) \<and>
      (\<forall>x. x \<in> set (role_permissions (db w2)) \<longrightarrow> x \<in> set (role_permissions (db w3)))"
  proof (rule for_each_establishes [where G = "\<lambda>x w. x \<in> set (role_permissions (db w))"], goal_cases)
    case (1 x u)
    then show ?case using seed_role_permission_step [of x u] w2(4)
      by (force simp: rbac_seeded_def)
  qed (simp add: w2)
  then obtain w3 where w3: "for_each seed_role_permission ?es w2 = (Inr (), w3)"
    "roles (db w3) = roles (db w2)" "permissions (db w3) = permissions (db w2)" "draws w3 = draws w2"
    "rbac_seeded ?d \<longrightarrow> db w3 = ?d" "\<forall>x\<in>set ?es. x \<in> set (role_permissions (db w3))" by blast
  have "rbac_seed H w = (Inr (), w3)"
    using w1(1) w2(1) w3(1) by (cases ?es) (auto simp: rbac_seed_def andThen_def svc)
  moreover have "seed_inv H w3" using w2(2) w3 by (simp add: seed_inv_def)
  moreover have "rbac_seeded (db w3)"
    using w1(4) w2 w3
    by (auto simp: rbac_seeded_def has_permission_row_def has_role_row_def role_permission_entries_def)
  ultimately show ?thesis using w3(5) by blast
qed

lemma from_entries_mem: "k \<in> fst ` set es \<Longrightarrow> \<exists>v. from_entries es k = Some v \<and> (k, v) \<in> set es"
  unfolding from_entries_def
  by (metis (no_types, lifting) domD dom_map_of_conv_image_fst image_set map_of_SomeD rev_map set_rev)

lemma PERMISSIONS_keys:
  "map (\<lambda>(r, a). r @ '':'' @ a) PERMISSIONS =
     [''file:read'', ''file:write'', ''file:delete'', ''share:create'', ''share:manage'', ''user:read'',
      ''user:invite'', ''user:manage'', ''user:role'', ''storage:read'', ''storage:manage'',
      ''system:monitor'', ''system:config'', ''audit:read'']"
  by (simp add: PERMISSIONS_def)

lemma seeded_keys:
  assumes "(n, perms) \<in> set ROLE_PERMISSIONS" and "perm \<in> set perms"
  shows "n \<in> set SYSTEM_ROLES \<and> (\<exists>v\<in>set PERMISSIONS. perm = fst v @ '':'' @ snd v)"
proof -
  have "n \<in> set SYSTEM_ROLES \<and> set perms \<subseteq> set (map (\<lambda>(r, a). r @ '':'' @ a) PERMISSIONS)"
    using assms(1) unfolding ROLE_PERMISSIONS_def PERMISSIONS_keys by (auto simp: SYSTEM_ROLES_def)
  with assms(2) have "n \<in> set SYSTEM_ROLES" "perm \<in> (\<lambda>(r, a). r @ '':'' @ a) ` set PERMISSIONS" by auto
  then show ?thesis by force
qed

lemma seeded_grant:
  assumes "seed_inv H w" and "rbac_seeded (db w)" and "(n, perms) \<in> set ROLE_PERMISSIONS" and "perm \<in> set perms"
  shows "\<exists>r\<in>set (roles (db w)). \<exists>p\<in>set (permissions (db w)). r_name r = n \<and> permission_key p = perm \<and>
    \<lparr>rp_role_id = r_id r, rp_permission_id = p_id p\<rparr> \<in> set (role_permissions (db w))"
proof -
  let ?rs = "map (\<lambda>r. (r_name r, r_id r)) (roles (db w))"
  let ?ps = "map (\<lambda>p. (permission_key p, p_id p)) (permissions (db w))"
  from seeded_keys [OF assms(3,4)] obtain v where n: "n \<in> set SYSTEM_ROLES"
    and v: "v \<in> set PERMISSIONS" "perm = fst v @ '':'' @ snd v" by blast
  from n assms(2) have "n \<in> fst ` set ?rs" by (force simp: rbac_seeded_def has_role_row_def)
  then obtain ri where ri: "from_entries ?rs n = Some ri" "(n, ri) \<in> set ?rs"
    using from_entries_mem by blast
  from v assms(2) obtain q where "q \<in> set (permissions (db w))" "permission_key q = perm"
    by (fastforce simp: rbac_seeded_def has_permission_row_def permission_key_def)
  then have "perm \<in> fst ` set ?ps" by force
  then obtain pi where pi: "from_entries ?ps perm = Some pi" "(perm, pi) \<in> set ?ps"
    using from_entries_mem by blast
  from ri(2) obtain r where r: "r \<in> set (roles (db w))" "r_name r = n" "r_id r = ri" by auto
  from pi(2) obtain p where p: "p \<in> set (permissions (db w))" "permission_key p = perm" "p_id p = pi" by auto
  have "ri \<noteq> []" "pi \<noteq> []" using assms(1) r p by (auto simp: seed_inv_def)
  then have "perm \<in> set (filter (\<lambda>perm. truthy (from_entries ?rs n) \<and> truthy (from_entries ?ps perm)) perms)"
    using ri(1) pi(1) assms(4) by simp
  then have "\<lparr>rp_role_id = the (from_entries ?rs n), rp_permission_id = the (from_entries ?ps perm)\<rparr>
      \<in> set (role_permission_entries (db w))"
    unfolding role_permission_entries_def Let_def set_concat set_map
    by (intro UN_I imageI) (use assms(3) in auto)
  then have "\<lparr>rp_role_id = r_id r, rp_permission_id = p_id p\<rparr> \<in> set (role_permissions (db w))"
    using r p ri(1) pi(1) assms(2) by (auto simp: rbac_seeded_def)
  with r p show ?thesis by blast
qed

subsection \<open>Properties\<close>

text \<open>
  \<open>RbacSeeder.seed\<close> always succeeds, leaves every permission of \<open>ROLE_PERMISSIONS\<close>
  granted to its role, and run again changes nothing.
\<close>

theorem rbac_seed_grants_and_is_idempotent:
  assumes "seed_inv H w" and "rbac_seed H w = (r, w')"
  shows "r = Inr () \<and>
    (\<forall>(n, perms)\<in>set ROLE_PERMISSIONS. \<forall>perm\<in>set perms.
       \<exists>role\<in>set (roles (db w')). \<exists>p\<in>set (permissions (db w')). r_name role = n \<and> permission_key p = perm \<and>
         \<lparr>rp_role_id = r_id role, rp_permission_id = p_id p\<rparr> \<in> set (role_permissions (db w'))) \<and>
    (\<exists>w''. rbac_seed H w' = (Inr (), w'') \<and> db w'' = db w')"
proof -
  from rbac_seed_run [OF assms(1)] assms(2)
  have 1: "r = Inr ()" "seed_inv H w'" "rbac_seeded (db w')" by auto
  from rbac_seed_run [OF 1(2)] 1(3) have 2: "\<exists>w''. rbac_seed H w' = (Inr (), w'') \<and> db w'' = db w'" by blast
  show ?thesis using 1(1) 2 seeded_grant [OF 1(2,3)] by blast
qed

theorem rbac_seed_grants_and_is_idempotent_witness:
  "\<exists>w''. rbac_seed demo_host (snd (rbac_seed demo_host (demo_world empty_db))) = (Inr (), w'') \<and>
     db w'' = db (snd (rbac_seed demo_host (demo_world empty_db)))"
proof -
  have "inj (h_uuid demo_host)"
    by (rule injI) (metis Suc_inject demo_host_simps(2) length_replicate)
  then have "seed_inv demo_host (demo_world empty_db)" by (simp add: seed_inv_def)
  from rbac_seed_grants_and_is_idempotent [OF this surjective_pairing] show ?thesis by blast
qed

lemma fold_push_role_name:
  "nullish (fold push_role_name rows m u) [] =
     nullish (m u) [] @ map snd (filter (\<lambda>row. fst row = u) rows)"
  by (induction rows arbitrary: m) (auto simp: push_role_name_def split: option.split)

lemma sort_pairs_of_first:
  fixes xs :: "(uuid \<times> string) list"
  shows "map snd (filter (\<lambda>row. fst row = u) (sort xs)) = sort (map snd (filter (\<lambda>row. fst row = u) xs))"
proof (rule sym, rule properties_for_sort)
  let ?ys = "filter (\<lambda>row. fst row = u) (sort xs)"
  show "mset (map snd ?ys) = mset (map snd (filter (\<lambda>row. fst row = u) xs))" by simp
  have "sorted ?ys" by (simp add: sorted_wrt_filter)
  then have "sorted_wrt (\<lambda>a b. snd a \<le> snd b) ?ys"
    by (rule sorted_wrt_mono_rel [rotated]) (auto simp: less_eq_prod_def)
  then show "sorted (map snd ?ys)" by (simp add: sorted_map)
qed

lemma filter_role_rows:
  "map snd (filter (\<lambda>row. fst row = u)
     (concat (map (\<lambda>ur. if ur_user_id ur \<in> U
        then concat (map (\<lambda>r. if r_id r = ur_role_id ur then [(ur_user_id ur, r_name r)] else []) rs) else []) urs))) =
   (if u \<in> U then concat (map (\<lambda>ur. if ur_user_id ur = u
        then concat (map (\<lambda>r. if r_id r = ur_role_id ur then [r_name r] else []) rs) else []) urs) else [])"
proof -
  have one: "map snd (filter (\<lambda>row. fst row = u)
      (concat (map (\<lambda>r. if r_id r = i then [(v, r_name r)] else []) rs))) =
      (if v = u then concat (map (\<lambda>r. if r_id r = i then [r_name r] else []) rs) else [])" for i v
    by (induction rs) auto
  have all: "map snd (concat (map (\<lambda>r. if r_id r = i then [(v, r_name r)] else []) rs)) =
      concat (map (\<lambda>r. if r_id r = i then [r_name r] else []) rs)" for i and v :: uuid
    by (induction rs) auto
  show ?thesis by (induction urs) (auto simp: one all)
qed

text \<open>
  The map \<open>RoleService.getRoleNamesByUserIds\<close> builds gives each user asked for the
  names of exactly its roles, sorted, and no entry to anyone else.
\<close>

theorem role_names_grouped:
  "role_get_names_by_user_ids userIds w = (Inr m, w') \<Longrightarrow>
     w' = w \<and>
     (\<forall>u. nullish (m u) [] = (if u \<in> set userIds
        then sort [r_name r. ur \<leftarrow> user_roles (db w), ur_user_id ur = u, r \<leftarrow> roles (db w), r_id r = ur_role_id ur]
        else []))"
  by (auto simp: role_get_names_by_user_ids_def role_find_names_by_user_ids_def svc andThen_def
      fold_push_role_name sort_pairs_of_first filter_role_rows split: if_splits)

theorem role_names_grouped_witness:
  "\<exists>m. role_get_names_by_user_ids [''ada'']
       (demo_world (empty_db\<lparr>user_roles := [\<lparr>ur_user_id = ''ada'', ur_role_id = ''1''\<rparr>],
          roles := [\<lparr>r_id = ''1'', r_name = ''USER'', r_is_system = True, r_created_at = 0\<rparr>]\<rparr>)) =
     (Inr m, demo_world (empty_db\<lparr>user_roles := [\<lparr>ur_user_id = ''ada'', ur_role_id = ''1''\<rparr>],
          roles := [\<lparr>r_id = ''1'', r_name = ''USER'', r_is_system = True, r_created_at = 0\<rparr>]\<rparr>)) \<and>
     nullish (m ''ada'') [] = [''USER'']" (is "\<exists>m. role_get_names_by_user_ids _ ?w = _ \<and> _")
proof -
  obtain m w' where run: "role_get_names_by_user_ids [''ada''] ?w = (Inr m, w')"
    by (simp add: role_get_names_by_user_ids_def role_find_names_by_user_ids_def svc andThen_def)
  from role_names_grouped [OF this] run show ?thesis by simp
qed

end
