(* ===== verification/Devices.thy ===== *)
theory Devices
  imports Demo "HOL-Library.Multiset"
begin

text \<open>
  \<open>device\<close> and \<open>trusted-device\<close>: the push devices of a user, and the trusted devices that
  let a login skip the second factor, with their sliding expiry and their cap.
\<close>

subsection \<open>\<open>device.repository.ts\<close>\<close>

text \<open>
  The upsert of \<open>devices\<close> on the unique push token. An undefined \<open>userAgent\<close> is left out
  of the \<open>SET\<close> list, so an existing row keeps its value.
\<close>

definition device_upsert :: "host \<Rightarrow> uuid \<Rightarrow> string \<Rightarrow> string option \<Rightarrow> unit svc" where
  "device_upsert H userId pushToken userAgent =
     andThen (random_uuid H) (\<lambda>did.
     andThen (new_date H) (\<lambda>now.
     andThen (check_fk (user_exists userId) ''devices_user_id_users_id_fk'') (\<lambda>_.
     andThen (query (\<lambda>d. pushToken \<in> dv_push_token ` set (devices d))) (\<lambda>present.
       if present
       then statement (\<lambda>d. d\<lparr>devices := update_where (\<lambda>r. dv_push_token r = pushToken)
              (\<lambda>r. r\<lparr>dv_user_id := userId,
                    dv_user_agent := (case userAgent of None \<Rightarrow> dv_user_agent r | Some a \<Rightarrow> Some a)\<rparr>)
              (devices d)\<rparr>)
       else andThen (check_unique (\<lambda>d. did \<in> dv_id ` set (devices d)) ''devices_pkey'') (\<lambda>_.
         statement (\<lambda>d. d\<lparr>devices := devices d @
           [\<lparr>dv_id = did, dv_user_id = userId, dv_push_token = pushToken, dv_user_agent = userAgent,
             dv_created_at = now\<rparr>]\<rparr>))))))"

definition device_find_by_user_id :: "uuid \<Rightarrow> device_row list svc" where
  "device_find_by_user_id userId = query (\<lambda>d. filter (\<lambda>r. dv_user_id r = userId) (devices d))"

definition device_find_by_id_and_user_id :: "uuid \<Rightarrow> uuid \<Rightarrow> device_row option svc" where
  "device_find_by_id_and_user_id did userId =
     query (\<lambda>d. find (\<lambda>r. dv_id r = did \<and> dv_user_id r = userId) (devices d))"

definition device_delete_by_id :: "uuid \<Rightarrow> unit svc" where
  "device_delete_by_id did = statement (\<lambda>d. d\<lparr>devices := delete_where (\<lambda>r. dv_id r = did) (devices d)\<rparr>)"

definition device_delete_by_user_id_and_push_token :: "uuid \<Rightarrow> string \<Rightarrow> unit svc" where
  "device_delete_by_user_id_and_push_token userId pushToken =
     statement (\<lambda>d. d\<lparr>devices :=
       delete_where (\<lambda>r. dv_user_id r = userId \<and> dv_push_token r = pushToken) (devices d)\<rparr>)"

subsection \<open>\<open>device.service.ts\<close>, \<open>device.controller.ts\<close>\<close>

record device_response =
  der_id :: uuid
  der_user_agent :: "string option"
  der_created_at :: millis

definition device_register :: "host \<Rightarrow> uuid \<Rightarrow> string \<Rightarrow> string option \<Rightarrow> unit svc" where
  "device_register H userId pushToken userAgent = device_upsert H userId pushToken userAgent"

definition device_list :: "uuid \<Rightarrow> device_response list svc" where
  "device_list userId =
     andThen (device_find_by_user_id userId) (\<lambda>rows.
       ret (map (\<lambda>r. \<lparr>der_id = dv_id r, der_user_agent = dv_user_agent r, der_created_at = dv_created_at r\<rparr>) rows))"

definition device_remove :: "uuid \<Rightarrow> uuid \<Rightarrow> unit svc" where
  "device_remove did userId =
     andThen (device_find_by_id_and_user_id did userId) (\<lambda>dev. case dev of
       None \<Rightarrow> throw DEVICE_NOT_FOUND
     | Some _ \<Rightarrow> device_delete_by_id did)"

definition device_find_push_tokens_by_user_id :: "uuid \<Rightarrow> string list svc" where
  "device_find_push_tokens_by_user_id userId =
     andThen (device_find_by_user_id userId) (\<lambda>rows. ret (map dv_push_token rows))"

definition device_deactivate_by_push_token :: "uuid \<Rightarrow> string \<Rightarrow> unit svc" where
  "device_deactivate_by_push_token userId pushToken = device_delete_by_user_id_and_push_token userId pushToken"

text \<open>\<open>RegisterDeviceBodyDto\<close>.\<close>

definition register_device_body_valid :: "string \<Rightarrow> bool" where
  "register_device_body_valid pushToken \<longleftrightarrow> 1 \<le> length pushToken \<and> length pushToken \<le> 4096"

subsection \<open>\<open>trusted-device.repository.ts\<close>\<close>

definition trusted_insert :: "host \<Rightarrow> uuid \<Rightarrow> string \<Rightarrow> string option \<Rightarrow> millis \<Rightarrow> unit svc" where
  "trusted_insert H userId tokenHash userAgent expiresAt =
     andThen (random_uuid H) (\<lambda>tid.
     andThen (new_date H) (\<lambda>now.
     andThen (check_unique (\<lambda>d. tid \<in> td_id ` set (trusted_devices d)) ''trusted_devices_pkey'') (\<lambda>_.
     andThen (check_fk (user_exists userId) ''trusted_devices_user_id_users_id_fk'') (\<lambda>_.
       statement (\<lambda>d. d\<lparr>trusted_devices := trusted_devices d @
         [\<lparr>td_id = tid, td_user_id = userId, td_token_hash = tokenHash, td_user_agent = userAgent,
           td_expires_at = expiresAt, td_created_at = now\<rparr>]\<rparr>)))))"

definition trusted_find_by_token_hash :: "string \<Rightarrow> trusted_device_row option svc" where
  "trusted_find_by_token_hash tokenHash = query (\<lambda>d. find (\<lambda>r. td_token_hash r = tokenHash) (trusted_devices d))"

definition trusted_find_by_user_id :: "uuid \<Rightarrow> trusted_device_row list svc" where
  "trusted_find_by_user_id userId = query (\<lambda>d. filter (\<lambda>r. td_user_id r = userId) (trusted_devices d))"

definition trusted_find_by_id_and_user_id :: "uuid \<Rightarrow> uuid \<Rightarrow> trusted_device_row option svc" where
  "trusted_find_by_id_and_user_id tid userId =
     query (\<lambda>d. find (\<lambda>r. td_id r = tid \<and> td_user_id r = userId) (trusted_devices d))"

definition trusted_delete_by_id :: "uuid \<Rightarrow> unit svc" where
  "trusted_delete_by_id tid =
     statement (\<lambda>d. d\<lparr>trusted_devices := delete_where (\<lambda>r. td_id r = tid) (trusted_devices d)\<rparr>)"

definition active_trusted :: "uuid \<Rightarrow> millis \<Rightarrow> trusted_device_row list \<Rightarrow> trusted_device_row list" where
  "active_trusted userId now rs = filter (\<lambda>r. td_user_id r = userId \<and> now < td_expires_at r) rs"

definition trusted_count_active :: "uuid \<Rightarrow> millis \<Rightarrow> int svc" where
  "trusted_count_active userId now = query (\<lambda>d. int (length (active_trusted userId now (trusted_devices d))))"

definition oldest_trusted :: "uuid \<Rightarrow> nat \<Rightarrow> trusted_device_row list \<Rightarrow> uuid list" where
  "oldest_trusted userId n rs = map td_id (take n (sort_key td_created_at (filter (\<lambda>r. td_user_id r = userId) rs)))"

definition trusted_delete_oldest :: "uuid \<Rightarrow> int \<Rightarrow> unit svc" where
  "trusted_delete_oldest userId deleteCount =
     (if deleteCount \<le> 0 then ret ()
      else andThen (query (\<lambda>d. oldest_trusted userId (nat deleteCount) (trusted_devices d))) (\<lambda>ids.
        if length ids = 0 then ret ()
        else statement (\<lambda>d. d\<lparr>trusted_devices := delete_where (\<lambda>r. td_id r \<in> set ids) (trusted_devices d)\<rparr>)))"

definition trusted_refresh_expires_at :: "uuid \<Rightarrow> millis \<Rightarrow> unit svc" where
  "trusted_refresh_expires_at tid expiresAt =
     statement (\<lambda>d. d\<lparr>trusted_devices :=
       update_where (\<lambda>r. td_id r = tid) (\<lambda>r. r\<lparr>td_expires_at := expiresAt\<rparr>) (trusted_devices d)\<rparr>)"

subsection \<open>\<open>trusted-device.service.ts\<close>\<close>

definition TRUST_DURATION_MS :: int where "TRUST_DURATION_MS = 30 * 24 * 60 * 60 * 1000"
definition TRUST_ABSOLUTE_MAX_MS :: int where "TRUST_ABSOLUTE_MAX_MS = 90 * 24 * 60 * 60 * 1000"
definition MAX_TRUST_PER_USER :: int where "MAX_TRUST_PER_USER = 10"

definition trim_excess_devices :: "host \<Rightarrow> uuid \<Rightarrow> unit svc" where
  "trim_excess_devices H userId =
     andThen (new_date H) (\<lambda>now.
     andThen (trusted_count_active userId now) (\<lambda>active.
       let overflow = active - (MAX_TRUST_PER_USER - 1)
       in if overflow > 0 then trusted_delete_oldest userId overflow else ret ()))"

definition trusted_register :: "host \<Rightarrow> uuid \<Rightarrow> string option \<Rightarrow> string svc" where
  "trusted_register H userId userAgent =
     andThen (random_uuid H) (\<lambda>a.
     andThen (random_uuid H) (\<lambda>b.
     let rawToken = a @ ''-'' @ b; tokenHash = hash_token H rawToken in
     andThen (new_date H) (\<lambda>now.
     let expiresAt = now + TRUST_DURATION_MS in
     andThen (run_in_tx H
       (andThen (trim_excess_devices H userId) (\<lambda>_.
          trusted_insert H userId tokenHash userAgent expiresAt))) (\<lambda>_.
       ret rawToken))))"

text \<open>The new expiry of a verified device: 30 days from now, at most 90 days from its creation.\<close>

definition slide_expires_at :: "trusted_device_row \<Rightarrow> millis \<Rightarrow> unit svc" where
  "slide_expires_at dev now =
     (let candidateExpiresAt = now + TRUST_DURATION_MS;
          hardCapAt = td_created_at dev + TRUST_ABSOLUTE_MAX_MS;
          newExpiresAt = (if candidateExpiresAt < hardCapAt then candidateExpiresAt else hardCapAt)
      in if newExpiresAt > td_expires_at dev then trusted_refresh_expires_at (td_id dev) newExpiresAt
         else ret ())"

definition trusted_verify :: "host \<Rightarrow> string option \<Rightarrow> uuid \<Rightarrow> bool svc" where
  "trusted_verify H rawToken userId =
     (if \<not> truthy rawToken then ret False
      else andThen (trusted_find_by_token_hash (hash_token H (the rawToken))) (\<lambda>found. case found of
        None \<Rightarrow> ret False
      | Some dev \<Rightarrow>
          if td_user_id dev \<noteq> userId then ret False
          else andThen (new_date H) (\<lambda>now.
            if td_expires_at dev \<le> now then ret False
            else andThen (slide_expires_at dev now) (\<lambda>_. ret True))))"

record trusted_device_response =
  tdr_id :: uuid
  tdr_user_agent :: "string option"
  tdr_created_at :: millis

definition trusted_list :: "uuid \<Rightarrow> trusted_device_response list svc" where
  "trusted_list userId =
     andThen (trusted_find_by_user_id userId) (\<lambda>rows.
       ret (map (\<lambda>r. \<lparr>tdr_id = td_id r, tdr_user_agent = td_user_agent r, tdr_created_at = td_created_at r\<rparr>) rows))"

definition trusted_revoke :: "uuid \<Rightarrow> uuid \<Rightarrow> unit svc" where
  "trusted_revoke tid userId =
     andThen (trusted_find_by_id_and_user_id tid userId) (\<lambda>dev. case dev of
       None \<Rightarrow> throw TRUSTED_DEVICE_NOT_FOUND
     | Some _ \<Rightarrow> trusted_delete_by_id tid)"

definition trust_duration_ms :: int where
  "trust_duration_ms = TRUST_DURATION_MS"

lemmas trusted_defs = trusted_insert_def trusted_find_by_token_hash_def trusted_find_by_id_and_user_id_def
  trusted_delete_by_id_def trusted_count_active_def trusted_delete_oldest_def trusted_refresh_expires_at_def
  trim_excess_devices_def trusted_register_def slide_expires_at_def trusted_verify_def trusted_revoke_def

lemmas trust_times = TRUST_DURATION_MS_def TRUST_ABSOLUTE_MAX_MS_def MAX_TRUST_PER_USER_def

subsection \<open>The window of trust\<close>

definition trust_bounded :: "database \<Rightarrow> bool" where
  "trust_bounded d \<longleftrightarrow> distinct (map td_id (trusted_devices d)) \<and>
     (\<forall>r\<in>set (trusted_devices d). td_expires_at r \<le> td_created_at r + TRUST_ABSOLUTE_MAX_MS)"

datatype trusted_op =
    TrustRegister uuid "string option"
  | TrustVerify "string option" uuid
  | TrustRevoke uuid uuid

definition trusted_step :: "host \<Rightarrow> trusted_op \<Rightarrow> world \<Rightarrow> world" where
  "trusted_step H a w = (case a of
     TrustRegister u agent \<Rightarrow> snd (trusted_register H u agent w)
   | TrustVerify t u \<Rightarrow> snd (trusted_verify H t u w)
   | TrustRevoke i u \<Rightarrow> snd (trusted_revoke i u w))"

lemma trust_bounded_delete:
  "trust_bounded d \<Longrightarrow> trust_bounded (d\<lparr>trusted_devices := delete_where p (trusted_devices d)\<rparr>)"
  by (simp add: trust_bounded_def distinct_delete_where)

lemma trust_bounded_append:
  "trust_bounded d \<Longrightarrow> td_id r \<notin> td_id ` set (trusted_devices d) \<Longrightarrow>
     td_expires_at r \<le> td_created_at r + TRUST_ABSOLUTE_MAX_MS \<Longrightarrow>
     trust_bounded (d\<lparr>trusted_devices := trusted_devices d @ [r]\<rparr>)"
  by (auto simp: trust_bounded_def)

lemma trust_bounded_slide:
  assumes "trust_bounded d" and "m \<in> set (trusted_devices d)" and "t \<le> td_created_at m + TRUST_ABSOLUTE_MAX_MS"
  shows "trust_bounded (d\<lparr>trusted_devices :=
    update_where (\<lambda>r. td_id r = td_id m) (\<lambda>r. r\<lparr>td_expires_at := t\<rparr>) (trusted_devices d)\<rparr>)"
proof -
  have "distinct (map td_id (trusted_devices d))" using assms(1) by (simp add: trust_bounded_def)
  then have "x = m" if "x \<in> set (trusted_devices d)" "td_id x = td_id m" for x
    by (rule key_unique) (use assms(2) that in simp_all)
  then have "t \<le> td_created_at x + TRUST_ABSOLUTE_MAX_MS"
    if "x \<in> set (trusted_devices d)" "td_id x = td_id m" for x
    using that assms(3) by blast
  with assms show ?thesis by (auto simp: trust_bounded_def map_update_where set_update_where)
qed

text \<open>The rows a registration leaves before it inserts its own.\<close>

definition trimmed :: "uuid \<Rightarrow> millis \<Rightarrow> trusted_device_row list \<Rightarrow> trusted_device_row list" where
  "trimmed u now rs =
     (let k = length (active_trusted u now rs) - 9
      in delete_where (\<lambda>r. td_id r \<in> set (oldest_trusted u k rs)) rs)"

lemma nat_minus_nine: "nat (int n - 9) = n - 9"
  by linarith

lemma trim_run:
  "trim_excess_devices H u w = (Inr (), w\<lparr>draws := Suc (draws w), db := (db w)\<lparr>trusted_devices :=
     trimmed u (h_clock H (draws w)) (trusted_devices (db w))\<rparr>\<rparr>)"
proof (cases "length (active_trusted u (h_clock H (draws w)) (trusted_devices (db w))) \<le> 9")
  case True
  then have "trimmed u (h_clock H (draws w)) (trusted_devices (db w)) = trusted_devices (db w)"
    by (simp add: trimmed_def oldest_trusted_def delete_where_def)
  with True show ?thesis
    by (simp add: trim_excess_devices_def trusted_count_active_def svc andThen_def trust_times Let_def)
next
  case False
  then show ?thesis
    by (cases "oldest_trusted u (length (active_trusted u (h_clock H (draws w)) (trusted_devices (db w))) - 9)
        (trusted_devices (db w)) = []")
      (simp_all add: trim_excess_devices_def trusted_count_active_def trusted_delete_oldest_def svc andThen_def
        trust_times Let_def trimmed_def nat_minus_nine delete_where_def)
qed

lemma wp_trim [wp]:
  "wp (trim_excess_devices H u) Q w =
     Q (Inr ()) (w\<lparr>draws := Suc (draws w), db := (db w)\<lparr>trusted_devices :=
       trimmed u (h_clock H (draws w)) (trusted_devices (db w))\<rparr>\<rparr>)"
  by (simp add: wp_def trim_run)

definition registered_row :: "host \<Rightarrow> uuid \<Rightarrow> string option \<Rightarrow> nat \<Rightarrow> trusted_device_row" where
  "registered_row H u agent n =
     \<lparr>td_id = h_uuid H (n + 4), td_user_id = u,
      td_token_hash = hash_token H (h_uuid H n @ ''-'' @ h_uuid H (n + 1)), td_user_agent = agent,
      td_expires_at = h_clock H (n + 2) + TRUST_DURATION_MS, td_created_at = h_clock H (n + 5)\<rparr>"

lemma trusted_register_effect:
  "trusted_register H u agent w = (r, w') \<Longrightarrow>
     (let rs = trimmed u (h_clock H (draws w + 3)) (trusted_devices (db w)) in
      case r of
        Inr t \<Rightarrow> db w' = (db w)\<lparr>trusted_devices := rs @ [registered_row H u agent (draws w)]\<rparr> \<and>
          h_uuid H (draws w + 4) \<notin> td_id ` set rs
      | Inl e \<Rightarrow> db w' = db w \<or> in_tx w \<and> db w' = (db w)\<lparr>trusted_devices := rs\<rparr>)"
  by (erule wp_use)
    (simp add: trusted_register_def trusted_insert_def wp Let_def registered_row_def eval_nat_numeral
      user_exists_def split: option.split)

lemma trusted_register_bounded:
  assumes "mono (h_clock H)" and "trust_bounded (db w)"
  shows "trust_bounded (db (snd (trusted_register H u agent w)))"
proof -
  obtain r w' where run: "trusted_register H u agent w = (r, w')" by fastforce
  have row: "td_expires_at (registered_row H u agent n)
      \<le> td_created_at (registered_row H u agent n) + TRUST_ABSOLUTE_MAX_MS" for n
  proof -
    have "h_clock H (n + 2) \<le> h_clock H (n + 5)" by (rule monoD [OF assms(1)]) simp
    then have "h_clock H (n + 2) + TRUST_DURATION_MS \<le> h_clock H (n + 5) + TRUST_ABSOLUTE_MAX_MS"
      unfolding trust_times by linarith
    then show ?thesis by (simp only: registered_row_def trusted_device_row.simps)
  qed
  let ?d = "(db w)\<lparr>trusted_devices := trimmed u (h_clock H (draws w + 3)) (trusted_devices (db w))\<rparr>"
  have trim: "trust_bounded ?d" unfolding trimmed_def Let_def by (rule trust_bounded_delete [OF assms(2)])
  have "trust_bounded (db w')"
  proof (cases r)
    case (Inl e)
    then show ?thesis using trusted_register_effect [OF run] trim assms(2) by (auto simp: Let_def)
  next
    case (Inr t)
    then show ?thesis
      using trusted_register_effect [OF run] row trust_bounded_append [OF trim, of "registered_row H u agent (draws w)"]
      by (simp add: Let_def) (simp add: registered_row_def)
  qed
  then show ?thesis by (simp add: run)
qed

lemma trusted_verify_bounded: "keeps trust_bounded (trusted_verify H t u)"
  by (rule keepsI)
    (auto simp: trusted_defs wp Let_def split: option.splits dest!: find_Some_set intro!: trust_bounded_slide)

lemma trusted_revoke_bounded: "keeps trust_bounded (trusted_revoke i u)"
  by (rule keepsI) (auto simp: trusted_defs wp intro: trust_bounded_delete split: option.splits)

lemma trusted_step_bounded:
  "mono (h_clock H) \<Longrightarrow> trust_bounded (db w) \<Longrightarrow> trust_bounded (db (trusted_step H a w))"
  by (cases a)
    (auto simp: trusted_step_def intro: trusted_register_bounded keepsD trusted_verify_bounded trusted_revoke_bounded)

subsection \<open>The cap on trusted devices\<close>

definition trusted_of :: "uuid \<Rightarrow> database \<Rightarrow> trusted_device_row list" where
  "trusted_of u d = filter (\<lambda>r. td_user_id r = u) (trusted_devices d)"

lemma length_filter_sort_key: "length (filter p (sort_key f xs)) = length (filter p xs)"
  by (metis mset_filter mset_sort size_mset)

lemma delete_oldest_length:
  assumes "distinct (map td_id rs)" and "k \<le> length (filter (\<lambda>r. td_user_id r = u) rs)"
  shows "length (filter (\<lambda>r. td_user_id r = u) (delete_where (\<lambda>r. td_id r \<in> set (oldest_trusted u k rs)) rs)) =
    length (filter (\<lambda>r. td_user_id r = u) rs) - k"
proof -
  let ?F = "filter (\<lambda>r. td_user_id r = u) rs" and ?S = "sort_key td_created_at (filter (\<lambda>r. td_user_id r = u) rs)"
  let ?ids = "set (map td_id (take k ?S))"
  have dF: "distinct (map td_id ?F)" using assms(1) by (simp add: distinct_map_filter)
  have "mset (map td_id ?S) = mset (map td_id ?F)" by simp
  with dF have dS: "distinct (map td_id ?S)" by (metis mset_eq_imp_distinct_iff)
  have "distinct (map td_id (take k ?S) @ map td_id (drop k ?S))"
    using dS by (metis append_take_drop_id map_append)
  then have disj: "\<forall>r\<in>set (drop k ?S). td_id r \<notin> ?ids" by auto
  have "filter (\<lambda>r. td_id r \<notin> ?ids) ?S =
      filter (\<lambda>r. td_id r \<notin> ?ids) (take k ?S) @ filter (\<lambda>r. td_id r \<notin> ?ids) (drop k ?S)"
    by (metis append_take_drop_id filter_append)
  also have "filter (\<lambda>r. td_id r \<notin> ?ids) (take k ?S) = []" by (auto simp: filter_empty_conv)
  also have "filter (\<lambda>r. td_id r \<notin> ?ids) (drop k ?S) = drop k ?S"
    using disj by (rule filter_True)
  finally have "length (filter (\<lambda>r. td_id r \<notin> ?ids) ?S) = length ?F - k" by simp
  then have "length (filter (\<lambda>r. td_id r \<notin> ?ids) ?F) = length ?F - k"
    by (simp add: length_filter_sort_key)
  then show ?thesis
    by (simp add: delete_where_def oldest_trusted_def filter_filter conj_commute)
qed

lemma trusted_register_count:
  assumes "trusted_register H u agent w = (Inr t, w')" and "distinct (map td_id (trusted_devices (db w)))"
  shows "length (trusted_of u (db w')) =
    Suc (length (trusted_of u (db w)) -
      (length (active_trusted u (h_clock H (draws w + 3)) (trusted_devices (db w))) - 9))"
proof -
  let ?rs = "trusted_devices (db w)"
  let ?k = "length (active_trusted u (h_clock H (draws w + 3)) ?rs) - 9"
  have "length (active_trusted u (h_clock H (draws w + 3)) ?rs) \<le> length (filter (\<lambda>r. td_user_id r = u) ?rs)"
    unfolding active_trusted_def by (simp add: length_filter_conv_card) (rule card_mono, auto)
  then have k: "?k \<le> length (filter (\<lambda>r. td_user_id r = u) ?rs)" by linarith
  show ?thesis
    using delete_oldest_length [OF assms(2) k] trusted_register_effect [OF assms(1)]
    by (simp add: trusted_of_def trimmed_def Let_def registered_row_def)
qed

interpretation trusted: history "trusted_step H" "\<lambda>w. mono (h_clock H) \<and> trust_bounded (db w)" for H
  by unfold_locales (simp add: trusted_step_bounded)

definition demo_trusted :: "uuid \<Rightarrow> millis \<Rightarrow> millis \<Rightarrow> trusted_device_row" where
  "demo_trusted i created expires =
     \<lparr>td_id = i, td_user_id = ''ada'', td_token_hash = ''hash'' @ i, td_user_agent = None,
      td_expires_at = expires, td_created_at = created\<rparr>"

definition demo_trust_db :: database where
  "demo_trust_db = empty_db\<lparr>users := [demo_user], trusted_devices := [demo_trusted ''a'' 0 50, demo_trusted ''b'' 1 2]\<rparr>"

subsection \<open>Properties\<close>

text \<open>
  C8: However often a trusted device is verified, and whatever else is registered or
  revoked, its expiry never passes 90 days after it was created.
\<close>

theorem trust_never_exceeds_90_days:
  assumes "mono (h_clock H)" and "trust_bounded (db w)"
    and "r \<in> set (trusted_devices (db (fold (trusted_step H) ops w)))"
  shows "td_expires_at r \<le> td_created_at r + 7776000000"
  using trusted.run_inv [of H w ops] assms by (auto simp: trust_bounded_def trust_times)

theorem trust_never_exceeds_90_days_witness:
  "\<exists>r\<in>set (trusted_devices (db (fold (trusted_step demo_host)
       [TrustVerify (Some ''hasha'') ''ada'', TrustRegister ''ada'' None] (demo_world demo_trust_db)))).
     td_expires_at r \<le> td_created_at r + 7776000000"
proof -
  let ?w = "fold (trusted_step demo_host)
    [TrustVerify (Some ''hasha'') ''ada'', TrustRegister ''ada'' None] (demo_world demo_trust_db)"
  have "demo_trusted ''b'' 1 2 \<in> set (trusted_devices (db ?w))"
    by (simp add: trusted_step_def trusted_verify_def trusted_find_by_token_hash_def slide_expires_at_def
        trusted_refresh_expires_at_def trusted_register_def trusted_insert_def svc andThen_def run_in_tx_def
        tx_current_def db_transaction_def tx_run_def trim_run trimmed_def active_trusted_def oldest_trusted_def
        demo_trust_db_def demo_trusted_def demo_user_def user_exists_def hash_token_def trust_times delete_where_def
        eval_nat_numeral Let_def)
  moreover have "mono (h_clock demo_host)" by (simp add: mono_def)
  moreover have "trust_bounded (db (demo_world demo_trust_db))"
    by (simp add: trust_bounded_def demo_trust_db_def demo_trusted_def trust_times)
  ultimately show ?thesis using trust_never_exceeds_90_days by blast
qed

text \<open>
  \<open>TrustedDeviceService.verify\<close> accepts a token exactly when a device of this user with
  its hash has not expired, and then moves that device's expiry, never backwards, to the
  smaller of 30 days from now and 90 days from its creation; nothing else changes.
\<close>

theorem trusted_verify_spec:
  "(let now = h_clock H (draws w); rs = trusted_devices (db w);
        found = find (\<lambda>r. td_token_hash r = hash_token H (the tok)) rs;
        accepted = (case found of None \<Rightarrow> False
          | Some m \<Rightarrow> truthy tok \<and> td_user_id m = u \<and> now < td_expires_at m) in
    let new = min (now + 2592000000) (td_created_at (the found) + 7776000000) in
    fst (trusted_verify H tok u w) = Inr accepted \<and>
    db (snd (trusted_verify H tok u w)) =
      (if accepted \<and> td_expires_at (the found) < new
       then (db w)\<lparr>trusted_devices := update_where (\<lambda>r. td_id r = td_id (the found))
              (\<lambda>r. r\<lparr>td_expires_at := new\<rparr>) rs\<rparr>
       else db w))"
proof (cases "find (\<lambda>r. td_token_hash r = hash_token H (the tok)) (trusted_devices (db w))")
  case None
  then show ?thesis
    by (simp add: trusted_verify_def trusted_find_by_token_hash_def svc andThen_def Let_def)
next
  case (Some m)
  let ?now = "h_clock H (draws w)"
  show ?thesis
  proof (cases "truthy tok \<and> td_user_id m = u \<and> ?now < td_expires_at m")
    case False
    with Some have "trusted_verify H tok u w = (Inr False, w) \<or>
        trusted_verify H tok u w = (Inr False, w\<lparr>draws := Suc (draws w)\<rparr>)"
      by (auto simp: trusted_verify_def trusted_find_by_token_hash_def svc andThen_def)
    with False Some show ?thesis by (auto simp: Let_def)
  next
    case True
    let ?new = "min (?now + 2592000000) (td_created_at m + 7776000000)"
    have "trusted_verify H tok u w = (Inr True, w\<lparr>draws := Suc (draws w),
        db := if td_expires_at m < ?new then (db w)\<lparr>trusted_devices :=
          update_where (\<lambda>r. td_id r = td_id m) (\<lambda>r. r\<lparr>td_expires_at := ?new\<rparr>) (trusted_devices (db w))\<rparr>
          else db w\<rparr>)"
      using True Some
      by (cases w) (simp add: trusted_verify_def trusted_find_by_token_hash_def slide_expires_at_def
        trusted_refresh_expires_at_def svc andThen_def Let_def trust_times min_def add.commute)
    then show ?thesis
      using True Some by (auto simp: Let_def)
  qed
qed

text \<open>
  Registering a trusted device keeps a user with no expired device at ten devices at
  most, by deleting the oldest of them.
\<close>

theorem trusted_device_cap:
  assumes "trusted_register H u agent w = (Inr t, w')" and "distinct (map td_id (trusted_devices (db w)))"
    and "\<forall>r\<in>set (trusted_of u (db w)). h_clock H (draws w + 3) < td_expires_at r"
  shows "length (trusted_of u (db w')) \<le> 10 \<and>
    length (trusted_of u (db w')) = min 10 (Suc (length (trusted_of u (db w))))"
proof -
  have "active_trusted u (h_clock H (draws w + 3)) (trusted_devices (db w)) = trusted_of u (db w)"
    using assms(3) unfolding active_trusted_def trusted_of_def by (intro filter_cong) auto
  with trusted_register_count [OF assms(1,2)]
  have "length (trusted_of u (db w')) = Suc (length (trusted_of u (db w)) - (length (trusted_of u (db w)) - 9))"
    by simp
  then show ?thesis by linarith
qed

theorem trusted_device_cap_witness:
  "length (trusted_of ''ada'' (db (snd (trusted_register demo_host ''ada'' None
     (demo_world (empty_db\<lparr>users := [demo_user], trusted_devices := [demo_trusted ''a'' 0 50]\<rparr>)))))) = 2"
proof -
  let ?w = "demo_world (empty_db\<lparr>users := [demo_user], trusted_devices := [demo_trusted ''a'' 0 50]\<rparr>)"
  obtain t w' where run: "trusted_register demo_host ''ada'' None ?w = (Inr t, w')"
    by (simp add: trusted_register_def trusted_insert_def svc andThen_def run_in_tx_def
        tx_current_def db_transaction_def tx_run_def trim_run trimmed_def active_trusted_def oldest_trusted_def
        demo_trusted_def demo_user_def user_exists_def delete_where_def eval_nat_numeral Let_def)
  have "length (trusted_of ''ada'' (db w')) = min 10 (Suc (length (trusted_of ''ada'' (db ?w))))"
    by (rule conjunct2 [OF trusted_device_cap [OF run]]) (simp_all add: demo_trusted_def trusted_of_def)
  moreover have "length (trusted_of ''ada'' (db ?w)) = 1" by (simp add: demo_trusted_def trusted_of_def)
  ultimately show ?thesis by (simp add: run)
qed

text \<open>
  The cap counts active devices but deletes the oldest of all, so an expired device is
  deleted in the place of an active one and eleven active devices remain.
\<close>

definition demo_full_trust :: database where
  "demo_full_trust = empty_db\<lparr>users := [demo_user], trusted_devices :=
     demo_trusted ''0'' 0 0 # map (\<lambda>i. demo_trusted (replicate i CHR ''x'') 1 1000000) [1..<11]\<rparr>"

lemma trusted_device_cap_passed:
  "length (active_trusted ''ada'' 100 (trusted_devices (db (snd
     (trusted_register demo_host ''ada'' None (demo_world demo_full_trust)))))) = 11"
  by (simp add: trusted_register_def trusted_insert_def svc andThen_def run_in_tx_def
        tx_current_def db_transaction_def tx_run_def trim_run trimmed_def active_trusted_def oldest_trusted_def
        demo_full_trust_def demo_trusted_def demo_user_def user_exists_def delete_where_def eval_nat_numeral Let_def
        upt_rec trust_times)

end
