(* ===== verification/Auth.thy ===== *)
theory Auth
  imports Users Sessions Devices
begin

text \<open>
  \<open>auth/auth.service.ts\<close> and the JWT strategy: password hashing and checking, the default
  role, access and refresh tokens, and the cookies they travel in. A cookie is a recorded
  call with its name, value and lifetime; its flags are the same constants in every call.
\<close>

record auth_user =
  aus_user_id :: uuid
  aus_username :: string
  aus_permissions :: "string list"

text \<open>The payload the JWT library verified: \<open>permissions\<close> may be missing.\<close>

record jwt_payload =
  jp_sub :: uuid
  jp_username :: string
  jp_permissions :: "string list option"

definition jwt_validate :: "jwt_payload \<Rightarrow> auth_user" where
  "jwt_validate p = \<lparr>aus_user_id = jp_sub p, aus_username = jp_username p,
     aus_permissions = nullish (jp_permissions p) []\<rparr>"

datatype login_response =
    AUTHENTICATED string user_dto
  | TWOFA_REQUIRED uuid "string list" millis

definition BCRYPT_ROUNDS :: nat where "BCRYPT_ROUNDS = 10"
definition REFRESH_TOKEN_COOKIE :: string where "REFRESH_TOKEN_COOKIE = ''refreshToken''"
definition TRUST_TOKEN_COOKIE :: string where "TRUST_TOKEN_COOKIE = ''trustToken''"

definition bcrypt_hash :: "host \<Rightarrow> string \<Rightarrow> nat \<Rightarrow> string svc" where
  "bcrypt_hash H s rounds = draw (\<lambda>i. h_bcrypt_hash H i s rounds)"

definition auth_hash_password :: "host \<Rightarrow> string \<Rightarrow> string svc" where
  "auth_hash_password H raw = bcrypt_hash H (pepper_password H raw) BCRYPT_ROUNDS"

definition auth_assign_default_role :: "uuid \<Rightarrow> unit svc" where
  "auth_assign_default_role userId =
     andThen (role_find_by_name_service ''USER'') (\<lambda>role. case role of
       None \<Rightarrow> throw ROLE_NOT_FOUND
     | Some roleId \<Rightarrow> role_assign_user_role userId roleId)"

definition auth_validate_credentials :: "host \<Rightarrow> user_row \<Rightarrow> string \<Rightarrow> unit svc" where
  "auth_validate_credentials H user rawPassword =
     (let valid = h_bcrypt_compare H (pepper_password H rawPassword) (u_password user) in
      if \<not> valid then throw INVALID_CREDENTIALS
      else if \<not> u_active user then throw ACCOUNT_DISABLED
      else ret ())"

definition auth_generate_access_token :: "host \<Rightarrow> user_row \<Rightarrow> string svc" where
  "auth_generate_access_token H user =
     andThen (role_get_permissions_by_user_id (u_id user)) (\<lambda>ps.
       token_generate_access H (u_id user) (u_username user) ps)"

definition set_refresh_cookie :: "host \<Rightarrow> string \<Rightarrow> int \<Rightarrow> unit svc" where
  "set_refresh_cookie H rawToken maxAgeMs = emit H (SetCookie REFRESH_TOKEN_COOKIE rawToken maxAgeMs)"

definition clear_refresh_cookie :: "host \<Rightarrow> unit svc" where
  "clear_refresh_cookie H = emit H (ClearCookie REFRESH_TOKEN_COOKIE)"

definition set_trust_cookie :: "host \<Rightarrow> string \<Rightarrow> int \<Rightarrow> unit svc" where
  "set_trust_cookie H rawToken maxAgeMs = emit H (SetCookie TRUST_TOKEN_COOKIE rawToken maxAgeMs)"

definition clear_trust_cookie :: "host \<Rightarrow> unit svc" where
  "clear_trust_cookie H = emit H (ClearCookie TRUST_TOKEN_COOKIE)"

definition auth_issue_token_pair :: "host \<Rightarrow> user_row \<Rightarrow> string svc" where
  "auth_issue_token_pair H user =
     andThen (auth_generate_access_token H user) (\<lambda>accessToken.
     andThen (session_issue_for_user H (u_id user)) (\<lambda>issued.
     andThen (set_refresh_cookie H (irt_raw issued) (irt_exp_ms issued)) (\<lambda>_.
       ret accessToken)))"

definition auth_rotate_refresh_token :: "host \<Rightarrow> string option \<Rightarrow> uuid svc" where
  "auth_rotate_refresh_token H rawRt =
     (if \<not> truthy rawRt then throw REFRESH_TOKEN_INVALID
      else andThen (session_rotate H (the rawRt)) (\<lambda>(userId, issued).
           andThen (set_refresh_cookie H (irt_raw issued) (irt_exp_ms issued)) (\<lambda>_.
             ret userId)))"

definition auth_revoke_refresh_token :: "host \<Rightarrow> string option \<Rightarrow> uuid option svc" where
  "auth_revoke_refresh_token H rawRt =
     andThen (if truthy rawRt then session_revoke_by_raw_token H (the rawRt) else ret None) (\<lambda>userId.
     andThen (clear_refresh_cookie H) (\<lambda>_. ret userId))"

definition auth_build_user_response :: "user_row \<Rightarrow> user_dto svc" where
  "auth_build_user_response user =
     andThen (role_get_permissions_by_user_id (u_id user)) (\<lambda>ps.
       ret \<lparr>ud_id = u_id user, ud_username = u_username user, ud_nickname = u_nickname user,
            ud_permissions = ps\<rparr>)"

definition auth_issue_after_two_fa :: "host \<Rightarrow> uuid \<Rightarrow> login_response svc" where
  "auth_issue_after_two_fa H userId =
     andThen (user_find_by_id userId) (\<lambda>found. case found of
       None \<Rightarrow> throw TWOFA_CHALLENGE_NOT_FOUND
     | Some user \<Rightarrow>
         andThen (auth_issue_token_pair H user) (\<lambda>accessToken.
         andThen (auth_build_user_response user) (\<lambda>dto. ret (AUTHENTICATED accessToken dto))))"

subsection \<open>What the operations do\<close>

definition user_dto_of :: "user_row \<Rightarrow> database \<Rightarrow> user_dto" where
  "user_dto_of u d = \<lparr>ud_id = u_id u, ud_username = u_username u, ud_nickname = u_nickname u,
     ud_permissions = permissions_of (u_id u) d\<rparr>"

definition access_token :: "host \<Rightarrow> nat \<Rightarrow> user_row \<Rightarrow> database \<Rightarrow> string" where
  "access_token H i u d =
     h_jwt_sign H (h_clock H i) (u_id u) (u_username u) (permissions_of (u_id u) d) (h_access_exp_ms H div 1000)"

lemma wp_session_issue [wp]:
  "wp (session_issue_for_user H u) Q w =
     (let n = draws w; ts = refresh_tokens (db w); w1 = w\<lparr>draws := n + 4\<rparr> in
      if h_uuid H (n + 3) \<in> rt_id ` set ts then Q (Inl (PgError ''23505'' ''refresh_tokens_pkey'')) w1
      else if \<not> user_exists u (db w)
        then Q (Inl (PgError ''23503'' ''refresh_tokens_user_id_users_id_fk'')) w1
      else Q (Inr \<lparr>irt_raw = issued_raw H n, irt_exp_ms = h_refresh_exp_ms H\<rparr>)
        (w1\<lparr>db := (db w)\<lparr>refresh_tokens := ts @ [new_session_row H u n]\<rparr>\<rparr>))"
  by (simp add: session_defs wp new_session_row_def issued_hash_def issued_raw_def Let_def eval_nat_numeral)

lemma wp_role_permissions [wp]:
  "wp (role_get_permissions_by_user_id u) Q w = Q (Inr (permissions_of u (db w))) w"
  by (simp add: role_get_permissions_by_user_id_def role_find_permissions_by_user_id_def wp)

lemma permissions_of_refresh_tokens [simp]:
  "permissions_of u (d\<lparr>refresh_tokens := x\<rparr>) = permissions_of u d"
  "permissions_of u (d\<lparr>trusted_devices := y\<rparr>) = permissions_of u d"
  by (simp_all add: permissions_of_def cong: if_cong)

lemma wp_build_user [wp]: "wp (auth_build_user_response u) Q w = Q (Inr (user_dto_of u (db w))) w"
  by (simp add: auth_build_user_response_def wp user_dto_of_def)

lemma wp_user_find [wp]:
  "wp (user_find_by_id i) Q w = Q (Inr (find (\<lambda>u. u_id u = i) (users (db w)))) w"
  "wp (user_find_by_username n) Q w = Q (Inr (find (\<lambda>u. u_username u = n) (users (db w)))) w"
  by (simp_all add: user_find_by_id_def user_find_by_username_def wp)

lemma wp_validate_credentials [wp]:
  "wp (auth_validate_credentials H u raw) Q w =
     (if \<not> h_bcrypt_compare H (pepper_password H raw) (u_password u) then Q (Inl (ApiException INVALID_CREDENTIALS)) w
      else if \<not> u_active u then Q (Inl (ApiException ACCOUNT_DISABLED)) w else Q (Inr ()) w)"
  by (simp add: auth_validate_credentials_def wp Let_def)

text \<open>A cookie with the freshly issued refresh token is the last call of a token pair.\<close>

lemma wp_issue_token_pair [wp]:
  "wp (auth_issue_token_pair H u) Q w =
     (let n = draws w; w1 = w\<lparr>draws := n + 5\<rparr>; ts = refresh_tokens (db w) in
      if h_uuid H (n + 4) \<in> rt_id ` set ts then Q (Inl (PgError ''23505'' ''refresh_tokens_pkey'')) w1
      else if \<not> user_exists (u_id u) (db w)
        then Q (Inl (PgError ''23503'' ''refresh_tokens_user_id_users_id_fk'')) w1
      else Q (Inr (access_token H n u (db w)))
        (w\<lparr>draws := n + 6,
           calls := (h_clock H (n + 5), SetCookie ''refreshToken'' (issued_raw H (n + 1)) (h_refresh_exp_ms H)) # calls w,
           db := (db w)\<lparr>refresh_tokens := ts @ [new_session_row H (u_id u) (n + 1)]\<rparr>\<rparr>))"
  by (cases w) (simp add: auth_issue_token_pair_def auth_generate_access_token_def token_generate_access_def
      set_refresh_cookie_def wp Let_def access_token_def eval_nat_numeral REFRESH_TOKEN_COOKIE_def stamp_def)

end
