(* ===== verification/Invitations.thy ===== *)
theory Invitations
  imports Demo
begin

text \<open>
  \<open>invitation\<close>: the invitations an administrator creates, their validation, consumption
  and deactivation. The contract of \<open>Single_Use\<close> is interpreted on the consumption.
\<close>

subsection \<open>\<open>invitation.repository.ts\<close>\<close>

definition invitation_insert :: "host \<Rightarrow> uuid \<Rightarrow> millis \<Rightarrow> invitation_row svc" where
  "invitation_insert H createdBy expiresAt =
     andThen (random_uuid H) (\<lambda>iid.
     andThen (random_uuid H) (\<lambda>token.
     andThen (new_date H) (\<lambda>now.
     andThen (check_unique (\<lambda>d. iid \<in> inv_id ` set (invitations d)) ''invitations_pkey'') (\<lambda>_.
     andThen (check_unique (\<lambda>d. token \<in> inv_token ` set (invitations d)) ''invitations_token_unique'') (\<lambda>_.
     andThen (check_fk (user_exists createdBy) ''invitations_created_by_users_id_fk'') (\<lambda>_.
     let row = \<lparr>inv_id = iid, inv_token = token, inv_created_by = createdBy, inv_used_by = None,
                inv_used_at = None, inv_expires_at = expiresAt, inv_deactivated_at = None,
                inv_created_at = now\<rparr> in
     andThen (statement (\<lambda>d. d\<lparr>invitations := invitations d @ [row]\<rparr>)) (\<lambda>_. ret row)))))))"

definition invitation_find_by_token :: "uuid \<Rightarrow> invitation_row option svc" where
  "invitation_find_by_token token = query (\<lambda>d. find (\<lambda>r. inv_token r = token) (invitations d))"

definition invitation_repo_deactivate :: "host \<Rightarrow> uuid \<Rightarrow> bool svc" where
  "invitation_repo_deactivate H token =
     andThen (new_date H) (\<lambda>now.
     andThen (query (\<lambda>d. filter (\<lambda>r. inv_token r = token) (invitations d))) (\<lambda>result.
     andThen (statement (\<lambda>d. d\<lparr>invitations :=
        update_where (\<lambda>r. inv_token r = token) (\<lambda>r. r\<lparr>inv_deactivated_at := Some now\<rparr>) (invitations d)\<rparr>)) (\<lambda>_.
       ret (length result > 0))))"

definition invitation_repo_consume :: "host \<Rightarrow> uuid \<Rightarrow> uuid \<Rightarrow> uuid option svc" where
  "invitation_repo_consume H token usedBy =
     andThen (new_date H) (\<lambda>now.
     andThen (query (\<lambda>d. filter (\<lambda>r. inv_token r = token \<and> inv_used_at r = None) (invitations d))) (\<lambda>rows.
     andThen (check_fk (\<lambda>d. rows = [] \<or> user_exists usedBy d) ''invitations_used_by_users_id_fk'') (\<lambda>_.
     andThen (statement (\<lambda>d. d\<lparr>invitations :=
        update_where (\<lambda>r. inv_token r = token \<and> inv_used_at r = None)
          (\<lambda>r. r\<lparr>inv_used_at := Some now, inv_used_by := Some usedBy\<rparr>) (invitations d)\<rparr>)) (\<lambda>_.
       ret (case rows of [] \<Rightarrow> None | r # _ \<Rightarrow> Some (inv_id r))))))"

subsection \<open>\<open>invitation.service.ts\<close>\<close>

definition DEFAULT_EXPIRES_DAYS :: int where "DEFAULT_EXPIRES_DAYS = 7"
definition MS_PER_DAY :: int where "MS_PER_DAY = 24 * 60 * 60 * 1000"

record invitation_response =
  ir_token :: uuid
  ir_url :: string
  ir_expires_at :: millis

definition invitation_create :: "host \<Rightarrow> uuid \<Rightarrow> int option \<Rightarrow> invitation_response svc" where
  "invitation_create H createdBy expiresInDays =
     andThen (new_date H) (\<lambda>now.
     andThen (invitation_insert H createdBy (now + nullish expiresInDays DEFAULT_EXPIRES_DAYS * MS_PER_DAY)) (\<lambda>row.
     andThen (config_or_throw H ''APP_BASE_URL'') (\<lambda>baseUrl.
       ret \<lparr>ir_token = inv_token row, ir_url = baseUrl @ ''/register/'' @ inv_token row,
            ir_expires_at = inv_expires_at row\<rparr>)))"

text \<open>\<open>getException\<close> reads the clock only for a live, unused invitation.\<close>

definition invitation_get_exception :: "host \<Rightarrow> invitation_row option \<Rightarrow> error_code option svc" where
  "invitation_get_exception H row =
     (case row of
        None \<Rightarrow> ret (Some INVITATION_NOT_FOUND)
      | Some r \<Rightarrow>
          if inv_deactivated_at r \<noteq> None then ret (Some INVITATION_NOT_FOUND)
          else if inv_used_at r \<noteq> None then ret (Some INVITATION_ALREADY_USED)
          else andThen (new_date H) (\<lambda>now.
            if inv_expires_at r \<le> now then ret (Some INVITATION_EXPIRED) else ret None))"

definition invitation_validate :: "host \<Rightarrow> uuid \<Rightarrow> bool svc" where
  "invitation_validate H token =
     andThen (invitation_find_by_token token) (\<lambda>row.
     andThen (invitation_get_exception H row) (\<lambda>e. ret (e = None)))"

definition invitation_validate_or_throw :: "host \<Rightarrow> uuid \<Rightarrow> invitation_row option svc" where
  "invitation_validate_or_throw H token =
     andThen (invitation_find_by_token token) (\<lambda>row.
     andThen (invitation_get_exception H row) (\<lambda>e. case e of
       Some c \<Rightarrow> throw c
     | None \<Rightarrow> ret row))"

definition invitation_consume :: "host \<Rightarrow> uuid \<Rightarrow> uuid \<Rightarrow> unit svc" where
  "invitation_consume H token usedBy =
     andThen (invitation_repo_consume H token usedBy) (\<lambda>row. case row of
       None \<Rightarrow> throw INVITATION_ALREADY_USED
     | Some _ \<Rightarrow> ret ())"

definition invitation_deactivate :: "host \<Rightarrow> uuid \<Rightarrow> unit svc" where
  "invitation_deactivate H token =
     andThen (invitation_repo_deactivate H token) (\<lambda>found.
       if \<not> found then throw INVITATION_NOT_FOUND else ret ())"

text \<open>\<open>CreateInvitationBodyDto\<close>.\<close>

definition create_invitation_body_valid :: "int option \<Rightarrow> bool" where
  "create_invitation_body_valid expiresInDays \<longleftrightarrow>
     (case expiresInDays of None \<Rightarrow> True | Some n \<Rightarrow> 1 \<le> n \<and> n \<le> 30)"

lemmas invitation_defs = invitation_insert_def invitation_find_by_token_def invitation_repo_deactivate_def
  invitation_repo_consume_def invitation_create_def invitation_get_exception_def invitation_validate_def
  invitation_validate_or_throw_def invitation_consume_def invitation_deactivate_def

subsection \<open>The contract of an invitation\<close>

datatype invitation_op =
    CreateInvitation uuid "int option"
  | DeactivateInvitation uuid
  | ValidateInvitation uuid

definition invitation_other :: "host \<Rightarrow> invitation_op \<Rightarrow> world \<Rightarrow> world" where
  "invitation_other H a w = (case a of
     CreateInvitation u days \<Rightarrow> snd (invitation_create H u days w)
   | DeactivateInvitation t \<Rightarrow> snd (invitation_deactivate H t w)
   | ValidateInvitation t \<Rightarrow> snd (invitation_validate H t w))"

definition invitation_inv :: "world \<Rightarrow> bool" where
  "invitation_inv w \<longleftrightarrow> distinct (map inv_token (invitations (db w)))"

definition invitation_spent :: "uuid \<Rightarrow> database \<Rightarrow> bool" where
  "invitation_spent t d \<longleftrightarrow> (\<exists>r\<in>set (invitations d). inv_token r = t \<and> inv_used_at r \<noteq> None)"

lemma invitation_consume_effect:
  "invitation_consume H t u w = (r, w') \<Longrightarrow>
     invitations (db w') = invitations (db w) \<and> isl r \<or>
     invitations (db w') = update_where (\<lambda>r. inv_token r = t \<and> inv_used_at r = None)
          (\<lambda>r. r\<lparr>inv_used_at := Some (h_clock H (draws w)), inv_used_by := Some u\<rparr>) (invitations (db w)) \<and>
     (r = Inr () \<longleftrightarrow> (\<exists>r\<in>set (invitations (db w)). inv_token r = t \<and> inv_used_at r = None))"
  by (erule wp_use) (auto simp: invitation_defs wp filter_empty_conv split: list.splits dest!: filter_eq_ConsD)

lemma invitation_create_effect:
  "invitation_create H u days w = (r, w') \<Longrightarrow> invitations (db w') = invitations (db w) \<or>
     (\<exists>x. invitations (db w') = invitations (db w) @ [x] \<and> inv_token x \<notin> inv_token ` set (invitations (db w)))"
  by (erule wp_use) (auto simp: invitation_defs wp Let_def split: option.splits)

text \<open>Every other operation keeps tokens and used marks, and adds rows with a new token only.\<close>

lemma invitation_other_effect:
  "\<exists>f rs. invitations (db (invitation_other H a w)) = map f (invitations (db w)) @ rs \<and>
     (\<forall>r. inv_token (f r) = inv_token r \<and> inv_used_at (f r) = inv_used_at r) \<and>
     distinct (map inv_token rs) \<and> inv_token ` set rs \<inter> inv_token ` set (invitations (db w)) = {}"
proof (cases a)
  case (CreateInvitation u days)
  obtain r w' where run: "invitation_create H u days w = (r, w')" by fastforce
  from invitation_create_effect [OF run] obtain rs where
    "invitations (db w') = invitations (db w) @ rs" "distinct (map inv_token rs)"
    "inv_token ` set rs \<inter> inv_token ` set (invitations (db w)) = {}"
  proof (elim disjE exE conjE)
    assume "invitations (db w') = invitations (db w)"
    then show thesis by (intro that [of "[]"]) simp_all
  next
    fix x assume "invitations (db w') = invitations (db w) @ [x]"
      "inv_token x \<notin> inv_token ` set (invitations (db w))"
    then show thesis by (intro that [of "[x]"]) simp_all
  qed
  with CreateInvitation run show ?thesis
    by (intro exI [of _ "\<lambda>r. r"] exI [of _ rs]) (simp add: invitation_other_def)
next
  case (DeactivateInvitation t)
  then show ?thesis
    by (intro exI [of _ "\<lambda>r. if inv_token r = t then r\<lparr>inv_deactivated_at := Some (h_clock H (draws w))\<rparr> else r"]
        exI [of _ "[]"], simp add: invitation_other_def)
      (rule wp_dbI, simp add: invitation_defs wp update_where_def)
next
  case (ValidateInvitation t)
  then show ?thesis
    by (intro exI [of _ "\<lambda>r. r"] exI [of _ "[]"], simp add: invitation_other_def)
      (rule wp_dbI, simp add: invitation_defs wp split: option.split)
qed

lemma invitation_other_keeps: "invitation_inv w \<Longrightarrow> invitation_inv (invitation_other H a w)"
  using invitation_other_effect [of H a w]
  by (auto simp: invitation_inv_def comp_def) (metis disjoint_iff image_eqI)

lemma invitation_spent_other:
  "invitation_spent t (db w) \<Longrightarrow> invitation_spent t (db (invitation_other H a w))"
  using invitation_other_effect [of H a w] unfolding invitation_spent_def
  by (metis (no_types, lifting) UnCI image_eqI list.set_map set_append)

lemma invitation_consume_keeps:
  "invitation_inv w \<Longrightarrow> invitation_inv (snd (invitation_consume H t u w))"
  using invitation_consume_effect [of H t u w]
  by (cases "invitation_consume H t u w") (auto simp: invitation_inv_def map_update_where)

lemma invitation_spent_consume:
  assumes "invitation_spent k (db w)"
  shows "invitation_spent k (db (snd (invitation_consume H t u w)))"
proof -
  obtain r w' where run: "invitation_consume H t u w = (r, w')" by fastforce
  from assms obtain x where x: "x \<in> set (invitations (db w))" "inv_token x = k" "inv_used_at x \<noteq> None"
    by (auto simp: invitation_spent_def)
  then have "x \<in> set (invitations (db w'))"
    using invitation_consume_effect [OF run] by (force simp: set_update_where image_iff)
  with x run show ?thesis by (auto simp: invitation_spent_def)
qed

lemma invitation_consume_spends:
  assumes "invitation_consume H t u w = (Inr v, w')"
  shows "invitation_spent t (db w')"
proof -
  from invitation_consume_effect [OF assms] obtain x where
    x: "x \<in> set (invitations (db w))" "inv_token x = t" "inv_used_at x = None"
    and w': "invitations (db w') = update_where (\<lambda>r. inv_token r = t \<and> inv_used_at r = None)
          (\<lambda>r. r\<lparr>inv_used_at := Some (h_clock H (draws w)), inv_used_by := Some u\<rparr>) (invitations (db w))"
    by auto
  then have "x\<lparr>inv_used_at := Some (h_clock H (draws w)), inv_used_by := Some u\<rparr> \<in> set (invitations (db w'))"
    unfolding w' set_update_where by (intro image_eqI [of _ _ x]) auto
  then show ?thesis unfolding invitation_spent_def by (rule rev_bexI) (simp add: x)
qed

lemma invitation_spent_refused:
  assumes "invitation_inv w" and "invitation_spent t (db w)"
  shows "isl (fst (invitation_consume H t u w))"
proof -
  obtain r w' where run: "invitation_consume H t u w = (r, w')" by fastforce
  from assms(2) obtain x where x: "x \<in> set (invitations (db w))" "inv_token x = t" "inv_used_at x \<noteq> None"
    by (auto simp: invitation_spent_def)
  have "y = x" if "y \<in> set (invitations (db w))" "inv_token y = t" for y
    by (rule key_unique [of inv_token "invitations (db w)"])
      (use assms(1) x that in \<open>simp_all add: invitation_inv_def\<close>)
  with x have "\<not> (\<exists>y\<in>set (invitations (db w)). inv_token y = t \<and> inv_used_at y = None)" by metis
  with invitation_consume_effect [OF run] run show ?thesis by (cases r) auto
qed

interpretation invitation: single_use invitation_inv fst "\<lambda>t w. invitation_spent t (db w)"
  "\<lambda>(t, u). invitation_consume H t u" "invitation_other H" for H
  by unfold_locales
    (auto simp: invitation_consume_keeps invitation_other_keeps invitation_consume_spends
      invitation_spent_refused invitation_spent_consume invitation_spent_other)

subsection \<open>Properties\<close>

text \<open>
  An invitation token is consumed at most once, by whichever accounts and however
  often it is presented, and whatever is created, validated or deactivated meanwhile.
\<close>

theorem invitation_consumed_at_most_once:
  "distinct (map inv_token (invitations (db w))) \<Longrightarrow>
     successes fst t (fst (run_events (\<lambda>(t, u). invitation_consume H t u) (invitation_other H) es w)) \<le> 1"
  by (rule invitation.at_most_once) (simp add: invitation_inv_def)

definition demo_invitations :: database where
  "demo_invitations = empty_db\<lparr>users := [demo_user], invitations :=
     [\<lparr>inv_id = ''1'', inv_token = ''t'', inv_created_by = ''ada'', inv_used_by = None, inv_used_at = None,
       inv_expires_at = 100, inv_deactivated_at = None, inv_created_at = 0\<rparr>]\<rparr>"

theorem invitation_consumed_at_most_once_witness:
  "successes fst ''t'' (fst (run_events (\<lambda>(t, u). invitation_consume demo_host t u) (invitation_other demo_host)
     [Use (''t'', ''ada''), Other (CreateInvitation ''ada'' None), Use (''t'', ''ada'')]
     (demo_world demo_invitations))) \<le> 1"
  by (rule invitation_consumed_at_most_once) (simp add: demo_invitations_def)

text \<open>
  C11: \<open>InvitationService.validateOrThrow\<close> lets a token through exactly when it belongs to an
  invitation that is neither deactivated nor used nor expired, names the first of these
  reasons otherwise, and changes nothing in the database.
\<close>

theorem invitation_validate_or_throw_spec:
  "(let found = find (\<lambda>r. inv_token r = t) (invitations (db w)); now = h_clock H (draws w) in
    fst (invitation_validate_or_throw H t w) =
      (case found of
         None \<Rightarrow> Inl (ApiException INVITATION_NOT_FOUND)
       | Some r \<Rightarrow>
           if inv_deactivated_at r \<noteq> None then Inl (ApiException INVITATION_NOT_FOUND)
           else if inv_used_at r \<noteq> None then Inl (ApiException INVITATION_ALREADY_USED)
           else if inv_expires_at r \<le> now then Inl (ApiException INVITATION_EXPIRED)
           else Inr found) \<and>
    db (snd (invitation_validate_or_throw H t w)) = db w)"
  by (simp add: Let_def invitation_validate_or_throw_def invitation_find_by_token_def
      invitation_get_exception_def svc andThen_def split: option.split)

end
