(* ===== verification/BackupCodes.thy ===== *)
theory BackupCodes
  imports Auth
begin

text \<open>
  \<open>twofa/backup-code\<close>: the eight one-time codes of a user. Each is four random bytes in
  upper-case hexadecimal, stored hashed; consuming one compares the input with every
  unused code before it decides.
\<close>

subsection \<open>\<open>backup-code.repository.ts\<close>\<close>

definition backup_find_unused :: "uuid \<Rightarrow> backup_code_row list svc" where
  "backup_find_unused userId =
     query (\<lambda>d. filter (\<lambda>r. bc_user_id r = userId \<and> bc_used_at r = None) (backup_codes d))"

definition backup_insert_one :: "host \<Rightarrow> uuid \<Rightarrow> string \<Rightarrow> unit svc" where
  "backup_insert_one H userId codeHash =
     andThen (random_uuid H) (\<lambda>bid.
     andThen (new_date H) (\<lambda>now.
     andThen (check_unique (\<lambda>d. bid \<in> bc_id ` set (backup_codes d)) ''backup_codes_pkey'') (\<lambda>_.
     andThen (check_fk (user_exists userId) ''backup_codes_user_id_users_id_fk'') (\<lambda>_.
       statement (\<lambda>d. d\<lparr>backup_codes := backup_codes d @
         [\<lparr>bc_id = bid, bc_user_id = userId, bc_code_hash = codeHash, bc_used_at = None,
           bc_created_at = now\<rparr>]\<rparr>)))))"

text \<open>One \<open>INSERT\<close> of many rows: if a row fails none stays.\<close>

definition backup_insert_many :: "host \<Rightarrow> uuid \<Rightarrow> string list \<Rightarrow> unit svc" where
  "backup_insert_many H userId codeHashes w =
     (case for_each (backup_insert_one H userId) codeHashes w of
        (Inl e, w') \<Rightarrow> (Inl e, w'\<lparr>db := db w\<rparr>)
      | (Inr _, w') \<Rightarrow> (Inr (), w'))"

definition backup_mark_used :: "uuid \<Rightarrow> millis \<Rightarrow> unit svc" where
  "backup_mark_used bid usedAt =
     statement (\<lambda>d. d\<lparr>backup_codes :=
       update_where (\<lambda>r. bc_id r = bid) (\<lambda>r. r\<lparr>bc_used_at := Some usedAt\<rparr>) (backup_codes d)\<rparr>)"

subsection \<open>\<open>backup-code.service.ts\<close>\<close>

definition CODE_COUNT :: nat where "CODE_COUNT = 8"
definition CODE_BYTES :: nat where "CODE_BYTES = 4"

definition hex_digit :: "nat \<Rightarrow> char" where
  "hex_digit n = ''0123456789ABCDEF'' ! n"

text \<open>\<open>buf.toString('hex').toUpperCase()\<close>.\<close>

definition hex_upper :: "byte list \<Rightarrow> string" where
  "hex_upper bs = concat (map (\<lambda>b. [hex_digit (unat b div 16), hex_digit (unat b mod 16)]) bs)"

definition raw_code_of :: "byte list \<Rightarrow> string" where
  "raw_code_of buf = (let hex = hex_upper buf in take 4 hex @ ''-'' @ drop 4 hex)"

fun generate_raw_codes_n :: "host \<Rightarrow> nat \<Rightarrow> string list svc" where
  "generate_raw_codes_n H 0 = ret []"
| "generate_raw_codes_n H (Suc n) =
     andThen (random_bytes H CODE_BYTES) (\<lambda>buf.
     andThen (generate_raw_codes_n H n) (\<lambda>cs. ret (raw_code_of buf # cs)))"

definition generate_raw_codes :: "host \<Rightarrow> string list svc" where
  "generate_raw_codes H = generate_raw_codes_n H CODE_COUNT"

definition backup_generate_for_user :: "host \<Rightarrow> uuid \<Rightarrow> string list svc" where
  "backup_generate_for_user H userId =
     andThen (generate_raw_codes H) (\<lambda>rawCodes.
     andThen (promise_all (map (\<lambda>code. bcrypt_hash H code BCRYPT_ROUNDS) rawCodes)) (\<lambda>codeHashes.
     andThen (backup_insert_many H userId codeHashes) (\<lambda>_.
       ret rawCodes)))"

definition backup_regenerate_for_user :: "host \<Rightarrow> uuid \<Rightarrow> string \<Rightarrow> string list svc" where
  "backup_regenerate_for_user H userId currentPassword =
     andThen (user_find_by_id userId) (\<lambda>dbUser. case dbUser of
       None \<Rightarrow> throw INVALID_CREDENTIALS
     | Some u \<Rightarrow>
         andThen (auth_validate_credentials H u currentPassword) (\<lambda>_.
           run_in_tx H
             (andThen (new_date H) (\<lambda>now.
              andThen (backup_find_unused userId) (\<lambda>unused.
              andThen (promise_all (map (\<lambda>c. backup_mark_used (bc_id c) now) unused)) (\<lambda>_.
                backup_generate_for_user H userId))))))"

text \<open>The loop of \<open>consume\<close>: every code is compared, the first match is kept.\<close>

definition matched_code :: "host \<Rightarrow> string \<Rightarrow> backup_code_row list \<Rightarrow> uuid option" where
  "matched_code H rawCode codes =
     fold (\<lambda>code matchedId.
       let match = h_bcrypt_compare H rawCode (bc_code_hash code)
       in if match \<and> matchedId = None then Some (bc_id code) else matchedId) codes None"

definition backup_consume :: "host \<Rightarrow> uuid \<Rightarrow> string \<Rightarrow> unit svc" where
  "backup_consume H userId rawCode =
     andThen (backup_find_unused userId) (\<lambda>codes.
       case matched_code H rawCode codes of
         None \<Rightarrow> throw BACKUP_CODE_INVALID
       | Some matchedId \<Rightarrow>
           andThen (new_date H) (\<lambda>now. backup_mark_used matchedId now))"

definition backup_list :: "uuid \<Rightarrow> backup_code_row list svc" where
  "backup_list userId = backup_find_unused userId"

text \<open>\<open>BackupCodeController.regenerate\<close>.\<close>

definition backup_code_regenerate_body_valid :: "string \<Rightarrow> bool" where
  "backup_code_regenerate_body_valid currentPassword \<longleftrightarrow>
     1 \<le> length currentPassword \<and> length currentPassword \<le> 255"

definition backup_controller_regenerate :: "host \<Rightarrow> auth_user \<Rightarrow> string \<Rightarrow> string list svc" where
  "backup_controller_regenerate H user currentPassword =
     backup_regenerate_for_user H (aus_user_id user) currentPassword"

subsection \<open>The format of a code\<close>

definition hex_chars :: "char set" where
  "hex_chars = set ''0123456789ABCDEF''"

lemma hex_digit_range: "n < 16 \<Longrightarrow> hex_digit n \<in> hex_chars"
  unfolding hex_digit_def hex_chars_def by (rule nth_mem) simp

lemma hex_upper_chars: "set (hex_upper bs) \<subseteq> hex_chars"
proof -
  have "hex_digit (unat b div 16) \<in> hex_chars" "hex_digit (unat b mod 16) \<in> hex_chars"
    for b :: byte
  proof -
    have "unat b < 2 ^ LENGTH(8)" by (rule unsigned_less)
    then have "unat b div 16 < 16" by (simp add: less_mult_imp_div_less)
    then show "hex_digit (unat b div 16) \<in> hex_chars" by (rule hex_digit_range)
    show "hex_digit (unat b mod 16) \<in> hex_chars" by (rule hex_digit_range) simp
  qed
  then show ?thesis by (auto simp: hex_upper_def)
qed

lemma length_hex_upper: "length (hex_upper bs) = 2 * length bs"
  by (induction bs) (simp_all add: hex_upper_def)

text \<open>Four upper-case hexadecimal digits, a dash, four more.\<close>

definition code_format :: "string \<Rightarrow> bool" where
  "code_format c \<longleftrightarrow> length c = 9 \<and> c ! 4 = CHR ''-'' \<and>
     set (take 4 c) \<subseteq> hex_chars \<and> set (drop 5 c) \<subseteq> hex_chars"

lemma raw_code_format:
  assumes "length buf = 4"
  shows "code_format (raw_code_of buf)"
proof -
  have "length (hex_upper buf) = 8" using assms by (simp add: length_hex_upper)
  moreover have "set (take 4 (hex_upper buf)) \<subseteq> hex_chars" "set (drop 4 (hex_upper buf)) \<subseteq> hex_chars"
    using hex_upper_chars [of buf] set_take_subset [of 4 "hex_upper buf"] set_drop_subset [of 4 "hex_upper buf"]
    by auto
  ultimately show ?thesis by (simp add: code_format_def raw_code_of_def Let_def nth_append)
qed

lemma matched_code_eq:
  "matched_code H raw codes = map_option bc_id (find (\<lambda>c. h_bcrypt_compare H raw (bc_code_hash c)) codes)"
proof -
  have "fold (\<lambda>code m. if h_bcrypt_compare H raw (bc_code_hash code) \<and> m = None then Some (bc_id code) else m) codes (Some i) = Some i"
    for i by (induction codes) auto
  then show ?thesis unfolding matched_code_def Let_def by (induction codes) auto
qed

definition unused_of :: "uuid \<Rightarrow> database \<Rightarrow> backup_code_row list" where
  "unused_of u d = filter (\<lambda>r. bc_user_id r = u \<and> bc_used_at r = None) (backup_codes d)"

lemma backup_consume_run:
  "backup_consume H u raw w =
     (case find (\<lambda>c. h_bcrypt_compare H raw (bc_code_hash c)) (unused_of u (db w)) of
        None \<Rightarrow> (Inl (ApiException BACKUP_CODE_INVALID), w)
      | Some c \<Rightarrow> (Inr (), w\<lparr>draws := Suc (draws w), db := (db w)\<lparr>backup_codes :=
          update_where (\<lambda>r. bc_id r = bc_id c) (\<lambda>r. r\<lparr>bc_used_at := Some (h_clock H (draws w))\<rparr>)
            (backup_codes (db w))\<rparr>\<rparr>))"
  by (simp add: backup_consume_def backup_find_unused_def matched_code_eq unused_of_def svc andThen_def
      backup_mark_used_def split: option.split)

lemma wp_backup_consume [wp]:
  "wp (backup_consume H u raw) Q w =
     (case find (\<lambda>c. h_bcrypt_compare H raw (bc_code_hash c)) (unused_of u (db w)) of
        None \<Rightarrow> Q (Inl (ApiException BACKUP_CODE_INVALID)) w
      | Some c \<Rightarrow> Q (Inr ()) (w\<lparr>draws := Suc (draws w), db := (db w)\<lparr>backup_codes :=
          update_where (\<lambda>r. bc_id r = bc_id c) (\<lambda>r. r\<lparr>bc_used_at := Some (h_clock H (draws w))\<rparr>)
            (backup_codes (db w))\<rparr>\<rparr>))"
  by (simp add: wp_def backup_consume_run split: option.split)

subsection \<open>Generation\<close>

lemma generate_raw_codes_run:
  "generate_raw_codes_n H n w =
     (Inr (map (\<lambda>i. raw_code_of (h_random_bytes H i 4)) [draws w ..< draws w + n]), w\<lparr>draws := draws w + n\<rparr>)"
proof (induction n arbitrary: w)
  case (Suc n)
  then show ?case by (simp add: andThen_def svc CODE_BYTES_def upt_conv_Cons del: upt_Suc)
qed (simp add: svc)

lemma hash_all_run:
  "promise_all (map (\<lambda>code. bcrypt_hash H code k) cs) w =
     (Inr (map (\<lambda>(i, c). h_bcrypt_hash H i c k) (zip [draws w ..< draws w + length cs] cs)),
      w\<lparr>draws := draws w + length cs\<rparr>)"
proof (induction cs arbitrary: w)
  case (Cons c cs)
  then show ?case by (simp add: bcrypt_hash_def svc upt_conv_Cons del: upt_Suc)
qed simp

lemma insert_codes_Inr:
  "for_each (backup_insert_one H u) hs w = (Inr x, w') \<Longrightarrow>
     \<exists>rs. backup_codes (db w') = backup_codes (db w) @ rs \<and> db w' = (db w)\<lparr>backup_codes := backup_codes (db w')\<rparr> \<and>
       map bc_code_hash rs = hs \<and> (\<forall>r\<in>set rs. bc_user_id r = u \<and> bc_used_at r = None)"
proof (induction hs arbitrary: w)
  case Nil
  then show ?case by (simp add: svc)
next
  case (Cons h hs)
  from Cons.prems obtain w1 where w1: "backup_insert_one H u h w = (Inr (), w1)"
    and rest: "for_each (backup_insert_one H u) hs w1 = (Inr x, w')"
    by (auto simp: svc_elim)
  from w1 obtain r where "db w1 = (db w)\<lparr>backup_codes := backup_codes (db w) @ [r]\<rparr>"
    "bc_code_hash r = h" "bc_user_id r = u" "bc_used_at r = None"
    by (auto simp: backup_insert_one_def svc svc_elim split: if_splits)
  moreover from Cons.IH [OF rest] obtain rs where "backup_codes (db w') = backup_codes (db w1) @ rs"
    "db w' = (db w1)\<lparr>backup_codes := backup_codes (db w')\<rparr>" "map bc_code_hash rs = hs"
    "\<forall>r\<in>set rs. bc_user_id r = u \<and> bc_used_at r = None" by blast
  ultimately show ?case by (intro exI [of _ "r # rs"]) simp
qed

lemma mark_all_run:
  "promise_all (map (\<lambda>c. backup_mark_used (bc_id c) t) cs) w =
     (Inr (map (\<lambda>_. ()) cs), w\<lparr>db := (db w)\<lparr>backup_codes :=
        update_where (\<lambda>r. bc_id r \<in> bc_id ` set cs) (\<lambda>r. r\<lparr>bc_used_at := Some t\<rparr>) (backup_codes (db w))\<rparr>\<rparr>)"
proof (induction cs arbitrary: w)
  case Nil
  then show ?case by (simp add: update_where_id)
next
  case (Cons c cs)
  have "update_where (\<lambda>r. bc_id r \<in> bc_id ` set cs) (\<lambda>r. r\<lparr>bc_used_at := Some t\<rparr>)
      (update_where (\<lambda>r. bc_id r = bc_id c) (\<lambda>r. r\<lparr>bc_used_at := Some t\<rparr>) rs) =
    update_where (\<lambda>r. bc_id r \<in> bc_id ` set (c # cs)) (\<lambda>r. r\<lparr>bc_used_at := Some t\<rparr>) rs"
    for rs :: "backup_code_row list"
    by (induction rs) auto
  with Cons show ?case by (simp add: backup_mark_used_def svc)
qed

lemma unused_of_marked:
  fixes rs :: "backup_code_row list"
  assumes "distinct (map bc_id rs)"
  shows "filter (\<lambda>r. bc_user_id r = u \<and> bc_used_at r = None)
      (update_where (\<lambda>r. bc_id r \<in> bc_id ` set (filter (\<lambda>r. bc_user_id r = u \<and> bc_used_at r = None) rs))
        (\<lambda>r. r\<lparr>bc_used_at := Some t\<rparr>) rs) = []"
    and "filter (\<lambda>r. bc_user_id r \<noteq> u)
      (update_where (\<lambda>r. bc_id r \<in> bc_id ` set (filter (\<lambda>r. bc_user_id r = u \<and> bc_used_at r = None) rs))
        (\<lambda>r. r\<lparr>bc_used_at := Some t\<rparr>) rs) = filter (\<lambda>r. bc_user_id r \<noteq> u) rs"
proof -
  let ?p = "\<lambda>r. bc_id r \<in> bc_id ` set (filter (\<lambda>r. bc_user_id r = u \<and> bc_used_at r = None) rs)"
  have p: "?p r \<longleftrightarrow> bc_user_id r = u \<and> bc_used_at r = None" if "r \<in> set rs" for r
  proof
    assume "?p r"
    then obtain r' where "r' \<in> set rs" "bc_user_id r' = u" "bc_used_at r' = None" "bc_id r = bc_id r'" by auto
    with key_unique [OF assms that] show "bc_user_id r = u \<and> bc_used_at r = None" by blast
  qed (use that in auto)
  have eq: "update_where ?p (\<lambda>r. r\<lparr>bc_used_at := Some t\<rparr>) rs =
      update_where (\<lambda>r. bc_user_id r = u \<and> bc_used_at r = None) (\<lambda>r. r\<lparr>bc_used_at := Some t\<rparr>) rs"
    unfolding update_where_def using p by (intro map_cong) simp_all
  show "filter (\<lambda>r. bc_user_id r = u \<and> bc_used_at r = None) (update_where ?p (\<lambda>r. r\<lparr>bc_used_at := Some t\<rparr>) rs) = []"
    unfolding eq by (rule filter_update_where_same) simp
  show "filter (\<lambda>r. bc_user_id r \<noteq> u) (update_where ?p (\<lambda>r. r\<lparr>bc_used_at := Some t\<rparr>) rs) = filter (\<lambda>r. bc_user_id r \<noteq> u) rs"
    unfolding eq by (rule filter_update_where_other) simp
qed

lemma backup_insert_many_Inr:
  "backup_insert_many H u hs w = (Inr x, w') \<Longrightarrow>
     \<exists>rs. backup_codes (db w') = backup_codes (db w) @ rs \<and>
       map bc_code_hash rs = hs \<and> (\<forall>r\<in>set rs. bc_user_id r = u \<and> bc_used_at r = None)"
  using insert_codes_Inr [of H u hs w "()" w']
  by (auto simp: backup_insert_many_def split: prod.splits sum.splits)

definition fresh_codes :: "host \<Rightarrow> nat \<Rightarrow> string list" where
  "fresh_codes H n = map (\<lambda>i. raw_code_of (h_random_bytes H i 4)) [n ..< n + 8]"

definition code_hashes :: "host \<Rightarrow> nat \<Rightarrow> string list \<Rightarrow> string list" where
  "code_hashes H n cs = map (\<lambda>(i, c). h_bcrypt_hash H i c 10) (zip [n ..< n + length cs] cs)"

lemma backup_generate_Inr:
  "backup_generate_for_user H u w = (Inr codes, w') \<Longrightarrow>
     codes = fresh_codes H (draws w) \<and>
     (\<exists>rs. backup_codes (db w') = backup_codes (db w) @ rs \<and> map bc_code_hash rs = code_hashes H (draws w + 8) codes \<and>
       (\<forall>r\<in>set rs. bc_user_id r = u \<and> bc_used_at r = None))"
  by (auto simp: backup_generate_for_user_def generate_raw_codes_def generate_raw_codes_run CODE_COUNT_def
      hash_all_run svc_elim svc fresh_codes_def code_hashes_def BCRYPT_ROUNDS_def add.commute
      dest!: backup_insert_many_Inr simp del: upt_Suc upt_conv_Cons)

lemma backup_regenerate_Inr:
  assumes "backup_regenerate_for_user H u pw w = (Inr codes, w')"
  obtains now rs where "codes = fresh_codes H (draws w + 1)"
    "backup_codes (db w') = update_where
        (\<lambda>r. bc_id r \<in> bc_id ` set (filter (\<lambda>r. bc_user_id r = u \<and> bc_used_at r = None) (backup_codes (db w))))
        (\<lambda>r. r\<lparr>bc_used_at := Some now\<rparr>) (backup_codes (db w)) @ rs"
    "map bc_code_hash rs = code_hashes H (draws w + 9) codes"
    "\<forall>r\<in>set rs. bc_user_id r = u \<and> bc_used_at r = None"
proof -
  from assms obtain user w0 where body: "run_in_tx H
      (andThen (new_date H) (\<lambda>now. andThen (backup_find_unused u) (\<lambda>unused.
       andThen (promise_all (map (\<lambda>c. backup_mark_used (bc_id c) now) unused)) (\<lambda>_.
         backup_generate_for_user H u)))) w = (Inr codes, w')"
    by (auto simp: backup_regenerate_for_user_def user_find_by_id_def auth_validate_credentials_def Let_def
        svc_elim svc split: option.splits if_splits)
  then obtain v where "andThen (new_date H) (\<lambda>now. andThen (backup_find_unused u) (\<lambda>unused.
       andThen (promise_all (map (\<lambda>c. backup_mark_used (bc_id c) now) unused)) (\<lambda>_.
         backup_generate_for_user H u))) (w\<lparr>in_tx := True\<rparr>) = (Inr codes, v)" "db w' = db v"
    by (rule run_in_tx_Inr)
  then show thesis
    using that [of "h_clock H (draws w)"]
    by (auto simp: svc_elim svc backup_find_unused_def mark_all_run add.commute dest!: backup_generate_Inr)
qed

lemma fresh_codes_format: "(\<And>i. length (h_random_bytes H i 4) = 4) \<Longrightarrow> c \<in> set (fresh_codes H n) \<Longrightarrow> code_format c"
  by (auto simp: fresh_codes_def intro: raw_code_format)

lemma length_fresh_codes [simp]: "length (fresh_codes H n) = 8"
  by (simp add: fresh_codes_def)

subsection \<open>Properties\<close>

text \<open>
  Regenerating backup codes leaves the user with exactly the eight codes returned, each
  of the form \<open>XXXX-XXXX\<close> in upper-case hexadecimal and stored as its bcrypt hash; every
  code unused before is used up, and no other user's code changes.
\<close>

theorem backup_regenerate_leaves_exactly_eight:
  assumes "backup_regenerate_for_user H u pw w = (Inr codes, w')"
    and "distinct (map bc_id (backup_codes (db w)))" and "\<And>i. length (h_random_bytes H i 4) = 4"
  shows "length codes = 8 \<and> (\<forall>c\<in>set codes. code_format c) \<and>
    map bc_code_hash (unused_of u (db w')) = code_hashes H (draws w + 9) codes \<and>
    filter (\<lambda>r. bc_user_id r \<noteq> u) (backup_codes (db w')) = filter (\<lambda>r. bc_user_id r \<noteq> u) (backup_codes (db w))"
proof -
  obtain now rs where r: "codes = fresh_codes H (draws w + 1)"
    "backup_codes (db w') = update_where
        (\<lambda>r. bc_id r \<in> bc_id ` set (filter (\<lambda>r. bc_user_id r = u \<and> bc_used_at r = None) (backup_codes (db w))))
        (\<lambda>r. r\<lparr>bc_used_at := Some now\<rparr>) (backup_codes (db w)) @ rs"
    "map bc_code_hash rs = code_hashes H (draws w + 9) codes"
    "\<forall>r\<in>set rs. bc_user_id r = u \<and> bc_used_at r = None"
    by (rule backup_regenerate_Inr [OF assms(1)])
  have "unused_of u (db w') = rs" "filter (\<lambda>r. bc_user_id r \<noteq> u) rs = []"
    unfolding unused_of_def r(2) filter_append unused_of_marked(1) [OF assms(2)]
    using r(4) by (simp_all add: filter_id_conv filter_empty_conv)
  moreover have "\<forall>c\<in>set codes. code_format c" using r(1) fresh_codes_format [OF assms(3)] by blast
  ultimately show ?thesis
    using r(1,3) unused_of_marked(2) [OF assms(2), of u now] by (simp add: r(2))
qed

definition demo_backup :: database where
  "demo_backup = empty_db\<lparr>users := [demo_user], backup_codes :=
     [\<lparr>bc_id = ''1'', bc_user_id = ''ada'', bc_code_hash = ''AAAA-0000'', bc_used_at = None, bc_created_at = 0\<rparr>]\<rparr>"

lemma demo_backup_regenerates:
  "\<exists>codes w'. backup_regenerate_for_user demo_host ''ada'' ''pw'' (demo_world demo_backup) = (Inr codes, w')"
  by (simp add: backup_regenerate_for_user_def user_find_by_id_def auth_validate_credentials_def
      pepper_password_def svc andThen_def run_in_tx_def tx_current_def db_transaction_def tx_run_def
      demo_backup_def demo_user_def backup_find_unused_def mark_all_run backup_generate_for_user_def
      generate_raw_codes_def generate_raw_codes_run hash_all_run CODE_COUNT_def BCRYPT_ROUNDS_def
      backup_insert_many_def backup_insert_one_def user_exists_def eval_nat_numeral upt_conv_Cons
      backup_mark_used_def bcrypt_hash_def del: upt_Suc)

theorem backup_regenerate_leaves_exactly_eight_witness:
  "\<exists>codes w'. backup_regenerate_for_user demo_host ''ada'' ''pw'' (demo_world demo_backup) = (Inr codes, w') \<and>
     length codes = 8 \<and> (\<forall>c\<in>set codes. code_format c)"
proof -
  obtain codes w' where run: "backup_regenerate_for_user demo_host ''ada'' ''pw'' (demo_world demo_backup) = (Inr codes, w')"
    using demo_backup_regenerates by blast
  have "distinct (map bc_id (backup_codes (db (demo_world demo_backup))))" by (simp add: demo_backup_def)
  moreover have "length (h_random_bytes demo_host i 4) = 4" for i by simp
  ultimately show ?thesis using backup_regenerate_leaves_exactly_eight [OF run] run by blast
qed

text \<open>
  A backup code is accepted exactly when it matches an unused code of the user; then
  that code is marked used, the code cannot be used again while no other unused code
  matches it, and nothing else changes. A refused code changes nothing.
\<close>

theorem backup_code_consumed_once:
  assumes "distinct (map bc_id (backup_codes (db w)))"
    and "\<forall>a\<in>set (unused_of u (db w)). \<forall>b\<in>set (unused_of u (db w)).
      h_bcrypt_compare H raw (bc_code_hash a) \<longrightarrow> h_bcrypt_compare H raw (bc_code_hash b) \<longrightarrow> bc_id a = bc_id b"
  shows "(isl (fst (backup_consume H u raw w)) \<longleftrightarrow>
      \<not> (\<exists>c\<in>set (unused_of u (db w)). h_bcrypt_compare H raw (bc_code_hash c))) \<and>
    (isl (fst (backup_consume H u raw w)) \<longrightarrow> db (snd (backup_consume H u raw w)) = db w) \<and>
    backup_consume H u raw (snd (backup_consume H u raw w)) =
      (Inl (ApiException BACKUP_CODE_INVALID), snd (backup_consume H u raw w))"
proof (cases "find (\<lambda>c. h_bcrypt_compare H raw (bc_code_hash c)) (unused_of u (db w))")
  case None
  then have "backup_consume H u raw w = (Inl (ApiException BACKUP_CODE_INVALID), w)"
    unfolding backup_consume_run [of H u raw w] by simp
  with None show ?thesis by (simp add: find_None_iff)
next
  case (Some c)
  then have c: "c \<in> set (unused_of u (db w))" "h_bcrypt_compare H raw (bc_code_hash c)"
    using find_Some_set by fastforce+
  let ?w = "snd (backup_consume H u raw w)"
  have w': "?w = w\<lparr>draws := Suc (draws w), db := (db w)\<lparr>backup_codes :=
          update_where (\<lambda>r. bc_id r = bc_id c) (\<lambda>r. r\<lparr>bc_used_at := Some (h_clock H (draws w))\<rparr>)
            (backup_codes (db w))\<rparr>\<rparr>"
    using Some unfolding backup_consume_run [of H u raw w] by simp
  have "\<not> h_bcrypt_compare H raw (bc_code_hash b)" if b: "b \<in> set (unused_of u (db ?w))" for b
  proof
    assume m: "h_bcrypt_compare H raw (bc_code_hash b)"
    from b have b': "b \<in> set (unused_of u (db w)) \<and> bc_id b \<noteq> bc_id c"
      by (auto simp: w' unused_of_def set_update_where split: if_splits)
    with assms(2) c m show False by blast
  qed
  then have "find (\<lambda>c. h_bcrypt_compare H raw (bc_code_hash c)) (unused_of u (db ?w)) = None"
    by (simp add: find_None_iff)
  then have "backup_consume H u raw ?w = (Inl (ApiException BACKUP_CODE_INVALID), ?w)"
    unfolding backup_consume_run [of H u raw ?w] by simp
  moreover have "\<not> isl (fst (backup_consume H u raw w))"
    using Some unfolding backup_consume_run [of H u raw w] by simp
  ultimately show ?thesis using c by blast
qed

theorem backup_code_consumed_once_witness:
  "fst (backup_consume demo_host ''ada'' ''AAAA-0000''
     (snd (backup_consume demo_host ''ada'' ''AAAA-0000'' (demo_world demo_backup)))) =
   Inl (ApiException BACKUP_CODE_INVALID)"
proof -
  have "distinct (map bc_id (backup_codes (db (demo_world demo_backup))))" by (simp add: demo_backup_def)
  moreover have "\<forall>a\<in>set (unused_of ''ada'' (db (demo_world demo_backup))).
      \<forall>b\<in>set (unused_of ''ada'' (db (demo_world demo_backup))).
      h_bcrypt_compare demo_host ''AAAA-0000'' (bc_code_hash a) \<longrightarrow>
      h_bcrypt_compare demo_host ''AAAA-0000'' (bc_code_hash b) \<longrightarrow> bc_id a = bc_id b"
    by (simp add: demo_backup_def unused_of_def)
  ultimately have "backup_consume demo_host ''ada'' ''AAAA-0000''
      (snd (backup_consume demo_host ''ada'' ''AAAA-0000'' (demo_world demo_backup))) =
    (Inl (ApiException BACKUP_CODE_INVALID), snd (backup_consume demo_host ''ada'' ''AAAA-0000'' (demo_world demo_backup)))"
    by (rule backup_code_consumed_once [THEN conjunct2, THEN conjunct2])
  then show ?thesis by (rule arg_cong [where f = fst, THEN trans]) (rule fst_conv)
qed

end
