(* ===== verification/TwoFa.thy ===== *)
theory TwoFa
  imports BackupCodes
begin

text \<open>
  \<open>twofa\<close>: the challenges, the TOTP secrets with their lockout, the three strategies and
  their registry, and the service that creates, answers and completes challenges. A
  strategy is a record of its methods, as the \<open>TwoFaStrategy\<close> interface has them.
\<close>

subsection \<open>\<open>twofa.repository.ts\<close>\<close>

definition challenge_insert :: "host \<Rightarrow> uuid \<Rightarrow> string \<Rightarrow> string \<Rightarrow> millis \<Rightarrow> challenge_row svc" where
  "challenge_insert H userId options correctNum expiresAt =
     andThen (random_uuid H) (\<lambda>cid.
     andThen (new_date H) (\<lambda>now.
     andThen (check_unique (\<lambda>d. cid \<in> ch_id ` set (two_fa_challenges d)) ''two_fa_challenges_pkey'') (\<lambda>_.
     andThen (check_fk (user_exists userId) ''two_fa_challenges_user_id_users_id_fk'') (\<lambda>_.
     let row = \<lparr>ch_id = cid, ch_user_id = userId, ch_options = options, ch_correct_num = correctNum,
                ch_status = PENDING, ch_created_at = now, ch_expires_at = expiresAt, ch_responded_at = None\<rparr> in
     andThen (statement (\<lambda>d. d\<lparr>two_fa_challenges := two_fa_challenges d @ [row]\<rparr>)) (\<lambda>_. ret row)))))"

definition challenge_find_by_id :: "uuid \<Rightarrow> challenge_row option svc" where
  "challenge_find_by_id cid = query (\<lambda>d. find (\<lambda>r. ch_id r = cid) (two_fa_challenges d))"

text \<open>An undefined \<open>respondedAt\<close> is left out of the \<open>SET\<close> list.\<close>

definition challenge_update_status :: "uuid \<Rightarrow> challenge_status \<Rightarrow> millis option \<Rightarrow> unit svc" where
  "challenge_update_status cid status respondedAt =
     statement (\<lambda>d. d\<lparr>two_fa_challenges := update_where (\<lambda>r. ch_id r = cid)
       (\<lambda>r. r\<lparr>ch_status := status,
             ch_responded_at := (case respondedAt of None \<Rightarrow> ch_responded_at r | Some t \<Rightarrow> Some t)\<rparr>)
       (two_fa_challenges d)\<rparr>)"

subsection \<open>\<open>totp.repository.ts\<close>, \<open>totp.service.ts\<close>\<close>

definition totp_find_by_user_id :: "uuid \<Rightarrow> totp_row option svc" where
  "totp_find_by_user_id userId = query (\<lambda>d. find (\<lambda>r. tp_user_id r = userId) (two_fa_totp d))"

definition totp_find_by_id :: "uuid \<Rightarrow> totp_row option svc" where
  "totp_find_by_id tid = query (\<lambda>d. find (\<lambda>r. tp_id r = tid) (two_fa_totp d))"

definition totp_repo_insert :: "host \<Rightarrow> uuid \<Rightarrow> encrypted_payload \<Rightarrow> totp_row svc" where
  "totp_repo_insert H userId enc =
     andThen (random_uuid H) (\<lambda>tid.
     andThen (new_date H) (\<lambda>now.
     andThen (check_unique (\<lambda>d. tid \<in> tp_id ` set (two_fa_totp d)) ''two_fa_totp_pkey'') (\<lambda>_.
     andThen (check_unique (\<lambda>d. userId \<in> tp_user_id ` set (two_fa_totp d)) ''two_fa_totp_user_id_index'') (\<lambda>_.
     andThen (check_fk (user_exists userId) ''two_fa_totp_user_id_users_id_fk'') (\<lambda>_.
     let row = \<lparr>tp_id = tid, tp_user_id = userId, tp_secret_encrypted = ep_ciphertext enc, tp_iv = ep_iv enc,
                tp_auth_tag = ep_auth_tag enc, tp_algorithm = SHA1, tp_digits = 6, tp_period_sec = 30,
                tp_created_at = now, tp_last_used_at = None\<rparr> in
     andThen (statement (\<lambda>d. d\<lparr>two_fa_totp := two_fa_totp d @ [row]\<rparr>)) (\<lambda>_. ret row))))))"

text \<open>The rows with the identifier are deleted first; the owner is compared afterwards.\<close>

definition totp_delete_by_id_for_user :: "uuid \<Rightarrow> uuid \<Rightarrow> bool svc" where
  "totp_delete_by_id_for_user tid userId =
     andThen (query (\<lambda>d. filter (\<lambda>r. tp_id r = tid) (two_fa_totp d))) (\<lambda>rows.
     andThen (statement (\<lambda>d. d\<lparr>two_fa_totp := delete_where (\<lambda>r. tp_id r = tid) (two_fa_totp d)\<rparr>)) (\<lambda>_.
       ret (length rows = 1 \<and> tp_user_id (rows ! 0) = userId)))"

definition totp_update_last_used_at :: "uuid \<Rightarrow> millis \<Rightarrow> unit svc" where
  "totp_update_last_used_at tid lastUsedAt =
     statement (\<lambda>d. d\<lparr>two_fa_totp :=
       update_where (\<lambda>r. tp_id r = tid) (\<lambda>r. r\<lparr>tp_last_used_at := Some lastUsedAt\<rparr>) (two_fa_totp d)\<rparr>)"

datatype setup_start_result = SetupPending string string | SetupEnrolled uuid

definition ISSUER :: string where "ISSUER = ''terab''"

definition otp_verify :: "host \<Rightarrow> string \<Rightarrow> string \<Rightarrow> bool svc" where
  "otp_verify H token secret = draw (\<lambda>i. h_otp_valid H (h_clock H i) token secret)"

definition totp_start_setup :: "host \<Rightarrow> uuid \<Rightarrow> setup_start_result svc" where
  "totp_start_setup H userId =
     andThen (totp_find_by_user_id userId) (\<lambda>existing. case existing of
       Some row \<Rightarrow> ret (SetupEnrolled (tp_id row))
     | None \<Rightarrow>
         andThen (draw (h_otp_secret H)) (\<lambda>secret.
           ret (SetupPending secret (h_otp_uri H userId ISSUER secret))))"

definition totp_complete_setup :: "host \<Rightarrow> uuid \<Rightarrow> string \<Rightarrow> string \<Rightarrow> uuid svc" where
  "totp_complete_setup H userId secret code =
     andThen (totp_find_by_user_id userId) (\<lambda>existing. case existing of
       Some _ \<Rightarrow> throw TWOFA_SETUP_NOT_SUPPORTED
     | None \<Rightarrow>
         andThen (otp_verify H code secret) (\<lambda>valid.
           if \<not> valid then throw TWOFA_TOTP_INVALID_CODE
           else andThen (encrypt H secret) (\<lambda>enc.
                andThen (totp_repo_insert H userId enc) (\<lambda>row. ret (tp_id row)))))"

definition totp_verify_code :: "host \<Rightarrow> uuid \<Rightarrow> string \<Rightarrow> bool svc" where
  "totp_verify_code H userId code =
     andThen (totp_find_by_user_id userId) (\<lambda>found. case found of
       None \<Rightarrow> ret False
     | Some row \<Rightarrow>
         (case decrypt H \<lparr>ep_ciphertext = tp_secret_encrypted row, ep_iv = tp_iv row, ep_auth_tag = tp_auth_tag row\<rparr> of
            Inl e \<Rightarrow> raise e
          | Inr secret \<Rightarrow>
              andThen (otp_verify H code secret) (\<lambda>valid.
                if valid
                then andThen (new_date H) (\<lambda>now.
                     andThen (totp_update_last_used_at (tp_id row) now) (\<lambda>_. ret valid))
                else ret valid)))"

definition totp_list :: "uuid \<Rightarrow> totp_row option svc" where
  "totp_list userId = totp_find_by_user_id userId"

definition totp_revoke :: "uuid \<Rightarrow> uuid \<Rightarrow> bool svc" where
  "totp_revoke userId tid = totp_delete_by_id_for_user tid userId"

subsection \<open>\<open>totp-lockout.service.ts\<close>\<close>

definition LOCKOUT_MAX_FAILURES :: nat where "LOCKOUT_MAX_FAILURES = 5"
definition LOCKOUT_TTL_MS :: int where "LOCKOUT_TTL_MS = 5 * 60 * 1000"
definition LOCKOUT_KEY_PREFIX :: string where "LOCKOUT_KEY_PREFIX = ''twofa:totp:fail:''"

definition lockout_key :: "uuid \<Rightarrow> string" where
  "lockout_key userId = LOCKOUT_KEY_PREFIX @ userId"

definition cache_get :: "host \<Rightarrow> string \<Rightarrow> cache_value option svc" where
  "cache_get H k = call H (\<lambda>cs t. h_cache_get H cs t k) (CacheGet k)"

definition count_of :: "cache_value option \<Rightarrow> nat" where
  "count_of v = (case v of Some (CountValue n) \<Rightarrow> n | _ \<Rightarrow> 0)"

definition lockout_get_failure_count :: "host \<Rightarrow> uuid \<Rightarrow> nat svc" where
  "lockout_get_failure_count H userId =
     andThen (cache_get H (lockout_key userId)) (\<lambda>v. ret (count_of v))"

definition lockout_is_locked :: "host \<Rightarrow> uuid \<Rightarrow> bool svc" where
  "lockout_is_locked H userId =
     andThen (lockout_get_failure_count H userId) (\<lambda>n. ret (LOCKOUT_MAX_FAILURES \<le> n))"

definition lockout_record_failure :: "host \<Rightarrow> uuid \<Rightarrow> unit svc" where
  "lockout_record_failure H userId =
     andThen (lockout_get_failure_count H userId) (\<lambda>n.
       call_unit H (CacheSet (lockout_key userId) (CountValue (n + 1)) LOCKOUT_TTL_MS))"

definition lockout_clear :: "host \<Rightarrow> uuid \<Rightarrow> unit svc" where
  "lockout_clear H userId = call_unit H (CacheDel (lockout_key userId))"

subsection \<open>\<open>strategies/\<close>\<close>

datatype strategy_type = PUSH | TOTP | PASSKEY | BACKUP_CODE

record strategy_instance =
  si_id :: string
  si_created_at :: millis
  si_last_used_at :: "millis option"

text \<open>A payload of unknown shape: \<open>None\<close> where the field is not a string.\<close>

record setup_payload =
  sp_secret :: "string option"
  sp_code :: "string option"

record response_payload =
  pl_selected_number :: "string option"
  pl_code :: "string option"

record two_fa_strategy =
  ts_type :: strategy_type
  ts_start_setup :: "uuid \<Rightarrow> setup_start_result svc"
  ts_complete_setup :: "uuid \<Rightarrow> setup_payload \<Rightarrow> unit svc"
  ts_create_challenge :: "uuid \<Rightarrow> challenge_row svc"
  ts_verify_response :: "uuid \<Rightarrow> uuid \<Rightarrow> response_payload \<Rightarrow> bool svc"
  ts_list :: "uuid \<Rightarrow> strategy_instance list svc"
  ts_revoke :: "uuid \<Rightarrow> uuid \<Rightarrow> unit svc"

text \<open>
  \<open>generateOptions\<close>: two-digit numbers are drawn until three different ones are in the
  set, which keeps insertion order. The loop ends only if the generator lets it; the
  second component is the number of draws made when it does.
\<close>

partial_function (option) options_loop :: "host \<Rightarrow> nat list \<Rightarrow> nat \<Rightarrow> (nat list \<times> nat) option" where
  "options_loop H nums i =
     (if length nums < 3
      then (let n = 10 + h_random_int H i 90
            in options_loop H (if n \<in> set nums then nums else nums @ [n]) (Suc i))
      else Some (nums, i))"

declare options_loop.simps [code]

definition generate_options :: "host \<Rightarrow> nat list svc" where
  "generate_options H w =
     (case options_loop H [] (draws w) of
        Some (nums, i) \<Rightarrow> (Inr nums, w\<lparr>draws := i\<rparr>)
      | None \<Rightarrow> (Inl NeverReturns, w))"

definition CHALLENGE_EXPIRY_MS :: int where "CHALLENGE_EXPIRY_MS = 60000"

definition push_create_challenge :: "host \<Rightarrow> uuid \<Rightarrow> challenge_row svc" where
  "push_create_challenge H userId =
     andThen (generate_options H) (\<lambda>optionNums.
     andThen (random_int H 3) (\<lambda>k.
     andThen (new_date H) (\<lambda>now.
       challenge_insert H userId (join_with '','' (map nat_to_string optionNums))
         (nat_to_string (optionNums ! k)) (now + CHALLENGE_EXPIRY_MS))))"

definition push_verify_response :: "host \<Rightarrow> uuid \<Rightarrow> uuid \<Rightarrow> response_payload \<Rightarrow> bool svc" where
  "push_verify_response H userId challengeId payload =
     andThen (challenge_find_by_id challengeId) (\<lambda>found. case found of
       None \<Rightarrow> throw TWOFA_CHALLENGE_NOT_FOUND
     | Some challenge \<Rightarrow>
         if ch_user_id challenge \<noteq> userId then throw FORBIDDEN
         else if ch_status challenge \<noteq> PENDING then ret False
         else andThen (new_date H) (\<lambda>now.
           if ch_expires_at challenge \<le> now then ret False
           else andThen (new_date H) (\<lambda>responded.
             if Some (ch_correct_num challenge) = pl_selected_number payload
             then andThen (challenge_update_status challengeId APPROVED (Some responded)) (\<lambda>_. ret True)
             else andThen (challenge_update_status challengeId DENIED (Some responded)) (\<lambda>_. ret False))))"

definition push_strategy :: "host \<Rightarrow> two_fa_strategy" where
  "push_strategy H = \<lparr>
     ts_type = PUSH,
     ts_start_setup = (\<lambda>_. throw TWOFA_SETUP_NOT_SUPPORTED),
     ts_complete_setup = (\<lambda>_ _. throw TWOFA_SETUP_NOT_SUPPORTED),
     ts_create_challenge = push_create_challenge H,
     ts_verify_response = push_verify_response H,
     ts_list = (\<lambda>_. throw TWOFA_SETUP_NOT_SUPPORTED),
     ts_revoke = (\<lambda>_ _. throw TWOFA_SETUP_NOT_SUPPORTED)\<rparr>"

definition backup_strategy_list :: "uuid \<Rightarrow> strategy_instance list svc" where
  "backup_strategy_list userId =
     andThen (backup_list userId) (\<lambda>unused. case unused of
       [] \<Rightarrow> ret []
     | c # _ \<Rightarrow> ret [\<lparr>si_id = ''backup-code'', si_created_at = bc_created_at c, si_last_used_at = None\<rparr>])"

definition backup_strategy_verify_response :: "host \<Rightarrow> uuid \<Rightarrow> uuid \<Rightarrow> response_payload \<Rightarrow> bool svc" where
  "backup_strategy_verify_response H userId challengeId payload =
     andThen (backup_consume H userId (nullish (pl_code payload) [])) (\<lambda>_. ret True)"

definition backup_code_strategy :: "host \<Rightarrow> two_fa_strategy" where
  "backup_code_strategy H = \<lparr>
     ts_type = BACKUP_CODE,
     ts_start_setup = (\<lambda>_. throw TWOFA_SETUP_NOT_SUPPORTED),
     ts_complete_setup = (\<lambda>_ _. throw TWOFA_SETUP_NOT_SUPPORTED),
     ts_create_challenge = (\<lambda>_. throw TWOFA_SETUP_NOT_SUPPORTED),
     ts_verify_response = backup_strategy_verify_response H,
     ts_list = backup_strategy_list,
     ts_revoke = (\<lambda>_ _. throw TWOFA_SETUP_NOT_SUPPORTED)\<rparr>"

definition totp_strategy_complete_setup :: "host \<Rightarrow> uuid \<Rightarrow> setup_payload \<Rightarrow> unit svc" where
  "totp_strategy_complete_setup H userId payload =
     (case (sp_secret payload, sp_code payload) of
        (Some secret, Some code) \<Rightarrow> andThen (totp_complete_setup H userId secret code) (\<lambda>_. ret ())
      | _ \<Rightarrow> throw TWOFA_TOTP_INVALID_CODE)"

definition totp_strategy_verify_response :: "host \<Rightarrow> uuid \<Rightarrow> uuid \<Rightarrow> response_payload \<Rightarrow> bool svc" where
  "totp_strategy_verify_response H userId challengeId payload =
     andThen (lockout_is_locked H userId) (\<lambda>locked.
       if locked then throw TWOFA_TOTP_LOCKED
       else andThen (totp_verify_code H userId (nullish (pl_code payload) [])) (\<lambda>verified.
         if \<not> verified
         then andThen (lockout_record_failure H userId) (\<lambda>_. throw TWOFA_TOTP_INVALID_CODE)
         else andThen (lockout_clear H userId) (\<lambda>_. ret True)))"

definition totp_strategy_list :: "uuid \<Rightarrow> strategy_instance list svc" where
  "totp_strategy_list userId =
     andThen (totp_list userId) (\<lambda>found. case found of
       None \<Rightarrow> ret []
     | Some row \<Rightarrow> ret [\<lparr>si_id = tp_id row, si_created_at = tp_created_at row, si_last_used_at = tp_last_used_at row\<rparr>])"

text \<open>The two arguments of \<open>TotpService.revoke(userId, id)\<close> are passed in the other order.\<close>

definition totp_strategy_revoke :: "uuid \<Rightarrow> uuid \<Rightarrow> unit svc" where
  "totp_strategy_revoke userId tid =
     andThen (totp_revoke tid userId) (\<lambda>revoked. if \<not> revoked then throw FORBIDDEN else ret ())"

definition totp_strategy :: "host \<Rightarrow> two_fa_strategy" where
  "totp_strategy H = \<lparr>
     ts_type = TOTP,
     ts_start_setup = totp_start_setup H,
     ts_complete_setup = totp_strategy_complete_setup H,
     ts_create_challenge = (\<lambda>_. throw TWOFA_SETUP_NOT_SUPPORTED),
     ts_verify_response = totp_strategy_verify_response H,
     ts_list = totp_strategy_list,
     ts_revoke = totp_strategy_revoke\<rparr>"

definition registry_map :: "two_fa_strategy list \<Rightarrow> (strategy_type \<rightharpoonup> two_fa_strategy)" where
  "registry_map strategies = fold (\<lambda>s m. m(ts_type s \<mapsto> s)) strategies Map.empty"

text \<open>The strategies \<open>twofa.module.ts\<close> provides.\<close>

definition registered_strategies :: "host \<Rightarrow> two_fa_strategy list" where
  "registered_strategies H = [push_strategy H, backup_code_strategy H, totp_strategy H]"

definition registry_get :: "host \<Rightarrow> strategy_type \<Rightarrow> two_fa_strategy svc" where
  "registry_get H t =
     (case registry_map (registered_strategies H) t of
        None \<Rightarrow> throw TWOFA_STRATEGY_NOT_FOUND
      | Some s \<Rightarrow> ret s)"

end
