(* ===== verification/Challenges.thy ===== *)
theory Challenges
  imports TwoFa
begin

text \<open>
  \<open>twofa.service.ts\<close> and the controllers of \<open>twofa\<close>: the life of a challenge. Its status
  moves along a small state machine, which is proved of every operation, and the contract
  of \<open>Single_Use\<close> is interpreted on its completion.
\<close>

subsection \<open>\<open>twofa.service.ts\<close>\<close>

datatype challenge_status_response =
    StatusPending "string list" string int
  | StatusApproved uuid
  | StatusDenied
  | StatusExpired

record resend_response =
  rr_challenge_id :: uuid
  rr_options :: "string list"
  rr_expires_at :: millis

record complete_challenge_body =
  cb_type :: "strategy_type option"
  cb_code :: "string option"
  cb_trust_device :: "bool option"

record complete_challenge_result =
  cr_user_id :: uuid
  cr_raw_trust_token :: "string option"

definition twofa_create_challenge :: "host \<Rightarrow> uuid \<Rightarrow> challenge_row svc" where
  "twofa_create_challenge H userId =
     andThen (registry_get H PUSH) (\<lambda>push. ts_create_challenge push userId)"

definition twofa_get_status :: "host \<Rightarrow> uuid \<Rightarrow> challenge_status_response svc" where
  "twofa_get_status H challengeId =
     andThen (challenge_find_by_id challengeId) (\<lambda>found. case found of
       None \<Rightarrow> throw TWOFA_CHALLENGE_NOT_FOUND
     | Some challenge \<Rightarrow>
         (case ch_status challenge of
            PENDING \<Rightarrow>
              andThen (new_date H) (\<lambda>now.
                if ch_expires_at challenge \<le> now
                then andThen (challenge_update_status challengeId EXPIRED None) (\<lambda>_. ret StatusExpired)
                else andThen (new_date H) (\<lambda>now'.
                  ret (StatusPending (split_on CHR '','' (ch_options challenge)) (ch_correct_num challenge)
                    (max 0 ((ch_expires_at challenge - now') div 1000)))))
          | APPROVED \<Rightarrow> ret (StatusApproved (ch_user_id challenge))
          | DENIED \<Rightarrow> ret StatusDenied
          | EXPIRED \<Rightarrow> ret StatusDenied))"

definition twofa_respond :: "host \<Rightarrow> uuid \<Rightarrow> uuid \<Rightarrow> string \<Rightarrow> unit svc" where
  "twofa_respond H challengeId userId selectedNumber =
     andThen (registry_get H PUSH) (\<lambda>push.
     andThen (ts_verify_response push userId challengeId
         \<lparr>pl_selected_number = Some selectedNumber, pl_code = None\<rparr>) (\<lambda>_. ret ()))"

definition twofa_claim_approved :: "uuid \<Rightarrow> uuid svc" where
  "twofa_claim_approved challengeId =
     andThen (challenge_find_by_id challengeId) (\<lambda>found. case found of
       None \<Rightarrow> throw TWOFA_CHALLENGE_NOT_FOUND
     | Some challenge \<Rightarrow>
         if ch_status challenge \<noteq> APPROVED then throw TWOFA_CHALLENGE_NOT_FOUND
         else andThen (challenge_update_status challengeId EXPIRED None) (\<lambda>_. ret (ch_user_id challenge)))"

definition twofa_resend :: "host \<Rightarrow> uuid \<Rightarrow> resend_response svc" where
  "twofa_resend H oldChallengeId =
     andThen (challenge_find_by_id oldChallengeId) (\<lambda>found. case found of
       None \<Rightarrow> throw TWOFA_CHALLENGE_NOT_FOUND
     | Some old \<Rightarrow>
         andThen (if ch_status old = PENDING then challenge_update_status oldChallengeId EXPIRED None else ret ()) (\<lambda>_.
         andThen (twofa_create_challenge H (ch_user_id old)) (\<lambda>challenge.
           ret \<lparr>rr_challenge_id = ch_id challenge, rr_options = split_on CHR '','' (ch_options challenge),
                rr_expires_at = ch_expires_at challenge\<rparr>)))"

definition twofa_verify_and_claim :: "host \<Rightarrow> uuid \<Rightarrow> complete_challenge_body \<Rightarrow> uuid svc" where
  "twofa_verify_and_claim H challengeId body =
     (let type = nullish (cb_type body) PUSH in
      if type = PUSH then twofa_claim_approved challengeId
      else andThen (challenge_find_by_id challengeId) (\<lambda>found. case found of
        None \<Rightarrow> throw TWOFA_CHALLENGE_NOT_FOUND
      | Some challenge \<Rightarrow>
          if ch_status challenge \<noteq> PENDING then throw TWOFA_CHALLENGE_NOT_FOUND
          else andThen (new_date H) (\<lambda>now.
            if ch_expires_at challenge \<le> now then throw TWOFA_CHALLENGE_NOT_FOUND
            else andThen (registry_get H type) (\<lambda>strategy.
                 andThen (ts_verify_response strategy (ch_user_id challenge) challengeId
                     \<lparr>pl_selected_number = None, pl_code = Some (nullish (cb_code body) [])\<rparr>) (\<lambda>_.
                 andThen (challenge_update_status challengeId EXPIRED None) (\<lambda>_.
                   ret (ch_user_id challenge)))))))"

definition twofa_complete_challenge ::
    "host \<Rightarrow> uuid \<Rightarrow> complete_challenge_body \<Rightarrow> string option \<Rightarrow> complete_challenge_result svc" where
  "twofa_complete_challenge H challengeId body userAgent = run_in_tx H
     (andThen (twofa_verify_and_claim H challengeId body) (\<lambda>userId.
        if cb_trust_device body \<noteq> Some True then ret \<lparr>cr_user_id = userId, cr_raw_trust_token = None\<rparr>
        else andThen (trusted_register H userId userAgent) (\<lambda>rawTrustToken.
          ret \<lparr>cr_user_id = userId, cr_raw_trust_token = Some rawTrustToken\<rparr>)))"

fun count_strategies :: "host \<Rightarrow> uuid \<Rightarrow> strategy_type \<Rightarrow> string \<Rightarrow> strategy_type list \<Rightarrow> nat svc" where
  "count_strategies H userId excludeType excludeId [] = ret 0"
| "count_strategies H userId excludeType excludeId (t # ts) =
     andThen (registry_get H t) (\<lambda>strategy.
     andThen (ts_list strategy userId) (\<lambda>instances.
     andThen (count_strategies H userId excludeType excludeId ts) (\<lambda>n.
       ret ((if t = excludeType then length (filter (\<lambda>i. si_id i \<noteq> excludeId) instances)
             else length instances) + n))))"

definition count_remaining_non_push :: "host \<Rightarrow> uuid \<Rightarrow> strategy_type \<Rightarrow> string \<Rightarrow> nat svc" where
  "count_remaining_non_push H userId excludeType excludeId =
     count_strategies H userId excludeType excludeId [TOTP, BACKUP_CODE]"

definition twofa_remove_strategy :: "host \<Rightarrow> uuid \<Rightarrow> strategy_type \<Rightarrow> uuid \<Rightarrow> unit svc" where
  "twofa_remove_strategy H userId type sid =
     andThen (count_remaining_non_push H userId type sid) (\<lambda>remaining.
       if remaining = 0 then throw TWOFA_LAST_STRATEGY_CANNOT_REMOVE
       else andThen (registry_get H type) (\<lambda>strategy. ts_revoke strategy userId sid))"

definition twofa_issue_authenticated_response ::
    "host \<Rightarrow> uuid \<Rightarrow> string option \<Rightarrow> login_response svc" where
  "twofa_issue_authenticated_response H userId rawTrustToken =
     andThen (auth_issue_after_two_fa H userId) (\<lambda>response.
     andThen (if truthy rawTrustToken then set_trust_cookie H (the rawTrustToken) trust_duration_ms else ret ()) (\<lambda>_.
       ret response))"

subsection \<open>\<open>challenge.controller.ts\<close>, \<open>totp.controller.ts\<close>\<close>

definition challenge_controller_get_status :: "host \<Rightarrow> uuid \<Rightarrow> challenge_status_response svc" where
  "challenge_controller_get_status H cid = twofa_get_status H cid"

definition challenge_controller_respond :: "host \<Rightarrow> auth_user \<Rightarrow> uuid \<Rightarrow> string \<Rightarrow> unit svc" where
  "challenge_controller_respond H user cid selectedNumber = twofa_respond H cid (aus_user_id user) selectedNumber"

definition challenge_controller_resend :: "host \<Rightarrow> uuid \<Rightarrow> resend_response svc" where
  "challenge_controller_resend H cid = twofa_resend H cid"

definition challenge_controller_complete ::
    "host \<Rightarrow> uuid \<Rightarrow> complete_challenge_body \<Rightarrow> string option \<Rightarrow> login_response svc" where
  "challenge_controller_complete H cid body userAgent =
     andThen (twofa_complete_challenge H cid body userAgent) (\<lambda>result.
       twofa_issue_authenticated_response H (cr_user_id result) (cr_raw_trust_token result))"

definition totp_controller_start_setup :: "host \<Rightarrow> auth_user \<Rightarrow> setup_start_result svc" where
  "totp_controller_start_setup H user = ts_start_setup (totp_strategy H) (aus_user_id user)"

definition totp_controller_complete_setup :: "host \<Rightarrow> auth_user \<Rightarrow> setup_payload \<Rightarrow> unit svc" where
  "totp_controller_complete_setup H user body = ts_complete_setup (totp_strategy H) (aus_user_id user) body"

definition totp_controller_list :: "host \<Rightarrow> auth_user \<Rightarrow> strategy_instance list svc" where
  "totp_controller_list H user = ts_list (totp_strategy H) (aus_user_id user)"

definition totp_controller_revoke :: "host \<Rightarrow> auth_user \<Rightarrow> uuid \<Rightarrow> unit svc" where
  "totp_controller_revoke H user tid = twofa_remove_strategy H (aus_user_id user) TOTP tid"

text \<open>The \<open>Matches\<close> patterns of the bodies: two digits, six digits.\<close>

definition all_digits :: "nat \<Rightarrow> string \<Rightarrow> bool" where
  "all_digits n s \<longleftrightarrow> length s = n \<and> set s \<subseteq> digit_chars"

definition respond_challenge_body_valid :: "string \<Rightarrow> bool" where
  "respond_challenge_body_valid selectedNumber \<longleftrightarrow> all_digits 2 selectedNumber"

definition complete_challenge_body_valid :: "complete_challenge_body \<Rightarrow> bool" where
  "complete_challenge_body_valid b \<longleftrightarrow>
     (case cb_type b of None \<Rightarrow> True | Some t \<Rightarrow> t = PUSH \<or> t = TOTP) \<and>
     (cb_type b = Some TOTP \<longrightarrow> (case cb_code b of None \<Rightarrow> False | Some c \<Rightarrow> all_digits 6 c))"

definition totp_setup_complete_body_valid :: "string \<Rightarrow> string \<Rightarrow> bool" where
  "totp_setup_complete_body_valid secret code \<longleftrightarrow> 16 \<le> length secret \<and> all_digits 6 code"

subsection \<open>The registry and the generator\<close>

lemma registry_get_simps [simp]:
  "registry_get H PUSH = ret (push_strategy H)"
  "registry_get H TOTP = ret (totp_strategy H)"
  "registry_get H BACKUP_CODE = ret (backup_code_strategy H)"
  "registry_get H PASSKEY = throw TWOFA_STRATEGY_NOT_FOUND"
  by (simp_all add: registry_get_def registry_map_def registered_strategies_def push_strategy_def
      totp_strategy_def backup_code_strategy_def)

lemma strategy_simps [simp]:
  "ts_create_challenge (push_strategy H) = push_create_challenge H"
  "ts_verify_response (push_strategy H) = push_verify_response H"
  "ts_verify_response (totp_strategy H) = totp_strategy_verify_response H"
  "ts_verify_response (backup_code_strategy H) = backup_strategy_verify_response H"
  "ts_list (totp_strategy H) = totp_strategy_list"
  "ts_list (backup_code_strategy H) = backup_strategy_list"
  "ts_revoke (totp_strategy H) = totp_strategy_revoke"
  by (simp_all add: push_strategy_def totp_strategy_def backup_code_strategy_def)

text \<open>What the loop of \<open>generateOptions\<close> returns when it returns, and that it returns.\<close>

definition options_good :: "host \<Rightarrow> nat list \<Rightarrow> nat \<Rightarrow> nat list \<times> nat \<Rightarrow> bool" where
  "options_good H nums i y \<longleftrightarrow> distinct nums \<longrightarrow> length nums \<le> 3 \<longrightarrow> set nums \<subseteq> {10..<100} \<longrightarrow>
     (\<forall>k. h_random_int H k 90 < 90) \<longrightarrow>
     i \<le> snd y \<and> distinct (fst y) \<and> length (fst y) = 3 \<and> set (fst y) \<subseteq> {10..<100}"

lemma options_loop_result:
  assumes "options_loop H nums i = Some y"
  shows "options_good H nums i y"
proof (rule options_loop.raw_induct [where P = options_good, OF _ assms], goal_cases)
  case (1 f H nums i y)
  let ?n = "10 + h_random_int H i 90"
  show ?case
  proof (cases "length nums < 3")
    case True
    then have "options_good H (if ?n \<in> set nums then nums else nums @ [?n]) (Suc i) y"
      using 1 by (simp add: Let_def split: if_splits)
    with True show ?thesis by (auto simp: options_good_def split: if_splits)
  next
    case False
    with 1(2) have "y = (nums, i)" by simp
    with False show ?thesis by (auto simp: options_good_def)
  qed
qed

lemma options_loop_returns:
  "3 \<le> card (set nums \<union> (\<lambda>k. 10 + h_random_int H k 90) ` {i ..< i + m}) \<Longrightarrow>
     \<exists>y. options_loop H nums i = Some y"
proof (induction m arbitrary: nums i)
  case 0
  then have "\<not> length nums < 3" using card_length [of nums] by simp
  then show ?case by (simp add: options_loop.simps)
next
  case (Suc m)
  let ?n = "10 + h_random_int H i 90"
  let ?nums = "if ?n \<in> set nums then nums else nums @ [?n]"
  have "{i ..< i + Suc m} = insert i {Suc i ..< Suc i + m}" by auto
  then have "set nums \<union> (\<lambda>k. 10 + h_random_int H k 90) ` {i ..< i + Suc m} =
      set ?nums \<union> (\<lambda>k. 10 + h_random_int H k 90) ` {Suc i ..< Suc i + m}" by auto
  with Suc.prems have "\<exists>y. options_loop H ?nums (Suc i) = Some y" by (intro Suc.IH) simp
  then show ?case by (subst options_loop.simps) (auto simp: Let_def)
qed

subsection \<open>The state machine of a challenge\<close>

inductive challenge_move :: "challenge_status \<Rightarrow> challenge_status \<Rightarrow> bool" where
  approve: "challenge_move PENDING APPROVED"
| deny: "challenge_move PENDING DENIED"
| expire: "challenge_move PENDING EXPIRED"
| claim: "challenge_move APPROVED EXPIRED"

inductive_cases challenge_moveE: "challenge_move s t"
inductive_simps challenge_move_from: "challenge_move PENDING t" "challenge_move APPROVED t"
  "challenge_move DENIED t" "challenge_move EXPIRED t"

code_pred challenge_move .

text \<open>The same challenge, its status moved along the machine or not at all.\<close>

definition challenge_evolves :: "challenge_row \<Rightarrow> challenge_row \<Rightarrow> bool" where
  "challenge_evolves r r' \<longleftrightarrow> ch_id r' = ch_id r \<and> ch_user_id r' = ch_user_id r \<and> ch_options r' = ch_options r \<and>
     ch_correct_num r' = ch_correct_num r \<and> ch_expires_at r' = ch_expires_at r \<and>
     challenge_move\<^sup>*\<^sup>* (ch_status r) (ch_status r')"

datatype challenge_op =
    CreateChallenge uuid
  | PollStatus uuid
  | Respond uuid uuid string
  | Resend uuid
  | Complete uuid complete_challenge_body "string option"

definition challenge_step :: "host \<Rightarrow> challenge_op \<Rightarrow> world \<Rightarrow> world" where
  "challenge_step H a w = (case a of
     CreateChallenge u \<Rightarrow> snd (twofa_create_challenge H u w)
   | PollStatus c \<Rightarrow> snd (twofa_get_status H c w)
   | Respond c u n \<Rightarrow> snd (twofa_respond H c u n w)
   | Resend c \<Rightarrow> snd (twofa_resend H c w)
   | Complete c body agent \<Rightarrow> snd (twofa_complete_challenge H c body agent w))"

definition with_status :: "uuid \<Rightarrow> challenge_status \<Rightarrow> millis option \<Rightarrow> challenge_row list \<Rightarrow> challenge_row list" where
  "with_status cid s t rs = update_where (\<lambda>r. ch_id r = cid)
     (\<lambda>r. r\<lparr>ch_status := s, ch_responded_at := (case t of None \<Rightarrow> ch_responded_at r | Some x \<Rightarrow> Some x)\<rparr>) rs"

definition challenge_of :: "uuid \<Rightarrow> database \<Rightarrow> challenge_row option" where
  "challenge_of cid d = find (\<lambda>r. ch_id r = cid) (two_fa_challenges d)"

lemma wp_find_challenge [wp]:
  "wp (challenge_find_by_id cid) Q w = Q (Inr (challenge_of cid (db w))) w"
  by (simp add: challenge_find_by_id_def challenge_of_def wp)

lemma wp_update_status [wp]:
  "wp (challenge_update_status cid s t) Q w =
     Q (Inr ()) (w\<lparr>db := (db w)\<lparr>two_fa_challenges := with_status cid s t (two_fa_challenges (db w))\<rparr>\<rparr>)"
  by (simp add: challenge_update_status_def with_status_def wp)

definition appends_pending :: "uuid \<Rightarrow> challenge_row list \<Rightarrow> challenge_row list \<Rightarrow> bool" where
  "appends_pending u rs rs' \<longleftrightarrow> rs' = rs \<or>
     (\<exists>c. rs' = rs @ [c] \<and> ch_user_id c = u \<and> ch_status c = PENDING \<and> ch_id c \<notin> ch_id ` set rs)"

lemma wp_generate_options [wp]:
  "wp (generate_options H) Q w = (case options_loop H [] (draws w) of
     Some (nums, i) \<Rightarrow> Q (Inr nums) (w\<lparr>draws := i\<rparr>) | None \<Rightarrow> Q (Inl NeverReturns) w)"
  by (simp add: wp_def generate_options_def split: option.split prod.split)

definition challenge_row_at :: "host \<Rightarrow> nat \<Rightarrow> uuid \<Rightarrow> string \<Rightarrow> string \<Rightarrow> millis \<Rightarrow> challenge_row" where
  "challenge_row_at H n u opts num expires =
     \<lparr>ch_id = h_uuid H n, ch_user_id = u, ch_options = opts, ch_correct_num = num, ch_status = PENDING,
      ch_created_at = h_clock H (Suc n), ch_expires_at = expires, ch_responded_at = None\<rparr>"

lemma wp_challenge_insert [wp]:
  "wp (challenge_insert H u opts num expires) Q w =
     (let rs = two_fa_challenges (db w); n = draws w; c = challenge_row_at H n u opts num expires;
          w1 = w\<lparr>draws := Suc (Suc n)\<rparr> in
      if h_uuid H n \<in> ch_id ` set rs then Q (Inl (PgError ''23505'' ''two_fa_challenges_pkey'')) w1
      else if \<not> user_exists u (db w) then Q (Inl (PgError ''23503'' ''two_fa_challenges_user_id_users_id_fk'')) w1
      else Q (Inr c) (w1\<lparr>db := (db w)\<lparr>two_fa_challenges := rs @ [c]\<rparr>\<rparr>))"
  by (simp add: challenge_insert_def wp Let_def challenge_row_at_def)

definition new_challenge :: "host \<Rightarrow> uuid \<Rightarrow> nat list \<Rightarrow> nat \<Rightarrow> challenge_row" where
  "new_challenge H u nums i = challenge_row_at H (Suc (Suc i)) u (join_with '','' (map nat_to_string nums))
     (nat_to_string (nums ! h_random_int H i 3)) (h_clock H (Suc i) + CHALLENGE_EXPIRY_MS)"

definition create_outcome :: "host \<Rightarrow> uuid \<Rightarrow> (fault + challenge_row \<Rightarrow> world \<Rightarrow> bool) \<Rightarrow> world \<Rightarrow> bool" where
  "create_outcome H u Q w =
     (case options_loop H [] (draws w) of
        None \<Rightarrow> Q (Inl NeverReturns) w
      | Some (nums, i) \<Rightarrow>
          (let c = new_challenge H u nums i; w1 = w\<lparr>draws := Suc (Suc (Suc (Suc i)))\<rparr>; rs = two_fa_challenges (db w) in
           if h_uuid H (Suc (Suc i)) \<in> ch_id ` set rs then Q (Inl (PgError ''23505'' ''two_fa_challenges_pkey'')) w1
           else if \<not> user_exists u (db w)
             then Q (Inl (PgError ''23503'' ''two_fa_challenges_user_id_users_id_fk'')) w1
           else Q (Inr c) (w1\<lparr>db := (db w)\<lparr>two_fa_challenges := rs @ [c]\<rparr>\<rparr>)))"

lemma wp_create_challenge [wp]: "wp (twofa_create_challenge H u) Q w = create_outcome H u Q w"
proof (cases "options_loop H [] (draws w)")
  case None
  then show ?thesis
    by (simp add: twofa_create_challenge_def push_create_challenge_def wp_andThen wp_primitive
        wp_generate_options create_outcome_def)
next
  case (Some y)
  then obtain nums i where y: "options_loop H [] (draws w) = Some (nums, i)" by (cases y) auto
  have "wp (push_create_challenge H u) Q w = create_outcome H u Q w"
    apply (simp add: y push_create_challenge_def wp_andThen wp_generate_options wp_draw wp_challenge_insert Let_def)
    apply (simp add: y create_outcome_def Let_def)
    apply (simp add: new_challenge_def)
    done
  then show ?thesis by (simp add: twofa_create_challenge_def wp_andThen wp_primitive)
qed

lemma create_challenge_effect:
  "wp (twofa_create_challenge H u) (\<lambda>r w'. appends_pending u (two_fa_challenges (db w)) (two_fa_challenges (db w'))) w"
  by (simp add: wp_create_challenge create_outcome_def Let_def appends_pending_def new_challenge_def
      challenge_row_at_def split: option.split prod.split)

lemma get_status_effect:
  "wp (twofa_get_status H cid) (\<lambda>r w'. two_fa_challenges (db w') = two_fa_challenges (db w) \<or>
     (\<exists>c. challenge_of cid (db w) = Some c \<and> ch_status c = PENDING \<and>
        two_fa_challenges (db w') = with_status cid EXPIRED None (two_fa_challenges (db w)))) w"
  by (simp add: twofa_get_status_def wp split: option.split challenge_status.split)

lemma respond_effect:
  "wp (twofa_respond H cid u n) (\<lambda>r w'. two_fa_challenges (db w') = two_fa_challenges (db w) \<or>
     (\<exists>c. challenge_of cid (db w) = Some c \<and> ch_status c = PENDING \<and> ch_user_id c = u \<and>
        h_clock H (draws w) < ch_expires_at c \<and>
        two_fa_challenges (db w') = with_status cid (if n = ch_correct_num c then APPROVED else DENIED)
          (Some (h_clock H (Suc (draws w)))) (two_fa_challenges (db w)))) w"
proof (cases "challenge_of cid (db w)")
  case None
  then show ?thesis by (simp add: twofa_respond_def push_verify_response_def wp)
next
  case (Some c)
  then show ?thesis
    by (cases "n = ch_correct_num c") (simp_all add: twofa_respond_def push_verify_response_def wp not_le)
qed

text \<open>A second factor that is checked leaves the challenges alone.\<close>

abbreviation same_challenges :: "challenge_row list \<Rightarrow> database \<Rightarrow> bool" where
  "same_challenges rs d \<equiv> two_fa_challenges d = rs"

lemma keeps_backup_consume: "keeps (same_challenges rs) (backup_consume H u raw)"
  by (rule keepsI) (simp add: wp split: option.split)

lemma keeps_lockout [keeps_intro]:
  "keeps P (lockout_is_locked H u)" "keeps P (lockout_record_failure H u)" "keeps P (lockout_clear H u)"
  by (simp_all add: lockout_is_locked_def lockout_record_failure_def lockout_clear_def
      lockout_get_failure_count_def cache_get_def keeps_intro)

lemma keeps_totp_verify_code: "keeps (same_challenges rs) (totp_verify_code H u code)"
  unfolding totp_verify_code_def totp_find_by_user_id_def otp_verify_def totp_update_last_used_at_def
  by (intro keeps_intro keeps_statement) simp

lemma keeps_totp_verify: "keeps (same_challenges rs) (totp_strategy_verify_response H u cid p)"
  unfolding totp_strategy_verify_response_def by (intro keeps_intro keeps_totp_verify_code)

lemma keeps_backup_verify: "keeps (same_challenges rs) (backup_strategy_verify_response H u cid p)"
  unfolding backup_strategy_verify_response_def by (intro keeps_intro keeps_backup_consume)

lemma keeps_trusted_register: "keeps (same_challenges rs) (trusted_register H u agent)"
proof (rule keepsI)
  fix w :: world
  assume "same_challenges rs (db w)"
  then show "wp (trusted_register H u agent) (\<lambda>_ w'. same_challenges rs (db w')) w"
    using trusted_register_effect [of H u agent w]
    by (cases "trusted_register H u agent w"; cases "fst (trusted_register H u agent w)")
      (auto simp: wp_def Let_def)
qed

lemma claim_effect:
  "twofa_claim_approved cid w = (r, w') \<Longrightarrow>
     (case r of
        Inl e \<Rightarrow> w' = w
      | Inr u \<Rightarrow> \<exists>c. challenge_of cid (db w) = Some c \<and> ch_status c = APPROVED \<and> u = ch_user_id c \<and>
          two_fa_challenges (db w') = with_status cid EXPIRED None (two_fa_challenges (db w)))"
  by (erule wp_use) (simp add: twofa_claim_approved_def wp split: option.split)

definition claimable :: "complete_challenge_body \<Rightarrow> challenge_status \<Rightarrow> bool" where
  "claimable body s \<longleftrightarrow> (if nullish (cb_type body) PUSH = PUSH then s = APPROVED else s = PENDING)"

lemma verify_and_claim_effect:
  "wp (twofa_verify_and_claim H cid body) (\<lambda>r w'. case r of
      Inl e \<Rightarrow> two_fa_challenges (db w') = two_fa_challenges (db w)
    | Inr u \<Rightarrow> \<exists>c. challenge_of cid (db w) = Some c \<and> claimable body (ch_status c) \<and> u = ch_user_id c \<and>
        two_fa_challenges (db w') = with_status cid EXPIRED None (two_fa_challenges (db w))) w"
  (is "wp _ ?Q w")
proof (cases "nullish (cb_type body) PUSH = PUSH")
  case True
  then show ?thesis
    by (simp add: twofa_verify_and_claim_def twofa_claim_approved_def wp claimable_def split: option.split)
next
  case False
  show ?thesis
  proof (cases "challenge_of cid (db w)")
    case None
    then show ?thesis using False by (simp add: twofa_verify_and_claim_def wp Let_def)
  next
    case (Some c)
    show ?thesis
    proof (cases "nullish (cb_type body) PUSH")
      case PUSH
      with False show ?thesis by simp
    next
      case PASSKEY
      then show ?thesis using Some by (simp add: twofa_verify_and_claim_def wp Let_def)
    next
      case TOTP
      then show ?thesis
        using Some by (simp add: twofa_verify_and_claim_def wp Let_def)
          (intro impI wp_frame [of two_fa_challenges, OF keeps_totp_verify],
            simp add: wp claimable_def split: sum.split)
    next
      case BACKUP_CODE
      then show ?thesis
        using Some by (simp add: twofa_verify_and_claim_def wp Let_def)
          (intro impI wp_frame [of two_fa_challenges, OF keeps_backup_verify],
            simp add: wp claimable_def split: sum.split)
    qed
  qed
qed

lemma complete_effect:
  "wp (twofa_complete_challenge H cid body agent) (\<lambda>r w'.
     two_fa_challenges (db w') = two_fa_challenges (db w) \<and> isl r \<or>
     (\<exists>c. challenge_of cid (db w) = Some c \<and> claimable body (ch_status c) \<and>
        (\<forall>res. r = Inr res \<longrightarrow> cr_user_id res = ch_user_id c) \<and>
        two_fa_challenges (db w') = with_status cid EXPIRED None (two_fa_challenges (db w)))) w"
  (is "wp _ ?Q w")
proof -
  obtain r w' where run: "twofa_complete_challenge H cid body agent w = (r, w')" by fastforce
  let ?body = "andThen (twofa_verify_and_claim H cid body) (\<lambda>userId.
        if cb_trust_device body \<noteq> Some True then ret \<lparr>cr_user_id = userId, cr_raw_trust_token = None\<rparr>
        else andThen (trusted_register H userId agent) (\<lambda>rawTrustToken.
          ret \<lparr>cr_user_id = userId, cr_raw_trust_token = Some rawTrustToken\<rparr>))"
  have "wp ?body ?Q (w\<lparr>in_tx := True\<rparr>)"
  proof (simp only: wp_andThen, rule wp_mono [OF verify_and_claim_effect], goal_cases)
    case (1 x v)
    show ?case
    proof (cases x)
      case (Inl e)
      with 1 show ?thesis by simp
    next
      case (Inr u)
      then show ?thesis
        using 1 by (cases "cb_trust_device body = Some True")
          (auto simp: wp intro!: wp_frame [of two_fa_challenges, OF keeps_trusted_register] split: sum.split)
    qed
  qed
  then have body: "?Q r v" if "?body (w\<lparr>in_tx := True\<rparr>) = (r, v)" for r v
    using that by (simp add: wp_def)
  have "?Q r w'"
  proof (cases r)
    case (Inr x)
    with run obtain v where "?body (w\<lparr>in_tx := True\<rparr>) = (Inr x, v)" "db w' = db v"
      unfolding twofa_complete_challenge_def by (blast elim: run_in_tx_Inr)
    with body Inr show ?thesis by auto
  next
    case (Inl e)
    with run obtain r' v where "?body (w\<lparr>in_tx := True\<rparr>) = (r', v)" "db w' = db w \<or> r' = Inl e \<and> db w' = db v"
      unfolding twofa_complete_challenge_def by (blast elim: run_in_tx_Inl)
    with body [of r' v] Inl show ?thesis by auto
  qed
  then show ?thesis by (simp add: wp_def run)
qed

lemma resend_effect:
  "wp (twofa_resend H cid) (\<lambda>r w'. two_fa_challenges (db w') = two_fa_challenges (db w) \<or>
     (\<exists>c. challenge_of cid (db w) = Some c \<and>
        appends_pending (ch_user_id c)
          (if ch_status c = PENDING then with_status cid EXPIRED None (two_fa_challenges (db w))
           else two_fa_challenges (db w))
          (two_fa_challenges (db w')))) w"
proof (cases "challenge_of cid (db w)")
  case None
  then show ?thesis by (simp add: twofa_resend_def wp)
next
  case (Some c)
  show ?thesis
  proof (cases "ch_status c = PENDING")
    case True
    with Some show ?thesis
      by (simp add: twofa_resend_def wp del: wp_create_challenge)
        (rule wp_mono [OF create_challenge_effect], simp add: wp split: sum.split)
  next
    case False
    with Some show ?thesis
      by (simp add: twofa_resend_def wp del: wp_create_challenge)
        (rule wp_mono [OF create_challenge_effect], simp add: wp split: sum.split)
  qed
qed

text \<open>The rows of a table of challenges later on: each evolved, with new pending ones behind.\<close>

definition rows_evolve :: "challenge_row list \<Rightarrow> challenge_row list \<Rightarrow> bool" where
  "rows_evolve rs rs' \<longleftrightarrow> (\<exists>f new. rs' = map f rs @ new \<and> (\<forall>r\<in>set rs. challenge_evolves r (f r)) \<and>
     distinct (map ch_id new) \<and> ch_id ` set new \<inter> ch_id ` set rs = {})"

lemma challenge_evolves_refl [simp]: "challenge_evolves r r"
  by (simp add: challenge_evolves_def)

lemma rows_evolve_refl [simp]: "rows_evolve rs rs"
  unfolding rows_evolve_def by (intro exI [of _ "\<lambda>r. r"] exI [of _ "[]"]) simp

lemma find_challenge_unique:
  assumes "distinct (map ch_id (two_fa_challenges d))" and "challenge_of cid d = Some c"
    and "r \<in> set (two_fa_challenges d)" and "ch_id r = cid"
  shows "r = c"
proof -
  have "c \<in> set (two_fa_challenges d) \<and> ch_id c = cid"
    using find_Some_set [OF assms(2) [unfolded challenge_of_def]] by simp
  then show ?thesis using key_unique [OF assms(1,3), of c] assms(4) by simp
qed

lemma rows_evolve_status:
  assumes "distinct (map ch_id (two_fa_challenges d))" and "challenge_of cid d = Some c"
    and "challenge_move (ch_status c) s"
  shows "rows_evolve (two_fa_challenges d) (with_status cid s t (two_fa_challenges d))"
proof -
  let ?f = "\<lambda>r. if ch_id r = cid then r\<lparr>ch_status := s,
    ch_responded_at := (case t of None \<Rightarrow> ch_responded_at r | Some x \<Rightarrow> Some x)\<rparr> else r"
  have "challenge_evolves r (?f r)" if "r \<in> set (two_fa_challenges d)" for r
    using find_challenge_unique [OF assms(1,2) that] assms(3) by (auto simp: challenge_evolves_def)
  then show ?thesis
    unfolding rows_evolve_def with_status_def update_where_def
    by (intro exI [of _ ?f] exI [of _ "[]"]) simp
qed

lemma rows_evolve_append:
  "rows_evolve rs rs' \<Longrightarrow> ch_id ` set rs' = ch_id ` set rs \<Longrightarrow> appends_pending u rs' rs'' \<Longrightarrow> rows_evolve rs rs''"
  unfolding rows_evolve_def appends_pending_def
  by (elim exE conjE disjE, blast)
    (rule_tac x = f in exI, rule_tac x = "new @ [c]" in exI, auto)

lemma ids_with_status [simp]:
  "map ch_id (with_status cid s t rs) = map ch_id rs"
  "ch_id ` set (with_status cid s t rs) = ch_id ` set rs"
  by (simp_all add: with_status_def map_update_where image_update_where)

lemma claimable_move: "claimable body s \<Longrightarrow> challenge_move s EXPIRED"
  by (auto simp: claimable_def intro: challenge_move.intros split: if_splits)

lemma move_from_pending:
  "s = PENDING \<Longrightarrow> challenge_move s EXPIRED" "s = PENDING \<Longrightarrow> challenge_move s APPROVED"
  "s = PENDING \<Longrightarrow> challenge_move s DENIED"
  by (auto intro: challenge_move.intros)

lemma rows_evolve_pending:
  "distinct (map ch_id (two_fa_challenges d)) \<Longrightarrow> challenge_of cid d = Some c \<Longrightarrow> ch_status c = PENDING
    \<Longrightarrow> s \<in> {EXPIRED, APPROVED, DENIED}
    \<Longrightarrow> rows_evolve (two_fa_challenges d) (with_status cid s t (two_fa_challenges d))"
  by (rule rows_evolve_status) (auto simp: move_from_pending)

lemma challenge_step_evolves:
  assumes "distinct (map ch_id (two_fa_challenges (db w)))"
  shows "rows_evolve (two_fa_challenges (db w)) (two_fa_challenges (db (challenge_step H a w)))"
proof (cases a)
  case (CreateChallenge u)
  then show ?thesis
    by (simp add: challenge_step_def)
      (rule wp_dbI, rule wp_mono [OF create_challenge_effect], rule rows_evolve_append [OF rows_evolve_refl refl])
next
  case (PollStatus c)
  then show ?thesis
    by (simp add: challenge_step_def)
      (rule wp_dbI, rule wp_mono [OF get_status_effect],
        elim disjE exE conjE, simp, simp add: rows_evolve_pending [OF assms])
next
  case (Respond c u n)
  then show ?thesis
    by (simp add: challenge_step_def)
      (rule wp_dbI, rule wp_mono [OF respond_effect],
        elim disjE exE conjE, simp, simp add: rows_evolve_pending [OF assms])
next
  case (Resend c)
  then show ?thesis
    by (simp add: challenge_step_def)
      (rule wp_dbI, rule wp_mono [OF resend_effect],
        elim disjE exE conjE, simp, simp split: if_splits,
        erule rows_evolve_append [OF rows_evolve_pending [OF assms] ids_with_status(2)], simp_all,
        erule rows_evolve_append [OF rows_evolve_refl refl])
next
  case (Complete c body agent)
  then show ?thesis
    by (simp add: challenge_step_def)
      (rule wp_dbI, rule wp_mono [OF complete_effect],
        elim disjE exE conjE, simp,
        simp, erule rows_evolve_status [OF assms _ claimable_move])
qed

end
