(* ===== verification/ChallengeLife.thy ===== *)
theory ChallengeLife
  imports Challenges
begin

text \<open>
  What holds of a challenge over any history of requests: its row only moves along the
  state machine, it is approved by one kind of request only, it is completed at most
  once, and the numbers it shows are three different ones.
\<close>

subsection \<open>Histories\<close>

definition run_challenges :: "host \<Rightarrow> challenge_op list \<Rightarrow> world \<Rightarrow> world" where
  "run_challenges H as w = fold (challenge_step H) as w"

definition challenges_ok :: "world \<Rightarrow> bool" where
  "challenges_ok w \<longleftrightarrow> distinct (map ch_id (two_fa_challenges (db w)))"

lemma challenge_evolves_trans:
  "challenge_evolves a b \<Longrightarrow> challenge_evolves b c \<Longrightarrow> challenge_evolves a c"
  by (auto simp: challenge_evolves_def)

lemma challenge_evolves_id: "challenge_evolves a b \<Longrightarrow> ch_id b = ch_id a"
  by (simp add: challenge_evolves_def)

lemma rows_evolve_ids:
  assumes "rows_evolve rs rs'"
  obtains f new where "rs' = map f rs @ new" "\<forall>r\<in>set rs. challenge_evolves r (f r)"
    "distinct (map ch_id new)" "ch_id ` set new \<inter> ch_id ` set rs = {}"
    "map ch_id rs' = map ch_id rs @ map ch_id new"
proof -
  from assms obtain f new where f: "rs' = map f rs @ new" "\<forall>r\<in>set rs. challenge_evolves r (f r)"
    "distinct (map ch_id new)" "ch_id ` set new \<inter> ch_id ` set rs = {}"
    unfolding rows_evolve_def by blast
  from f(2) have "map ch_id (map f rs) = map ch_id rs" by (simp add: challenge_evolves_id)
  with f show thesis by (intro that [of f new]) simp_all
qed

lemma rows_evolve_distinct:
  "rows_evolve rs rs' \<Longrightarrow> distinct (map ch_id rs) \<Longrightarrow> distinct (map ch_id rs')"
  by (erule rows_evolve_ids) (auto simp only: distinct_append list.set_map Int_commute)

lemma rows_evolve_trans:
  assumes "rows_evolve rs rs'" and "rows_evolve rs' rs''"
  shows "rows_evolve rs rs''"
proof -
  from assms(1) obtain f new where f: "rs' = map f rs @ new" "\<forall>r\<in>set rs. challenge_evolves r (f r)"
    "distinct (map ch_id new)" "ch_id ` set new \<inter> ch_id ` set rs = {}" "map ch_id rs' = map ch_id rs @ map ch_id new"
    by (rule rows_evolve_ids)
  from assms(2) obtain g more where g: "rs'' = map g rs' @ more" "\<forall>r\<in>set rs'. challenge_evolves r (g r)"
    "distinct (map ch_id more)" "ch_id ` set more \<inter> ch_id ` set rs' = {}"
    by (rule rows_evolve_ids)
  have ids: "ch_id ` set rs' = ch_id ` set rs \<union> ch_id ` set new"
    using f(5) by (metis list.set_map set_append)
  have keep: "map ch_id (map g new) = map ch_id new"
    using g(2) f(1) by (simp add: challenge_evolves_id)
  then have "ch_id ` set (map g new) = ch_id ` set new" by (metis list.set_map)
  moreover have "distinct (map ch_id (map g new @ more))"
    unfolding map_append keep using f(3) g(3,4) ids by auto
  moreover have "\<forall>r\<in>set rs. challenge_evolves r ((g \<circ> f) r)"
    using f(1,2) g(2) by (auto intro: challenge_evolves_trans)
  ultimately show ?thesis unfolding rows_evolve_def
    using f(1,4) g(1,4) ids by (intro exI [of _ "g \<circ> f"] exI [of _ "map g new @ more"]) auto
qed

lemma challenges_ok_step: "challenges_ok w \<Longrightarrow> challenges_ok (challenge_step H a w)"
  unfolding challenges_ok_def by (rule rows_evolve_distinct [OF challenge_step_evolves])


lemma challenge_of_evolves:
  assumes "rows_evolve (two_fa_challenges d) (two_fa_challenges d')" and "distinct (map ch_id (two_fa_challenges d))"
    and "challenge_of k d = Some c"
  shows "\<exists>c'. challenge_of k d' = Some c' \<and> challenge_evolves c c'"
proof -
  from assms(1) obtain f new where f: "two_fa_challenges d' = map f (two_fa_challenges d) @ new"
    "\<forall>r\<in>set (two_fa_challenges d). challenge_evolves r (f r)" by (rule rows_evolve_ids)
  have c: "c \<in> set (two_fa_challenges d)" "ch_id c = k"
    using find_Some_set [OF assms(3) [unfolded challenge_of_def]] by auto
  have "find (\<lambda>r. ch_id r = k) (two_fa_challenges d') = Some (f c)"
  proof (rule find_key_unique [where k = ch_id])
    show "distinct (map ch_id (two_fa_challenges d'))" by (rule rows_evolve_distinct [OF assms(1,2)])
    show "f c \<in> set (two_fa_challenges d')" using f(1) c by simp
    show "ch_id (f c) = k" using f(2) c by (auto simp: challenge_evolves_def)
    then show "\<And>s. ch_id s = k \<Longrightarrow> ch_id s = ch_id (f c)" by simp
  qed
  then show ?thesis using f(2) c by (auto simp: challenge_of_def)
qed

subsection \<open>Completion\<close>

definition challenge_spent :: "uuid \<Rightarrow> world \<Rightarrow> bool" where
  "challenge_spent k w \<longleftrightarrow> (\<exists>c. challenge_of k (db w) = Some c \<and> ch_status c \<in> {EXPIRED, DENIED})"

definition complete_request :: "host \<Rightarrow> uuid \<times> complete_challenge_body \<times> string option \<Rightarrow>
    world \<Rightarrow> (fault + complete_challenge_result) \<times> world" where
  "complete_request H q = (case q of (cid, body, agent) \<Rightarrow> twofa_complete_challenge H cid body agent)"

lemma challenge_move_final: "challenge_move\<^sup>*\<^sup>* s t \<Longrightarrow> s \<in> {EXPIRED, DENIED} \<Longrightarrow> t = s"
  by (induction rule: rtranclp_induct) (auto elim: challenge_moveE)

lemma challenge_spent_step:
  assumes "challenges_ok w" and "challenge_spent k w"
  shows "challenge_spent k (challenge_step H a w)"
proof -
  from assms(2) obtain c where c: "challenge_of k (db w) = Some c" "ch_status c \<in> {EXPIRED, DENIED}"
    unfolding challenge_spent_def by blast
  with challenge_of_evolves [OF challenge_step_evolves _ c(1), of H a] assms(1)
  obtain c' where "challenge_of k (db (challenge_step H a w)) = Some c'" "challenge_evolves c c'"
    unfolding challenges_ok_def by blast
  moreover from this(2) have "ch_status c' = ch_status c"
    unfolding challenge_evolves_def using challenge_move_final c(2) by blast
  ultimately show ?thesis using c(2) by (simp add: challenge_spent_def)
qed

lemma complete_as_step: "snd (complete_request H (cid, body, agent) w) = challenge_step H (Complete cid body agent) w"
  by (simp add: complete_request_def challenge_step_def)

lemma find_with_status:
  "find (\<lambda>r. ch_id r = k) rs = Some c \<Longrightarrow>
     find (\<lambda>r. ch_id r = k) (with_status k s None rs) = Some (c\<lparr>ch_status := s\<rparr>)"
  unfolding with_status_def by (induction rs) (auto split: if_splits)

lemma complete_spends:
  assumes "complete_request H q w = (Inr v, w')"
  shows "challenge_spent (fst q) w'"
proof -
  obtain cid body agent where q: "q = (cid, body, agent)" by (cases q)
  with assms have "twofa_complete_challenge H cid body agent w = (Inr v, w')"
    by (simp add: complete_request_def)
  from wp_use [OF this complete_effect [of H cid body agent w]] obtain c where
    "challenge_of cid (db w) = Some c"
    "two_fa_challenges (db w') = with_status cid EXPIRED None (two_fa_challenges (db w))" by auto
  then have "challenge_of cid (db w') = Some (c\<lparr>ch_status := EXPIRED\<rparr>)"
    unfolding challenge_of_def by (simp add: find_with_status)
  with q show ?thesis by (simp add: challenge_spent_def)
qed

lemma spent_not_completed:
  assumes "challenge_spent (fst q) w"
  shows "isl (fst (complete_request H q w))"
proof -
  obtain cid body agent where q: "q = (cid, body, agent)" by (cases q)
  obtain r w' where run: "twofa_complete_challenge H cid body agent w = (r, w')" by fastforce
  from wp_use [OF run complete_effect [of H cid body agent w]] assms q have "isl r"
    by (auto simp: challenge_spent_def claimable_def split: if_splits)
  with run q show ?thesis by (simp add: complete_request_def)
qed

interpretation challenge: single_use challenges_ok fst challenge_spent "complete_request H" "challenge_step H" for H
proof unfold_locales
  fix w :: world and q :: "uuid \<times> complete_challenge_body \<times> string option" and a
  assume ok: "challenges_ok w"
  obtain cid body agent where q: "q = (cid, body, agent)" by (cases q)
  show "challenges_ok (snd (complete_request H q w))"
    unfolding q complete_as_step by (rule challenges_ok_step [OF ok])
  show "challenges_ok (challenge_step H a w)" by (rule challenges_ok_step [OF ok])
  show "complete_request H q w = (Inr v, w') \<Longrightarrow> challenge_spent (fst q) w'" for v w'
    by (rule complete_spends)
  show "challenge_spent (fst q) w \<Longrightarrow> isl (fst (complete_request H q w))" by (rule spent_not_completed)
  show "challenge_spent k w \<Longrightarrow> challenge_spent k (snd (complete_request H q w))" for k
    unfolding q complete_as_step by (rule challenge_spent_step [OF ok])
  show "challenge_spent k w \<Longrightarrow> challenge_spent k (challenge_step H a w)" for k
    by (rule challenge_spent_step [OF ok])
qed

text \<open>
  C3: a challenge is completed at most once, whatever bodies and user agents the
  completing requests carry and whatever other requests come between them.
\<close>

theorem challenge_completed_at_most_once:
  assumes "challenges_ok w"
  shows "successes fst cid (fst (run_events (complete_request H) (challenge_step H) es w)) \<le> 1"
  by (rule challenge.at_most_once [OF assms])

subsection \<open>Approval\<close>

lemma with_status_other:
  "k \<noteq> cid \<Longrightarrow> find (\<lambda>r. ch_id r = k) (with_status cid s t rs) = find (\<lambda>r. ch_id r = k) rs"
  unfolding with_status_def by (induction rs) auto

lemma find_with_status_at:
  "find (\<lambda>r. ch_id r = k) (with_status cid s t rs) = Some r \<Longrightarrow>
     (k = cid \<and> ch_status r = s) \<or> find (\<lambda>r. ch_id r = k) rs = Some r"
proof (cases "k = cid")
  case True
  assume "find (\<lambda>r. ch_id r = k) (with_status cid s t rs) = Some r"
  then have "r \<in> set (with_status cid s t rs) \<and> ch_id r = k" by (rule find_Some_set)
  then obtain x where x: "r = (if ch_id x = cid then x\<lparr>ch_status := s, ch_responded_at :=
      (case t of None \<Rightarrow> ch_responded_at x | Some m \<Rightarrow> Some m)\<rparr> else x)" and r: "ch_id r = k"
    unfolding with_status_def set_update_where by blast
  have "ch_status r = s"
  proof (cases "ch_id x = cid")
    case False
    with x have "r = x" by simp
    with r True False show ?thesis by simp
  qed (simp add: x)
  with True show ?thesis by simp
qed (simp add: with_status_other)

lemma find_appended:
  "appends_pending u rs rs' \<Longrightarrow> find (\<lambda>r. ch_id r = k) rs' = Some r \<Longrightarrow>
     ch_status r = PENDING \<or> find (\<lambda>r. ch_id r = k) rs = Some r"
proof -
  assume "appends_pending u rs rs'" and found: "find (\<lambda>r. ch_id r = k) rs' = Some r"
  then consider "rs' = rs" | c where "rs' = rs @ [c]" "ch_status c = PENDING"
    unfolding appends_pending_def by blast
  then show ?thesis
  proof cases
    case 1
    with found show ?thesis by simp
  next
    case 2
    with found show ?thesis by (simp add: find_appended_rows split: option.splits if_splits)
  qed
qed

text \<open>
  C4: a challenge becomes approved only by an answer to it, from its owner, with the
  correct number, before it expires.
\<close>

theorem challenge_approved_only_by_owner:
  assumes "challenge_of k (db (challenge_step H a w)) = Some r'" and "ch_status r' = APPROVED"
    and "challenge_of k (db w) \<noteq> Some r'"
  shows "\<exists>r. challenge_of k (db w) = Some r \<and> a = Respond k (ch_user_id r) (ch_correct_num r) \<and>
    ch_status r = PENDING \<and> h_clock H (draws w) < ch_expires_at r"
proof -
  let ?rs = "two_fa_challenges (db w)" and ?d = "db (challenge_step H a w)"
  have same: "two_fa_challenges ?d \<noteq> ?rs" using assms(1,3) by (auto simp: challenge_of_def)
  have not_spent: "s = APPROVED" if "two_fa_challenges ?d = with_status c s t ?rs" for c s t
    using find_with_status_at assms that unfolding challenge_of_def by metis
  have no_append: False if "appends_pending u (with_status c EXPIRED None ?rs) (two_fa_challenges ?d) \<or>
      appends_pending u ?rs (two_fa_challenges ?d)" for u c
  proof -
    have "find (\<lambda>r. ch_id r = k) (with_status c EXPIRED None ?rs) = Some r' \<or>
        find (\<lambda>r. ch_id r = k) ?rs = Some r'"
      using that find_appended [OF _ assms(1) [unfolded challenge_of_def]] assms(2) by auto
    with find_with_status_at [of k c EXPIRED None ?rs r'] assms(2,3) show False
      by (auto simp: challenge_of_def)
  qed
  show ?thesis
  proof (cases a)
    case (CreateChallenge u)
    have "appends_pending u ?rs (two_fa_challenges ?d)"
      unfolding CreateChallenge challenge_step_def challenge_op.case by (rule wp_dbI, rule create_challenge_effect)
    then have False using no_append by blast
    then show ?thesis ..
  next
    case (PollStatus c)
    from wp_dbI [OF get_status_effect [of H c w]] same have "\<exists>t. two_fa_challenges ?d = with_status c EXPIRED t ?rs"
      unfolding PollStatus challenge_step_def challenge_op.case by blast
    with not_spent show ?thesis by blast
  next
    case (Resend c)
    from wp_dbI [OF resend_effect [of H c w]] same
    have "\<exists>u. appends_pending u (with_status c EXPIRED None ?rs) (two_fa_challenges ?d) \<or>
        appends_pending u ?rs (two_fa_challenges ?d)"
      unfolding Resend challenge_step_def challenge_op.case by (auto split: if_splits)
    with no_append have False by blast
    then show ?thesis ..
  next
    case (Complete c body agent)
    obtain q v where run: "twofa_complete_challenge H c body agent w = (q, v)" by fastforce
    then have d: "?d = db v" by (simp add: challenge_step_def Complete)
    from wp_use [OF run complete_effect [of H c body agent w]] same
    have "two_fa_challenges ?d = with_status c EXPIRED None ?rs" unfolding d by blast
    with not_spent show ?thesis by blast
  next
    case (Respond c u n)
    from wp_dbI [OF respond_effect [of H c u n w]] same obtain r where
      r: "challenge_of c (db w) = Some r" "ch_status r = PENDING" "ch_user_id r = u"
        "h_clock H (draws w) < ch_expires_at r"
        "two_fa_challenges ?d = with_status c (if n = ch_correct_num r then APPROVED else DENIED)
          (Some (h_clock H (Suc (draws w)))) ?rs"
      unfolding Respond challenge_step_def challenge_op.case by blast
    with not_spent have "n = ch_correct_num r" by (metis challenge_status.distinct(7))
    moreover have "k = c" using find_with_status_at assms r(5) unfolding challenge_of_def by metis
    ultimately show ?thesis using r Respond by simp
  qed
qed

subsection \<open>The numbers shown\<close>

definition shown_numbers_ok :: "challenge_row \<Rightarrow> bool" where
  "shown_numbers_ok c \<longleftrightarrow> (\<exists>ns. split_on CHR '','' (ch_options c) = map nat_to_string ns \<and>
     length ns = 3 \<and> distinct ns \<and> set ns \<subseteq> {10..<100} \<and> ch_correct_num c \<in> nat_to_string ` set ns)"

lemma split_numbers: "ns \<noteq> [] \<Longrightarrow> split_on CHR '','' (join_with '','' (map nat_to_string ns)) = map nat_to_string ns"
proof (rule split_join)
  have "CHR '','' \<notin> digit_chars" by (simp add: digit_chars_def)
  then show "\<forall>s\<in>set (map nat_to_string ns). CHR '','' \<notin> set s" using nat_to_string_chars by auto
qed simp

text \<open>
  C5: if three different values come up among the next draws of the generator, a challenge
  for a known user is created: three different two-digit numbers are shown, the correct
  one is among them, and it expires one minute after it was made. (If they never come
  up, the loop does not end.)
\<close>

theorem create_challenge_returns:
  assumes "\<forall>k n. 0 < n \<longrightarrow> h_random_int H k n < n"
    and "3 \<le> card ((\<lambda>k. h_random_int H k 90) ` {draws w ..< draws w + m})"
    and "user_exists u (db w)" and "\<forall>n. h_uuid H n \<notin> ch_id ` set (two_fa_challenges (db w))"
  shows "\<exists>c w' i. twofa_create_challenge H u w = (Inr c, w') \<and> shown_numbers_ok c \<and> ch_user_id c = u \<and>
    ch_status c = PENDING \<and> ch_expires_at c = h_clock H i + 60000 \<and> draws w \<le> i \<and>
    two_fa_challenges (db w') = two_fa_challenges (db w) @ [c]"
proof -
  have "(\<lambda>k. 10 + h_random_int H k 90) ` {draws w ..< draws w + m} =
      (\<lambda>x. 10 + x) ` (\<lambda>k. h_random_int H k 90) ` {draws w ..< draws w + m}" by (simp add: image_image)
  then have "card ((\<lambda>k. 10 + h_random_int H k 90) ` {draws w ..< draws w + m}) =
      card ((\<lambda>k. h_random_int H k 90) ` {draws w ..< draws w + m})" by (metis card_image inj_on_add)
  with assms(2) obtain y where "options_loop H [] (draws w) = Some y"
    using options_loop_returns [of "[]" H "draws w" m] by auto
  then obtain nums i where loop: "options_loop H [] (draws w) = Some (nums, i)" by (cases y) auto
  have nums: "draws w \<le> i" "distinct nums" "length nums = 3" "set nums \<subseteq> {10..<100}"
    using options_loop_result [OF loop] assms(1) by (auto simp: options_good_def)
  let ?c = "new_challenge H u nums i"
  have "h_random_int H i 3 < 3" using assms(1) by simp
  moreover have "nums \<noteq> []" using nums(3) by auto
  ultimately have "shown_numbers_ok ?c"
    using nums(2-4) unfolding shown_numbers_ok_def new_challenge_def challenge_row_at_def
    by (intro exI [of _ nums]) (use split_numbers [of nums] in auto)
  moreover have "wp (twofa_create_challenge H u) (\<lambda>r w'. r = Inr ?c \<and>
      two_fa_challenges (db w') = two_fa_challenges (db w) @ [?c]) w"
    using assms(3,4) loop by (simp add: wp_create_challenge create_outcome_def Let_def)
  ultimately show ?thesis using nums(1)
    unfolding wp_def by (cases "twofa_create_challenge H u w")
      (auto simp: new_challenge_def challenge_row_at_def CHALLENGE_EXPIRY_MS_def intro!: exI [of _ "Suc i"])
qed

subsection \<open>The properties at concrete inputs\<close>

definition demo_challenge :: challenge_row where
  "demo_challenge = \<lparr>ch_id = ''c'', ch_user_id = ''ada'', ch_options = ''10,20,30'', ch_correct_num = ''20'',
     ch_status = PENDING, ch_created_at = 0, ch_expires_at = 100, ch_responded_at = None\<rparr>"

definition demo_challenge_db :: database where
  "demo_challenge_db = empty_db\<lparr>users := [demo_user], two_fa_challenges := [demo_challenge]\<rparr>"

lemmas demo_challenge_simps [simp] = demo_challenge_def demo_challenge_db_def demo_user_def


lemma challenge_completed_at_most_once_witness:
  "successes fst ''c'' (fst (run_events (complete_request demo_host) (challenge_step demo_host)
     [Other (Respond ''c'' ''ada'' ''20''),
      Use (''c'', \<lparr>cb_type = None, cb_code = None, cb_trust_device = None\<rparr>, None),
      Use (''c'', \<lparr>cb_type = None, cb_code = None, cb_trust_device = None\<rparr>, None)]
     (demo_world demo_challenge_db))) \<le> 1"
  by (rule challenge_completed_at_most_once) (simp add: challenges_ok_def)

lemma challenge_approved_only_by_owner_witness:
  "\<exists>r. challenge_of ''c'' demo_challenge_db = Some r \<and>
     Respond ''c'' ''ada'' ''20'' = Respond ''c'' (ch_user_id r) (ch_correct_num r) \<and> ch_status r = PENDING \<and>
     h_clock demo_host 0 < ch_expires_at r"
proof -
  let ?w = "demo_world demo_challenge_db"
  have step: "challenge_of ''c'' (db (challenge_step demo_host (Respond ''c'' ''ada'' ''20'') ?w)) =
      Some (demo_challenge\<lparr>ch_status := APPROVED, ch_responded_at := Some 1\<rparr>)"
    by (simp add: challenge_step_def twofa_respond_def push_verify_response_def svc andThen_def challenge_of_def
        challenge_find_by_id_def challenge_update_status_def)
  show ?thesis
    using challenge_approved_only_by_owner [OF step] by (simp add: challenge_of_def)
qed

lemma create_challenge_returns_witness:
  "\<exists>c w' i. twofa_create_challenge demo_host ''ada'' (demo_world (empty_db\<lparr>users := [demo_user]\<rparr>)) = (Inr c, w') \<and>
     shown_numbers_ok c \<and> ch_user_id c = ''ada'' \<and> ch_status c = PENDING \<and>
     ch_expires_at c = h_clock demo_host i + 60000 \<and> draws (demo_world (empty_db\<lparr>users := [demo_user]\<rparr>)) \<le> i \<and>
     two_fa_challenges (db w') = two_fa_challenges (db (demo_world (empty_db\<lparr>users := [demo_user]\<rparr>))) @ [c]"
proof (rule create_challenge_returns [where m = 3])
  have "{0..<3::nat} = {0, 1, 2}" by auto
  then show "3 \<le> card ((\<lambda>k. h_random_int demo_host k 90) `
      {draws (demo_world (empty_db\<lparr>users := [demo_user]\<rparr>)) ..< draws (demo_world (empty_db\<lparr>users := [demo_user]\<rparr>)) + 3})"
    by simp
qed (simp_all add: user_exists_def)

end
