(* ===== verification/TotpLockout.thy ===== *)
theory TotpLockout
  imports ChallengeLife
begin

text \<open>
  The lockout of \<open>totp-lockout.service.ts\<close> as the two-factor handler runs it, on a cache
  that keeps what it is told: the count lives outside the database, so it survives the
  transaction that a wrong code rolls back. Also the removal of a strategy.
\<close>

subsection \<open>A cache that keeps its entries for their time to live\<close>

fun cache_store :: "calls \<Rightarrow> millis \<Rightarrow> string \<Rightarrow> cache_value option" where
  "cache_store [] t k = None"
| "cache_store ((s, CacheSet k' v ttl) # cs) t k =
     (if k' = k then (if t < s + ttl then Some v else None) else cache_store cs t k)"
| "cache_store ((s, CacheDel k') # cs) t k = (if k' = k then None else cache_store cs t k)"
| "cache_store (_ # cs) t k = cache_store cs t k"

definition cache_law :: "host \<Rightarrow> bool" where
  "cache_law H \<longleftrightarrow> (\<forall>cs t k. h_cache_get H cs t k = Inr (cache_store cs t k)) \<and>
     (\<forall>cs t k v ttl. h_unit H cs t (CacheSet k v ttl) = Inr ())"

definition failures :: "uuid \<Rightarrow> world \<Rightarrow> millis \<Rightarrow> nat" where
  "failures u w t = count_of (cache_store (calls w) t (lockout_key u))"

subsection \<open>Wrong codes\<close>

definition totp_body :: "string \<Rightarrow> complete_challenge_body" where
  "totp_body code = \<lparr>cb_type = Some TOTP, cb_code = Some code, cb_trust_device = None\<rparr>"

fun totp_attempts :: "host \<Rightarrow> uuid \<Rightarrow> string list \<Rightarrow> world \<Rightarrow> (fault + complete_challenge_result) list" where
  "totp_attempts H cid [] w = []"
| "totp_attempts H cid (c # cs) w =
     (case twofa_complete_challenge H cid (totp_body c) None w of (r, w') \<Rightarrow> r # totp_attempts H cid cs w')"

text \<open>
  The situation of the attempts: a pending challenge of a user enrolled for TOTP, all of
  them within the minute the challenge lives.
\<close>

definition under_attack :: "host \<Rightarrow> uuid \<Rightarrow> uuid \<Rightarrow> string \<Rightarrow> world \<Rightarrow> bool" where
  "under_attack H cid u secret w \<longleftrightarrow> \<not> in_tx w \<and>
     (\<exists>c row. challenge_of cid (db w) = Some c \<and> ch_status c = PENDING \<and> ch_user_id c = u \<and>
        find (\<lambda>r. tp_user_id r = u) (two_fa_totp (db w)) = Some row \<and>
        decrypt H \<lparr>ep_ciphertext = tp_secret_encrypted row, ep_iv = tp_iv row, ep_auth_tag = tp_auth_tag row\<rparr> = Inr secret \<and>
        (\<forall>i\<ge>draws w. ch_expires_at c - CHALLENGE_EXPIRY_MS \<le> h_clock H i \<and> h_clock H i < ch_expires_at c))"

definition steady :: "host \<Rightarrow> uuid \<Rightarrow> world \<Rightarrow> nat \<Rightarrow> bool" where
  "steady H u w n \<longleftrightarrow> (\<forall>i\<ge>draws w. failures u w (h_clock H i) = n)"

lemmas lockout_defs = lockout_is_locked_def lockout_get_failure_count_def lockout_record_failure_def
  cache_get_def LOCKOUT_MAX_FAILURES_def

lemma attempt_locked:
  assumes "cache_law H" and "under_attack H cid u secret w" and "steady H u w n" and "5 \<le> n"
  shows "wp (twofa_complete_challenge H cid (totp_body code) None)
    (\<lambda>r w'. r = Inl (ApiException TWOFA_TOTP_LOCKED) \<and> under_attack H cid u secret w' \<and> steady H u w' n) w"
proof -
  from assms(2) obtain c row where c: "\<not> in_tx w" "challenge_of cid (db w) = Some c" "ch_status c = PENDING"
    "ch_user_id c = u" "find (\<lambda>r. tp_user_id r = u) (two_fa_totp (db w)) = Some row"
    "decrypt H \<lparr>ep_ciphertext = tp_secret_encrypted row, ep_iv = tp_iv row, ep_auth_tag = tp_auth_tag row\<rparr> = Inr secret"
    "\<forall>i\<ge>draws w. ch_expires_at c - CHALLENGE_EXPIRY_MS \<le> h_clock H i \<and> h_clock H i < ch_expires_at c"
    unfolding under_attack_def by blast
  have count: "count_of (cache_store (calls w) (h_clock H (Suc (draws w))) (lockout_key u)) = n"
    using assms(3) by (simp add: steady_def failures_def)
  have live: "\<not> ch_expires_at c \<le> h_clock H (draws w)" using c(7) by (simp add: not_le)
  have still: "under_attack H cid u secret w'" if "db w' = db w" "\<not> in_tx w'" "draws w \<le> draws w'" for w'
    using c that unfolding under_attack_def by (intro conjI exI [of _ c] exI [of _ row]) auto
  show ?thesis
    using c(1-4) live count assms(1,4)
    by (simp add: twofa_complete_challenge_def twofa_verify_and_claim_def totp_body_def wp Let_def
        totp_strategy_verify_response_def lockout_defs cache_law_def)
      (intro conjI still; use assms(3) in \<open>simp add: steady_def failures_def\<close>)
qed

lemma attempt_wrong:
  assumes "cache_law H" and "under_attack H cid u secret w" and "steady H u w n" and "n < 5"
    and "\<forall>t. \<not> h_otp_valid H t code secret"
  shows "wp (twofa_complete_challenge H cid (totp_body code) None)
    (\<lambda>r w'. r = Inl (ApiException TWOFA_TOTP_INVALID_CODE) \<and> under_attack H cid u secret w' \<and> steady H u w' (Suc n)) w"
proof -
  from assms(2) obtain c row where c: "\<not> in_tx w" "challenge_of cid (db w) = Some c" "ch_status c = PENDING"
    "ch_user_id c = u" "find (\<lambda>r. tp_user_id r = u) (two_fa_totp (db w)) = Some row"
    "decrypt H \<lparr>ep_ciphertext = tp_secret_encrypted row, ep_iv = tp_iv row, ep_auth_tag = tp_auth_tag row\<rparr> = Inr secret"
    "\<forall>i\<ge>draws w. ch_expires_at c - CHALLENGE_EXPIRY_MS \<le> h_clock H i \<and> h_clock H i < ch_expires_at c"
    unfolding under_attack_def by blast
  let ?k = "draws w"
  have count: "count_of (cache_store (calls w) (h_clock H (Suc ?k)) (lockout_key u)) = n"
    "count_of (cache_store (calls w) (h_clock H (Suc (Suc (Suc ?k)))) (lockout_key u)) = n"
    using assms(3) by (simp_all add: steady_def failures_def)
  have live: "\<not> ch_expires_at c \<le> h_clock H ?k" using c(7) by (simp add: not_le)
  have still: "under_attack H cid u secret w'" if "db w' = db w" "\<not> in_tx w'" "?k \<le> draws w'" for w'
    using c that unfolding under_attack_def by (intro conjI exI [of _ c] exI [of _ row]) auto
  have window: "h_clock H i < h_clock H j + LOCKOUT_TTL_MS" if "?k \<le> i" "?k \<le> j" for i j
    using spec [OF c(7), of i] spec [OF c(7), of j] that by (simp add: LOCKOUT_TTL_MS_def CHALLENGE_EXPIRY_MS_def)
  show ?thesis
    using c(1-6) live count assms(1,4,5)
    by (simp add: twofa_complete_challenge_def twofa_verify_and_claim_def totp_body_def wp Let_def
        totp_strategy_verify_response_def lockout_defs cache_law_def totp_verify_code_def totp_find_by_user_id_def
        otp_verify_def)
      (intro conjI still; simp add: steady_def failures_def count_of_def window)
qed

text \<open>
  C6: while a challenge lives, the first five wrong codes presented for it are answered
  TWOFA_TOTP_INVALID_CODE and every further attempt TWOFA_TOTP_LOCKED, although each
  attempt's transaction is rolled back.
\<close>

theorem totp_locks_after_five:
  assumes "cache_law H" and "under_attack H cid u secret w" and "\<forall>i\<ge>draws w. failures u w (h_clock H i) = 0"
    and "\<forall>code\<in>set codes. \<forall>t. \<not> h_otp_valid H t code secret"
  shows "totp_attempts H cid codes w =
    map (\<lambda>i. Inl (ApiException (if i < 5 then TWOFA_TOTP_INVALID_CODE else TWOFA_TOTP_LOCKED))) [0..<length codes]"
proof -
  have "totp_attempts H cid codes w =
      map (\<lambda>i. Inl (ApiException (if i < 5 then TWOFA_TOTP_INVALID_CODE else TWOFA_TOTP_LOCKED))) [n..<n + length codes]"
    if "under_attack H cid u secret w" "steady H u w (min 5 n)" "\<forall>code\<in>set codes. \<forall>t. \<not> h_otp_valid H t code secret" for n w
    using that
  proof (induction codes arbitrary: n w)
    case (Cons c cs)
    obtain r w' where run: "twofa_complete_challenge H cid (totp_body c) None w = (r, w')" by fastforce
    have "r = Inl (ApiException (if n < 5 then TWOFA_TOTP_INVALID_CODE else TWOFA_TOTP_LOCKED)) \<and>
        under_attack H cid u secret w' \<and> steady H u w' (min 5 (Suc n))"
    proof (cases "n < 5")
      case True
      have "wp (twofa_complete_challenge H cid (totp_body c) None)
         (\<lambda>r w'. r = Inl (ApiException TWOFA_TOTP_INVALID_CODE) \<and> under_attack H cid u secret w' \<and> steady H u w' (Suc n)) w"
        by (rule attempt_wrong [OF assms(1) Cons.prems(1)]) (use Cons.prems True in auto)
      with run True show ?thesis by (simp add: wp_def)
    next
      case False
      have "wp (twofa_complete_challenge H cid (totp_body c) None)
         (\<lambda>r w'. r = Inl (ApiException TWOFA_TOTP_LOCKED) \<and> under_attack H cid u secret w' \<and> steady H u w' 5) w"
        by (rule attempt_locked [OF assms(1) Cons.prems(1)]) (use Cons.prems False in auto)
      with run False show ?thesis by (simp add: wp_def)
    qed
    moreover have "[n..<n + length (c # cs)] = n # [Suc n..<Suc n + length cs]"
      using upt_conv_Cons [of n "n + length (c # cs)"] by (simp del: upt_Suc)
    ultimately show ?case using Cons.IH [of w' "Suc n"] Cons.prems(3) run by simp
  qed simp
  from this [of w 0] assms show ?thesis by (simp add: steady_def)
qed

subsection \<open>Removing a strategy\<close>

text \<open>
  The TOTP strategy passes its two arguments to \<open>TotpService.revoke\<close> in the wrong order,
  so removing one's authenticator is always refused with FORBIDDEN, unless the user's
  identifier happens to be that of a TOTP row.
\<close>

lemma totp_revoke_always_forbidden:
  assumes "\<forall>r\<in>set (two_fa_totp (db w)). tp_id r \<noteq> u"
  shows "totp_strategy_revoke u tid w = (Inl (ApiException FORBIDDEN), w)"
proof -
  have "filter (\<lambda>r. tp_id r = u) (two_fa_totp (db w)) = []" using assms by simp
  moreover have "delete_where (\<lambda>r. tp_id r = u) (two_fa_totp (db w)) = two_fa_totp (db w)"
    by (rule delete_where_id) (use assms in auto)
  ultimately show ?thesis
    by (simp add: totp_strategy_revoke_def totp_revoke_def totp_delete_by_id_for_user_def svc andThen_def)
qed

subsection \<open>The property at a concrete input\<close>

definition demo_cache_host :: host where
  "demo_cache_host = demo_host\<lparr>h_clock := \<lambda>_. 50, h_cache_get := \<lambda>cs t k. Inr (cache_store cs t k),
     h_otp_valid := \<lambda>_ code secret. code = secret\<rparr>"

definition demo_totp :: totp_row where
  "demo_totp = \<lparr>tp_id = ''t'', tp_user_id = ''ada'', tp_secret_encrypted = utf8_bytes ''JBSWY3DP'', tp_iv = [],
     tp_auth_tag = replicate 16 0, tp_algorithm = SHA1, tp_digits = 6, tp_period_sec = 30,
     tp_created_at = 0, tp_last_used_at = None\<rparr>"

lemma totp_locks_after_five_witness:
  "totp_attempts demo_cache_host ''c'' [''1'', ''2'', ''3'', ''4'', ''5'', ''6'']
     (demo_world (demo_challenge_db\<lparr>two_fa_totp := [demo_totp]\<rparr>)) =
   map (\<lambda>i. Inl (ApiException (if i < 5 then TWOFA_TOTP_INVALID_CODE else TWOFA_TOTP_LOCKED))) [0..<6]"
proof -
  have "decrypt demo_cache_host \<lparr>ep_ciphertext = tp_secret_encrypted demo_totp, ep_iv = tp_iv demo_totp,
      ep_auth_tag = tp_auth_tag demo_totp\<rparr> = Inr ''JBSWY3DP''"
    by (simp add: decrypt_def demo_cache_host_def demo_totp_def TAG_LEN_def utf8_string_bytes)
  then have attack: "under_attack demo_cache_host ''c'' ''ada'' ''JBSWY3DP''
      (demo_world (demo_challenge_db\<lparr>two_fa_totp := [demo_totp]\<rparr>))"
    unfolding under_attack_def
    by (intro conjI exI [of _ demo_challenge] exI [of _ demo_totp])
      (simp_all add: challenge_of_def demo_cache_host_def demo_totp_def CHALLENGE_EXPIRY_MS_def)
  have six: "(6::nat) = length [''1'', ''2'', ''3'', ''4'', ''5'', ''6'']" by simp
  show ?thesis
    unfolding six
    by (rule totp_locks_after_five [OF _ attack])
      (simp_all add: cache_law_def failures_def count_of_def demo_cache_host_def)
qed

end
