(* ===== verification/Login.thy ===== *)
theory Login
  imports TotpLockout Invitations
begin

text \<open>
  \<open>auth/login.service.ts\<close> and its controller: registration with an invitation, login with
  a password and its three ways to continue, login with a backup code, refresh and logout;
  the publisher of push challenges and the bodies' validation.
\<close>

subsection \<open>Bodies\<close>

record login_body =
  lb_username :: string
  lb_password :: string
  lb_trust_device :: "bool option"

record backup_login_body =
  bl_username :: string
  bl_password :: string
  bl_backup_code :: string

record register_body =
  rg_token :: uuid
  rg_username :: string
  rg_nickname :: string
  rg_password :: string

record register_response =
  rgr_access_token :: string
  rgr_user :: user_dto
  rgr_backup_codes :: "string list"

definition length_between :: "nat \<Rightarrow> nat \<Rightarrow> string \<Rightarrow> bool" where
  "length_between lo hi s \<longleftrightarrow> lo \<le> length s \<and> length s \<le> hi"

definition login_body_valid :: "login_body \<Rightarrow> bool" where
  "login_body_valid b \<longleftrightarrow> length_between 1 50 (lb_username b) \<and> length_between 1 255 (lb_password b)"

definition backup_login_body_valid :: "backup_login_body \<Rightarrow> bool" where
  "backup_login_body_valid b \<longleftrightarrow> length_between 1 50 (bl_username b) \<and>
     length_between 1 255 (bl_password b) \<and> length_between 1 10 (bl_backup_code b)"

definition logout_body_valid :: "string option \<Rightarrow> bool" where
  "logout_body_valid pushToken \<longleftrightarrow> (case pushToken of None \<Rightarrow> True | Some t \<Rightarrow> length t \<le> 4096)"

text \<open>\<open>IsUUID()\<close>: eight, four, four, four and twelve hexadecimal digits.\<close>

definition uuid_hex :: "char set" where
  "uuid_hex = set ''0123456789abcdefABCDEF''"

definition is_uuid :: "string \<Rightarrow> bool" where
  "is_uuid s \<longleftrightarrow> map length (split_on CHR ''-'' s) = [8, 4, 4, 4, 12] \<and>
     (\<forall>p\<in>set (split_on CHR ''-'' s). set p \<subseteq> uuid_hex)"

definition register_body_valid :: "register_body \<Rightarrow> bool" where
  "register_body_valid b \<longleftrightarrow> is_uuid (rg_token b) \<and> length_between 1 50 (rg_username b) \<and>
     length_between 1 50 (rg_nickname b) \<and> length_between 8 255 (rg_password b)"

subsection \<open>\<open>push-challenge.publisher.ts\<close>\<close>

definition push_publish :: "host \<Rightarrow> push_challenge_job \<Rightarrow> unit svc" where
  "push_publish H job = catching (call_unit H (QueueAdd job)) (\<lambda>err. raise err)"

subsection \<open>\<open>login.service.ts\<close>\<close>

definition login_register :: "host \<Rightarrow> register_body \<Rightarrow> register_response svc" where
  "login_register H data =
     andThen (run_in_tx H
       (andThen (invitation_validate_or_throw H (rg_token data)) (\<lambda>_.
        andThen (auth_hash_password H (rg_password data)) (\<lambda>hashedPassword.
        andThen (catching (user_create H (rg_username data) (rg_nickname data) hashedPassword)
          (\<lambda>err. if pg_code err = Some ''23505'' then throw USERNAME_TAKEN else raise err)) (\<lambda>inserted.
        andThen (auth_assign_default_role inserted) (\<lambda>_.
        andThen (backup_generate_for_user H inserted) (\<lambda>rawCodes.
        andThen (invitation_consume H (rg_token data) inserted) (\<lambda>_.
          ret (inserted, rawCodes)))))))))
       (\<lambda>(uid, rawCodes).
     andThen (user_find_by_id uid) (\<lambda>found. case found of
       None \<Rightarrow> throw REGISTRATION_FAILED
     | Some user \<Rightarrow>
         andThen (auth_issue_token_pair H user) (\<lambda>accessToken.
         andThen (auth_build_user_response user) (\<lambda>dto.
           ret \<lparr>rgr_access_token = accessToken, rgr_user = dto, rgr_backup_codes = rawCodes\<rparr>))))"

definition authenticated :: "host \<Rightarrow> user_row \<Rightarrow> login_response svc" where
  "authenticated H user =
     andThen (auth_issue_token_pair H user) (\<lambda>accessToken.
     andThen (auth_build_user_response user) (\<lambda>dto. ret (AUTHENTICATED accessToken dto)))"

definition login_without_push :: "host \<Rightarrow> login_body \<Rightarrow> user_row \<Rightarrow> string option \<Rightarrow> login_response svc" where
  "login_without_push H data user userAgent = run_in_tx H
     (andThen (auth_issue_token_pair H user) (\<lambda>accessToken.
      andThen (if lb_trust_device data = Some True
        then andThen (trusted_register H (u_id user) userAgent) (\<lambda>rawTrustToken.
               set_trust_cookie H rawTrustToken trust_duration_ms)
        else ret ()) (\<lambda>_.
      andThen (auth_build_user_response user) (\<lambda>dto. ret (AUTHENTICATED accessToken dto)))))"

definition push_jobs :: "user_row \<Rightarrow> challenge_row \<Rightarrow> string list \<Rightarrow> push_challenge_job list" where
  "push_jobs user challenge pushTokens = map (\<lambda>pushToken.
     \<lparr>job_user_id = u_id user, job_push_token = pushToken, job_challenge_id = ch_id challenge,
      job_options = ch_options challenge, job_expires_at = ch_expires_at challenge\<rparr>) pushTokens"

definition login_with_push :: "host \<Rightarrow> user_row \<Rightarrow> string list \<Rightarrow> login_response svc" where
  "login_with_push H user pushTokens =
     andThen (twofa_create_challenge H (u_id user)) (\<lambda>challenge.
     andThen (promise_all (map (push_publish H) (push_jobs user challenge pushTokens))) (\<lambda>_.
       ret (TWOFA_REQUIRED (ch_id challenge) (split_on CHR '','' (ch_options challenge)) (ch_expires_at challenge))))"

definition login_login :: "host \<Rightarrow> login_body \<Rightarrow> string option \<Rightarrow> string option \<Rightarrow> login_response svc" where
  "login_login H data trustToken userAgent =
     andThen (user_find_by_username (lb_username data)) (\<lambda>found. case found of
       None \<Rightarrow> throw INVALID_CREDENTIALS
     | Some user \<Rightarrow>
         andThen (auth_validate_credentials H user (lb_password data)) (\<lambda>_.
         andThen (if truthy trustToken then trusted_verify H trustToken (u_id user) else ret False) (\<lambda>trusted.
           if trusted then authenticated H user
           else andThen (device_find_push_tokens_by_user_id (u_id user)) (\<lambda>pushTokens.
             if length pushTokens = 0 then login_without_push H data user userAgent
             else login_with_push H user pushTokens))))"

definition login_with_backup_code :: "host \<Rightarrow> backup_login_body \<Rightarrow> login_response svc" where
  "login_with_backup_code H body =
     andThen (user_find_by_username (bl_username body)) (\<lambda>found. case found of
       None \<Rightarrow> throw INVALID_CREDENTIALS
     | Some user \<Rightarrow>
         andThen (auth_validate_credentials H user (bl_password body)) (\<lambda>_.
         andThen (backup_consume H (u_id user) (bl_backup_code body)) (\<lambda>_.
           authenticated H user)))"

definition login_refresh :: "host \<Rightarrow> string option \<Rightarrow> login_response svc" where
  "login_refresh H rawRt =
     andThen (auth_rotate_refresh_token H rawRt) (\<lambda>userId.
     andThen (user_find_by_id userId) (\<lambda>found. case found of
       None \<Rightarrow> throw REFRESH_TOKEN_INVALID
     | Some user \<Rightarrow>
         andThen (auth_generate_access_token H user) (\<lambda>accessToken.
         andThen (auth_build_user_response user) (\<lambda>dto. ret (AUTHENTICATED accessToken dto)))))"

definition login_logout :: "host \<Rightarrow> string option \<Rightarrow> string option \<Rightarrow> unit svc" where
  "login_logout H rawRt pushToken =
     andThen (auth_revoke_refresh_token H rawRt) (\<lambda>userId.
       if truthy userId \<and> truthy pushToken
       then device_deactivate_by_push_token (the userId) (the pushToken)
       else ret ())"

subsection \<open>\<open>login.controller.ts\<close>\<close>

type_synonym cookies = "string \<rightharpoonup> string"

definition login_controller_register :: "host \<Rightarrow> register_body \<Rightarrow> register_response svc" where
  "login_controller_register H body = login_register H body"

definition login_controller_login ::
    "host \<Rightarrow> login_body \<Rightarrow> cookies \<Rightarrow> string option \<Rightarrow> login_response svc" where
  "login_controller_login H body cs userAgent = login_login H body (cs TRUST_TOKEN_COOKIE) userAgent"

definition login_controller_login_with_backup :: "host \<Rightarrow> backup_login_body \<Rightarrow> login_response svc" where
  "login_controller_login_with_backup H body = login_with_backup_code H body"

definition login_controller_refresh :: "host \<Rightarrow> cookies \<Rightarrow> login_response svc" where
  "login_controller_refresh H cs = login_refresh H (cs REFRESH_TOKEN_COOKIE)"

definition login_controller_logout :: "host \<Rightarrow> cookies \<Rightarrow> string option \<Rightarrow> unit svc" where
  "login_controller_logout H cs pushToken = login_logout H (cs REFRESH_TOKEN_COOKIE) pushToken"

subsection \<open>The parts of a login\<close>

definition trust_accepts :: "host \<Rightarrow> string option \<Rightarrow> uuid \<Rightarrow> millis \<Rightarrow> database \<Rightarrow> bool" where
  "trust_accepts H tok u t d \<longleftrightarrow> (\<exists>x m. tok = Some x \<and> x \<noteq> [] \<and>
     find (\<lambda>r. td_token_hash r = hash_token H x) (trusted_devices d) = Some m \<and>
     td_user_id m = u \<and> t < td_expires_at m)"

text \<open>Verifying a trust token touches no table but that of the trusted devices.\<close>

lemma wp_trust_check:
  assumes "\<And>b w'. b = trust_accepts H tok u (h_clock H (draws w)) (db w) \<Longrightarrow>
      db w' = (db w)\<lparr>trusted_devices := trusted_devices (db w')\<rparr> \<Longrightarrow> calls w' = calls w \<Longrightarrow>
      in_tx w' = in_tx w \<Longrightarrow> Q (Inr b) w'"
  shows "wp (if truthy tok then trusted_verify H tok u else ret False) Q w"
proof (cases "truthy tok")
  case False
  then have "\<not> trust_accepts H tok u (h_clock H (draws w)) (db w)" by (auto simp: trust_accepts_def)
  with False assms [of False w] show ?thesis by (simp add: wp)
next
  case True
  then obtain x where x: "tok = Some x" "x \<noteq> []" by (auto dest: truthyE)
  show ?thesis
  proof (cases "find (\<lambda>r. td_token_hash r = hash_token H x) (trusted_devices (db w))")
    case None
    then have "\<not> trust_accepts H tok u (h_clock H (draws w)) (db w)" using x by (auto simp: trust_accepts_def)
    with None x assms [of False w] show ?thesis
      by (simp add: trusted_verify_def trusted_find_by_token_hash_def wp)
  next
    case (Some m)
    have b: "trust_accepts H tok u (h_clock H (draws w)) (db w) \<longleftrightarrow> td_user_id m = u \<and> h_clock H (draws w) < td_expires_at m"
      using x Some by (simp add: trust_accepts_def)
    show ?thesis
      using x Some by (simp add: trusted_verify_def trusted_find_by_token_hash_def slide_expires_at_def
          trusted_refresh_expires_at_def wp Let_def)
        (intro conjI impI; rule assms; simp add: b [unfolded x(1)])
  qed
qed

lemma publish_all_effect:
  "promise_all (map (push_publish H) jobs) w = (r, w') \<Longrightarrow>
     db w' = db w \<and> in_tx w' = in_tx w \<and> map snd (calls w') = rev (map QueueAdd jobs) @ map snd (calls w)"
proof (induction jobs arbitrary: w r w')
  case (Cons j js)
  obtain x w1 where x: "push_publish H j w = (x, w1)" by fastforce
  then have w1: "db w1 = db w \<and> in_tx w1 = in_tx w \<and> map snd (calls w1) = QueueAdd j # map snd (calls w)"
    by (auto simp: push_publish_def catching_def svc split: sum.splits)
  obtain y w2 where y: "promise_all (map (push_publish H) js) w1 = (y, w2)" by fastforce
  from Cons.prems x y have "w' = w2" by (auto split: sum.splits)
  with Cons.IH [OF y] w1 show ?case by simp
qed simp

text \<open>A session of the user, and nothing else of the session table, comes with being authenticated.\<close>

definition session_opened :: "user_row \<Rightarrow> database \<Rightarrow> database \<Rightarrow> bool" where
  "session_opened u d d' \<longleftrightarrow> (\<exists>s. refresh_tokens d' = refresh_tokens d @ [s] \<and> rt_user_id s = u_id u \<and>
     rt_revoked_at s = None)"

definition signed_in :: "user_row \<Rightarrow> database \<Rightarrow> login_response \<Rightarrow> database \<Rightarrow> bool" where
  "signed_in u d resp d' \<longleftrightarrow> (\<exists>t dto. resp = AUTHENTICATED t dto \<and> ud_id dto = u_id u) \<and> session_opened u d d'"

lemma authenticated_effect:
  "wp (authenticated H u) (\<lambda>r w'. \<forall>resp. r = Inr resp \<longrightarrow> signed_in u (db w) resp (db w')) w"
  by (simp add: authenticated_def wp signed_in_def session_opened_def Let_def user_dto_of_def
      new_session_row_def)

lemma keeps_tokens_register: "keeps (\<lambda>d. refresh_tokens d = x) (trusted_register H u agent)"
proof (rule keepsI)
  fix w :: world
  assume "refresh_tokens (db w) = x"
  then show "wp (trusted_register H u agent) (\<lambda>_ w'. refresh_tokens (db w') = x) w"
    using trusted_register_effect [of H u agent w]
    by (cases "trusted_register H u agent w"; cases "fst (trusted_register H u agent w)")
      (auto simp: wp_def Let_def)
qed

lemma wp_run_in_tx_Inr:
  assumes "wp m (\<lambda>r w'. \<forall>x. r = Inr x \<longrightarrow> P x (db w')) (w\<lparr>in_tx := True\<rparr>)"
  shows "wp (run_in_tx H m) (\<lambda>r w'. \<forall>x. r = Inr x \<longrightarrow> P x (db w')) w"
proof -
  obtain r w' where run: "run_in_tx H m w = (r, w')" by fastforce
  have "P x (db w')" if "r = Inr x" for x
  proof -
    from run that obtain v where "m (w\<lparr>in_tx := True\<rparr>) = (Inr x, v)" "db w' = db v" by (auto elim: run_in_tx_Inr)
    with assms show ?thesis by (auto simp: wp_def)
  qed
  with run show ?thesis by (simp add: wp_def)
qed

lemma keeps_tokens_trust:
  "keeps (\<lambda>d. refresh_tokens d = x) (if b
     then andThen (trusted_register H i agent) (\<lambda>rawTrustToken. set_trust_cookie H rawTrustToken trust_duration_ms)
     else ret ())"
  unfolding set_trust_cookie_def by (intro keeps_intro keeps_tokens_register)

lemma without_push_effect:
  "wp (login_without_push H data u agent) (\<lambda>r w'. \<forall>resp. r = Inr resp \<longrightarrow> signed_in u (db w) resp (db w')) w"
  unfolding login_without_push_def
proof (rule wp_run_in_tx_Inr, simp only: wp_andThen [where m = "auth_issue_token_pair H u"] wp_issue_token_pair, goal_cases)
  case 1
  have tail: "wp (andThen (if b then andThen (trusted_register H (u_id u) agent)
        (\<lambda>rawTrustToken. set_trust_cookie H rawTrustToken trust_duration_ms) else ret ())
      (\<lambda>_. andThen (auth_build_user_response u) (\<lambda>dto. ret (AUTHENTICATED t dto))))
      (\<lambda>r w'. \<forall>resp. r = Inr resp \<longrightarrow> signed_in u (db w) resp (db w')) v"
    if "session_opened u (db w) (db v)" for b t v
    by (subst wp_andThen, rule wp_frame [of refresh_tokens, OF keeps_tokens_trust])
      (use that in \<open>auto simp: wp signed_in_def user_dto_of_def session_opened_def split: sum.split\<close>)
  show ?case
    by (simp only: Let_def, rule if_bool_eq_conj [THEN iffD2], intro conjI impI, simp,
        rule if_bool_eq_conj [THEN iffD2], intro conjI impI, simp,
        simp only: sum.case, rule tail, simp add: session_opened_def new_session_row_def)
qed

text \<open>Asking for the second factor opens no session and sets no cookie.\<close>

definition asked_second_factor :: "user_row \<Rightarrow> world \<Rightarrow> login_response \<Rightarrow> world \<Rightarrow> bool" where
  "asked_second_factor u w resp w' \<longleftrightarrow> (\<exists>c. resp = TWOFA_REQUIRED (ch_id c) (split_on CHR '','' (ch_options c)) (ch_expires_at c) \<and>
     two_fa_challenges (db w') = two_fa_challenges (db w) @ [c] \<and> ch_user_id c = u_id u \<and> ch_status c = PENDING \<and>
     refresh_tokens (db w') = refresh_tokens (db w) \<and>
     map snd (calls w') = rev (map QueueAdd (push_jobs u c
       (map dv_push_token (filter (\<lambda>d. dv_user_id d = u_id u) (devices (db w)))))) @ map snd (calls w))"

lemma wp_push_tokens [wp]:
  "wp (device_find_push_tokens_by_user_id u) Q w =
     Q (Inr (map dv_push_token (filter (\<lambda>d. dv_user_id d = u) (devices (db w))))) w"
  by (simp add: device_find_push_tokens_by_user_id_def device_find_by_user_id_def wp)

lemma with_push_effect:
  assumes "ts = map dv_push_token (filter (\<lambda>d. dv_user_id d = u_id u) (devices (db w)))"
  shows "wp (login_with_push H u ts) (\<lambda>r w'. \<forall>resp. r = Inr resp \<longrightarrow> asked_second_factor u w resp w') w"
proof -
  have publish: "wp (promise_all (map (push_publish H) jobs)) Q v"
    if "\<And>r v'. db v' = db v \<Longrightarrow> map snd (calls v') = rev (map QueueAdd jobs) @ map snd (calls v) \<Longrightarrow> Q r v'" for jobs Q v
  proof -
    obtain r v' where run: "promise_all (map (push_publish H) jobs) v = (r, v')" by fastforce
    from publish_all_effect [OF this] have "Q r v'" by (intro that) simp_all
    with run show ?thesis by (simp add: wp_def)
  qed
  show ?thesis
  proof (cases "options_loop H [] (draws w)")
    case None
    then show ?thesis
      unfolding login_with_push_def wp_andThen wp_create_challenge create_outcome_def by simp
  next
    case (Some y)
    then obtain nums i where y: "options_loop H [] (draws w) = Some (nums, i)" by (cases y) auto
    let ?c = "new_challenge H (u_id u) nums i"
    have c: "ch_user_id ?c = u_id u" "ch_status ?c = PENDING"
      by (simp_all add: new_challenge_def challenge_row_at_def)
    show ?thesis
      unfolding login_with_push_def wp_andThen wp_create_challenge create_outcome_def y option.case prod.case Let_def
    proof (rule if_bool_eq_conj [THEN iffD2], intro conjI impI, simp, rule if_bool_eq_conj [THEN iffD2],
        intro conjI impI, simp, simp only: sum.case, rule publish, goal_cases)
      case (1 r v')
      then have "asked_second_factor u w (TWOFA_REQUIRED (ch_id ?c) (split_on CHR '','' (ch_options ?c)) (ch_expires_at ?c)) v'"
        unfolding asked_second_factor_def by (intro exI [of _ ?c]) (simp add: c assms)
      then show ?case by (simp add: wp split: sum.split)
    qed
  qed
qed

definition only_trust_changed :: "database \<Rightarrow> database \<Rightarrow> bool" where
  "only_trust_changed d d' \<longleftrightarrow> d' = d\<lparr>trusted_devices := trusted_devices d'\<rparr>"

lemma only_trust_changed_devices: "only_trust_changed d d' \<Longrightarrow> devices d' = devices d"
  unfolding only_trust_changed_def by (drule arg_cong [of _ _ devices]) simp

text \<open>What a login with a user name and a password can come to.\<close>

definition login_user :: "login_body \<Rightarrow> database \<Rightarrow> user_row option" where
  "login_user data d = find (\<lambda>u. u_username u = lb_username data) (users d)"

definition may_sign_in :: "host \<Rightarrow> login_body \<Rightarrow> user_row \<Rightarrow> bool" where
  "may_sign_in H data u \<longleftrightarrow> h_bcrypt_compare H (pepper_password H (lb_password data)) (u_password u) \<and> u_active u"

definition skips_second_factor :: "host \<Rightarrow> string option \<Rightarrow> user_row \<Rightarrow> world \<Rightarrow> bool" where
  "skips_second_factor H tok u w \<longleftrightarrow> trust_accepts H tok (u_id u) (h_clock H (draws w)) (db w) \<or>
     (\<forall>d\<in>set (devices (db w)). dv_user_id d \<noteq> u_id u)"

definition login_outcome :: "host \<Rightarrow> string option \<Rightarrow> user_row \<Rightarrow> world \<Rightarrow> fault + login_response \<Rightarrow> world \<Rightarrow> bool" where
  "login_outcome H tok u w r w' \<longleftrightarrow> (\<forall>resp. r = Inr resp \<longrightarrow>
     (\<exists>v. only_trust_changed (db w) (db v) \<and> calls v = calls w \<and>
        (if skips_second_factor H tok u w then signed_in u (db v) resp (db w') else asked_second_factor u v resp w')))"

definition login_checked :: "host \<Rightarrow> login_body \<Rightarrow> string option \<Rightarrow> string option \<Rightarrow> user_row \<Rightarrow> login_response svc" where
  "login_checked H data trustToken userAgent user =
     andThen (if truthy trustToken then trusted_verify H trustToken (u_id user) else ret False) (\<lambda>trusted.
           if trusted then authenticated H user
           else andThen (device_find_push_tokens_by_user_id (u_id user)) (\<lambda>pushTokens.
             if length pushTokens = 0 then login_without_push H data user userAgent
             else login_with_push H user pushTokens))"

lemma login_checked_effect: "wp (login_checked H data tok agent u) (login_outcome H tok u w) w"
proof (unfold login_checked_def, subst wp_andThen, rule wp_trust_check, simp only: sum.case, goal_cases)
  case (1 b v)
  then have v: "only_trust_changed (db w) (db v)" by (simp only: only_trust_changed_def)
  then have dev: "devices (db v) = devices (db w)" by (rule only_trust_changed_devices)
  show ?case
  proof (cases "trust_accepts H tok (u_id u) (h_clock H (draws w)) (db w)")
    case True
    then have "skips_second_factor H tok u w" by (simp add: skips_second_factor_def)
    with v 1(3) True show ?thesis
      by simp (rule wp_mono [OF authenticated_effect], unfold login_outcome_def, auto)
  next
    case False
    note nb = this
    let ?ts = "map dv_push_token (filter (\<lambda>d. dv_user_id d = u_id u) (devices (db v)))"
    show ?thesis
    proof (cases "?ts = []")
      case True
      with dev have "skips_second_factor H tok u w" by (simp add: skips_second_factor_def filter_empty_conv)
      with v 1(3) nb True show ?thesis
        by (simp add: wp_andThen wp_push_tokens)
          (rule wp_mono [OF without_push_effect], unfold login_outcome_def, auto)
    next
      case False
      with dev nb have "\<not> skips_second_factor H tok u w" by (simp add: skips_second_factor_def filter_empty_conv)
      with v 1(3) nb False show ?thesis
        by (simp add: wp_andThen wp_push_tokens)
          (rule wp_mono [OF with_push_effect [OF refl]], unfold login_outcome_def, auto)
    qed
  qed
qed

lemma login_login_run:
  "login_login H data tok agent w =
     (case login_user data (db w) of
        None \<Rightarrow> (Inl (ApiException INVALID_CREDENTIALS), w)
      | Some u \<Rightarrow>
          if \<not> h_bcrypt_compare H (pepper_password H (lb_password data)) (u_password u)
          then (Inl (ApiException INVALID_CREDENTIALS), w)
          else if \<not> u_active u then (Inl (ApiException ACCOUNT_DISABLED), w)
          else login_checked H data tok agent u w)"
  by (simp add: login_login_def login_checked_def login_user_def user_find_by_username_def
      auth_validate_credentials_def svc andThen_def split: option.split)

subsection \<open>Properties of a login\<close>

lemma login_succeeds:
  assumes "login_login H data tok agent w = (Inr resp, w')"
  shows "\<exists>u. login_user data (db w) = Some u \<and> may_sign_in H data u \<and> login_outcome H tok u w (Inr resp) w'"
proof -
  from assms obtain u where u: "login_user data (db w) = Some u" "may_sign_in H data u"
    "login_checked H data tok agent u w = (Inr resp, w')"
    by (auto simp: login_login_run may_sign_in_def split: option.splits if_splits)
  with wp_use [OF u(3) login_checked_effect [of H data tok agent u w]] show ?thesis by blast
qed


text \<open>
  A login with an unknown user name or a wrong password is answered
  INVALID_CREDENTIALS alike, with the right password of a disabled account
  ACCOUNT_DISABLED, and none of them changes or calls anything.
\<close>

theorem login_refused:
  assumes "login_user data (db w) = None \<or> (\<exists>u. login_user data (db w) = Some u \<and> \<not> may_sign_in H data u)"
  shows "login_login H data tok agent w =
    (Inl (ApiException (case login_user data (db w) of None \<Rightarrow> INVALID_CREDENTIALS
       | Some u \<Rightarrow> if h_bcrypt_compare H (pepper_password H (lb_password data)) (u_password u)
           then ACCOUNT_DISABLED else INVALID_CREDENTIALS)), w)"
  using assms by (auto simp: login_login_run may_sign_in_def split: option.splits)

definition demo_login :: login_body where
  "demo_login = \<lparr>lb_username = ''ada'', lb_password = ''pw'', lb_trust_device = None\<rparr>"


lemma login_refused_witness:
  "login_login demo_host (demo_login\<lparr>lb_password := ''no''\<rparr>) None None (demo_world (empty_db\<lparr>users := [demo_user]\<rparr>)) =
     (Inl (ApiException INVALID_CREDENTIALS), demo_world (empty_db\<lparr>users := [demo_user]\<rparr>))"
  using login_refused [of "demo_login\<lparr>lb_password := ''no''\<rparr>" "demo_world (empty_db\<lparr>users := [demo_user]\<rparr>)" demo_host None None]
  by (simp add: login_user_def demo_login_def may_sign_in_def pepper_password_def)

end
