(* ===== verification/Registration.thy ===== *)
theory Registration
  imports Login
begin

text \<open>
  What \<open>LoginService.register\<close> does to the database: everything of a registration, or
  nothing of it.
\<close>

text \<open>The body of the registration's transaction.\<close>

definition register_body_of :: "host \<Rightarrow> register_body \<Rightarrow> (uuid \<times> string list) svc" where
  "register_body_of H data =
     andThen (invitation_validate_or_throw H (rg_token data)) (\<lambda>_.
     andThen (auth_hash_password H (rg_password data)) (\<lambda>hashedPassword.
     andThen (catching (user_create H (rg_username data) (rg_nickname data) hashedPassword)
       (\<lambda>err. if pg_code err = Some ''23505'' then throw USERNAME_TAKEN else raise err)) (\<lambda>inserted.
     andThen (auth_assign_default_role inserted) (\<lambda>_.
     andThen (backup_generate_for_user H inserted) (\<lambda>rawCodes.
     andThen (invitation_consume H (rg_token data) inserted) (\<lambda>_.
       ret (inserted, rawCodes)))))))"

definition user_added :: "host \<Rightarrow> register_body \<Rightarrow> user_row \<Rightarrow> database \<Rightarrow> database \<Rightarrow> bool" where
  "user_added H data u d d' \<longleftrightarrow> users d' = users d @ [u] \<and> u_username u = rg_username data \<and>
     u_nickname u = rg_nickname data \<and> u_active u \<and> u_id u \<notin> u_id ` set (users d) \<and>
     rg_username data \<notin> u_username ` set (users d) \<and>
     (\<exists>i. u_password u = h_bcrypt_hash H i (pepper_password H (rg_password data)) 10)"

definition invitation_used_by :: "uuid \<Rightarrow> uuid \<Rightarrow> database \<Rightarrow> database \<Rightarrow> bool" where
  "invitation_used_by t u d d' \<longleftrightarrow> (\<exists>now. \<exists>r\<in>set (invitations d). inv_token r = t \<and> inv_used_at r = None \<and>
     inv_deactivated_at r = None \<and>
     invitations d' = update_where (\<lambda>r. inv_token r = t \<and> inv_used_at r = None)
       (\<lambda>r. r\<lparr>inv_used_at := Some now, inv_used_by := Some u\<rparr>) (invitations d))"

text \<open>All that a registration adds, apart from the session it opens afterwards.\<close>

definition registered :: "host \<Rightarrow> register_body \<Rightarrow> user_row \<Rightarrow> string list \<Rightarrow> database \<Rightarrow> database \<Rightarrow> bool" where
  "registered H data u codes d d' \<longleftrightarrow> user_added H data u d d' \<and>
     (\<exists>r\<in>set (roles d). r_name r = ''USER'' \<and> user_roles d' = user_roles d @ [\<lparr>ur_user_id = u_id u, ur_role_id = r_id r\<rparr>]) \<and>
     (\<exists>n. codes = fresh_codes H n) \<and> (\<exists>rs n. backup_codes d' = backup_codes d @ rs \<and> map bc_code_hash rs = code_hashes H n codes \<and>
       (\<forall>r\<in>set rs. bc_user_id r = u_id u \<and> bc_used_at r = None)) \<and>
     invitation_used_by (rg_token data) (u_id u) d d' \<and> refresh_tokens d' = refresh_tokens d"

lemma validate_Inr:
  "invitation_validate_or_throw H t w = (Inr x, w') \<Longrightarrow> db w' = db w \<and>
     (\<exists>r\<in>set (invitations (db w)). inv_token r = t \<and> inv_used_at r = None \<and> inv_deactivated_at r = None)"
  by (auto simp: invitation_validate_or_throw_def invitation_find_by_token_def invitation_get_exception_def
      svc svc_elim split: option.splits if_splits dest!: find_Some_set find_Some_set [OF sym])

lemma hash_password_Inr:
  "auth_hash_password H pw w = (Inr h, w') \<Longrightarrow> db w' = db w \<and> h = h_bcrypt_hash H (draws w) (pepper_password H pw) 10"
  by (auto simp: auth_hash_password_def bcrypt_hash_def svc BCRYPT_ROUNDS_def)

lemma create_user_Inr:
  "catching (user_create H n k h) (\<lambda>err. if pg_code err = Some ''23505'' then throw USERNAME_TAKEN else raise err) w = (Inr uid, w') \<Longrightarrow>
     \<exists>u. db w' = (db w)\<lparr>users := users (db w) @ [u]\<rparr> \<and> u_id u = uid \<and> u_username u = n \<and> u_nickname u = k \<and>
       u_password u = h \<and> u_active u \<and> uid \<notin> u_id ` set (users (db w)) \<and> n \<notin> u_username ` set (users (db w))"
  by (auto simp: catching_def user_create_def user_repo_insert_def andThen_def svc user_exists_def split: if_splits)

lemma assign_role_Inr:
  "auth_assign_default_role uid w = (Inr x, w') \<Longrightarrow> \<exists>r\<in>set (roles (db w)). r_name r = ''USER'' \<and>
     db w' = (db w)\<lparr>user_roles := user_roles (db w) @ [\<lparr>ur_user_id = uid, ur_role_id = r_id r\<rparr>]\<rparr>"
  by (auto simp: auth_assign_default_role_def role_find_by_name_service_def role_find_by_name_def
      role_assign_user_role_def role_insert_user_role_def svc svc_elim andThen_def
      split: option.splits if_splits dest!: find_Some_set)

lemma insert_many_frame:
  "backup_insert_many H u hs w = (Inr x, w') \<Longrightarrow> db w' = (db w)\<lparr>backup_codes := backup_codes (db w')\<rparr>"
  using insert_codes_Inr [of H u hs w "()" w']
  by (auto simp: backup_insert_many_def split: prod.splits sum.splits)

lemma generate_frame:
  assumes "backup_generate_for_user H u w = (Inr codes, w')"
  shows "db w' = (db w)\<lparr>backup_codes := backup_codes (db w')\<rparr>"
proof -
  from assms obtain hs v x where "backup_insert_many H u hs v = (Inr x, w')" "db v = db w"
    by (auto simp: backup_generate_for_user_def generate_raw_codes_def generate_raw_codes_run
        hash_all_run svc_elim svc simp del: upt_Suc upt_conv_Cons)
  with insert_many_frame show ?thesis by metis
qed

lemma consume_Inr:
  "invitation_consume H t u w = (Inr x, w') \<Longrightarrow> \<exists>now. db w' = (db w)\<lparr>invitations :=
     update_where (\<lambda>r. inv_token r = t \<and> inv_used_at r = None)
       (\<lambda>r. r\<lparr>inv_used_at := Some now, inv_used_by := Some u\<rparr>) (invitations (db w))\<rparr>"
  by (auto simp: invitation_consume_def invitation_repo_consume_def svc svc_elim split: list.splits option.splits if_splits)

lemma register_body_Inr:
  assumes "register_body_of H data w = (Inr (uid, codes), w')"
  shows "\<exists>u. u_id u = uid \<and> registered H data u codes (db w) (db w')"
proof -
  from assms obtain x1 w1 h w2 w3 x4 w4 w5 x6 where steps:
    "invitation_validate_or_throw H (rg_token data) w = (Inr x1, w1)"
    "auth_hash_password H (rg_password data) w1 = (Inr h, w2)"
    "catching (user_create H (rg_username data) (rg_nickname data) h)
       (\<lambda>err. if pg_code err = Some ''23505'' then throw USERNAME_TAKEN else raise err) w2 = (Inr uid, w3)"
    "auth_assign_default_role uid w3 = (Inr x4, w4)"
    "backup_generate_for_user H uid w4 = (Inr codes, w5)"
    "invitation_consume H (rg_token data) uid w5 = (Inr x6, w')"
    unfolding register_body_of_def andThen_Inr by (auto simp: svc)
  note v = validate_Inr [OF steps(1)] and h = hash_password_Inr [OF steps(2)]
  from create_user_Inr [OF steps(3)] h v obtain u where
    u: "db w3 = (db w)\<lparr>users := users (db w) @ [u]\<rparr>" "u_id u = uid" "u_username u = rg_username data"
      "u_nickname u = rg_nickname data" "u_password u = h" "u_active u"
      "uid \<notin> u_id ` set (users (db w))" "rg_username data \<notin> u_username ` set (users (db w))" by auto
  from assign_role_Inr [OF steps(4)] u(1) obtain r where
    r: "r \<in> set (roles (db w))" "r_name r = ''USER''"
      "db w4 = (db w3)\<lparr>user_roles := user_roles (db w) @ [\<lparr>ur_user_id = uid, ur_role_id = r_id r\<rparr>]\<rparr>" by auto
  note gen = backup_generate_Inr [OF steps(5)] and frame = generate_frame [OF steps(5)]
  from gen obtain rs where rs: "backup_codes (db w5) = backup_codes (db w4) @ rs"
    "map bc_code_hash rs = code_hashes H (draws w4 + 8) codes"
    "\<forall>r\<in>set rs. bc_user_id r = uid \<and> bc_used_at r = None" by blast
  have d5: "db w5 = (db w4)\<lparr>backup_codes := backup_codes (db w) @ rs\<rparr>"
    by (subst frame) (simp add: rs(1) r(3) u(1))
  from consume_Inr [OF steps(6)] obtain now where now: "db w' = (db w5)\<lparr>invitations :=
     update_where (\<lambda>r. inv_token r = rg_token data \<and> inv_used_at r = None)
       (\<lambda>r. r\<lparr>inv_used_at := Some now, inv_used_by := Some uid\<rparr>) (invitations (db w5))\<rparr>" by blast
  have d': "db w' = (db w)\<lparr>users := users (db w) @ [u],
      user_roles := user_roles (db w) @ [\<lparr>ur_user_id = uid, ur_role_id = r_id r\<rparr>],
      backup_codes := backup_codes (db w) @ rs, invitations :=
        update_where (\<lambda>r. inv_token r = rg_token data \<and> inv_used_at r = None)
          (\<lambda>r. r\<lparr>inv_used_at := Some now, inv_used_by := Some uid\<rparr>) (invitations (db w))\<rparr>"
    by (simp add: now d5 r(3) u(1))
  have "\<exists>n. codes = fresh_codes H n" using gen by blast
  moreover have "user_added H data u (db w) (db w')"
    unfolding user_added_def using u h by (auto simp: d')
  moreover have "invitation_used_by (rg_token data) uid (db w) (db w')"
    unfolding invitation_used_by_def using v by (auto simp: d')
  moreover have "\<exists>rs n. backup_codes (db w') = backup_codes (db w) @ rs \<and> map bc_code_hash rs = code_hashes H n codes \<and>
       (\<forall>r\<in>set rs. bc_user_id r = u_id u \<and> bc_used_at r = None)"
    using rs(2,3) u(2) by (intro exI [of _ rs] exI [of _ "draws w4 + 8"]) (simp add: d')
  moreover have "\<exists>r\<in>set (roles (db w)). r_name r = ''USER'' \<and>
      user_roles (db w') = user_roles (db w) @ [\<lparr>ur_user_id = u_id u, ur_role_id = r_id r\<rparr>]"
    using r(1,2) u(2) by (intro bexI [of _ r]) (simp_all add: d')
  ultimately show ?thesis using u(2)
    by (intro exI [of _ u] conjI) (simp_all add: registered_def d')
qed

lemma login_register_unfold:
  "login_register H data = andThen (run_in_tx H (register_body_of H data)) (\<lambda>(uid, rawCodes).
     andThen (user_find_by_id uid) (\<lambda>found. case found of
       None \<Rightarrow> throw REGISTRATION_FAILED
     | Some user \<Rightarrow>
         andThen (auth_issue_token_pair H user) (\<lambda>accessToken.
         andThen (auth_build_user_response user) (\<lambda>dto.
           ret \<lparr>rgr_access_token = accessToken, rgr_user = dto, rgr_backup_codes = rawCodes\<rparr>))))"
  by (simp add: login_register_def register_body_of_def)

lemma registered_found:
  assumes "registered H data u codes d d'"
  shows "find (\<lambda>x. u_id x = u_id u) (users d') = Some u \<and> user_exists (u_id u) d'"
  using assms by (simp add: registered_def user_added_def user_exists_def find_appended_rows find_key_None)

text \<open>What follows the committed transaction fails only if the new session's identifier is taken.\<close>

lemma register_reply:
  assumes "registered H data u codes d (db v)"
  shows "wp (andThen (user_find_by_id (u_id u)) (\<lambda>found. case found of
       None \<Rightarrow> throw REGISTRATION_FAILED
     | Some user \<Rightarrow>
         andThen (auth_issue_token_pair H user) (\<lambda>accessToken.
         andThen (auth_build_user_response user) (\<lambda>dto.
           ret \<lparr>rgr_access_token = accessToken, rgr_user = dto, rgr_backup_codes = codes\<rparr>))))
    (\<lambda>r w'. case r of
       Inl e \<Rightarrow> \<exists>n. h_uuid H n \<in> rt_id ` set (refresh_tokens d)
     | Inr resp \<Rightarrow> rgr_backup_codes resp = codes \<and> ud_id (rgr_user resp) = u_id u \<and>
         (\<exists>s. db w' = (db v)\<lparr>refresh_tokens := refresh_tokens d @ [s]\<rparr> \<and> rt_user_id s = u_id u \<and> rt_revoked_at s = None)) v"
proof -
  have "refresh_tokens (db v) = refresh_tokens d" using assms by (simp add: registered_def)
  with registered_found [OF assms] show ?thesis
    by (auto simp: wp Let_def user_dto_of_def new_session_row_def)
qed

lemma register_succeeds:
  assumes "login_register H data w = (Inr resp, w')"
  shows "\<exists>u s d. registered H data u (rgr_backup_codes resp) (db w) d \<and> ud_id (rgr_user resp) = u_id u \<and>
    db w' = d\<lparr>refresh_tokens := refresh_tokens (db w) @ [s]\<rparr> \<and> rt_user_id s = u_id u \<and> rt_revoked_at s = None"
proof -
  from assms obtain uid codes v where tx: "run_in_tx H (register_body_of H data) w = (Inr (uid, codes), v)"
    and rest: "andThen (user_find_by_id uid) (\<lambda>found. case found of
       None \<Rightarrow> throw REGISTRATION_FAILED
     | Some user \<Rightarrow>
         andThen (auth_issue_token_pair H user) (\<lambda>accessToken.
         andThen (auth_build_user_response user) (\<lambda>dto.
           ret \<lparr>rgr_access_token = accessToken, rgr_user = dto, rgr_backup_codes = codes\<rparr>))) v = (Inr resp, w')"
    unfolding login_register_unfold andThen_Inr by (auto simp: andThen_Inr)
  from tx obtain x where "register_body_of H data (w\<lparr>in_tx := True\<rparr>) = (Inr (uid, codes), x)" "db v = db x"
    by (rule run_in_tx_Inr)
  with register_body_Inr obtain u where u: "u_id u = uid" "registered H data u codes (db w) (db v)" by fastforce
  from wp_use [OF rest [folded u(1)] register_reply [OF u(2)]] show ?thesis using u(2) by auto
qed

text \<open>
  C10: a successful registration adds exactly one active user with the name asked for,
  which nobody had, and the peppered hash of the password; gives it the USER role; stores
  the hashes of the eight backup codes it returns; uses up an invitation that was neither
  used nor deactivated; and opens one session of the new user.
\<close>

theorem register_spec:
  assumes "login_register H data w = (Inr resp, w')"
  shows "\<exists>u s d. registered H data u (rgr_backup_codes resp) (db w) d \<and> ud_id (rgr_user resp) = u_id u \<and>
    db w' = d\<lparr>refresh_tokens := refresh_tokens (db w) @ [s]\<rparr> \<and> rt_user_id s = u_id u \<and> rt_revoked_at s = None"
  using assms by (rule register_succeeds)


subsection \<open>The properties at concrete inputs\<close>

definition demo_register_db :: database where
  "demo_register_db = demo_invitations\<lparr>invitations := [\<lparr>inv_id = ''1'', inv_token = ''01234567-89ab-cdef-0123-456789abcdef'',
       inv_created_by = ''ada'', inv_used_by = None, inv_used_at = None, inv_expires_at = 100,
       inv_deactivated_at = None, inv_created_at = 0\<rparr>], roles := [\<lparr>r_id = ''r'', r_name = ''USER'', r_is_system = True, r_created_at = 0\<rparr>]\<rparr>"

definition demo_register :: register_body where
  "demo_register = \<lparr>rg_token = ''01234567-89ab-cdef-0123-456789abcdef'', rg_username = ''bob'', rg_nickname = ''Bob'', rg_password = ''password''\<rparr>"

lemma demo_registers:
  "\<exists>resp w'. login_register demo_host demo_register (demo_world demo_register_db) = (Inr resp, w') \<and>
     list_all (\<lambda>s. length (rt_id s) \<le> draws w') (refresh_tokens (db w'))"
proof -
  have "wp (login_register demo_host demo_register) (\<lambda>r w'. \<not> isl r \<and>
      list_all (\<lambda>s. length (rt_id s) \<le> draws w') (refresh_tokens (db w'))) (demo_world demo_register_db)"
    by (simp add: wp_def login_register_def invitation_validate_or_throw_def invitation_find_by_token_def
      invitation_get_exception_def auth_hash_password_def catching_def user_create_def user_repo_insert_def
      auth_assign_default_role_def role_find_by_name_service_def role_find_by_name_def role_assign_user_role_def
      role_insert_user_role_def demo_register_def demo_register_db_def demo_invitations_def
      svc andThen_def run_in_tx_def tx_current_def db_transaction_def tx_run_def backup_generate_for_user_def
      generate_raw_codes_def generate_raw_codes_run hash_all_run CODE_COUNT_def BCRYPT_ROUNDS_def
      backup_insert_many_def backup_insert_one_def user_exists_def eval_nat_numeral upt_conv_Cons bcrypt_hash_def
      invitation_consume_def invitation_repo_consume_def user_find_by_id_def auth_issue_token_pair_def
      auth_generate_access_token_def role_get_permissions_by_user_id_def role_find_permissions_by_user_id_def
      token_generate_access_def session_defs set_refresh_cookie_def auth_build_user_response_def Let_def del: upt_Suc)
  then show ?thesis by (auto simp: wp_def isl_def split: prod.splits)
    (metis sum.exhaust)
qed

lemma register_spec_witness:
  "\<exists>resp w' u d. login_register demo_host demo_register (demo_world demo_register_db) = (Inr resp, w') \<and>
     registered demo_host demo_register u (rgr_backup_codes resp) demo_register_db d"
proof -
  obtain resp w' where run: "login_register demo_host demo_register (demo_world demo_register_db) = (Inr resp, w')"
    using demo_registers by blast
  from register_spec [OF this] run show ?thesis by auto
qed


end
