(* ===== verification/Folders.thy ===== *)
theory Folders
  imports Login
begin

text \<open>
  \<open>folder\<close>: the folder repository with its recursive queries, the service with its listing
  cache, the bodies and the controller. A recursive query over a table whose parent links
  form a cycle never returns; the queries are partial functions whose missing value is
  the fault \<open>NeverReturns\<close>.
\<close>

subsection \<open>\<open>folder.repository.ts\<close>\<close>

definition to_folder_item :: "folder_row \<Rightarrow> folder_item" where
  "to_folder_item row = \<lparr>foi_id = fo_id row, foi_name = fo_name row, foi_parent_id = fo_parent_id row,
     foi_created_at = fo_created_at row, foi_updated_at = fo_updated_at row\<rparr>"

definition folder_find_root_children :: "uuid \<Rightarrow> folder_row list svc" where
  "folder_find_root_children userId = query (\<lambda>d. filter (\<lambda>r. fo_user_id r = userId \<and> fo_parent_id r = None \<and>
     fo_soft_deleted_at r = None) (folders d))"

definition folder_find_children :: "uuid \<Rightarrow> uuid \<Rightarrow> folder_row list svc" where
  "folder_find_children folderId userId = query (\<lambda>d. filter (\<lambda>r. fo_user_id r = userId \<and>
     fo_parent_id r = Some folderId \<and> fo_soft_deleted_at r = None) (folders d))"

definition live_folder :: "uuid \<Rightarrow> uuid \<Rightarrow> folder_row \<Rightarrow> bool" where
  "live_folder fid userId r \<longleftrightarrow> fo_id r = fid \<and> fo_user_id r = userId \<and> fo_soft_deleted_at r = None"

definition folder_find_by_id_and_user :: "uuid \<Rightarrow> uuid \<Rightarrow> folder_row option svc" where
  "folder_find_by_id_and_user fid userId = query (\<lambda>d. find (live_folder fid userId) (folders d))"

definition folder_insert :: "host \<Rightarrow> uuid \<Rightarrow> string \<Rightarrow> uuid option \<Rightarrow> folder_row svc" where
  "folder_insert H userId name parentId =
     andThen (random_uuid H) (\<lambda>fid.
     andThen (new_date H) (\<lambda>now.
     andThen (check_unique (\<lambda>d. fid \<in> fo_id ` set (folders d)) ''folders_pkey'') (\<lambda>_.
     andThen (check_fk (user_exists userId) ''folders_user_id_users_id_fk'') (\<lambda>_.
     andThen (check_fk (folder_exists parentId) ''folders_parent_id_folders_id_fk'') (\<lambda>_.
     let row = \<lparr>fo_id = fid, fo_user_id = userId, fo_parent_id = parentId, fo_name = name,
                fo_soft_deleted_at = None, fo_created_at = now, fo_updated_at = now\<rparr> in
     andThen (statement (\<lambda>d. d\<lparr>folders := folders d @ [row]\<rparr>)) (\<lambda>_. ret row))))))"

definition folder_repo_rename :: "host \<Rightarrow> uuid \<Rightarrow> uuid \<Rightarrow> string \<Rightarrow> folder_row option svc" where
  "folder_repo_rename H fid userId name =
     andThen (new_date H) (\<lambda>now.
     andThen (statement (\<lambda>d. d\<lparr>folders := update_where (live_folder fid userId)
        (\<lambda>r. r\<lparr>fo_name := name, fo_updated_at := now\<rparr>) (folders d)\<rparr>)) (\<lambda>_.
       folder_find_by_id_and_user fid userId))"

definition folder_repo_move :: "host \<Rightarrow> uuid \<Rightarrow> uuid \<Rightarrow> uuid option \<Rightarrow> folder_row option svc" where
  "folder_repo_move H fid userId parentId =
     andThen (new_date H) (\<lambda>now.
     andThen (query (\<lambda>d. find (live_folder fid userId) (folders d))) (\<lambda>found. case found of
       None \<Rightarrow> ret None
     | Some _ \<Rightarrow>
         andThen (check_fk (folder_exists parentId) ''folders_parent_id_folders_id_fk'') (\<lambda>_.
         andThen (statement (\<lambda>d. d\<lparr>folders := update_where (live_folder fid userId)
            (\<lambda>r. r\<lparr>fo_parent_id := parentId, fo_updated_at := now\<rparr>) (folders d)\<rparr>)) (\<lambda>_.
           folder_find_by_id_and_user fid userId))))"

definition folder_find_root_files :: "uuid \<Rightarrow> file_row list svc" where
  "folder_find_root_files userId = query (\<lambda>d. filter (\<lambda>r. fi_user_id r = userId \<and> fi_folder_id r = None \<and>
     fi_soft_deleted_at r = None) (files d))"

definition folder_find_files_by_folder :: "uuid \<Rightarrow> uuid \<Rightarrow> file_row list svc" where
  "folder_find_files_by_folder folderId userId = query (\<lambda>d. filter (\<lambda>r. fi_user_id r = userId \<and>
     fi_folder_id r = Some folderId \<and> fi_soft_deleted_at r = None) (files d))"

text \<open>
  \<open>WITH RECURSIVE ancestors\<close>: the row with the identifier, then the row of its parent, and
  so on. The identifier is a primary key, so each step finds one row at most.
\<close>

partial_function (option) ancestors :: "folder_row list \<Rightarrow> uuid option \<Rightarrow> uuid list option" where
  "ancestors rs i =
     (case i of
        None \<Rightarrow> Some []
      | Some fid \<Rightarrow>
          (case find (\<lambda>r. fo_id r = fid) rs of
             None \<Rightarrow> Some []
           | Some r \<Rightarrow> Option.bind (ancestors rs (fo_parent_id r)) (\<lambda>is. Some (fid # is))))"

declare ancestors.simps [code]

definition or_never :: "'a option \<Rightarrow> 'a svc" where
  "or_never v = (case v of None \<Rightarrow> raise NeverReturns | Some x \<Rightarrow> ret x)"

text \<open>\<open>SELECT COUNT(*) - 1\<close>: minus one for an identifier that is in no row.\<close>

definition folder_get_depth :: "uuid \<Rightarrow> int svc" where
  "folder_get_depth folderId =
     andThen (query (\<lambda>d. ancestors (folders d) (Some folderId))) (\<lambda>v.
     andThen (or_never v) (\<lambda>is. ret (int (length is) - 1)))"

definition folder_is_descendant :: "uuid \<Rightarrow> uuid \<Rightarrow> bool svc" where
  "folder_is_descendant folderId potentialAncestorId =
     andThen (query (\<lambda>d. ancestors (folders d) (Some folderId))) (\<lambda>v.
     andThen (or_never v) (\<lambda>is. ret (potentialAncestorId \<in> set is)))"

text \<open>\<open>WITH RECURSIVE subtree\<close>: each round adds the children of the rows the last one added.\<close>

definition children_of :: "folder_row list \<Rightarrow> uuid list \<Rightarrow> uuid list" where
  "children_of rs is = [fo_id r. s \<leftarrow> is, r \<leftarrow> rs, fo_parent_id r = Some s]"

partial_function (option) subtree :: "folder_row list \<Rightarrow> uuid list \<Rightarrow> uuid list option" where
  "subtree rs is =
     (if is = [] then Some []
      else Option.bind (subtree rs (children_of rs is)) (\<lambda>js. Some (is @ js)))"

declare subtree.simps [code]

definition subtree_root :: "folder_row list \<Rightarrow> uuid \<Rightarrow> uuid \<Rightarrow> uuid list" where
  "subtree_root rs fid userId = [fo_id r. r \<leftarrow> rs, fo_id r = fid \<and> fo_user_id r = userId]"

definition user_subtree :: "uuid \<Rightarrow> uuid \<Rightarrow> uuid list svc" where
  "user_subtree fid userId =
     andThen (query (\<lambda>d. subtree (folders d) (subtree_root (folders d) fid userId))) or_never"

definition in_folders :: "uuid list \<Rightarrow> uuid option \<Rightarrow> bool" where
  "in_folders is f \<longleftrightarrow> (case f of None \<Rightarrow> False | Some i \<Rightarrow> i \<in> set is)"

definition mark_folders :: "uuid list \<Rightarrow> millis option \<Rightarrow> folder_row list \<Rightarrow> folder_row list" where
  "mark_folders is t = update_where (\<lambda>r. fo_id r \<in> set is) (\<lambda>r. r\<lparr>fo_soft_deleted_at := t\<rparr>)"

definition mark_files :: "uuid list \<Rightarrow> millis option \<Rightarrow> file_row list \<Rightarrow> file_row list" where
  "mark_files is t = update_where (\<lambda>r. in_folders is (fi_folder_id r)) (\<lambda>r. r\<lparr>fi_soft_deleted_at := t\<rparr>)"

definition folder_soft_delete_cascade :: "host \<Rightarrow> uuid \<Rightarrow> uuid \<Rightarrow> unit svc" where
  "folder_soft_delete_cascade H fid userId =
     andThen (new_date H) (\<lambda>now.
     andThen (user_subtree fid userId) (\<lambda>is.
       statement (\<lambda>d. d\<lparr>folders := mark_folders is (Some now) (folders d),
                        files := mark_files is (Some now) (files d)\<rparr>)))"

subsection \<open>\<open>folder.service.ts\<close>\<close>

definition MAX_FOLDER_DEPTH :: int where "MAX_FOLDER_DEPTH = 20"

text \<open>The \<open>ttl\<close> of \<open>CacheModule\<close> in \<open>app.module.ts\<close>.\<close>

definition CACHE_TTL_MS :: int where "CACHE_TTL_MS = 60000"

definition listing_key :: "uuid \<Rightarrow> uuid option \<Rightarrow> string" where
  "listing_key userId folderId = ''files:user:'' @ userId @ '':folder:'' @ nullish folderId ''root''"

definition invalidate_listing :: "host \<Rightarrow> uuid \<Rightarrow> uuid option \<Rightarrow> unit svc" where
  "invalidate_listing H userId folderId = call_unit H (CacheDel (listing_key userId folderId))"

definition folder_find_by_id :: "uuid \<Rightarrow> uuid \<Rightarrow> folder_item option svc" where
  "folder_find_by_id fid userId =
     andThen (folder_find_by_id_and_user fid userId) (\<lambda>row. ret (map_option to_folder_item row))"

text \<open>The cached listing, or else the one that is read and cached. Only listings are kept under these keys.\<close>

definition cached_listing :: "host \<Rightarrow> string \<Rightarrow> (folder_row list \<times> file_row list) svc \<Rightarrow> folder_children svc" where
  "cached_listing H key read =
     andThen (cache_get H key) (\<lambda>cached. case cached of
       Some (ListingValue v) \<Rightarrow> ret v
     | _ \<Rightarrow>
         andThen read (\<lambda>(folderRows, fs).
         let result = \<lparr>fc_folders = map to_folder_item folderRows, fc_files = fs\<rparr> in
         andThen (call_unit H (CacheSet key (ListingValue result) CACHE_TTL_MS)) (\<lambda>_. ret result)))"

definition folder_get_root :: "host \<Rightarrow> uuid \<Rightarrow> folder_children svc" where
  "folder_get_root H userId = cached_listing H (listing_key userId None)
     (andThen (folder_find_root_children userId) (\<lambda>fs.
      andThen (folder_find_root_files userId) (\<lambda>gs. ret (fs, gs))))"

definition folder_get_children :: "host \<Rightarrow> uuid \<Rightarrow> uuid \<Rightarrow> folder_children svc" where
  "folder_get_children H userId folderId =
     andThen (folder_find_by_id_and_user folderId userId) (\<lambda>folder. case folder of
       None \<Rightarrow> throw FOLDER_NOT_FOUND
     | Some _ \<Rightarrow> cached_listing H (listing_key userId (Some folderId))
         (andThen (folder_find_children folderId userId) (\<lambda>fs.
          andThen (folder_find_files_by_folder folderId userId) (\<lambda>gs. ret (fs, gs)))))"

definition folder_create :: "host \<Rightarrow> uuid \<Rightarrow> string \<Rightarrow> uuid option \<Rightarrow> folder_item svc" where
  "folder_create H userId name parentId =
     andThen (if truthy parentId
        then andThen (folder_find_by_id_and_user (the parentId) userId) (\<lambda>parent. case parent of
               None \<Rightarrow> throw FOLDER_NOT_FOUND
             | Some _ \<Rightarrow>
                 andThen (folder_get_depth (the parentId)) (\<lambda>depth.
                   if MAX_FOLDER_DEPTH \<le> depth then throw FOLDER_DEPTH_EXCEEDED else ret ()))
        else ret ()) (\<lambda>_.
     andThen (folder_insert H userId name parentId) (\<lambda>row.
     andThen (invalidate_listing H userId parentId) (\<lambda>_. ret (to_folder_item row))))"

definition folder_rename :: "host \<Rightarrow> uuid \<Rightarrow> uuid \<Rightarrow> string \<Rightarrow> folder_item svc" where
  "folder_rename H userId fid name =
     andThen (folder_repo_rename H fid userId name) (\<lambda>row. case row of
       None \<Rightarrow> throw FOLDER_NOT_FOUND
     | Some r \<Rightarrow> andThen (invalidate_listing H userId (fo_parent_id r)) (\<lambda>_. ret (to_folder_item r)))"

definition folder_move :: "host \<Rightarrow> uuid \<Rightarrow> uuid \<Rightarrow> uuid option \<Rightarrow> folder_item svc" where
  "folder_move H userId fid parentId =
     andThen (folder_find_by_id_and_user fid userId) (\<lambda>folder. case folder of
       None \<Rightarrow> throw FOLDER_NOT_FOUND
     | Some f \<Rightarrow>
         andThen (case parentId of
             None \<Rightarrow> ret ()
           | Some p \<Rightarrow>
               andThen (folder_find_by_id_and_user p userId) (\<lambda>target. case target of
                 None \<Rightarrow> throw FOLDER_NOT_FOUND
               | Some _ \<Rightarrow>
                   andThen (folder_is_descendant p fid) (\<lambda>isDescendant.
                     if isDescendant then throw INVALID_MOVE_TARGET else ret ()))) (\<lambda>_.
         andThen (folder_repo_move H fid userId parentId) (\<lambda>row. case row of
           None \<Rightarrow> throw FOLDER_NOT_FOUND
         | Some r \<Rightarrow>
             andThen (promise_all [invalidate_listing H userId (fo_parent_id f), invalidate_listing H userId parentId])
               (\<lambda>_. ret (to_folder_item r)))))"

definition folder_remove :: "host \<Rightarrow> uuid \<Rightarrow> uuid \<Rightarrow> unit svc" where
  "folder_remove H userId fid =
     andThen (folder_find_by_id_and_user fid userId) (\<lambda>folder. case folder of
       None \<Rightarrow> throw FOLDER_NOT_FOUND
     | Some f \<Rightarrow>
         andThen (folder_soft_delete_cascade H fid userId) (\<lambda>_.
           invalidate_listing H userId (fo_parent_id f)))"

definition folder_assert_belongs_to_user :: "uuid \<Rightarrow> uuid \<Rightarrow> unit svc" where
  "folder_assert_belongs_to_user folderId userId =
     andThen (folder_find_by_id_and_user folderId userId) (\<lambda>folder. case folder of
       None \<Rightarrow> throw FOLDER_NOT_FOUND
     | Some _ \<Rightarrow> ret ())"

subsection \<open>Bodies and controller\<close>

definition nullable_uuid_valid :: "uuid option \<Rightarrow> bool" where
  "nullable_uuid_valid v \<longleftrightarrow> (case v of None \<Rightarrow> True | Some i \<Rightarrow> is_uuid i)"

definition create_folder_body_valid :: "string \<Rightarrow> uuid option \<Rightarrow> bool" where
  "create_folder_body_valid name parentId \<longleftrightarrow> length_between 1 255 name \<and> nullable_uuid_valid parentId"

definition rename_folder_body_valid :: "string \<Rightarrow> bool" where
  "rename_folder_body_valid name \<longleftrightarrow> length_between 1 255 name"

definition move_folder_body_valid :: "uuid option \<Rightarrow> bool" where
  "move_folder_body_valid parentId \<longleftrightarrow> nullable_uuid_valid parentId"

definition folder_controller_get_root :: "host \<Rightarrow> auth_user \<Rightarrow> folder_children svc" where
  "folder_controller_get_root H user = folder_get_root H (aus_user_id user)"

definition folder_controller_get_children :: "host \<Rightarrow> auth_user \<Rightarrow> uuid \<Rightarrow> folder_children svc" where
  "folder_controller_get_children H user fid = folder_get_children H (aus_user_id user) fid"

definition folder_controller_create :: "host \<Rightarrow> auth_user \<Rightarrow> string \<Rightarrow> uuid option \<Rightarrow> folder_item svc" where
  "folder_controller_create H user name parentId = folder_create H (aus_user_id user) name parentId"

definition folder_controller_rename :: "host \<Rightarrow> auth_user \<Rightarrow> uuid \<Rightarrow> string \<Rightarrow> folder_item svc" where
  "folder_controller_rename H user fid name = folder_rename H (aus_user_id user) fid name"

definition folder_controller_move :: "host \<Rightarrow> auth_user \<Rightarrow> uuid \<Rightarrow> uuid option \<Rightarrow> folder_item svc" where
  "folder_controller_move H user fid parentId = folder_move H (aus_user_id user) fid parentId"

definition folder_controller_remove :: "host \<Rightarrow> auth_user \<Rightarrow> uuid \<Rightarrow> unit svc" where
  "folder_controller_remove H user fid = folder_remove H (aus_user_id user) fid"

end
