(* ===== verification/Files.thy ===== *)
theory Files
  imports Folders
begin

text \<open>
  \<open>file\<close>, apart from the uploads: the file repository with its \<open>ILIKE\<close> search, the file
  service with copies in the object store, the bodies, and the two controllers with the
  headers of a download.
\<close>

subsection \<open>\<open>file.repository.ts\<close>\<close>

definition to_file_item :: "file_row \<Rightarrow> file_item" where
  "to_file_item row = \<lparr>fii_id = fi_id row, fii_name = fi_name row, fii_folder_id = fi_folder_id row,
     fii_size = fi_size row, fii_mime_type = fi_mime_type row, fii_created_at = fi_created_at row,
     fii_updated_at = fi_updated_at row\<rparr>"

definition live_file :: "uuid \<Rightarrow> uuid \<Rightarrow> file_row \<Rightarrow> bool" where
  "live_file fid userId r \<longleftrightarrow> fi_id r = fid \<and> fi_user_id r = userId \<and> fi_soft_deleted_at r = None"

definition file_find_by_id_and_user :: "uuid \<Rightarrow> uuid \<Rightarrow> file_row option svc" where
  "file_find_by_id_and_user fid userId = query (\<lambda>d. find (live_file fid userId) (files d))"

definition file_insert ::
    "host \<Rightarrow> uuid \<Rightarrow> uuid option \<Rightarrow> string \<Rightarrow> string \<Rightarrow> int \<Rightarrow> string \<Rightarrow> file_row svc" where
  "file_insert H userId folderId name minioKey sz mimeType =
     andThen (random_uuid H) (\<lambda>fid.
     andThen (new_date H) (\<lambda>now.
     andThen (check_unique (\<lambda>d. fid \<in> fi_id ` set (files d)) ''files_pkey'') (\<lambda>_.
     andThen (check_unique (\<lambda>d. minioKey \<in> fi_minio_key ` set (files d)) ''files_minio_key_unique'') (\<lambda>_.
     andThen (check_fk (user_exists userId) ''files_user_id_users_id_fk'') (\<lambda>_.
     andThen (check_fk (folder_exists folderId) ''files_folder_id_folders_id_fk'') (\<lambda>_.
     let row = \<lparr>fi_id = fid, fi_user_id = userId, fi_folder_id = folderId, fi_name = name,
                fi_minio_key = minioKey, fi_size = sz, fi_mime_type = mimeType,
                fi_soft_deleted_at = None, fi_created_at = now, fi_updated_at = now\<rparr> in
     andThen (statement (\<lambda>d. d\<lparr>files := files d @ [row]\<rparr>)) (\<lambda>_. ret row)))))))"

definition file_repo_rename :: "host \<Rightarrow> uuid \<Rightarrow> uuid \<Rightarrow> string \<Rightarrow> file_row option svc" where
  "file_repo_rename H fid userId name =
     andThen (new_date H) (\<lambda>now.
     andThen (statement (\<lambda>d. d\<lparr>files := update_where (live_file fid userId)
        (\<lambda>r. r\<lparr>fi_name := name, fi_updated_at := now\<rparr>) (files d)\<rparr>)) (\<lambda>_.
       file_find_by_id_and_user fid userId))"

definition file_repo_move :: "host \<Rightarrow> uuid \<Rightarrow> uuid \<Rightarrow> uuid option \<Rightarrow> file_row option svc" where
  "file_repo_move H fid userId folderId =
     andThen (new_date H) (\<lambda>now.
     andThen (file_find_by_id_and_user fid userId) (\<lambda>found. case found of
       None \<Rightarrow> ret None
     | Some _ \<Rightarrow>
         andThen (check_fk (folder_exists folderId) ''files_folder_id_folders_id_fk'') (\<lambda>_.
         andThen (statement (\<lambda>d. d\<lparr>files := update_where (live_file fid userId)
            (\<lambda>r. r\<lparr>fi_folder_id := folderId, fi_updated_at := now\<rparr>) (files d)\<rparr>)) (\<lambda>_.
           file_find_by_id_and_user fid userId))))"

definition file_soft_delete :: "host \<Rightarrow> uuid \<Rightarrow> uuid \<Rightarrow> bool svc" where
  "file_soft_delete H fid userId =
     andThen (new_date H) (\<lambda>now.
     andThen (query (\<lambda>d. filter (live_file fid userId) (files d))) (\<lambda>result.
     andThen (statement (\<lambda>d. d\<lparr>files := update_where (live_file fid userId)
        (\<lambda>r. r\<lparr>fi_soft_deleted_at := Some now\<rparr>) (files d)\<rparr>)) (\<lambda>_.
       ret (length result > 0))))"

definition file_folder_belongs_to_user :: "uuid \<Rightarrow> uuid \<Rightarrow> bool svc" where
  "file_folder_belongs_to_user folderId userId =
     andThen (query (\<lambda>d. find (live_folder folderId userId) (folders d))) (\<lambda>row. ret (row \<noteq> None))"

text \<open>
  \<open>ILIKE\<close>: a percent sign matches any text, an underscore any character, a backslash takes
  the next character as it is, and letters match in either case. Case is folded for ASCII.
\<close>

definition lower_char :: "char \<Rightarrow> char" where
  "lower_char c = (let n = (of_char c :: nat) in if 65 \<le> n \<and> n \<le> 90 then char_of (n + 32) else c)"

definition lower :: "string \<Rightarrow> string" where
  "lower s = map lower_char s"

fun like :: "string \<Rightarrow> string \<Rightarrow> bool" where
  "like [] s = (s = [])"
| "like (p # ps) s =
     (if p = CHR ''%'' then like ps s \<or> (case s of [] \<Rightarrow> False | _ # cs \<Rightarrow> like (p # ps) cs)
      else if p = CHR ''_'' then (case s of [] \<Rightarrow> False | _ # cs \<Rightarrow> like ps cs)
      else if p = CHR 0x5C then
        (case ps of [] \<Rightarrow> False
         | q # qs \<Rightarrow> (case s of [] \<Rightarrow> False | c # cs \<Rightarrow> lower_char c = lower_char q \<and> like qs cs))
      else (case s of [] \<Rightarrow> False | c # cs \<Rightarrow> lower_char c = lower_char p \<and> like ps cs))"

definition file_repo_search :: "uuid \<Rightarrow> string \<Rightarrow> uuid option \<Rightarrow> file_row list svc" where
  "file_repo_search userId q folderId = query (\<lambda>d. filter (\<lambda>r. fi_user_id r = userId \<and> fi_soft_deleted_at r = None \<and>
     like (''%'' @ q @ ''%'') (fi_name r) \<and> (truthy folderId \<longrightarrow> fi_folder_id r = folderId)) (files d))"

subsection \<open>\<open>file.service.ts\<close>, with the calls of \<open>minio.service.ts\<close>\<close>

definition minio_get_object :: "host \<Rightarrow> string \<Rightarrow> string svc" where
  "minio_get_object H key = call_text H (S3Get key)"

definition minio_stat_object :: "host \<Rightarrow> string \<Rightarrow> int svc" where
  "minio_stat_object H key = call H (\<lambda>cs t. h_stat H cs t key) (S3Stat key)"

definition minio_copy_object :: "host \<Rightarrow> string \<Rightarrow> string \<Rightarrow> unit svc" where
  "minio_copy_object H source dest = call_unit H (S3Copy source dest)"

definition minio_remove_object :: "host \<Rightarrow> string \<Rightarrow> unit svc" where
  "minio_remove_object H key = call_unit H (S3Remove key)"

definition minio_remove_objects :: "host \<Rightarrow> string list \<Rightarrow> unit svc" where
  "minio_remove_objects H keys = (if length keys = 0 then ret () else call_unit H (S3RemoveMany keys))"

definition minio_presigned_put_object :: "host \<Rightarrow> string \<Rightarrow> nat \<Rightarrow> string svc" where
  "minio_presigned_put_object H key expirySec = call_text H (S3PresignPut key expirySec)"

definition minio_create_multipart_upload :: "host \<Rightarrow> string \<Rightarrow> string \<Rightarrow> string svc" where
  "minio_create_multipart_upload H key mimeType = call_text H (S3CreateMultipart key mimeType)"

definition minio_presigned_put_part :: "host \<Rightarrow> string \<Rightarrow> string \<Rightarrow> nat \<Rightarrow> nat \<Rightarrow> string svc" where
  "minio_presigned_put_part H key uploadId partNumber expirySec =
     call_text H (S3PresignPart key uploadId partNumber expirySec)"

definition minio_complete_multipart_upload :: "host \<Rightarrow> string \<Rightarrow> string \<Rightarrow> (nat \<times> string) list \<Rightarrow> unit svc" where
  "minio_complete_multipart_upload H key uploadId parts = call_unit H (S3CompleteMultipart key uploadId parts)"

definition minio_abort_multipart_upload :: "host \<Rightarrow> string \<Rightarrow> string \<Rightarrow> unit svc" where
  "minio_abort_multipart_upload H key uploadId = call_unit H (S3AbortMultipart key uploadId)"

text \<open>
  \<open>path.extname\<close>: the last segment of the path (trailing slashes aside) from its last dot
  on, unless that dot starts the segment or the segment is two dots.
\<close>

definition base_name :: "string \<Rightarrow> string" where
  "base_name s = rev (takeWhile (\<lambda>c. c \<noteq> CHR ''/'') (dropWhile (\<lambda>c. c = CHR ''/'') (rev s)))"

definition extname :: "string \<Rightarrow> string" where
  "extname s =
     (let b = base_name s;
          ext = rev (takeWhile (\<lambda>c. c \<noteq> CHR ''.'') (rev b));
          stem = take (length b - length ext - 1) b in
      if CHR ''.'' \<notin> set b \<or> stem = [] \<or> b = ''..'' then [] else CHR ''.'' # ext)"

definition ensure_extension :: "host \<Rightarrow> string \<Rightarrow> string \<Rightarrow> string" where
  "ensure_extension H name mimeType =
     (if extname name \<noteq> [] then name
      else (case h_mime_extension H mimeType of
          None \<Rightarrow> name
        | Some ext \<Rightarrow> if ext \<noteq> [] then name @ ''.'' @ ext else name))"

record download_stream =
  ds_stream :: string
  ds_name :: string
  ds_size :: int
  ds_mime_type :: string

definition file_get_object_stream :: "host \<Rightarrow> string \<Rightarrow> string svc" where
  "file_get_object_stream H minioKey = minio_get_object H minioKey"

definition file_get_download_stream :: "host \<Rightarrow> uuid \<Rightarrow> uuid \<Rightarrow> download_stream svc" where
  "file_get_download_stream H userId fileId =
     andThen (file_find_by_id_and_user fileId userId) (\<lambda>found. case found of
       None \<Rightarrow> throw FILE_NOT_FOUND
     | Some file \<Rightarrow>
         andThen (file_get_object_stream H (fi_minio_key file)) (\<lambda>stream.
           ret \<lparr>ds_stream = stream, ds_name = ensure_extension H (fi_name file) (fi_mime_type file),
                ds_size = fi_size file, ds_mime_type = fi_mime_type file\<rparr>))"

definition file_resolve_zip_files :: "host \<Rightarrow> uuid list \<Rightarrow> uuid \<Rightarrow> (string \<times> string) list svc" where
  "file_resolve_zip_files H fileIds userId =
     andThen (promise_all (map (\<lambda>i. file_find_by_id_and_user i userId) fileIds)) (\<lambda>rows.
       ret (map (\<lambda>r. (ensure_extension H (fi_name r) (fi_mime_type r), fi_minio_key r))
         (map the (filter (\<lambda>r. r \<noteq> None) rows))))"

definition file_rename :: "host \<Rightarrow> uuid \<Rightarrow> uuid \<Rightarrow> string \<Rightarrow> file_item svc" where
  "file_rename H userId fid name =
     andThen (file_repo_rename H fid userId name) (\<lambda>row. case row of
       None \<Rightarrow> throw FILE_NOT_FOUND
     | Some r \<Rightarrow> andThen (invalidate_listing H userId (fi_folder_id r)) (\<lambda>_. ret (to_file_item r)))"

definition file_move :: "host \<Rightarrow> uuid \<Rightarrow> uuid \<Rightarrow> uuid option \<Rightarrow> file_item svc" where
  "file_move H userId fid folderId =
     andThen (file_find_by_id_and_user fid userId) (\<lambda>found. case found of
       None \<Rightarrow> throw FILE_NOT_FOUND
     | Some file \<Rightarrow>
         andThen (if truthy folderId then folder_assert_belongs_to_user (the folderId) userId else ret ()) (\<lambda>_.
         andThen (file_repo_move H fid userId folderId) (\<lambda>row. case row of
           None \<Rightarrow> throw FILE_NOT_FOUND
         | Some r \<Rightarrow>
             andThen (promise_all [invalidate_listing H userId (fi_folder_id file), invalidate_listing H userId folderId])
               (\<lambda>_. ret (to_file_item r)))))"

definition file_copy :: "host \<Rightarrow> uuid \<Rightarrow> uuid \<Rightarrow> uuid option \<Rightarrow> file_item svc" where
  "file_copy H userId fid folderId =
     andThen (file_find_by_id_and_user fid userId) (\<lambda>found. case found of
       None \<Rightarrow> throw FILE_NOT_FOUND
     | Some file \<Rightarrow>
         andThen (if truthy folderId then folder_assert_belongs_to_user (the folderId) userId else ret ()) (\<lambda>_.
         andThen (random_uuid H) (\<lambda>u.
         let newKey = userId @ ''/'' @ u in
         andThen (minio_copy_object H (fi_minio_key file) newKey) (\<lambda>_.
         andThen (catching (file_insert H userId folderId (fi_name file) newKey (fi_size file) (fi_mime_type file))
            (\<lambda>err. andThen (catching (minio_remove_object H newKey) (\<lambda>_. ret ())) (\<lambda>_. raise err))) (\<lambda>row.
         andThen (invalidate_listing H userId folderId) (\<lambda>_. ret (to_file_item row)))))))"

definition file_remove :: "host \<Rightarrow> uuid \<Rightarrow> uuid \<Rightarrow> unit svc" where
  "file_remove H userId fid =
     andThen (file_find_by_id_and_user fid userId) (\<lambda>found. case found of
       None \<Rightarrow> throw FILE_NOT_FOUND
     | Some file \<Rightarrow>
         andThen (file_soft_delete H fid userId) (\<lambda>deleted.
           if \<not> deleted then throw FILE_NOT_FOUND
           else invalidate_listing H userId (fi_folder_id file)))"

datatype search_scope = ScopeAll | ScopeFolder

record file_search_query =
  fsq_q :: string
  fsq_scope :: search_scope
  fsq_folder_id :: "uuid option"

definition file_search :: "uuid \<Rightarrow> file_search_query \<Rightarrow> file_item list svc" where
  "file_search userId q =
     (if fsq_scope q = ScopeFolder \<and> \<not> truthy (fsq_folder_id q) then throw FOLDER_NOT_FOUND
      else andThen (file_repo_search userId (fsq_q q)
             (if fsq_scope q = ScopeFolder then fsq_folder_id q else None)) (\<lambda>rows.
        ret (map to_file_item rows)))"

subsection \<open>Bodies and controllers\<close>

definition rename_file_body_valid :: "string \<Rightarrow> bool" where
  "rename_file_body_valid name \<longleftrightarrow> length_between 1 255 name"

definition move_file_body_valid :: "uuid option \<Rightarrow> bool" where
  "move_file_body_valid folderId \<longleftrightarrow> nullable_uuid_valid folderId"

definition file_search_query_valid :: "file_search_query \<Rightarrow> bool" where
  "file_search_query_valid q \<longleftrightarrow> length_between 2 255 (fsq_q q) \<and> nullable_uuid_valid (fsq_folder_id q)"

definition zip_download_body_valid :: "uuid list \<Rightarrow> bool" where
  "zip_download_body_valid fileIds \<longleftrightarrow> 1 \<le> length fileIds \<and> length fileIds \<le> 100 \<and> (\<forall>i\<in>set fileIds. is_uuid i)"

definition file_controller_search :: "auth_user \<Rightarrow> file_search_query \<Rightarrow> file_item list svc" where
  "file_controller_search user q = file_search (aus_user_id user) q"

definition file_controller_rename :: "host \<Rightarrow> auth_user \<Rightarrow> uuid \<Rightarrow> string \<Rightarrow> file_item svc" where
  "file_controller_rename H user fid name = file_rename H (aus_user_id user) fid name"

definition file_controller_move :: "host \<Rightarrow> auth_user \<Rightarrow> uuid \<Rightarrow> uuid option \<Rightarrow> file_item svc" where
  "file_controller_move H user fid folderId = file_move H (aus_user_id user) fid folderId"

definition file_controller_copy :: "host \<Rightarrow> auth_user \<Rightarrow> uuid \<Rightarrow> uuid option \<Rightarrow> file_item svc" where
  "file_controller_copy H user fid folderId = file_copy H (aus_user_id user) fid folderId"

definition file_controller_remove :: "host \<Rightarrow> auth_user \<Rightarrow> uuid \<Rightarrow> unit svc" where
  "file_controller_remove H user fid = file_remove H (aus_user_id user) fid"

text \<open>\<open>encodeURIComponent\<close> on the UTF-8 bytes of a string.\<close>

definition unreserved_chars :: "char set" where
  "unreserved_chars = set ''ABCDEFGHIJKLMNOPQRSTUVWXYZabcdefghijklmnopqrstuvwxyz0123456789-_.!~*'' \<union> {CHR 0x27, CHR 0x28, CHR 0x29}"

definition encode_char :: "char \<Rightarrow> string" where
  "encode_char c = (if c \<in> unreserved_chars then [c] else CHR ''%'' # hex_upper [of_char c])"

definition encode_uri_component :: "string \<Rightarrow> string" where
  "encode_uri_component s = concat (map encode_char s)"

record response_headers =
  hd_content_type :: string
  hd_content_disposition :: string
  hd_content_length :: "string option"

definition int_to_string :: "int \<Rightarrow> string" where
  "int_to_string i = (if i < 0 then CHR ''-'' # nat_to_string (nat (- i)) else nat_to_string (nat i))"

definition quoted_filename :: "string \<Rightarrow> string" where
  "quoted_filename name = ''attachment; filename='' @ [CHR 0x22] @ name @ [CHR 0x22]"

definition download_file :: "host \<Rightarrow> auth_user \<Rightarrow> uuid \<Rightarrow> (response_headers \<times> string) svc" where
  "download_file H user fid =
     andThen (file_get_download_stream H (aus_user_id user) fid) (\<lambda>s.
       ret (\<lparr>hd_content_type = ds_mime_type s,
             hd_content_disposition = quoted_filename (encode_uri_component (ds_name s)),
             hd_content_length = Some (int_to_string (ds_size s))\<rparr>, ds_stream s))"

text \<open>The archive opens an object's stream only when it comes to the entry; here it is the list of its entries.\<close>

definition download_zip :: "host \<Rightarrow> auth_user \<Rightarrow> uuid list \<Rightarrow> (response_headers \<times> (string \<times> string) list) svc" where
  "download_zip H user fileIds =
     andThen (file_resolve_zip_files H fileIds (aus_user_id user)) (\<lambda>fs.
       ret (\<lparr>hd_content_type = ''application/zip'', hd_content_disposition = quoted_filename ''download.zip'',
             hd_content_length = None\<rparr>, fs))"

end
