(* ===== verification/Trash.thy ===== *)
theory Trash
  imports Files
begin

text \<open>
  \<open>trash\<close>: what a user has soft-deleted, its restoration and its permanent removal, with
  the cascades of the foreign keys.
\<close>

subsection \<open>\<open>trash.repository.ts\<close>\<close>

datatype trash_type = TrashFile | TrashFolder

record trash_item =
  ti_id :: uuid
  ti_type :: trash_type
  ti_name :: string
  ti_deleted_at :: millis

text \<open>The parent's deletion time of a left join: missing parents are not deleted.\<close>

definition deleted_at_of :: "folder_row list \<Rightarrow> uuid option \<Rightarrow> millis option" where
  "deleted_at_of rs i =
     (case find (\<lambda>r. Some (fo_id r) = i) rs of None \<Rightarrow> None | Some r \<Rightarrow> fo_soft_deleted_at r)"

definition trash_find_all_deleted :: "uuid \<Rightarrow> trash_item list svc" where
  "trash_find_all_deleted userId = query (\<lambda>d.
     let deletedFiles = filter (\<lambda>f. fi_user_id f = userId \<and> fi_soft_deleted_at f \<noteq> None \<and>
           (fi_folder_id f = None \<or> deleted_at_of (folders d) (fi_folder_id f) = None)) (files d);
         deletedFolders = filter (\<lambda>f. fo_user_id f = userId \<and> fo_soft_deleted_at f \<noteq> None \<and>
           (fo_parent_id f = None \<or> deleted_at_of (folders d) (fo_parent_id f) = None)) (folders d)
     in sort_key (\<lambda>i. - ti_deleted_at i)
       (map (\<lambda>f. \<lparr>ti_id = fi_id f, ti_type = TrashFile, ti_name = fi_name f, ti_deleted_at = the (fi_soft_deleted_at f)\<rparr>) deletedFiles @
        map (\<lambda>f. \<lparr>ti_id = fo_id f, ti_type = TrashFolder, ti_name = fo_name f, ti_deleted_at = the (fo_soft_deleted_at f)\<rparr>) deletedFolders))"

definition trash_is_parent_in_trash :: "uuid \<Rightarrow> trash_type \<Rightarrow> uuid \<Rightarrow> bool svc" where
  "trash_is_parent_in_trash i type userId = query (\<lambda>d. case type of
     TrashFile \<Rightarrow>
       (case find (\<lambda>r. fi_id r = i \<and> fi_user_id r = userId) (files d) of
          None \<Rightarrow> False | Some r \<Rightarrow> deleted_at_of (folders d) (fi_folder_id r) \<noteq> None)
   | TrashFolder \<Rightarrow>
       (case find (\<lambda>r. fo_id r = i \<and> fo_user_id r = userId) (folders d) of
          None \<Rightarrow> False | Some r \<Rightarrow> deleted_at_of (folders d) (fo_parent_id r) \<noteq> None))"

definition trash_find_deleted_file :: "uuid \<Rightarrow> uuid \<Rightarrow> file_row option svc" where
  "trash_find_deleted_file i userId = query (\<lambda>d.
     find (\<lambda>r. fi_id r = i \<and> fi_user_id r = userId \<and> fi_soft_deleted_at r \<noteq> None) (files d))"

definition trash_find_deleted_folder :: "uuid \<Rightarrow> uuid \<Rightarrow> folder_row option svc" where
  "trash_find_deleted_folder i userId = query (\<lambda>d.
     find (\<lambda>r. fo_id r = i \<and> fo_user_id r = userId \<and> fo_soft_deleted_at r \<noteq> None) (folders d))"

definition trash_restore_file :: "uuid \<Rightarrow> uuid \<Rightarrow> bool svc" where
  "trash_restore_file i userId =
     andThen (query (\<lambda>d. filter (\<lambda>r. fi_id r = i \<and> fi_user_id r = userId) (files d))) (\<lambda>result.
     andThen (statement (\<lambda>d. d\<lparr>files := update_where (\<lambda>r. fi_id r = i \<and> fi_user_id r = userId)
        (\<lambda>r. r\<lparr>fi_soft_deleted_at := None\<rparr>) (files d)\<rparr>)) (\<lambda>_.
       ret (length result > 0)))"

definition trash_restore_folder :: "uuid \<Rightarrow> uuid \<Rightarrow> unit svc" where
  "trash_restore_folder i userId =
     andThen (user_subtree i userId) (\<lambda>is.
       statement (\<lambda>d. d\<lparr>folders := mark_folders is None (folders d), files := mark_files is None (files d)\<rparr>))"

definition trash_permanent_delete_file :: "uuid \<Rightarrow> uuid \<Rightarrow> string option svc" where
  "trash_permanent_delete_file i userId =
     andThen (query (\<lambda>d. find (\<lambda>r. fi_id r = i \<and> fi_user_id r = userId) (files d))) (\<lambda>row.
     andThen (statement (\<lambda>d. d\<lparr>files := delete_where (\<lambda>r. fi_id r = i \<and> fi_user_id r = userId) (files d)\<rparr>)) (\<lambda>_.
       ret (map_option fi_minio_key row)))"

text \<open>
  The folders of the subtree go, and with them, by \<open>ON DELETE CASCADE\<close>, every file, every
  upload session and every folder left inside them; the keys returned are only those of
  the user's own files.
\<close>

definition trash_permanent_delete_folder_tree :: "uuid \<Rightarrow> uuid \<Rightarrow> string list svc" where
  "trash_permanent_delete_folder_tree i userId =
     andThen (user_subtree i userId) (\<lambda>is.
     andThen (query (\<lambda>d. map fi_minio_key
        (filter (\<lambda>f. in_folders is (fi_folder_id f) \<and> fi_user_id f = userId) (files d)))) (\<lambda>keys.
     andThen (statement (\<lambda>d. d\<lparr>
        files := delete_where (\<lambda>f. in_folders is (fi_folder_id f)) (files d),
        folders := delete_where (\<lambda>f. fo_id f \<in> set is) (folders d),
        upload_sessions := delete_where (\<lambda>s. in_folders is (us_folder_id s)) (upload_sessions d)\<rparr>)) (\<lambda>_.
       ret keys)))"

subsection \<open>\<open>trash.service.ts\<close>, \<open>trash.controller.ts\<close>\<close>

definition trash_list :: "uuid \<Rightarrow> trash_item list svc" where
  "trash_list userId = trash_find_all_deleted userId"

definition trash_restore :: "uuid \<Rightarrow> uuid \<Rightarrow> trash_type \<Rightarrow> unit svc" where
  "trash_restore userId i type =
     andThen (trash_is_parent_in_trash i type userId) (\<lambda>inTrash.
       if inTrash then throw PARENT_IN_TRASH
       else (case type of
         TrashFile \<Rightarrow>
           andThen (trash_find_deleted_file i userId) (\<lambda>file. case file of
             None \<Rightarrow> throw FILE_NOT_FOUND
           | Some _ \<Rightarrow> andThen (trash_restore_file i userId) (\<lambda>_. ret ()))
       | TrashFolder \<Rightarrow>
           andThen (trash_find_deleted_folder i userId) (\<lambda>folder. case folder of
             None \<Rightarrow> throw FOLDER_NOT_FOUND
           | Some _ \<Rightarrow> trash_restore_folder i userId)))"

definition trash_permanent_delete :: "host \<Rightarrow> uuid \<Rightarrow> uuid \<Rightarrow> trash_type \<Rightarrow> unit svc" where
  "trash_permanent_delete H userId i type =
     andThen (trash_is_parent_in_trash i type userId) (\<lambda>inTrash.
       if inTrash then throw PARENT_IN_TRASH
       else (case type of
         TrashFile \<Rightarrow>
           andThen (trash_permanent_delete_file i userId) (\<lambda>minioKey.
             if \<not> truthy minioKey then throw FILE_NOT_FOUND
             else minio_remove_object H (the minioKey))
       | TrashFolder \<Rightarrow>
           andThen (trash_find_deleted_folder i userId) (\<lambda>folder. case folder of
             None \<Rightarrow> throw FOLDER_NOT_FOUND
           | Some _ \<Rightarrow>
               andThen (trash_permanent_delete_folder_tree i userId) (\<lambda>minioKeys.
                 if length minioKeys > 0 then minio_remove_objects H minioKeys else ret ()))))"

definition trash_controller_list :: "auth_user \<Rightarrow> trash_item list svc" where
  "trash_controller_list user = trash_list (aus_user_id user)"

definition trash_controller_restore :: "auth_user \<Rightarrow> uuid \<Rightarrow> trash_type \<Rightarrow> unit svc" where
  "trash_controller_restore user i type = trash_restore (aus_user_id user) i type"

definition trash_controller_permanent_delete :: "host \<Rightarrow> auth_user \<Rightarrow> uuid \<Rightarrow> trash_type \<Rightarrow> unit svc" where
  "trash_controller_permanent_delete H user i type = trash_permanent_delete H (aus_user_id user) i type"

end
