(* ===== verification/Uploads.thy ===== *)
theory Uploads
  imports Trash
begin

text \<open>
  The uploads of \<open>file\<close>: sessions with presigned addresses, their completion, and the
  worker that clears the expired ones.
\<close>

subsection \<open>\<open>upload-session.repository.ts\<close>\<close>

definition upload_find_by_id :: "uuid \<Rightarrow> upload_session_row option svc" where
  "upload_find_by_id i = query (\<lambda>d. find (\<lambda>r. us_id r = i) (upload_sessions d))"

text \<open>\<open>FOR UPDATE\<close>: two completions of a session run one after the other.\<close>

definition upload_find_by_id_for_update :: "uuid \<Rightarrow> upload_session_row option svc" where
  "upload_find_by_id_for_update i = query (\<lambda>d. find (\<lambda>r. us_id r = i) (upload_sessions d))"

record upload_insert =
  ui_user_id :: uuid
  ui_folder_id :: "uuid option"
  ui_name :: string
  ui_size :: int
  ui_mime_type :: string
  ui_minio_key :: string
  ui_upload_kind :: upload_kind
  ui_multipart_upload_id :: "string option"
  ui_expires_at :: millis

definition upload_session_insert :: "host \<Rightarrow> upload_insert \<Rightarrow> upload_session_row svc" where
  "upload_session_insert H data =
     andThen (random_uuid H) (\<lambda>i.
     andThen (new_date H) (\<lambda>now.
     andThen (check_unique (\<lambda>d. i \<in> us_id ` set (upload_sessions d)) ''upload_sessions_pkey'') (\<lambda>_.
     andThen (check_unique (\<lambda>d. ui_minio_key data \<in> us_minio_key ` set (upload_sessions d))
        ''upload_sessions_minio_key_unique'') (\<lambda>_.
     andThen (check_fk (user_exists (ui_user_id data)) ''upload_sessions_user_id_users_id_fk'') (\<lambda>_.
     andThen (check_fk (folder_exists (ui_folder_id data)) ''upload_sessions_folder_id_folders_id_fk'') (\<lambda>_.
     let row = \<lparr>us_id = i, us_user_id = ui_user_id data, us_folder_id = ui_folder_id data, us_name = ui_name data,
                us_size = ui_size data, us_mime_type = ui_mime_type data, us_minio_key = ui_minio_key data,
                us_upload_kind = ui_upload_kind data, us_multipart_upload_id = ui_multipart_upload_id data,
                us_expires_at = ui_expires_at data, us_created_at = now\<rparr> in
     andThen (statement (\<lambda>d. d\<lparr>upload_sessions := upload_sessions d @ [row]\<rparr>)) (\<lambda>_. ret row)))))))"

definition upload_delete_by_id :: "uuid \<Rightarrow> bool svc" where
  "upload_delete_by_id i =
     andThen (query (\<lambda>d. filter (\<lambda>r. us_id r = i) (upload_sessions d))) (\<lambda>result.
     andThen (statement (\<lambda>d. d\<lparr>upload_sessions := delete_where (\<lambda>r. us_id r = i) (upload_sessions d)\<rparr>)) (\<lambda>_.
       ret (length result > 0)))"

definition upload_find_expired_for_cleanup :: "host \<Rightarrow> int \<Rightarrow> nat \<Rightarrow> upload_session_row list svc" where
  "upload_find_expired_for_cleanup H graceMs limit =
     andThen (new_date H) (\<lambda>now.
       query (\<lambda>d. take limit (filter (\<lambda>r. us_expires_at r + graceMs < now) (upload_sessions d))))"

subsection \<open>\<open>upload-session.service.ts\<close>\<close>

definition UPLOAD_TTL_MS :: int where "UPLOAD_TTL_MS = 60 * 60 * 1000"
definition GRACE_MS :: int where "GRACE_MS = 30 * 1000"
definition MULTIPART_THRESHOLD :: int where "MULTIPART_THRESHOLD = 100 * 1024 * 1024"
definition DEFAULT_PART_SIZE :: int where "DEFAULT_PART_SIZE = 100 * 1024 * 1024"
definition MAX_PARTS :: int where "MAX_PARTS = 10000"
definition URL_EXPIRY_SEC :: nat where "URL_EXPIRY_SEC = 3600"
definition MAX_FILE_SIZE :: int where "MAX_FILE_SIZE = 100 * 1024 * 1024 * 1024"

definition DANGEROUS_MIME_PREFIXES :: "string list" where
  "DANGEROUS_MIME_PREFIXES = [''text/html'', ''application/javascript'', ''text/javascript'',
     ''application/xhtml+xml'', ''text/xml'', ''application/xml'']"

text \<open>\<open>s.trim()\<close> for ASCII white space.\<close>

definition is_space :: "char \<Rightarrow> bool" where
  "is_space c \<longleftrightarrow> c \<in> {CHR 0x09, CHR 0x0A, CHR 0x0B, CHR 0x0C, CHR 0x0D, CHR 0x20}"

definition trim :: "string \<Rightarrow> string" where
  "trim s = rev (dropWhile is_space (rev (dropWhile is_space s)))"

definition normalized_mime :: "string \<Rightarrow> string" where
  "normalized_mime mimeType = lower (trim (hd (split_on CHR '';'' mimeType)))"

definition sanitize_mime :: "string \<Rightarrow> string" where
  "sanitize_mime mimeType =
     (if normalized_mime mimeType \<in> set DANGEROUS_MIME_PREFIXES then ''application/octet-stream'' else mimeType)"

record upload_init_body =
  uib_folder_id :: "uuid option"
  uib_name :: string
  uib_size :: int
  uib_mime_type :: string

record upload_init_response =
  uir_session_id :: uuid
  uir_parts :: "(nat \<times> string) list"
  uir_content_type :: string
  uir_expires_at :: millis

text \<open>
  \<open>Math.ceil(a / b)\<close> on the sizes that occur: the quotients are below \<open>2 ^ 53\<close> and farther
  from an integer than the rounding error unless they are one, so the result is exact.
\<close>

definition ceil_div :: "int \<Rightarrow> int \<Rightarrow> int" where
  "ceil_div a b = (a + b - 1) div b"

definition part_size :: "int \<Rightarrow> int" where
  "part_size sz = max DEFAULT_PART_SIZE (ceil_div sz 9000)"

definition part_count :: "int \<Rightarrow> int" where
  "part_count sz = ceil_div sz (part_size sz)"

definition presign_parts :: "host \<Rightarrow> string \<Rightarrow> string \<Rightarrow> nat \<Rightarrow> (nat \<times> string) list svc" where
  "presign_parts H minioKey uploadId partCount = promise_all (map (\<lambda>i.
     andThen (minio_presigned_put_part H minioKey uploadId (i + 1) URL_EXPIRY_SEC) (\<lambda>uploadUrl.
       ret (i + 1, uploadUrl))) [0..<partCount])"

definition upload_init :: "host \<Rightarrow> uuid \<Rightarrow> upload_init_body \<Rightarrow> upload_init_response svc" where
  "upload_init H userId body =
     (if MAX_FILE_SIZE < uib_size body then throw FILE_TOO_LARGE
      else andThen (if truthy (uib_folder_id body)
             then folder_assert_belongs_to_user (the (uib_folder_id body)) userId else ret ()) (\<lambda>_.
      let safeMime = sanitize_mime (uib_mime_type body) in
      andThen (random_uuid H) (\<lambda>u.
      let minioKey = userId @ ''/'' @ u in
      andThen (new_date H) (\<lambda>now.
      let expiresAt = now + UPLOAD_TTL_MS;
          data = \<lparr>ui_user_id = userId, ui_folder_id = uib_folder_id body, ui_name = uib_name body,
                  ui_size = uib_size body, ui_mime_type = safeMime, ui_minio_key = minioKey,
                  ui_upload_kind = Single, ui_multipart_upload_id = None, ui_expires_at = expiresAt\<rparr> in
      if uib_size body < MULTIPART_THRESHOLD
      then andThen (minio_presigned_put_object H minioKey URL_EXPIRY_SEC) (\<lambda>uploadUrl.
           andThen (upload_session_insert H data) (\<lambda>session.
             ret \<lparr>uir_session_id = us_id session, uir_parts = [(1, uploadUrl)], uir_content_type = safeMime,
                  uir_expires_at = expiresAt\<rparr>))
      else if MAX_PARTS < part_count (uib_size body) then throw FILE_TOO_LARGE
      else andThen (minio_create_multipart_upload H minioKey safeMime) (\<lambda>uploadId.
           andThen (presign_parts H minioKey uploadId (nat (part_count (uib_size body)))) (\<lambda>parts.
           andThen (upload_session_insert H (data\<lparr>ui_upload_kind := Multipart, ui_multipart_upload_id := Some uploadId\<rparr>)) (\<lambda>session.
             ret \<lparr>uir_session_id = us_id session, uir_parts = parts, uir_content_type = safeMime,
                  uir_expires_at = expiresAt\<rparr>)))))))"

text \<open>\<open>s.includes(t)\<close>.\<close>

fun contains_text :: "string \<Rightarrow> string \<Rightarrow> bool" where
  "contains_text [] t = (t = [])"
| "contains_text (c # cs) t = (take (length t) (c # cs) = t \<or> contains_text cs t)"

text \<open>The object is missing if the store's error has the code \<open>NoSuchKey\<close> or says so.\<close>

definition is_no_such_key :: "fault \<Rightarrow> bool" where
  "is_no_such_key e = (case e of
     ExtError code msg \<Rightarrow> code = ''NoSuchKey'' \<or> contains_text msg ''NoSuchKey''
   | RawError msg \<Rightarrow> contains_text msg ''NoSuchKey''
   | _ \<Rightarrow> False)"

definition some_result :: "'a svc \<Rightarrow> 'a option svc" where
  "some_result m = andThen m (\<lambda>x. ret (Some x))"

definition upload_body :: "host \<Rightarrow> uuid \<Rightarrow> uuid \<Rightarrow> (nat \<times> string) list \<Rightarrow> file_item svc" where
  "upload_body H userId sessionId parts =
     andThen (upload_find_by_id_for_update sessionId) (\<lambda>found. case found of
       None \<Rightarrow> throw UPLOAD_SESSION_NOT_FOUND
     | Some session \<Rightarrow>
         if us_user_id session \<noteq> userId then throw UPLOAD_SESSION_NOT_FOUND
         else andThen (new_date H) (\<lambda>now.
         andThen (if us_expires_at session + GRACE_MS < now
           then andThen (catching (some_result (minio_stat_object H (us_minio_key session))) (\<lambda>_. ret None)) (\<lambda>exist.
             case exist of
               Some _ \<Rightarrow> ret ()
             | None \<Rightarrow> andThen (catching (upload_delete_by_id (us_id session)) (\<lambda>_. ret False)) (\<lambda>_.
                 throw UPLOAD_SESSION_EXPIRED))
           else ret ()) (\<lambda>_.
         andThen (if us_upload_kind session = Multipart
           then (case us_multipart_upload_id session of
               None \<Rightarrow> throw UPLOAD_OBJECT_MISSING
             | Some uploadId \<Rightarrow>
                 if uploadId = [] then throw UPLOAD_OBJECT_MISSING
                 else minio_complete_multipart_upload H (us_minio_key session) uploadId parts)
           else ret ()) (\<lambda>_.
         andThen (catching (some_result (minio_stat_object H (us_minio_key session)))
             (\<lambda>err. if is_no_such_key err then ret None else raise err)) (\<lambda>stat. case stat of
           None \<Rightarrow> throw UPLOAD_OBJECT_MISSING
         | Some statSize \<Rightarrow>
             if statSize \<noteq> us_size session
             then andThen (catching (minio_remove_object H (us_minio_key session)) (\<lambda>_. ret ())) (\<lambda>_.
                  andThen (catching (upload_delete_by_id (us_id session)) (\<lambda>_. ret False)) (\<lambda>_.
                    throw UPLOAD_SIZE_MISMATCH))
             else
               andThen (file_insert H userId (us_folder_id session) (us_name session) (us_minio_key session)
                  (us_size session) (us_mime_type session)) (\<lambda>row.
               andThen (upload_delete_by_id (us_id session)) (\<lambda>_. ret (to_file_item row))))))))"

definition upload_complete :: "host \<Rightarrow> uuid \<Rightarrow> uuid \<Rightarrow> (nat \<times> string) list \<Rightarrow> file_item svc" where
  "upload_complete H userId sessionId parts = run_in_tx H (upload_body H userId sessionId parts)"

record cleanup_stats =
  cs_scanned :: nat
  cs_aborted :: nat
  cs_removed :: nat

definition counted :: "unit svc \<Rightarrow> nat \<Rightarrow> nat svc" where
  "counted m n = catching (andThen m (\<lambda>_. ret (n + 1))) (\<lambda>_. ret n)"

fun cleanup_loop :: "host \<Rightarrow> upload_session_row list \<Rightarrow> nat \<Rightarrow> nat \<Rightarrow> (nat \<times> nat) svc" where
  "cleanup_loop H [] aborted removed = ret (aborted, removed)"
| "cleanup_loop H (s # ss) aborted removed =
     andThen (if us_upload_kind s = Multipart \<and> truthy (us_multipart_upload_id s)
        then counted (minio_abort_multipart_upload H (us_minio_key s) (the (us_multipart_upload_id s))) aborted
        else ret aborted) (\<lambda>aborted'.
     andThen (counted (minio_remove_object H (us_minio_key s)) removed) (\<lambda>removed'.
     andThen (upload_delete_by_id (us_id s)) (\<lambda>_.
       cleanup_loop H ss aborted' removed')))"

definition upload_cleanup_expired :: "host \<Rightarrow> nat \<Rightarrow> cleanup_stats svc" where
  "upload_cleanup_expired H batchSize =
     andThen (upload_find_expired_for_cleanup H GRACE_MS batchSize) (\<lambda>sessions.
     andThen (cleanup_loop H sessions 0 0) (\<lambda>(aborted, removed).
       ret \<lparr>cs_scanned = length sessions, cs_aborted = aborted, cs_removed = removed\<rparr>))"

subsection \<open>Worker, bodies, controller\<close>

definition CLEANUP_BATCH_SIZE :: nat where "CLEANUP_BATCH_SIZE = 500"

definition cleanup_worker_process :: "host \<Rightarrow> unit svc" where
  "cleanup_worker_process H = andThen (upload_cleanup_expired H CLEANUP_BATCH_SIZE) (\<lambda>_. ret ())"

text \<open>Which failures of a job are logged as final.\<close>

definition cleanup_failure_is_final :: "nat option \<Rightarrow> nat \<Rightarrow> bool" where
  "cleanup_failure_is_final attempts attemptsMade \<longleftrightarrow> nullish attempts 1 \<le> attemptsMade"

definition upload_init_body_valid :: "upload_init_body \<Rightarrow> bool" where
  "upload_init_body_valid b \<longleftrightarrow> (case uib_folder_id b of None \<Rightarrow> True | Some i \<Rightarrow> is_uuid i) \<and>
     length_between 1 255 (uib_name b) \<and> 0 < uib_size b \<and> uib_size b \<le> 100 * 1024 * 1024 * 1024 \<and>
     length_between 1 127 (uib_mime_type b)"

definition upload_complete_body_valid :: "(int \<times> string) list \<Rightarrow> bool" where
  "upload_complete_body_valid parts \<longleftrightarrow> 1 \<le> length parts \<and>
     (\<forall>(partNumber, etag)\<in>set parts. 1 \<le> partNumber \<and> partNumber \<le> 10000 \<and> length_between 1 128 etag)"

definition upload_controller_init :: "host \<Rightarrow> auth_user \<Rightarrow> upload_init_body \<Rightarrow> upload_init_response svc" where
  "upload_controller_init H user body = upload_init H (aus_user_id user) body"

definition upload_controller_complete ::
    "host \<Rightarrow> auth_user \<Rightarrow> uuid \<Rightarrow> (nat \<times> string) list \<Rightarrow> file_item svc" where
  "upload_controller_complete H user sessionId parts = upload_complete H (aus_user_id user) sessionId parts"

end
