(* ===== verification/FolderForest.thy ===== *)
theory FolderForest
  imports Uploads
begin

text \<open>
  The shape of a user's folders: parent links form a forest, every operation keeps it one,
  and so the recursive queries return, with the ancestors and the subtree they name.
\<close>

subsection \<open>The parent relation\<close>

definition parent_rel :: "folder_row list \<Rightarrow> (uuid \<times> uuid) set" where
  "parent_rel rs = {(p, c). \<exists>r\<in>set rs. fo_id r = c \<and> fo_parent_id r = Some p}"

text \<open>Identifiers are unique, a parent exists and has the same owner, and there is no cycle.\<close>

definition forest :: "folder_row list \<Rightarrow> bool" where
  "forest rs \<longleftrightarrow> distinct (map fo_id rs) \<and>
     (\<forall>r\<in>set rs. \<forall>p. fo_parent_id r = Some p \<longrightarrow> (\<exists>q\<in>set rs. fo_id q = p \<and> fo_user_id q = fo_user_id r)) \<and>
     acyclic (parent_rel rs)"

lemma finite_parent_rel [simp]: "finite (parent_rel rs)"
proof -
  have "parent_rel rs \<subseteq> (\<lambda>r. (the (fo_parent_id r), fo_id r)) ` set rs"
    by (force simp: parent_rel_def image_iff)
  then show ?thesis by (rule finite_subset) simp
qed

lemma forest_wf: "forest rs \<Longrightarrow> wf (parent_rel rs)" "forest rs \<Longrightarrow> wf ((parent_rel rs)\<inverse>)"
  by (simp_all add: forest_def finite_acyclic_wf finite_acyclic_wf_converse)

lemma parent_rel_cong:
  assumes "map (\<lambda>r. (fo_id r, fo_parent_id r)) rs = map (\<lambda>r. (fo_id r, fo_parent_id r)) rs'"
  shows "parent_rel rs = parent_rel rs'"
proof -
  have P: "parent_rel xs = {(p, c). (c, Some p) \<in> set (map (\<lambda>r. (fo_id r, fo_parent_id r)) xs)}" for xs
    by (force simp: parent_rel_def)
  show ?thesis unfolding P assms ..
qed

lemma parent_rel_subset: "set rs \<subseteq> set rs' \<Longrightarrow> parent_rel rs \<subseteq> parent_rel rs'"
  by (auto simp: parent_rel_def)

lemma forest_row_unique:
  "forest rs \<Longrightarrow> r \<in> set rs \<Longrightarrow> s \<in> set rs \<Longrightarrow> fo_id r = fo_id s \<Longrightarrow> r = s"
  unfolding forest_def by (blast intro: key_unique)

text \<open>Changes that keep the identifiers, owners and parents of the rows keep the forest.\<close>

lemma forest_map:
  assumes "forest rs" and "\<And>r. fo_id (f r) = fo_id r \<and> fo_parent_id (f r) = fo_parent_id r \<and> fo_user_id (f r) = fo_user_id r"
  shows "forest (map f rs)"
proof -
  have "parent_rel (map f rs) = parent_rel rs" by (rule parent_rel_cong) (simp add: assms(2))
  moreover have "map fo_id (map f rs) = map fo_id rs" by (simp add: assms(2))
  ultimately show ?thesis using assms(1) unfolding forest_def by (simp only: set_map) (auto simp: assms(2))
qed

lemma forest_update:
  "forest rs \<Longrightarrow> (\<And>r. fo_id (f r) = fo_id r \<and> fo_parent_id (f r) = fo_parent_id r \<and> fo_user_id (f r) = fo_user_id r) \<Longrightarrow>
     forest (update_where p f rs)"
  unfolding update_where_def by (rule forest_map) simp_all

subsection \<open>Ancestors\<close>

lemma ancestors_of:
  assumes "forest rs" and "r \<in> set rs"
  shows "\<exists>is. ancestors rs (Some (fo_id r)) = Some is \<and> set is = {a. (a, fo_id r) \<in> (parent_rel rs)\<^sup>*}"
proof -
  have "\<forall>r\<in>set rs. fo_id r = i \<longrightarrow>
      (\<exists>is. ancestors rs (Some i) = Some is \<and> set is = {a. (a, i) \<in> (parent_rel rs)\<^sup>*})" for i
  proof (induction i rule: wf_induct_rule [OF forest_wf(1) [OF assms(1)]])
    case (1 i)
    show ?case
    proof (intro ballI impI)
      fix r assume r: "r \<in> set rs" "fo_id r = i"
      have found: "find (\<lambda>x. fo_id x = i) rs = Some r"
        by (rule find_key_unique [where k = fo_id]) (use assms(1) r in \<open>simp_all add: forest_def\<close>)
      have only: "(p, i) \<in> parent_rel rs \<longleftrightarrow> fo_parent_id r = Some p" for p
        using forest_row_unique [OF assms(1)] r by (auto simp: parent_rel_def)
      show "\<exists>is. ancestors rs (Some i) = Some is \<and> set is = {a. (a, i) \<in> (parent_rel rs)\<^sup>*}"
      proof (cases "fo_parent_id r")
        case None
        with only have "\<And>p. (p, i) \<notin> parent_rel rs" by simp
        then have "{a. (a, i) \<in> (parent_rel rs)\<^sup>*} = {i}" by (auto elim: rtranclE)
        with None found show ?thesis by (subst ancestors.simps) (simp add: ancestors.simps [of rs None])
      next
        case (Some p)
        then have pi: "(p, i) \<in> parent_rel rs" by (simp add: only)
        from assms(1) r(1) Some obtain q where q: "q \<in> set rs" "fo_id q = p" unfolding forest_def by blast
        from "1.IH" [OF pi] q obtain js where js: "ancestors rs (Some p) = Some js"
          "set js = {a. (a, p) \<in> (parent_rel rs)\<^sup>*}" by blast
        have "{a. (a, i) \<in> (parent_rel rs)\<^sup>*} = insert i {a. (a, p) \<in> (parent_rel rs)\<^sup>*}"
        proof (intro set_eqI iffI)
          fix a assume "a \<in> {a. (a, i) \<in> (parent_rel rs)\<^sup>*}"
          then have "(a, i) \<in> (parent_rel rs)\<^sup>*" by simp
          then show "a \<in> insert i {a. (a, p) \<in> (parent_rel rs)\<^sup>*}"
            by (cases rule: rtranclE) (auto simp: only Some)
        qed (use pi in \<open>auto intro: rtrancl_into_rtrancl\<close>)
        with Some found js show ?thesis by (subst ancestors.simps) simp
      qed
    qed
  qed
  with assms(2) show ?thesis by blast
qed

subsection \<open>Subtrees\<close>

lemma children_of_set: "set (children_of rs is) = parent_rel rs `` set is"
  by (force simp: children_of_def parent_rel_def)

lemma no_long_paths:
  assumes "wf (R\<inverse>)" and "finite R"
  shows "\<exists>n. \<forall>m\<ge>n. \<forall>y. (x, y) \<notin> R ^^ m"
proof (induction x rule: wf_induct_rule [OF assms(1)])
  case (1 x)
  let ?C = "R `` {x}"
  have fin: "finite ?C" using assms(2) by (rule finite_Image)
  have "\<forall>c\<in>?C. \<exists>n. \<forall>m\<ge>n. \<forall>y. (c, y) \<notin> R ^^ m" using 1 by auto
  then obtain h where h: "\<forall>c\<in>?C. \<forall>m\<ge>h c. \<forall>y. (c, y) \<notin> R ^^ m" by metis
  have "(x, y) \<notin> R ^^ m" if m: "Suc (Max (insert 0 (h ` ?C))) \<le> m" for m y
  proof
    assume path: "(x, y) \<in> R ^^ m"
    from m obtain k where k: "m = Suc k" "Max (insert 0 (h ` ?C)) \<le> k" by (cases m) auto
    from path k(1) obtain c where c: "(x, c) \<in> R" "(c, y) \<in> R ^^ k" by (metis relpow_Suc_D2)
    then have "h c \<le> Max (insert 0 (h ` ?C))" using fin by (intro Max_ge) auto
    with h c k(2) show False by fastforce
  qed
  then show ?case by blast
qed

lemma subtree_of_levels:
  assumes "\<forall>x\<in>set is. \<forall>m\<ge>n. \<forall>y. (x, y) \<notin> (parent_rel rs) ^^ m"
  shows "\<exists>js. subtree rs is = Some js \<and> set js = (parent_rel rs)\<^sup>* `` set is"
  using assms
proof (induction n arbitrary: "is")
  case 0
  then have "is = []" by (cases "is") (auto dest: spec [of _ 0])
  then show ?case by (subst subtree.simps) simp
next
  case (Suc n)
  show ?case
  proof (cases "is = []")
    case True
    then show ?thesis by (subst subtree.simps) simp
  next
    case False
    have "\<forall>x\<in>set (children_of rs is). \<forall>m\<ge>n. \<forall>y. (x, y) \<notin> (parent_rel rs) ^^ m"
    proof (intro ballI allI impI notI)
      fix x m y
      assume "x \<in> set (children_of rs is)" "n \<le> m" "(x, y) \<in> parent_rel rs ^^ m"
      then obtain s where "s \<in> set is" "(s, y) \<in> parent_rel rs ^^ Suc m" "Suc n \<le> Suc m"
        by (auto simp: children_of_set dest: relpow_Suc_I2)
      with Suc.prems show False by blast
    qed
    then obtain js where js: "subtree rs (children_of rs is) = Some js"
      "set js = (parent_rel rs)\<^sup>* `` set (children_of rs is)" using Suc.IH by blast
    have "set is \<union> (parent_rel rs)\<^sup>* `` (parent_rel rs `` set is) = (parent_rel rs)\<^sup>* `` set is"
    proof (intro set_eqI iffI)
      fix a assume "a \<in> (parent_rel rs)\<^sup>* `` set is"
      then obtain s where s: "s \<in> set is" "(s, a) \<in> (parent_rel rs)\<^sup>*" by blast
      from s(2) show "a \<in> set is \<union> (parent_rel rs)\<^sup>* `` (parent_rel rs `` set is)"
        by (cases rule: converse_rtranclE) (use s(1) in blast)+
    qed (auto intro: converse_rtrancl_into_rtrancl)
    with js False show ?thesis by (subst subtree.simps) (simp add: children_of_set)
  qed
qed

lemma subtree_of:
  assumes "forest rs"
  shows "\<exists>js. subtree rs is = Some js \<and> set js = (parent_rel rs)\<^sup>* `` set is"
proof -
  have "\<forall>x\<in>set is. \<exists>n. \<forall>m\<ge>n. \<forall>y. (x, y) \<notin> (parent_rel rs) ^^ m"
    using no_long_paths [OF forest_wf(2) [OF assms] finite_parent_rel] by blast
  then obtain h where h: "\<forall>x\<in>set is. \<forall>m\<ge>h x. \<forall>y. (x, y) \<notin> (parent_rel rs) ^^ m" by metis
  have "\<forall>x\<in>set is. \<forall>m\<ge>Max (insert 0 (h ` set is)). \<forall>y. (x, y) \<notin> (parent_rel rs) ^^ m"
  proof (intro ballI allI impI)
    fix x m y assume "x \<in> set is" "Max (insert 0 (h ` set is)) \<le> m"
    moreover then have "h x \<le> Max (insert 0 (h ` set is))" by (intro Max_ge) auto
    ultimately show "(x, y) \<notin> (parent_rel rs) ^^ m" using h by fastforce
  qed
  then show ?thesis by (rule subtree_of_levels)
qed

end
