(* ===== verification/DriveInvariant.thy ===== *)
theory DriveInvariant
  imports FolderForest
begin

text \<open>
  The invariant of the tables of folders, files and upload sessions, and what a request
  of one user leaves alone of everybody else's rows.
\<close>

definition in_own_folder :: "folder_row list \<Rightarrow> uuid \<Rightarrow> uuid option \<Rightarrow> bool" where
  "in_own_folder rs u f \<longleftrightarrow> (\<forall>p. f = Some p \<longrightarrow> (\<exists>q\<in>set rs. fo_id q = p \<and> fo_user_id q = u))"

definition drive_ok :: "database \<Rightarrow> bool" where
  "drive_ok d \<longleftrightarrow> forest (folders d) \<and>
     (\<forall>f\<in>set (files d). in_own_folder (folders d) (fi_user_id f) (fi_folder_id f)) \<and>
     (\<forall>s\<in>set (upload_sessions d). in_own_folder (folders d) (us_user_id s) (us_folder_id s)) \<and>
     distinct (map us_id (upload_sessions d))"

definition others :: "uuid \<Rightarrow> database \<Rightarrow> folder_row list \<times> file_row list \<times> upload_session_row list" where
  "others u d = (filter (\<lambda>r. fo_user_id r \<noteq> u) (folders d), filter (\<lambda>f. fi_user_id f \<noteq> u) (files d),
     filter (\<lambda>s. us_user_id s \<noteq> u) (upload_sessions d))"

definition own_change :: "uuid \<Rightarrow> folder_row list \<times> file_row list \<times> upload_session_row list \<Rightarrow> database \<Rightarrow> bool" where
  "own_change u x d \<longleftrightarrow> drive_ok d \<and> others u d = x"

lemma in_own_folder_None [simp]: "in_own_folder rs u None"
  by (simp add: in_own_folder_def)

lemma in_own_folder_map:
  assumes "\<And>r. fo_id (f r) = fo_id r \<and> fo_user_id (f r) = fo_user_id r"
  shows "in_own_folder (map f rs) u p \<longleftrightarrow> in_own_folder rs u p"
  using assms by (auto simp: in_own_folder_def)

lemma in_own_folder_append: "in_own_folder rs u p \<Longrightarrow> in_own_folder (rs @ ss) u p"
  by (auto simp: in_own_folder_def)

lemma filter_map_same:
  "(\<And>r. r \<in> set rs \<Longrightarrow> P (f r) = P r) \<Longrightarrow> (\<And>r. r \<in> set rs \<Longrightarrow> P r \<Longrightarrow> f r = r) \<Longrightarrow> filter P (map f rs) = filter P rs"
  by (induction rs) auto

lemma filter_update_own:
  "(\<And>r. r \<in> set rs \<Longrightarrow> p r \<Longrightarrow> \<not> P r \<and> \<not> P (f r)) \<Longrightarrow> filter P (update_where p f rs) = filter P rs"
  unfolding update_where_def by (rule filter_map_same) auto

lemma filter_delete_own:
  "(\<And>r. r \<in> set rs \<Longrightarrow> p r \<Longrightarrow> \<not> P r) \<Longrightarrow> filter P (delete_where p rs) = filter P rs"
  unfolding delete_where_def by (induction rs) auto

subsection \<open>Folders\<close>

lemma own_insert_folder:
  assumes "own_change u x d" and "fo_id row \<notin> fo_id ` set (folders d)" and "fo_user_id row = u"
    and "in_own_folder (folders d) u (fo_parent_id row)"
  shows "own_change u x (d\<lparr>folders := folders d @ [row]\<rparr>)"
proof -
  let ?rs = "folders d"
  have forest: "forest ?rs" using assms(1) by (simp add: own_change_def drive_ok_def)
  have parents: "p \<in> fo_id ` set ?rs" if "(p, c) \<in> parent_rel ?rs" for p c
    using forest that unfolding forest_def parent_rel_def by blast
  have "acyclic (parent_rel (?rs @ [row]))"
  proof (cases "fo_parent_id row")
    case None
    then have "parent_rel (?rs @ [row]) = parent_rel ?rs" by (auto simp: parent_rel_def)
    with forest show ?thesis by (simp add: forest_def)
  next
    case (Some p)
    then have rel: "parent_rel (?rs @ [row]) = insert (p, fo_id row) (parent_rel ?rs)" by (auto simp: parent_rel_def)
    have "p \<noteq> fo_id row" using assms(2,4) Some unfolding in_own_folder_def by (metis imageI)
    moreover have "(fo_id row, c) \<notin> parent_rel ?rs" for c using parents assms(2) by blast
    ultimately have "(fo_id row, p) \<notin> (parent_rel ?rs)\<^sup>*" by (auto elim: converse_rtranclE)
    with forest show ?thesis unfolding rel acyclic_insert by (simp add: forest_def)
  qed
  moreover have "\<forall>r\<in>set (?rs @ [row]). \<forall>p. fo_parent_id r = Some p \<longrightarrow>
      (\<exists>q\<in>set (?rs @ [row]). fo_id q = p \<and> fo_user_id q = fo_user_id r)"
  proof (intro ballI allI impI)
    fix r p assume r: "r \<in> set (?rs @ [row])" "fo_parent_id r = Some p"
    then consider "r \<in> set ?rs" | "r = row" by auto
    then have "\<exists>q\<in>set ?rs. fo_id q = p \<and> fo_user_id q = fo_user_id r"
    proof cases
      case 1 then show ?thesis using forest r(2) unfolding forest_def by blast
    next
      case 2 then show ?thesis using assms(3,4) r(2) by (auto simp: in_own_folder_def)
    qed
    then show "\<exists>q\<in>set (?rs @ [row]). fo_id q = p \<and> fo_user_id q = fo_user_id r" by auto
  qed
  moreover have "distinct (map fo_id (?rs @ [row]))" using forest assms(2) by (simp add: forest_def)
  ultimately have "forest (?rs @ [row])" unfolding forest_def by blast
  with assms(1,3) show ?thesis
    by (auto simp: own_change_def drive_ok_def others_def intro: in_own_folder_append)
qed

lemma own_update_folder:
  assumes "own_change u x d" and "\<And>r. r \<in> set (folders d) \<Longrightarrow> p r \<Longrightarrow> fo_user_id r = u"
    and "\<And>r. fo_id (f r) = fo_id r \<and> fo_parent_id (f r) = fo_parent_id r \<and> fo_user_id (f r) = fo_user_id r"
  shows "own_change u x (d\<lparr>folders := update_where p f (folders d)\<rparr>)"
proof -
  have own: "in_own_folder (update_where p f (folders d)) v q \<longleftrightarrow> in_own_folder (folders d) v q" for v q
    unfolding update_where_def by (rule in_own_folder_map) (simp add: assms(3))
  have "filter (\<lambda>r. fo_user_id r \<noteq> u) (update_where p f (folders d)) = filter (\<lambda>r. fo_user_id r \<noteq> u) (folders d)"
    by (rule filter_update_own) (simp add: assms(2,3))
  with assms(1) show ?thesis
    by (simp add: own_change_def drive_ok_def others_def own forest_update [OF _ assms(3)])
qed

text \<open>A folder is put under another one that is not below it.\<close>

lemma own_move_folder:
  assumes "own_change u x d" and "in_own_folder (folders d) u target"
    and "\<And>t. target = Some t \<Longrightarrow> (fid, t) \<notin> (parent_rel (folders d))\<^sup>*"
  shows "own_change u x (d\<lparr>folders := update_where (live_folder fid u)
    (\<lambda>r. r\<lparr>fo_parent_id := target, fo_updated_at := now\<rparr>) (folders d)\<rparr>)"
proof -
  let ?rs = "folders d"
  let ?f = "\<lambda>r. if live_folder fid u r then r\<lparr>fo_parent_id := target, fo_updated_at := now\<rparr> else r"
  have forest: "forest ?rs" using assms(1) by (simp add: own_change_def drive_ok_def)
  have own: "in_own_folder (map ?f ?rs) v q \<longleftrightarrow> in_own_folder ?rs v q" for v q
    by (rule in_own_folder_map) simp
  have sub: "parent_rel (map ?f ?rs) \<subseteq> parent_rel ?rs \<union> (case target of None \<Rightarrow> {} | Some t \<Rightarrow> {(t, fid)})"
    by (auto simp: parent_rel_def live_folder_def split: if_splits)
  have "acyclic (parent_rel ?rs \<union> (case target of None \<Rightarrow> {} | Some t \<Rightarrow> {(t, fid)}))"
    using forest assms(3) by (cases target) (simp_all add: forest_def acyclic_insert)
  then have "acyclic (parent_rel (map ?f ?rs))" by (rule acyclic_subset [OF _ sub])
  moreover have "map fo_id (map ?f ?rs) = map fo_id ?rs" by simp
  moreover have "\<forall>r\<in>set (map ?f ?rs). in_own_folder (map ?f ?rs) (fo_user_id r) (fo_parent_id r)"
    unfolding own using forest assms(2) by (auto simp: forest_def in_own_folder_def live_folder_def)
  ultimately have "forest (map ?f ?rs)"
    using forest unfolding forest_def in_own_folder_def by (simp only: set_map)
  moreover have "filter (\<lambda>r. fo_user_id r \<noteq> u) (map ?f ?rs) = filter (\<lambda>r. fo_user_id r \<noteq> u) ?rs"
    by (rule filter_map_same) (auto simp: live_folder_def)
  ultimately show ?thesis
    using assms(1) unfolding update_where_def by (simp add: own_change_def drive_ok_def others_def own)
qed

subsection \<open>The subtree of a user's folder\<close>

definition own_subtree :: "uuid \<Rightarrow> uuid list \<Rightarrow> database \<Rightarrow> bool" where
  "own_subtree u is d \<longleftrightarrow> (\<forall>r\<in>set (folders d). fo_id r \<in> set is \<longrightarrow> fo_user_id r = u) \<and>
     (\<forall>r\<in>set (folders d). \<forall>p. fo_parent_id r = Some p \<longrightarrow> p \<in> set is \<longrightarrow> fo_id r \<in> set is)"

lemma wp_user_subtree:
  assumes "drive_ok (db w)"
    and "\<And>is. own_subtree u is (db w) \<Longrightarrow>
      set is = {i. \<exists>r\<in>set (folders (db w)). fo_id r = fid \<and> fo_user_id r = u \<and> (fid, i) \<in> (parent_rel (folders (db w)))\<^sup>*} \<Longrightarrow>
      Q (Inr is) w"
  shows "wp (user_subtree fid u) Q w"
proof -
  let ?rs = "folders (db w)"
  have forest: "forest ?rs" using assms(1) by (simp add: drive_ok_def)
  from subtree_of [OF forest, of "subtree_root ?rs fid u"] obtain "is" where
    "is": "subtree ?rs (subtree_root ?rs fid u) = Some is" "set is = (parent_rel ?rs)\<^sup>* `` set (subtree_root ?rs fid u)"
    by blast
  have root: "set (subtree_root ?rs fid u) = {i. i = fid \<and> (\<exists>r\<in>set ?rs. fo_id r = fid \<and> fo_user_id r = u)}"
    by (auto simp: subtree_root_def)
  have owner: "(a, b) \<in> (parent_rel ?rs)\<^sup>* \<Longrightarrow> a \<in> set (subtree_root ?rs fid u) \<Longrightarrow>
      \<forall>r\<in>set ?rs. fo_id r = b \<longrightarrow> fo_user_id r = u" for a b
  proof (induction rule: rtrancl_induct)
    case base
    then show ?case using forest_row_unique [OF forest] by (auto simp: root)
  next
    case (step p c)
    show ?case
    proof (intro ballI impI)
      fix r assume r: "r \<in> set ?rs" "fo_id r = c"
      from step(2) r have "fo_parent_id r = Some p"
        using forest_row_unique [OF forest] by (auto simp: parent_rel_def)
      with forest r(1) obtain q where "q \<in> set ?rs" "fo_id q = p" "fo_user_id q = fo_user_id r"
        unfolding forest_def by blast
      with step.IH [OF step.prems] show "fo_user_id r = u" by auto
    qed
  qed
  have "own_subtree u is (db w)"
    unfolding own_subtree_def
  proof (intro conjI ballI allI impI)
    show "fo_user_id r = u" if "r \<in> set ?rs" "fo_id r \<in> set is" for r
      using owner that unfolding "is"(2) by blast
    show "fo_id r \<in> set is" if "r \<in> set ?rs" "fo_parent_id r = Some p" "p \<in> set is" for r p
    proof -
      have "(p, fo_id r) \<in> parent_rel ?rs" using that by (auto simp: parent_rel_def)
      with that(3) show ?thesis unfolding "is"(2) by (auto intro: rtrancl_into_rtrancl)
    qed
  qed
  moreover have "set is = {i. \<exists>r\<in>set ?rs. fo_id r = fid \<and> fo_user_id r = u \<and> (fid, i) \<in> (parent_rel ?rs)\<^sup>*}"
    unfolding "is"(2) root by auto
  ultimately have "Q (Inr is) w" by (rule assms(2))
  with "is"(1) show ?thesis by (simp add: user_subtree_def or_never_def wp)
qed

lemma own_subtree_files:
  "drive_ok d \<Longrightarrow> own_subtree u is d \<Longrightarrow> f \<in> set (files d) \<Longrightarrow> in_folders is (fi_folder_id f) \<Longrightarrow> fi_user_id f = u"
  unfolding drive_ok_def own_subtree_def in_folders_def in_own_folder_def by (fastforce split: option.splits)

lemma own_subtree_sessions:
  "drive_ok d \<Longrightarrow> own_subtree u is d \<Longrightarrow> s \<in> set (upload_sessions d) \<Longrightarrow> in_folders is (us_folder_id s) \<Longrightarrow> us_user_id s = u"
  unfolding drive_ok_def own_subtree_def in_folders_def in_own_folder_def by (fastforce split: option.splits)

subsection \<open>Marks and removals\<close>

lemma own_mark:
  assumes "own_change u x d" and "own_subtree u is d"
  shows "own_change u x (d\<lparr>folders := mark_folders is t (folders d), files := mark_files is t (files d)\<rparr>)"
proof -
  have ok: "drive_ok d" using assms(1) by (simp add: own_change_def)
  have own: "in_own_folder (mark_folders is t (folders d)) v q \<longleftrightarrow> in_own_folder (folders d) v q" for v q
    unfolding mark_folders_def update_where_def by (rule in_own_folder_map) simp
  have "forest (mark_folders is t (folders d))"
    unfolding mark_folders_def by (rule forest_update) (use ok in \<open>simp_all add: drive_ok_def\<close>)
  moreover have "filter (\<lambda>r. fo_user_id r \<noteq> u) (mark_folders is t (folders d)) = filter (\<lambda>r. fo_user_id r \<noteq> u) (folders d)"
    unfolding mark_folders_def
    by (rule filter_update_own) (use assms(2) in \<open>auto simp: own_subtree_def\<close>)
  moreover have "filter (\<lambda>f. fi_user_id f \<noteq> u) (mark_files is t (files d)) = filter (\<lambda>f. fi_user_id f \<noteq> u) (files d)"
    unfolding mark_files_def
    by (rule filter_update_own) (use own_subtree_files [OF ok assms(2)] in auto)
  moreover have "\<forall>f\<in>set (mark_files is t (files d)). in_own_folder (folders d) (fi_user_id f) (fi_folder_id f)"
    using ok by (auto simp: mark_files_def set_update_where drive_ok_def)
  ultimately show ?thesis using assms(1) by (simp add: own_change_def drive_ok_def others_def own)
qed

lemma in_own_folder_delete:
  "in_own_folder rs u p \<Longrightarrow> \<not> in_folders is p \<Longrightarrow> in_own_folder (delete_where (\<lambda>r. fo_id r \<in> set is) rs) u p"
  by (auto simp: in_own_folder_def in_folders_def)

lemma own_delete_tree:
  assumes "own_change u x d" and "own_subtree u is d"
  shows "own_change u x (d\<lparr>files := delete_where (\<lambda>f. in_folders is (fi_folder_id f)) (files d),
    folders := delete_where (\<lambda>f. fo_id f \<in> set is) (folders d),
    upload_sessions := delete_where (\<lambda>s. in_folders is (us_folder_id s)) (upload_sessions d)\<rparr>)"
proof -
  let ?rs = "folders d" and ?ss = "delete_where (\<lambda>f. fo_id f \<in> set is) (folders d)"
  have ok: "drive_ok d" using assms(1) by (simp add: own_change_def)
  then have forest: "forest ?rs" by (simp add: drive_ok_def)
  have "acyclic (parent_rel ?ss)"
    by (rule acyclic_subset [of "parent_rel ?rs"], use forest in \<open>simp add: forest_def\<close>,
        rule parent_rel_subset, auto)
  moreover have "distinct (map fo_id ?ss)" using forest by (simp add: forest_def distinct_delete_where)
  moreover have "\<forall>r\<in>set ?ss. \<forall>p. fo_parent_id r = Some p \<longrightarrow> (\<exists>q\<in>set ?ss. fo_id q = p \<and> fo_user_id q = fo_user_id r)"
  proof (intro ballI allI impI)
    fix r p assume r: "r \<in> set ?ss" "fo_parent_id r = Some p"
    then have "p \<notin> set is" using assms(2) by (auto simp: own_subtree_def)
    with forest r show "\<exists>q\<in>set ?ss. fo_id q = p \<and> fo_user_id q = fo_user_id r" unfolding forest_def by fastforce
  qed
  ultimately have "forest ?ss" unfolding forest_def by blast
  moreover have "filter (\<lambda>r. fo_user_id r \<noteq> u) ?ss = filter (\<lambda>r. fo_user_id r \<noteq> u) ?rs"
    by (rule filter_delete_own) (use assms(2) in \<open>auto simp: own_subtree_def\<close>)
  moreover have "filter (\<lambda>f. fi_user_id f \<noteq> u) (delete_where (\<lambda>f. in_folders is (fi_folder_id f)) (files d)) =
      filter (\<lambda>f. fi_user_id f \<noteq> u) (files d)"
    by (rule filter_delete_own) (use own_subtree_files [OF ok assms(2)] in auto)
  moreover have "filter (\<lambda>s. us_user_id s \<noteq> u) (delete_where (\<lambda>s. in_folders is (us_folder_id s)) (upload_sessions d)) =
      filter (\<lambda>s. us_user_id s \<noteq> u) (upload_sessions d)"
    by (rule filter_delete_own) (use own_subtree_sessions [OF ok assms(2)] in auto)
  ultimately show ?thesis
    using assms(1) by (auto simp: own_change_def drive_ok_def others_def distinct_delete_where intro: in_own_folder_delete)
qed

subsection \<open>Files and sessions\<close>

lemma own_insert_file:
  "own_change u x d \<Longrightarrow> fi_user_id row = u \<Longrightarrow> in_own_folder (folders d) u (fi_folder_id row) \<Longrightarrow>
     own_change u x (d\<lparr>files := files d @ [row]\<rparr>)"
  by (auto simp: own_change_def drive_ok_def others_def)

lemma own_update_file:
  assumes "own_change u x d" and "\<And>r. r \<in> set (files d) \<Longrightarrow> p r \<Longrightarrow> fi_user_id r = u"
    and "\<And>r. fi_user_id (f r) = fi_user_id r"
    and "\<And>r. r \<in> set (files d) \<Longrightarrow> p r \<Longrightarrow> in_own_folder (folders d) u (fi_folder_id (f r))"
  shows "own_change u x (d\<lparr>files := update_where p f (files d)\<rparr>)"
proof -
  have "filter (\<lambda>r. fi_user_id r \<noteq> u) (update_where p f (files d)) = filter (\<lambda>r. fi_user_id r \<noteq> u) (files d)"
    by (rule filter_update_own) (simp add: assms(2,3))
  with assms show ?thesis
    by (auto simp: own_change_def drive_ok_def others_def set_update_where)
qed

lemma own_delete_file:
  assumes "own_change u x d" and "\<And>r. r \<in> set (files d) \<Longrightarrow> p r \<Longrightarrow> fi_user_id r = u"
  shows "own_change u x (d\<lparr>files := delete_where p (files d)\<rparr>)"
proof -
  have "filter (\<lambda>r. fi_user_id r \<noteq> u) (delete_where p (files d)) = filter (\<lambda>r. fi_user_id r \<noteq> u) (files d)"
    by (rule filter_delete_own) (simp add: assms(2))
  with assms(1) show ?thesis by (auto simp: own_change_def drive_ok_def others_def)
qed

lemma own_insert_session:
  "own_change u x d \<Longrightarrow> us_user_id row = u \<Longrightarrow> in_own_folder (folders d) u (us_folder_id row) \<Longrightarrow>
     us_id row \<notin> us_id ` set (upload_sessions d) \<Longrightarrow> own_change u x (d\<lparr>upload_sessions := upload_sessions d @ [row]\<rparr>)"
  by (auto simp: own_change_def drive_ok_def others_def)

lemma own_delete_session:
  assumes "own_change u x d" and "\<And>r. r \<in> set (upload_sessions d) \<Longrightarrow> p r \<Longrightarrow> us_user_id r = u"
  shows "own_change u x (d\<lparr>upload_sessions := delete_where p (upload_sessions d)\<rparr>)"
proof -
  have "filter (\<lambda>r. us_user_id r \<noteq> u) (delete_where p (upload_sessions d)) = filter (\<lambda>r. us_user_id r \<noteq> u) (upload_sessions d)"
    by (rule filter_delete_own) (simp add: assms(2))
  with assms(1) show ?thesis by (auto simp: own_change_def drive_ok_def others_def distinct_delete_where)
qed

end
