(* ===== verification/DriveOps.thy ===== *)
theory DriveOps
  imports DriveInvariant
begin

text \<open>
  Every request about folders, files, the trash and uploads keeps the invariant, and
  touches rows of the requesting user only.
\<close>

abbreviation own_post :: "uuid \<Rightarrow> folder_row list \<times> file_row list \<times> upload_session_row list \<Rightarrow> world \<Rightarrow> bool" where
  "own_post u x w \<equiv> own_change u x (db w)"

lemma own_change_ok: "own_change u x d \<Longrightarrow> drive_ok d"
  by (simp add: own_change_def)

lemma in_own_folder_found:
  "find (live_folder p u) rs = Some q \<Longrightarrow> in_own_folder rs u (Some p)"
  by (auto simp: in_own_folder_def live_folder_def dest!: find_Some_set)

lemma uuid_not_empty: "\<not> is_uuid []"
  by (simp add: is_uuid_def)

lemma valid_truthy: "nullable_uuid_valid p \<Longrightarrow> \<not> truthy p \<Longrightarrow> p = None"
  by (cases p) (auto simp: nullable_uuid_valid_def truthy_def uuid_not_empty)

subsection \<open>Folders\<close>

lemma wp_folder_insert:
  assumes "\<And>e w'. db w' = db w \<Longrightarrow> Q (Inl e) w'"
    and "\<And>row w'. fo_id row \<notin> fo_id ` set (folders (db w)) \<Longrightarrow> fo_user_id row = u \<Longrightarrow> fo_parent_id row = p \<Longrightarrow>
      fo_soft_deleted_at row = None \<Longrightarrow> db w' = (db w)\<lparr>folders := folders (db w) @ [row]\<rparr> \<Longrightarrow> Q (Inr row) w'"
  shows "wp (folder_insert H u name p) Q w"
  using assms by (simp add: folder_insert_def wp Let_def)

lemma keeps_invalidate [keeps_intro]: "keeps P (invalidate_listing H u f)"
  by (simp add: invalidate_listing_def keeps_intro)

lemma wp_find_folder [wp]:
  "wp (folder_find_by_id_and_user f u) Q w = Q (Inr (find (live_folder f u) (folders (db w)))) w"
  by (simp add: folder_find_by_id_and_user_def wp)

lemma wp_depth:
  assumes "drive_ok (db w)" and "find (live_folder f u) (folders (db w)) = Some r"
    and "\<And>is. ancestors (folders (db w)) (Some f) = Some is \<Longrightarrow> Q (Inr (int (length is) - 1)) w"
  shows "wp (folder_get_depth f) Q w"
proof -
  have "r \<in> set (folders (db w))" "fo_id r = f" using find_Some_set [OF assms(2)] by (auto simp: live_folder_def)
  with ancestors_of [of "folders (db w)" r] assms(1) obtain "is" where
    "ancestors (folders (db w)) (Some f) = Some is" by (auto simp: drive_ok_def)
  with assms(3) show ?thesis by (simp add: folder_get_depth_def or_never_def wp)
qed

lemma wp_is_descendant:
  assumes "drive_ok (db w)" and "find (live_folder t u) (folders (db w)) = Some r"
    and "Q (Inr ((f, t) \<in> (parent_rel (folders (db w)))\<^sup>*)) w"
  shows "wp (folder_is_descendant t f) Q w"
proof -
  have "r \<in> set (folders (db w))" "fo_id r = t" using find_Some_set [OF assms(2)] by (auto simp: live_folder_def)
  with ancestors_of [of "folders (db w)" r] assms(1) obtain "is" where
    "ancestors (folders (db w)) (Some t) = Some is" "set is = {a. (a, t) \<in> (parent_rel (folders (db w)))\<^sup>*}"
    by (auto simp: drive_ok_def)
  with assms(3) show ?thesis by (simp add: folder_is_descendant_def or_never_def wp)
qed

lemma wp_then_find_folder [wp_then]:
  "wp (andThen (folder_find_by_id_and_user f u) F) Q w = wp (F (find (live_folder f u) (folders (db w)))) Q w"
  by (simp add: folder_find_by_id_and_user_def wp_then)

lemma own_rest: "own_post u x w \<Longrightarrow> keeps (own_change u x) m \<Longrightarrow> wp m (\<lambda>_ w'. own_post u x w') w"
  unfolding wp_snd by (rule keepsD)

lemma own_folder_create:
  assumes "own_post u x w" and "nullable_uuid_valid p"
  shows "wp (folder_create H u name p) (\<lambda>_ w'. own_post u x w') w"
proof -
  let ?k = "\<lambda>_ :: unit. andThen (folder_insert H u name p) (\<lambda>row. andThen (invalidate_listing H u p) (\<lambda>_. ret (to_folder_item row)))"
  have insert: "wp (?k y) (\<lambda>_ w'. own_post u x w') w" if "in_own_folder (folders (db w)) u p" for y
  proof (rule wp_inv_first)
    show "wp (folder_insert H u name p) (\<lambda>_ w'. own_post u x w') w"
      by (rule wp_folder_insert) (use assms(1) that in \<open>auto intro!: own_insert_folder\<close>)
  qed (rule own_rest, assumption, intro keeps_intro)
  show ?thesis
  proof (cases "truthy p")
    case False
    then have "p = None" using assms(2) valid_truthy by blast
    with insert show ?thesis by (simp add: folder_create_def wp_then)
  next
    case True
    then obtain i where p: "p = Some i" by (auto dest: truthyE)
    show ?thesis
    proof (cases "find (live_folder i u) (folders (db w))")
      case None
      with p True assms(1) show ?thesis by (simp add: folder_create_def wp)
    next
      case (Some q)
      have depth: "wp (andThen (folder_get_depth i) (\<lambda>depth. if MAX_FOLDER_DEPTH \<le> depth then throw FOLDER_DEPTH_EXCEEDED else ret ()))
          (\<lambda>r w'. own_post u x w' \<and> (\<forall>y. r = Inr y \<longrightarrow> wp (?k y) (\<lambda>_ w'. own_post u x w') w')) w"
        unfolding wp_andThen [where m = "folder_get_depth i"]
        by (rule wp_depth [OF own_change_ok [OF assms(1)] Some])
          (use insert in_own_folder_found [OF Some] p assms(1) in \<open>simp add: wp_if wp_primitive\<close>)
      show ?thesis
        unfolding folder_create_def
        by (rule wp_inv_bind) (use depth p True Some in \<open>simp add: wp_then\<close>)
    qed
  qed
qed

lemma own_folder_rename: "own_post u x w \<Longrightarrow> wp (folder_rename H u f name) (\<lambda>_ w'. own_post u x w') w"
  by (auto simp: folder_rename_def folder_repo_rename_def wp invalidate_listing_def live_folder_def
      split: option.split sum.split intro!: own_update_folder)

lemma own_folder_move:
  assumes "own_post u x w"
  shows "wp (folder_move H u f p) (\<lambda>_ w'. own_post u x w') w"
proof (cases "find (live_folder f u) (folders (db w))")
  case None
  with assms show ?thesis by (simp add: folder_move_def wp)
next
  case (Some q)
  let ?k = "\<lambda>_ :: unit. andThen (folder_repo_move H f u p) (\<lambda>row. case row of
           None \<Rightarrow> throw FOLDER_NOT_FOUND
         | Some r \<Rightarrow> andThen (promise_all [invalidate_listing H u (fo_parent_id q), invalidate_listing H u p])
               (\<lambda>_. ret (to_folder_item r)))"
  have move: "wp (?k y) (\<lambda>_ w'. own_post u x w') w"
    if "in_own_folder (folders (db w)) u p" "\<And>t. p = Some t \<Longrightarrow> (f, t) \<notin> (parent_rel (folders (db w)))\<^sup>*" for y
  proof (rule wp_inv_first)
    show "wp (folder_repo_move H f u p) (\<lambda>_ w'. own_post u x w') w"
      using Some own_move_folder [OF assms that] assms
      by (simp add: folder_repo_move_def wp)
  qed (rule own_rest, assumption, intro keeps_intro, auto simp: keeps_invalidate)
  show ?thesis
  proof (cases p)
    case None
    with Some move show ?thesis by (simp add: folder_move_def wp_then)
  next
    case (Some t)
    note pt = this
    show ?thesis
    proof (cases "find (live_folder t u) (folders (db w))")
      case None
      with \<open>find (live_folder f u) (folders (db w)) = Some q\<close> pt assms show ?thesis by (simp add: folder_move_def wp)
    next
      case (Some s)
      have desc: "wp (andThen (folder_is_descendant t f) (\<lambda>b. if b then throw INVALID_MOVE_TARGET else ret ()))
          (\<lambda>r w'. own_post u x w' \<and> (\<forall>y. r = Inr y \<longrightarrow> wp (?k y) (\<lambda>_ w'. own_post u x w') w')) w"
        unfolding wp_andThen [where m = "folder_is_descendant t f"]
        by (rule wp_is_descendant [OF own_change_ok [OF assms] Some])
          (use move in_own_folder_found [OF Some] pt assms in \<open>auto simp: wp_if wp_primitive\<close>)
      have "wp (andThen (case p of None \<Rightarrow> ret () | Some p \<Rightarrow>
               andThen (folder_find_by_id_and_user p u) (\<lambda>target. case target of
                 None \<Rightarrow> throw FOLDER_NOT_FOUND
               | Some _ \<Rightarrow> andThen (folder_is_descendant p f) (\<lambda>isDescendant.
                     if isDescendant then throw INVALID_MOVE_TARGET else ret ()))) ?k) (\<lambda>_ w'. own_post u x w') w"
        by (rule wp_inv_bind) (use desc pt Some in \<open>simp add: wp_then\<close>)
      with \<open>find (live_folder f u) (folders (db w)) = Some q\<close> show ?thesis
        by (simp add: folder_move_def wp_then)
    qed
  qed
qed

lemma own_mark_subtree:
  assumes "own_post u x w"
  shows "wp (andThen (user_subtree f u) (\<lambda>is. statement (\<lambda>d. d\<lparr>folders := mark_folders is t (folders d),
      files := mark_files is t (files d)\<rparr>))) (\<lambda>_ w'. own_post u x w') w"
  unfolding wp_andThen
  by (rule wp_user_subtree [OF own_change_ok [OF assms]]) (use own_mark [OF assms] in \<open>simp add: wp\<close>)

lemma own_folder_remove:
  assumes "own_post u x w"
  shows "wp (folder_remove H u f) (\<lambda>_ w'. own_post u x w') w"
proof (cases "find (live_folder f u) (folders (db w))")
  case None
  with assms show ?thesis by (simp add: folder_remove_def wp)
next
  case (Some q)
  have "wp (folder_soft_delete_cascade H f u) (\<lambda>_ w'. own_post u x w') w"
    unfolding folder_soft_delete_cascade_def wp_then
    by (rule own_mark_subtree) (simp add: assms)
  then have "wp (andThen (folder_soft_delete_cascade H f u) (\<lambda>_. invalidate_listing H u (fo_parent_id q)))
      (\<lambda>_ w'. own_post u x w') w"
    by (rule wp_inv_first) (rule own_rest, assumption, rule keeps_invalidate)
  with Some show ?thesis by (simp add: folder_remove_def wp_then)
qed

subsection \<open>Files\<close>

lemma wp_find_file [wp]:
  "wp (file_find_by_id_and_user f u) Q w = Q (Inr (find (live_file f u) (files (db w)))) w"
  by (simp add: file_find_by_id_and_user_def wp)

lemma wp_then_find_file [wp_then]:
  "wp (andThen (file_find_by_id_and_user f u) F) Q w = wp (F (find (live_file f u) (files (db w)))) Q w"
  by (simp add: file_find_by_id_and_user_def wp_then)

lemma keeps_minio [keeps_intro]:
  "keeps P (minio_get_object H k)" "keeps P (minio_stat_object H k)" "keeps P (minio_copy_object H k l)"
  "keeps P (minio_remove_object H k)" "keeps P (minio_presigned_put_object H k n)"
  "keeps P (minio_create_multipart_upload H k l)" "keeps P (minio_presigned_put_part H k l n m)"
  "keeps P (minio_complete_multipart_upload H k l ps)" "keeps P (minio_abort_multipart_upload H k l)"
  "keeps P (minio_remove_objects H ks)"
  by (simp_all add: minio_get_object_def minio_stat_object_def minio_copy_object_def minio_remove_object_def
      minio_presigned_put_object_def minio_create_multipart_upload_def minio_presigned_put_part_def
      minio_complete_multipart_upload_def minio_abort_multipart_upload_def minio_remove_objects_def keeps_intro)

text \<open>A folder that is named in a request is checked to be the user's.\<close>

lemma wp_folder_check:
  assumes "own_post u x w" and "nullable_uuid_valid p"
    and "in_own_folder (folders (db w)) u p \<Longrightarrow> wp (k ()) (\<lambda>_ w'. own_post u x w') w"
  shows "wp (andThen (if truthy p then folder_assert_belongs_to_user (the p) u else ret ()) k) (\<lambda>_ w'. own_post u x w') w"
proof (cases "truthy p")
  case False
  then have "p = None" using assms(2) valid_truthy by blast
  with assms(3) show ?thesis by (simp add: wp_then)
next
  case True
  then obtain i where p: "p = Some i" by (auto dest: truthyE)
  with True assms(1,3) in_own_folder_found [of i u "folders (db w)"] show ?thesis
    by (simp add: folder_assert_belongs_to_user_def wp split: option.split)
qed

lemma wp_file_insert:
  assumes "\<And>e w'. db w' = db w \<Longrightarrow> Q (Inl e) w'"
    and "\<And>row w'. fi_user_id row = u \<Longrightarrow> fi_folder_id row = p \<Longrightarrow> fi_name row = name \<Longrightarrow> fi_minio_key row = key \<Longrightarrow>
      fi_size row = sz \<Longrightarrow> fi_mime_type row = mime \<Longrightarrow> fi_soft_deleted_at row = None \<Longrightarrow>
      key \<notin> fi_minio_key ` set (files (db w)) \<Longrightarrow>
      db w' = (db w)\<lparr>files := files (db w) @ [row]\<rparr> \<Longrightarrow> calls w' = calls w \<Longrightarrow> Q (Inr row) w'"
  shows "wp (file_insert H u p name key sz mime) Q w"
  using assms by (simp add: file_insert_def wp Let_def)

lemma own_file_insert:
  "own_post u x w \<Longrightarrow> in_own_folder (folders (db w)) u p \<Longrightarrow>
     wp (file_insert H u p name key sz mime) (\<lambda>_ w'. own_post u x w') w"
  by (rule wp_file_insert) (auto intro!: own_insert_file)

lemma in_own_folder_file:
  "own_change u x d \<Longrightarrow> find (live_file f u) (files d) = Some r \<Longrightarrow> in_own_folder (folders d) u (fi_folder_id r)"
  by (auto simp: own_change_def drive_ok_def live_file_def dest!: find_Some_set)

lemma in_own_folder_live:
  "own_change u x d \<Longrightarrow> r \<in> set (files d) \<Longrightarrow> fi_user_id r = u \<Longrightarrow> in_own_folder (folders d) u (fi_folder_id r)"
  by (auto simp: own_change_def drive_ok_def)

lemma own_remark_file:
  assumes "own_change u x d" and "\<And>r. p r \<Longrightarrow> fi_user_id r = u"
    and "\<And>r. fi_user_id (f r) = fi_user_id r \<and> fi_folder_id (f r) = fi_folder_id r"
  shows "own_change u x (d\<lparr>files := update_where p f (files d)\<rparr>)"
  by (rule own_update_file [OF assms(1)]) (simp_all add: assms(2,3) in_own_folder_live [OF assms(1)])

lemma own_file_rename: "own_post u x w \<Longrightarrow> wp (file_rename H u f name) (\<lambda>_ w'. own_post u x w') w"
  by (auto simp: file_rename_def file_repo_rename_def wp invalidate_listing_def live_file_def
      split: option.split sum.split intro!: own_remark_file)

lemma own_file_remove: "own_post u x w \<Longrightarrow> wp (file_remove H u f) (\<lambda>_ w'. own_post u x w') w"
  by (auto simp: file_remove_def file_soft_delete_def wp invalidate_listing_def live_file_def
      split: option.split sum.split intro!: own_remark_file)

lemma own_file_move:
  assumes "own_post u x w" and "nullable_uuid_valid p"
  shows "wp (file_move H u f p) (\<lambda>_ w'. own_post u x w') w"
proof (cases "find (live_file f u) (files (db w))")
  case None
  with assms show ?thesis by (simp add: file_move_def wp)
next
  case (Some q)
  have move: "wp (file_repo_move H f u p) (\<lambda>_ w'. own_post u x w') w" if "in_own_folder (folders (db w)) u p"
    using Some that assms(1) by (simp add: file_repo_move_def wp)
      (auto simp: live_file_def intro!: own_update_file)
  show ?thesis
    unfolding file_move_def wp_then Some option.case
    by (rule wp_folder_check [OF assms], rule wp_inv_first [OF move], assumption, rule own_rest, assumption,
        intro keeps_intro, auto simp: keeps_invalidate)
qed

lemma own_file_copy:
  assumes "own_post u x w" and "nullable_uuid_valid p"
  shows "wp (file_copy H u f p) (\<lambda>_ w'. own_post u x w') w"
proof (cases "find (live_file f u) (files (db w))")
  case None
  with assms show ?thesis by (simp add: file_copy_def wp)
next
  case (Some q)
  define P where "P v \<longleftrightarrow> own_post u x v \<and> in_own_folder (folders (db v)) u p" for v
  have copy: "wp (minio_copy_object H k l) (\<lambda>_. P) v" if "P v" for k l v
    using that by (simp add: P_def minio_copy_object_def wp)
  have insert: "wp (catching (file_insert H u p name key sz mime) h) (\<lambda>_ w'. own_post u x w') v"
    if "P v" "\<And>e. keeps (own_change u x) (h e)" for name key sz mime h v
    unfolding wp_catching
    by (rule wp_mono [OF own_file_insert]) (use that in \<open>auto simp: P_def own_rest split: sum.split\<close>)
  show ?thesis
    unfolding file_copy_def wp_then Some option.case
  proof (rule wp_folder_check [OF assms], unfold wp_then Let_def, rule wp_inv_bind, rule wp_mono [OF copy], goal_cases)
    case 1
    then show ?case using assms(1) by (simp add: P_def)
  next
    case (2 r v)
    then have post: "own_post u x v" by (simp add: P_def)
    show ?case
    proof (intro conjI allI impI post wp_inv_first [OF insert])
      show "P v" by (rule 2)
    qed (intro keeps_intro, rule own_rest, assumption, intro keeps_intro)
  qed
qed

subsection \<open>Trash\<close>

lemma own_trash_restore:
  assumes "own_post u x w"
  shows "wp (trash_restore u i t) (\<lambda>_ w'. own_post u x w') w"
proof -
  have files: "wp (trash_restore_file i u) (\<lambda>_ w'. own_post u x w') v" if "own_post u x v" for v
    using that by (auto simp: trash_restore_file_def wp intro!: own_remark_file)
  have folders: "wp (trash_restore_folder i u) (\<lambda>_ w'. own_post u x w') v" if "own_post u x v" for v
    unfolding trash_restore_folder_def by (rule own_mark_subtree [OF that])
  show ?thesis
    unfolding trash_restore_def trash_is_parent_in_trash_def wp_then
    using assms by (cases t)
      (simp_all add: wp_if wp_primitive trash_find_deleted_file_def trash_find_deleted_folder_def wp_then
        wp_case_option files folders wp_inv_first split: option.split)
qed

lemma own_permanent_delete_tree:
  assumes "own_post u x w"
  shows "wp (trash_permanent_delete_folder_tree i u) (\<lambda>_ w'. own_post u x w') w"
  unfolding trash_permanent_delete_folder_tree_def wp_andThen [where m = "user_subtree i u"]
proof (rule wp_user_subtree [OF own_change_ok [OF assms]], goal_cases)
  case (1 js)
  show ?case using own_delete_tree [OF assms 1(1)] by (simp add: wp)
qed

lemma own_trash_permanent_delete:
  assumes "own_post u x w"
  shows "wp (trash_permanent_delete H u i t) (\<lambda>_ w'. own_post u x w') w"
proof -
  have files: "wp (trash_permanent_delete_file i u) (\<lambda>_ w'. own_post u x w') v" if "own_post u x v" for v
    using that by (auto simp: trash_permanent_delete_file_def wp intro!: own_delete_file)
  have remove: "wp (if b then throw c else minio_remove_object H k) (\<lambda>_ w'. own_post u x w') v" if "own_post u x v" for b c k v
    by (rule own_rest [OF that]) (intro keeps_intro)
  have many: "wp (if b then minio_remove_objects H ks else ret ()) (\<lambda>_ w'. own_post u x w') v" if "own_post u x v" for b ks v
    by (rule own_rest [OF that]) (intro keeps_intro)
  show ?thesis
  proof (cases t)
    case TrashFile
    have "wp (andThen (trash_permanent_delete_file i u) (\<lambda>minioKey.
             if \<not> truthy minioKey then throw FILE_NOT_FOUND
             else minio_remove_object H (the minioKey))) (\<lambda>_ w'. own_post u x w') w"
      by (rule wp_inv_first [OF files [OF assms]]) (rule remove)
    with TrashFile assms show ?thesis
      unfolding trash_permanent_delete_def trash_is_parent_in_trash_def wp_then by (simp add: wp_if wp_primitive)
  next
    case TrashFolder
    have "wp (andThen (trash_permanent_delete_folder_tree i u) (\<lambda>minioKeys.
             if length minioKeys > 0 then minio_remove_objects H minioKeys else ret ())) (\<lambda>_ w'. own_post u x w') w"
      by (rule wp_inv_first [OF own_permanent_delete_tree [OF assms]]) (rule many)
    with TrashFolder assms show ?thesis
      unfolding trash_permanent_delete_def trash_is_parent_in_trash_def wp_then trash_find_deleted_folder_def
      by (simp add: wp_if wp_primitive trash_find_deleted_folder_def wp_then wp_case_option split: option.split)
  qed
qed

subsection \<open>Uploads\<close>

lemma own_session_insert:
  "own_post u x w \<Longrightarrow> ui_user_id data = u \<Longrightarrow> in_own_folder (folders (db w)) u (ui_folder_id data) \<Longrightarrow>
     wp (upload_session_insert H data) (\<lambda>_ w'. own_post u x w') w"
  by (auto simp: upload_session_insert_def wp Let_def intro!: own_insert_session)

lemma own_upload_init:
  assumes "own_post u x w" and "nullable_uuid_valid (uib_folder_id body)"
  shows "wp (upload_init H u body) (\<lambda>_ w'. own_post u x w') w"
proof -
  define Pd where "Pd d \<longleftrightarrow> own_change u x d \<and> in_own_folder (folders d) u (uib_folder_id body)" for d
  define P where "P v \<longleftrightarrow> Pd (db v)" for v :: world
  have P: "P v \<longleftrightarrow> own_post u x v \<and> in_own_folder (folders (db v)) u (uib_folder_id body)" for v
    by (simp add: P_def Pd_def)
  have parts: "keeps Pd (presign_parts H k l n)" for k l n
    unfolding presign_parts_def by (rule keeps_promise_all) (auto intro!: keeps_intro)
  have ext: "P v \<Longrightarrow> wp (minio_presigned_put_object H k n) (\<lambda>_. P) v"
    "P v \<Longrightarrow> wp (minio_create_multipart_upload H k l) (\<lambda>_. P) v"
    "P v \<Longrightarrow> wp (presign_parts H k l n) (\<lambda>_. P) v" for v k l n
    by (simp_all add: P_def [abs_def] wp_snd keepsD keeps_minio parts)
  have insert: "wp (andThen (upload_session_insert H data) (\<lambda>session. ret (g session))) (\<lambda>_ w'. own_post u x w') v"
    if "P v" "ui_user_id data = u" "ui_folder_id data = uib_folder_id body" for data v and g :: "upload_session_row \<Rightarrow> upload_init_response"
    by (rule wp_inv_first [OF own_session_insert]) (use that in \<open>auto simp: P wp\<close>)
  have single: "wp (andThen (minio_presigned_put_object H k n) (\<lambda>uploadUrl.
      andThen (upload_session_insert H data) (\<lambda>session. ret (g uploadUrl session)))) (\<lambda>_ w'. own_post u x w') v"
    if "P v" "ui_user_id data = u" "ui_folder_id data = uib_folder_id body"
    for k n data v and g :: "string \<Rightarrow> upload_session_row \<Rightarrow> upload_init_response"
    by (rule wp_inv_bind, rule wp_mono [OF ext(1)]) (use that insert in \<open>auto simp: P\<close>)
  have multi: "wp (andThen (minio_create_multipart_upload H k l) (\<lambda>uploadId.
      andThen (presign_parts H k uploadId n) (\<lambda>parts.
      andThen (upload_session_insert H (data uploadId)) (\<lambda>session. ret (g parts session))))) (\<lambda>_ w'. own_post u x w') v"
    if "P v" "\<And>i. ui_user_id (data i) = u" "\<And>i. ui_folder_id (data i) = uib_folder_id body"
    for k l n data v and g :: "(nat \<times> string) list \<Rightarrow> upload_session_row \<Rightarrow> upload_init_response"
  proof (rule wp_inv_bind, rule wp_mono [OF ext(2) [OF that(1)]], intro conjI allI impI)
    show "own_post u x v'" if "P v'" for v' using that by (simp add: P)
    show "wp (andThen (presign_parts H k i n) (\<lambda>parts. andThen (upload_session_insert H (data i))
        (\<lambda>session. ret (g parts session)))) (\<lambda>_ w'. own_post u x w') v'" if "P v'" for i v'
      by (rule wp_inv_bind, rule wp_mono [OF ext(3) [OF that]]) (auto simp: P intro!: insert \<open>\<And>i. ui_user_id (data i) = u\<close> \<open>\<And>i. ui_folder_id (data i) = uib_folder_id body\<close>)
  qed
  show ?thesis
  proof (cases "MAX_FILE_SIZE < uib_size body")
    case True
    with assms(1) show ?thesis by (simp add: upload_init_def wp)
  next
    case False
    show ?thesis
      unfolding upload_init_def if_not_P [OF False]
    proof (rule wp_folder_check [OF assms], unfold Let_def wp_then, goal_cases)
      case 1
      then have "P (w\<lparr>draws := n\<rparr>)" for n using assms(1) by (simp add: P)
      then show ?case using assms(1) by (auto simp: wp_if wp_primitive intro!: single multi)
    qed
  qed
qed

text \<open>What stays true of the session that is being completed.\<close>

definition completing :: "uuid \<Rightarrow> folder_row list \<times> file_row list \<times> upload_session_row list \<Rightarrow> upload_session_row \<Rightarrow> database \<Rightarrow> bool" where
  "completing u x s d \<longleftrightarrow> own_change u x d \<and> in_own_folder (folders d) u (us_folder_id s) \<and>
     (\<forall>r\<in>set (upload_sessions d). us_id r = us_id s \<longrightarrow> us_user_id r = u)"

lemma completing_delete: "keeps (completing u x s) (upload_delete_by_id (us_id s))"
  by (rule keepsI) (simp add: upload_delete_by_id_def wp completing_def own_delete_session)

lemma completing_insert: "keeps (completing u x s) (file_insert H u (us_folder_id s) name key sz mime)"
  by (rule keepsI, rule wp_file_insert) (auto simp: completing_def intro!: own_insert_file)

lemma keeps_some_result [keeps_intro]: "keeps P m \<Longrightarrow> keeps P (some_result m)"
  unfolding some_result_def by (intro keeps_intro)

lemma own_upload_body: "keeps (own_change u x) (upload_body H u sid parts)"
proof (rule keepsI)
  fix w assume own: "own_post u x w"
  show "wp (upload_body H u sid parts) (\<lambda>_ w'. own_post u x w') w"
  proof (cases "find (\<lambda>r. us_id r = sid) (upload_sessions (db w))")
    case None
    with own show ?thesis by (simp add: upload_body_def upload_find_by_id_for_update_def wp)
  next
    case (Some s)
    then have s: "s \<in> set (upload_sessions (db w))" "us_id s = sid" by (auto dest: find_Some_set)
    show ?thesis
    proof (cases "us_user_id s = u")
      case False
      with own Some show ?thesis by (simp add: upload_body_def upload_find_by_id_for_update_def wp)
    next
      case True
      have start: "completing u x s (db w)"
        unfolding completing_def
      proof (intro conjI ballI impI)
        show "own_change u x (db w)" by (rule own)
        show "in_own_folder (folders (db w)) u (us_folder_id s)"
          using own s(1) True by (auto simp: own_change_def drive_ok_def)
        fix r :: upload_session_row assume "r \<in> set (upload_sessions (db w))" "us_id r = us_id s"
        moreover have "distinct (map us_id (upload_sessions (db w)))" using own by (simp add: own_change_def drive_ok_def)
        ultimately have "r = s" using s(1) by (blast intro: key_unique)
        with True show "us_user_id r = u" by simp
      qed
      have "wp (upload_body H u sid parts) (\<lambda>_ w'. completing u x s (db w')) w"
        unfolding upload_body_def upload_find_by_id_for_update_def wp_then Some option.case
        apply (simp only: True not_True_eq_False if_False wp_snd simp_thms)
        apply (rule keepsD)
         apply (intro keeps_intro completing_delete completing_insert)
        apply (rule start)
        done
      then show ?thesis by (rule wp_mono) (simp add: completing_def)
    qed
  qed
qed

lemma own_upload_complete: "own_post u x w \<Longrightarrow> wp (upload_complete H u sid parts) (\<lambda>_ w'. own_post u x w') w"
  unfolding upload_complete_def by (rule own_rest, assumption, rule keeps_run_in_tx, rule own_upload_body)

lemma drive_ok_delete_session: "keeps drive_ok (upload_delete_by_id i)"
  by (rule keepsI) (auto simp: upload_delete_by_id_def wp drive_ok_def distinct_delete_where)

lemma drive_ok_cleanup: "keeps drive_ok (upload_cleanup_expired H n)"
proof -
  have loop: "keeps drive_ok (cleanup_loop H ss a r)" for ss a r
  proof (induction ss arbitrary: a r)
    case (Cons s ss)
    show ?case
      unfolding cleanup_loop.simps counted_def by (intro keeps_intro drive_ok_delete_session Cons.IH)
  qed (simp add: keeps_primitive)
  show ?thesis
    unfolding upload_cleanup_expired_def upload_find_expired_for_cleanup_def by (intro keeps_intro loop)
qed

subsection \<open>Histories of requests\<close>

datatype drive_op =
    FolderCreate uuid string "uuid option"
  | FolderRename uuid uuid string
  | FolderMove uuid uuid "uuid option"
  | FolderRemove uuid uuid
  | FileRename uuid uuid string
  | FileMove uuid uuid "uuid option"
  | FileCopy uuid uuid "uuid option"
  | FileRemove uuid uuid
  | TrashRestore uuid uuid trash_type
  | TrashDelete uuid uuid trash_type
  | UploadInit uuid upload_init_body
  | UploadComplete uuid uuid "(nat \<times> string) list"
  | UploadCleanup

definition valid_parent :: "uuid option \<Rightarrow> (world \<Rightarrow> world) \<Rightarrow> world \<Rightarrow> world" where
  "valid_parent p f w = (if nullable_uuid_valid p then f w else w)"

text \<open>A request of a user: the body's identifiers are validated before the service is called.\<close>

definition drive_step :: "host \<Rightarrow> drive_op \<Rightarrow> world \<Rightarrow> world" where
  "drive_step H a = (case a of
     FolderCreate u name p \<Rightarrow> valid_parent p (\<lambda>w. snd (folder_create H u name p w))
   | FolderRename u f name \<Rightarrow> (\<lambda>w. snd (folder_rename H u f name w))
   | FolderMove u f p \<Rightarrow> valid_parent p (\<lambda>w. snd (folder_move H u f p w))
   | FolderRemove u f \<Rightarrow> (\<lambda>w. snd (folder_remove H u f w))
   | FileRename u f name \<Rightarrow> (\<lambda>w. snd (file_rename H u f name w))
   | FileMove u f p \<Rightarrow> valid_parent p (\<lambda>w. snd (file_move H u f p w))
   | FileCopy u f p \<Rightarrow> valid_parent p (\<lambda>w. snd (file_copy H u f p w))
   | FileRemove u f \<Rightarrow> (\<lambda>w. snd (file_remove H u f w))
   | TrashRestore u i t \<Rightarrow> (\<lambda>w. snd (trash_restore u i t w))
   | TrashDelete u i t \<Rightarrow> (\<lambda>w. snd (trash_permanent_delete H u i t w))
   | UploadInit u b \<Rightarrow> valid_parent (uib_folder_id b) (\<lambda>w. snd (upload_init H u b w))
   | UploadComplete u i ps \<Rightarrow> (\<lambda>w. snd (upload_complete H u i ps w))
   | UploadCleanup \<Rightarrow> (\<lambda>w. snd (cleanup_worker_process H w)))"

definition made_by :: "drive_op \<Rightarrow> uuid option" where
  "made_by a = (case a of
     FolderCreate u _ _ \<Rightarrow> Some u | FolderRename u _ _ \<Rightarrow> Some u | FolderMove u _ _ \<Rightarrow> Some u
   | FolderRemove u _ \<Rightarrow> Some u | FileRename u _ _ \<Rightarrow> Some u | FileMove u _ _ \<Rightarrow> Some u
   | FileCopy u _ _ \<Rightarrow> Some u | FileRemove u _ \<Rightarrow> Some u | TrashRestore u _ _ \<Rightarrow> Some u
   | TrashDelete u _ _ \<Rightarrow> Some u | UploadInit u _ \<Rightarrow> Some u | UploadComplete u _ _ \<Rightarrow> Some u
   | UploadCleanup \<Rightarrow> None)"

lemma drive_step_own:
  assumes "made_by a = Some u" and "own_post u x w"
  shows "own_post u x (drive_step H a w)"
  using assms
  by (cases a) (simp_all add: made_by_def drive_step_def valid_parent_def wp_dbI own_folder_create own_folder_rename
      own_folder_move own_folder_remove own_file_rename own_file_move own_file_copy own_file_remove
      own_trash_restore own_trash_permanent_delete own_upload_init own_upload_complete)

lemma drive_step_ok:
  assumes "drive_ok (db w)"
  shows "drive_ok (db (drive_step H a w))"
proof (cases "made_by a")
  case (Some u)
  have "own_post u (others u (db w)) w" using assms by (simp add: own_change_def)
  from drive_step_own [OF Some this] show ?thesis by (rule own_change_ok)
next
  case None
  then have "a = UploadCleanup" by (cases a) (simp_all add: made_by_def)
  moreover have "keeps drive_ok (cleanup_worker_process H)"
    unfolding cleanup_worker_process_def by (intro keeps_intro drive_ok_cleanup)
  ultimately show ?thesis using keepsD assms by (auto simp: drive_step_def)
qed

interpretation drive: history "drive_step H" "\<lambda>w. drive_ok (db w)" for H
  by unfold_locales (rule drive_step_ok)

interpretation isolated: history_frame "drive_step H" "\<lambda>w. drive_ok (db w)" "\<lambda>a. made_by a = Some u"
  "\<lambda>w. others u (db w)" for H u
proof unfold_locales
  fix w :: world and a assume "drive_ok (db w)" and by_u: "made_by a = Some u"
  then have "own_post u (others u (db w)) w" by (simp add: own_change_def)
  from drive_step_own [OF by_u this] show "others u (db (drive_step H a w)) = others u (db w)"
    by (simp add: own_change_def)
qed

text \<open>
  C13: whatever requests users make, folders stay a forest with unique identifiers, and
  every folder, file and upload session lies in a folder of its own owner.
\<close>

theorem drive_stays_ok:
  assumes "drive_ok (db w)"
  shows "drive_ok (db (fold (drive_step H) ops w))"
  using assms by (rule drive.run_inv)

text \<open>
  C14: the requests of one user, whatever identifiers they name, leave every folder, file
  and upload session of every other user exactly as it was.
\<close>

theorem users_are_isolated:
  assumes "drive_ok (db w)" and "\<forall>a\<in>set ops. made_by a = Some u"
  shows "others u (db (fold (drive_step H) ops w)) = others u (db w)"
  using assms by (rule isolated.run_part)

end
