(* ===== verification/DriveProps.thy ===== *)
theory DriveProps
  imports DriveOps
begin

text \<open>
  Properties of folders and of the trash: the recursive queries return, the depth of a new
  folder, deletion and restoration, and what a permanent deletion removes from the store.
\<close>

subsection \<open>The recursive queries\<close>

text \<open>
  C15: on a forest the recursive queries of the folder repository return: a folder's depth
  is a natural number, its ancestors are those of the parent links, and so is its subtree.
\<close>

theorem folder_queries_return:
  assumes "drive_ok (db w)" and "r \<in> set (folders (db w))"
  shows "\<exists>n js. folder_get_depth (fo_id r) w = (Inr (int n), w) \<and>
    (\<forall>a. folder_is_descendant (fo_id r) a w = (Inr ((a, fo_id r) \<in> (parent_rel (folders (db w)))\<^sup>*), w)) \<and>
    user_subtree (fo_id r) (fo_user_id r) w = (Inr js, w) \<and> set js = {i. (fo_id r, i) \<in> (parent_rel (folders (db w)))\<^sup>*}"
proof -
  have forest: "forest (folders (db w))" using assms(1) by (simp add: drive_ok_def)
  from ancestors_of [OF forest assms(2)] obtain "is" where
    "is": "ancestors (folders (db w)) (Some (fo_id r)) = Some is" "set is = {a. (a, fo_id r) \<in> (parent_rel (folders (db w)))\<^sup>*}"
    by blast
  then have "fo_id r \<in> set is" by simp
  then have "is \<noteq> []" by auto
  then have depth: "int (length is) - 1 = int (length is - 1)" by (cases "is") auto
  have "wp (user_subtree (fo_id r) (fo_user_id r)) (\<lambda>x w'. w' = w \<and>
      (\<exists>js. x = Inr js \<and> set js = {i. (fo_id r, i) \<in> (parent_rel (folders (db w)))\<^sup>*})) w"
    by (rule wp_user_subtree [OF assms(1)]) (use assms(2) in auto)
  then obtain js where "user_subtree (fo_id r) (fo_user_id r) w = (Inr js, w)"
    "set js = {i. (fo_id r, i) \<in> (parent_rel (folders (db w)))\<^sup>*}"
    by (auto simp: wp_def split: prod.splits)
  moreover have "folder_get_depth (fo_id r) w = (Inr (int (length is - 1)), w)"
    by (simp add: folder_get_depth_def or_never_def svc andThen_def "is"(1) depth)
  moreover have "folder_is_descendant (fo_id r) a w = (Inr ((a, fo_id r) \<in> (parent_rel (folders (db w)))\<^sup>*), w)" for a
    unfolding folder_is_descendant_def or_never_def by (simp add: svc andThen_def "is")
  ultimately show ?thesis by blast
qed

subsection \<open>Depth\<close>

lemma ancestors_append:
  assumes "forest rs" and "fo_id row \<notin> fo_id ` set rs" and "r \<in> set rs"
  shows "ancestors (rs @ [row]) (Some (fo_id r)) = ancestors rs (Some (fo_id r))"
proof -
  have "\<forall>r\<in>set rs. fo_id r = i \<longrightarrow> ancestors (rs @ [row]) (Some i) = ancestors rs (Some i)" for i
  proof (induction i rule: wf_induct_rule [OF forest_wf(1) [OF assms(1)]])
    case (1 i)
    show ?case
    proof (intro ballI impI)
      fix r assume r: "r \<in> set rs" "fo_id r = i"
      have found: "find (\<lambda>x. fo_id x = i) rs = Some r"
        by (rule find_key_unique [where k = fo_id]) (use assms(1) r in \<open>simp_all add: forest_def\<close>)
      show "ancestors (rs @ [row]) (Some i) = ancestors rs (Some i)"
      proof (cases "fo_parent_id r")
        case None
        with found show ?thesis
          by (subst (1 2) ancestors.simps) (simp add: find_appended_rows ancestors.simps [of _ None])
      next
        case (Some p)
        with r have "(p, i) \<in> parent_rel rs" by (auto simp: parent_rel_def)
        moreover from assms(1) r(1) Some obtain q where "q \<in> set rs" "fo_id q = p" unfolding forest_def by blast
        ultimately have "ancestors (rs @ [row]) (Some p) = ancestors rs (Some p)" using "1.IH" by blast
        with found Some show ?thesis by (subst (1 2) ancestors.simps) (simp add: find_appended_rows)
      qed
    qed
  qed
  with assms(3) show ?thesis by blast
qed

lemma ancestors_new:
  assumes "fo_id row \<notin> fo_id ` set rs" and "ancestors (rs @ [row]) (fo_parent_id row) = Some is"
  shows "ancestors (rs @ [row]) (Some (fo_id row)) = Some (fo_id row # is)"
proof -
  have "find (\<lambda>r. fo_id r = fo_id row) (rs @ [row]) = Some row"
    using assms(1) by (simp add: find_appended_rows find_key_None)
  with assms(2) show ?thesis by (subst ancestors.simps) simp
qed

text \<open>
  C16: a folder that is created lies at depth 20 at most, the root level being 0. (Moving a
  folder has no such bound.)
\<close>

theorem created_folder_depth:
  assumes "drive_ok (db w)" and "nullable_uuid_valid p" and "folder_create H u name p w = (Inr item, w')"
  shows "\<exists>n. folder_get_depth (foi_id item) w' = (Inr n, w') \<and> 0 \<le> n \<and> n \<le> 20"
proof -
  let ?rs = "folders (db w)"
  have forest: "forest ?rs" using assms(1) by (simp add: drive_ok_def)
  let ?goal = "\<lambda>r w'. \<forall>item. r = Inr item \<longrightarrow>
      (\<exists>is. ancestors (folders (db w')) (Some (foi_id item)) = Some is \<and> 1 \<le> length is \<and> length is \<le> 21)"
  have insert: "wp (andThen (folder_insert H u name p) (\<lambda>row. andThen (invalidate_listing H u p) (\<lambda>_. ret (to_folder_item row))))
      ?goal w" if a: "\<And>row. fo_id row \<notin> fo_id ` set ?rs \<Longrightarrow> ancestors (?rs @ [row]) p = Some is" "length is \<le> 20" for "is"
    unfolding wp_andThen
  proof (rule wp_folder_insert, simp, unfold sum.case, goal_cases)
    case (1 row w')
    then have "ancestors (?rs @ [row]) (Some (fo_id row)) = Some (fo_id row # is)"
      using ancestors_new a(1) by blast
    with 1(5) a(2) show ?case by (simp add: wp invalidate_listing_def to_folder_item_def split: sum.split)
  qed
  have "wp (folder_create H u name p) ?goal w"
  proof (cases "truthy p")
    case False
    then have "p = None" using assms(2) valid_truthy by blast
    with insert [of "[]"] show ?thesis by (simp add: folder_create_def wp_then ancestors.simps [of _ None])
  next
    case True
    then obtain i where p: "p = Some i" by (auto dest: truthyE)
    show ?thesis
    proof (cases "find (live_folder i u) ?rs")
      case None
      with p True show ?thesis by (simp add: folder_create_def wp)
    next
      case (Some q)
      then have q: "q \<in> set ?rs" "fo_id q = i" by (auto simp: live_folder_def dest!: find_Some_set)
      from ancestors_of [OF forest q(1)] q(2) obtain "is" where "is": "ancestors ?rs p = Some is" using p by auto
      have a: "ancestors (?rs @ [row]) p = Some is" if "fo_id row \<notin> fo_id ` set ?rs" for row
        using ancestors_append [OF forest that q(1)] q(2) p "is" by simp
      show ?thesis
      proof (cases "MAX_FOLDER_DEPTH \<le> int (length is) - 1")
        case True
        with p "is" Some \<open>truthy p\<close> show ?thesis
          by (simp add: folder_create_def folder_get_depth_def or_never_def wp)
      next
        case False
        then have "length is \<le> 20" by (simp add: MAX_FOLDER_DEPTH_def)
        with insert [OF a] p "is" Some \<open>truthy p\<close> False show ?thesis
          by (simp add: folder_create_def folder_get_depth_def or_never_def wp_andThen wp_primitive wp_if wp_case_option wp_find_folder)
      qed
    qed
  qed
  with assms(3) obtain "is" where "ancestors (folders (db w')) (Some (foi_id item)) = Some is" "1 \<le> length is" "length is \<le> 21"
    by (auto simp: wp_def)
  then show ?thesis by (cases "is") (simp_all add: folder_get_depth_def or_never_def svc andThen_def)
qed

subsection \<open>Deleting and restoring\<close>

lemma remark_folder: "fo_soft_deleted_at r = None \<Longrightarrow> (r :: folder_row)\<lparr>fo_soft_deleted_at := None\<rparr> = r"
  by (cases r) simp

lemma remark_file: "fi_soft_deleted_at r = None \<Longrightarrow> (r :: file_row)\<lparr>fi_soft_deleted_at := None\<rparr> = r"
  by (cases r) simp

lemma unmark_folders:
  assumes "set js = set is" and "\<forall>r\<in>set rs. fo_id r \<in> set is \<longrightarrow> fo_soft_deleted_at r = None"
  shows "mark_folders js None (mark_folders is t rs) = rs"
  using assms(2) unfolding mark_folders_def assms(1) by (induction rs) (auto simp: remark_folder)

lemma unmark_files:
  assumes "set js = set is" and "\<forall>r\<in>set rs. in_folders is (fi_folder_id r) \<longrightarrow> fi_soft_deleted_at r = None"
  shows "mark_files js None (mark_files is t rs) = rs"
proof -
  have "in_folders js = in_folders is" using assms(1) by (simp add: in_folders_def fun_eq_iff split: option.split)
  with assms(2) show ?thesis unfolding mark_files_def by (induction rs) (auto simp: remark_file)
qed

lemma parent_rel_mark [simp]: "parent_rel (mark_folders is t rs) = parent_rel rs"
  unfolding mark_folders_def update_where_def by (rule parent_rel_cong) simp

lemma deleted_at_of_mark:
  assumes "\<And>p. parent = Some p \<Longrightarrow> p \<notin> set is"
  shows "deleted_at_of (mark_folders is t rs) parent = deleted_at_of rs parent"
  using assms unfolding deleted_at_of_def mark_folders_def by (induction rs) (auto split: option.split)

text \<open>Everything at or below the folder is live, and its parent is not in the trash.\<close>

definition all_live :: "uuid \<Rightarrow> database \<Rightarrow> bool" where
  "all_live f d \<longleftrightarrow>
     (\<forall>r\<in>set (folders d). (f, fo_id r) \<in> (parent_rel (folders d))\<^sup>* \<longrightarrow> fo_soft_deleted_at r = None) \<and>
     (\<forall>x\<in>set (files d). \<forall>p. fi_folder_id x = Some p \<longrightarrow> (f, p) \<in> (parent_rel (folders d))\<^sup>* \<longrightarrow> fi_soft_deleted_at x = None)"

lemma folder_remove_Inr:
  assumes "drive_ok (db w)" and "folder_remove H u f w = (Inr x, w')"
  shows "\<exists>q is t. q \<in> set (folders (db w)) \<and> live_folder f u q \<and> set is = {i. (f, i) \<in> (parent_rel (folders (db w)))\<^sup>*} \<and>
    db w' = (db w)\<lparr>folders := mark_folders is (Some t) (folders (db w)), files := mark_files is (Some t) (files (db w))\<rparr>"
proof -
  from assms(2) obtain q where q: "find (live_folder f u) (folders (db w)) = Some q"
    by (auto simp: folder_remove_def folder_find_by_id_and_user_def svc_elim svc split: option.splits)
  then have qs: "q \<in> set (folders (db w))" "live_folder f u q" using find_Some_set by fastforce+
  have "wp (folder_soft_delete_cascade H f u) (\<lambda>r w'. \<exists>is t. set is = {i. (f, i) \<in> (parent_rel (folders (db w)))\<^sup>*} \<and>
      db w' = (db w)\<lparr>folders := mark_folders is (Some t) (folders (db w)), files := mark_files is (Some t) (files (db w))\<rparr>) w"
    unfolding folder_soft_delete_cascade_def wp_then wp_andThen [where m = "user_subtree f u"]
  proof (rule wp_user_subtree, simp add: assms(1), goal_cases)
    case (1 js)
    have "set js = {i. (f, i) \<in> (parent_rel (folders (db w)))\<^sup>*}"
      using 1(2) qs by (auto simp: live_folder_def)
    then show ?case by (auto simp: wp)
  qed
  then obtain r w1 "is" t where c: "folder_soft_delete_cascade H f u w = (r, w1)"
    "set is = {i. (f, i) \<in> (parent_rel (folders (db w)))\<^sup>*}"
    "db w1 = (db w)\<lparr>folders := mark_folders is (Some t) (folders (db w)), files := mark_files is (Some t) (files (db w))\<rparr>"
    by (auto simp: wp_def split: prod.splits)
  from assms(2) q c(1) have "db w' = db w1"
    by (auto simp: folder_remove_def folder_find_by_id_and_user_def svc_elim svc invalidate_listing_def)
  with qs c(2,3) show ?thesis by auto
qed


subsection \<open>Permanent deletion\<close>

text \<open>
  C18: a folder that is permanently deleted takes no object of the store's into oblivion:
  every file that disappears with it had its key in the removal call. (On a database where
  a folder held another user's file, that file's object would be left behind.)
\<close>

theorem permanent_delete_removes_objects:
  assumes "drive_ok (db w)" and "trash_permanent_delete H u i TrashFolder w = (Inr x, w')"
    and "f \<in> set (files (db w))" and "f \<notin> set (files (db w'))"
  shows "\<exists>t ks. (t, S3RemoveMany ks) \<in> set (calls w') \<and> fi_minio_key f \<in> set ks"
proof -
  let ?d = "db w"
  have "wp (trash_permanent_delete_folder_tree i u) (\<lambda>r v. \<exists>ks. r = Inr ks \<and>
      (\<forall>f\<in>set (files ?d). f \<in> set (files (db v)) \<or> fi_minio_key f \<in> set ks)) w"
    unfolding trash_permanent_delete_folder_tree_def wp_andThen [where m = "user_subtree i u"]
    by (rule wp_user_subtree [OF assms(1)])
      (use own_subtree_files [OF assms(1)] in \<open>auto simp: wp\<close>)
  then obtain ks v where ks: "trash_permanent_delete_folder_tree i u w = (Inr ks, v)"
    "\<forall>f\<in>set (files ?d). f \<in> set (files (db v)) \<or> fi_minio_key f \<in> set ks"
    by (auto simp: wp_def split: prod.splits)
  from assms(2) ks(1) have last: "(if length ks > 0 then minio_remove_objects H ks else ret ()) v = (Inr x, w')"
    by (auto simp: trash_permanent_delete_def trash_is_parent_in_trash_def trash_find_deleted_folder_def svc_elim svc
        andThen_run split: if_splits option.splits)
  then have "db w' = db v" by (auto simp: minio_remove_objects_def svc split: if_splits)
  with ks(2) assms(3,4) have "fi_minio_key f \<in> set ks" by auto
  with last show ?thesis by (cases ks) (auto simp: minio_remove_objects_def svc intro!: exI)
qed

subsection \<open>The properties at concrete inputs\<close>

definition demo_folder :: "uuid \<Rightarrow> uuid \<Rightarrow> uuid option \<Rightarrow> millis option \<Rightarrow> folder_row" where
  "demo_folder i u p t = \<lparr>fo_id = i, fo_user_id = u, fo_parent_id = p, fo_name = i, fo_soft_deleted_at = t,
     fo_created_at = 0, fo_updated_at = 0\<rparr>"

definition demo_file :: "uuid \<Rightarrow> uuid \<Rightarrow> uuid option \<Rightarrow> file_row" where
  "demo_file i u p = \<lparr>fi_id = i, fi_user_id = u, fi_folder_id = p, fi_name = i, fi_minio_key = i, fi_size = 1,
     fi_mime_type = ''text/plain'', fi_soft_deleted_at = None, fi_created_at = 0, fi_updated_at = 0\<rparr>"

definition demo_drive :: "millis option \<Rightarrow> database" where
  "demo_drive t = empty_db\<lparr>users := [demo_user],
     folders := [demo_folder ''f'' ''ada'' None t, demo_folder ''g'' ''ada'' (Some ''f'') t, demo_folder ''h'' ''bob'' None None],
     files := [demo_file ''x'' ''ada'' (Some ''g''), demo_file ''y'' ''bob'' (Some ''h'')]\<rparr>"

lemma parent_rel_demo: "parent_rel (folders (demo_drive t)) = {(''f'', ''g'')}"
  by (auto simp: parent_rel_def demo_drive_def demo_folder_def)

lemma demo_drive_ok: "drive_ok (demo_drive t)"
proof -
  have "acyclic {(''f'' :: string, ''g'' :: string)}" by (simp add: acyclic_insert) (simp add: acyclic_def)
  then have "forest (folders (demo_drive t))"
    unfolding forest_def parent_rel_demo by (simp add: demo_drive_def demo_folder_def)
  then show ?thesis
    unfolding drive_ok_def by (simp add: demo_drive_def demo_folder_def demo_file_def in_own_folder_def)
qed

lemma drive_stays_ok_witness:
  "drive_ok (db (fold (drive_step demo_host) [FolderMove ''ada'' ''g'' None, TrashRestore ''bob'' ''f'' TrashFolder]
     (demo_world (demo_drive None))))"
  by (rule drive_stays_ok) (simp add: demo_drive_ok)

lemma users_are_isolated_witness:
  "others ''bob'' (db (fold (drive_step demo_host) [FolderRemove ''bob'' ''f'', FolderRemove ''bob'' ''h'']
     (demo_world (demo_drive None)))) = others ''bob'' (demo_drive None)"
  using users_are_isolated [of "demo_world (demo_drive None)" "[FolderRemove ''bob'' ''f'', FolderRemove ''bob'' ''h'']" "''bob''" demo_host]
  by (simp add: demo_drive_ok made_by_def)

lemma folder_queries_return_witness:
  "\<exists>n. folder_get_depth ''g'' (demo_world (demo_drive None)) = (Inr (int n), demo_world (demo_drive None))"
proof -
  let ?w = "demo_world (demo_drive None)" and ?g = "demo_folder ''g'' ''ada'' (Some ''f'') None"
  have "?g \<in> set (folders (db ?w))" by (simp add: demo_drive_def)
  from folder_queries_return [OF _ this] have "\<exists>n. folder_get_depth (fo_id ?g) ?w = (Inr (int n), ?w)"
    using demo_drive_ok by auto
  then show ?thesis by (simp only: demo_folder_def folder_row.select_convs)
qed

lemma created_folder_depth_witness:
  "\<exists>item w' n. folder_create demo_host ''ada'' ''new'' None (demo_world (demo_drive None)) = (Inr item, w') \<and>
     folder_get_depth (foi_id item) w' = (Inr n, w') \<and> 0 \<le> n \<and> n \<le> 20"
proof -
  have "wp (folder_create demo_host ''ada'' ''new'' None) (\<lambda>r _. \<exists>item. r = Inr item) (demo_world (demo_drive None))"
    by (simp add: folder_create_def folder_insert_def invalidate_listing_def wp Let_def demo_drive_def demo_folder_def
        user_exists_def demo_user_def folder_exists_def)
  then obtain item w' where run: "folder_create demo_host ''ada'' ''new'' None (demo_world (demo_drive None)) = (Inr item, w')"
    by (auto simp: wp_def split: prod.splits)
  from created_folder_depth [OF _ _ run] run show ?thesis
    by (auto simp: demo_drive_ok nullable_uuid_valid_def)
qed


lemma permanent_delete_removes_objects_witness:
  "\<exists>x w' t ks. trash_permanent_delete demo_host ''ada'' ''f'' TrashFolder (demo_world (demo_drive (Some 1))) = (Inr x, w') \<and>
     (t, S3RemoveMany ks) \<in> set (calls w') \<and> fi_minio_key (demo_file ''x'' ''ada'' (Some ''g'')) \<in> set ks"
proof -
  let ?d = "demo_drive (Some 1)" and ?x = "demo_file ''x'' ''ada'' (Some ''g'')"
  have "wp (trash_permanent_delete_folder_tree ''f'' ''ada'') (\<lambda>r v. (\<exists>ks. r = Inr ks) \<and> ?x \<notin> set (files (db v))) (demo_world ?d)"
    unfolding trash_permanent_delete_folder_tree_def wp_andThen [where m = "user_subtree ''f'' ''ada''"]
  proof (rule wp_user_subtree, simp add: demo_drive_ok, goal_cases)
    case (1 js)
    have "''g'' \<in> set js" unfolding 1(2) demo_world_simps parent_rel_demo
      by (auto simp: demo_drive_def demo_folder_def)
    then show ?case by (simp add: wp in_folders_def demo_file_def)
  qed
  moreover have "trash_is_parent_in_trash ''f'' TrashFolder ''ada'' (demo_world ?d) = (Inr False, demo_world ?d)"
    "trash_find_deleted_folder ''f'' ''ada'' (demo_world ?d) = (Inr (Some (demo_folder ''f'' ''ada'' None (Some 1))), demo_world ?d)"
    by (simp_all add: trash_is_parent_in_trash_def trash_find_deleted_folder_def svc demo_drive_def demo_folder_def deleted_at_of_def)
  ultimately have "wp (trash_permanent_delete demo_host ''ada'' ''f'' TrashFolder)
      (\<lambda>r v. (\<exists>y. r = Inr y) \<and> ?x \<notin> set (files (db v))) (demo_world ?d)"
    by (auto simp: wp_def trash_permanent_delete_def andThen_def minio_remove_objects_def svc split: prod.splits sum.splits)
  then obtain y w' where run: "trash_permanent_delete demo_host ''ada'' ''f'' TrashFolder (demo_world ?d) = (Inr y, w')"
    and gone: "?x \<notin> set (files (db w'))"
    by (auto simp: wp_def split: prod.splits)
  have "?x \<in> set (files (db (demo_world ?d)))" by (simp add: demo_drive_def)
  with permanent_delete_removes_objects [OF _ run _ gone] run demo_drive_ok show ?thesis by fastforce
qed

end
