(* ===== verification/FileProps.thy ===== *)
theory FileProps
  imports DriveProps
begin

text \<open>
  Properties of files and uploads: the plan of a multipart upload, the stored media type,
  the completion of an upload, the search, and the name in a download's header.
\<close>

subsection \<open>Parts\<close>

lemma ceil_div_bounds:
  assumes "0 < b" and "0 < a"
  shows "1 \<le> ceil_div a b" and "(ceil_div a b - 1) * b < a" and "a \<le> ceil_div a b * b"
proof -
  let ?q = "(a + b - 1) div b" and ?r = "(a + b - 1) mod b"
  have eq: "b * ?q + ?r = a + b - 1" by (rule mult_div_mod_eq)
  have r: "0 \<le> ?r" "?r < b" using assms by simp_all
  have "a \<le> b * ?q" using eq r by linarith
  then show "a \<le> ceil_div a b * b" by (simp add: ceil_div_def mult.commute)
  have "b * ?q < a + b" using eq r by linarith
  then show "(ceil_div a b - 1) * b < a" by (simp add: ceil_div_def algebra_simps)
  have "b \<le> a + b - 1" using assms by simp
  then have "b div b \<le> (a + b - 1) div b" using assms by (intro zdiv_mono1) simp_all
  then show "1 \<le> ceil_div a b" using assms by (simp add: ceil_div_def)
qed

lemma part_plan:
  assumes "0 < sz" and "sz \<le> MAX_FILE_SIZE"
  shows "1 \<le> part_count sz \<and> part_count sz \<le> 1024 \<and> part_count sz \<le> MAX_PARTS \<and> part_size sz = DEFAULT_PART_SIZE \<and>
    (part_count sz - 1) * part_size sz < sz \<and> sz \<le> part_count sz * part_size sz"
proof -
  have "ceil_div sz 9000 \<le> DEFAULT_PART_SIZE"
    using ceil_div_bounds(2) [of 9000 sz] assms by (simp add: DEFAULT_PART_SIZE_def MAX_FILE_SIZE_def)
  then have ps: "part_size sz = DEFAULT_PART_SIZE" by (simp add: part_size_def)
  have pos: "0 < DEFAULT_PART_SIZE" by (simp add: DEFAULT_PART_SIZE_def)
  note b = ceil_div_bounds [OF pos assms(1)]
  have "part_count sz \<le> 1024"
  proof (rule ccontr)
    assume "\<not> part_count sz \<le> 1024"
    then have "1024 * DEFAULT_PART_SIZE \<le> (part_count sz - 1) * DEFAULT_PART_SIZE"
      using pos by (intro mult_right_mono) simp_all
    with b(2) assms(2) show False
      by (simp add: part_count_def ps DEFAULT_PART_SIZE_def MAX_FILE_SIZE_def)
  qed
  with b show ?thesis by (simp add: part_count_def ps MAX_PARTS_def)
qed

text \<open>
  For every size the upload accepts, the parts number between 1 and 1024, well under
  the store's 10000, so the FILE_TOO_LARGE of the multipart branch is never reached; each
  part has 100 MiB and the parts cover the file with the last one not empty.
\<close>

theorem multipart_plan:
  assumes "0 < sz" and "sz \<le> MAX_FILE_SIZE"
  shows "1 \<le> part_count sz \<and> part_count sz \<le> 1024 \<and> part_count sz \<le> MAX_PARTS \<and> part_size sz = DEFAULT_PART_SIZE \<and>
    (part_count sz - 1) * part_size sz < sz \<and> sz \<le> part_count sz * part_size sz"
  using assms by (rule part_plan)

lemma multipart_plan_witness: "part_count 314572801 \<le> 1024 \<and> part_count 314572801 = 4"
  using multipart_plan [of 314572801]
  by (simp add: MAX_FILE_SIZE_def part_count_def part_size_def DEFAULT_PART_SIZE_def ceil_div_def)

subsection \<open>Media types\<close>

lemma normalized_octet_stream: "normalized_mime ''application/octet-stream'' = ''application/octet-stream''"
  by code_simp

lemma octet_stream_safe: "''application/octet-stream'' \<notin> set DANGEROUS_MIME_PREFIXES"
  by code_simp

text \<open>
  Whatever media type a client sends, in any case, with any parameters and white
  space around it, the one that is stored is not one of the scriptable types; it is the
  client's own or \<open>application/octet-stream\<close>.
\<close>

theorem sanitize_mime_safe:
  "normalized_mime (sanitize_mime m) \<notin> set DANGEROUS_MIME_PREFIXES \<and>
   sanitize_mime m = (if normalized_mime m \<in> set DANGEROUS_MIME_PREFIXES then ''application/octet-stream'' else m)"
  using octet_stream_safe by (simp add: sanitize_mime_def normalized_octet_stream)

subsection \<open>Search\<close>

definition plain_query :: "string \<Rightarrow> bool" where
  "plain_query q \<longleftrightarrow> CHR ''%'' \<notin> set q \<and> CHR ''_'' \<notin> set q \<and> CHR 0x5C \<notin> set q"

lemma like_percent_end [simp]: "like [CHR ''%''] s"
  by (induction s) simp_all

lemma like_prefix: "plain_query q \<Longrightarrow> like (q @ [CHR ''%'']) s \<longleftrightarrow> (\<exists>b. lower s = lower q @ b)"
proof (induction q arbitrary: s)
  case Nil
  have "like ([] @ ''%'') s" by (simp only: append_Nil like_percent_end)
  then show ?case by (simp only: simp_thms) (simp add: lower_def)
next
  case (Cons c q)
  then have "plain_query q" "c \<noteq> CHR ''%''" "c \<noteq> CHR ''_''" "c \<noteq> CHR 0x5C" by (auto simp: plain_query_def)
  with Cons.IH show ?case by (cases s) (auto simp: lower_def)
qed

lemma like_suffix: "like (CHR ''%'' # ps) s \<longleftrightarrow> (\<exists>a t. s = a @ t \<and> like ps t)"
proof (induction s)
  case (Cons c s)
  have "(\<exists>a t. c # s = a @ t \<and> like ps t) \<longleftrightarrow> like ps (c # s) \<or> (\<exists>a t. s = a @ t \<and> like ps t)"
    by (metis append_Cons append_Nil append_eq_Cons_conv)
  with Cons show ?case by simp
qed auto

lemma lower_append_conv: "lower s = a @ b \<longleftrightarrow> (\<exists>x y. s = x @ y \<and> lower x = a \<and> lower y = b)"
  by (auto simp: lower_def map_eq_append_conv)

text \<open>
  For a query without the pattern characters of SQL, a search returns exactly the
  user's live files whose name contains the query as a substring, in either case of the
  letters, in the folder asked for if the scope is one folder.
\<close>

theorem search_is_substring:
  assumes "plain_query q"
  shows "fst (file_search u \<lparr>fsq_q = q, fsq_scope = sc, fsq_folder_id = f\<rparr> w) =
    (if sc = ScopeFolder \<and> \<not> truthy f then Inl (ApiException FOLDER_NOT_FOUND)
     else Inr (map to_file_item (filter (\<lambda>r. fi_user_id r = u \<and> fi_soft_deleted_at r = None \<and>
       (\<exists>a b. lower (fi_name r) = a @ lower q @ b) \<and> (sc = ScopeAll \<or> fi_folder_id r = f)) (files (db w)))))"
proof -
  have "like (''%'' @ q @ ''%'') s \<longleftrightarrow> (\<exists>a b. lower s = a @ lower q @ b)" for s
    using like_prefix [OF assms] by (simp only: append_Cons append_Nil like_suffix lower_append_conv) blast
  then show ?thesis
    by (cases sc) (auto simp: file_search_def file_repo_search_def svc andThen_def intro: filter_cong)
qed

lemma search_is_substring_witness:
  "fst (file_search ''ada'' \<lparr>fsq_q = ''X'', fsq_scope = ScopeAll, fsq_folder_id = None\<rparr> (demo_world (demo_drive None))) =
     Inr [to_file_item (demo_file ''x'' ''ada'' (Some ''g''))]"
proof -
  have low: "lower ''x'' = ''x''" "lower ''X'' = ''x''" by code_simp+
  have "filter (\<lambda>r. fi_user_id r = ''ada'' \<and> fi_soft_deleted_at r = None \<and>
      (\<exists>a b. lower (fi_name r) = a @ lower ''X'' @ b)) (files (demo_drive None)) = [demo_file ''x'' ''ada'' (Some ''g'')]"
    by (simp add: demo_drive_def demo_file_def low) (rule exI [of _ "[]"], simp)
  then show ?thesis
    using search_is_substring [of "''X''" "''ada''" ScopeAll None "demo_world (demo_drive None)"]
    by (simp add: plain_query_def)
qed

subsection \<open>The name of a download\<close>

definition hex_value :: "char \<Rightarrow> nat" where
  "hex_value c = length (takeWhile (\<lambda>d. d \<noteq> c) ''0123456789ABCDEF'')"

fun percent_decode :: "string \<Rightarrow> string" where
  "percent_decode (c # a # b # cs) =
     (if c = CHR ''%'' then char_of (16 * hex_value a + hex_value b) # percent_decode cs
      else c # percent_decode (a # b # cs))"
| "percent_decode (c # cs) = c # percent_decode cs"
| "percent_decode [] = []"

lemma hex_value_digit: "n < 16 \<Longrightarrow> hex_value (hex_digit n) = n"
proof -
  have "\<forall>n\<in>set [0..<16]. hex_value (hex_digit n) = n" by code_simp
  then show "n < 16 \<Longrightarrow> hex_value (hex_digit n) = n" by simp
qed

lemma unat_of_char: "unat (of_char c :: byte) = of_char c"
proof -
  have "unat (of_nat (of_char c) :: byte) = of_char c mod 2 ^ LENGTH(8)" by (rule unat_of_nat)
  then show ?thesis unfolding of_nat_of_char by simp
qed

lemma percent_not_unreserved: "CHR ''%'' \<notin> unreserved_chars"
  by (simp add: unreserved_chars_def)

lemma percent_decode_plain: "c \<noteq> CHR ''%'' \<Longrightarrow> percent_decode (c # cs) = c # percent_decode cs"
  by (cases cs rule: list.exhaust; cases "tl cs") auto

lemma percent_decode_encode: "percent_decode (encode_char c @ r) = c # percent_decode r"
proof (cases "c \<in> unreserved_chars")
  case True
  then have "c \<noteq> CHR ''%''" using percent_not_unreserved by auto
  with True show ?thesis by (simp add: encode_char_def percent_decode_plain)
next
  case False
  have "(of_char c :: nat) < 256" using unsigned_less [of "of_char c :: byte"] by (simp add: unat_of_char)
  then have "hex_value (hex_digit (of_char c div 16)) = of_char c div 16"
    "hex_value (hex_digit (of_char c mod 16)) = of_char c mod 16"
    by (intro hex_value_digit, simp add: less_mult_imp_div_less)+
  then show ?thesis using False by (simp add: encode_char_def hex_upper_def unat_of_char)
qed

lemma encode_uri_component_chars: "set (encode_uri_component s) \<subseteq> unreserved_chars \<union> {CHR ''%''} \<union> hex_chars"
  using hex_upper_chars by (auto simp: encode_uri_component_def encode_char_def split: if_splits)

lemma percent_decode_component: "percent_decode (encode_uri_component s) = s"
proof -
  have "percent_decode (concat (map encode_char s)) = s" by (induction s) (simp_all add: percent_decode_encode)
  then show ?thesis by (simp add: encode_uri_component_def)
qed

text \<open>
  The file name in a download's \<open>Content-Disposition\<close> cannot leave the quotes it stands
  in or start another header: it has letters, digits, unreserved marks and percent signs
  only. The browser that decodes it gets the file's name back.
\<close>

theorem download_name_roundtrip:
  "set (encode_uri_component name) \<subseteq> unreserved_chars \<union> {CHR ''%''} \<union> hex_chars \<and>
   CHR 0x22 \<notin> set (encode_uri_component name) \<and> CHR 0x0A \<notin> set (encode_uri_component name) \<and>
   CHR 0x0D \<notin> set (encode_uri_component name) \<and> percent_decode (encode_uri_component name) = name"
proof -
  have "CHR 0x22 \<notin> unreserved_chars \<union> {CHR ''%''} \<union> hex_chars"
    "CHR 0x0A \<notin> unreserved_chars \<union> {CHR ''%''} \<union> hex_chars"
    "CHR 0x0D \<notin> unreserved_chars \<union> {CHR ''%''} \<union> hex_chars"
    by (simp_all add: unreserved_chars_def hex_chars_def)
  then show ?thesis using encode_uri_component_chars percent_decode_component by blast
qed

end
