(* ===== verification/Drives.thy ===== *)
theory Drives
  imports Uploads
begin

text \<open>
  \<open>drive\<close>, the drives a user mounts, and \<open>storage-agent\<close>, the client of the agent on the
  storage machine that serves them as iSCSI targets.
\<close>

subsection \<open>\<open>drive.repository.ts\<close>\<close>

definition KIND_PRIVATE :: string where "KIND_PRIVATE = ''PRIVATE''"

definition drive_find_personal_by_owner_id :: "uuid \<Rightarrow> drive_row option svc" where
  "drive_find_personal_by_owner_id ownerId =
     query (\<lambda>d. find (\<lambda>r. dr_owner_id r = ownerId \<and> dr_kind r = KIND_PRIVATE) (drives d))"

definition drive_find_by_id :: "uuid \<Rightarrow> drive_row option svc" where
  "drive_find_by_id i = query (\<lambda>d. find (\<lambda>r. dr_id r = i) (drives d))"

definition drive_insert :: "host \<Rightarrow> uuid \<Rightarrow> uuid \<Rightarrow> string \<Rightarrow> string \<Rightarrow> string \<Rightarrow> drive_row svc" where
  "drive_insert H i ownerId name kind mountPath =
     andThen (new_date H) (\<lambda>now.
     andThen (check_unique (\<lambda>d. i \<in> dr_id ` set (drives d)) ''drives_pkey'') (\<lambda>_.
     andThen (check_unique (\<lambda>d. mountPath \<in> dr_mount_path ` set (drives d)) ''drives_mount_path_unique'') (\<lambda>_.
     andThen (check_fk (user_exists ownerId) ''drives_owner_id_users_id_fk'') (\<lambda>_.
     let row = \<lparr>dr_id = i, dr_owner_id = ownerId, dr_name = name, dr_kind = kind, dr_mount_path = mountPath,
                dr_quota_bytes = None, dr_created_at = now, dr_updated_at = now\<rparr> in
     andThen (statement (\<lambda>d. d\<lparr>drives := drives d @ [row]\<rparr>)) (\<lambda>_. ret row)))))"

subsection \<open>\<open>drive.service.ts\<close>\<close>

text \<open>The name of a personal drive in UTF-8; it is Korean for \<open>my drive\<close>.\<close>

definition PERSONAL_DRIVE_NAME :: string where
  "PERSONAL_DRIVE_NAME = map char_of [0xEB, 0x82, 0xB4, 0x20, 0xEB, 0x93, 0x9C, 0xEB, 0x9D, 0xBC,
     0xEC, 0x9D, 0xB4, 0xEB, 0xB8, 0x8C :: nat]"

definition PERSONAL_DRIVE_KIND :: string where "PERSONAL_DRIVE_KIND = ''PRIVATE''"

definition drive_ensure_personal :: "host \<Rightarrow> uuid \<Rightarrow> drive_row svc" where
  "drive_ensure_personal H userId =
     andThen (drive_find_personal_by_owner_id userId) (\<lambda>existing. case existing of
       Some d \<Rightarrow> ret d
     | None \<Rightarrow>
         andThen (random_uuid H) (\<lambda>i.
         andThen (config_or_throw H ''STORAGE_DRIVE_ROOT'') (\<lambda>root.
           run_in_tx H (drive_insert H i userId PERSONAL_DRIVE_NAME PERSONAL_DRIVE_KIND (root @ ''/'' @ i)))))"

definition drive_find_by_id_or_throw :: "uuid \<Rightarrow> uuid \<Rightarrow> drive_row svc" where
  "drive_find_by_id_or_throw driveId userId =
     andThen (drive_find_by_id driveId) (\<lambda>found. case found of
       None \<Rightarrow> throw DRIVE_NOT_FOUND
     | Some drive \<Rightarrow> if dr_owner_id drive \<noteq> userId then throw DRIVE_FORBIDDEN else ret drive)"

subsection \<open>\<open>drive.dto.ts\<close>, \<open>drive.controller.ts\<close>\<close>

record drive_dto =
  dd_id :: uuid
  dd_name :: string
  dd_kind :: string
  dd_mount_path :: string
  dd_created_at :: millis

definition to_drive_dto :: "drive_row \<Rightarrow> drive_dto" where
  "to_drive_dto r = \<lparr>dd_id = dr_id r, dd_name = dr_name r, dd_kind = dr_kind r, dd_mount_path = dr_mount_path r,
     dd_created_at = dr_created_at r\<rparr>"

definition drive_controller_get_my_drive :: "host \<Rightarrow> auth_user \<Rightarrow> drive_dto svc" where
  "drive_controller_get_my_drive H user =
     andThen (drive_ensure_personal H (aus_user_id user)) (\<lambda>drive. ret (to_drive_dto drive))"

definition drive_controller_get_drive :: "auth_user \<Rightarrow> uuid \<Rightarrow> drive_dto svc" where
  "drive_controller_get_drive user i =
     andThen (drive_find_by_id_or_throw i (aus_user_id user)) (\<lambda>drive. ret (to_drive_dto drive))"

subsection \<open>\<open>storage-agent.client.ts\<close>\<close>

definition TARGET_NOT_FOUND :: string where "TARGET_NOT_FOUND = ''TARGET_NOT_FOUND''"
definition TARGET_CONFLICT :: string where "TARGET_CONFLICT = ''TARGET_CONFLICT''"

text \<open>A request that gets no reply at all, or none within ten seconds, is the agent's being unavailable.\<close>

definition agent_send :: "host \<Rightarrow> agent_method \<Rightarrow> agent_reply svc" where
  "agent_send H m =
     catching (call H (\<lambda>cs t. h_agent H cs t m) (AgentRequest m)) (\<lambda>_. throw STORAGE_AGENT_UNAVAILABLE)"

definition throw_for_response :: "agent_reply \<Rightarrow> 'a svc" where
  "throw_for_response res =
     (if ag_status res = 404 \<or> ag_error_code res = Some TARGET_NOT_FOUND then throw STORAGE_AGENT_TARGET_NOT_FOUND
      else if ag_status res = 409 \<or> ag_error_code res = Some TARGET_CONFLICT then throw STORAGE_AGENT_TARGET_CONFLICT
      else throw STORAGE_AGENT_INTERNAL)"

definition expect_data :: "agent_reply \<Rightarrow> nat \<Rightarrow> agent_data svc" where
  "expect_data res expected = (if ag_status res = expected then ret (ag_data res) else throw_for_response res)"

definition target_url :: "string \<Rightarrow> string" where
  "target_url iqn = ''/v1/targets/'' @ encode_uri_component iqn"

definition agent_create_target :: "host \<Rightarrow> create_target_request \<Rightarrow> agent_data svc" where
  "agent_create_target H req = andThen (agent_send H (AgentPost req)) (\<lambda>res. expect_data res 201)"

definition agent_get_target_status :: "host \<Rightarrow> string \<Rightarrow> agent_data svc" where
  "agent_get_target_status H iqn = andThen (agent_send H (AgentGet (target_url iqn))) (\<lambda>res. expect_data res 200)"

definition agent_delete_target :: "host \<Rightarrow> string \<Rightarrow> unit svc" where
  "agent_delete_target H iqn =
     andThen (agent_send H (AgentDelete (target_url iqn))) (\<lambda>res.
       if ag_status res = 204 then ret () else throw_for_response res)"

end
