(* ===== verification/Mounts.thy ===== *)
theory Mounts
  imports Drives
begin

text \<open>
  \<open>mount-credential\<close>: credentials for mounting a drive over iSCSI. Issuing one writes its
  secret to a file, adds a row and creates the target on the storage agent, and undoes what
  it did if a later step fails; the answer holds a PowerShell script that mounts the drive.
\<close>

subsection \<open>Library functions the component uses\<close>

text \<open>\<open>buf.toString('base64url')\<close>: no padding.\<close>

definition base64url_char :: "nat \<Rightarrow> char" where
  "base64url_char i = ''ABCDEFGHIJKLMNOPQRSTUVWXYZabcdefghijklmnopqrstuvwxyz0123456789-_'' ! (i mod 64)"

fun base64url :: "byte list \<Rightarrow> string" where
  "base64url [] = []"
| "base64url [a] = [base64url_char (unat a div 4), base64url_char (unat a mod 4 * 16)]"
| "base64url [a, b] = [base64url_char (unat a div 4), base64url_char (unat a mod 4 * 16 + unat b div 16),
     base64url_char (unat b mod 16 * 4)]"
| "base64url (a # b # c # bs) = base64url_char (unat a div 4) # base64url_char (unat a mod 4 * 16 + unat b div 16) #
     base64url_char (unat b mod 16 * 4 + unat c div 64) # base64url_char (unat c mod 64) # base64url bs"

text \<open>\<open>parseInt(s, 10)\<close>: \<open>None\<close> is \<open>NaN\<close>.\<close>

definition parse_int :: "string \<Rightarrow> int option" where
  "parse_int s =
     (let t = dropWhile is_space s;
          neg = (t \<noteq> [] \<and> hd t = CHR ''-'');
          u = (if t \<noteq> [] \<and> (hd t = CHR ''-'' \<or> hd t = CHR ''+'') then tl t else t);
          ds = takeWhile (\<lambda>c. c \<in> digit_chars) u
      in if ds = [] then None else Some (if neg then - int (string_to_nat ds) else int (string_to_nat ds)))"

definition number_text :: "int option \<Rightarrow> string" where
  "number_text n = (case n of None \<Rightarrow> ''NaN'' | Some i \<Rightarrow> int_to_string i)"

text \<open>\<open>date.toISOString()\<close> on the proleptic Gregorian calendar.\<close>

definition pad :: "nat \<Rightarrow> int \<Rightarrow> string" where
  "pad n i = (let s = nat_to_string (nat i) in replicate (n - length s) CHR ''0'' @ s)"

definition civil_of_days :: "int \<Rightarrow> int \<times> int \<times> int" where
  "civil_of_days days =
     (let z = days + 719468; era = z div 146097; doe = z mod 146097;
          yoe = (doe - doe div 1460 + doe div 36524 - doe div 146096) div 365;
          doy = doe - (365 * yoe + yoe div 4 - yoe div 100);
          mp = (5 * doy + 2) div 153;
          m = (if mp < 10 then mp + 3 else mp - 9);
          y = yoe + era * 400 + (if m \<le> 2 then 1 else 0)
      in (y, m, doy - (153 * mp + 2) div 5 + 1))"

definition iso_string :: "millis \<Rightarrow> string" where
  "iso_string t =
     (case civil_of_days (t div 86400000) of (y, m, d) \<Rightarrow>
      let ms = t mod 86400000;
          year = (if 0 \<le> y \<and> y \<le> 9999 then pad 4 y
                  else (if y < 0 then CHR ''-'' else CHR ''+'') # pad 6 \<bar>y\<bar>)
      in year @ ''-'' @ pad 2 m @ ''-'' @ pad 2 d @ ''T'' @ pad 2 (ms div 3600000) @ '':'' @
         pad 2 (ms div 60000 mod 60) @ '':'' @ pad 2 (ms div 1000 mod 60) @ ''.'' @ pad 3 (ms mod 1000) @ ''Z'')"

text \<open>\<open>s.replace(/c/g, t)\<close> for one character.\<close>

definition replace_char :: "char \<Rightarrow> string \<Rightarrow> string \<Rightarrow> string" where
  "replace_char c t s = concat (map (\<lambda>x. if x = c then t else [x]) s)"

subsection \<open>\<open>script-template.ts\<close>\<close>

abbreviation dquote :: char where "dquote \<equiv> CHR 0x22"
abbreviation squote :: char where "squote \<equiv> CHR 0x27"
abbreviation backtick :: char where "backtick \<equiv> CHR 0x60"
abbreviation crlf :: string where "crlf \<equiv> [CHR 0x0D, CHR 0x0A]"

definition escape_pwsh :: "string \<Rightarrow> string" where
  "escape_pwsh value =
     replace_char dquote [backtick, dquote]
       (replace_char CHR ''$'' (backtick # ''$'') (replace_char backtick [backtick, backtick] value))"

record mount_script_args =
  ms_portal_host :: string
  ms_portal_port :: "int option"
  ms_iqn :: string
  ms_chap_username :: string
  ms_chap_password :: string
  ms_drive_name :: string
  ms_issued_at :: millis

definition quoted :: "string \<Rightarrow> string" where
  "quoted v = dquote # escape_pwsh v @ [dquote]"

definition render_mount_script :: "mount_script_args \<Rightarrow> string" where
  "render_mount_script a =
     join_with crlf [
       ''# Terab iSCSI mount script'',
       ''# Drive: '' @ escape_pwsh (ms_drive_name a),
       ''# Issued: '' @ iso_string (ms_issued_at a),
       [],
       ''Set-Service -Name MSiSCSI -StartupType Automatic'',
       ''Start-Service MSiSCSI'',
       [],
       ''New-IscsiTargetPortal -TargetPortalAddress '' @ quoted (ms_portal_host a) @
         '' -TargetPortalPortNumber '' @ number_text (ms_portal_port a),
       [],
       ''Connect-IscsiTarget '' @ [backtick] @ crlf @
         ''  -NodeAddress '' @ quoted (ms_iqn a) @ '' '' @ [backtick] @ crlf @
         ''  -IsPersistent $true '' @ [backtick] @ crlf @
         ''  -AuthenticationType ONEWAYCHAP '' @ [backtick] @ crlf @
         ''  -ChapUsername '' @ quoted (ms_chap_username a) @ '' '' @ [backtick] @ crlf @
         ''  -ChapSecret '' @ quoted (ms_chap_password a),
       [],
       ''Get-Disk | Where-Object { $_.OperationalStatus -eq '' @ [squote] @ ''Offline'' @ [squote] @
         '' } | Set-Disk -IsOffline $false''] @ crlf"

subsection \<open>\<open>secret-store.ts\<close>\<close>

text \<open>The files lie in one directory; a name that could leave it is refused.\<close>

definition resolve_path :: "string \<Rightarrow> unit svc" where
  "resolve_path name =
     (if contains_text name ''/'' \<or> contains_text name [CHR 0x5C] \<or> contains_text name ''..''
      then throw MOUNT_CREDENTIAL_SECRET_WRITE_FAILED else ret ())"

definition secret_write :: "host \<Rightarrow> string \<Rightarrow> string \<Rightarrow> string svc" where
  "secret_write H name val =
     andThen (resolve_path name) (\<lambda>_.
       catching (andThen (call_unit H (SecretWrite name val)) (\<lambda>_. ret name))
         (\<lambda>_. throw MOUNT_CREDENTIAL_SECRET_WRITE_FAILED))"

definition secret_remove :: "host \<Rightarrow> string \<Rightarrow> unit svc" where
  "secret_remove H name =
     andThen (resolve_path name) (\<lambda>_. catching (call_unit H (SecretRemove name)) (\<lambda>_. ret ()))"

subsection \<open>\<open>mount-credential.repository.ts\<close>\<close>

definition mount_find_active_by_user_id :: "uuid \<Rightarrow> mount_credential_row list svc" where
  "mount_find_active_by_user_id userId =
     query (\<lambda>d. filter (\<lambda>r. mc_user_id r = userId \<and> mc_revoked_at r = None) (mount_credentials d))"

definition mount_find_active_by_drive_and_protocol :: "uuid \<Rightarrow> uuid \<Rightarrow> string \<Rightarrow> mount_credential_row option svc" where
  "mount_find_active_by_drive_and_protocol driveId userId protocol =
     query (\<lambda>d. find (\<lambda>r. mc_drive_id r = driveId \<and> mc_user_id r = userId \<and> mc_protocol r = protocol \<and>
       mc_revoked_at r = None) (mount_credentials d))"

definition mount_find_by_id_and_user_id :: "uuid \<Rightarrow> uuid \<Rightarrow> mount_credential_row option svc" where
  "mount_find_by_id_and_user_id i userId =
     query (\<lambda>d. find (\<lambda>r. mc_id r = i \<and> mc_user_id r = userId) (mount_credentials d))"

definition mount_insert_issued ::
    "host \<Rightarrow> uuid \<Rightarrow> uuid \<Rightarrow> string \<Rightarrow> string \<Rightarrow> string \<Rightarrow> string option \<Rightarrow> mount_credential_row svc" where
  "mount_insert_issued H driveId userId protocol osUsername secretRef iqn =
     andThen (random_uuid H) (\<lambda>i.
     andThen (new_date H) (\<lambda>now.
     andThen (check_unique (\<lambda>d. i \<in> mc_id ` set (mount_credentials d)) ''mount_credentials_pkey'') (\<lambda>_.
     andThen (check_unique (\<lambda>d. (driveId, userId, protocol) \<in> set (active_mount_keys (mount_credentials d)))
        ''mount_credentials_active_unique'') (\<lambda>_.
     andThen (check_fk (\<lambda>d. driveId \<in> dr_id ` set (drives d)) ''mount_credentials_drive_id_drives_id_fk'') (\<lambda>_.
     andThen (check_fk (user_exists userId) ''mount_credentials_user_id_users_id_fk'') (\<lambda>_.
     let row = \<lparr>mc_id = i, mc_drive_id = driveId, mc_user_id = userId, mc_protocol = protocol, mc_os_username = osUsername,
                mc_secret_ref = secretRef, mc_iqn = iqn, mc_last_used_at = None, mc_revoked_at = None,
                mc_created_at = now, mc_updated_at = now\<rparr> in
     andThen (statement (\<lambda>d. d\<lparr>mount_credentials := mount_credentials d @ [row]\<rparr>)) (\<lambda>_. ret row)))))))"

definition mount_soft_revoke :: "uuid \<Rightarrow> millis \<Rightarrow> unit svc" where
  "mount_soft_revoke i now =
     statement (\<lambda>d. d\<lparr>mount_credentials := update_where (\<lambda>r. mc_id r = i)
       (\<lambda>r. r\<lparr>mc_revoked_at := Some now, mc_updated_at := now\<rparr>) (mount_credentials d)\<rparr>)"

subsection \<open>Bodies and responses\<close>

record portal =
  po_host :: string
  po_port :: "int option"

record mount_credential_dto =
  md_id :: uuid
  md_drive_id :: uuid
  md_protocol :: string
  md_os_username :: string
  md_iqn :: "string option"
  md_portal_host :: string
  md_portal_port :: "int option"
  md_created_at :: millis

definition to_mount_credential_dto :: "mount_credential_row \<Rightarrow> portal \<Rightarrow> mount_credential_dto" where
  "to_mount_credential_dto row p = \<lparr>md_id = mc_id row, md_drive_id = mc_drive_id row, md_protocol = mc_protocol row,
     md_os_username = mc_os_username row, md_iqn = mc_iqn row, md_portal_host = po_host p, md_portal_port = po_port p,
     md_created_at = mc_created_at row\<rparr>"

record issue_response =
  is_credential :: mount_credential_dto
  is_password :: string
  is_script :: string

definition issue_body_valid :: "uuid option \<Rightarrow> bool" where
  "issue_body_valid driveId \<longleftrightarrow> (case driveId of None \<Rightarrow> True | Some i \<Rightarrow> is_uuid i)"

subsection \<open>\<open>mount-credential.service.ts\<close>\<close>

definition PROTOCOL_ISCSI :: string where "PROTOCOL_ISCSI = ''iscsi''"
definition IQN_PREFIX :: string where "IQN_PREFIX = ''iqn.2026-05.com.terab''"
definition SECRET_PREFIX :: string where "SECRET_PREFIX = ''mount-cred-''"
definition ACTIVE_UNIQUE_CONSTRAINT :: string where "ACTIVE_UNIQUE_CONSTRAINT = ''mount_credentials_active_unique''"
definition PG_UNIQUE_VIOLATION :: string where "PG_UNIQUE_VIOLATION = ''23505''"

definition is_active_unique_violation :: "fault \<Rightarrow> bool" where
  "is_active_unique_violation err = (case err of
     PgError code con \<Rightarrow> code = PG_UNIQUE_VIOLATION \<and> con = ACTIVE_UNIQUE_CONSTRAINT
   | _ \<Rightarrow> False)"

definition portal_of :: "host \<Rightarrow> portal svc" where
  "portal_of H =
     andThen (config_or_throw H ''STORAGE_AGENT_PORTAL_HOST'') (\<lambda>h.
     andThen (config_or_throw H ''STORAGE_AGENT_PORTAL_PORT'') (\<lambda>p.
       ret \<lparr>po_host = h, po_port = parse_int p\<rparr>))"

text \<open>The first two statements of the transaction, after which \<open>targetCreated\<close> is set, and the rest of it.\<close>

definition issue_target :: "host \<Rightarrow> uuid \<Rightarrow> drive_row \<Rightarrow> string \<Rightarrow> string \<Rightarrow> string \<Rightarrow> mount_credential_row svc" where
  "issue_target H userId drive secretRef password iqn =
     andThen (mount_insert_issued H (dr_id drive) userId PROTOCOL_ISCSI secretRef secretRef (Some iqn)) (\<lambda>row.
     andThen (agent_create_target H \<lparr>ct_iqn = iqn, ct_name = dr_name drive, ct_os_username = secretRef,
        ct_os_password = password\<rparr>) (\<lambda>_. ret row))"

definition issue_answer :: "host \<Rightarrow> drive_row \<Rightarrow> string \<Rightarrow> string \<Rightarrow> string \<Rightarrow> mount_credential_row \<Rightarrow> issue_response svc" where
  "issue_answer H drive secretRef password iqn row =
     andThen (portal_of H) (\<lambda>p.
       ret \<lparr>is_credential = to_mount_credential_dto row p, is_password = password,
            is_script = render_mount_script \<lparr>ms_portal_host = po_host p, ms_portal_port = po_port p, ms_iqn = iqn,
              ms_chap_username = secretRef, ms_chap_password = password, ms_drive_name = dr_name drive,
              ms_issued_at = mc_created_at row\<rparr>\<rparr>)"

text \<open>
  The variable \<open>targetCreated\<close> the \<open>catch\<close> reads: it is set exactly when the first two
  statements of the transaction have succeeded.
\<close>

definition target_created :: "'a svc \<Rightarrow> world \<Rightarrow> bool" where
  "target_created m w = (case m (w\<lparr>in_tx := True\<rparr>) of (Inl _, _) \<Rightarrow> False | (Inr _, _) \<Rightarrow> True)"

definition issue_rollback :: "host \<Rightarrow> bool \<Rightarrow> string \<Rightarrow> string \<Rightarrow> fault \<Rightarrow> issue_response svc" where
  "issue_rollback H targetCreated secretRef iqn err =
     (if is_active_unique_violation err
      then andThen (secret_remove H secretRef) (\<lambda>_. throw MOUNT_CREDENTIAL_DUPLICATE_PROTOCOL)
      else andThen (if targetCreated then catching (agent_delete_target H iqn) (\<lambda>_. ret ()) else ret ()) (\<lambda>_.
           andThen (secret_remove H secretRef) (\<lambda>_. raise err)))"

definition issue_guarded :: "host \<Rightarrow> uuid \<Rightarrow> drive_row \<Rightarrow> string \<Rightarrow> string \<Rightarrow> string \<Rightarrow> issue_response svc" where
  "issue_guarded H userId drive secretRef password iqn w =
     (let targetCreated = target_created (issue_target H userId drive secretRef password iqn) w in
      catching (run_in_tx H (andThen (issue_target H userId drive secretRef password iqn)
          (issue_answer H drive secretRef password iqn)))
        (issue_rollback H targetCreated secretRef iqn) w)"

definition mount_issue :: "host \<Rightarrow> uuid \<Rightarrow> uuid option \<Rightarrow> issue_response svc" where
  "mount_issue H userId driveId =
     andThen (if truthy driveId then drive_find_by_id_or_throw (the driveId) userId
              else drive_ensure_personal H userId) (\<lambda>drive.
     andThen (mount_find_active_by_drive_and_protocol (dr_id drive) userId PROTOCOL_ISCSI) (\<lambda>existing.
     if existing \<noteq> None then throw MOUNT_CREDENTIAL_DUPLICATE_PROTOCOL
     else andThen (random_uuid H) (\<lambda>u.
       let secretRef = SECRET_PREFIX @ u in
       andThen (random_bytes H 16) (\<lambda>bytes.
       let password = base64url bytes; iqn = IQN_PREFIX @ '':'' @ dr_id drive in
       andThen (secret_write H secretRef password) (\<lambda>_. issue_guarded H userId drive secretRef password iqn)))))"

definition mount_revoke :: "host \<Rightarrow> uuid \<Rightarrow> uuid \<Rightarrow> unit svc" where
  "mount_revoke H userId credentialId =
     andThen (mount_find_by_id_and_user_id credentialId userId) (\<lambda>found. case found of
       None \<Rightarrow> throw MOUNT_CREDENTIAL_NOT_FOUND
     | Some row \<Rightarrow>
         if mc_revoked_at row \<noteq> None then throw MOUNT_CREDENTIAL_REVOKED
         else andThen (if truthy (mc_iqn row)
             then catching (agent_delete_target H (the (mc_iqn row)))
               (\<lambda>err. if err = ApiException STORAGE_AGENT_TARGET_NOT_FOUND then ret () else raise err)
             else ret ()) (\<lambda>_.
           andThen (secret_remove H (mc_secret_ref row)) (\<lambda>_.
           andThen (new_date H) (\<lambda>now. mount_soft_revoke (mc_id row) now))))"

definition mount_list_active :: "host \<Rightarrow> uuid \<Rightarrow> mount_credential_dto list svc" where
  "mount_list_active H userId =
     andThen (mount_find_active_by_user_id userId) (\<lambda>rows.
     andThen (portal_of H) (\<lambda>p. ret (map (\<lambda>row. to_mount_credential_dto row p) rows)))"

subsection \<open>\<open>mount-credential.controller.ts\<close>\<close>

definition mount_controller_issue :: "host \<Rightarrow> auth_user \<Rightarrow> uuid option \<Rightarrow> issue_response svc" where
  "mount_controller_issue H user driveId = mount_issue H (aus_user_id user) driveId"

definition mount_controller_list :: "host \<Rightarrow> auth_user \<Rightarrow> mount_credential_dto list svc" where
  "mount_controller_list H user = mount_list_active H (aus_user_id user)"

definition mount_controller_revoke :: "host \<Rightarrow> auth_user \<Rightarrow> uuid \<Rightarrow> unit svc" where
  "mount_controller_revoke H user i = mount_revoke H (aus_user_id user) i"

end
