(* ===== verification/MountProps.thy ===== *)
theory MountProps
  imports Mounts
begin

text \<open>
  Properties of mount credentials: a failed issue undoes what it did, no two credentials
  of a drive are active at once, and the mount script hands its values to PowerShell intact.
\<close>

subsection \<open>The script\<close>

text \<open>
  How PowerShell reads an expandable string after its opening quote: a backtick takes the
  next character as it is (letters that name control characters apart), a doubled quote is
  a quote, a single one ends the string, and a dollar sign starts an expansion, which is no
  plain value.
\<close>

fun pwsh_read :: "string \<Rightarrow> (string \<times> string) option" where
  "pwsh_read [] = None"
| "pwsh_read [c] = (if c = dquote then Some ([], []) else None)"
| "pwsh_read (c # d # ds) =
     (if c = dquote
      then (if d = dquote then map_option (apfst (Cons dquote)) (pwsh_read ds) else Some ([], d # ds))
      else if c = backtick
      then (if d \<in> set ''0abefnrtuv'' then None else map_option (apfst (Cons d)) (pwsh_read ds))
      else if c = CHR ''$'' then None
      else map_option (apfst (Cons c)) (pwsh_read (d # ds)))"

definition escape_pwsh_char :: "char \<Rightarrow> string" where
  "escape_pwsh_char c = (if c \<in> {backtick, CHR ''$'', dquote} then [backtick, c] else [c])"

lemma escape_pwsh_map: "escape_pwsh v = concat (map escape_pwsh_char v)"
proof (induction v)
  case Nil
  then show ?case by (simp add: escape_pwsh_def replace_char_def)
next
  case (Cons c v)
  have "escape_pwsh (c # v) = escape_pwsh_char c @ escape_pwsh v"
    by (simp add: escape_pwsh_def replace_char_def escape_pwsh_char_def)
  with Cons show ?case by simp
qed

lemma pwsh_read_plain:
  "c \<notin> {dquote, backtick, CHR ''$''} \<Longrightarrow> s \<noteq> [] \<Longrightarrow> pwsh_read (c # s) = map_option (apfst (Cons c)) (pwsh_read s)"
  by (cases s) simp_all

lemma pwsh_read_escaped:
  assumes "rest = [] \<or> hd rest \<noteq> dquote"
  shows "pwsh_read (escape_pwsh v @ dquote # rest) = Some (v, rest)"
proof (induction v)
  case Nil
  show ?case using assms by (cases rest) (auto simp: escape_pwsh_map)
next
  case (Cons c v)
  have step: "pwsh_read (escape_pwsh_char c @ s) = map_option (apfst (Cons c)) (pwsh_read s)" if "s \<noteq> []" for s
    using that by (auto simp: escape_pwsh_char_def pwsh_read_plain)
  with Cons show ?case by (simp add: escape_pwsh_map)
qed

definition reads_after :: "string \<Rightarrow> string \<Rightarrow> string \<Rightarrow> bool" where
  "reads_after script marker v \<longleftrightarrow>
     (\<exists>pre rest rest'. script = pre @ marker @ dquote # rest \<and> pwsh_read rest = Some (v, rest'))"

lemma reads_afterI:
  assumes "script = pre @ marker @ quoted v @ rest" and "rest = [] \<or> hd rest \<noteq> dquote"
  shows "reads_after script marker v"
proof -
  have "pwsh_read (escape_pwsh v @ dquote # rest) = Some (v, rest)" by (rule pwsh_read_escaped [OF assms(2)])
  with assms(1) show ?thesis unfolding reads_after_def quoted_def by fastforce
qed


subsection \<open>Issuing\<close>

text \<open>
  Whether the calls made since a point undo each other: a secret that was written is
  removed by a later call, and a target the agent accepted is deleted by a later one. The
  calls are listed newest first; \<open>n\<close> is the number of them to look at.
\<close>

fun undone :: "host \<Rightarrow> ext_call set \<Rightarrow> nat \<Rightarrow> calls \<Rightarrow> bool" where
  "undone H later 0 cs = True"
| "undone H later (Suc n) [] = True"
| "undone H later (Suc n) ((t, e) # cs) =
     ((case e of
         SecretWrite s p \<Rightarrow> h_unit H cs t e = Inr () \<longrightarrow> SecretRemove s \<in> later
       | AgentRequest (AgentPost req) \<Rightarrow>
           (\<exists>r. h_agent H cs t (AgentPost req) = Inr r \<and> ag_status r = 201) \<longrightarrow>
             AgentRequest (AgentDelete (target_url (ct_iqn req))) \<in> later
       | _ \<Rightarrow> True) \<and> undone H (insert e later) n cs)"

lemma wp_then_random_bytes [wp_then]:
  "wp (andThen (random_bytes H n) f) Q w = wp (f (h_random_bytes H (draws w) n)) Q (w\<lparr>draws := Suc (draws w)\<rparr>)"
  by (simp add: wp_andThen wp_draw)

text \<open>Unique violations are raised by the statement, never by the commit: the index is not deferrable.\<close>

definition commit_law :: "host \<Rightarrow> bool" where
  "commit_law H \<longleftrightarrow> (\<forall>cs e. h_commit H cs = Some e \<longrightarrow> \<not> is_active_unique_violation e)"

abbreviation accepted :: "host \<Rightarrow> calls \<Rightarrow> millis \<Rightarrow> create_target_request \<Rightarrow> bool" where
  "accepted H cs t req \<equiv> \<exists>r. h_agent H cs t (AgentPost req) = Inr r \<and> ag_status r = 201"

lemma violation_simps [simp]:
  "\<not> is_active_unique_violation (ApiException c)" "\<not> is_active_unique_violation (RawError m)"
  by (simp_all add: is_active_unique_violation_def)

definition response_code :: "agent_reply \<Rightarrow> error_code" where
  "response_code res =
     (if ag_status res = 404 \<or> ag_error_code res = Some TARGET_NOT_FOUND then STORAGE_AGENT_TARGET_NOT_FOUND
      else if ag_status res = 409 \<or> ag_error_code res = Some TARGET_CONFLICT then STORAGE_AGENT_TARGET_CONFLICT
      else STORAGE_AGENT_INTERNAL)"

lemma throw_for_response_run: "throw_for_response res w = (Inl (ApiException (response_code res)), w)"
  by (simp add: throw_for_response_def response_code_def svc_run)

lemma agent_create_target_run:
  "snd (agent_create_target H req w) = stamp H (AgentRequest (AgentPost req)) w \<and>
     (if accepted H (calls w) (h_clock H (draws w)) req then \<exists>x. fst (agent_create_target H req w) = Inr x
      else \<exists>c. fst (agent_create_target H req w) = Inl (ApiException c))"
proof -
  let ?w = "stamp H (AgentRequest (AgentPost req)) w"
  show ?thesis
  proof (cases "h_agent H (calls w) (h_clock H (draws w)) (AgentPost req)")
    case (Inl e)
    then show ?thesis by (simp add: agent_create_target_def agent_send_def andThen_def catching_def svc_run call_run)
  next
    case (Inr r)
    then show ?thesis
      by (simp add: agent_create_target_def agent_send_def expect_data_def andThen_def catching_def svc_run call_run
          throw_for_response_run)
  qed
qed

lemma agent_delete_target_calls:
  "\<exists>t. calls (snd (agent_delete_target H iqn w)) = (t, AgentRequest (AgentDelete (target_url iqn))) # calls w"
  "db (snd (agent_delete_target H iqn w)) = db w"
proof -
  let ?w = "stamp H (AgentRequest (AgentDelete (target_url iqn))) w"
  have "snd (agent_delete_target H iqn w) = ?w"
  proof (cases "h_agent H (calls w) (h_clock H (draws w)) (AgentDelete (target_url iqn))")
    case (Inl e)
    then show ?thesis by (simp add: agent_delete_target_def agent_send_def andThen_def catching_def svc_run call_run)
  next
    case (Inr r)
    then show ?thesis
      by (simp add: agent_delete_target_def agent_send_def andThen_def catching_def svc_run call_run throw_for_response_run)
  qed
  then show "\<exists>t. calls (snd (agent_delete_target H iqn w)) = (t, AgentRequest (AgentDelete (target_url iqn))) # calls w"
    "db (snd (agent_delete_target H iqn w)) = db w" by simp_all
qed

lemma secret_remove_run:
  assumes "\<not> contains_text name ''/'' \<and> \<not> contains_text name [CHR 0x5C] \<and> \<not> contains_text name ''..''"
  shows "secret_remove H name w = (Inr (), stamp H (SecretRemove name) w)"
  using assms by (cases "h_unit H (calls w) (h_clock H (draws w)) (SecretRemove name)")
    (simp_all add: secret_remove_def resolve_path_def andThen_def catching_def svc_run call_run)

text \<open>The transaction's first two statements: only a new target reaches the agent, and only after the row.\<close>

lemma mount_insert_issued_run:
  "wp (mount_insert_issued H d u p n r i) (\<lambda>res v. calls v = calls w \<and> (\<forall>e. res = Inl e \<longrightarrow> db v = db w)) w"
  by (simp add: mount_insert_issued_def wp Let_def)

definition target_request :: "drive_row \<Rightarrow> string \<Rightarrow> string \<Rightarrow> string \<Rightarrow> create_target_request" where
  "target_request drive secretRef password iqn =
     \<lparr>ct_iqn = iqn, ct_name = dr_name drive, ct_os_username = secretRef, ct_os_password = password\<rparr>"

definition target_outcome :: "host \<Rightarrow> world \<Rightarrow> create_target_request \<Rightarrow> fault + mount_credential_row \<Rightarrow> world \<Rightarrow> bool" where
  "target_outcome H w req res v \<longleftrightarrow> (case res of
     Inl e \<Rightarrow> calls v = calls w \<or>
       (\<not> is_active_unique_violation e \<and> (\<exists>t. calls v = (t, AgentRequest (AgentPost req)) # calls w \<and> \<not> accepted H (calls w) t req))
   | Inr row \<Rightarrow> \<exists>t. calls v = (t, AgentRequest (AgentPost req)) # calls w)"

lemma issue_target_calls:
  "wp (issue_target H u drive secretRef password iqn) (target_outcome H w (target_request drive secretRef password iqn)) w"
  unfolding issue_target_def target_request_def [symmetric]
proof (rule wp_step [OF mount_insert_issued_run])
  fix row :: mount_credential_row and v :: world
  let ?req = "target_request drive secretRef password iqn"
  assume v: "calls v = calls w \<and> (\<forall>e. Inr row = Inl e \<longrightarrow> db v = db w)"
  have create: "wp (agent_create_target H ?req) (\<lambda>res v'. calls v' = (h_clock H (draws v), AgentRequest (AgentPost ?req)) # calls w \<and>
      (\<forall>e. res = Inl e \<longrightarrow> \<not> is_active_unique_violation e \<and> \<not> accepted H (calls w) (h_clock H (draws v)) ?req)) v"
    using agent_create_target_run [of H ?req v] v by (auto simp: wp_def split: prod.splits if_splits)
  show "wp (andThen (agent_create_target H ?req) (\<lambda>_. ret row)) (target_outcome H w ?req) v"
    by (rule wp_step [OF create]) (auto simp: wp_primitive target_outcome_def)
qed (simp add: target_outcome_def)

definition safe_name :: "string \<Rightarrow> bool" where
  "safe_name name \<longleftrightarrow> \<not> contains_text name ''/'' \<and> \<not> contains_text name [CHR 0x5C] \<and> \<not> contains_text name ''..''"

lemma issue_rollback_run:
  assumes "safe_name s" and "issue_rollback H tc s iqn e w = (r, w')"
  shows "db w' = db w \<and> (\<exists>t. calls w' = (t, SecretRemove s) # calls w \<and> (is_active_unique_violation e \<or> \<not> tc) \<or>
    (\<exists>t'. calls w' = (t, SecretRemove s) # (t', AgentRequest (AgentDelete (target_url iqn))) # calls w))"
proof (cases "is_active_unique_violation e \<or> \<not> tc")
  case True
  have "secret_remove H s w = (Inr (), stamp H (SecretRemove s) w)" for w
    using assms(1) by (simp add: secret_remove_run safe_name_def)
  with True assms(2) show ?thesis by (auto simp: issue_rollback_def andThen_def svc_run split: if_splits)
next
  case False
  obtain rd wd where del: "agent_delete_target H iqn w = (rd, wd)" by fastforce
  with agent_delete_target_calls [of H iqn w] obtain t' where
    wd: "calls wd = (t', AgentRequest (AgentDelete (target_url iqn))) # calls w" "db wd = db w" by auto
  have "secret_remove H s w = (Inr (), stamp H (SecretRemove s) w)" for w
    using assms(1) by (simp add: secret_remove_run safe_name_def)
  with False assms(2) del wd show ?thesis
    by (cases rd) (auto simp: issue_rollback_def andThen_def catching_def svc_run)
qed

lemma issue_answer_run: "snd (issue_answer H drive s p iqn row w) = w \<and>
    (\<forall>e. fst (issue_answer H drive s p iqn row w) = Inl e \<longrightarrow> \<not> is_active_unique_violation e)"
  by (auto simp: issue_answer_def portal_of_def andThen_def svc_run config_run split: option.split)

lemma issue_guarded_failed:
  assumes "commit_law H" and "safe_name s" and "\<not> in_tx w" and "issue_guarded H u drive s p iqn w = (Inl e', w')"
  shows "db w' = db w \<and> (\<exists>later. calls w' = later @ calls w \<and> SecretRemove s \<in> snd ` set later \<and>
    undone H {} (length later) (calls w'))"
proof -
  let ?w1 = "w\<lparr>in_tx := True\<rparr>" and ?T = "issue_target H u drive s p iqn" and ?A = "issue_answer H drive s p iqn"
  let ?req = "target_request drive s p iqn"
  have iqn: "ct_iqn ?req = iqn" by (simp add: target_request_def)
  obtain rT v1 where T: "?T ?w1 = (rT, v1)" by fastforce
  have out: "target_outcome H ?w1 ?req rT v1" by (rule wp_use [OF T issue_target_calls])
  from assms(4) obtain e v where tx: "run_in_tx H (andThen ?T ?A) w = (Inl e, v)"
    and undo: "issue_rollback H (target_created ?T w) s iqn e v = (Inl e', w')"
    by (auto simp: issue_guarded_def catching_def Let_def split: prod.splits sum.splits)
  have dbv: "db v = db w" by (rule run_in_tx_rollback [OF tx assms(3)])
  from tx obtain r v2 where body: "andThen ?T ?A ?w1 = (r, v2)" "calls v = calls v2"
    "r = Inl e \<or> h_commit H (calls v2) = Some e" by (elim run_in_tx_Inl) auto
  have later: "(calls v = calls w) \<or> (\<not> is_active_unique_violation e \<and> (\<exists>t. calls v = (t, AgentRequest (AgentPost ?req)) # calls w \<and>
      (target_created ?T w \<or> \<not> accepted H (calls w) t ?req)))"
  proof (cases rT)
    case (Inl e1)
    with T body(1) have "r = Inl e1" "v2 = v1" by (simp_all add: andThen_def)
    with body out Inl assms(1) show ?thesis by (auto simp: target_outcome_def commit_law_def)
  next
    case (Inr row)
    then have tc: "target_created ?T w" using T by (simp add: target_created_def)
    have "andThen ?T ?A ?w1 = ?A row v1" using T Inr by (simp add: andThen_def)
    with issue_answer_run [of H drive s p iqn row v1] body(1) have "v2 = v1" "\<forall>x. r = Inl x \<longrightarrow> \<not> is_active_unique_violation x"
      by auto
    with body assms(1) out Inr tc show ?thesis by (auto simp: target_outcome_def commit_law_def)
  qed
  from issue_rollback_run [OF assms(2) undo] dbv later iqn show ?thesis
    by (elim conjE disjE exE) (force simp: numeral_2_eq_2)+
qed

lemma undone_append:
  "undone H L (length l + n) (l @ cs) = (undone H L (length l) (l @ cs) \<and> undone H (L \<union> snd ` set l) n cs)"
proof (induction l arbitrary: L)
  case (Cons c l)
  obtain t e where c: "c = (t, e)" by fastforce
  show ?case using Cons.IH [of "insert e L"] by (cases e) (auto simp: c split: agent_method.split)
qed simp

lemma secret_write_cases:
  "wp (secret_write H s p) (\<lambda>r v. db v = db w \<and> in_tx v = in_tx w \<and>
     (case r of Inl e \<Rightarrow> v = w \<or> (\<exists>t x. v = stamp H (SecretWrite s p) w \<and> h_unit H (calls w) (h_clock H (draws w)) (SecretWrite s p) = Inl x)
      | Inr _ \<Rightarrow> safe_name s \<and> v = stamp H (SecretWrite s p) w)) w"
  by (simp add: secret_write_def resolve_path_def safe_name_def wp wp_def svc_run andThen_def catching_def call_run
      split: sum.split)

lemma drive_for_issue_frame:
  "wp (if truthy d then drive_find_by_id_or_throw (the d) u else drive_ensure_personal H u)
     (\<lambda>r v. calls v = calls w \<and> in_tx v = in_tx w \<and> mount_credentials (db v) = mount_credentials (db w)) w"
proof -
  have "wp (drive_insert H i u n k path) (\<lambda>r v. calls v = calls w0 \<and> in_tx v = in_tx w0 \<and>
      mount_credentials (db v) = mount_credentials (db w0)) w0" for w0 :: world and i n k path
    by (simp add: drive_insert_def wp Let_def)
  note insert = this
  have "wp (run_in_tx H (drive_insert H i u n k path)) (\<lambda>r v. calls v = calls w0 \<and> in_tx v = in_tx w0 \<and>
      mount_credentials (db v) = mount_credentials (db w0)) w0" for w0 :: world and i n k path
  proof (cases "in_tx w0")
    case True
    have "wp (drive_insert H i u n k path) (\<lambda>r v. calls v = calls w0 \<and> in_tx v = in_tx w0 \<and>
      mount_credentials (db v) = mount_credentials (db w0)) w0" by fact
    with True show ?thesis by (simp add: wp_run_in_tx)
  next
    case False
    have "wp (drive_insert H i u n k path) (\<lambda>r v. calls v = calls w0 \<and> in_tx v \<and>
      mount_credentials (db v) = mount_credentials (db w0)) (w0\<lparr>in_tx := True\<rparr>)" using insert [of i n k path "w0\<lparr>in_tx := True\<rparr>"] by simp
    with False show ?thesis unfolding wp_run_in_tx by (auto elim!: wp_mono split: sum.split option.split)
  qed
  note tx = this
  have "wp (drive_ensure_personal H u)
     (\<lambda>r v. calls v = calls w \<and> in_tx v = in_tx w \<and> mount_credentials (db v) = mount_credentials (db w)) w"
  proof (cases "find (\<lambda>r. dr_owner_id r = u \<and> dr_kind r = KIND_PRIVATE) (drives (db w))")
    case None
    have "wp (andThen (config_or_throw H ''STORAGE_DRIVE_ROOT'') (\<lambda>root.
        run_in_tx H (drive_insert H i u n k (root @ ''/'' @ i))))
       (\<lambda>r v. calls v = calls w0 \<and> in_tx v = in_tx w0 \<and> mount_credentials (db v) = mount_credentials (db w0)) w0"
      for w0 :: world and i n k
      unfolding wp_andThen wp_primitive by (auto split: option.split intro!: tx)
    from this [of _ _ _ "w\<lparr>draws := Suc (draws w)\<rparr>"] None show ?thesis
      by (simp add: drive_ensure_personal_def drive_find_personal_by_owner_id_def wp_then)
  qed (simp add: drive_ensure_personal_def drive_find_personal_by_owner_id_def wp_then wp_primitive)
  moreover have "wp (drive_find_by_id_or_throw (the d) u)
     (\<lambda>r v. calls v = calls w \<and> in_tx v = in_tx w \<and> mount_credentials (db v) = mount_credentials (db w)) w"
    by (simp add: drive_find_by_id_or_throw_def drive_find_by_id_def wp split: option.split)
  ultimately show ?thesis by simp
qed


lemma contains_text_chars: "contains_text s t \<Longrightarrow> set t \<subseteq> set s"
proof (induction s)
  case (Cons c cs)
  then show ?case by (metis contains_text.simps(2) set_subset_Cons set_take_subset subset_trans)
qed simp

lemma resolve_path_plain:
  assumes "CHR ''/'' \<notin> set n" and "CHR 0x5C \<notin> set n" and "CHR ''.'' \<notin> set n"
  shows "resolve_path n w = (Inr (), w)"
  using assms contains_text_chars [of n "''/''"] contains_text_chars [of n "[CHR 0x5C]"] contains_text_chars [of n "''..''"]
  by (auto simp: resolve_path_def svc_run)

lemma demo_issue_fails:
  "fst (mount_issue demo_host ''ada'' None (demo_world (empty_db\<lparr>users := [demo_user]\<rparr>))) =
     Inl (ApiException STORAGE_AGENT_INTERNAL)"
  by (simp add: mount_issue_def drive_ensure_personal_def drive_find_personal_by_owner_id_def drive_insert_def
      run_in_tx_def tx_current_def db_transaction_def tx_run_def user_exists_def demo_user_def
      mount_find_active_by_drive_and_protocol_def secret_write_def resolve_path_plain SECRET_PREFIX_def issue_guarded_def issue_target_def
      mount_insert_issued_def agent_create_target_def agent_send_def expect_data_def throw_for_response_run response_code_def
      issue_rollback_def secret_remove_def target_created_def active_mount_keys_def
      andThen_def catching_def svc_run draw_run call_run config_run Let_def)


subsection \<open>One active credential per drive\<close>

text \<open>
  What every request keeps: identifiers are unique, every credential is for iSCSI and for a
  drive of its user, and the unique index on active credentials holds.
\<close>

definition mounts_ok :: "database \<Rightarrow> bool" where
  "mounts_ok d \<longleftrightarrow> distinct (map dr_id (drives d)) \<and> distinct (active_mount_keys (mount_credentials d)) \<and>
     (\<forall>r\<in>set (mount_credentials d). mc_protocol r = PROTOCOL_ISCSI \<and>
        (\<exists>dr\<in>set (drives d). dr_id dr = mc_drive_id r \<and> dr_owner_id dr = mc_user_id r))"

datatype mount_op =
    GetMyDrive auth_user
  | GetDrive auth_user uuid
  | IssueCredential auth_user "uuid option"
  | ListCredentials auth_user
  | RevokeCredential auth_user uuid

definition mount_step :: "host \<Rightarrow> mount_op \<Rightarrow> world \<Rightarrow> world" where
  "mount_step H a = (case a of
     GetMyDrive user \<Rightarrow> \<lambda>w. snd (drive_controller_get_my_drive H user w)
   | GetDrive user i \<Rightarrow> \<lambda>w. snd (drive_controller_get_drive user i w)
   | IssueCredential user driveId \<Rightarrow> \<lambda>w. snd (mount_controller_issue H user driveId w)
   | ListCredentials user \<Rightarrow> \<lambda>w. snd (mount_controller_list H user w)
   | RevokeCredential user i \<Rightarrow> \<lambda>w. snd (mount_controller_revoke H user i w))"

lemma keeps_agent [keeps_intro]:
  "keeps P (agent_send H m)" "keeps P (agent_create_target H req)" "keeps P (agent_delete_target H iqn)"
  "keeps P (throw_for_response res)" "keeps P (secret_write H s p)" "keeps P (secret_remove H s)" "keeps P (portal_of H)"
  by (auto simp: agent_send_def agent_create_target_def agent_delete_target_def throw_for_response_def expect_data_def
      secret_write_def secret_remove_def resolve_path_def portal_of_def intro!: keeps_intro)

lemma keeps_issue_answer [keeps_intro]: "keeps P (issue_answer H drive s p iqn row)"
  unfolding issue_answer_def by (intro keeps_intro)

lemma mounts_ok_drive_insert [keeps_intro]: "keeps mounts_ok (drive_insert H i u n k path)"
  by (rule keepsI) (auto simp: drive_insert_def wp Let_def mounts_ok_def)

lemma mounts_ok_ensure [keeps_intro]: "keeps mounts_ok (drive_ensure_personal H u)"
  unfolding drive_ensure_personal_def drive_find_personal_by_owner_id_def by (intro keeps_intro)

lemma active_keys_revoke:
  "active_mount_keys (update_where (\<lambda>r. mc_id r = i) (\<lambda>r. r\<lparr>mc_revoked_at := Some t, mc_updated_at := t\<rparr>) rs) =
     active_mount_keys (filter (\<lambda>r. mc_id r \<noteq> i) rs)"
  by (induction rs) (auto simp: active_mount_keys_def)

lemma distinct_active_keys_filter: "distinct (active_mount_keys rs) \<Longrightarrow> distinct (active_mount_keys (filter p rs))"
  by (induction rs) (auto simp: active_mount_keys_def)

lemma mounts_ok_revoke [keeps_intro]: "keeps mounts_ok (mount_soft_revoke i t)"
  by (rule keepsI) (auto simp: mount_soft_revoke_def wp mounts_ok_def active_keys_revoke set_update_where
      intro: distinct_active_keys_filter)

lemma mounts_ok_mount_revoke [keeps_intro]: "keeps mounts_ok (mount_revoke H u i)"
  unfolding mount_revoke_def mount_find_by_id_and_user_id_def by (intro keeps_intro)

text \<open>The row a credential adds needs its drive to be the user's own, which the lookups before have checked.\<close>

definition own_drive :: "uuid \<Rightarrow> uuid \<Rightarrow> database \<Rightarrow> bool" where
  "own_drive u i d \<longleftrightarrow> mounts_ok d \<and> (\<exists>dr\<in>set (drives d). dr_id dr = i \<and> dr_owner_id dr = u)"

lemma own_drive_insert_issued [keeps_intro]: "keeps (own_drive u i) (mount_insert_issued H i u PROTOCOL_ISCSI n s iqn)"
  by (rule keepsI) (auto simp: mount_insert_issued_def wp Let_def own_drive_def mounts_ok_def active_mount_keys_def)

lemma own_drive_issue_target [keeps_intro]: "keeps (own_drive u (dr_id drive)) (issue_target H u drive s p iqn)"
  unfolding issue_target_def by (intro keeps_intro)

lemma own_drive_issue_guarded [keeps_intro]: "keeps (own_drive u (dr_id drive)) (issue_guarded H u drive s p iqn)"
proof -
  have "keeps (own_drive u (dr_id drive)) (\<lambda>w. catching (run_in_tx H (andThen (issue_target H u drive s p iqn)
      (issue_answer H drive s p iqn))) (issue_rollback H b s iqn) w)" for b
    unfolding issue_rollback_def by (intro keeps_intro)
  then show ?thesis by (auto simp: keeps_def issue_guarded_def Let_def)
qed

lemma own_drive_rest:
  "keeps (own_drive u (dr_id drive)) (andThen (mount_find_active_by_drive_and_protocol (dr_id drive) u PROTOCOL_ISCSI) (\<lambda>existing.
     if existing \<noteq> None then throw MOUNT_CREDENTIAL_DUPLICATE_PROTOCOL
     else andThen (random_uuid H) (\<lambda>x. let secretRef = SECRET_PREFIX @ x in andThen (random_bytes H 16) (\<lambda>bytes.
       let password = base64url bytes; iqn = IQN_PREFIX @ '':'' @ dr_id drive in
       andThen (secret_write H secretRef password) (\<lambda>_. issue_guarded H u drive secretRef password iqn)))))"
  unfolding mount_find_active_by_drive_and_protocol_def Let_def by (intro keeps_intro)

lemma wp_run_in_tx_db:
  assumes body: "\<And>w. P (db w) \<Longrightarrow> wp m (\<lambda>r v. P (db v) \<and> (\<forall>x. r = Inr x \<longrightarrow> R x (db v))) w" and P: "P (db w)"
  shows "wp (run_in_tx H m) (\<lambda>r v. P (db v) \<and> (\<forall>x. r = Inr x \<longrightarrow> R x (db v))) w"
proof -
  obtain r w' where run: "run_in_tx H m w = (r, w')" by fastforce
  have "P (db w') \<and> (\<forall>x. r = Inr x \<longrightarrow> R x (db w'))"
  proof (cases r)
    case (Inl e)
    with run obtain r' v where v: "m (w\<lparr>in_tx := True\<rparr>) = (r', v)" "db w' = db w \<or> db w' = db v"
      by (auto elim: run_in_tx_Inl)
    have "P (db v)" using wp_use [OF v(1) body] P by simp
    with v P Inl show ?thesis by auto
  next
    case (Inr x)
    with run obtain v where v: "m (w\<lparr>in_tx := True\<rparr>) = (Inr x, v)" "db w' = db v" by (auto elim: run_in_tx_Inr)
    show ?thesis using wp_use [OF v(1) body] P v(2) Inr by simp
  qed
  with run show ?thesis by (simp add: wp_def)
qed

lemma found_own_drive:
  assumes "mounts_ok (db w)"
  shows "wp (if truthy d then drive_find_by_id_or_throw (the d) u else drive_ensure_personal H u)
    (\<lambda>r v. mounts_ok (db v) \<and> (\<forall>drive. r = Inr drive \<longrightarrow> own_drive u (dr_id drive) (db v))) w"
    (is "wp _ ?Q w")
proof -
  have insert: "wp (drive_insert H i u n k path) (\<lambda>r v. mounts_ok (db v) \<and> (\<forall>dr. r = Inr dr \<longrightarrow> own_drive u (dr_id dr) (db v))) v"
    if "mounts_ok (db v)" for v :: world and i n k path
    using that by (auto simp: drive_insert_def wp Let_def mounts_ok_def own_drive_def)
  have "wp (andThen (config_or_throw H ''STORAGE_DRIVE_ROOT'') (\<lambda>root. run_in_tx H (drive_insert H i u n k (root @ ''/'' @ i)))) ?Q v"
    if "mounts_ok (db v)" for v :: world and i n k
    unfolding wp_andThen wp_primitive using that
    by (auto split: option.split intro!: wp_run_in_tx_db [where R = "\<lambda>dr. own_drive u (dr_id dr)"] insert)
  note create = this [of "w\<lparr>draws := Suc (draws w)\<rparr>"]
  have "wp (drive_ensure_personal H u) ?Q w"
  proof (cases "find (\<lambda>r. dr_owner_id r = u \<and> dr_kind r = KIND_PRIVATE) (drives (db w))")
    case None
    with create assms show ?thesis by (simp add: drive_ensure_personal_def drive_find_personal_by_owner_id_def wp_then)
  next
    case (Some r)
    then have "r \<in> set (drives (db w))" "dr_owner_id r = u" by (auto dest!: find_Some_set)
    with Some assms show ?thesis
      by (auto simp: drive_ensure_personal_def drive_find_personal_by_owner_id_def wp_then wp_primitive own_drive_def)
  qed
  moreover have "wp (drive_find_by_id_or_throw i u) ?Q w" for i
    using assms by (auto simp: drive_find_by_id_or_throw_def drive_find_by_id_def wp own_drive_def dest!: find_Some_set split: option.split)
  ultimately show ?thesis by simp
qed

lemma mounts_ok_issue [keeps_intro]: "keeps mounts_ok (mount_issue H u d)"
proof (rule keepsI)
  fix w :: world assume ok: "mounts_ok (db w)"
  show "wp (mount_issue H u d) (\<lambda>_ v. mounts_ok (db v)) w"
    unfolding mount_issue_def
  proof (rule wp_step [OF found_own_drive [OF ok]])
    fix drive :: drive_row and v :: world
    assume "mounts_ok (db v) \<and> (\<forall>dr. Inr drive = Inr dr \<longrightarrow> own_drive u (dr_id dr) (db v))"
    then have own: "own_drive u (dr_id drive) (db v)" by simp
    have "own_drive u (dr_id drive) d \<Longrightarrow> mounts_ok d" for d by (simp add: own_drive_def)
    with keepsD [OF own_drive_rest own] show "wp (andThen (mount_find_active_by_drive_and_protocol (dr_id drive) u PROTOCOL_ISCSI) (\<lambda>existing.
     if existing \<noteq> None then throw MOUNT_CREDENTIAL_DUPLICATE_PROTOCOL
     else andThen (random_uuid H) (\<lambda>x. let secretRef = SECRET_PREFIX @ x in andThen (random_bytes H 16) (\<lambda>bytes.
       let password = base64url bytes; iqn = IQN_PREFIX @ '':'' @ dr_id drive in
       andThen (secret_write H secretRef password) (\<lambda>_. issue_guarded H u drive secretRef password iqn))))) (\<lambda>_ v. mounts_ok (db v)) v"
      unfolding wp_snd by blast
  qed simp
qed

lemma mount_step_ok: "mounts_ok (db w) \<Longrightarrow> mounts_ok (db (mount_step H a w))"
proof (cases a)
  case (IssueCredential user d)
  then show "mounts_ok (db w) \<Longrightarrow> ?thesis"
    using keepsD [OF mounts_ok_issue, of w H "aus_user_id user" d] by (simp add: mount_step_def mount_controller_issue_def)
qed (auto simp: mount_step_def drive_controller_get_my_drive_def drive_controller_get_drive_def drive_find_by_id_or_throw_def
    drive_find_by_id_def mount_controller_list_def mount_list_active_def mount_find_active_by_user_id_def
    mount_controller_revoke_def intro!: keepsD [where P = mounts_ok] keeps_intro)

interpretation mounts: history "mount_step H" "\<lambda>w. mounts_ok (db w)" for H
  by unfold_locales (rule mount_step_ok)

lemma active_credential_keys:
  assumes "mounts_ok d"
  shows "distinct (map mc_drive_id (filter (\<lambda>r. mc_revoked_at r = None) (mount_credentials d)))"
proof -
  let ?rs = "filter (\<lambda>r. mc_revoked_at r = None) (mount_credentials d)"
  let ?k = "\<lambda>r. (mc_drive_id r, mc_user_id r, mc_protocol r)"
  have dist: "distinct (map ?k ?rs)" using assms by (simp add: mounts_ok_def active_mount_keys_def)
  have "r = s" if rs: "r \<in> set ?rs" "s \<in> set ?rs" "mc_drive_id r = mc_drive_id s" for r s
  proof -
    have owned: "\<exists>dr\<in>set (drives d). dr_id dr = mc_drive_id r \<and> dr_owner_id dr = mc_user_id r" if "r \<in> set ?rs" for r
      using assms that by (simp add: mounts_ok_def)
    from owned [OF rs(1)] obtain a where a: "a \<in> set (drives d)" "dr_id a = mc_drive_id r" "dr_owner_id a = mc_user_id r" by blast
    from owned [OF rs(2)] obtain b where b: "b \<in> set (drives d)" "dr_id b = mc_drive_id s" "dr_owner_id b = mc_user_id s" by blast
    have ids: "distinct (map dr_id (drives d))" using assms by (simp add: mounts_ok_def)
    have "a = b" by (rule key_unique [OF ids a(1) b(1)]) (simp add: a b rs)
    with a b rs assms have "?k r = ?k s" by (simp add: mounts_ok_def)
    then show "r = s" by (rule key_unique [OF dist rs(1,2)])
  qed
  moreover have "distinct ?rs" using dist by (rule distinct_map [THEN iffD1, THEN conjunct1])
  ultimately show ?thesis by (auto simp: distinct_map intro: inj_onI)
qed

text \<open>
  C21: whatever drives are opened and credentials are issued and revoked, by whomever, every
  credential is for a drive of its user, and a drive never has two active credentials.
\<close>

theorem one_active_credential_per_drive:
  assumes "mounts_ok (db w)"
  shows "mounts_ok (db (fold (mount_step H) ops w)) \<and>
    distinct (map mc_drive_id (filter (\<lambda>r. mc_revoked_at r = None) (mount_credentials (db (fold (mount_step H) ops w)))))"
  using mounts.run_inv [OF assms, of H ops] by (simp add: active_credential_keys)

definition ada_auth :: auth_user where
  "ada_auth = \<lparr>aus_user_id = ''ada'', aus_username = ''ada'', aus_permissions = []\<rparr>"

lemma one_active_credential_per_drive_witness:
  "distinct (map mc_drive_id (filter (\<lambda>r. mc_revoked_at r = None) (mount_credentials (db (fold (mount_step demo_host)
     [IssueCredential ada_auth None, IssueCredential ada_auth None, RevokeCredential ada_auth ''x'',
      IssueCredential ada_auth None] (demo_world (empty_db\<lparr>users := [demo_user]\<rparr>)))))))"
  by (rule conjunct2 [OF one_active_credential_per_drive]) (simp add: mounts_ok_def active_mount_keys_def)

subsection \<open>What a successful issue leaves\<close>

definition issued :: "uuid \<Rightarrow> issue_response \<Rightarrow> drive_row \<Rightarrow> mount_credential_row \<Rightarrow> world \<Rightarrow> world \<Rightarrow> bool" where
  "issued u resp drive row w w' \<longleftrightarrow>
     mount_credentials (db w') = mount_credentials (db w) @ [row] \<and>
     mc_user_id row = u \<and> mc_drive_id row = dr_id drive \<and> mc_protocol row = PROTOCOL_ISCSI \<and> mc_revoked_at row = None \<and>
     mc_iqn row = Some (IQN_PREFIX @ '':'' @ dr_id drive) \<and> md_id (is_credential resp) = mc_id row \<and>
     (\<exists>t1 t2. calls w' = (t2, AgentRequest (AgentPost (target_request drive (mc_secret_ref row) (is_password resp)
         (IQN_PREFIX @ '':'' @ dr_id drive)))) # (t1, SecretWrite (mc_secret_ref row) (is_password resp)) # calls w) \<and>
     (\<forall>r\<in>set (mount_credentials (db w)). mc_drive_id r = dr_id drive \<and> mc_user_id r = u \<and> mc_protocol r = PROTOCOL_ISCSI \<longrightarrow>
        mc_revoked_at r \<noteq> None)"

lemma mount_insert_issued_Inr:
  assumes "mount_insert_issued H i u n sn sr iqn w = (Inr row, w')"
  shows "db w' = (db w)\<lparr>mount_credentials := mount_credentials (db w) @ [row]\<rparr> \<and> calls w' = calls w \<and> mc_user_id row = u \<and>
    mc_drive_id row = i \<and> mc_protocol row = n \<and> mc_secret_ref row = sr \<and> mc_revoked_at row = None \<and> mc_iqn row = iqn"
proof -
  have "wp (mount_insert_issued H i u n sn sr iqn) (\<lambda>r v. \<forall>row. r = Inr row \<longrightarrow>
      db v = (db w)\<lparr>mount_credentials := mount_credentials (db w) @ [row]\<rparr> \<and> calls v = calls w \<and> mc_user_id row = u \<and>
      mc_drive_id row = i \<and> mc_protocol row = n \<and> mc_secret_ref row = sr \<and> mc_revoked_at row = None \<and> mc_iqn row = iqn) w"
    by (simp add: mount_insert_issued_def wp Let_def)
  from wp_use [OF assms this] show ?thesis by simp
qed

lemma issue_rollback_raises: "fst (issue_rollback H b s iqn e w) \<noteq> Inr resp"
  by (auto simp: issue_rollback_def andThen_def svc_run split: prod.splits sum.splits)

lemma issue_guarded_Inr:
  assumes "issue_guarded H u drive s p iqn w = (Inr resp, w')"
  obtains row where "mount_credentials (db w') = mount_credentials (db w) @ [row]" "mc_user_id row = u"
    "mc_drive_id row = dr_id drive" "mc_protocol row = PROTOCOL_ISCSI" "mc_revoked_at row = None" "mc_iqn row = Some iqn"
    "mc_secret_ref row = s" "md_id (is_credential resp) = mc_id row" "is_password resp = p" "drives (db w') = drives (db w)"
    "\<exists>t. calls w' = (t, AgentRequest (AgentPost (target_request drive s p iqn))) # calls w"
proof -
  let ?T = "issue_target H u drive s p iqn" and ?A = "issue_answer H drive s p iqn"
  from assms issue_rollback_raises have "run_in_tx H (andThen ?T ?A) w = (Inr resp, w')"
    by (auto simp: issue_guarded_def catching_def Let_def split: prod.splits sum.splits) (metis fst_conv)
  then obtain v where v: "andThen ?T ?A (w\<lparr>in_tx := True\<rparr>) = (Inr resp, v)" "db w' = db v" "calls w' = calls v"
    by (rule run_in_tx_Inr)
  then obtain row v1 where row: "?T (w\<lparr>in_tx := True\<rparr>) = (Inr row, v1)" "?A row v1 = (Inr resp, v)" by (auto simp: andThen_Inr)
  from row(1) obtain row' v0 x where ins: "mount_insert_issued H (dr_id drive) u PROTOCOL_ISCSI s s (Some iqn) (w\<lparr>in_tx := True\<rparr>) = (Inr row', v0)"
    and "agent_create_target H (target_request drive s p iqn) v0 = (Inr x, v1)" "row' = row"
    unfolding issue_target_def target_request_def [symmetric] by (auto simp: andThen_Inr svc_run)
  then have "v1 = stamp H (AgentRequest (AgentPost (target_request drive s p iqn))) v0"
    using agent_create_target_run [of H "target_request drive s p iqn" v0] by simp
  moreover have "v = v1" "md_id (is_credential resp) = mc_id row" "is_password resp = p"
    using row(2) by (auto simp: issue_answer_def portal_of_def andThen_def svc_run config_run to_mount_credential_dto_def
        split: option.splits)
  ultimately show thesis using mount_insert_issued_Inr [OF ins] v \<open>row' = row\<close> by (intro that [of row]) auto
qed

lemma drive_for_issue_Inr:
  assumes "(if truthy d then drive_find_by_id_or_throw (the d) u else drive_ensure_personal H u) w = (Inr drive, w')"
  shows "drive \<in> set (drives (db w')) \<and> dr_owner_id drive = u \<and> (truthy d \<longrightarrow> dr_id drive = the d)"
proof (cases "truthy d")
  case True
  with assms show ?thesis
    by (auto simp: drive_find_by_id_or_throw_def drive_find_by_id_def andThen_def svc_run dest!: find_Some_set
        split: option.splits if_splits)
next
  case False
  let ?R = "\<lambda>dr d. dr \<in> set (drives d) \<and> dr_owner_id dr = u"
  have insert: "wp (drive_insert H i u n k path) (\<lambda>r v. True \<and> (\<forall>dr. r = Inr dr \<longrightarrow> ?R dr (db v))) v"
    for v :: world and i n k path by (simp add: drive_insert_def wp Let_def)
  have create: "wp (andThen (config_or_throw H ''STORAGE_DRIVE_ROOT'') (\<lambda>root. run_in_tx H (drive_insert H i u n k (root @ ''/'' @ i))))
      (\<lambda>r v. \<forall>dr. r = Inr dr \<longrightarrow> ?R dr (db v)) v" for v :: world and i n k
    unfolding wp_andThen wp_primitive
    by (auto split: option.split intro!: wp_mono [OF wp_run_in_tx_db [where P = "\<lambda>_. True" and R = ?R, OF insert]])
  have "wp (drive_ensure_personal H u) (\<lambda>r v. \<forall>dr. r = Inr dr \<longrightarrow> ?R dr (db v)) w"
    using create by (cases "find (\<lambda>r. dr_owner_id r = u \<and> dr_kind r = KIND_PRIVATE) (drives (db w))")
      (auto simp: drive_ensure_personal_def drive_find_personal_by_owner_id_def wp_then wp_primitive dest!: find_Some_set)
  from wp_use [OF _ this] assms False show ?thesis by simp
qed

text \<open>
  C22: a successful issue is for a drive of the user, the one asked for if one was; it adds
  exactly one credential, active and with the drive's target name, where the user had no
  active one for it; and all it does outside is to write the secret that the answer shows
  and to have the agent create the target with that secret.
\<close>

theorem mount_issue_spec:
  assumes "mount_issue H u d w = (Inr resp, w')"
  shows "\<exists>drive row. drive \<in> set (drives (db w')) \<and> dr_owner_id drive = u \<and> (truthy d \<longrightarrow> dr_id drive = the d) \<and>
    issued u resp drive row w w'"
proof -
  let ?find = "if truthy d then drive_find_by_id_or_throw (the d) u else drive_ensure_personal H u"
  from assms obtain drive w1 where find: "?find w = (Inr drive, w1)"
    and rest: "andThen (mount_find_active_by_drive_and_protocol (dr_id drive) u PROTOCOL_ISCSI) (\<lambda>existing.
     if existing \<noteq> None then throw MOUNT_CREDENTIAL_DUPLICATE_PROTOCOL
     else andThen (random_uuid H) (\<lambda>x. let secretRef = SECRET_PREFIX @ x in andThen (random_bytes H 16) (\<lambda>bytes.
       let password = base64url bytes; iqn = IQN_PREFIX @ '':'' @ dr_id drive in
       andThen (secret_write H secretRef password) (\<lambda>_. issue_guarded H u drive secretRef password iqn)))) w1 = (Inr resp, w')"
    unfolding mount_issue_def andThen_Inr by blast
  define s where "s = SECRET_PREFIX @ h_uuid H (draws w1)"
  define p where "p = base64url (h_random_bytes H (Suc (draws w1)) 16)"
  define w2 where "w2 = w1\<lparr>draws := Suc (Suc (draws w1))\<rparr>"
  have w2: "db w2 = db w1" "calls w2 = calls w1" by (simp_all add: w2_def)
  have "find (\<lambda>r. mc_drive_id r = dr_id drive \<and> mc_user_id r = u \<and> mc_protocol r = PROTOCOL_ISCSI \<and> mc_revoked_at r = None)
      (mount_credentials (db w1)) = None \<and>
    andThen (secret_write H s p) (\<lambda>_. issue_guarded H u drive s p (IQN_PREFIX @ '':'' @ dr_id drive)) w2 = (Inr resp, w')"
    using rest unfolding mount_find_active_by_drive_and_protocol_def Let_def s_def p_def w2_def
    by (cases "find (\<lambda>r. mc_drive_id r = dr_id drive \<and> mc_user_id r = u \<and> mc_protocol r = PROTOCOL_ISCSI \<and> mc_revoked_at r = None)
      (mount_credentials (db w1))") (simp_all add: andThen_run svc_run draw_run)
  note found = this
  have none: "\<forall>r\<in>set (mount_credentials (db w1)). mc_drive_id r = dr_id drive \<and> mc_user_id r = u \<and>
        mc_protocol r = PROTOCOL_ISCSI \<longrightarrow> mc_revoked_at r \<noteq> None"
    using conjunct1 [OF found] unfolding find_None_set by simp
  from conjunct2 [OF found] obtain x w3 where secret: "secret_write H s p w2 = (Inr x, w3)"
    and guarded: "issue_guarded H u drive s p (IQN_PREFIX @ '':'' @ dr_id drive) w3 = (Inr resp, w')"
    unfolding andThen_Inr by blast
  from wp_use [OF find drive_for_issue_frame] have frame: "calls w1 = calls w" "mount_credentials (db w1) = mount_credentials (db w)"
    by simp_all
  from wp_use [OF secret secret_write_cases] have w3: "w3 = stamp H (SecretWrite s p) w2" by simp
  from guarded obtain row where row: "mount_credentials (db w') = mount_credentials (db w3) @ [row]" "mc_user_id row = u"
    "mc_drive_id row = dr_id drive" "mc_protocol row = PROTOCOL_ISCSI" "mc_revoked_at row = None"
    "mc_iqn row = Some (IQN_PREFIX @ '':'' @ dr_id drive)" "mc_secret_ref row = s" "md_id (is_credential resp) = mc_id row"
    "is_password resp = p" "drives (db w') = drives (db w3)"
    "\<exists>t. calls w' = (t, AgentRequest (AgentPost (target_request drive s p (IQN_PREFIX @ '':'' @ dr_id drive)))) # calls w3"
    by (rule issue_guarded_Inr)
  have "issued u resp drive row w w'" unfolding issued_def using row none w2 w3 frame by auto
  moreover have "drive \<in> set (drives (db w'))" using drive_for_issue_Inr [OF find] row(10) w3 w2 by simp
  ultimately show ?thesis using drive_for_issue_Inr [OF find] by blast
qed

definition mount_host :: host where
  "mount_host = demo_host\<lparr>h_agent := \<lambda>cs t m. Inr \<lparr>ag_status = 201, ag_error_code = None, ag_data = CreatedTarget 1 ''t''\<rparr>\<rparr>"

lemma mount_host_simps [simp]:
  "h_clock mount_host n = int n" "h_uuid mount_host n = replicate (Suc n) CHR ''u''"
  "h_random_bytes mount_host n k = replicate k (of_nat n)" "h_config mount_host k' = Some ''v''"
  "h_unit mount_host cs t e = Inr ()" "h_commit mount_host cs = None"
  "h_agent mount_host cs t m = Inr \<lparr>ag_status = 201, ag_error_code = None, ag_data = CreatedTarget 1 ''t''\<rparr>"
  by (simp_all add: mount_host_def)

lemma demo_issue_succeeds:
  "\<exists>resp. fst (mount_issue mount_host ''ada'' None (demo_world (empty_db\<lparr>users := [demo_user]\<rparr>))) = Inr resp"
  by (simp add: mount_issue_def drive_ensure_personal_def drive_find_personal_by_owner_id_def drive_insert_def
      run_in_tx_def tx_current_def db_transaction_def tx_run_def user_exists_def demo_user_def
      mount_find_active_by_drive_and_protocol_def secret_write_def resolve_path_plain SECRET_PREFIX_def issue_guarded_def
      issue_target_def mount_insert_issued_def agent_create_target_def agent_send_def expect_data_def issue_answer_def portal_of_def
      active_mount_keys_def andThen_def catching_def svc_run draw_run call_run config_run Let_def)

lemma mount_issue_spec_witness:
  "\<exists>resp w' drive row. mount_issue mount_host ''ada'' None (demo_world (empty_db\<lparr>users := [demo_user]\<rparr>)) = (Inr resp, w') \<and>
     dr_owner_id drive = ''ada'' \<and> issued ''ada'' resp drive row (demo_world (empty_db\<lparr>users := [demo_user]\<rparr>)) w'"
proof -
  let ?w = "demo_world (empty_db\<lparr>users := [demo_user]\<rparr>)"
  from demo_issue_succeeds obtain resp w' where run: "mount_issue mount_host ''ada'' None ?w = (Inr resp, w')"
    by (metis eq_fst_iff)
  from mount_issue_spec [OF run] run show ?thesis by blast
qed

end
