(* ===== verification/Routes.thy ===== *)
theory Routes
  imports Mounts Login
begin

text \<open>
  The HTTP surface of the API: the route each controller method is decorated with, how a
  request finds its route, and the guards of \<open>app.module.ts\<close> it passes on its way to the
  handler. The handlers of the small controllers are here as well; those of the larger
  ones stand with their services.
\<close>

subsection \<open>Routes\<close>

datatype http_method = GET | POST | PATCH | DELETE

text \<open>A segment of a path is a literal or a parameter; all parameters go through \<open>ParseUUIDPipe\<close>.\<close>

datatype segment = Lit string | Uuid

record route =
  ro_method :: http_method
  ro_path :: "segment list"
  ro_public :: bool
  ro_permissions :: "string list option"
  ro_limit :: nat
  ro_status :: nat
  ro_documented :: "nat option"
  ro_response :: "string list"
  ro_errors :: "error_code list"

text \<open>The limit of requests in 60 seconds that \<open>ThrottlerModule.forRoot\<close> sets.\<close>

definition DEFAULT_LIMIT :: nat where "DEFAULT_LIMIT = 60"

text \<open>A method without further decorators: Nest answers 201 to a POST and 200 to the others.\<close>

definition route_of :: "http_method \<Rightarrow> segment list \<Rightarrow> route" where
  "route_of m p = \<lparr>ro_method = m, ro_path = p, ro_public = False, ro_permissions = None, ro_limit = DEFAULT_LIMIT,
     ro_status = (if m = POST then 201 else 200), ro_documented = None, ro_response = [], ro_errors = []\<rparr>"

text \<open>\<open>health/health.controller.ts\<close>\<close>

definition health_check_route :: route where
  "health_check_route = (route_of GET [Lit ''api'', Lit ''health''])\<lparr>ro_public := True, ro_status := 200\<rparr>"

definition health_routes :: "route list" where
  "health_routes = [health_check_route]"

text \<open>\<open>user/user.controller.ts\<close>\<close>

definition user_me_route :: route where
  "user_me_route = (route_of GET [Lit ''user'', Lit ''me''])\<lparr>ro_documented := Some 200, ro_response := [''UserDto''],
     ro_errors := [INVALID_CREDENTIALS]\<rparr>"

definition user_routes :: "route list" where
  "user_routes = [user_me_route]"

text \<open>\<open>device/device.controller.ts\<close>\<close>

definition device_list_route :: route where
  "device_list_route = (route_of GET [Lit ''devices''])\<lparr>ro_documented := Some 200,
     ro_response := [''DeviceResponseDto[]'']\<rparr>"

definition device_register_route :: route where
  "device_register_route = (route_of POST [Lit ''devices''])\<lparr>ro_status := 204, ro_documented := Some 204\<rparr>"

definition device_remove_route :: route where
  "device_remove_route = (route_of DELETE [Lit ''devices'', Uuid])\<lparr>ro_status := 204, ro_documented := Some 204,
     ro_errors := [DEVICE_NOT_FOUND]\<rparr>"

definition device_routes :: "route list" where
  "device_routes = [device_list_route, device_register_route, device_remove_route]"

text \<open>\<open>trusted-device/trusted-device.controller.ts\<close>\<close>

definition trusted_device_list_route :: route where
  "trusted_device_list_route = (route_of GET [Lit ''trusted-device''])\<lparr>ro_documented := Some 200,
     ro_response := [''TrustedDeviceResponseDto[]'']\<rparr>"

definition trusted_device_register_route :: route where
  "trusted_device_register_route = (route_of POST [Lit ''trusted-device''])\<lparr>ro_documented := Some 201\<rparr>"

definition trusted_device_revoke_route :: route where
  "trusted_device_revoke_route = (route_of DELETE [Lit ''trusted-device'', Uuid])\<lparr>ro_status := 204,
     ro_documented := Some 204, ro_errors := [TRUSTED_DEVICE_NOT_FOUND]\<rparr>"

definition trusted_device_routes :: "route list" where
  "trusted_device_routes = [trusted_device_list_route, trusted_device_register_route, trusted_device_revoke_route]"

text \<open>\<open>twofa/challenge.controller.ts\<close>\<close>

definition challenge_get_status_route :: route where
  "challenge_get_status_route = (route_of GET [Lit ''auth'', Lit ''2fa'', Lit ''challenge'', Uuid,
     Lit ''status''])\<lparr>ro_public := True, ro_documented := Some 200, ro_response := [''ChallengeStatusPendingDto'',
     ''ChallengeStatusApprovedDto'', ''ChallengeStatusDeniedDto'', ''ChallengeStatusExpiredDto''],
     ro_errors := [TWOFA_CHALLENGE_NOT_FOUND]\<rparr>"

definition challenge_respond_route :: route where
  "challenge_respond_route = (route_of POST [Lit ''auth'', Lit ''2fa'', Lit ''challenge'', Uuid,
     Lit ''respond''])\<lparr>ro_status := 204, ro_documented := Some 204, ro_errors := [TWOFA_CHALLENGE_NOT_FOUND,
     FORBIDDEN]\<rparr>"

definition challenge_resend_route :: route where
  "challenge_resend_route = (route_of POST [Lit ''auth'', Lit ''2fa'', Lit ''challenge'', Uuid,
     Lit ''resend''])\<lparr>ro_public := True, ro_status := 200, ro_documented := Some 200,
     ro_response := [''ResendChallengeResponseDto''], ro_errors := [TWOFA_CHALLENGE_NOT_FOUND]\<rparr>"

definition challenge_complete_route :: route where
  "challenge_complete_route = (route_of POST [Lit ''auth'', Lit ''2fa'', Lit ''challenge'', Uuid,
     Lit ''complete''])\<lparr>ro_public := True, ro_status := 200, ro_documented := Some 200,
     ro_response := [''AuthenticatedResponseDto''], ro_errors := [TWOFA_CHALLENGE_NOT_FOUND, TWOFA_TOTP_INVALID_CODE,
     TWOFA_TOTP_LOCKED]\<rparr>"

definition challenge_routes :: "route list" where
  "challenge_routes = [challenge_get_status_route, challenge_respond_route, challenge_resend_route,
     challenge_complete_route]"

text \<open>\<open>twofa/totp.controller.ts\<close>\<close>

definition totp_start_setup_route :: route where
  "totp_start_setup_route = (route_of POST [Lit ''2fa'', Lit ''totp'', Lit ''setup'', Lit ''start''])\<lparr>ro_limit := 3,
     ro_status := 200, ro_documented := Some 200, ro_response := [''TotpSetupPendingDto'', ''TotpSetupEnrolledDto'']\<rparr>"

definition totp_complete_setup_route :: route where
  "totp_complete_setup_route = (route_of POST [Lit ''2fa'', Lit ''totp'', Lit ''setup'',
     Lit ''complete''])\<lparr>ro_limit := 3, ro_status := 204, ro_documented := Some 204,
     ro_errors := [TWOFA_TOTP_INVALID_CODE, TWOFA_SETUP_NOT_SUPPORTED]\<rparr>"

definition totp_list_route :: route where
  "totp_list_route = (route_of GET [Lit ''2fa'', Lit ''totp''])\<lparr>ro_documented := Some 200,
     ro_response := [''TotpListResponseDto'']\<rparr>"

definition totp_revoke_route :: route where
  "totp_revoke_route = (route_of DELETE [Lit ''2fa'', Lit ''totp'', Uuid])\<lparr>ro_status := 204,
     ro_documented := Some 204, ro_errors := [FORBIDDEN, TWOFA_LAST_STRATEGY_CANNOT_REMOVE]\<rparr>"

definition totp_routes :: "route list" where
  "totp_routes = [totp_start_setup_route, totp_complete_setup_route, totp_list_route, totp_revoke_route]"

text \<open>\<open>twofa/backup-code/backup-code.controller.ts\<close>\<close>

definition backup_code_regenerate_route :: route where
  "backup_code_regenerate_route = (route_of POST [Lit ''backup-codes'', Lit ''regenerate''])\<lparr>ro_limit := 3,
     ro_status := 200, ro_documented := Some 200, ro_response := [''BackupCodeRegenerateResponseDto''],
     ro_errors := [INVALID_CREDENTIALS]\<rparr>"

definition backup_code_routes :: "route list" where
  "backup_code_routes = [backup_code_regenerate_route]"

text \<open>\<open>invitation/invitation.controller.ts\<close>\<close>

definition invitation_validate_route :: route where
  "invitation_validate_route = (route_of GET [Lit ''invitations'', Uuid])\<lparr>ro_public := True, ro_limit := 30,
     ro_documented := Some 200, ro_response := [''ValidateInvitationResponseDto'']\<rparr>"

definition invitation_deactivate_route :: route where
  "invitation_deactivate_route = (route_of DELETE [Lit ''invitations'',
     Uuid])\<lparr>ro_permissions := Some [''user:manage''], ro_status := 204, ro_documented := Some 204,
     ro_errors := [INVITATION_NOT_FOUND]\<rparr>"

definition invitation_routes :: "route list" where
  "invitation_routes = [invitation_validate_route, invitation_deactivate_route]"

text \<open>\<open>auth/login.controller.ts\<close>\<close>

definition login_register_route :: route where
  "login_register_route = (route_of POST [Lit ''auth'', Lit ''register''])\<lparr>ro_public := True, ro_limit := 5,
     ro_documented := Some 201, ro_response := [''RegisterResponseDto''], ro_errors := [INVITATION_NOT_FOUND,
     INVITATION_EXPIRED, INVITATION_ALREADY_USED, USERNAME_TAKEN, REGISTRATION_FAILED, ROLE_NOT_FOUND]\<rparr>"

definition login_login_route :: route where
  "login_login_route = (route_of POST [Lit ''auth'', Lit ''login''])\<lparr>ro_public := True, ro_limit := 5,
     ro_status := 200, ro_documented := Some 200, ro_response := [''AuthenticatedResponseDto'',
     ''TwoFaRequiredResponseDto''], ro_errors := [INVALID_CREDENTIALS, ACCOUNT_DISABLED]\<rparr>"

definition login_login_with_backup_route :: route where
  "login_login_with_backup_route = (route_of POST [Lit ''auth'', Lit ''login'', Lit ''backup''])\<lparr>ro_public := True,
     ro_limit := 5, ro_status := 200, ro_documented := Some 200, ro_response := [''AuthenticatedResponseDto'',
     ''TwoFaRequiredResponseDto''], ro_errors := [INVALID_CREDENTIALS, BACKUP_CODE_INVALID, ACCOUNT_DISABLED]\<rparr>"

definition login_refresh_route :: route where
  "login_refresh_route = (route_of POST [Lit ''auth'', Lit ''refresh''])\<lparr>ro_public := True, ro_status := 200,
     ro_documented := Some 200, ro_response := [''AuthenticatedResponseDto'', ''TwoFaRequiredResponseDto''],
     ro_errors := [REFRESH_TOKEN_INVALID]\<rparr>"

definition login_logout_route :: route where
  "login_logout_route = (route_of POST [Lit ''auth'', Lit ''logout''])\<lparr>ro_public := True, ro_status := 204,
     ro_documented := Some 204\<rparr>"

definition login_routes :: "route list" where
  "login_routes = [login_register_route, login_login_route, login_login_with_backup_route, login_refresh_route,
     login_logout_route]"

text \<open>\<open>folder/folder.controller.ts\<close>\<close>

definition folder_get_root_route :: route where
  "folder_get_root_route = (route_of GET [Lit ''folders'', Lit ''root''])\<lparr>ro_documented := Some 200,
     ro_response := [''FolderChildrenResponseDto'']\<rparr>"

definition folder_get_children_route :: route where
  "folder_get_children_route = (route_of GET [Lit ''folders'', Uuid, Lit ''children''])\<lparr>ro_documented := Some 200,
     ro_response := [''FolderChildrenResponseDto''], ro_errors := [FOLDER_NOT_FOUND]\<rparr>"

definition folder_create_route :: route where
  "folder_create_route = (route_of POST [Lit ''folders''])\<lparr>ro_documented := Some 201,
     ro_response := [''FolderItemDto''], ro_errors := [FOLDER_NOT_FOUND, FOLDER_DEPTH_EXCEEDED]\<rparr>"

definition folder_rename_route :: route where
  "folder_rename_route = (route_of PATCH [Lit ''folders'', Uuid])\<lparr>ro_documented := Some 200,
     ro_response := [''FolderItemDto''], ro_errors := [FOLDER_NOT_FOUND]\<rparr>"

definition folder_move_route :: route where
  "folder_move_route = (route_of PATCH [Lit ''folders'', Uuid, Lit ''move''])\<lparr>ro_documented := Some 200,
     ro_response := [''FolderItemDto''], ro_errors := [FOLDER_NOT_FOUND, INVALID_MOVE_TARGET]\<rparr>"

definition folder_remove_route :: route where
  "folder_remove_route = (route_of DELETE [Lit ''folders'', Uuid])\<lparr>ro_status := 204, ro_documented := Some 204,
     ro_errors := [FOLDER_NOT_FOUND]\<rparr>"

definition folder_routes :: "route list" where
  "folder_routes = [folder_get_root_route, folder_get_children_route, folder_create_route, folder_rename_route,
     folder_move_route, folder_remove_route]"

text \<open>\<open>file/file.controller.ts\<close>\<close>

definition file_search_route :: route where
  "file_search_route = (route_of GET [Lit ''files'', Lit ''search''])\<lparr>ro_documented := Some 200,
     ro_response := [''FileSearchResponseDto''], ro_errors := [FOLDER_NOT_FOUND]\<rparr>"

definition file_rename_route :: route where
  "file_rename_route = (route_of PATCH [Lit ''files'', Uuid])\<lparr>ro_documented := Some 200,
     ro_response := [''FileItemDto''], ro_errors := [FILE_NOT_FOUND]\<rparr>"

definition file_move_route :: route where
  "file_move_route = (route_of PATCH [Lit ''files'', Uuid, Lit ''move''])\<lparr>ro_documented := Some 200,
     ro_response := [''FileItemDto''], ro_errors := [FILE_NOT_FOUND, FOLDER_NOT_FOUND]\<rparr>"

definition file_copy_route :: route where
  "file_copy_route = (route_of POST [Lit ''files'', Uuid, Lit ''copy''])\<lparr>ro_documented := Some 201,
     ro_response := [''FileItemDto''], ro_errors := [FILE_NOT_FOUND, FOLDER_NOT_FOUND]\<rparr>"

definition file_remove_route :: route where
  "file_remove_route = (route_of DELETE [Lit ''files'', Uuid])\<lparr>ro_status := 204, ro_documented := Some 204,
     ro_errors := [FILE_NOT_FOUND]\<rparr>"

definition file_routes :: "route list" where
  "file_routes = [file_search_route, file_rename_route, file_move_route, file_copy_route, file_remove_route]"

text \<open>\<open>file/file-upload.controller.ts\<close>\<close>

definition file_upload_init_route :: route where
  "file_upload_init_route = (route_of POST [Lit ''files'', Lit ''upload-init''])\<lparr>ro_documented := Some 201,
     ro_response := [''UploadInitResponseDto''], ro_errors := [FOLDER_NOT_FOUND, FILE_TOO_LARGE]\<rparr>"

definition file_upload_complete_route :: route where
  "file_upload_complete_route = (route_of POST [Lit ''files'', Uuid,
     Lit ''upload-complete''])\<lparr>ro_documented := Some 201, ro_response := [''FileItemDto''],
     ro_errors := [UPLOAD_SESSION_NOT_FOUND, UPLOAD_SESSION_EXPIRED, UPLOAD_OBJECT_MISSING, UPLOAD_SIZE_MISMATCH]\<rparr>"

definition file_upload_routes :: "route list" where
  "file_upload_routes = [file_upload_init_route, file_upload_complete_route]"

text \<open>\<open>file/file-download.controller.ts\<close>\<close>

definition file_download_download_file_route :: route where
  "file_download_download_file_route = (route_of GET [Lit ''files'', Uuid,
     Lit ''download''])\<lparr>ro_documented := Some 200, ro_response := [''binary''], ro_errors := [FILE_NOT_FOUND]\<rparr>"

definition file_download_download_zip_route :: route where
  "file_download_download_zip_route = (route_of POST [Lit ''files'', Lit ''download'',
     Lit ''zip''])\<lparr>ro_documented := Some 200, ro_response := [''binary''], ro_errors := [FILE_NOT_FOUND]\<rparr>"

definition file_download_routes :: "route list" where
  "file_download_routes = [file_download_download_file_route, file_download_download_zip_route]"

text \<open>\<open>trash/trash.controller.ts\<close>\<close>

definition trash_list_route :: route where
  "trash_list_route = (route_of GET [Lit ''trash''])\<lparr>ro_documented := Some 200,
     ro_response := [''TrashListResponseDto'']\<rparr>"

definition trash_restore_route :: route where
  "trash_restore_route = (route_of POST [Lit ''trash'', Uuid, Lit ''restore''])\<lparr>ro_status := 204,
     ro_documented := Some 204, ro_errors := [FILE_NOT_FOUND, FOLDER_NOT_FOUND, PARENT_IN_TRASH]\<rparr>"

definition trash_permanent_delete_route :: route where
  "trash_permanent_delete_route = (route_of DELETE [Lit ''trash'', Uuid])\<lparr>ro_status := 204,
     ro_documented := Some 204, ro_errors := [FILE_NOT_FOUND, FOLDER_NOT_FOUND, PARENT_IN_TRASH]\<rparr>"

definition trash_routes :: "route list" where
  "trash_routes = [trash_list_route, trash_restore_route, trash_permanent_delete_route]"

text \<open>\<open>drive/drive.controller.ts\<close>\<close>

definition drive_get_my_drive_route :: route where
  "drive_get_my_drive_route = (route_of GET [Lit ''drives'', Lit ''me''])\<lparr>ro_documented := Some 200,
     ro_response := [''DriveDto'']\<rparr>"

definition drive_get_drive_route :: route where
  "drive_get_drive_route = (route_of GET [Lit ''drives'', Uuid])\<lparr>ro_documented := Some 200,
     ro_response := [''DriveDto''], ro_errors := [DRIVE_NOT_FOUND, DRIVE_FORBIDDEN]\<rparr>"

definition drive_routes :: "route list" where
  "drive_routes = [drive_get_my_drive_route, drive_get_drive_route]"

text \<open>\<open>mount-credential/mount-credential.controller.ts\<close>\<close>

definition mount_credential_issue_route :: route where
  "mount_credential_issue_route = (route_of POST [Lit ''mount-credentials''])\<lparr>ro_status := 201,
     ro_documented := Some 201, ro_response := [''IssueMountCredentialResponseDto''], ro_errors := [DRIVE_NOT_FOUND,
     DRIVE_FORBIDDEN, MOUNT_CREDENTIAL_DUPLICATE_PROTOCOL, MOUNT_CREDENTIAL_SECRET_WRITE_FAILED, STORAGE_AGENT_UNAVAILABLE,
     STORAGE_AGENT_TARGET_CONFLICT, STORAGE_AGENT_INTERNAL]\<rparr>"

definition mount_credential_list_route :: route where
  "mount_credential_list_route = (route_of GET [Lit ''mount-credentials''])\<lparr>ro_documented := Some 200,
     ro_response := [''MountCredentialDto[]'']\<rparr>"

definition mount_credential_revoke_route :: route where
  "mount_credential_revoke_route = (route_of DELETE [Lit ''mount-credentials'', Uuid])\<lparr>ro_status := 204,
     ro_documented := Some 204, ro_errors := [MOUNT_CREDENTIAL_NOT_FOUND, MOUNT_CREDENTIAL_REVOKED,
     STORAGE_AGENT_UNAVAILABLE, STORAGE_AGENT_INTERNAL]\<rparr>"

definition mount_credential_routes :: "route list" where
  "mount_credential_routes = [mount_credential_issue_route, mount_credential_list_route, mount_credential_revoke_route]"

text \<open>\<open>admin/user-admin.controller.ts\<close>\<close>

definition user_admin_list_route :: route where
  "user_admin_list_route = (route_of GET [Lit ''admin'', Lit ''users''])\<lparr>ro_permissions := Some [''user:read''],
     ro_documented := Some 200, ro_response := [''AdminUserListResponseDto'']\<rparr>"

definition user_admin_routes :: "route list" where
  "user_admin_routes = [user_admin_list_route]"

text \<open>\<open>admin/invitation-admin.controller.ts\<close>\<close>

definition invitation_admin_create_route :: route where
  "invitation_admin_create_route = (route_of POST [Lit ''admin'', Lit ''users'',
     Lit ''invitations''])\<lparr>ro_permissions := Some [''user:invite''], ro_documented := Some 201,
     ro_response := [''InvitationResponseDto'']\<rparr>"

definition invitation_admin_routes :: "route list" where
  "invitation_admin_routes = [invitation_admin_create_route]"

text \<open>The routes in the order in which \<open>AppModule\<close> imports their modules.\<close>

definition routes :: "route list" where
  "routes = health_routes @ user_routes @ device_routes @ trusted_device_routes @ challenge_routes @ totp_routes @
     backup_code_routes @ invitation_routes @ login_routes @ folder_routes @ file_routes @ file_download_routes @
     file_upload_routes @ trash_routes @ drive_routes @ mount_credential_routes @ invitation_admin_routes @ user_admin_routes"

text \<open>The router takes the first route whose pattern fits; a parameter fits any segment.\<close>

fun matches :: "segment list \<Rightarrow> string list \<Rightarrow> bool" where
  "matches [] [] = True"
| "matches (Lit s # ss) (p # ps) = (s = p \<and> matches ss ps)"
| "matches (Uuid # ss) (p # ps) = matches ss ps"
| "matches _ _ = False"

definition find_route :: "http_method \<Rightarrow> string list \<Rightarrow> route option" where
  "find_route m path = find (\<lambda>r. ro_method r = m \<and> matches (ro_path r) path) routes"

fun uuid_params :: "segment list \<Rightarrow> string list \<Rightarrow> bool" where
  "uuid_params (Lit s # ss) (p # ps) = uuid_params ss ps"
| "uuid_params (Uuid # ss) (p # ps) = (is_uuid p \<and> uuid_params ss ps)"
| "uuid_params _ _ = True"

subsection \<open>Guards\<close>

definition unauthorized :: fault where "unauthorized = HttpException 401 ''Unauthorized''"
definition forbidden :: fault where "forbidden = HttpException 403 ''Forbidden''"

text \<open>
  \<open>JwtAuthGuard\<close>: a public route is let through without a user; otherwise passport takes
  the bearer token, which the JWT library verifies (\<open>verify\<close>, with its signature and
  expiry), and the strategy turns its payload into the request's user.
\<close>

definition jwt_guard :: "(string \<Rightarrow> jwt_payload option) \<Rightarrow> route \<Rightarrow> string option \<Rightarrow> fault + auth_user option" where
  "jwt_guard verify r token =
     (if ro_public r then Inr None
      else case token of
        None \<Rightarrow> Inl unauthorized
      | Some t \<Rightarrow> (case verify t of None \<Rightarrow> Inl unauthorized | Some p \<Rightarrow> Inr (Some (jwt_validate p))))"

definition permission_guard :: "route \<Rightarrow> auth_user option \<Rightarrow> fault + unit" where
  "permission_guard r user =
     (if ro_public r then Inr ()
      else if nullish (ro_permissions r) [] = [] then Inr ()
      else if list_all (\<lambda>p. case user of None \<Rightarrow> False | Some u \<Rightarrow> p \<in> set (aus_permissions u)) (nullish (ro_permissions r) [])
        then Inr () else Inl forbidden)"

text \<open>The global guards after the throttler, in their order, and the route of a request.\<close>

definition guards :: "(string \<Rightarrow> jwt_payload option) \<Rightarrow> route \<Rightarrow> string option \<Rightarrow> fault + auth_user option" where
  "guards verify r token =
     (case jwt_guard verify r token of
        Inl e \<Rightarrow> Inl e
      | Inr user \<Rightarrow> (case permission_guard r user of Inl e \<Rightarrow> Inl e | Inr _ \<Rightarrow> Inr user))"

definition admit :: "(string \<Rightarrow> jwt_payload option) \<Rightarrow> http_method \<Rightarrow> string list \<Rightarrow> string option \<Rightarrow>
    fault + (route \<times> auth_user option)" where
  "admit verify m path token =
     (case find_route m path of
        None \<Rightarrow> Inl (HttpException 404 ''Not Found'')
      | Some r \<Rightarrow>
          (case guards verify r token of
             Inl e \<Rightarrow> Inl e
           | Inr user \<Rightarrow> if uuid_params (ro_path r) path then Inr (r, user) else Inl (HttpException 400 ''Bad Request'')))"

subsection \<open>Handlers of the small controllers\<close>

definition user_controller_me :: "auth_user \<Rightarrow> user_dto svc" where
  "user_controller_me user = user_get_current_user (aus_user_id user)"

definition device_controller_list :: "auth_user \<Rightarrow> device_response list svc" where
  "device_controller_list user = device_list (aus_user_id user)"

definition device_controller_register :: "host \<Rightarrow> auth_user \<Rightarrow> string \<Rightarrow> string option \<Rightarrow> unit svc" where
  "device_controller_register H user pushToken userAgent = device_register H (aus_user_id user) pushToken userAgent"

definition device_controller_remove :: "auth_user \<Rightarrow> uuid \<Rightarrow> unit svc" where
  "device_controller_remove user i = device_remove i (aus_user_id user)"

definition trusted_controller_list :: "auth_user \<Rightarrow> trusted_device_response list svc" where
  "trusted_controller_list user = trusted_list (aus_user_id user)"

definition trusted_controller_register :: "host \<Rightarrow> auth_user \<Rightarrow> string option \<Rightarrow> unit svc" where
  "trusted_controller_register H user userAgent =
     andThen (trusted_register H (aus_user_id user) userAgent) (\<lambda>rawToken. set_trust_cookie H rawToken trust_duration_ms)"

definition trusted_controller_revoke :: "auth_user \<Rightarrow> uuid \<Rightarrow> unit svc" where
  "trusted_controller_revoke user i = trusted_revoke i (aus_user_id user)"

definition invitation_controller_validate :: "host \<Rightarrow> uuid \<Rightarrow> bool svc" where
  "invitation_controller_validate H token = invitation_validate H token"

definition invitation_controller_deactivate :: "host \<Rightarrow> uuid \<Rightarrow> unit svc" where
  "invitation_controller_deactivate H token = invitation_deactivate H token"

definition invitation_admin_controller_create :: "host \<Rightarrow> auth_user \<Rightarrow> int option \<Rightarrow> invitation_response svc" where
  "invitation_admin_controller_create H user expiresInDays = invitation_create H (aus_user_id user) expiresInDays"

definition user_admin_controller_list :: "list_users_query \<Rightarrow> admin_user_list svc" where
  "user_admin_controller_list q = user_list_users q"

subsection \<open>Health\<close>

text \<open>
  \<open>health\<close>: the database is up if the ping is answered; the server always is. The answer is
  503 when an indicator is down (the health library's rule).
\<close>

datatype indicator = Up | Down string

definition database_is_healthy :: "fault + unit \<Rightarrow> indicator" where
  "database_is_healthy ping = (case ping of
     Inr _ \<Rightarrow> Up
   | Inl (RawError m) \<Rightarrow> Down m
   | Inl (ExtError c m) \<Rightarrow> Down m
   | Inl (HttpException n m) \<Rightarrow> Down m
   | Inl _ \<Rightarrow> Down ''error'')"

definition server_is_healthy :: indicator where "server_is_healthy = Up"

definition health_check :: "fault + unit \<Rightarrow> (string \<times> indicator) list" where
  "health_check ping = [(''database'', database_is_healthy ping), (''api'', server_is_healthy)]"

end
