(* ===== verification/RouteProps.thy ===== *)
theory RouteProps
  imports Routes
begin

text \<open>
  Properties of the HTTP surface: no route hides another, and what the guards let through.
\<close>

subsection \<open>Dispatch\<close>

text \<open>Whether a path that fits the later pattern, with UUIDs as its parameters, may fit the earlier one.\<close>

fun clash :: "segment list \<Rightarrow> segment list \<Rightarrow> bool" where
  "clash [] [] = True"
| "clash (Lit a # es) (Lit b # ls) = (a = b \<and> clash es ls)"
| "clash (Lit a # es) (Uuid # ls) = (is_uuid a \<and> clash es ls)"
| "clash (Uuid # es) (l # ls) = clash es ls"
| "clash _ _ = False"

lemma matches_clash: "matches l p \<Longrightarrow> uuid_params l p \<Longrightarrow> matches e p \<Longrightarrow> clash e l"
proof (induction e p arbitrary: l rule: matches.induct)
  case (2 s ss p ps)
  then show ?case by (cases l rule: list.exhaust) (auto elim: matches.elims)
next
  case (3 ss p ps)
  then show ?case by (cases l rule: list.exhaust) (auto elim: matches.elims)
qed (auto elim: matches.elims)

fun unshadowed :: "route list \<Rightarrow> bool" where
  "unshadowed [] = True"
| "unshadowed (r # rs) =
     (list_all (\<lambda>s. ro_method r \<noteq> ro_method s \<or> \<not> clash (ro_path r) (ro_path s)) rs \<and> unshadowed rs)"

lemma unshadowed_find:
  assumes "unshadowed rs" and "r \<in> set rs" and "matches (ro_path r) p" and "uuid_params (ro_path r) p"
  shows "find (\<lambda>s. ro_method s = ro_method r \<and> matches (ro_path s) p) rs = Some r"
  using assms(1,2)
proof (induction rs)
  case (Cons s rs)
  show ?case
  proof (cases "s = r")
    case False
    then have "ro_method s \<noteq> ro_method r \<or> \<not> clash (ro_path s) (ro_path r)" using Cons.prems by (auto simp: list_all_iff)
    then have "\<not> (ro_method s = ro_method r \<and> matches (ro_path s) p)" using matches_clash [OF assms(3,4)] by blast
    with Cons False show ?thesis by simp
  qed (simp add: assms(3))
qed simp

lemma routes_unshadowed: "unshadowed routes"
  by code_simp

text \<open>
  No route of the API hides another one: a request with a route's method and a path of
  its shape, with UUIDs for its parameters, is dispatched to that route, whichever routes
  the router tries first.
\<close>

theorem dispatch_finds_route:
  assumes "r \<in> set routes" and "matches (ro_path r) path" and "uuid_params (ro_path r) path"
  shows "find_route (ro_method r) path = Some r"
  using unshadowed_find [OF routes_unshadowed assms] by (simp add: find_route_def)

lemma dispatch_finds_route_witness:
  "find_route PATCH [''folders'', ''00000000-0000-0000-0000-000000000001'', ''move''] = Some folder_move_route \<and>
   find_route GET [''drives'', ''me''] = Some drive_get_my_drive_route"
proof -
  have "folder_move_route \<in> set routes" "drive_get_my_drive_route \<in> set routes"
    by (simp_all add: routes_def folder_routes_def drive_routes_def)
  note r = this
  have "matches (ro_path folder_move_route) [''folders'', ''00000000-0000-0000-0000-000000000001'', ''move'']"
    "uuid_params (ro_path folder_move_route) [''folders'', ''00000000-0000-0000-0000-000000000001'', ''move'']"
    "ro_method folder_move_route = PATCH" by code_simp+
  moreover have "matches (ro_path drive_get_my_drive_route) [''drives'', ''me'']"
    "uuid_params (ro_path drive_get_my_drive_route) [''drives'', ''me'']" "ro_method drive_get_my_drive_route = GET" by code_simp+
  ultimately show ?thesis
    using dispatch_finds_route [OF r(1)] dispatch_finds_route [OF r(2)] by metis
qed

subsection \<open>Access\<close>

definition admin_only :: "route list" where
  "admin_only = [invitation_deactivate_route, invitation_admin_create_route, user_admin_list_route]"

definition open_routes :: "route list" where
  "open_routes = [health_check_route, challenge_get_status_route, challenge_resend_route, challenge_complete_route,
     invitation_validate_route, login_register_route, login_login_route, login_login_with_backup_route,
     login_refresh_route, login_logout_route]"

lemma open_routes_public: "filter ro_public routes = open_routes"
  by code_simp

lemma role_permissions_suffice:
  "list_all (\<lambda>r. list_all (\<lambda>n. list_all (\<lambda>p. p \<in> set (nullish (map_of ROLE_PERMISSIONS n) [])) (nullish (ro_permissions r) []) =
     (\<not> (n = ''USER'' \<and> r \<in> set admin_only))) SYSTEM_ROLES) routes"
  by code_simp

lemma permission_guard_eq:
  "permission_guard r (Some u) =
     (if ro_public r \<or> list_all (\<lambda>p. p \<in> set (aus_permissions u)) (nullish (ro_permissions r) []) then Inr () else Inl forbidden)"
  by (simp add: permission_guard_def)

text \<open>
  C19: of the API's routes exactly ten are open to anyone. The others refuse a request
  without a token, or with one the JWT library rejects, with 401; with the permissions the
  seeded roles have, administrators and the owner pass everywhere, and a plain user
  everywhere except the three administration routes, which answer 403.
\<close>

theorem route_access:
  assumes "r \<in> set routes" and "n \<in> set SYSTEM_ROLES"
    and "verify t = Some p" and "jp_permissions p = map_of ROLE_PERMISSIONS n" and "verify bad = None"
  shows "(ro_public r \<longleftrightarrow> r \<in> set open_routes) \<and>
    guards verify r None = (if r \<in> set open_routes then Inr None else Inl unauthorized) \<and>
    guards verify r (Some bad) = (if r \<in> set open_routes then Inr None else Inl unauthorized) \<and>
    guards verify r (Some t) =
      (if r \<in> set open_routes then Inr None
       else if n = ''USER'' \<and> r \<in> set admin_only then Inl forbidden
       else Inr (Some (jwt_validate p)))"
proof -
  have pub: "ro_public r \<longleftrightarrow> r \<in> set open_routes" using assms(1) unfolding open_routes_public [symmetric] by simp
  have "list_all (\<lambda>p. p \<in> set (nullish (map_of ROLE_PERMISSIONS n) [])) (nullish (ro_permissions r) []) =
     (\<not> (n = ''USER'' \<and> r \<in> set admin_only))"
    using role_permissions_suffice assms(1,2) by (simp add: list_all_iff)
  moreover have "aus_permissions (jwt_validate p) = nullish (map_of ROLE_PERMISSIONS n) []"
    using assms(4) by (simp add: jwt_validate_def)
  ultimately have "permission_guard r (Some (jwt_validate p)) =
      (if ro_public r \<or> \<not> (n = ''USER'' \<and> r \<in> set admin_only) then Inr () else Inl forbidden)"
    unfolding permission_guard_eq by simp
  moreover have "ro_public r \<Longrightarrow> permission_guard r None = Inr ()" by (simp add: permission_guard_def)
  ultimately show ?thesis
    using pub assms(3,5) by (simp add: guards_def jwt_guard_def)
qed

lemma route_access_witness:
  "\<exists>verify p. guards verify user_admin_list_route (Some ''t'') = Inl forbidden \<and>
     guards verify folder_get_root_route (Some ''t'') = Inr (Some (jwt_validate p))"
proof -
  let ?p = "\<lparr>jp_sub = ''ada'', jp_username = ''ada'', jp_permissions = map_of ROLE_PERMISSIONS ''USER''\<rparr>"
  let ?v = "\<lambda>s. if s = ''t'' then Some ?p else None"
  have r: "user_admin_list_route \<in> set routes" "folder_get_root_route \<in> set routes"
    by (simp_all add: routes_def folder_routes_def user_admin_routes_def)
  have n: "''USER'' \<in> set SYSTEM_ROLES" by (simp add: SYSTEM_ROLES_def)
  have ops: "user_admin_list_route \<notin> set open_routes" "folder_get_root_route \<notin> set open_routes"
    "user_admin_list_route \<in> set admin_only" "folder_get_root_route \<notin> set admin_only" by code_simp+
  have "guards ?v user_admin_list_route (Some ''t'') = Inl forbidden"
    using route_access [OF r(1) n, of ?v "''t''" ?p "''x''"] ops by simp
  moreover have "guards ?v folder_get_root_route (Some ''t'') = Inr (Some (jwt_validate ?p))"
    using route_access [OF r(2) n, of ?v "''t''" ?p "''x''"] ops by simp
  ultimately show ?thesis by blast
qed

text \<open>
  The success status each method documents is the one it answers, with one exception: the
  archive download is a POST without \<open>HttpCode\<close>, which answers 201 where 200 is documented.
\<close>

lemma documented_status:
  "list_all (\<lambda>r. ro_documented r = None \<or> ro_documented r = Some (ro_status r) \<or> r = file_download_download_zip_route) routes"
  "ro_documented file_download_download_zip_route = Some 200" "ro_status file_download_download_zip_route = 201"
  by code_simp+

end
