(* ===== verification/UploadProps.thy ===== *)
theory UploadProps
  imports DriveProps "HOL-Library.Sublist"
begin

text \<open>
  What an upload promises: an abstract machine of pending and stored uploads that the
  completion refines, and the clean-up that ends every expired session.
\<close>

subsection \<open>The abstract machine\<close>

record stored_file =
  sf_user_id :: uuid
  sf_folder_id :: "uuid option"
  sf_name :: string
  sf_key :: string
  sf_size :: int
  sf_mime_type :: string

record upload_machine =
  um_pending :: "uuid \<rightharpoonup> upload_session_row"
  um_stored :: "stored_file list"

text \<open>Completing a pending upload of one's own stores it; there is nothing else to complete.\<close>

definition machine_complete :: "uuid \<Rightarrow> uuid \<Rightarrow> upload_machine \<Rightarrow> upload_machine option" where
  "machine_complete u sid m =
     (case um_pending m sid of
        None \<Rightarrow> None
      | Some s \<Rightarrow>
          if us_user_id s \<noteq> u then None
          else Some (m\<lparr>um_pending := (um_pending m)(sid := None),
            um_stored := um_stored m @ [\<lparr>sf_user_id = u, sf_folder_id = us_folder_id s, sf_name = us_name s,
              sf_key = us_minio_key s, sf_size = us_size s, sf_mime_type = us_mime_type s\<rparr>]\<rparr>))"

lemma machine_complete_pending: "machine_complete u sid m = Some m' \<Longrightarrow> um_pending m' sid = None"
  by (auto simp: machine_complete_def split: option.splits if_splits)

definition stored_of :: "file_row \<Rightarrow> stored_file" where
  "stored_of r = \<lparr>sf_user_id = fi_user_id r, sf_folder_id = fi_folder_id r, sf_name = fi_name r, sf_key = fi_minio_key r,
     sf_size = fi_size r, sf_mime_type = fi_mime_type r\<rparr>"

definition machine_of :: "database \<Rightarrow> upload_machine" where
  "machine_of d = \<lparr>um_pending = (\<lambda>i. find (\<lambda>r. us_id r = i) (upload_sessions d)), um_stored = map stored_of (files d)\<rparr>"

lemma find_delete_key:
  "find (\<lambda>r. k r = i) (delete_where (\<lambda>r. k r = j) rs) = (if i = j then None else find (\<lambda>r. k r = i) rs)"
  by (induction rs) auto

text \<open>The object store was asked for the object's size and answered \<open>n\<close>.\<close>

definition stat_said :: "host \<Rightarrow> string \<Rightarrow> int \<Rightarrow> calls \<Rightarrow> bool" where
  "stat_said H k n cs \<longleftrightarrow> (\<exists>pre t old. cs = pre @ (t, S3Stat k) # old \<and> h_stat H old t k = Inr n)"

lemma stat_saidI: "h_stat H old t k = Inr n \<Longrightarrow> stat_said H k n ((t, S3Stat k) # old)"
  unfolding stat_said_def by (intro exI [of _ "[]"] exI [of _ t] exI [of _ old]) simp

text \<open>What a completion has done when it succeeds.\<close>

definition completed :: "host \<Rightarrow> uuid \<Rightarrow> uuid \<Rightarrow> file_item \<Rightarrow> world \<Rightarrow> world \<Rightarrow> bool" where
  "completed H u sid item w w' \<longleftrightarrow>
     (\<exists>s row. find (\<lambda>r. us_id r = sid) (upload_sessions (db w)) = Some s \<and> us_user_id s = u \<and>
        files (db w') = files (db w) @ [row] \<and> item = to_file_item row \<and> fi_soft_deleted_at row = None \<and>
        stored_of row = \<lparr>sf_user_id = u, sf_folder_id = us_folder_id s, sf_name = us_name s, sf_key = us_minio_key s,
          sf_size = us_size s, sf_mime_type = us_mime_type s\<rparr> \<and>
        upload_sessions (db w') = delete_where (\<lambda>r. us_id r = sid) (upload_sessions (db w)) \<and>
        stat_said H (us_minio_key s) (us_size s) (calls w'))"

definition same_db :: "database \<Rightarrow> fault + 'a \<Rightarrow> world \<Rightarrow> bool" where
  "same_db d r v \<longleftrightarrow> (\<forall>x. r = Inr x \<longrightarrow> db v = d)"

lemma upload_expiry_same:
  "wp (if us_expires_at s + GRACE_MS < now
       then andThen (catching (some_result (minio_stat_object H (us_minio_key s))) (\<lambda>_. ret None)) (\<lambda>exist.
         case exist of
           Some _ \<Rightarrow> ret ()
         | None \<Rightarrow> andThen (catching (upload_delete_by_id (us_id s)) (\<lambda>_. ret False)) (\<lambda>_. throw UPLOAD_SESSION_EXPIRED))
       else ret ()) (same_db (db w)) w"
  by (auto simp: same_db_def some_result_def minio_stat_object_def upload_delete_by_id_def wp split: sum.split)

lemma upload_multipart_same:
  "wp (if us_upload_kind s = Multipart
       then (case us_multipart_upload_id s of
           None \<Rightarrow> throw UPLOAD_OBJECT_MISSING
         | Some uploadId \<Rightarrow>
             if uploadId = [] then throw UPLOAD_OBJECT_MISSING
             else minio_complete_multipart_upload H (us_minio_key s) uploadId parts)
       else ret ()) (same_db (db w)) w"
  by (auto simp: same_db_def minio_complete_multipart_upload_def wp split: option.split)

lemma upload_stat:
  "wp (catching (some_result (minio_stat_object H k)) (\<lambda>err. if is_no_such_key err then ret None else raise err))
     (\<lambda>r v. \<forall>n. r = Inr (Some n) \<longrightarrow> db v = db w \<and> (\<exists>t cs. calls v = (t, S3Stat k) # cs \<and> h_stat H cs t k = Inr n)) w"
  by (auto simp: some_result_def minio_stat_object_def wp split: sum.split)

lemma file_insert_Inr:
  "wp (file_insert H u f n k sz m) (\<lambda>r v. \<forall>row. r = Inr row \<longrightarrow>
     db v = (db w)\<lparr>files := files (db w) @ [row]\<rparr> \<and> calls v = calls w \<and> fi_soft_deleted_at row = None \<and>
     stored_of row = \<lparr>sf_user_id = u, sf_folder_id = f, sf_name = n, sf_key = k, sf_size = sz, sf_mime_type = m\<rparr>) w"
  by (simp add: file_insert_def wp Let_def stored_of_def)

lemma upload_body_completed:
  "wp (upload_body H u sid parts) (\<lambda>r v. \<forall>item. r = Inr item \<longrightarrow> completed H u sid item w v) w"
proof (cases "find (\<lambda>r. us_id r = sid) (upload_sessions (db w))")
  case None
  then show ?thesis by (simp add: upload_body_def upload_find_by_id_for_update_def wp)
next
  case (Some s)
  let ?Q = "\<lambda>r v. \<forall>item. r = Inr item \<longrightarrow> completed H u sid item w v"
  have sid: "us_id s = sid" using find_Some_set [OF Some] by simp
  have last: "wp (andThen (file_insert H u (us_folder_id s) (us_name s) (us_minio_key s) (us_size s) (us_mime_type s)) (\<lambda>row.
      andThen (upload_delete_by_id (us_id s)) (\<lambda>_. ret (to_file_item row)))) ?Q v"
    if "us_user_id s = u" "db v = db w" "calls v = (t, S3Stat (us_minio_key s)) # cs" "h_stat H cs t (us_minio_key s) = Inr (us_size s)"
    for v :: world and t cs
  proof (rule wp_step [OF file_insert_Inr])
    fix row :: file_row and v' :: world
    assume "\<forall>row'. Inr row = Inr row' \<longrightarrow> db v' = (db v)\<lparr>files := files (db v) @ [row']\<rparr> \<and> calls v' = calls v \<and>
      fi_soft_deleted_at row' = None \<and> stored_of row' = \<lparr>sf_user_id = u, sf_folder_id = us_folder_id s, sf_name = us_name s,
        sf_key = us_minio_key s, sf_size = us_size s, sf_mime_type = us_mime_type s\<rparr>"
    with that Some sid show "wp (andThen (upload_delete_by_id (us_id s)) (\<lambda>_. ret (to_file_item row))) ?Q v'"
      by (auto simp: upload_delete_by_id_def wp completed_def stat_saidI intro!: exI [of _ s])
  qed simp
  have stat: "wp (andThen (catching (some_result (minio_stat_object H (us_minio_key s)))
      (\<lambda>err. if is_no_such_key err then ret None else raise err)) (\<lambda>stat. case stat of
        None \<Rightarrow> throw UPLOAD_OBJECT_MISSING
      | Some statSize \<Rightarrow>
          if statSize \<noteq> us_size s
          then andThen (catching (minio_remove_object H (us_minio_key s)) (\<lambda>_. ret ())) (\<lambda>_.
               andThen (catching (upload_delete_by_id (us_id s)) (\<lambda>_. ret False)) (\<lambda>_. throw UPLOAD_SIZE_MISMATCH))
          else andThen (file_insert H u (us_folder_id s) (us_name s) (us_minio_key s) (us_size s) (us_mime_type s)) (\<lambda>row.
               andThen (upload_delete_by_id (us_id s)) (\<lambda>_. ret (to_file_item row))))) ?Q v"
    if "us_user_id s = u" "db v = db w" for v :: world
  proof (rule wp_step [OF upload_stat])
    fix x :: "int option" and v' :: world assume x: "\<forall>n. Inr x = Inr (Some n) \<longrightarrow> db v' = db v \<and>
      (\<exists>t cs. calls v' = (t, S3Stat (us_minio_key s)) # cs \<and> h_stat H cs t (us_minio_key s) = Inr n)"
    show "wp (case x of None \<Rightarrow> throw UPLOAD_OBJECT_MISSING | Some statSize \<Rightarrow>
          if statSize \<noteq> us_size s
          then andThen (catching (minio_remove_object H (us_minio_key s)) (\<lambda>_. ret ())) (\<lambda>_.
               andThen (catching (upload_delete_by_id (us_id s)) (\<lambda>_. ret False)) (\<lambda>_. throw UPLOAD_SIZE_MISMATCH))
          else andThen (file_insert H u (us_folder_id s) (us_name s) (us_minio_key s) (us_size s) (us_mime_type s)) (\<lambda>row.
               andThen (upload_delete_by_id (us_id s)) (\<lambda>_. ret (to_file_item row)))) ?Q v'"
    proof (cases x)
      case None
      then show ?thesis by (simp add: wp)
    next
      case (Some n)
      have mismatch: "wp (andThen (catching (minio_remove_object H (us_minio_key s)) (\<lambda>_. ret ())) (\<lambda>_.
               andThen (catching (upload_delete_by_id (us_id s)) (\<lambda>_. ret False)) (\<lambda>_. throw UPLOAD_SIZE_MISMATCH))) ?Q v'"
        by (simp add: minio_remove_object_def upload_delete_by_id_def wp split: sum.split)
      from Some x that obtain t cs where "db v' = db w" "calls v' = (t, S3Stat (us_minio_key s)) # cs"
        "h_stat H cs t (us_minio_key s) = Inr n" by auto
      with last [OF that(1) this(1,2)] Some mismatch show ?thesis by simp
    qed
  qed simp
  show ?thesis
  proof (cases "us_user_id s = u")
    case False
    with Some show ?thesis by (simp add: upload_body_def upload_find_by_id_for_update_def wp)
  next
    case True
    let ?w = "w\<lparr>draws := Suc (draws w)\<rparr>"
    have multi: "wp (andThen (if us_upload_kind s = Multipart
       then (case us_multipart_upload_id s of
           None \<Rightarrow> throw UPLOAD_OBJECT_MISSING
         | Some uploadId \<Rightarrow>
             if uploadId = [] then throw UPLOAD_OBJECT_MISSING
             else minio_complete_multipart_upload H (us_minio_key s) uploadId parts)
       else ret ()) (\<lambda>_. f)) ?Q v" if "db v = db w" "\<And>v. db v = db w \<Longrightarrow> wp f ?Q v" for f and v :: world
      by (rule wp_step [OF upload_multipart_same]) (use that in \<open>auto simp: same_db_def\<close>)
    show ?thesis
      unfolding upload_body_def upload_find_by_id_for_update_def wp_then Some option.case if_not_P [OF not_not [THEN iffD2, OF True]]
      by (rule wp_step [OF upload_expiry_same], simp, rule multi, simp add: same_db_def, rule stat [OF True])
  qed
qed

text \<open>
  C24: completing an upload refines the abstract machine. A success is a step of it: the
  session was pending and the user's own, it is pending no more, exactly one live file with
  the session's folder, name, key, size and type has been added, and the object store has
  reported that very size for the object. A failure, at whatever point, leaves the machine
  as it was.
\<close>

theorem upload_complete_refines:
  assumes "upload_complete H u sid parts w = (r, w')" and "\<not> in_tx w"
  shows "case r of
      Inl _ \<Rightarrow> machine_of (db w') = machine_of (db w)
    | Inr item \<Rightarrow> machine_complete u sid (machine_of (db w)) = Some (machine_of (db w')) \<and> completed H u sid item w w'"
proof (cases r)
  case (Inl e)
  with assms have "db w' = db w" unfolding upload_complete_def by (auto intro: run_in_tx_rollback)
  with Inl show ?thesis by simp
next
  case (Inr item)
  with assms(1) obtain v where v: "upload_body H u sid parts (w\<lparr>in_tx := True\<rparr>) = (Inr item, v)"
    "db w' = db v" "calls w' = calls v"
    unfolding upload_complete_def by (auto elim: run_in_tx_Inr)
  have "completed H u sid item (w\<lparr>in_tx := True\<rparr>) v" using wp_use [OF v(1) upload_body_completed] by simp
  then have all: "completed H u sid item w w'" using v(2,3) by (simp add: completed_def)
  then obtain s row where s: "find (\<lambda>r. us_id r = sid) (upload_sessions (db w)) = Some s" "us_user_id s = u"
    "files (db w') = files (db w) @ [row]" "stored_of row = \<lparr>sf_user_id = u, sf_folder_id = us_folder_id s, sf_name = us_name s,
        sf_key = us_minio_key s, sf_size = us_size s, sf_mime_type = us_mime_type s\<rparr>"
    "upload_sessions (db w') = delete_where (\<lambda>r. us_id r = sid) (upload_sessions (db w))"
    unfolding completed_def by blast
  have "(\<lambda>i. find (\<lambda>r. us_id r = i) (delete_where (\<lambda>r. us_id r = sid) (upload_sessions (db w)))) =
      (\<lambda>i. find (\<lambda>r. us_id r = i) (upload_sessions (db w)))(sid := None)"
    by (rule ext) (simp add: find_delete_key)
  with s have "machine_complete u sid (machine_of (db w)) = Some (machine_of (db w'))"
    by (simp add: machine_complete_def machine_of_def)
  with Inr all show ?thesis by simp
qed

definition demo_session :: upload_session_row where
  "demo_session = \<lparr>us_id = ''s'', us_user_id = ''ada'', us_folder_id = None, us_name = ''n'', us_size = 10,
     us_mime_type = ''m'', us_minio_key = ''k'', us_upload_kind = Single, us_multipart_upload_id = None,
     us_expires_at = 100, us_created_at = 0\<rparr>"

lemma upload_complete_refines_witness:
  "\<exists>item w'. upload_complete demo_host ''ada'' ''s'' [(1, ''e'')] (demo_world (empty_db\<lparr>users := [demo_user],
     upload_sessions := [demo_session]\<rparr>)) = (Inr item, w') \<and> um_pending (machine_of (db w')) ''s'' = None"
proof -
  let ?w = "demo_world (empty_db\<lparr>users := [demo_user], upload_sessions := [demo_session]\<rparr>)"
  have "\<exists>item. fst (upload_complete demo_host ''ada'' ''s'' [(1, ''e'')] ?w) = Inr item"
    by (simp add: upload_complete_def upload_body_def upload_find_by_id_for_update_def demo_session_def run_in_tx_def tx_current_def
        db_transaction_def tx_run_def GRACE_MS_def some_result_def minio_stat_object_def file_insert_def upload_delete_by_id_def
        user_exists_def folder_exists_def demo_user_def andThen_def catching_def svc_run draw_run call_run Let_def)
  then obtain item w' where run: "upload_complete demo_host ''ada'' ''s'' [(1, ''e'')] ?w = (Inr item, w')"
    by (metis eq_fst_iff)
  from upload_complete_refines [OF run] have "machine_complete ''ada'' ''s'' (machine_of (db ?w)) = Some (machine_of (db w'))"
    by simp
  then have "um_pending (machine_of (db w')) ''s'' = None" by (rule machine_complete_pending)
  with run show ?thesis by blast
qed

subsection \<open>The clean-up\<close>

definition expired_at :: "millis \<Rightarrow> upload_session_row \<Rightarrow> bool" where
  "expired_at t s \<longleftrightarrow> us_expires_at s + GRACE_MS < t"

lemma upload_delete_run:
  "upload_delete_by_id i w = (Inr (\<exists>r\<in>set (upload_sessions (db w)). us_id r = i),
     w\<lparr>db := (db w)\<lparr>upload_sessions := delete_where (\<lambda>r. us_id r = i) (upload_sessions (db w))\<rparr>\<rparr>)"
  by (auto simp: upload_delete_by_id_def andThen_def svc_run filter_empty_conv)

lemma counted_run:
  assumes "db (snd (m w)) = db w" and "draws w \<le> draws (snd (m w))"
  shows "\<exists>k v. counted m n w = (Inr k, v) \<and> db v = db w \<and> draws w \<le> draws v"
proof -
  obtain r v where "m w = (r, v)" by fastforce
  with assms show ?thesis by (cases r) (auto simp: counted_def andThen_def catching_def svc_run)
qed

lemma delete_where_twice: "delete_where p (delete_where q rs) = delete_where (\<lambda>r. q r \<or> p r) rs"
  by (simp add: delete_where_def)

lemma cleanup_loop_run:
  "\<exists>a b v. cleanup_loop H ss n m w = (Inr (a, b), v) \<and>
     upload_sessions (db v) = delete_where (\<lambda>r. us_id r \<in> us_id ` set ss) (upload_sessions (db w)) \<and> draws w \<le> draws v"
proof (induction ss arbitrary: n m w)
  case Nil
  then show ?case by (simp add: svc_run delete_where_def)
next
  case (Cons s ss)
  have "\<exists>k v. (if us_upload_kind s = Multipart \<and> truthy (us_multipart_upload_id s)
        then counted (minio_abort_multipart_upload H (us_minio_key s) (the (us_multipart_upload_id s))) n else ret n) w = (Inr k, v) \<and> db v = db w \<and> draws w \<le> draws v"
    by (auto simp: svc_run minio_abort_multipart_upload_def call_run intro!: counted_run)
  then obtain k v where 1: "(if us_upload_kind s = Multipart \<and> truthy (us_multipart_upload_id s)
        then counted (minio_abort_multipart_upload H (us_minio_key s) (the (us_multipart_upload_id s))) n else ret n) w = (Inr k, v)" "db v = db w" "draws w \<le> draws v"
    by blast
  obtain k2 v2 where 2: "counted (minio_remove_object H (us_minio_key s)) m v = (Inr k2, v2)" "db v2 = db v" "draws v \<le> draws v2"
    using counted_run [of "minio_remove_object H (us_minio_key s)" v m] by (auto simp: minio_remove_object_def call_run)
  obtain x v3 where 3: "upload_delete_by_id (us_id s) v2 = (Inr x, v3)" "draws v3 = draws v2"
    "upload_sessions (db v3) = delete_where (\<lambda>r. us_id r = us_id s) (upload_sessions (db v2))"
    by (simp add: upload_delete_run)
  from Cons.IH [of k k2 v3] obtain a b v4 where 4: "cleanup_loop H ss k k2 v3 = (Inr (a, b), v4)" "draws v3 \<le> draws v4"
    "upload_sessions (db v4) = delete_where (\<lambda>r. us_id r \<in> us_id ` set ss) (upload_sessions (db v3))" by blast
  have "cleanup_loop H (s # ss) n m w = (Inr (a, b), v4)"
    by (simp only: cleanup_loop.simps andThen_def 1 2 3 4 prod.case sum.case)
  moreover have "upload_sessions (db v4) = delete_where (\<lambda>r. us_id r \<in> us_id ` set (s # ss)) (upload_sessions (db w))"
    by (simp add: 1(2) 2(2) 3(3) 4(3) delete_where_twice)
  moreover have "draws w \<le> draws v4" using 1(3) 2(3) 3(2) 4(2) by simp
  ultimately show ?case by blast
qed

text \<open>One tick always succeeds: it takes up to 500 sessions that have expired by its clock, and deletes them.\<close>

lemma cleanup_tick:
  "\<exists>w'. cleanup_worker_process H w = (Inr (), w') \<and> upload_sessions (db w') =
     delete_where (\<lambda>r. us_id r \<in> us_id ` set (take 500 (filter (expired_at (h_clock H (draws w))) (upload_sessions (db w)))))
       (upload_sessions (db w)) \<and> draws w \<le> draws w'"
proof -
  let ?ss = "take 500 (filter (expired_at (h_clock H (draws w))) (upload_sessions (db w)))"
  let ?w = "w\<lparr>draws := Suc (draws w)\<rparr>"
  have found: "upload_find_expired_for_cleanup H GRACE_MS CLEANUP_BATCH_SIZE w = (Inr ?ss, ?w)"
    by (simp add: upload_find_expired_for_cleanup_def andThen_def svc_run draw_run CLEANUP_BATCH_SIZE_def expired_at_def [abs_def])
  from cleanup_loop_run [of H ?ss 0 0 ?w] obtain a b v where "cleanup_loop H ?ss 0 0 ?w = (Inr (a, b), v)"
    "upload_sessions (db v) = delete_where (\<lambda>r. us_id r \<in> us_id ` set ?ss) (upload_sessions (db ?w))" "draws ?w \<le> draws v" by blast
  with found show ?thesis
    by (simp add: cleanup_worker_process_def upload_cleanup_expired_def andThen_run svc_run)
qed

lemma taken_bound:
  assumes "\<And>x. x \<in> set (take n (filter E xs)) \<Longrightarrow> Q x"
  shows "length (delete_where Q xs) + min n (length (filter E xs)) \<le> length xs"
proof -
  have "subseq (take n (filter E xs)) xs"
    by (meson prefix_imp_subseq subseq_filter_left subseq_order.trans take_is_prefix)
  then have "subseq (filter Q (take n (filter E xs))) (filter Q xs)" by (rule subseq_filter)
  moreover have "filter Q (take n (filter E xs)) = take n (filter E xs)" using assms by (simp add: filter_id_conv)
  ultimately have "length (take n (filter E xs)) \<le> length (filter Q xs)" using list_emb_length by fastforce
  then have "length (filter (\<lambda>x. \<not> Q x) xs) + min n (length (filter E xs)) \<le> length (filter (\<lambda>x. \<not> Q x) xs) + length (filter Q xs)"
    by simp
  also have "\<dots> = length xs" using sum_length_filter_compl [of Q xs] by simp
  finally show ?thesis by (simp add: delete_where_def)
qed

definition ticks :: "host \<Rightarrow> nat \<Rightarrow> world \<Rightarrow> world" where
  "ticks H k w = ((\<lambda>w. snd (cleanup_worker_process H w)) ^^ k) w"

lemma ticks_Suc: "ticks H (Suc k) w = ticks H k (snd (cleanup_worker_process H w))"
  by (simp add: ticks_def funpow_Suc_right del: funpow.simps)

lemma tick_subset: "set (upload_sessions (db (snd (cleanup_worker_process H w)))) \<subseteq> set (upload_sessions (db w))"
  using cleanup_tick [of H w] by auto

lemma ticks_subset: "set (upload_sessions (db (ticks H k w))) \<subseteq> set (upload_sessions (db w))"
proof (induction k arbitrary: w)
  case (Suc k)
  then show ?case unfolding ticks_Suc using tick_subset by blast
qed (simp add: ticks_def)

lemma tick_progress:
  assumes "t \<le> h_clock H (draws w)"
  shows "(\<forall>s\<in>set (upload_sessions (db (snd (cleanup_worker_process H w)))). \<not> expired_at t s) \<or>
    length (upload_sessions (db (snd (cleanup_worker_process H w)))) + 500 \<le> length (upload_sessions (db w))"
proof -
  let ?xs = "upload_sessions (db w)" and ?E = "expired_at (h_clock H (draws w))"
  let ?Q = "\<lambda>r. us_id r \<in> us_id ` set (take 500 (filter ?E ?xs))"
  obtain w' where w': "cleanup_worker_process H w = (Inr (), w')" "upload_sessions (db w') = delete_where ?Q ?xs"
    using cleanup_tick by blast
  show ?thesis
  proof (cases "length (filter ?E ?xs) < 500")
    case True
    then have "take 500 (filter ?E ?xs) = filter ?E ?xs" by simp
    then have "\<not> ?E s" if "s \<in> set (delete_where ?Q ?xs)" for s using that by auto
    moreover have "?E s" if "expired_at t s" for s using that assms by (simp add: expired_at_def)
    ultimately have "\<not> expired_at t s" if "s \<in> set (delete_where ?Q ?xs)" for s using that by blast
    with w' show ?thesis by simp
  next
    case False
    have "length (delete_where ?Q ?xs) + min 500 (length (filter ?E ?xs)) \<le> length ?xs"
      by (rule taken_bound [of 500 ?E ?xs ?Q]) blast
    with False have "length (delete_where ?Q ?xs) + 500 \<le> length ?xs" by linarith
    with w' show ?thesis by simp
  qed
qed

text \<open>
  C25: no expired upload lingers: whatever the object store answers, the clean-up's ticks
  never fail, and after one tick for every 500 sessions there were, none is left that had
  expired, with its grace time, when they began.
\<close>

theorem cleanup_ends_expired_sessions:
  assumes "\<forall>n\<ge>draws w. t \<le> h_clock H n" and "length (upload_sessions (db w)) \<le> 500 * k"
  shows "fst (cleanup_worker_process H v) = Inr () \<and>
    (\<forall>s\<in>set (upload_sessions (db (ticks H k w))). \<not> us_expires_at s + GRACE_MS < t)"
proof -
  have draws_le: "draws w \<le> draws (snd (cleanup_worker_process H w))" for w
    using cleanup_tick [of H w] by auto
  have "\<forall>n\<ge>draws w. t \<le> h_clock H n \<Longrightarrow> length (upload_sessions (db w)) \<le> 500 * k \<Longrightarrow>
      \<forall>s\<in>set (upload_sessions (db (ticks H k w))). \<not> expired_at t s" for w
  proof (induction k arbitrary: w)
    case 0
    then show ?case by (simp add: ticks_def)
  next
    case (Suc k)
    let ?w = "snd (cleanup_worker_process H w)"
    from Suc.prems(1) have "t \<le> h_clock H (draws w)" by simp
    from tick_progress [OF this] show ?case
    proof
      assume "\<forall>s\<in>set (upload_sessions (db ?w)). \<not> expired_at t s"
      then show ?thesis unfolding ticks_Suc using ticks_subset by blast
    next
      assume "length (upload_sessions (db ?w)) + 500 \<le> length (upload_sessions (db w))"
      with Suc.prems Suc.IH [of ?w] draws_le [of w] show ?thesis unfolding ticks_Suc by auto
    qed
  qed
  with assms cleanup_tick [of H v] show ?thesis by (auto simp: expired_at_def)
qed

lemma cleanup_ends_expired_sessions_witness:
  "\<not> list_ex (\<lambda>s. us_expires_at s + GRACE_MS < 40000) (upload_sessions (db (ticks (demo_host\<lparr>h_clock := \<lambda>_. 40000\<rparr>) 1
     (demo_world (empty_db\<lparr>users := [demo_user], upload_sessions := [demo_session]\<rparr>)))))"
  using cleanup_ends_expired_sessions [of "demo_world (empty_db\<lparr>users := [demo_user], upload_sessions := [demo_session]\<rparr>)"
      40000 "demo_host\<lparr>h_clock := \<lambda>_. 40000\<rparr>" 1] by (simp add: list_ex_iff)

end
