(* ===== verification/Logging.thy ===== *)
theory Logging
  imports Files
begin

text \<open>
  \<open>logger\<close>: masking of personal data in what is logged, the trace a request collects, the
  wrapper around service methods that fills it, and the flusher that writes it out.
\<close>

subsection \<open>JavaScript values\<close>

text \<open>
  A value is a primitive or a reference to an object in a heap, as objects may be shared or
  contain themselves. An object has its own enumerable properties in the order of
  \<open>Object.keys\<close> and, if it has a \<open>toJSON\<close> method, what that returns. Numbers are integers;
  functions, symbols and big integers do not occur in what is logged.
\<close>

type_synonym addr = nat

datatype js = JUndefined | JNull | JBool bool | JNum int | JStr string | JRef addr

datatype js_object = JArray "js list" | JObject "(string \<times> js) list" "js option"

type_synonym heap = "addr \<Rightarrow> js_object"

text \<open>What the masker builds is a tree.\<close>

datatype json = Undefined | Null | Bool bool | Num int | Str string | Arr "json list" | Obj "(string \<times> json) list"

subsection \<open>\<open>trace.limits.ts\<close>\<close>

definition MAX_SPANS :: nat where "MAX_SPANS = 1000"
definition MAX_ARG_SIZE_BYTES :: nat where "MAX_ARG_SIZE_BYTES = 8 * 1024"
definition MAX_SQL_PARAM_SIZE_BYTES :: nat where "MAX_SQL_PARAM_SIZE_BYTES = 1024"
definition MAX_DETAIL_SIZE_BYTES :: nat where "MAX_DETAIL_SIZE_BYTES = 256 * 1024"
definition MAX_MASK_DEPTH :: nat where "MAX_MASK_DEPTH = 10"

subsection \<open>\<open>JSON.stringify\<close>\<close>

definition json_char :: "char \<Rightarrow> string" where
  "json_char c =
     (if c = CHR 0x22 then [CHR 0x5C, CHR 0x22]
      else if c = CHR 0x5C then [CHR 0x5C, CHR 0x5C]
      else if c = CHR 0x08 then [CHR 0x5C, CHR ''b'']
      else if c = CHR 0x0C then [CHR 0x5C, CHR ''f'']
      else if c = CHR 0x0A then [CHR 0x5C, CHR ''n'']
      else if c = CHR 0x0D then [CHR 0x5C, CHR ''r'']
      else if c = CHR 0x09 then [CHR 0x5C, CHR ''t'']
      else if of_char c < (0x20 :: nat) then CHR 0x5C # ''u00'' @
        [''0123456789abcdef'' ! (of_char c div 16), ''0123456789abcdef'' ! (of_char c mod 16)]
      else [c])"

definition json_string :: "string \<Rightarrow> string" where
  "json_string s = CHR 0x22 # concat (map json_char s) @ [CHR 0x22]"

text \<open>\<open>undefined\<close> is left out of an object, is \<open>null\<close> in an array, and nothing at the top.\<close>

fun json_text :: "json \<Rightarrow> string option" where
  "json_text Undefined = None"
| "json_text Null = Some ''null''"
| "json_text (Bool b) = Some (if b then ''true'' else ''false'')"
| "json_text (Num i) = Some (int_to_string i)"
| "json_text (Str s) = Some (json_string s)"
| "json_text (Arr vs) = Some (''['' @ join_with '','' (map (\<lambda>v. nullish (json_text v) ''null'') vs) @ '']'')"
| "json_text (Obj kvs) = Some (''{'' @ join_with '','' (concat (map (\<lambda>(k, v). case json_text v of
       None \<Rightarrow> [] | Some t \<Rightarrow> [json_string k @ '':'' @ t]) kvs)) @ ''}'')"

subsection \<open>\<open>pii-masker.ts\<close>\<close>

definition MASK_KEYS :: "string list" where
  "MASK_KEYS = [''password'', ''currentpassword'', ''newpassword'', ''token'', ''accesstoken'', ''refreshtoken'',
     ''secret'', ''apikey'', ''authorization'', ''totpsecret'', ''otp'']"

definition CIRCULAR :: string where "CIRCULAR = ''<circular>''"
definition DEEP :: string where "DEEP = ''<deep>''"
definition MASK :: string where "MASK = ''***''"

definition is_masked_key :: "string \<Rightarrow> bool" where
  "is_masked_key k \<longleftrightarrow> lower k \<in> set MASK_KEYS"

fun primitive :: "js \<Rightarrow> json" where
  "primitive JUndefined = Undefined"
| "primitive JNull = Null"
| "primitive (JBool b) = Bool b"
| "primitive (JNum i) = Num i"
| "primitive (JStr s) = Str s"
| "primitive (JRef a) = Undefined"

text \<open>The keys and values \<open>Object.keys\<close> finds on an object; those of an array are its indices.\<close>

definition own_entries :: "js_object \<Rightarrow> (string \<times> js) list" where
  "own_entries ob = (case ob of
     JObject kvs _ \<Rightarrow> kvs
   | JArray vs \<Rightarrow> zip (map nat_to_string [0..<length vs]) vs)"

text \<open>
  \<open>walk\<close> with the fuel \<open>n\<close> = \<open>MAX_MASK_DEPTH - depth\<close>; \<open>seen\<close> is threaded through in the
  order the elements and properties are visited. An object whose \<open>toJSON\<close> returns a
  primitive is that primitive; one whose \<open>toJSON\<close> returns an object is taken for the object
  returned, whose own \<open>toJSON\<close> is not called.
\<close>

fun walk :: "heap \<Rightarrow> nat \<Rightarrow> js \<Rightarrow> addr set \<Rightarrow> json \<times> addr set"
  and walk_list :: "heap \<Rightarrow> nat \<Rightarrow> js list \<Rightarrow> addr set \<Rightarrow> json list \<times> addr set"
  and walk_entries :: "heap \<Rightarrow> nat \<Rightarrow> (string \<times> js) list \<Rightarrow> addr set \<Rightarrow> (string \<times> json) list \<times> addr set" where
  "walk h 0 v seen = (case v of JRef a \<Rightarrow> (Str DEEP, seen) | _ \<Rightarrow> (primitive v, seen))"
| "walk h (Suc n) v seen = (case v of
     JRef a \<Rightarrow>
       if a \<in> seen then (Str CIRCULAR, seen)
       else (case h a of
           JArray vs \<Rightarrow> (case walk_list h n vs (insert a seen) of (ts, s) \<Rightarrow> (Arr ts, s))
         | JObject kvs toJSON \<Rightarrow> (case toJSON of
             Some (JRef b) \<Rightarrow> (case walk_entries h n (own_entries (h b)) (insert a seen) of (ts, s) \<Rightarrow> (Obj ts, s))
           | Some p \<Rightarrow> (primitive p, insert a seen)
           | None \<Rightarrow> (case walk_entries h n kvs (insert a seen) of (ts, s) \<Rightarrow> (Obj ts, s))))
   | _ \<Rightarrow> (primitive v, seen))"
| "walk_list h n [] seen = ([], seen)"
| "walk_list h n (v # vs) seen =
     (case walk h n v seen of (t, s) \<Rightarrow> (case walk_list h n vs s of (ts, s') \<Rightarrow> (t # ts, s')))"
| "walk_entries h n [] seen = ([], seen)"
| "walk_entries h n ((k, v) # kvs) seen =
     (if is_masked_key k
      then (case walk_entries h n kvs seen of (ts, s) \<Rightarrow> ((k, Str MASK) # ts, s))
      else (case walk h n v seen of (t, s) \<Rightarrow> (case walk_entries h n kvs s of (ts, s') \<Rightarrow> ((k, t) # ts, s'))))"

definition truncated_mark :: "nat \<Rightarrow> string" where
  "truncated_mark n = ''<truncated:size='' @ nat_to_string n @ ''>''"

definition mask_value :: "heap \<Rightarrow> js \<Rightarrow> nat \<Rightarrow> json" where
  "mask_value h v sizeLimitBytes =
     (let masked = fst (walk h MAX_MASK_DEPTH v {}) in
      case json_text masked of
        Some t \<Rightarrow> if sizeLimitBytes < length t then Str (truncated_mark (length t)) else masked
      | None \<Rightarrow> masked)"

subsection \<open>\<open>trace.type.ts\<close>, \<open>request-trace-context.ts\<close>\<close>

datatype trace_outcome = Ok | Api_exception | Unhandled

record span_error =
  se_code :: "string option"
  se_message :: "string option"

record service_span =
  sp_class :: string
  sp_method :: string
  sp_started_at :: millis
  sp_duration_ms :: "int option"
  sp_replay :: bool
  sp_args :: json
  sp_result :: json
  sp_error :: "span_error option"

record sql_span =
  sq_sql :: string
  sq_params :: "json list"
  sq_started_at :: millis

datatype span = ServiceSpan service_span | SqlSpan sql_span

record trace_context =
  tc_req_id :: string
  tc_user_id :: "string option"
  tc_route :: string
  tc_spans :: "span list"
  tc_started_at :: millis
  tc_dropped_spans :: nat

definition push_span :: "span \<Rightarrow> trace_context \<Rightarrow> trace_context" where
  "push_span s ctx =
     (if MAX_SPANS \<le> length (tc_spans ctx) then ctx\<lparr>tc_dropped_spans := Suc (tc_dropped_spans ctx)\<rparr>
      else ctx\<lparr>tc_spans := tc_spans ctx @ [s]\<rparr>)"

subsection \<open>\<open>drizzle-query-logger.ts\<close>\<close>

definition log_query :: "heap \<Rightarrow> millis \<Rightarrow> string \<Rightarrow> js list \<Rightarrow> trace_context option \<Rightarrow>
    ((json list \<times> string) \<times> trace_context option)" where
  "log_query h now q params ctx =
     (let maskedParams = map (\<lambda>p. mask_value h p MAX_SQL_PARAM_SIZE_BYTES) params in
      ((maskedParams, q),
       map_option (push_span (SqlSpan \<lparr>sq_sql = q, sq_params = maskedParams, sq_started_at = now\<rparr>)) ctx))"

subsection \<open>\<open>service-method-wrapper.ts\<close>\<close>

definition LIFECYCLE_METHODS :: "string list" where
  "LIFECYCLE_METHODS = [''onModuleInit'', ''onApplicationBootstrap'', ''onModuleDestroy'', ''onApplicationShutdown'',
     ''beforeApplicationShutdown'']"

record method_desc =
  me_name :: string
  me_is_function :: bool
  me_skip_trace :: bool
  me_wrapped :: bool
  me_replay :: "bool option"

text \<open>Which of the own properties of a prototype are replaced by their wrapped version.\<close>

definition wraps :: "method_desc \<Rightarrow> bool" where
  "wraps m \<longleftrightarrow> me_name m \<noteq> ''constructor'' \<and> take 1 (me_name m) \<noteq> ''_'' \<and> me_name m \<notin> set LIFECYCLE_METHODS \<and>
     me_is_function m \<and> \<not> me_skip_trace m \<and> \<not> me_wrapped m"

definition wrap_instance :: "method_desc list \<Rightarrow> method_desc list" where
  "wrap_instance ms = map (\<lambda>m. if wraps m then m\<lparr>me_wrapped := True\<rparr> else m) ms"

definition fault_code_text :: "fault \<Rightarrow> string option" where
  "fault_code_text e = (case e of PgError c _ \<Rightarrow> Some c | ExtError c _ \<Rightarrow> Some c | _ \<Rightarrow> None)"

text \<open>
  A wrapped method. The method itself runs on the trace context and the world, as what it
  calls may push spans of its own. Its span is pushed before it runs and completed in place
  afterwards, at the position it was given; a dropped span has no position. \<open>err\<close> gives the
  fields of an error, \<open>res\<close> the value of a result, and \<open>replay\<close> the options of \<open>LogReplay\<close>.
\<close>

type_synonym 'a traced = "trace_context option \<Rightarrow> world \<Rightarrow> (fault + 'a) \<times> trace_context option \<times> world"

definition complete_span :: "nat \<Rightarrow> (service_span \<Rightarrow> service_span) \<Rightarrow> trace_context \<Rightarrow> trace_context" where
  "complete_span i f ctx =
     ctx\<lparr>tc_spans := (tc_spans ctx)[i := (case tc_spans ctx ! i of ServiceSpan s \<Rightarrow> ServiceSpan (f s) | SqlSpan s \<Rightarrow> SqlSpan s)]\<rparr>"

definition finish :: "heap \<Rightarrow> (fault \<Rightarrow> span_error) \<Rightarrow> ('a \<Rightarrow> js) \<Rightarrow> bool option \<Rightarrow> millis \<Rightarrow> fault + 'a \<Rightarrow> service_span \<Rightarrow> service_span" where
  "finish h err res replay now r s =
     (let s' = s\<lparr>sp_duration_ms := Some (now - sp_started_at s)\<rparr> in
      case r of
        Inl e \<Rightarrow> s'\<lparr>sp_error := Some (err e)\<rparr>
      | Inr x \<Rightarrow> if replay = Some True then s'\<lparr>sp_result := mask_value h (res x) MAX_ARG_SIZE_BYTES\<rparr> else s')"

definition wrapped_method :: "host \<Rightarrow> heap \<Rightarrow> (fault \<Rightarrow> span_error) \<Rightarrow> ('a \<Rightarrow> js) \<Rightarrow> string \<Rightarrow> string \<Rightarrow> bool option \<Rightarrow> js \<Rightarrow>
    'a traced \<Rightarrow> 'a traced" where
  "wrapped_method H h err res className methodName replay args original ctx w = (case ctx of
     None \<Rightarrow> original None w
   | Some c \<Rightarrow>
       let startedAt = h_clock H (draws w);
           s = \<lparr>sp_class = className, sp_method = methodName, sp_started_at = startedAt, sp_duration_ms = None,
                sp_replay = (replay \<noteq> None),
                sp_args = (if replay \<noteq> None then mask_value h args MAX_ARG_SIZE_BYTES else Null),
                sp_result = Null, sp_error = None\<rparr>;
           i = length (tc_spans c)
       in (case original (Some (push_span (ServiceSpan s) c)) w of
             (r, ctx', w') \<Rightarrow>
               (r, map_option (\<lambda>c'. if i < MAX_SPANS
                    then complete_span i (finish h err res replay (h_clock H (draws w')) r) c' else c') ctx', w')))"

subsection \<open>\<open>trace.flusher.ts\<close>\<close>

datatype detail_level = Debug | Error

record error_record =
  er_kind :: string
  er_code :: "string option"
  er_message :: "string option"
  er_stack :: "string option"

record error_info =
  ei_status :: nat
  ei_outcome :: trace_outcome
  ei_record :: error_record
  ei_level :: detail_level

text \<open>The texts of an error, its class name, its code and its stack, come from the runtime.\<close>

definition classify_error :: "(fault \<Rightarrow> error_record) \<Rightarrow> fault \<Rightarrow> error_info" where
  "classify_error texts e = (case e of
     ApiException c \<Rightarrow>
       \<lparr>ei_status = api_exception_status c, ei_outcome = Api_exception, ei_record = (texts e)\<lparr>er_kind := ''ApiException''\<rparr>,
        ei_level = (if 500 \<le> api_exception_status c then Error else Debug)\<rparr>
   | _ \<Rightarrow> \<lparr>ei_status = 500, ei_outcome = Unhandled, ei_record = (texts e)\<lparr>er_code := None\<rparr>, ei_level = Error\<rparr>)"

record meta_record =
  mr_req_id :: string
  mr_user_id :: "string option"
  mr_route :: string
  mr_status :: nat
  mr_duration_ms :: int
  mr_outcome :: trace_outcome
  mr_service_spans :: nat
  mr_sql_spans :: nat
  mr_has_detail :: bool
  mr_dropped_spans :: "nat option"

definition is_service :: "span \<Rightarrow> bool" where
  "is_service s = (case s of ServiceSpan _ \<Rightarrow> True | SqlSpan _ \<Rightarrow> False)"

definition build_meta :: "millis \<Rightarrow> trace_context \<Rightarrow> nat \<Rightarrow> trace_outcome \<Rightarrow> bool \<Rightarrow> meta_record" where
  "build_meta now ctx status outcome hasDetail =
     (let counts = fold (\<lambda>s (a, b). if is_service s then (Suc a, b) else (a, Suc b)) (tc_spans ctx) (0, 0) in
      \<lparr>mr_req_id = tc_req_id ctx, mr_user_id = tc_user_id ctx, mr_route = tc_route ctx, mr_status = status,
       mr_duration_ms = now - tc_started_at ctx, mr_outcome = outcome, mr_service_spans = fst counts,
       mr_sql_spans = snd counts, mr_has_detail = hasDetail,
       mr_dropped_spans = (if 0 < tc_dropped_spans ctx then Some (tc_dropped_spans ctx) else None)\<rparr>)"

record detail_record =
  de_req_id :: string
  de_error :: error_record
  de_spans :: "span list"
  de_truncated :: bool

definition opt_str :: "string option \<Rightarrow> json" where
  "opt_str s = (case s of None \<Rightarrow> Undefined | Some t \<Rightarrow> Str t)"

definition span_json :: "span \<Rightarrow> json" where
  "span_json sp = (case sp of
     ServiceSpan s \<Rightarrow> Obj [(''kind'', Str ''service''), (''class'', Str (sp_class s)), (''method'', Str (sp_method s)),
       (''startedAt'', Num (sp_started_at s)),
       (''durationMs'', case sp_duration_ms s of None \<Rightarrow> Null | Some d \<Rightarrow> Num d), (''replay'', Bool (sp_replay s)),
       (''args'', sp_args s), (''result'', sp_result s),
       (''error'', case sp_error s of None \<Rightarrow> Null | Some e \<Rightarrow>
          Obj [(''code'', opt_str (se_code e)), (''message'', opt_str (se_message e))])]
   | SqlSpan s \<Rightarrow> Obj [(''kind'', Str ''sql''), (''sql'', Str (sq_sql s)), (''params'', Arr (sq_params s)),
       (''startedAt'', Num (sq_started_at s)), (''durationMs'', Null), (''rowCount'', Null)])"

definition detail_json :: "detail_record \<Rightarrow> json" where
  "detail_json d = Obj ([(''event'', Str ''trace.detail''), (''reqId'', Str (de_req_id d)), (''service'', Str ''api''),
     (''error'', Obj [(''kind'', Str (er_kind (de_error d))), (''code'', opt_str (er_code (de_error d))),
        (''message'', opt_str (er_message (de_error d))), (''stack'', opt_str (er_stack (de_error d)))]),
     (''spans'', Arr (map span_json (de_spans d)))] @ (if de_truncated d then [(''truncated'', Bool True)] else []))"

definition safe_size :: "detail_record \<Rightarrow> nat" where
  "safe_size d = length (nullish (json_text (detail_json d)) [])"

text \<open>The loop that drops the oldest spans until the record fits.\<close>

fun trim_spans :: "detail_record \<Rightarrow> span list \<Rightarrow> nat \<Rightarrow> detail_record" where
  "trim_spans d [] serialized = d"
| "trim_spans d (s # ss) serialized =
     (if MAX_DETAIL_SIZE_BYTES < serialized
      then (let d' = d\<lparr>de_spans := ss, de_truncated := True\<rparr> in trim_spans d' ss (safe_size d'))
      else d)"

definition build_detail :: "trace_context \<Rightarrow> error_record \<Rightarrow> detail_record" where
  "build_detail ctx err =
     (let d = \<lparr>de_req_id = tc_req_id ctx, de_error = err, de_spans = tc_spans ctx, de_truncated = False\<rparr>;
          serialized = safe_size d
      in if serialized \<le> MAX_DETAIL_SIZE_BYTES then d else trim_spans d (tc_spans ctx) serialized)"

datatype log_line = InfoMeta meta_record | DebugDetail detail_record | ErrorDetail detail_record

definition flush_ok :: "millis \<Rightarrow> trace_context \<Rightarrow> nat \<Rightarrow> log_line list" where
  "flush_ok now ctx status = [InfoMeta (build_meta now ctx status Ok False)]"

definition flush_error :: "(fault \<Rightarrow> error_record) \<Rightarrow> millis \<Rightarrow> trace_context \<Rightarrow> fault \<Rightarrow> log_line list" where
  "flush_error texts now ctx e =
     (let info = classify_error texts e;
          detail = build_detail ctx (ei_record info)
      in [InfoMeta (build_meta now ctx (ei_status info) (ei_outcome info) (ei_level info = Error)),
          if ei_level info = Error then ErrorDetail detail else DebugDetail detail])"

subsection \<open>\<open>trace.interceptor.ts\<close>, \<open>logger.config.ts\<close>\<close>

text \<open>
  The interceptor reads \<open>request.user?.id\<close>. The user the JWT strategy sets has the field
  \<open>userId\<close> and none named \<open>id\<close>, so the trace never names the user.
\<close>

definition request_user_id :: "auth_user option \<Rightarrow> string option" where
  "request_user_id user = None"

definition format_route :: "string option \<Rightarrow> string option \<Rightarrow> string option \<Rightarrow> string" where
  "format_route verb path url = nullish verb ''UNKNOWN'' @ '' '' @ nullish path (nullish url [])"

definition new_trace :: "string option \<Rightarrow> auth_user option \<Rightarrow> string \<Rightarrow> millis \<Rightarrow> trace_context" where
  "new_trace reqId user route now =
     \<lparr>tc_req_id = nullish reqId ''unknown'', tc_user_id = request_user_id user, tc_route = route, tc_spans = [],
      tc_started_at = now, tc_dropped_spans = 0\<rparr>"

text \<open>The handler runs with the new trace; what it ends with is flushed and passed on.\<close>

definition intercept :: "host \<Rightarrow> (fault \<Rightarrow> error_record) \<Rightarrow> string option \<Rightarrow> auth_user option \<Rightarrow> string \<Rightarrow> nat \<Rightarrow> 'a traced \<Rightarrow>
    world \<Rightarrow> (fault + 'a) \<times> log_line list \<times> world" where
  "intercept H texts reqId user route status handler w =
     (let ctx = new_trace reqId user route (h_clock H (draws w)) in
      case handler (Some ctx) w of (r, ctx', w') \<Rightarrow>
        let c = nullish ctx' ctx; now = h_clock H (draws w') in
        (r, (case r of Inl e \<Rightarrow> flush_error texts now c e | Inr _ \<Rightarrow> flush_ok now c status), w'))"

definition gen_req_id :: "host \<Rightarrow> string option \<Rightarrow> string svc" where
  "gen_req_id H existing = (if truthy existing then ret (the existing) else random_uuid H)"

end
