(* ===== verification/LoggingProps.thy ===== *)
theory LoggingProps
  imports Logging
begin

text \<open>
  Properties of the logger: what is masked stays out of the log, the records keep to their
  limits, and the wrapper around service methods does not change what they do.
\<close>

subsection \<open>Masking\<close>

fun all_masked :: "json \<Rightarrow> bool" where
  "all_masked (Arr vs) = list_all all_masked vs"
| "all_masked (Obj kvs) = list_all (\<lambda>(k, v). (is_masked_key k \<longrightarrow> v = Str MASK) \<and> all_masked v) kvs"
| "all_masked _ = True"

fun nesting :: "json \<Rightarrow> nat" where
  "nesting (Arr vs) = Suc (fold max (map nesting vs) 0)"
| "nesting (Obj kvs) = Suc (fold max (map (\<lambda>(k, v). nesting v) kvs) 0)"
| "nesting _ = 0"

lemma fold_max_le: "fold max xs (a :: nat) \<le> n \<longleftrightarrow> a \<le> n \<and> (\<forall>x\<in>set xs. x \<le> n)"
  by (induction xs arbitrary: a) auto

lemma primitive_plain [simp]: "all_masked (primitive v)" "nesting (primitive v) = 0"
  by (cases v; simp)+

definition masked_entries :: "nat \<Rightarrow> (string \<times> json) list \<Rightarrow> bool" where
  "masked_entries n kts \<longleftrightarrow> (\<forall>(k, t)\<in>set kts. (is_masked_key k \<longrightarrow> t = Str MASK) \<and> all_masked t \<and> nesting t \<le> n)"

lemma masked_entries_Obj: "masked_entries n kts \<Longrightarrow> all_masked (Obj kts) \<and> nesting (Obj kts) \<le> Suc n"
  by (auto simp: masked_entries_def list_all_iff fold_max_le)

lemma fst_Obj: "fst (case p of (ts, s) \<Rightarrow> (Obj ts, s)) = Obj (fst p)"
  by (simp split: prod.split)

lemma fst_Arr: "fst (case p of (ts, s) \<Rightarrow> (Arr ts, s)) = Arr (fst p)"
  by (simp split: prod.split)

lemma walk_shape:
  "all_masked (fst (walk h n v s)) \<and> nesting (fst (walk h n v s)) \<le> n"
  "(\<forall>t\<in>set (fst (walk_list h n vs s)). all_masked t \<and> nesting t \<le> n)"
  "masked_entries n (fst (walk_entries h n kvs s))"
proof (induction h n v s and h n vs s and h n kvs s rule: walk_walk_list_walk_entries.induct)
  case (2 h n v seen)
  show ?case
  proof (cases v)
    case (JRef a)
    show ?thesis
    proof (cases "a \<in> seen")
      case False
      show ?thesis
      proof (cases "h a")
        case (JArray vs)
        with 2(1) JRef False show ?thesis by (simp add: fst_Arr list_all_iff fold_max_le)
      next
        case (JObject kvs t)
        show ?thesis
        proof (cases t)
          case None
          with masked_entries_Obj [OF 2(2) [OF JRef False JObject None]] JRef False JObject show ?thesis
            by (simp add: fst_Obj del: all_masked.simps nesting.simps)
        next
          case (Some p)
          have plain: "?thesis" if "\<nexists>b. p = JRef b"
            using that JRef False JObject Some by (cases p) auto
          show ?thesis
          proof (cases "\<exists>b. p = JRef b")
            case True
            then obtain b where b: "p = JRef b" ..
            with masked_entries_Obj [OF 2(3) [OF JRef False JObject Some b]] JRef False JObject Some show ?thesis
              by (simp add: fst_Obj del: all_masked.simps nesting.simps)
          qed (use plain in blast)
        qed
      qed
    qed (simp add: JRef)
  qed auto
qed (auto simp: masked_entries_def split: js.splits prod.splits)

text \<open>Two objects that differ at most in what they hold under masked keys.\<close>

definition same_entry :: "string \<times> js \<Rightarrow> string \<times> js \<Rightarrow> bool" where
  "same_entry e e' \<longleftrightarrow> fst e = fst e' \<and> (is_masked_key (fst e) \<or> snd e = snd e')"

fun same_public :: "js_object \<Rightarrow> js_object \<Rightarrow> bool" where
  "same_public (JArray vs) (JArray vs') = (vs = vs')"
| "same_public (JObject kvs t) (JObject kvs' t') = (list_all2 same_entry kvs kvs' \<and> t = t')"
| "same_public _ _ = False"

lemma same_entry_refl: "same_entry e e"
  by (simp add: same_entry_def)

lemma same_public_entries: "same_public ob ob' \<Longrightarrow> list_all2 same_entry (own_entries ob) (own_entries ob')"
  by (cases ob; cases ob') (auto simp: own_entries_def intro: list_all2_refl same_entry_refl)

lemma walk_cong:
  assumes "\<And>a. same_public (h a) (h' a)"
  shows "walk h n v s = walk h' n v s"
    and "walk_list h n vs s = walk_list h' n vs s"
    and "list_all2 same_entry kvs kvs' \<Longrightarrow> walk_entries h n kvs s = walk_entries h' n kvs' s"
  using assms
proof (induction h n v s and h n vs s and h n kvs s arbitrary: and and kvs' rule: walk_walk_list_walk_entries.induct)
  case (2 h n v seen)
  show ?case
  proof (cases v)
    case (JRef a)
    have same: "same_public (h a) (h' a)" by (rule 2)
    show ?thesis
    proof (cases "a \<in> seen")
      case False
      show ?thesis
      proof (cases "h a")
        case (JArray vs)
        with same have "h' a = JArray vs" by (cases "h' a") simp_all
        with 2 JRef False JArray show ?thesis by simp
      next
        case (JObject kvs t)
        with same obtain kvs' where h': "h' a = JObject kvs' t" "list_all2 same_entry kvs kvs'" by (cases "h' a") simp_all
        show ?thesis
        proof (cases t)
          case None
          with 2 JRef False JObject h' show ?thesis by simp
        next
          case (Some p)
          have "list_all2 same_entry (own_entries (h b)) (own_entries (h' b))" for b
            by (rule same_public_entries) (rule 2)
          note entries = this
          show ?thesis
          proof (cases "\<exists>b. p = JRef b")
            case True
            then obtain b where b: "p = JRef b" ..
            have "walk_entries h n (own_entries (h b)) (insert a seen) = walk_entries h' n (own_entries (h' b)) (insert a seen)"
              by (rule 2(3) [OF JRef False JObject Some b entries]) (rule 2)
            with b JRef False JObject h' Some show ?thesis by simp
          next
            case False
            with \<open>a \<notin> seen\<close> JRef JObject h' Some show ?thesis by (cases p) simp_all
          qed
        qed
      qed
    qed (simp add: JRef)
  qed simp_all
next
  case (6 h n k v kvs seen)
  then obtain e kvs2 where e: "kvs' = e # kvs2" "same_entry (k, v) e" "list_all2 same_entry kvs kvs2"
    by (auto simp: list_all2_Cons1)
  obtain k' v' where "e = (k', v')" by fastforce
  note e = e this
  show ?case
  proof (cases "is_masked_key k")
    case True
    have "walk_entries h n kvs seen = walk_entries h' n kvs2 seen" by (rule 6(1) [OF True e(3)]) (rule 6)
    with e True show ?thesis by (simp add: same_entry_def)
  next
    case False
    obtain t s where t: "walk h n v seen = (t, s)" by fastforce
    have "walk h n v seen = walk h' n v seen" by (rule 6(2) [OF False]) (rule 6)
    then have t': "walk h' n v seen = (t, s)" using t by simp
    have "walk_entries h n kvs s = walk_entries h' n kvs2 s"
      by (rule 6(3) [OF False t [symmetric] e(3)]) (rule 6)
    with e False t t' show ?thesis by (auto simp: same_entry_def)
  qed
next
  case (4 h n v vs seen)
  obtain t s where t: "walk h n v seen = (t, s)" by fastforce
  have "walk h' n v seen = (t, s)" using 4(1) [OF 4(3)] t by simp
  moreover have "walk_list h n vs s = walk_list h' n vs s" by (rule 4(2) [OF t [symmetric] 4(3)])
  ultimately show ?case using t by simp
qed (auto split: js.split)

lemma mask_value_cases:
  "mask_value h v lim = fst (walk h MAX_MASK_DEPTH v {}) \<or> (\<exists>n. mask_value h v lim = Str (truncated_mark n))"
  by (auto simp: mask_value_def Let_def split: option.split)

text \<open>
  C26: whatever object graph is logged, shared or cyclic, with or without \<open>toJSON\<close>: in what
  the masker gives back every field with a sensitive name, at any depth and in any case of
  letters, holds \<open>***\<close>; it is at most ten levels deep; its JSON text has at most the
  allowed length, or it is the mark that says how long the text was; and it does not depend
  on what the objects hold in their sensitive fields.
\<close>

theorem mask_value_hides_secrets:
  shows "all_masked (mask_value h v lim) \<and> nesting (mask_value h v lim) \<le> 10 \<and>
    (\<forall>t. json_text (mask_value h v lim) = Some t \<longrightarrow> length t \<le> lim \<or> (\<exists>n>lim. mask_value h v lim = Str (truncated_mark n))) \<and>
    ((\<forall>a. same_public (h a) (h' a)) \<longrightarrow> mask_value h v lim = mask_value h' v lim)"
proof -
  have "mask_value h v lim = mask_value h' v lim" if "\<forall>a. same_public (h a) (h' a)"
    using walk_cong(1) [of h h' MAX_MASK_DEPTH v "{}"] that by (simp add: mask_value_def)
  moreover have "all_masked (mask_value h v lim) \<and> nesting (mask_value h v lim) \<le> 10"
    using walk_shape(1) [of h MAX_MASK_DEPTH v "{}"] mask_value_cases [of h v lim] by (auto simp: MAX_MASK_DEPTH_def)
  moreover have "json_text (mask_value h v lim) = Some t \<longrightarrow> length t \<le> lim \<or> (\<exists>n>lim. mask_value h v lim = Str (truncated_mark n))" for t
    by (auto simp: mask_value_def Let_def split: option.split if_splits)
  ultimately show ?thesis by blast
qed

definition demo_heap :: "int \<Rightarrow> heap" where
  "demo_heap secret a =
     (if a = 0 then JArray [JRef 1]
      else JObject [(''username'', JStr ''ada''), (''Password'', JNum secret), (''self'', JRef 1)] None)"

lemma mask_value_hides_secrets_witness:
  "mask_value (demo_heap 1) (JRef 0) 100 = mask_value (demo_heap 2) (JRef 0) 100"
proof -
  have "is_masked_key ''Password''" by code_simp
  then have "same_public (demo_heap 1 a) (demo_heap 2 a)" for a
    by (simp add: demo_heap_def same_entry_def)
  then show ?thesis using mask_value_hides_secrets [of "demo_heap 1" "JRef 0" 100 "demo_heap 2"] by blast
qed

subsection \<open>Traces\<close>

text \<open>What a traced method returns and does, apart from the trace it leaves.\<close>

definition outcome_of :: "'a traced \<Rightarrow> trace_context option \<Rightarrow> world \<Rightarrow> (fault + 'a) \<times> world" where
  "outcome_of m ctx w = (case m ctx w of (r, ctx', w') \<Rightarrow> (r, w'))"

text \<open>A method that only adds to the trace: it neither reads it nor loses it.\<close>

definition oblivious :: "'a traced \<Rightarrow> bool" where
  "oblivious m \<longleftrightarrow> (\<forall>ctx w. outcome_of m ctx w = outcome_of m None w)"

lemma wrapped_outcome:
  assumes "oblivious m"
  shows "outcome_of (wrapped_method H h err res cls name replay args m) ctx w = outcome_of m None w"
proof (cases ctx)
  case None
  then show ?thesis by (simp add: wrapped_method_def outcome_of_def)
next
  case (Some c)
  let ?s = "\<lparr>sp_class = cls, sp_method = name, sp_started_at = h_clock H (draws w), sp_duration_ms = None,
    sp_replay = (replay \<noteq> None), sp_args = (if replay \<noteq> None then mask_value h args MAX_ARG_SIZE_BYTES else Null),
    sp_result = Null, sp_error = None\<rparr>"
  have "outcome_of (wrapped_method H h err res cls name replay args m) ctx w =
      outcome_of m (Some (push_span (ServiceSpan ?s) c)) w"
    unfolding Some wrapped_method_def outcome_of_def Let_def option.case by (simp only: case_prod_beta prod.sel)
  with assms show ?thesis by (simp add: oblivious_def)
qed

text \<open>
  Wrapping a service method for tracing does not change what it returns, what it throws
  or what it does, with or without a trace, whatever its options; and the wrapped method is
  again one that does not depend on the trace, so any number of wrapped methods may call
  each other.
\<close>

theorem wrapped_method_transparent:
  assumes "oblivious m"
  shows "outcome_of (wrapped_method H h err res cls name replay args m) ctx w = outcome_of m None w \<and>
    oblivious (wrapped_method H h err res cls name replay args m)"
  using wrapped_outcome [OF assms] by (simp add: oblivious_def)

lemma wrapped_method_transparent_witness:
  "outcome_of (wrapped_method demo_host (\<lambda>a. JArray []) (\<lambda>e. \<lparr>se_code = None, se_message = None\<rparr>) JNum ''C'' ''m'' (Some True) (JRef 0)
     (\<lambda>ctx w. (Inr 7, ctx, w))) (Some (new_trace None None ''GET /x'' 0)) (demo_world empty_db) = (Inr 7, demo_world empty_db)"
proof -
  have "oblivious (\<lambda>ctx w. (Inr (7 :: int), ctx, w))" by (simp add: oblivious_def outcome_of_def)
  from wrapped_method_transparent [OF this] show ?thesis by (simp add: outcome_of_def)
qed

subsection \<open>Limits of the records\<close>

lemma trim_spans_fits:
  "de_spans d = ss \<Longrightarrow> n = safe_size d \<Longrightarrow>
    (safe_size (trim_spans d ss n) \<le> MAX_DETAIL_SIZE_BYTES \<or> de_spans (trim_spans d ss n) = []) \<and>
    (\<exists>k. de_spans (trim_spans d ss n) = drop k ss \<and> (de_truncated (trim_spans d ss n) \<longleftrightarrow> 0 < k \<or> de_truncated d))"
proof (induction ss arbitrary: d n)
  case Nil
  then show ?case by (auto intro: exI [of _ 0])
next
  case (Cons s ss)
  let ?d = "d\<lparr>de_spans := ss, de_truncated := True\<rparr>"
  show ?case
  proof (cases "MAX_DETAIL_SIZE_BYTES < n")
    case True
    from Cons.IH [of ?d "safe_size ?d"] obtain k where
      "safe_size (trim_spans ?d ss (safe_size ?d)) \<le> MAX_DETAIL_SIZE_BYTES \<or> de_spans (trim_spans ?d ss (safe_size ?d)) = []"
      "de_spans (trim_spans ?d ss (safe_size ?d)) = drop k ss" "de_truncated (trim_spans ?d ss (safe_size ?d))" by auto
    with True show ?thesis by (auto simp: Let_def intro!: exI [of _ "Suc k"])
  next
    case False
    with Cons.prems show ?thesis by (auto intro!: exI [of _ 0])
  qed
qed

text \<open>
  A request's trace never holds more than 1000 spans, and what did not fit is counted. The
  record of a failed request is within 256 KiB, or has dropped every span; the spans it
  keeps are the latest ones, and it says so when some are missing.
\<close>

theorem trace_records_bounded:
  "length (tc_spans (fold push_span ss (new_trace rid user route now))) = min MAX_SPANS (length ss) \<and>
   tc_dropped_spans (fold push_span ss (new_trace rid user route now)) = length ss - MAX_SPANS \<and>
   (safe_size (build_detail ctx e) \<le> MAX_DETAIL_SIZE_BYTES \<or> de_spans (build_detail ctx e) = []) \<and>
   (\<exists>k. de_spans (build_detail ctx e) = drop k (tc_spans ctx) \<and> (de_truncated (build_detail ctx e) \<longleftrightarrow> 0 < k))"
proof -
  have "length (tc_spans (fold push_span ss c)) = min MAX_SPANS (length (tc_spans c) + length ss) \<and>
      tc_dropped_spans (fold push_span ss c) = tc_dropped_spans c + (length (tc_spans c) + length ss - MAX_SPANS)"
    if "length (tc_spans c) \<le> MAX_SPANS" for c :: trace_context
    using that by (induction ss arbitrary: c) (auto simp: push_span_def)
  from this [of "new_trace rid user route now"] trim_spans_fits [of "\<lparr>de_req_id = tc_req_id ctx, de_error = e, de_spans = tc_spans ctx, de_truncated = False\<rparr>"]
  show ?thesis by (auto simp: new_trace_def build_detail_def Let_def intro: exI [of _ 0])
qed

end
