(* ===== verification/ClientUpload.thy ===== *)
theory ClientUpload
  imports FileProps
begin

text \<open>
  The web client's side of an upload, \<open>features/file-upload/model\<close>: cutting the file into the
  parts the API asked for, and the pool of workers that puts them. The workers interleave
  in any order; what they share is the queue, the results and the counter.
\<close>

subsection \<open>\<open>upload-parts.ts\<close>\<close>

definition MAX_RETRIES :: nat where "MAX_RETRIES = 2"
definition PART_CONCURRENCY :: nat where "PART_CONCURRENCY = 4"

record part_input =
  pi_number :: nat
  pi_url :: string

record part_result =
  pr_number :: nat
  pr_etag :: string

text \<open>The numbers of the parts count from 1, as those the API hands out do.\<close>

text \<open>\<open>Math.ceil(file.size / parts.length)\<close>.\<close>

definition client_part_size :: "nat \<Rightarrow> nat \<Rightarrow> nat" where
  "client_part_size fileSize partCount = nat (ceil_div (int fileSize) (int partCount))"

text \<open>\<open>file.slice(start, end)\<close>: both ends are brought into the file.\<close>

definition slice :: "byte list \<Rightarrow> nat \<Rightarrow> nat \<Rightarrow> byte list" where
  "slice file start end' = take (end' - start) (drop start file)"

definition part_blob :: "byte list \<Rightarrow> nat \<Rightarrow> nat \<Rightarrow> byte list" where
  "part_blob file partCount partNumber =
     (let partSize = client_part_size (length file) partCount;
          start = (partNumber - 1) * partSize;
          end' = min (start + partSize) (length file)
      in slice file start end')"

text \<open>\<open>raw.replace(/^"+|"+$/g, '')\<close>.\<close>

definition strip_quotes :: "string \<Rightarrow> string" where
  "strip_quotes raw = rev (dropWhile (\<lambda>c. c = CHR 0x22) (rev (dropWhile (\<lambda>c. c = CHR 0x22) raw)))"

text \<open>What the store answers to a \<open>PUT\<close>: nothing, or a status and perhaps an entity tag.\<close>

datatype put_answer = NetworkError | PutAnswer nat "string option"

definition put_ok :: "put_answer \<Rightarrow> bool" where
  "put_ok a = (case a of NetworkError \<Rightarrow> False | PutAnswer status _ \<Rightarrow> 200 \<le> status \<and> status \<le> 299)"

definition etag_of :: "put_answer \<Rightarrow> string" where
  "etag_of a = (case a of NetworkError \<Rightarrow> [] | PutAnswer _ etag \<Rightarrow> strip_quotes (nullish etag []))"

text \<open>A worker waits for its turn, for the answer to its part's next attempt, or has ended.\<close>

datatype worker = Idle | Putting part_input nat | Returned | Rejected

text \<open>
  \<open>pl_puts\<close> lists the requests made with their bodies and answers, newest first;
  \<open>pl_progress\<close> the values of \<open>completed\<close> that were reported, as the percentage of it is
  rounded in floating point.
\<close>

record pool =
  pl_queue :: "part_input list"
  pl_workers :: "worker list"
  pl_results :: "part_result option list"
  pl_completed :: nat
  pl_progress :: "nat list"
  pl_puts :: "(part_input \<times> byte list \<times> put_answer) list"

text \<open>An element stored into an array: past its end the array grows, with holes.\<close>

definition store_at :: "nat \<Rightarrow> 'a \<Rightarrow> 'a option list \<Rightarrow> 'a option list" where
  "store_at i x xs = (if i < length xs then xs[i := Some x] else xs @ replicate (i - length xs) None @ [Some x])"

definition pool_start :: "part_input list \<Rightarrow> pool" where
  "pool_start parts = \<lparr>pl_queue = parts, pl_workers = replicate (min PART_CONCURRENCY (length parts)) Idle,
     pl_results = replicate (length parts) None, pl_completed = 0, pl_progress = [], pl_puts = []\<rparr>"

text \<open>A worker's turn of \<open>while (queue.length)\<close>.\<close>

definition take_turn :: "nat \<Rightarrow> pool \<Rightarrow> pool" where
  "take_turn i s = (case pl_queue s of
     [] \<Rightarrow> s\<lparr>pl_workers := (pl_workers s)[i := Returned]\<rparr>
   | p # q \<Rightarrow> s\<lparr>pl_queue := q, pl_workers := (pl_workers s)[i := Putting p 0]\<rparr>)"

text \<open>The answer to a worker's attempt, the \<open>try\<close> and the \<open>catch\<close> of \<open>putOne\<close>'s loop.\<close>

definition put_answered :: "byte list \<Rightarrow> nat \<Rightarrow> nat \<Rightarrow> part_input \<Rightarrow> nat \<Rightarrow> put_answer \<Rightarrow> pool \<Rightarrow> pool" where
  "put_answered file partCount i part attempt ans s =
     (let s' = s\<lparr>pl_puts := (part, part_blob file partCount (pi_number part), ans) # pl_puts s\<rparr> in
      if put_ok ans
      then s'\<lparr>pl_results := store_at (pi_number part - 1) \<lparr>pr_number = pi_number part, pr_etag = etag_of ans\<rparr> (pl_results s),
              pl_completed := pl_completed s + 1,
              pl_progress := pl_progress s @ [pl_completed s + 1],
              pl_workers := (pl_workers s)[i := Idle]\<rparr>
      else if attempt < MAX_RETRIES then s'\<lparr>pl_workers := (pl_workers s)[i := Putting part (attempt + 1)]\<rparr>
      else s'\<lparr>pl_workers := (pl_workers s)[i := Rejected]\<rparr>)"

inductive pool_step :: "byte list \<Rightarrow> nat \<Rightarrow> pool \<Rightarrow> pool \<Rightarrow> bool" for xs :: "byte list" and n :: nat where
  Turn: "i < length (pl_workers s) \<Longrightarrow> pl_workers s ! i = Idle \<Longrightarrow> pool_step xs n s (take_turn i s)"
| Answer: "i < length (pl_workers s) \<Longrightarrow> pl_workers s ! i = Putting part attempt \<Longrightarrow>
    pool_step xs n s (put_answered xs n i part attempt ans s)"

inductive_cases pool_stepE: "pool_step xs n s s'"

text \<open>The pool's promise resolves when all workers have returned, and rejects with the first that rejects.\<close>

definition pool_resolved :: "pool \<Rightarrow> bool" where
  "pool_resolved s \<longleftrightarrow> (\<forall>x\<in>set (pl_workers s). x = Returned)"

definition pool_settled :: "pool \<Rightarrow> bool" where
  "pool_settled s \<longleftrightarrow> (\<forall>x\<in>set (pl_workers s). x = Returned \<or> x = Rejected)"

subsection \<open>The parts are the xs\<close>

lemma slice_append:
  assumes "a \<le> b" and "b \<le> c"
  shows "slice xs a b @ slice xs b c = slice xs a c"
proof -
  have "take (c - a) (drop a xs) = take ((b - a) + (c - b)) (drop a xs)" using assms by simp
  also have "\<dots> = take (b - a) (drop a xs) @ take (c - b) (drop (b - a) (drop a xs))" by (rule take_add)
  finally show ?thesis using assms by (simp add: slice_def add.commute)
qed

lemma slice_cut: "slice xs a (min b (length xs)) = slice xs a b"
  by (simp add: slice_def min_def)

lemma concat_slices: "concat (map (\<lambda>k. slice xs (k * d) (Suc k * d)) [0..<n]) = take (n * d) xs"
proof (induction n)
  case (Suc n)
  then show ?case using slice_append [of 0 "n * d" "Suc n * d" xs] by (simp add: slice_def)
qed simp

lemma client_part_size_covers:
  assumes "0 < n" and "0 < s"
  shows "s \<le> n * client_part_size s n"
proof -
  have "int (n * client_part_size s n) = int n * ceil_div (int s) (int n)"
    using ceil_div_bounds(1) [of "int n" "int s"] assms by (simp add: client_part_size_def)
  with ceil_div_bounds(3) [of "int n" "int s"] assms have "int s \<le> int (n * client_part_size s n)"
    by (simp add: mult.commute)
  then show ?thesis by (simp only: of_nat_le_iff)
qed

lemma concat_blobs:
  assumes "0 < n" and "xs \<noteq> []"
  shows "concat (map (part_blob xs n) [1..<Suc n]) = xs"
proof -
  have "map (part_blob xs n) [1..<Suc n] =
      map (\<lambda>k. slice xs (k * client_part_size (length xs) n) (Suc k * client_part_size (length xs) n)) [0..<n]"
    by (simp add: part_blob_def Let_def slice_cut add.commute map_Suc_upt [symmetric] del: upt_Suc)
  then have "concat (map (part_blob xs n) [1..<Suc n]) = take (n * client_part_size (length xs) n) xs"
    by (simp only: concat_slices)
  then show ?thesis using client_part_size_covers [of n "length xs"] assms by simp
qed

subsection \<open>The pool\<close>

lemma sum_update:
  fixes f :: "'a \<Rightarrow> nat"
  shows "i < length xs \<Longrightarrow> sum_list (map f (xs[i := y])) + f (xs ! i) = sum_list (map f xs) + f y"
proof (induction xs arbitrary: i)
  case (Cons x xs)
  then show ?case by (cases i) (auto simp: algebra_simps)
qed simp

lemma some_update: "i < length xs \<Longrightarrow> P y \<Longrightarrow> \<exists>x\<in>set (xs[i := y]). P x"
  using set_update_memI by fast

text \<open>What is left to do, in steps of the pool and in requests.\<close>

fun worker_steps :: "worker \<Rightarrow> nat" where
  "worker_steps Idle = 1"
| "worker_steps (Putting p a) = 2 + (MAX_RETRIES - a)"
| "worker_steps Returned = 0"
| "worker_steps Rejected = 0"

fun worker_puts :: "worker \<Rightarrow> nat" where
  "worker_puts (Putting p a) = 1 + (MAX_RETRIES - a)"
| "worker_puts _ = 0"

definition steps_left :: "pool \<Rightarrow> nat" where
  "steps_left s = 5 * length (pl_queue s) + sum_list (map worker_steps (pl_workers s))"

definition puts_left :: "pool \<Rightarrow> nat" where
  "puts_left s = 3 * length (pl_queue s) + sum_list (map worker_puts (pl_workers s))"

lemma steps_left_step: "pool_step xs n s s' \<Longrightarrow> steps_left s' < steps_left s"
proof (erule pool_stepE)
  fix i assume i: "i < length (pl_workers s)" "pl_workers s ! i = Idle" and s': "s' = take_turn i s"
  show "steps_left s' < steps_left s"
  proof (cases "pl_queue s")
    case Nil
    with s' i(2) sum_update [OF i(1), of worker_steps Returned] show ?thesis by (simp add: take_turn_def steps_left_def)
  next
    case (Cons p q)
    with s' i(2) sum_update [OF i(1), of worker_steps "Putting p 0"] show ?thesis
      by (simp add: take_turn_def steps_left_def MAX_RETRIES_def)
  qed
next
  fix i p a ans assume i: "i < length (pl_workers s)" "pl_workers s ! i = Putting p a"
    and s': "s' = put_answered xs n i p a ans s"
  show "steps_left s' < steps_left s"
    using sum_update [OF i(1), of worker_steps Idle] sum_update [OF i(1), of worker_steps Rejected]
      sum_update [OF i(1), of worker_steps "Putting p (Suc a)"] i(2)
    by (auto simp: s' put_answered_def steps_left_def Let_def)
qed

text \<open>A request is made at each answer, and one fewer is left.\<close>

lemma puts_left_step:
  assumes "pool_step xs n s s'"
  shows "length (pl_puts s') + puts_left s' \<le> length (pl_puts s) + puts_left s"
  using assms
proof (rule pool_stepE)
  fix i assume i: "i < length (pl_workers s)" "pl_workers s ! i = Idle" and s': "s' = take_turn i s"
  show ?thesis
  proof (cases "pl_queue s")
    case Nil
    with s' i(2) sum_update [OF i(1), of worker_puts Returned] show ?thesis by (simp add: take_turn_def puts_left_def)
  next
    case (Cons p q)
    with s' i(2) sum_update [OF i(1), of worker_puts "Putting p 0"] show ?thesis
      by (simp add: take_turn_def puts_left_def MAX_RETRIES_def)
  qed
next
  fix i p a ans assume i: "i < length (pl_workers s)" "pl_workers s ! i = Putting p a"
    and s': "s' = put_answered xs n i p a ans s"
  show ?thesis
    using sum_update [OF i(1), of worker_puts Idle] sum_update [OF i(1), of worker_puts Rejected]
      sum_update [OF i(1), of worker_puts "Putting p (Suc a)"] i(2)
    by (auto simp: s' put_answered_def puts_left_def Let_def)
qed

lemma pool_steps_bounded:
  "(pool_step xs n ^^ k) s s' \<Longrightarrow>
     k + steps_left s' \<le> steps_left s \<and> length (pl_puts s') + puts_left s' \<le> length (pl_puts s) + puts_left s"
proof (induction k arbitrary: s')
  case (Suc k)
  then obtain t where "(pool_step xs n ^^ k) s t" "pool_step xs n t s'" by auto
  with Suc.IH [of t] steps_left_step [of xs n t s'] puts_left_step [of xs n t s'] show ?case by linarith
qed simp

lemma pool_start_left:
  "steps_left (pool_start parts) \<le> 5 * length parts + PART_CONCURRENCY" "puts_left (pool_start parts) = 3 * length parts"
  by (simp_all add: steps_left_def puts_left_def pool_start_def sum_list_replicate)

lemma pool_can_step: "\<not> pool_settled s \<Longrightarrow> \<exists>s'. pool_step xs n s s'"
proof -
  assume "\<not> pool_settled s"
  then obtain i where i: "i < length (pl_workers s)" "pl_workers s ! i \<noteq> Returned" "pl_workers s ! i \<noteq> Rejected"
    by (auto simp: pool_settled_def in_set_conv_nth)
  then show ?thesis
    by (cases "pl_workers s ! i") (auto intro: pool_step.intros)
qed

text \<open>
  C28: the pool of upload workers cannot go on for ever. Whatever the store answers and
  however the workers interleave, a run over \<open>m\<close> parts has at most \<open>5 m + 4\<close> steps and
  makes at most three requests for each part, and as long as a worker has not ended there
  is a step to take.
\<close>

theorem upload_pool_ends:
  assumes "(pool_step xs n ^^ k) (pool_start parts) s"
  shows "k \<le> 5 * length parts + 4 \<and> length (pl_puts s) \<le> 3 * length parts \<and>
    (pool_settled s \<or> (\<exists>s'. pool_step xs n s s'))"
  using pool_steps_bounded [OF assms] pool_start_left [of parts] pool_can_step [of s xs n]
  by (auto simp: PART_CONCURRENCY_def pool_start_def)

subsection \<open>What the pool delivers\<close>

lemma in_set_update: "x \<in> set xs \<Longrightarrow> x = xs ! i \<or> x \<in> set (xs[i := y])"
  by (metis in_set_conv_nth length_list_update nth_list_update_neq)

lemma set_update_E: "x \<in> set (xs[i := y]) \<Longrightarrow> x = y \<or> x \<in> set xs"
  using set_update_subset_insert by fast

text \<open>Every part is still queued, being put, or has its result, unless a worker has rejected.\<close>

definition part_placed :: "pool \<Rightarrow> part_input \<Rightarrow> bool" where
  "part_placed s p \<longleftrightarrow> p \<in> set (pl_queue s) \<or> (\<exists>a. Putting p a \<in> set (pl_workers s)) \<or>
     pl_results s ! (pi_number p - 1) \<noteq> None \<or> Rejected \<in> set (pl_workers s)"

text \<open>The result at an index is the entity tag the store gave for that part of the file.\<close>

definition put_made :: "byte list \<Rightarrow> nat \<Rightarrow> pool \<Rightarrow> nat \<Rightarrow> string \<Rightarrow> bool" where
  "put_made xs n s k tag \<longleftrightarrow> (\<exists>p ans. (p, part_blob xs n k, ans) \<in> set (pl_puts s) \<and> pi_number p = k \<and> put_ok ans \<and> tag = etag_of ans)"

definition results_right :: "byte list \<Rightarrow> nat \<Rightarrow> pool \<Rightarrow> bool" where
  "results_right xs n s \<longleftrightarrow> length (pl_results s) = n \<and>
     (\<forall>k<n. \<forall>r. pl_results s ! k = Some r \<longrightarrow> pr_number r = Suc k \<and> put_made xs n s (Suc k) (pr_etag r))"

definition pool_inv :: "byte list \<Rightarrow> part_input set \<Rightarrow> nat \<Rightarrow> pool \<Rightarrow> bool" where
  "pool_inv xs ps n s \<longleftrightarrow> set (pl_queue s) \<subseteq> ps \<and> (\<forall>p a. Putting p a \<in> set (pl_workers s) \<longrightarrow> p \<in> ps) \<and>
     (\<forall>(p, b, ans)\<in>set (pl_puts s). b = part_blob xs n (pi_number p)) \<and> results_right xs n s \<and> (\<forall>p\<in>ps. part_placed s p)"

lemma store_at_inside: "i < length xs \<Longrightarrow> store_at i x xs = xs[i := Some x]"
  by (simp add: store_at_def)

lemma pool_inv_turn:
  assumes "pool_inv xs ps n s" and "i < length (pl_workers s)" and "pl_workers s ! i = Idle"
  shows "pool_inv xs ps n (take_turn i s)"
proof (cases "pl_queue s")
  case Nil
  have "part_placed (take_turn i s) p" if "part_placed s p" for p
    using that assms(3) Nil in_set_update [of _ "pl_workers s" i Returned]
    by (fastforce simp: part_placed_def take_turn_def)
  with assms Nil show ?thesis
    by (auto simp: pool_inv_def take_turn_def results_right_def put_made_def dest!: set_update_E)
next
  case (Cons q qs)
  have "part_placed (take_turn i s) p" if "part_placed s p" for p
    using that assms(2,3) Cons in_set_update [of _ "pl_workers s" i "Putting q 0"] set_update_memI [of i "pl_workers s" "Putting q 0"]
    by (fastforce simp: part_placed_def take_turn_def)
  with assms Cons show ?thesis
    by (auto simp: pool_inv_def take_turn_def results_right_def put_made_def dest!: set_update_E)
qed

lemma put_made_mono: "put_made xs n s k tag \<Longrightarrow> set (pl_puts s) \<subseteq> set (pl_puts s') \<Longrightarrow> put_made xs n s' k tag"
  unfolding put_made_def by blast

lemma results_right_answer:
  assumes "results_right xs n s" and "1 \<le> pi_number p" and "pi_number p \<le> n"
  shows "results_right xs n (put_answered xs n i p a ans s)"
proof (cases "put_ok ans")
  case True
  let ?s = "put_answered xs n i p a ans s" and ?k = "pi_number p - 1"
  have k: "?k < n" "Suc ?k = pi_number p" using assms by simp_all
  have made: "put_made xs n ?s (pi_number p) (etag_of ans)"
    using True by (auto simp: put_made_def put_answered_def Let_def)
  have old: "put_made xs n s j t \<Longrightarrow> put_made xs n ?s j t" for j t
    by (erule put_made_mono) (auto simp: put_answered_def Let_def)
  have "pl_results ?s = (pl_results s)[?k := Some \<lparr>pr_number = pi_number p, pr_etag = etag_of ans\<rparr>]"
    using True assms k by (simp add: put_answered_def store_at_inside results_right_def)
  with assms(1) made old k show ?thesis by (auto simp: results_right_def nth_list_update)
next
  case False
  have "put_made xs n s j t \<Longrightarrow> put_made xs n (put_answered xs n i p a ans s) j t" for j t
    by (erule put_made_mono) (auto simp: put_answered_def Let_def)
  with False assms(1) show ?thesis by (auto simp: results_right_def put_answered_def Let_def)
qed

lemma part_placed_answer:
  assumes "part_placed s q" and "i < length (pl_workers s)" and "pl_workers s ! i = Putting p a"
    and "pi_number p - 1 < length (pl_results s)"
  shows "part_placed (put_answered xs n i p a ans s) q"
proof -
  have other: "x \<in> set (pl_workers s) \<Longrightarrow> x \<noteq> Putting p a \<Longrightarrow> x \<in> set ((pl_workers s)[i := y])" for x y
    using in_set_update [of x "pl_workers s" i y] assms(3) by auto
  have new: "y \<in> set ((pl_workers s)[i := y])" for y by (rule set_update_memI [OF assms(2)])
  have kept: "pl_results s ! j \<noteq> None \<Longrightarrow> (pl_results s)[k := Some r] ! j \<noteq> None" for j k r
    by (cases "k < length (pl_results s)") (auto simp: nth_list_update list_update_beyond)
  from assms(1) consider "q \<in> set (pl_queue s)" | b where "Putting q b \<in> set (pl_workers s)"
    | "pl_results s ! (pi_number q - 1) \<noteq> None" | "Rejected \<in> set (pl_workers s)"
    unfolding part_placed_def by blast
  then show ?thesis
  proof cases
    case (2 b)
    show ?thesis
    proof (cases "Putting q b = Putting p a")
      case True
      with new [of "Putting p (Suc a)"] new [of Rejected] assms(4) show ?thesis
        by (auto simp: part_placed_def put_answered_def Let_def store_at_inside)
    next
      case False
      with 2 other [of "Putting q b"] show ?thesis by (auto simp: part_placed_def put_answered_def Let_def)
    qed
  qed (use other [of Rejected] kept assms(4) in \<open>auto simp: part_placed_def put_answered_def Let_def store_at_inside\<close>)
qed

lemma pool_inv_answer:
  assumes inv: "pool_inv xs ps n s" and i: "i < length (pl_workers s)" "pl_workers s ! i = Putting p a"
    and num: "\<forall>p\<in>ps. 1 \<le> pi_number p \<and> pi_number p \<le> n"
  shows "pool_inv xs ps n (put_answered xs n i p a ans s)"
proof -
  let ?s = "put_answered xs n i p a ans s"
  have "Putting p a \<in> set (pl_workers s)" using i by (metis nth_mem)
  then have p: "p \<in> ps" using inv by (auto simp: pool_inv_def)
  with num have k: "1 \<le> pi_number p" "pi_number p \<le> n" by auto
  have "results_right xs n ?s" using inv k by (intro results_right_answer) (auto simp: pool_inv_def)
  moreover have "part_placed ?s q" if "q \<in> ps" for q
    using inv k that by (intro part_placed_answer i) (auto simp: pool_inv_def results_right_def)
  moreover have "set (pl_queue ?s) \<subseteq> ps" using inv by (auto simp: pool_inv_def put_answered_def Let_def)
  moreover have "q \<in> ps" if "Putting q b \<in> set (pl_workers ?s)" for q b
    using that p inv by (auto simp: pool_inv_def put_answered_def Let_def dest!: set_update_E split: if_splits)
  moreover have "\<forall>(p, b, ans)\<in>set (pl_puts ?s). b = part_blob xs n (pi_number p)"
    using inv by (auto simp: pool_inv_def put_answered_def Let_def)
  ultimately show ?thesis unfolding pool_inv_def by blast
qed

lemma pool_inv_reach:
  assumes "(pool_step xs n)\<^sup>*\<^sup>* (pool_start parts) s" and "map pi_number parts = [1..<Suc n]"
  shows "pool_inv xs (set parts) n s"
  using assms(1)
proof (induction rule: rtranclp_induct)
  case base
  have "length parts = n" using arg_cong [OF assms(2), of length] by simp
  then show ?case by (auto simp: pool_inv_def pool_start_def results_right_def part_placed_def)
next
  case (step s s')
  have "\<forall>p\<in>set parts. pi_number p \<in> set [1..<Suc n]" using assms(2) by (metis image_eqI list.set_map)
  then have num: "\<forall>p\<in>set parts. 1 \<le> pi_number p \<and> pi_number p \<le> n" by auto
  from step.hyps(2) show ?case
    by (rule pool_stepE) (use step.IH num in \<open>auto intro!: pool_inv_turn pool_inv_answer\<close>)
qed

text \<open>The store keeps, for each part, the body of the last request it accepted.\<close>

definition stored_part :: "(part_input \<times> byte list \<times> put_answer) list \<Rightarrow> nat \<Rightarrow> byte list option" where
  "stored_part puts k = map_option (\<lambda>(p, b, ans). b) (find (\<lambda>(p, b, ans). pi_number p = k \<and> put_ok ans) puts)"

lemma stored_part_made:
  assumes "pool_inv xs ps n s" and "put_made xs n s k tag"
  shows "stored_part (pl_puts s) k = Some (part_blob xs n k)"
proof -
  from assms(2) have "find (\<lambda>(p, b, ans). pi_number p = k \<and> put_ok ans) (pl_puts s) \<noteq> None"
    by (auto simp: put_made_def find_None_iff)
  then obtain e where e: "find (\<lambda>(p, b, ans). pi_number p = k \<and> put_ok ans) (pl_puts s) = Some e" by blast
  then have "e \<in> set (pl_puts s)" "case e of (p, b, ans) \<Rightarrow> pi_number p = k \<and> put_ok ans"
    using find_Some_set [OF e] by auto
  with assms(1) e show ?thesis by (auto simp: stored_part_def pool_inv_def split: prod.splits)
qed

text \<open>A worker returns only when it finds the queue empty.\<close>

lemma pool_shape:
  assumes "(pool_step xs n)\<^sup>*\<^sup>* (pool_start parts) s"
  shows "length (pl_workers s) = min PART_CONCURRENCY (length parts) \<and> (Returned \<in> set (pl_workers s) \<longrightarrow> pl_queue s = [])"
  using assms
proof (induction rule: rtranclp_induct)
  case (step t t')
  from step.hyps(2) step.IH show ?case
    by (auto elim!: pool_stepE simp: take_turn_def put_answered_def Let_def split: list.split if_splits dest!: set_update_E)
qed (auto simp: pool_start_def)

lemma pool_resolved_queue:
  assumes "(pool_step xs n)\<^sup>*\<^sup>* (pool_start parts) s" and "pool_resolved s" and "parts \<noteq> []"
  shows "pl_queue s = []"
proof -
  have "pl_workers s \<noteq> []" using pool_shape [OF assms(1)] assms(3) by (cases parts) (auto simp: PART_CONCURRENCY_def)
  then have "Returned \<in> set (pl_workers s)" using assms(2) by (cases "pl_workers s") (auto simp: pool_resolved_def)
  with pool_shape [OF assms(1)] show ?thesis by blast
qed

lemma pool_delivers:
  assumes "(pool_step xs n)\<^sup>*\<^sup>* (pool_start parts) s" and "map pi_number parts = [1..<Suc n]"
    and "pool_resolved s" and "0 < n" and "xs \<noteq> []"
  shows "concat (map (\<lambda>k. the (stored_part (pl_puts s) k)) [1..<Suc n]) = xs \<and>
    (\<exists>results. pl_results s = map Some results \<and> map pr_number results = [1..<Suc n] \<and>
       list_all (\<lambda>r. put_made xs n s (pr_number r) (pr_etag r)) results)"
proof -
  have inv: "pool_inv xs (set parts) n s" by (rule pool_inv_reach [OF assms(1,2)])
  have len: "length parts = n" using arg_cong [OF assms(2), of length] by simp
  have queue: "pl_queue s = []" using pool_resolved_queue [OF assms(1,3)] len assms(4) by fastforce
  have some: "pl_results s ! k \<noteq> None" if "k < n" for k
  proof -
    have "Suc k \<in> set (map pi_number parts)" using that by (simp add: assms(2) del: upt_Suc)
    then obtain p where p: "p \<in> set parts" "pi_number p = Suc k" by auto
    have "part_placed s p" using inv p(1) by (simp add: pool_inv_def)
    with queue show ?thesis using assms(3) p(2) by (auto simp: part_placed_def pool_resolved_def)
  qed
  have right: "results_right xs n s" using inv by (simp add: pool_inv_def)
  define results where "results = map the (pl_results s)"
  have all: "pl_results s = map Some results"
    using some right by (intro nth_equalityI) (auto simp: results_def results_right_def)
  have len: "length results = n" using right by (simp add: results_def results_right_def)
  have num: "pr_number (results ! k) = Suc k" "put_made xs n s (Suc k) (pr_etag (results ! k))" if "k < n" for k
    using right that all len by (auto simp: results_right_def)
  have "map pr_number results = [1..<Suc n]"
    by (rule nth_equalityI) (simp_all add: len num del: upt_Suc)
  moreover have "list_all (\<lambda>r. put_made xs n s (pr_number r) (pr_etag r)) results"
    by (simp add: list_all_length len num)
  moreover have "map (\<lambda>k. the (stored_part (pl_puts s) k)) [1..<Suc n] = map (part_blob xs n) [1..<Suc n]"
  proof (rule map_cong [OF refl])
    fix k assume "k \<in> set [1..<Suc n]"
    then have "k - 1 < n" "Suc (k - 1) = k" by auto
    with num(2) [of "k - 1"] have "put_made xs n s k (pr_etag (results ! (k - 1)))" by simp
    then show "the (stored_part (pl_puts s) k) = part_blob xs n k" by (simp add: stored_part_made [OF inv])
  qed
  ultimately show ?thesis using all concat_blobs [OF assms(4,5)] by metis
qed

subsection \<open>With the parts of the API\<close>

definition parts_of :: "upload_init_response \<Rightarrow> part_input list" where
  "parts_of r = map (\<lambda>(k, url). \<lparr>pi_number = k, pi_url = url\<rparr>) (uir_parts r)"

text \<open>What a method returns, when it returns.\<close>

definition returns :: "('a \<Rightarrow> bool) \<Rightarrow> 'a svc \<Rightarrow> bool" where
  "returns P m \<longleftrightarrow> (\<forall>w x w'. m w = (Inr x, w') \<longrightarrow> P x)"

lemma returnsD: "returns P m \<Longrightarrow> m w = (Inr x, w') \<Longrightarrow> P x"
  by (auto simp: returns_def)

lemma returns_bind:
  assumes "returns Q m" and "\<And>x. Q x \<Longrightarrow> returns P (f x)"
  shows "returns P (andThen m f)"
  using assms unfolding returns_def andThen_def by (fastforce split: prod.splits sum.splits)

lemma returns_then: "(\<And>x. returns P (f x)) \<Longrightarrow> returns P (andThen m f)"
  by (rule returns_bind [of "\<lambda>_. True"]) (simp_all add: returns_def)

lemma returns_simps: "returns P (ret x) = P x" "returns P (throw c)"
  by (simp_all add: returns_def svc_run)

lemma returns_if: "(b \<Longrightarrow> returns P m) \<Longrightarrow> (\<not> b \<Longrightarrow> returns P n) \<Longrightarrow> returns P (if b then m else n)"
  by simp

lemma promise_all_results:
  assumes "\<And>i. returns (\<lambda>x. g x = f i) (m i)"
  shows "promise_all (map m is) w = (Inr xs, w') \<Longrightarrow> map g xs = map f is"
proof (induction "is" arbitrary: w xs w')
  case (Cons i "is")
  obtain r w1 where m: "m i w = (r, w1)" by fastforce
  obtain rs w2 where ms: "promise_all (map m is) w1 = (rs, w2)" by fastforce
  from Cons.prems m ms obtain x ys where "r = Inr x" "rs = Inr ys" "xs = x # ys"
    by (auto split: sum.splits)
  with m ms returnsD [OF assms, of i w x w1] Cons.IH [of w1 ys w2] show ?case by simp
qed simp

lemma presign_numbers: "returns (\<lambda>ps. map fst ps = [1..<Suc n]) (presign_parts H key uploadId n)"
proof -
  have one: "returns (\<lambda>x. fst x = Suc i) (andThen (minio_presigned_put_part H key uploadId (i + 1) URL_EXPIRY_SEC)
      (\<lambda>url. ret (i + 1, url)))" for i
    by (rule returns_then) (simp add: returns_simps)
  have "map fst ps = map Suc [0..<n]" if "presign_parts H key uploadId n w = (Inr ps, w')" for ps w w'
    using that unfolding presign_parts_def by (rule promise_all_results [OF one])
  then show ?thesis by (simp add: returns_def map_Suc_upt del: upt_Suc)
qed

lemma upload_init_parts:
  assumes "0 < uib_size body" and "uib_size body \<le> MAX_FILE_SIZE"
  shows "returns (\<lambda>x. uir_parts x \<noteq> [] \<and> map fst (uir_parts x) = [1..<Suc (length (uir_parts x))]) (upload_init H u body)"
proof -
  let ?P = "\<lambda>x. uir_parts x \<noteq> [] \<and> map fst (uir_parts x) = [1..<Suc (length (uir_parts x))]"
  let ?n = "nat (part_count (uib_size body))"
  have n: "0 < ?n" using part_plan [OF assms] by simp
  have "returns ?P (ret \<lparr>uir_session_id = i, uir_parts = ps, uir_content_type = c, uir_expires_at = e\<rparr>)"
    if "map fst ps = [1..<Suc ?n]" for ps i c e
  proof -
    have len: "length ps = ?n" using arg_cong [OF that, of length] by (simp del: upt_Suc)
    with n have "ps \<noteq> []" by (metis less_numeral_extra(3) list.size(3))
    with len that show ?thesis by (simp add: returns_simps del: upt_Suc)
  qed
  note multi = this
  have single: "returns ?P (ret \<lparr>uir_session_id = i, uir_parts = [(1, url)], uir_content_type = c, uir_expires_at = e\<rparr>)" for i url c e
    by (simp add: returns_simps)
  show ?thesis
    unfolding upload_init_def Let_def
    by (intro returns_if returns_simps(2) returns_bind [OF presign_numbers] returns_then single multi)
qed

text \<open>\<open>useUploadFile.ts\<close>: what is asked of the API first, and what is sent to it at the end.\<close>

definition upload_request :: "string \<Rightarrow> string \<Rightarrow> uuid option \<Rightarrow> byte list \<Rightarrow> upload_init_body" where
  "upload_request fileName fileType folderId content =
     \<lparr>uib_folder_id = folderId, uib_name = fileName, uib_size = int (length content),
      uib_mime_type = (if fileType = [] then ''application/octet-stream'' else fileType)\<rparr>"

definition completion_request :: "pool \<Rightarrow> (nat \<times> string) list" where
  "completion_request s = map (\<lambda>r. (pr_number (the r), pr_etag (the r))) (pl_results s)"

text \<open>
  C27: an upload delivers the file. Cut into the parts the API hands out for a file of any
  accepted size, put by four workers in any interleaving with failed attempts repeated,
  the parts the store has accepted, in the order of their numbers, are the file byte for
  byte once the pool's promise resolves; and what the client sends to complete the upload
  is one entry for each part, in that order, with the tag the store gave it.
\<close>

theorem upload_delivers_file:
  assumes "upload_init H u (upload_request fileName fileType folderId xs) w = (Inr resp, w')"
    and "xs \<noteq> []" and "int (length xs) \<le> MAX_FILE_SIZE" and "n = length (parts_of resp)"
    and "(pool_step xs n)\<^sup>*\<^sup>* (pool_start (parts_of resp)) s" and "pool_resolved s"
  shows "concat (map (\<lambda>k. the (stored_part (pl_puts s) k)) [1..<Suc n]) = xs \<and>
    map fst (completion_request s) = [1..<Suc n] \<and> list_all (\<lambda>(k, tag). put_made xs n s k tag) (completion_request s)"
proof -
  have size: "0 < uib_size (upload_request fileName fileType folderId xs)"
    "uib_size (upload_request fileName fileType folderId xs) \<le> MAX_FILE_SIZE"
    using assms(2,3) by (simp_all add: upload_request_def)
  have "uir_parts resp \<noteq> []" "map fst (uir_parts resp) = [1..<Suc (length (uir_parts resp))]"
    using returnsD [OF upload_init_parts [OF size] assms(1)] by simp_all
  moreover have "map pi_number (parts_of resp) = map fst (uir_parts resp)" by (auto simp: parts_of_def)
  ultimately have parts: "map pi_number (parts_of resp) = [1..<Suc n]" "0 < n"
    by (simp_all add: parts_of_def assms(4) del: upt_Suc)
  from pool_delivers [OF assms(5) parts(1) assms(6) parts(2) assms(2)] obtain results where
    "concat (map (\<lambda>k. the (stored_part (pl_puts s) k)) [1..<Suc n]) = xs" "pl_results s = map Some results"
    "map pr_number results = [1..<Suc n]" "list_all (\<lambda>r. put_made xs n s (pr_number r) (pr_etag r)) results" by blast
  then show ?thesis by (simp add: completion_request_def comp_def list_all_iff del: upt_Suc)
qed

subsection \<open>A run\<close>

text \<open>One part of two bytes, whose first request fails.\<close>

definition demo_part :: part_input where
  "demo_part = \<lparr>pi_number = 1, pi_url = ''text''\<rparr>"

definition demo_pool :: pool where
  "demo_pool = take_turn 0 (put_answered [1, 2] 1 0 demo_part 1 (PutAnswer 200 (Some ''e''))
     (put_answered [1, 2] 1 0 demo_part 0 NetworkError (take_turn 0 (pool_start [demo_part]))))"

lemma demo_pool_eq:
  "demo_pool = \<lparr>pl_queue = [], pl_workers = [Returned], pl_results = [Some \<lparr>pr_number = 1, pr_etag = ''e''\<rparr>], pl_completed = 1,
     pl_progress = [1], pl_puts = [(demo_part, [1, 2], PutAnswer 200 (Some ''e'')), (demo_part, [1, 2], NetworkError)]\<rparr>"
  by (simp add: demo_pool_def take_turn_def put_answered_def pool_start_def Let_def PART_CONCURRENCY_def MAX_RETRIES_def
      put_ok_def store_at_def etag_of_def strip_quotes_def demo_part_def part_blob_def slice_def client_part_size_def
      ceil_div_def nullish_def eval_nat_numeral)

lemma demo_pool_run: "(pool_step [1, 2] 1 ^^ 4) (pool_start [demo_part]) demo_pool"
proof -
  let ?a = "pool_start [demo_part]"
  let ?b = "take_turn 0 ?a"
  let ?c = "put_answered [1, 2] 1 0 demo_part 0 NetworkError ?b"
  let ?d = "put_answered [1, 2] 1 0 demo_part 1 (PutAnswer 200 (Some ''e'')) ?c"
  have "pool_step [1, 2] 1 ?a ?b" by (rule Turn) (simp_all add: pool_start_def PART_CONCURRENCY_def)
  moreover have "pool_step [1, 2] 1 ?b ?c"
    by (rule Answer) (simp_all add: pool_start_def PART_CONCURRENCY_def take_turn_def)
  moreover have "pool_step [1, 2] 1 ?c ?d"
    by (rule Answer) (simp_all add: pool_start_def PART_CONCURRENCY_def take_turn_def put_answered_def Let_def put_ok_def MAX_RETRIES_def)
  moreover have "pool_step [1, 2] 1 ?d demo_pool"
    unfolding demo_pool_def by (rule Turn) (simp_all add: pool_start_def PART_CONCURRENCY_def take_turn_def put_answered_def Let_def put_ok_def MAX_RETRIES_def)
  ultimately show ?thesis by (auto simp: eval_nat_numeral)
qed

lemma upload_pool_ends_witness: "pool_settled demo_pool \<or> (\<exists>s'. pool_step [1, 2] 1 demo_pool s')"
  using upload_pool_ends [OF demo_pool_run] by blast

lemma upload_delivers_file_witness:
  "\<exists>resp w'. upload_init demo_host ''ada'' (upload_request ''n'' [] None [1, 2]) (demo_world (empty_db\<lparr>users := [demo_user]\<rparr>)) =
       (Inr resp, w') \<and> map fst (completion_request demo_pool) = [1]"
proof -
  let ?b = "upload_request ''n'' [] None [1, 2]"
  let ?w = "demo_world (empty_db\<lparr>users := [demo_user]\<rparr>)"
  have "\<exists>resp. fst (upload_init demo_host ''ada'' ?b ?w) = Inr resp \<and> uir_parts resp = [(1, ''text'')]"
    by (simp add: upload_init_def upload_request_def MAX_FILE_SIZE_def MULTIPART_THRESHOLD_def minio_presigned_put_object_def
        upload_session_insert_def user_exists_def folder_exists_def demo_user_def andThen_def svc_run draw_run call_run Let_def)
  then obtain resp w' where run: "upload_init demo_host ''ada'' ?b ?w = (Inr resp, w')" "uir_parts resp = [(1, ''text'')]"
    by (metis eq_fst_iff)
  from run(2) have parts: "parts_of resp = [demo_part]" by (simp add: parts_of_def demo_part_def)
  have reach: "(pool_step [1, 2] 1)\<^sup>*\<^sup>* (pool_start (parts_of resp)) demo_pool"
    using relpowp_imp_rtranclp [OF demo_pool_run] by (simp add: parts)
  from upload_delivers_file [OF run(1) _ _ _ reach] have "map fst (completion_request demo_pool) = [1]"
    by (simp add: MAX_FILE_SIZE_def demo_pool_eq pool_resolved_def parts)
  with run(1) show ?thesis by (intro exI conjI)
qed

end
