(* ===== verification/ClientAuth.thy ===== *)
theory ClientAuth
  imports Routes "HOL-Library.Multiset"
begin

text \<open>
  The web client's authentication: the store, the interceptors of \<open>axiosInstance.ts\<close> with
  their one refresh at a time, and the client together with the API's refresh handler
  and the browser's cookie.
\<close>

subsection \<open>\<open>entities/user/model/store.ts\<close>, \<open>shared/api/axiosInstance.ts\<close>\<close>

text \<open>
  A request as the interceptors see it: \<open>_retry\<close> and the \<open>Authorization\<close> header. Which paths
  are public is a generated list, a parameter here.
\<close>

record api_request =
  rq_id :: nat
  rq_method :: "http_method option"
  rq_url :: string
  rq_retry :: bool
  rq_auth :: "string option"

text \<open>
  The client's state. \<open>cl_awaiting\<close> holds the original request of each handler that waits
  for the answer to the refresh it posted; \<open>cl_at_login\<close> says that the page was sent to
  the login.
\<close>

record client =
  cl_access_token :: "string option"
  cl_user :: "user_dto option"
  cl_is_refreshing :: bool
  cl_failed_queue :: "api_request list"
  cl_awaiting :: "api_request list"
  cl_at_login :: bool

definition set_auth :: "string \<Rightarrow> user_dto \<Rightarrow> client \<Rightarrow> client" where
  "set_auth token user c = c\<lparr>cl_access_token := Some token, cl_user := Some user\<rparr>"

definition set_access_token :: "string \<Rightarrow> client \<Rightarrow> client" where
  "set_access_token token c = c\<lparr>cl_access_token := Some token\<rparr>"

definition clear_auth :: "client \<Rightarrow> client" where
  "clear_auth c = c\<lparr>cl_access_token := None, cl_user := None\<rparr>"

text \<open>What the client does: send a request, post a refresh, reject the promise of a request.\<close>

datatype client_out = Send api_request | PostRefresh | RejectRequest api_request

definition bearer :: "string \<Rightarrow> string" where
  "bearer token = ''Bearer '' @ token"

definition request_interceptor :: "(string \<Rightarrow> bool) \<Rightarrow> client \<Rightarrow> api_request \<Rightarrow> api_request" where
  "request_interceptor isPublicPath c r =
     (if rq_url r \<noteq> [] \<and> isPublicPath (rq_url r) then r
      else if truthy (cl_access_token c) then r\<lparr>rq_auth := Some (bearer (the (cl_access_token c)))\<rparr>
      else r)"

definition send :: "(string \<Rightarrow> bool) \<Rightarrow> client \<Rightarrow> api_request \<Rightarrow> client_out" where
  "send isPublicPath c r = Send (request_interceptor isPublicPath c r)"

text \<open>\<open>processQueue\<close>: with an error the queued requests are rejected, with a token they are sent again.\<close>

definition process_queue :: "(string \<Rightarrow> bool) \<Rightarrow> client \<Rightarrow> string option \<Rightarrow> client_out list" where
  "process_queue isPublicPath c token = map (\<lambda>r. case token of
     None \<Rightarrow> RejectRequest r
   | Some t \<Rightarrow> send isPublicPath c (r\<lparr>rq_auth := Some (bearer t)\<rparr>)) (cl_failed_queue c)"

text \<open>The response interceptor's handler, up to the refresh it awaits; no status: the network failed.\<close>

definition response_error :: "(string \<Rightarrow> bool) \<Rightarrow> api_request \<Rightarrow> nat option \<Rightarrow> client \<Rightarrow> client \<times> client_out list" where
  "response_error isPublicPath r status c =
     (if status \<noteq> Some 401 \<or> rq_retry r then (c, [RejectRequest r])
      else if rq_url r \<noteq> [] \<and> isPublicPath (rq_url r) then (c, [RejectRequest r])
      else if cl_is_refreshing c then (c\<lparr>cl_failed_queue := cl_failed_queue c @ [r]\<rparr>, [])
      else (c\<lparr>cl_is_refreshing := True, cl_awaiting := r\<lparr>rq_retry := True\<rparr> # cl_awaiting c\<rparr>, [PostRefresh]))"

text \<open>And from its answer on, a token or an error.\<close>

definition refresh_answered :: "(string \<Rightarrow> bool) \<Rightarrow> api_request \<Rightarrow> string option \<Rightarrow> client \<Rightarrow> client \<times> client_out list" where
  "refresh_answered isPublicPath r token c =
     (let c1 = c\<lparr>cl_awaiting := remove1 r (cl_awaiting c)\<rparr> in
      case token of
        Some t \<Rightarrow>
          let c2 = set_access_token t c1 in
          (c2\<lparr>cl_failed_queue := [], cl_is_refreshing := False\<rparr>,
           send isPublicPath c2 (r\<lparr>rq_auth := Some (bearer t)\<rparr>) # process_queue isPublicPath c2 (Some t))
      | None \<Rightarrow>
          ((clear_auth c1)\<lparr>cl_failed_queue := [], cl_is_refreshing := False, cl_at_login := True\<rparr>,
           process_queue isPublicPath c1 None @ [RejectRequest r]))"

subsection \<open>The client at work\<close>

datatype client_event = Call nat "http_method option" string | Failed api_request "nat option" | Refreshed api_request "string option"

fun client_step :: "(string \<Rightarrow> bool) \<Rightarrow> client_event \<Rightarrow> client \<Rightarrow> client \<times> client_out list" where
  "client_step pub (Call i m url) c = (c, [send pub c \<lparr>rq_id = i, rq_method = m, rq_url = url, rq_retry = False, rq_auth = None\<rparr>])"
| "client_step pub (Failed r status) c = response_error pub r status c"
| "client_step pub (Refreshed r token) c = (if r \<in> set (cl_awaiting c) then refresh_answered pub r token c else (c, []))"

definition client_start :: client where
  "client_start = \<lparr>cl_access_token = None, cl_user = None, cl_is_refreshing = False, cl_failed_queue = [],
     cl_awaiting = [], cl_at_login = False\<rparr>"

text \<open>A run of the client: its state and everything it has sent, posted and rejected.\<close>

fun client_run :: "(string \<Rightarrow> bool) \<Rightarrow> client_event list \<Rightarrow> client \<Rightarrow> client \<times> client_out list" where
  "client_run pub [] c = (c, [])"
| "client_run pub (e # es) c =
     (case client_step pub e c of (c', out) \<Rightarrow> (case client_run pub es c' of (c'', out') \<Rightarrow> (c'', out @ out')))"

definition client_inv :: "client \<Rightarrow> bool" where
  "client_inv c \<longleftrightarrow> length (cl_awaiting c) = (if cl_is_refreshing c then 1 else 0) \<and>
     (\<not> cl_is_refreshing c \<longrightarrow> cl_failed_queue c = [])"

lemma client_inv_start: "client_inv client_start"
  by (simp add: client_inv_def client_start_def)

lemma remove1_single: "length xs = Suc 0 \<Longrightarrow> x \<in> set xs \<Longrightarrow> remove1 x xs = []"
  by (cases xs) auto

lemma client_inv_awaiting: "client_inv c \<Longrightarrow> r \<in> set (cl_awaiting c) \<Longrightarrow> cl_awaiting c = [r] \<and> cl_is_refreshing c"
  by (cases "cl_awaiting c") (auto simp: client_inv_def split: if_splits)

lemma client_step_inv: "client_inv c \<Longrightarrow> client_inv (fst (client_step pub e c))"
proof (cases e)
  case (Refreshed r token)
  assume "client_inv c"
  with Refreshed client_inv_awaiting [of c r] show ?thesis
    by (auto simp: client_inv_def refresh_answered_def set_access_token_def clear_auth_def Let_def split: option.split)
qed (auto simp: client_inv_def response_error_def)

interpretation client_run: event_run "client_step pub" "client_run pub" client_inv for pub
  by unfold_locales (simp_all add: client_step_inv)

subsection \<open>No request is lost\<close>

text \<open>The requests that want an answer from the client, and those it has dealt with.\<close>

fun asked :: "client_event \<Rightarrow> nat multiset" where
  "asked (Call i m url) = {#i#}"
| "asked (Failed r status) = {#rq_id r#}"
| "asked (Refreshed r token) = {#}"

fun dealt_with :: "client_out \<Rightarrow> nat multiset" where
  "dealt_with (Send r) = {#rq_id r#}"
| "dealt_with PostRefresh = {#}"
| "dealt_with (RejectRequest r) = {#rq_id r#}"

definition waiting :: "client \<Rightarrow> nat multiset" where
  "waiting c = mset (map rq_id (cl_failed_queue c @ cl_awaiting c))"

definition posted :: "client_out list \<Rightarrow> nat" where
  "posted out = length (filter (\<lambda>a. a = PostRefresh) out)"

lemma dealt_send [simp]: "dealt_with (send pub c r) = {#rq_id r#}"
  by (simp add: send_def request_interceptor_def)

lemma dealt_queue [simp]:
  "sum_list (map dealt_with (process_queue pub c token)) = mset (map rq_id (cl_failed_queue c))"
proof -
  have "sum_list (map (\<lambda>r. {#rq_id r#}) rs) = mset (map rq_id rs)" for rs by (induction rs) auto
  then show ?thesis by (cases token) (simp_all add: process_queue_def comp_def)
qed

lemma posted_simps [simp]:
  "posted [] = 0" "posted (PostRefresh # out) = Suc (posted out)" "posted (Send r # out) = posted out"
  "posted (RejectRequest r # out) = posted out" "posted (out @ out') = posted out + posted out'"
  "posted (send pub c r # out) = posted out"
  by (simp_all add: posted_def send_def)

lemma posted_queue [simp]: "posted (process_queue pub c token) = 0"
  by (cases token) (auto simp: posted_def process_queue_def send_def filter_empty_conv)

lemma client_step_accounts:
  assumes "client_inv c"
  shows "asked e + waiting c = sum_list (map dealt_with (snd (client_step pub e c))) + waiting (fst (client_step pub e c))"
proof (cases e)
  case (Refreshed r token)
  with assms client_inv_awaiting [of c r] show ?thesis
    by (auto simp: waiting_def refresh_answered_def set_access_token_def clear_auth_def Let_def split: option.split)
qed (auto simp: waiting_def response_error_def)

text \<open>Answers to a refresh that the client was waiting for.\<close>

fun answers :: "(string \<Rightarrow> bool) \<Rightarrow> client_event list \<Rightarrow> client \<Rightarrow> nat" where
  "answers pub [] c = 0"
| "answers pub (e # es) c =
     (case e of Refreshed r token \<Rightarrow> if r \<in> set (cl_awaiting c) then 1 else 0 | _ \<Rightarrow> 0) +
     answers pub es (fst (client_step pub e c))"

lemma client_step_posts:
  assumes "client_inv c"
  shows "posted (snd (client_step pub e c)) + length (cl_awaiting c) =
    (case e of Refreshed r token \<Rightarrow> if r \<in> set (cl_awaiting c) then 1 else 0 | _ \<Rightarrow> 0) +
    length (cl_awaiting (fst (client_step pub e c)))"
proof (cases e)
  case (Refreshed r token)
  with assms client_inv_awaiting [of c r] show ?thesis
    by (auto simp: refresh_answered_def set_access_token_def clear_auth_def Let_def split: option.split)
qed (auto simp: response_error_def)

lemma client_run_posts:
  "client_inv c \<Longrightarrow> posted (snd (client_run pub es c)) + length (cl_awaiting c) =
     answers pub es c + length (cl_awaiting (fst (client_run pub es c)))"
  by (rule client_run.run_counts [where one = "\<lambda>e c. case e of Refreshed r token \<Rightarrow> if r \<in> set (cl_awaiting c) then 1 else 0 | _ \<Rightarrow> 0"])
    (simp_all add: client_step_posts)

text \<open>
  C29: the interceptors keep one refresh under way at most, however the answers to the
  requests interleave: as many refreshes have been posted as have been answered, plus the
  one that is being waited for. No request is lost or settled twice: every request made
  and every failure reported has been sent, sent again or rejected exactly once, apart
  from those that wait for the refresh under way; without one nothing waits.
\<close>

theorem client_settles_requests:
  "case client_run pub es client_start of (c, out) \<Rightarrow>
     posted out = answers pub es client_start + (if cl_is_refreshing c then 1 else 0) \<and>
     sum_list (map asked es) = sum_list (map dealt_with out) + (if cl_is_refreshing c then waiting c else {#})"
proof -
  have "client_inv (fst (client_run pub es client_start))" by (rule client_run.run_inv [OF client_inv_start])
  with client_run_posts [OF client_inv_start, of pub es] client_run.run_accounts [where pub = pub and es = es, OF client_step_accounts client_inv_start] show ?thesis
    by (auto simp: client_inv_def client_start_def waiting_def split: prod.split)
qed

end
