(* ===== verification/ClientSession.thy ===== *)
theory ClientSession
  imports ClientAuth
begin

text \<open>
  The client with the API behind it: the refresh it posts is served by
  \<open>login.controller.ts\<close> with the cookie the browser holds, and the browser keeps the cookie
  the answer sets. As the client has one refresh under way at most, each one presents the
  token that the one before it was given.
\<close>

text \<open>The browser's \<open>refreshToken\<close> cookie after a response that made the calls \<open>cs\<close>, newest first.\<close>

fun cookie_after :: "string \<Rightarrow> calls \<Rightarrow> string option \<Rightarrow> string option" where
  "cookie_after name [] old = old"
| "cookie_after name ((t, SetCookie n v age) # cs) old = (if n = name then Some v else cookie_after name cs old)"
| "cookie_after name ((t, ClearCookie n) # cs) old = (if n = name then None else cookie_after name cs old)"
| "cookie_after name ((t, _) # cs) old = cookie_after name cs old"

definition new_calls :: "world \<Rightarrow> world \<Rightarrow> calls" where
  "new_calls w w' = take (length (calls w') - length (calls w)) (calls w')"

record browser =
  br_client :: client
  br_cookie :: "string option"
  br_world :: world

definition token_of_response :: "fault + login_response \<Rightarrow> string option" where
  "token_of_response res = (case res of Inr (AUTHENTICATED token _) \<Rightarrow> Some token | _ \<Rightarrow> None)"

text \<open>The API serves the refresh that was posted for the request \<open>r\<close>.\<close>

definition serve_refresh :: "host \<Rightarrow> (string \<Rightarrow> bool) \<Rightarrow> api_request \<Rightarrow> browser \<Rightarrow> browser" where
  "serve_refresh H pub r b =
     (case login_controller_refresh H (\<lambda>n. if n = REFRESH_TOKEN_COOKIE then br_cookie b else None) (br_world b) of
        (res, w') \<Rightarrow>
          \<lparr>br_client = fst (client_step pub (Refreshed r (token_of_response res)) (br_client b)),
           br_cookie = cookie_after REFRESH_TOKEN_COOKIE (new_calls (br_world b) w') (br_cookie b),
           br_world = w'\<rparr>)"

text \<open>
  Requests are made and fail, refreshes are served, and other requests, which leave the
  sessions alone, use up the clock and the random values.
\<close>

datatype browser_event = Calls nat "http_method option" string | Fails api_request "nat option" | Serves api_request | Elapses nat

definition browser_step :: "host \<Rightarrow> (string \<Rightarrow> bool) \<Rightarrow> browser_event \<Rightarrow> browser \<Rightarrow> browser" where
  "browser_step H pub e b = (case e of
     Calls i m url \<Rightarrow> b\<lparr>br_client := fst (client_step pub (Call i m url) (br_client b))\<rparr>
   | Fails r status \<Rightarrow> b\<lparr>br_client := fst (client_step pub (Failed r status) (br_client b))\<rparr>
   | Serves r \<Rightarrow> if r \<in> set (cl_awaiting (br_client b)) then serve_refresh H pub r b else b
   | Elapses n \<Rightarrow> b\<lparr>br_world := (br_world b)\<lparr>draws := draws (br_world b) + n\<rparr>\<rparr>)"

text \<open>The browser's session has not run out at the moment it is used.\<close>

definition unexpired :: "host \<Rightarrow> browser \<Rightarrow> bool" where
  "unexpired H b \<longleftrightarrow> (\<forall>r\<in>set (refresh_tokens (db (br_world b))).
     map_option (hash_token H) (br_cookie b) = Some (rt_token_hash r) \<and> rt_revoked_at r = None \<longrightarrow>
       h_clock H (draws (br_world b)) < rt_expires_at r)"

fun in_time :: "host \<Rightarrow> (string \<Rightarrow> bool) \<Rightarrow> browser_event list \<Rightarrow> browser \<Rightarrow> bool" where
  "in_time H pub [] b = True"
| "in_time H pub (e # es) b =
     ((case e of Serves r \<Rightarrow> unexpired H b | _ \<Rightarrow> True) \<and> in_time H pub es (browser_step H pub e b))"

definition holds_session :: "host \<Rightarrow> browser \<Rightarrow> bool" where
  "holds_session H b \<longleftrightarrow> (\<exists>raw. br_cookie b = Some raw \<and> raw \<noteq> [] \<and>
     (\<exists>r\<in>set (refresh_tokens (db (br_world b))). rt_token_hash r = hash_token H raw \<and> rt_revoked_at r = None))"

definition server_ok :: "host \<Rightarrow> world \<Rightarrow> bool" where
  "server_ok H w \<longleftrightarrow> \<not> in_tx w \<and> (\<forall>r\<in>set (refresh_tokens (db w)). user_exists (rt_user_id r) (db w)) \<and>
     (\<forall>n\<ge>draws w. h_uuid H n \<notin> rt_id ` set (refresh_tokens (db w)))"

lemma revoke_row_kept:
  "r \<in> set (revoke_row i t ts) \<Longrightarrow> \<exists>r'\<in>set ts. rt_id r' = rt_id r \<and> rt_user_id r' = rt_user_id r"
  by (auto simp: revoke_row_def update_where_def)

lemma refresh_run:
  assumes ok: "server_ok H w" and commit: "\<And>cs. h_commit H cs = None" and uuid: "inj (h_uuid H)"
    and raw: "raw \<noteq> []" and session: "active_session (hash_token H raw) (h_clock H (draws w)) (refresh_tokens (db w)) = Some m"
  shows "\<exists>tok dto w'. login_refresh H (Some raw) w = (Inr (AUTHENTICATED tok dto), w') \<and> server_ok H w' \<and>
    new_calls w w' = [(h_clock H (draws w + 5), SetCookie REFRESH_TOKEN_COOKIE (issued_raw H (draws w + 1)) (h_refresh_exp_ms H))] \<and>
    refresh_tokens (db w') = revoke_row (rt_id m) (h_clock H (draws w)) (refresh_tokens (db w)) @
      [new_session_row H (rt_user_id m) (draws w + 1)]"
proof -
  let ?ts = "refresh_tokens (db w)" and ?n = "draws w"
  let ?rows = "revoke_row (rt_id m) (h_clock H ?n) ?ts @ [new_session_row H (rt_user_id m) (?n + 1)]"
  let ?w = "w\<lparr>draws := ?n + 5, db := (db w)\<lparr>refresh_tokens := ?rows\<rparr>\<rparr>"
  let ?e = "SetCookie REFRESH_TOKEN_COOKIE (issued_raw H (?n + 1)) (h_refresh_exp_ms H)"
  from ok have tx: "\<not> in_tx w" and users: "\<forall>r\<in>set ?ts. user_exists (rt_user_id r) (db w)"
    and fresh: "h_uuid H (?n + 4) \<notin> rt_id ` set ?ts" by (simp_all add: server_ok_def)
  have rotate: "session_rotate H raw w = (Inr (rt_user_id m, \<lparr>irt_raw = issued_raw H (?n + 1), irt_exp_ms = h_refresh_exp_ms H\<rparr>), ?w)"
    using session_rotate_run [OF tx commit users fresh, of raw] session by (simp add: Let_def)
  have m: "m \<in> set ?ts" using session find_Some_set unfolding active_session_def by fastforce
  with users have member: "rt_user_id m \<in> u_id ` set (users (db w))" by (simp add: user_exists_def)
  then have "find (\<lambda>u. u_id u = rt_user_id m) (users (db w)) \<noteq> None" unfolding find_None_iff by fastforce
  then obtain u where u: "find (\<lambda>u. u_id u = rt_user_id m) (users (db w)) = Some u" by blast
  have wp_rotate: "wp (session_rotate H raw) Q w =
      Q (Inr (rt_user_id m, \<lparr>irt_raw = issued_raw H (?n + 1), irt_exp_ms = h_refresh_exp_ms H\<rparr>)) ?w" for Q
    by (simp add: wp_def rotate)
  let ?w' = "(stamp H ?e ?w)\<lparr>draws := ?n + 7\<rparr>"
  have run: "login_refresh H (Some raw) w = (Inr (AUTHENTICATED (access_token H (?n + 6) u (db w)) (user_dto_of u (db w))), ?w')"
    by (rule wp_result [THEN iffD2]) (simp add: login_refresh_def auth_rotate_refresh_token_def u raw wp wp_rotate set_refresh_cookie_def auth_generate_access_token_def token_generate_access_def
        access_token_def user_dto_of_def stamp_def eval_nat_numeral)
  have known: "user_exists (rt_user_id r) (db w)" if r: "r \<in> set ?rows" for r
  proof (cases "r = new_session_row H (rt_user_id m) (?n + 1)")
    case True
    then show ?thesis using users m by (simp add: new_session_row_def)
  next
    case False
    with r have "r \<in> set (revoke_row (rt_id m) (h_clock H ?n) ?ts)" by simp
    from revoke_row_kept [OF this] users show ?thesis by force
  qed
  have unused: "h_uuid H k \<noteq> rt_id r" if r: "r \<in> set ?rows" and k: "?n + 7 \<le> k" for r k
  proof (cases "r = new_session_row H (rt_user_id m) (?n + 1)")
    case True
    then show ?thesis using uuid k by (simp add: new_session_row_def inj_eq)
  next
    case False
    with r have "r \<in> set (revoke_row (rt_id m) (h_clock H ?n) ?ts)" by simp
    from revoke_row_kept [OF this] have "rt_id r \<in> rt_id ` set ?ts" by (metis image_eqI)
    moreover have "h_uuid H k \<notin> rt_id ` set ?ts" using ok k by (simp add: server_ok_def)
    ultimately show ?thesis by metis
  qed
  have rows: "refresh_tokens (db ?w') = ?rows" "draws ?w' = ?n + 7" "\<not> in_tx ?w'" using tx by simp_all
  have "user_exists i (db ?w') = user_exists i (db w)" for i by (simp add: user_exists_def)
  with known have "\<forall>r\<in>set (refresh_tokens (db ?w')). user_exists (rt_user_id r) (db ?w')" unfolding rows by blast
  moreover have "\<forall>k\<ge>draws ?w'. h_uuid H k \<notin> rt_id ` set (refresh_tokens (db ?w'))"
    unfolding rows using unused by blast
  ultimately have "server_ok H ?w'" using rows(3) unfolding server_ok_def by blast
  moreover have "new_calls w ?w' = [(h_clock H (?n + 5), ?e)]" by (simp add: new_calls_def)
  ultimately show ?thesis using run rows(1) by (intro exI conjI)
qed

definition browser_inv :: "host \<Rightarrow> browser \<Rightarrow> bool" where
  "browser_inv H b \<longleftrightarrow> client_inv (br_client b) \<and> \<not> cl_at_login (br_client b) \<and> holds_session H b \<and> server_ok H (br_world b)"

lemma serve_refresh_inv:
  assumes inv: "browser_inv H b" and commit: "\<And>cs. h_commit H cs = None" and uuid: "inj (h_uuid H)"
    and r: "r \<in> set (cl_awaiting (br_client b))" and time: "unexpired H b"
  shows "browser_inv H (serve_refresh H pub r b)"
proof -
  let ?w = "br_world b"
  from inv obtain raw x where raw: "br_cookie b = Some raw" "raw \<noteq> []" and
    x: "x \<in> set (refresh_tokens (db ?w))" "rt_token_hash x = hash_token H raw" "rt_revoked_at x = None"
    by (auto simp: browser_inv_def holds_session_def)
  with time have "active_session (hash_token H raw) (h_clock H (draws ?w)) (refresh_tokens (db ?w)) \<noteq> None"
    by (auto simp: active_session_def find_None_iff unexpired_def)
  then obtain m where "active_session (hash_token H raw) (h_clock H (draws ?w)) (refresh_tokens (db ?w)) = Some m" by blast
  from refresh_run [OF _ commit uuid raw(2) this] inv obtain tok dto w' where run:
    "login_refresh H (Some raw) ?w = (Inr (AUTHENTICATED tok dto), w')" "server_ok H w'"
    "new_calls ?w w' = [(h_clock H (draws ?w + 5), SetCookie REFRESH_TOKEN_COOKIE (issued_raw H (draws ?w + 1)) (h_refresh_exp_ms H))]"
    "refresh_tokens (db w') = revoke_row (rt_id m) (h_clock H (draws ?w)) (refresh_tokens (db ?w)) @
      [new_session_row H (rt_user_id m) (draws ?w + 1)]"
    unfolding browser_inv_def by blast
  have "serve_refresh H pub r b = \<lparr>br_client = fst (client_step pub (Refreshed r (Some tok)) (br_client b)),
      br_cookie = Some (issued_raw H (draws ?w + 1)), br_world = w'\<rparr>"
    using run raw by (simp add: serve_refresh_def login_controller_refresh_def token_of_response_def)
  moreover have "client_inv (fst (client_step pub (Refreshed r (Some tok)) (br_client b)))"
    using inv by (intro client_step_inv) (simp add: browser_inv_def)
  moreover have "\<not> cl_at_login (fst (client_step pub (Refreshed r (Some tok)) (br_client b)))"
    using inv r by (simp add: browser_inv_def refresh_answered_def set_access_token_def Let_def)
  moreover have "issued_raw H (draws ?w + 1) \<noteq> []" by (simp add: issued_raw_def)
  ultimately show ?thesis using run(2,4)
    by (auto simp: browser_inv_def holds_session_def new_session_row_def issued_hash_def)
qed

lemma browser_step_inv:
  assumes "browser_inv H b" and "\<And>cs. h_commit H cs = None" and "inj (h_uuid H)"
    and "case e of Serves r \<Rightarrow> unexpired H b | _ \<Rightarrow> True"
  shows "browser_inv H (browser_step H pub e b)"
proof (cases e)
  case (Serves r)
  with assms serve_refresh_inv [OF assms(1-3), of r pub] show ?thesis by (simp add: browser_step_def)
next
  case (Elapses n)
  with assms(1) show ?thesis by (auto simp: browser_step_def browser_inv_def holds_session_def server_ok_def)
next
  case (Calls i m url)
  with assms(1) show ?thesis by (simp add: browser_step_def browser_inv_def holds_session_def)
next
  case (Fails r status)
  with assms(1) client_step_inv [of "br_client b" pub "Failed r status"] show ?thesis
    by (auto simp: browser_step_def browser_inv_def holds_session_def response_error_def)
qed


definition demo_browser :: browser where
  "demo_browser = \<lparr>br_client = client_start, br_cookie = Some ''token'', br_world = demo_world demo_sessions\<rparr>"

definition demo_request :: api_request where
  "demo_request = \<lparr>rq_id = 7, rq_method = Some GET, rq_url = ''/folders'', rq_retry = False, rq_auth = None\<rparr>"


end
