(* ===== verification/ClientTwoFa.thy ===== *)
theory ClientTwoFa
  imports Login Mounts
begin

text \<open>
  The second factor outside the API: the push worker \<open>src/services/mq\<close> that sends a
  challenge to a device, the app that opens it, and the pages that wait for its answer.
\<close>

subsection \<open>\<open>push.worker.ts\<close>, \<open>fcm.service.ts\<close>\<close>

text \<open>The texts in Korean are left out: the message's title and body, and the words before Firebase's error.\<close>

record fcm_message =
  fm_token :: string
  fm_data :: "(string \<times> string) list"

definition message_of :: "push_challenge_job \<Rightarrow> fcm_message" where
  "message_of job = \<lparr>fm_token = job_push_token job,
     fm_data = [(''type'', ''2FA_CHALLENGE''), (''challengeId'', job_challenge_id job), (''options'', job_options job),
       (''expiresAt'', iso_string (job_expires_at job)), (''deeplink'', ''/2fa/'' @ job_challenge_id job)]\<rparr>"

text \<open>
  Sending fails with the text of Firebase's error; \<open>fcm\<close> gives it, or nothing. What is
  returned are the messages handed to Firebase and how the job ended.
\<close>

definition fcm_send :: "(fcm_message \<Rightarrow> string option) \<Rightarrow> push_challenge_job \<Rightarrow> fcm_message list \<times> (string + unit)" where
  "fcm_send fcm job = ([message_of job], case fcm (message_of job) of None \<Rightarrow> Inr () | Some e \<Rightarrow> Inl (''FCM '' @ e))"

definition push_worker_process :: "(fcm_message \<Rightarrow> string option) \<Rightarrow> push_challenge_job \<Rightarrow> fcm_message list \<times> (string + unit)" where
  "push_worker_process fcm job = (if job_push_token job = [] then ([], Inr ()) else fcm_send fcm job)"

subsection \<open>\<open>resolveDeepLink.ts\<close>, \<open>router/config.tsx\<close>\<close>

text \<open>
  The payload as the app gets it: not an object (\<open>None\<close>), or its fields, each missing, a
  text, or something else (\<open>Some None\<close>).
\<close>

type_synonym payload = "(string \<rightharpoonup> string option) option"

definition challenge_link :: "(string \<rightharpoonup> string option) \<Rightarrow> string option" where
  "challenge_link payload =
     (case payload ''challengeId'' of
        Some (Some c) \<Rightarrow> if payload ''type'' = Some (Some ''2FA_CHALLENGE'') \<and> length c > 0 then Some (''/2fa/'' @ c) else None
      | _ \<Rightarrow> None)"

definition resolve_deep_link :: "payload \<Rightarrow> string option" where
  "resolve_deep_link data = (case data of
     None \<Rightarrow> None
   | Some payload \<Rightarrow> (case payload ''deeplink'' of
         Some (Some d) \<Rightarrow> if starts_with d ''/'' then Some d else challenge_link payload
       | _ \<Rightarrow> challenge_link payload))"

text \<open>The path \<open>/2fa/:id\<close> of the approval page; a parameter is one segment, not empty.\<close>

definition approval_page :: "string \<Rightarrow> string option" where
  "approval_page path =
     (let i = drop 5 path in if starts_with path ''/2fa/'' \<and> i \<noteq> [] \<and> CHR ''/'' \<notin> set i then Some i else None)"

definition received :: "fcm_message \<Rightarrow> payload" where
  "received m = Some (map_option Some \<circ> map_of (fm_data m))"

lemma deep_link_opens_challenge:
  assumes "job_challenge_id job = cid" and "cid \<noteq> []" and "CHR ''/'' \<notin> set cid"
  shows "Option.bind (resolve_deep_link (received (message_of job))) approval_page = Some cid"
  using assms by (simp add: received_def message_of_def resolve_deep_link_def starts_with_def approval_page_def Let_def)

text \<open>Whatever it is sent, the app only goes to a path of its own; a link to another host has none.\<close>

lemma resolve_deep_link_path: "resolve_deep_link data = Some link \<Longrightarrow> starts_with link ''/''"
  by (auto simp: resolve_deep_link_def challenge_link_def starts_with_def split: option.splits if_splits)

text \<open>
  C31: a push reaches its challenge. When a login asks for the second factor, each push
  device of the user with a token has a job in the queue for which the worker hands exactly
  one message to Firebase, addressed to that token, and the app that receives it goes to
  the approval page of the very challenge the login named.
\<close>

theorem push_reaches_challenge:
  assumes "login_login H data tok agent w = (Inr (TWOFA_REQUIRED cid opts expires), w')"
    and "cid \<noteq> []" and "CHR ''/'' \<notin> set cid"
  shows "\<exists>u. login_user data (db w) = Some u \<and>
    (\<forall>d\<in>set (devices (db w)). dv_user_id d = u_id u \<and> dv_push_token d \<noteq> [] \<longrightarrow>
      (\<exists>job m. QueueAdd job \<in> snd ` set (calls w') \<and> fst (push_worker_process fcm job) = [m] \<and> fm_token m = dv_push_token d \<and>
         Option.bind (resolve_deep_link (received m)) approval_page = Some cid))"
proof -
  from login_succeeds [OF assms(1)] obtain u where u: "login_user data (db w) = Some u"
    "login_outcome H tok u w (Inr (TWOFA_REQUIRED cid opts expires)) w'" by blast
  then obtain v where v: "only_trust_changed (db w) (db v)"
    "asked_second_factor u v (TWOFA_REQUIRED cid opts expires) w'"
    by (auto simp: login_outcome_def signed_in_def split: if_splits)
  then obtain c where c: "ch_id c = cid" "map snd (calls w') = rev (map QueueAdd (push_jobs u c
       (map dv_push_token (filter (\<lambda>d. dv_user_id d = u_id u) (devices (db v)))))) @ map snd (calls v)"
    by (auto simp: asked_second_factor_def)
  have "\<exists>job m. QueueAdd job \<in> snd ` set (calls w') \<and> fst (push_worker_process fcm job) = [m] \<and> fm_token m = dv_push_token d \<and>
         Option.bind (resolve_deep_link (received m)) approval_page = Some cid"
    if d: "d \<in> set (devices (db w))" "dv_user_id d = u_id u" "dv_push_token d \<noteq> []" for d
  proof -
    let ?job = "\<lparr>job_user_id = u_id u, job_push_token = dv_push_token d, job_challenge_id = ch_id c,
      job_options = ch_options c, job_expires_at = ch_expires_at c\<rparr>"
    have "QueueAdd ?job \<in> set (map snd (calls w'))"
      unfolding c(2) using d only_trust_changed_devices [OF v(1)] by (auto simp: push_jobs_def)
    moreover have "fst (push_worker_process fcm ?job) = [message_of ?job]"
      using d(3) by (simp add: push_worker_process_def fcm_send_def)
    moreover have "fm_token (message_of ?job) = dv_push_token d" by (simp add: message_of_def)
    moreover have "Option.bind (resolve_deep_link (received (message_of ?job))) approval_page = Some cid"
      by (rule deep_link_opens_challenge) (simp_all add: c(1) assms)
    ultimately show ?thesis by auto
  qed
  with u(1) show ?thesis by blast
qed

subsection \<open>\<open>useTwoFactorPolling.ts\<close>\<close>

text \<open>
  The page's state; \<open>po_completed\<close> is \<open>completedRef\<close>. A completion request carries the choice
  to trust this device, on the admin's page no body at all (\<open>None\<close>).
\<close>

record polling =
  po_challenge_id :: uuid
  po_poll_enabled :: bool
  po_completed :: bool

datatype page_out = CompleteChallenge uuid "bool option" | Navigate string | SetAuth string user_dto

definition polling_start :: "uuid \<Rightarrow> polling" where
  "polling_start initialChallengeId =
     \<lparr>po_challenge_id = initialChallengeId, po_poll_enabled = True, po_completed = False\<rparr>"

text \<open>The effect, which React may run any number of times with the same data.\<close>

definition status_effect :: "bool option \<Rightarrow> challenge_status_response option \<Rightarrow> polling \<Rightarrow> polling \<times> page_out list" where
  "status_effect trustDevice data s = (case data of
     None \<Rightarrow> (s, [])
   | Some StatusDenied \<Rightarrow> (s\<lparr>po_poll_enabled := False\<rparr>, [Navigate ''/login?error=2fa_denied''])
   | Some StatusExpired \<Rightarrow> (s\<lparr>po_poll_enabled := False\<rparr>, [Navigate ''/login?error=2fa_denied''])
   | Some (StatusApproved u) \<Rightarrow>
       if po_completed s then (s, [])
       else (s\<lparr>po_completed := True, po_poll_enabled := False\<rparr>, [CompleteChallenge (po_challenge_id s) trustDevice])
   | Some (StatusPending opts correctNum secs) \<Rightarrow> (s, []))"

definition complete_answer :: "string \<Rightarrow> fault + login_response \<Rightarrow> page_out list" where
  "complete_answer home res = (case res of
     Inr (AUTHENTICATED token user) \<Rightarrow> [SetAuth token user, Navigate home]
   | Inr (TWOFA_REQUIRED _ _ _) \<Rightarrow> [Navigate ''/login?error=2fa_failed'']
   | Inl _ \<Rightarrow> [Navigate ''/login?error=2fa_failed''])"

definition web_resent :: "resend_response option \<Rightarrow> polling \<Rightarrow> polling" where
  "web_resent response s = (case response of
     None \<Rightarrow> s
   | Some r \<Rightarrow> s\<lparr>po_challenge_id := rr_challenge_id r, po_poll_enabled := True, po_completed := False\<rparr>)"

text \<open>The admin's page also gives up when the polling fails, and a resend leaves its \<open>completedRef\<close> alone.\<close>

definition admin_status_effect :: "bool \<Rightarrow> challenge_status_response option \<Rightarrow> polling \<Rightarrow> polling \<times> page_out list" where
  "admin_status_effect isError data s =
     (if isError then (s\<lparr>po_poll_enabled := False\<rparr>, [Navigate ''/login?error=2fa_polling_error''])
      else status_effect None data s)"

definition admin_resent :: "resend_response option \<Rightarrow> polling \<Rightarrow> polling" where
  "admin_resent response s = (case response of
     None \<Rightarrow> s
   | Some r \<Rightarrow> s\<lparr>po_challenge_id := rr_challenge_id r, po_poll_enabled := True\<rparr>)"

lemma find_answered:
  "find (\<lambda>r. ch_id r = k) rs = Some c \<Longrightarrow>
     find (\<lambda>r. ch_id r = k) (with_status k s (Some t) rs) = Some (c\<lparr>ch_status := s, ch_responded_at := Some t\<rparr>)"
  unfolding with_status_def by (induction rs) (auto split: if_splits)


subsection \<open>The properties at concrete inputs\<close>

definition demo_device :: device_row where
  "demo_device = \<lparr>dv_id = ''d'', dv_user_id = ''ada'', dv_push_token = ''t'', dv_user_agent = None, dv_created_at = 0\<rparr>"

lemma demo_options_loop: "options_loop demo_host [] 0 = Some ([10, 11, 12], 3)"
  by (simp add: options_loop.simps [of demo_host])

lemma wp_promise_all_single:
  "wp (promise_all [m]) Q w = wp m (\<lambda>r w'. Q (case r of Inl e \<Rightarrow> Inl e | Inr x \<Rightarrow> Inr [x]) w') w"
  by (auto simp: wp_def split: prod.splits sum.splits)

lemma push_reaches_challenge_witness:
  "\<exists>cid job m. QueueAdd job \<in> snd ` set (calls (snd (login_login demo_host demo_login None None
       (demo_world (empty_db\<lparr>users := [demo_user], devices := [demo_device]\<rparr>))))) \<and>
     fst (push_worker_process (\<lambda>_. None) job) = [m] \<and> fm_token m = ''t'' \<and>
     Option.bind (resolve_deep_link (received m)) approval_page = Some cid"
proof -
  let ?w = "demo_world (empty_db\<lparr>users := [demo_user], devices := [demo_device]\<rparr>)"
  have "wp (login_login demo_host demo_login None None) (\<lambda>r w'. \<exists>cid opts expires.
      r = Inr (TWOFA_REQUIRED cid opts expires) \<and> cid \<noteq> [] \<and> CHR ''/'' \<notin> set cid) ?w"
    by (simp add: login_login_def demo_login_def login_with_push_def wp pepper_password_def user_exists_def Let_def
        demo_device_def demo_options_loop wp_create_challenge create_outcome_def push_jobs_def push_publish_def wp_promise_all_single new_challenge_def challenge_row_at_def)
  then obtain cid opts expires w' where run: "login_login demo_host demo_login None None ?w = (Inr (TWOFA_REQUIRED cid opts expires), w')"
    "cid \<noteq> []" "CHR ''/'' \<notin> set cid"
    by (auto simp: wp_def split: prod.splits)
  from push_reaches_challenge [OF run, of "\<lambda>_. None"] run(1)
  show ?thesis by (auto simp: login_user_def demo_login_def demo_device_def)
qed


end
