(* ===== verification/ApiClient.thy ===== *)
theory ApiClient
  imports RouteProps FileProps
begin

text \<open>
  How a generated client call becomes a request of the API: the serializers of
  \<open>shared/api/generated/core\<close> and \<open>client\<close>, the proxy in front of the API, and the way
  back from the URL to a route, its parameters and its query.
\<close>

subsection \<open>\<open>core/pathSerializer.gen.ts\<close>\<close>

datatype param_style = Form | SpaceDelimited | PipeDelimited | Label | Matrix | Simple | DeepObject

text \<open>
  A parameter's value, its parts as JavaScript prints them. Dates, absent parts and nested
  values are left out.
\<close>

datatype param = Primitive string | Array "string list" | Object "(string \<times> string) list"

definition separator_array_explode :: "param_style \<Rightarrow> string" where
  "separator_array_explode style = (case style of Label \<Rightarrow> ''.'' | Matrix \<Rightarrow> '';'' | Simple \<Rightarrow> '','' | _ \<Rightarrow> ''&'')"

definition separator_array_no_explode :: "param_style \<Rightarrow> string" where
  "separator_array_no_explode style =
     (case style of Form \<Rightarrow> '','' | PipeDelimited \<Rightarrow> ''|'' | SpaceDelimited \<Rightarrow> ''%20'' | _ \<Rightarrow> '','')"

definition separator_object_explode :: "param_style \<Rightarrow> string" where
  "separator_object_explode style = (case style of Label \<Rightarrow> ''.'' | Matrix \<Rightarrow> '';'' | Simple \<Rightarrow> '','' | _ \<Rightarrow> ''&'')"

definition serialize_primitive_param :: "bool \<Rightarrow> string \<Rightarrow> string \<Rightarrow> string" where
  "serialize_primitive_param allowReserved name value =
     name @ ''='' @ (if allowReserved then value else encode_uri_component value)"

definition serialize_array_param :: "bool \<Rightarrow> bool \<Rightarrow> string \<Rightarrow> param_style \<Rightarrow> string list \<Rightarrow> string" where
  "serialize_array_param allowReserved explode name style value =
     (if \<not> explode then
        (let joinedValues = join_with (separator_array_no_explode style) (if allowReserved then value else map encode_uri_component value)
         in case style of Label \<Rightarrow> ''.'' @ joinedValues | Matrix \<Rightarrow> '';'' @ name @ ''='' @ joinedValues
            | Simple \<Rightarrow> joinedValues | _ \<Rightarrow> name @ ''='' @ joinedValues)
      else
        (let separator = separator_array_explode style;
             joinedValues = join_with separator (map (\<lambda>v. if style = Label \<or> style = Simple
               then (if allowReserved then v else encode_uri_component v) else serialize_primitive_param allowReserved name v) value)
         in if style = Label \<or> style = Matrix then separator @ joinedValues else joinedValues))"

definition serialize_object_param :: "bool \<Rightarrow> bool \<Rightarrow> string \<Rightarrow> param_style \<Rightarrow> (string \<times> string) list \<Rightarrow> string" where
  "serialize_object_param allowReserved explode name style value =
     (if style \<noteq> DeepObject \<and> \<not> explode then
        (let joinedValues = join_with '','' (concat (map (\<lambda>(key, v). [key, if allowReserved then v else encode_uri_component v]) value))
         in case style of Form \<Rightarrow> name @ ''='' @ joinedValues | Label \<Rightarrow> ''.'' @ joinedValues
            | Matrix \<Rightarrow> '';'' @ name @ ''='' @ joinedValues | _ \<Rightarrow> joinedValues)
      else
        (let separator = separator_object_explode style;
             joinedValues = join_with separator (map (\<lambda>(key, v). serialize_primitive_param allowReserved
               (if style = DeepObject then name @ ''['' @ key @ '']'' else key) v) value)
         in if style = Label \<or> style = Matrix then separator @ joinedValues else joinedValues))"

subsection \<open>\<open>core/utils.gen.ts\<close>\<close>

text \<open>The matches of \<open>PATH_PARAM_RE\<close>, each without its braces.\<close>

definition brace_free :: "string \<Rightarrow> bool" where
  "brace_free s \<longleftrightarrow> CHR ''{'' \<notin> set s \<and> CHR ''}'' \<notin> set s"

definition brace_name :: "string \<Rightarrow> string option" where
  "brace_name s = (let n = takeWhile (\<lambda>c. c \<noteq> CHR ''{'' \<and> c \<noteq> CHR ''}'') s
     in if n \<noteq> [] \<and> starts_with (drop (length n) s) ''}'' then Some n else None)"

function path_params :: "string \<Rightarrow> string list" where
  "path_params [] = []"
| "path_params (c # cs) =
     (case (if c = CHR ''{'' then brace_name cs else None) of
        Some n \<Rightarrow> n # path_params (drop (Suc (length n)) cs)
      | None \<Rightarrow> path_params cs)"
  by pat_completeness auto
termination by (relation "measure length") (auto split: if_splits)

text \<open>\<open>s.replace(m, t)\<close> for texts: the first occurrence. (A \<open>$\<close> in \<open>t\<close>, which is special there, is
  encoded in every value; one in the key of an object is left out.)\<close>

fun replace_first :: "string \<Rightarrow> string \<Rightarrow> string \<Rightarrow> string" where
  "replace_first m t [] = (if m = [] then t else [])"
| "replace_first m t (c # cs) =
     (if starts_with (c # cs) m then t @ drop (length m) (c # cs) else c # replace_first m t cs)"

definition match_explode :: "string \<Rightarrow> bool" where
  "match_explode n \<longleftrightarrow> n \<noteq> [] \<and> last n = CHR ''*''"

definition match_style :: "string \<Rightarrow> param_style" where
  "match_style n = (if starts_with n ''.'' then Label else if starts_with n '';'' then Matrix else Simple)"

definition match_name :: "string \<Rightarrow> string" where
  "match_name n = (let n' = if match_explode n then butlast n else n
     in if starts_with n' ''.'' \<or> starts_with n' '';'' then tl n' else n')"

definition param_text :: "string \<Rightarrow> param \<Rightarrow> string" where
  "param_text m v =
     (let explode = match_explode m; name = match_name m; style = match_style m
      in case v of
        Array vs \<Rightarrow> serialize_array_param False explode name style vs
      | Object es \<Rightarrow> serialize_object_param False explode name style es
      | Primitive p \<Rightarrow>
          if style = Matrix then '';'' @ serialize_primitive_param False name p
          else encode_uri_component (if style = Label then ''.'' @ p else p))"

definition default_path_serializer :: "(string \<rightharpoonup> param) \<Rightarrow> string \<Rightarrow> string" where
  "default_path_serializer path url = foldl (\<lambda>u m. case path (match_name m) of
       None \<Rightarrow> u
     | Some v \<Rightarrow> replace_first (''{'' @ m @ ''}'') (param_text m v) u) url (path_params url)"

definition get_url :: "string \<Rightarrow> (string \<rightharpoonup> param) option \<Rightarrow> string \<Rightarrow> string \<Rightarrow> string" where
  "get_url baseUrl path search url =
     (let url1 = baseUrl @ (if starts_with url ''/'' then url else ''/'' @ url);
          url2 = (case path of None \<Rightarrow> url1 | Some p \<Rightarrow> default_path_serializer p url1);
          s = (if starts_with search ''?'' then tl search else search)
      in if s \<noteq> [] then url2 @ ''?'' @ s else url2)"

subsection \<open>\<open>client/utils.gen.ts\<close>\<close>

text \<open>The default query serializer; an absent value is skipped.\<close>

type_synonym query = "(string \<times> param option) list"

definition query_part :: "string \<times> param option \<Rightarrow> string" where
  "query_part q = (case q of
     (name, None) \<Rightarrow> []
   | (name, Some (Array vs)) \<Rightarrow> serialize_array_param False True name Form vs
   | (name, Some (Object es)) \<Rightarrow> serialize_object_param False True name DeepObject es
   | (name, Some (Primitive v)) \<Rightarrow> serialize_primitive_param False name v)"

definition query_serializer :: "query \<Rightarrow> string" where
  "query_serializer q = join_with ''&'' (filter (\<lambda>s. s \<noteq> []) (map query_part q))"

definition build_url :: "string \<Rightarrow> string option \<Rightarrow> (string \<rightharpoonup> param) option \<Rightarrow> query \<Rightarrow> string \<Rightarrow> string" where
  "build_url instanceBaseUrl baseURL path q url =
     get_url (if truthy baseURL then the baseURL else instanceBaseUrl) path (query_serializer q) url"

subsection \<open>A call, and its way to the API\<close>

text \<open>
  A function of \<open>sdk.gen.ts\<close>: the method and the URL it passes on, the type of response it
  asks for, and whether it declares a JSON body.
\<close>

record sdk_call =
  sc_method :: http_method
  sc_url :: string
  sc_response_type :: "string option"
  sc_json_body :: bool

definition sdk_call_of :: "http_method \<Rightarrow> string \<Rightarrow> sdk_call" where
  "sdk_call_of m url = \<lparr>sc_method = m, sc_url = url, sc_response_type = None, sc_json_body = False\<rparr>"

text \<open>The URL \<open>axiosInstance\<close>, whose base is \<open>/api\<close>, is asked for.\<close>

definition sdk_url :: "sdk_call \<Rightarrow> (string \<rightharpoonup> param) option \<Rightarrow> query \<Rightarrow> string" where
  "sdk_url c path q = build_url ''/api'' None path q (sc_url c)"

text \<open>What \<open>types.gen.ts\<close> says of an operation: its body, parameters, URL, errors and responses.\<close>

record operation =
  op_body :: "string option"
  op_path :: "string list"
  op_query :: "string list"
  op_url :: string
  op_errors :: "(nat \<times> error_code list) list"
  op_responses :: "(nat \<times> string list) list"

text \<open>The options of a call as an object: an absent field is \<open>None\<close>.\<close>

record call_options =
  co_base_url :: "string option"
  co_path :: "(string \<times> param) list option"
  co_query :: "query option"
  co_body :: "string option"
  co_headers :: "(string \<times> string) list option"

definition no_options :: call_options where
  "no_options = \<lparr>co_base_url = None, co_path = None, co_query = None, co_body = None, co_headers = None\<rparr>"

text \<open>\<open>{...a, ...b}\<close>.\<close>

definition or_else :: "'a option \<Rightarrow> 'a option \<Rightarrow> 'a option" where
  "or_else b a = (case b of None \<Rightarrow> a | Some x \<Rightarrow> Some x)"

definition spread :: "call_options \<Rightarrow> call_options \<Rightarrow> call_options" where
  "spread a b = \<lparr>co_base_url = or_else (co_base_url b) (co_base_url a), co_path = or_else (co_path b) (co_path a),
     co_query = or_else (co_query b) (co_query a), co_body = or_else (co_body b) (co_body a),
     co_headers = or_else (co_headers b) (co_headers a)\<rparr>"

record sdk_request =
  sr_method :: http_method
  sr_url :: string
  sr_body :: "string option"

definition sdk_send :: "sdk_call \<Rightarrow> call_options \<Rightarrow> sdk_request" where
  "sdk_send c o' = \<lparr>sr_method = sc_method c,
     sr_url = build_url ''/api'' (co_base_url o') (map_option map_of (co_path o')) (nullish (co_query o') []) (sc_url c),
     sr_body = co_body o'\<rparr>"

subsection \<open>\<open>@tanstack/react-query.gen.ts\<close>\<close>

record query_key =
  qk_id :: string
  qk_options :: call_options

definition create_query_key :: "string \<Rightarrow> call_options \<Rightarrow> query_key" where
  "create_query_key i options = \<lparr>qk_id = i, qk_options = options\<lparr>
     co_base_url := if truthy (co_base_url options) then co_base_url options else None,
     co_body := if truthy (co_body options) then co_body options else None\<rparr>\<rparr>"

text \<open>A query's key and the request its function sends; a mutation's request, from its own and its caller's options.\<close>

definition query_options :: "string \<Rightarrow> sdk_call \<Rightarrow> call_options \<Rightarrow> query_key \<times> sdk_request" where
  "query_options i c options =
     (let key = create_query_key i options in (key, sdk_send c (spread options (qk_options key))))"

definition mutation_options :: "sdk_call \<Rightarrow> call_options \<Rightarrow> call_options \<Rightarrow> sdk_request" where
  "mutation_options c options fnOptions = sdk_send c (spread options fnOptions)"

subsection \<open>On the way\<close>

text \<open>The proxy takes what starts with \<open>/api\<close> and removes that once; the rest is the client's own pages.\<close>

definition api_proxy :: "string \<Rightarrow> string option" where
  "api_proxy url = (if starts_with url ''/api'' then Some (drop 4 url) else None)"

text \<open>What the API's HTTP server reads from a URL: the segments of its path, and its query as \<open>querystring\<close> parses it.\<close>

definition path_segments :: "string \<Rightarrow> string list" where
  "path_segments url = tl (split_on CHR ''/'' (takeWhile (\<lambda>c. c \<noteq> CHR ''?'') url))"

definition query_decode :: "string \<Rightarrow> string" where
  "query_decode s = percent_decode (map (\<lambda>c. if c = CHR ''+'' then CHR '' '' else c) s)"

definition query_pair :: "string \<Rightarrow> string \<times> string" where
  "query_pair s = (query_decode (takeWhile (\<lambda>c. c \<noteq> CHR ''='') s), query_decode (drop 1 (dropWhile (\<lambda>c. c \<noteq> CHR ''='') s)))"

definition parse_query :: "string \<Rightarrow> (string \<times> string) list" where
  "parse_query url = map query_pair (filter (\<lambda>s. s \<noteq> []) (split_on CHR ''&'' (drop 1 (dropWhile (\<lambda>c. c \<noteq> CHR ''?'') url))))"

definition serve :: "(string \<Rightarrow> jwt_payload option) \<Rightarrow> http_method \<Rightarrow> string \<Rightarrow> string option \<Rightarrow>
    (fault + (route \<times> auth_user option)) option" where
  "serve verify m url token = map_option (\<lambda>u. admit verify m (path_segments u) token) (api_proxy url)"

subsection \<open>The path of a call\<close>

lemma brace_free_append [simp]: "brace_free (s @ t) \<longleftrightarrow> brace_free s \<and> brace_free t"
  by (auto simp: brace_free_def)

lemma brace_free_Nil [simp]: "brace_free []"
  by (simp add: brace_free_def)

lemma path_params_skip: "brace_free s \<Longrightarrow> path_params (s @ t) = path_params t"
  by (induction s) (auto simp: brace_free_def)

lemma path_params_none: "brace_free s \<Longrightarrow> path_params s = []"
  using path_params_skip [of s "[]"] by simp

lemma brace_name_found: "brace_free n \<Longrightarrow> n \<noteq> [] \<Longrightarrow> brace_name (n @ ''}'' @ t) = Some n"
proof -
  assume n: "brace_free n" "n \<noteq> []"
  then have "takeWhile (\<lambda>c. c \<noteq> CHR ''{'' \<and> c \<noteq> CHR ''}'') (n @ ''}'' @ t) = n"
    by (subst takeWhile_append2) (auto simp: brace_free_def)
  with n show ?thesis by (simp add: brace_name_def starts_with_def)
qed

lemma path_params_one:
  assumes "brace_free s" and "brace_free n" and "n \<noteq> []" and "brace_free t"
  shows "path_params (s @ ''{'' @ n @ ''}'' @ t) = [n]"
proof -
  have "path_params (''{'' @ n @ ''}'' @ t) = [n]"
    using brace_name_found [OF assms(2,3), of t] path_params_none [OF assms(4)] by simp
  then show ?thesis by (simp only: path_params_skip [OF assms(1)])
qed

lemma replace_first_skip: "brace_free s \<Longrightarrow> replace_first (''{'' @ m) t (s @ ''{'' @ m @ r) = s @ t @ r"
  by (induction s) (auto simp: brace_free_def starts_with_def)

text \<open>A segment of a URL template fits a segment of a route, and what it becomes with the value \<open>v\<close>.\<close>

fun segment_fits :: "segment \<Rightarrow> string \<Rightarrow> bool" where
  "segment_fits (Lit s) p \<longleftrightarrow> s = p \<and> brace_free p \<and> CHR ''?'' \<notin> set p"
| "segment_fits Uuid p \<longleftrightarrow> (let n = butlast (tl p) in p = ''{'' @ n @ ''}'' \<and> brace_free n \<and> n \<noteq> [] \<and>
     match_style n = Simple \<and> \<not> match_explode n)"

definition call_fits :: "sdk_call \<Rightarrow> route \<Rightarrow> bool" where
  "call_fits c r \<longleftrightarrow> sc_method c = ro_method r \<and> hd (split_on CHR ''/'' (sc_url c)) = [] \<and> starts_with (sc_url c) ''/'' \<and>
     list_all2 segment_fits (ro_path r) (tl (split_on CHR ''/'' (sc_url c))) \<and> length (filter (\<lambda>s. s = Uuid) (ro_path r)) \<le> 1"

definition param_names :: "sdk_call \<Rightarrow> string list" where
  "param_names c = path_params (sc_url c)"

fun fill :: "segment \<Rightarrow> string \<Rightarrow> string" where
  "fill (Lit s) v = s"
| "fill Uuid v = v"

lemma uuid_chars: "is_uuid v \<Longrightarrow> set v \<subseteq> unreserved_chars"
proof -
  assume v: "is_uuid v"
  have "set (join_with [CHR ''-''] ps) \<subseteq> insert (CHR ''-'') (\<Union> (set ` set ps))" for ps
    by (induction "[CHR ''-'']" ps rule: join_with.induct) auto
  from this [of "split_on CHR ''-'' v"] have "set v \<subseteq> insert (CHR ''-'') (\<Union> (set ` set (split_on CHR ''-'' v)))"
    by (simp only: join_split)
  also have "\<dots> \<subseteq> insert (CHR ''-'') uuid_hex" using v by (auto simp: is_uuid_def)
  also have "\<dots> \<subseteq> unreserved_chars" by (simp add: uuid_hex_def unreserved_chars_def)
  finally show ?thesis .
qed

lemma encode_unreserved: "set v \<subseteq> unreserved_chars \<Longrightarrow> encode_uri_component v = v"
  by (induction v) (auto simp: encode_uri_component_def encode_char_def)

lemma uuid_plain: "is_uuid v \<Longrightarrow> CHR ''/'' \<notin> set v \<and> CHR ''?'' \<notin> set v \<and> brace_free v"
proof -
  have "CHR ''/'' \<notin> unreserved_chars" "CHR ''?'' \<notin> unreserved_chars" "CHR ''{'' \<notin> unreserved_chars" "CHR ''}'' \<notin> unreserved_chars"
    by (simp_all add: unreserved_chars_def)
  then show "is_uuid v \<Longrightarrow> ?thesis" using uuid_chars unfolding brace_free_def by blast
qed

lemma fits_no_param:
  "list_all2 segment_fits rs ps \<Longrightarrow> Uuid \<notin> set rs \<Longrightarrow> (\<forall>p\<in>set ps. brace_free p) \<and> ps = map (\<lambda>r. fill r v) rs"
proof (induction rule: list_all2_induct)
  case (Cons r rs p ps)
  then show ?case by (cases r) auto
qed simp

lemma brace_free_concat: "\<forall>x\<in>set xs. brace_free x \<Longrightarrow> brace_free (concat xs)"
  by (induction xs) auto

text \<open>Serializing the path of a call that fits a route fills the route's parameter.\<close>

lemma serialize_path:
  assumes "list_all2 segment_fits rs ps" and "length (filter (\<lambda>s. s = Uuid) rs) \<le> 1" and "is_uuid v"
    and "\<forall>n\<in>set (path_params (join_with ''/'' ([] # ps))). path n = Some (Primitive v)"
  shows "default_path_serializer path (''/api'' @ join_with ''/'' ([] # ps)) =
    ''/api'' @ join_with ''/'' ([] # map (\<lambda>r. fill r v) rs)"
proof (cases "Uuid \<in> set rs")
  case False
  have plain: "\<forall>p\<in>set ps. brace_free p" "ps = map (\<lambda>r. fill r v) rs" using fits_no_param [OF assms(1) False] by auto
  then have "brace_free (join_with ''/'' ([] # ps))"
    using brace_free_concat [of "map (\<lambda>p. ''/'' @ p) ps"] join_with_middle [of "''/''" "[]" "[]" ps]
    by (auto simp: brace_free_def)
  then have "brace_free (''/api'' @ join_with ''/'' ([] # ps))" by (simp add: brace_free_def)
  then have "path_params (''/api'' @ join_with ''/'' ([] # ps)) = []" by (rule path_params_none)
  then show ?thesis using plain(2) by (simp only: default_path_serializer_def foldl.simps)
next
  case True
  then obtain as bs where rs: "rs = as @ Uuid # bs" by (metis split_list)
  then have no: "Uuid \<notin> set as" "Uuid \<notin> set bs" using assms(2) by (auto simp: filter_empty_conv)
  from assms(1) obtain ps1 p ps2 where ps: "ps = ps1 @ p # ps2" "list_all2 segment_fits as ps1" "segment_fits Uuid p"
    "list_all2 segment_fits bs ps2"
    unfolding rs by (auto simp: list_all2_append1 list_all2_Cons1)
  define n where "n = butlast (tl p)"
  have n: "p = ''{'' @ n @ ''}''" "brace_free n" "n \<noteq> []" "match_style n = Simple" "\<not> match_explode n"
    using ps(3) by (simp_all add: n_def Let_def)
  have name: "match_name n = n" using n(4,5) by (auto simp: match_name_def match_style_def split: if_splits)
  define s where "s = concat (map (\<lambda>a. a @ ''/'') ([] # ps1))"
  define t where "t = concat (map (\<lambda>b. ''/'' @ b) ps2)"
  have plain: "\<forall>p\<in>set ps1. brace_free p" "ps1 = map (\<lambda>r. fill r v) as" "\<forall>p\<in>set ps2. brace_free p" "ps2 = map (\<lambda>r. fill r v) bs"
    using fits_no_param [OF ps(2) no(1)] fits_no_param [OF ps(4) no(2)] by blast+
  have st: "brace_free s" "brace_free t"
    unfolding s_def t_def using plain(1,3) by (intro brace_free_concat; simp add: brace_free_def)+
  have url: "join_with ''/'' ([] # ps) = s @ p @ t"
    using join_with_middle [of "''/''" "[] # ps1" p ps2] by (simp add: ps s_def t_def)
  have "brace_free (''/api'' @ s)" using st(1) by (simp add: brace_free_def)
  then have params: "path_params (''/api'' @ s @ p @ t) = [n]" "path_params (s @ p @ t) = [n]"
    using path_params_one [of "''/api'' @ s" n t] path_params_one [of s n t] n st by simp_all
  have "param_text n (Primitive v) = v"
    using n(4) encode_unreserved [OF uuid_chars [OF assms(3)]] by (simp add: param_text_def Let_def)
  moreover have "path n = Some (Primitive v)" using assms(4) params(2) by (simp add: url)
  ultimately have "default_path_serializer path (''/api'' @ s @ p @ t) = replace_first p v (''/api'' @ s @ p @ t)"
    using params(1) name n(1) by (simp add: default_path_serializer_def)
  also have "\<dots> = ''/api'' @ s @ v @ t"
    using replace_first_skip [of "''/api'' @ s" "n @ ''}''" v t] st(1) n(1) by (simp add: brace_free_def)
  also have "s @ v @ t = join_with ''/'' ([] # map (\<lambda>r. fill r v) rs)"
    using join_with_middle [of "''/''" "[] # ps1" v ps2] plain by (simp add: rs s_def t_def)
  finally show ?thesis by (simp add: url)
qed

subsection \<open>The query of a call\<close>

definition plain_name :: "string \<Rightarrow> bool" where
  "plain_name n \<longleftrightarrow> n \<noteq> [] \<and> set n \<subseteq> unreserved_chars"

definition plain_names :: "query \<Rightarrow> bool" where
  "plain_names q \<longleftrightarrow> (\<forall>(n, v)\<in>set q. plain_name n \<and>
     (case v of Some (Object es) \<Rightarrow> \<forall>(k, _)\<in>set es. plain_name k | _ \<Rightarrow> True))"

text \<open>The pairs a query stands for.\<close>

definition query_pairs :: "string \<times> param option \<Rightarrow> (string \<times> string) list" where
  "query_pairs q = (case q of
     (n, None) \<Rightarrow> []
   | (n, Some (Primitive v)) \<Rightarrow> [(n, v)]
   | (n, Some (Array vs)) \<Rightarrow> map (Pair n) vs
   | (n, Some (Object es)) \<Rightarrow> map (\<lambda>(k, v). (n @ ''['' @ k @ '']'', v)) es)"

definition query_atom :: "string \<times> string \<Rightarrow> string" where
  "query_atom p = (case p of (n, v) \<Rightarrow> n @ ''='' @ encode_uri_component v)"

definition key_chars :: "char set" where
  "key_chars = unreserved_chars \<union> {CHR ''['', CHR '']''}"

lemma key_chars_free: "{CHR ''&'', CHR ''='', CHR ''%'', CHR ''+'', CHR ''?''} \<inter> key_chars = {}"
  by (simp add: key_chars_def unreserved_chars_def)

lemma encode_chars_free: "{CHR ''&'', CHR ''+'', CHR ''?''} \<inter> set (encode_uri_component v) = {}"
proof -
  have "{CHR ''&'', CHR ''+'', CHR ''?''} \<inter> (unreserved_chars \<union> {CHR ''%''} \<union> hex_chars) = {}"
    by (simp add: unreserved_chars_def hex_chars_def)
  then show ?thesis using encode_uri_component_chars [of v] by blast
qed

lemma query_part_atoms: "query_part q = join_with ''&'' (map query_atom (query_pairs q))"
  by (auto simp: query_part_def query_pairs_def query_atom_def serialize_primitive_param_def serialize_array_param_def
      serialize_object_param_def separator_array_explode_def separator_object_explode_def split_def comp_def
      split: option.splits param.splits)

lemma query_pairs_names:
  assumes "plain_names q" and "p \<in> set (concat (map query_pairs q))"
  shows "fst p \<noteq> [] \<and> set (fst p) \<subseteq> key_chars"
proof -
  obtain n v where nv: "(n, v) \<in> set q" "p \<in> set (query_pairs (n, v))" using assms(2) by auto
  then have name: "plain_name n" "case v of Some (Object es) \<Rightarrow> \<forall>(k, _)\<in>set es. plain_name k | _ \<Rightarrow> True"
    using assms(1) by (auto simp: plain_names_def)
  show ?thesis
  proof (cases v)
    case None
    then show ?thesis using nv(2) by (simp add: query_pairs_def)
  next
    case (Some x)
    show ?thesis
      using nv(2) name unfolding Some by (cases x) (fastforce simp: query_pairs_def plain_name_def key_chars_def)+
  qed
qed

lemma join_with_append:
  "xs \<noteq> [] \<Longrightarrow> ys \<noteq> [] \<Longrightarrow> join_with c (xs @ ys) = join_with c xs @ c @ join_with c ys"
proof (induction c xs rule: join_with.induct)
  case (2 c s)
  then show ?case by (cases ys) auto
qed auto

lemma join_with_nonempty: "xs \<noteq> [] \<Longrightarrow> \<forall>x\<in>set xs. x \<noteq> [] \<Longrightarrow> join_with c xs \<noteq> []"
  by (induction c xs rule: join_with.induct) auto

lemma join_join:
  "\<forall>xs\<in>set xss. \<forall>x\<in>set xs. x \<noteq> [] \<Longrightarrow>
     join_with c (filter (\<lambda>s. s \<noteq> []) (map (join_with c) xss)) = join_with c (concat xss)"
proof (induction xss)
  case (Cons xs xss)
  let ?rest = "filter (\<lambda>s. s \<noteq> []) (map (join_with c) xss)"
  have rest: "?rest = [] \<longleftrightarrow> concat xss = []"
    using Cons.prems join_with_nonempty [of _ c] by (fastforce simp: filter_empty_conv)
  show ?case
  proof (cases "xs = []")
    case False
    then have ne: "join_with c xs \<noteq> []" using Cons.prems by (simp add: join_with_nonempty)
    show ?thesis
    proof (cases "concat xss = []")
      case True
      have "?rest = []" using rest True by blast
      then have "filter (\<lambda>s. s \<noteq> []) (map (join_with c) (xs # xss)) = [join_with c xs]" using ne by simp
      then show ?thesis unfolding concat.simps True by simp
    next
      case 2: False
      then have "?rest \<noteq> []" using rest by blast
      then have "join_with c (join_with c xs # ?rest) = join_with c xs @ c @ join_with c ?rest"
        using join_with_append [of "[join_with c xs]" ?rest c] by simp
      also have "\<dots> = join_with c (xs @ concat xss)"
        using Cons 2 False join_with_append [of xs "concat xss" c] by simp
      finally show ?thesis using ne by simp
    qed
  qed (use Cons in simp)
qed simp

lemma query_serializer_atoms: "query_serializer q = join_with ''&'' (map query_atom (concat (map query_pairs q)))"
proof -
  have "\<forall>xs\<in>set (map (\<lambda>p. map query_atom (query_pairs p)) q). \<forall>x\<in>set xs. x \<noteq> []" by (auto simp: query_atom_def)
  moreover have "query_part = (\<lambda>p. join_with ''&'' (map query_atom (query_pairs p)))" by (rule ext) (rule query_part_atoms)
  ultimately show ?thesis
    using join_join [of "map (\<lambda>p. map query_atom (query_pairs p)) q" "''&''"]
    by (simp add: query_serializer_def map_concat comp_def)
qed

lemma percent_decode_no_percent: "CHR ''%'' \<notin> set s \<Longrightarrow> percent_decode s = s"
  by (induction s) (auto simp: percent_decode_plain)

lemma query_decode_no_plus: "CHR ''+'' \<notin> set s \<Longrightarrow> query_decode s = percent_decode s"
proof -
  assume "CHR ''+'' \<notin> set s"
  then have "map (\<lambda>c. if c = CHR ''+'' then CHR '' '' else c) s = s" by (auto intro: map_idI)
  then show ?thesis by (simp add: query_decode_def)
qed

lemma until_char:
  "c \<notin> set s \<Longrightarrow> takeWhile (\<lambda>x. x \<noteq> c) (s @ c # t) = s" "c \<notin> set s \<Longrightarrow> dropWhile (\<lambda>x. x \<noteq> c) (s @ c # t) = c # t"
  "c \<notin> set s \<Longrightarrow> takeWhile (\<lambda>x. x \<noteq> c) s = s" "c \<notin> set s \<Longrightarrow> dropWhile (\<lambda>x. x \<noteq> c) s = []"
  by (induction s) auto

lemma query_pair_atom:
  assumes "set (fst p) \<subseteq> key_chars"
  shows "query_pair (query_atom p) = p"
proof -
  have "CHR ''='' \<notin> set (fst p)" "CHR ''%'' \<notin> set (fst p)" "CHR ''+'' \<notin> set (fst p)" using assms key_chars_free by blast+
  moreover have "CHR ''+'' \<notin> set (encode_uri_component (snd p))" using encode_chars_free by blast
  ultimately show ?thesis
    by (cases p) (simp add: query_pair_def query_atom_def until_char query_decode_no_plus percent_decode_no_percent percent_decode_component)
qed

lemma query_atom_free: "set (fst p) \<subseteq> key_chars \<Longrightarrow> CHR ''&'' \<notin> set (query_atom p) \<and> CHR ''?'' \<notin> set (query_atom p)"
  using key_chars_free encode_chars_free [of "snd p"] by (cases p) (auto simp: query_atom_def)

text \<open>The API's server reads the query that was given.\<close>

lemma parse_query_serializer:
  assumes "plain_names q" and "CHR ''?'' \<notin> set u"
  shows "parse_query (if query_serializer q \<noteq> [] then u @ ''?'' @ query_serializer q else u) = concat (map query_pairs q)"
proof -
  let ?ps = "concat (map query_pairs q)"
  have free: "set (fst p) \<subseteq> key_chars" if "p \<in> set ?ps" for p using query_pairs_names [OF assms(1) that] by blast
  have "map query_pair (map query_atom xs) = xs" if "\<forall>p\<in>set xs. set (fst p) \<subseteq> key_chars" for xs
    using that by (induction xs) (simp_all add: query_pair_atom)
  then have atoms: "map query_pair (map query_atom ?ps) = ?ps" using free by blast
  have drop: "drop 1 (dropWhile (\<lambda>c. c \<noteq> CHR ''?'') (u @ ''?'' @ s)) = s" "drop 1 (dropWhile (\<lambda>c. c \<noteq> CHR ''?'') u) = []" for s
    using assms(2) by (simp_all add: until_char)
  show ?thesis
  proof (cases "?ps = []")
    case True
    have "query_serializer q = []" unfolding query_serializer_atoms True by simp
    then show ?thesis using True drop(2) by (simp add: parse_query_def)
  next
    case False
    have "query_serializer q \<noteq> []"
      unfolding query_serializer_atoms using False by (intro join_with_nonempty) (auto simp: query_atom_def)
    moreover have "split_on CHR ''&'' (query_serializer q) = map query_atom ?ps"
      unfolding query_serializer_atoms using False free query_atom_free by (intro split_join) auto
    moreover have "filter (\<lambda>s. s \<noteq> []) (map query_atom ?ps) = map query_atom ?ps" by (auto simp: filter_id_conv query_atom_def)
    ultimately show ?thesis using atoms drop(1) by (simp add: parse_query_def)
  qed
qed

subsection \<open>The way of a call\<close>

text \<open>The path parameters a caller passes: \<open>v\<close> for the one the URL names, if it names one.\<close>

definition gives :: "string \<Rightarrow> sdk_call \<Rightarrow> (string \<rightharpoonup> param) option \<Rightarrow> bool" where
  "gives v c path \<longleftrightarrow> (case path of
     None \<Rightarrow> param_names c = []
   | Some p \<Rightarrow> \<forall>n\<in>set (param_names c). p n = Some (Primitive v))"

definition filled :: "route \<Rightarrow> string \<Rightarrow> string list" where
  "filled r v = map (\<lambda>s. fill s v) (ro_path r)"

lemma split_on_free: "p \<in> set (split_on c s) \<Longrightarrow> c \<notin> set p"
proof (induction s arbitrary: p)
  case (Cons x s)
  then show ?case by (cases "split_on c s") (auto split: if_splits)
qed simp

lemma fits_plain:
  "list_all2 segment_fits rs ps \<Longrightarrow> \<forall>p\<in>set ps. CHR ''/'' \<notin> set p \<Longrightarrow> is_uuid v \<Longrightarrow>
     \<forall>x\<in>set (map (\<lambda>r. fill r v) rs). CHR ''/'' \<notin> set x \<and> CHR ''?'' \<notin> set x"
proof (induction rule: list_all2_induct)
  case (Cons r rs p ps)
  then show ?case using uuid_plain [of v] by (cases r) auto
qed simp

lemma fill_matches: "is_uuid v \<Longrightarrow> matches rs (map (\<lambda>r. fill r v) rs) \<and> uuid_params rs (map (\<lambda>r. fill r v) rs)"
proof (induction rs)
  case (Cons r rs)
  then show ?case by (cases r) auto
qed simp

lemma join_with_chars: "x \<in> set (join_with c ss) \<Longrightarrow> x \<in> set c \<or> (\<exists>s\<in>set ss. x \<in> set s)"
  by (induction c ss rule: join_with.induct) auto

lemma sdk_url_filled:
  assumes "call_fits c r" and "is_uuid v" and "gives v c path"
  shows "sdk_url c path q = (let u = ''/api'' @ join_with ''/'' ([] # filled r v); s = query_serializer q;
     t = (if starts_with s ''?'' then tl s else s) in if t \<noteq> [] then u @ ''?'' @ t else u)"
proof -
  let ?ps = "tl (split_on CHR ''/'' (sc_url c))"
  have fits: "list_all2 segment_fits (ro_path r) ?ps" "length (filter (\<lambda>s. s = Uuid) (ro_path r)) \<le> 1"
    "starts_with (sc_url c) ''/''" "[] # ?ps = split_on CHR ''/'' (sc_url c)"
    using assms(1) unfolding call_fits_def by (auto simp: list.collapse [symmetric] intro: list.expand)
  then have url: "join_with ''/'' ([] # ?ps) = sc_url c" by (simp only: join_split)
  define p where "p = (case path of None \<Rightarrow> Map.empty | Some p \<Rightarrow> p)"
  have "\<forall>n\<in>set (path_params (join_with ''/'' ([] # ?ps))). p n = Some (Primitive v)"
    using assms(3) unfolding url p_def gives_def param_names_def by (auto split: option.splits)
  from serialize_path [OF fits(1,2) assms(2) this]
  have "default_path_serializer p (''/api'' @ sc_url c) = ''/api'' @ join_with ''/'' ([] # filled r v)"
    unfolding url filled_def .
  moreover have "default_path_serializer Map.empty u = u" for u
  proof -
    have "foldl (\<lambda>u m. u) u xs = u" for xs :: "string list" by (induction xs) simp_all
    then show ?thesis by (simp add: default_path_serializer_def)
  qed
  ultimately show ?thesis using fits(3)
    by (cases path) (simp_all add: sdk_url_def build_url_def get_url_def truthy_def p_def Let_def)
qed

lemma filled_plain:
  assumes "call_fits c r" and "is_uuid v"
  shows "\<forall>x\<in>set (filled r v). CHR ''/'' \<notin> set x \<and> CHR ''?'' \<notin> set x"
proof -
  have "list_all2 segment_fits (ro_path r) (tl (split_on CHR ''/'' (sc_url c)))"
    using assms(1) by (simp add: call_fits_def)
  moreover have "\<forall>p\<in>set (tl (split_on CHR ''/'' (sc_url c))). CHR ''/'' \<notin> set p"
    using split_on_free by (metis list.set_sel(2) split_on_nonempty)
  ultimately show ?thesis using fits_plain assms(2) by (simp add: filled_def)
qed

lemma filled_url_plain:
  assumes "call_fits c r" and "is_uuid v"
  shows "CHR ''?'' \<notin> set (join_with ''/'' ([] # filled r v))"
  using filled_plain [OF assms] join_with_chars [of "CHR ''?''" "''/''" "[] # filled r v"] by auto

lemma query_serializer_mark:
  assumes "plain_names q"
  shows "\<not> starts_with (query_serializer q) ''?''"
proof (cases "concat (map query_pairs q)")
  case Nil
  show ?thesis unfolding query_serializer_atoms Nil by (simp add: starts_with_def)
next
  case (Cons p ps)
  then have "fst p \<noteq> [] \<and> set (fst p) \<subseteq> key_chars" using query_pairs_names [OF assms] by simp
  then obtain x xs where x: "fst p = x # xs" "x \<noteq> CHR ''?''" using key_chars_free by (cases "fst p") auto
  have "hd (join_with c (s # ss)) = hd s" if "s \<noteq> []" for c s and ss :: "string list" using that by (cases ss) auto
  then have "hd (query_serializer q) = hd (query_atom p)"
    unfolding query_serializer_atoms Cons by (simp add: query_atom_def split_def)
  then have "hd (query_serializer q) = x" using x(1) by (cases p) (simp add: query_atom_def)
  with x(2) show ?thesis by (cases "query_serializer q") (auto simp: starts_with_def)
qed

lemma sdk_url_plain:
  assumes "call_fits c r" and "is_uuid v" and "gives v c path" and "plain_names q"
  shows "sdk_url c path q = ''/api'' @ (let u = join_with ''/'' ([] # filled r v)
    in if query_serializer q \<noteq> [] then u @ ''?'' @ query_serializer q else u)"
  using sdk_url_filled [OF assms(1-3)] query_serializer_mark [OF assms(4)] by (simp add: Let_def)

text \<open>
  A call that fits a route of the API is sent to a URL which the proxy passes on, from which
  the API finds that route, with the UUID as its parameter, and reads the same query.
\<close>

lemma call_arrives:
  assumes "call_fits c r" and "r \<in> set routes" and "is_uuid v" and "gives v c path" and "plain_names q"
  shows "\<exists>u. api_proxy (sdk_url c path q) = Some u \<and> path_segments u = filled r v \<and>
    find_route (sc_method c) (path_segments u) = Some r \<and> uuid_params (ro_path r) (path_segments u) \<and>
    parse_query u = concat (map query_pairs q)"
proof -
  let ?u = "join_with ''/'' ([] # filled r v)"
  let ?t = "if query_serializer q \<noteq> [] then ?u @ ''?'' @ query_serializer q else ?u"
  note plain = filled_plain [OF assms(1,3)] and mark = filled_url_plain [OF assms(1,3)]
  have segs: "tl (split_on CHR ''/'' ?u) = filled r v" using plain by (subst split_join) auto
  have url: "sdk_url c path q = ''/api'' @ ?t"
    using sdk_url_plain [OF assms(1,3-5)] by (simp add: Let_def)
  have "takeWhile (\<lambda>c. c \<noteq> CHR ''?'') ?t = ?u" using mark by (simp add: until_char)
  then have path: "path_segments ?t = filled r v" using segs by (simp only: path_segments_def)
  have "matches (ro_path r) (filled r v)" "uuid_params (ro_path r) (filled r v)"
    using fill_matches [OF assms(3)] by (simp_all add: filled_def)
  moreover from this have "find_route (sc_method c) (filled r v) = Some r"
    using dispatch_finds_route [OF assms(2)] assms(1) by (simp add: call_fits_def)
  ultimately show ?thesis
    using path url parse_query_serializer [OF assms(5) mark] by (simp add: api_proxy_def starts_with_def)
qed

end
