(* ===== verification/WebSdk.thy ===== *)
theory WebSdk
  imports ApiClient
begin

text \<open>
  The generated API client of the web client, \<open>src/services/web/src/shared/api/generated\<close>: its calls
  (\<open>sdk.gen.ts\<close>), what its types say of them (\<open>types.gen.ts\<close>), and the queries and mutations made of
  them (\<open>@tanstack/react-query.gen.ts\<close>).
\<close>

subsection \<open>\<open>sdk.gen.ts\<close>\<close>

definition web_health_controller_check :: sdk_call where
  "web_health_controller_check = (sdk_call_of GET ''/api/health'')
     \<lparr>sc_response_type := Some ''json''\<rparr>"

definition web_user_controller_me :: sdk_call where
  "web_user_controller_me = (sdk_call_of GET ''/user/me'')
     \<lparr>sc_response_type := Some ''json''\<rparr>"

definition web_device_controller_list :: sdk_call where
  "web_device_controller_list = (sdk_call_of GET ''/devices'')
     \<lparr>sc_response_type := Some ''json''\<rparr>"

definition web_device_controller_register :: sdk_call where
  "web_device_controller_register = (sdk_call_of POST ''/devices'')
     \<lparr>sc_json_body := True\<rparr>"

definition web_device_controller_remove :: sdk_call where
  "web_device_controller_remove = sdk_call_of DELETE ''/devices/{id}''"

definition web_trusted_device_controller_list :: sdk_call where
  "web_trusted_device_controller_list = (sdk_call_of GET ''/trusted-device'')
     \<lparr>sc_response_type := Some ''json''\<rparr>"

definition web_trusted_device_controller_register :: sdk_call where
  "web_trusted_device_controller_register = sdk_call_of POST ''/trusted-device''"

definition web_trusted_device_controller_revoke :: sdk_call where
  "web_trusted_device_controller_revoke = sdk_call_of DELETE ''/trusted-device/{id}''"

definition web_challenge_controller_get_status :: sdk_call where
  "web_challenge_controller_get_status = (sdk_call_of GET ''/auth/2fa/challenge/{id}/status'')
     \<lparr>sc_response_type := Some ''json''\<rparr>"

definition web_challenge_controller_respond :: sdk_call where
  "web_challenge_controller_respond = (sdk_call_of POST ''/auth/2fa/challenge/{id}/respond'')
     \<lparr>sc_json_body := True\<rparr>"

definition web_challenge_controller_resend :: sdk_call where
  "web_challenge_controller_resend = (sdk_call_of POST ''/auth/2fa/challenge/{id}/resend'')
     \<lparr>sc_response_type := Some ''json''\<rparr>"

definition web_challenge_controller_complete :: sdk_call where
  "web_challenge_controller_complete = (sdk_call_of POST ''/auth/2fa/challenge/{id}/complete'')
     \<lparr>sc_response_type := Some ''json'', sc_json_body := True\<rparr>"

definition web_totp_controller_start_setup :: sdk_call where
  "web_totp_controller_start_setup = (sdk_call_of POST ''/2fa/totp/setup/start'')
     \<lparr>sc_response_type := Some ''json''\<rparr>"

definition web_totp_controller_complete_setup :: sdk_call where
  "web_totp_controller_complete_setup = (sdk_call_of POST ''/2fa/totp/setup/complete'')
     \<lparr>sc_json_body := True\<rparr>"

definition web_totp_controller_list :: sdk_call where
  "web_totp_controller_list = (sdk_call_of GET ''/2fa/totp'')
     \<lparr>sc_response_type := Some ''json''\<rparr>"

definition web_totp_controller_revoke :: sdk_call where
  "web_totp_controller_revoke = sdk_call_of DELETE ''/2fa/totp/{id}''"

definition web_backup_code_controller_regenerate :: sdk_call where
  "web_backup_code_controller_regenerate = (sdk_call_of POST ''/backup-codes/regenerate'')
     \<lparr>sc_response_type := Some ''json'', sc_json_body := True\<rparr>"

definition web_invitation_controller_create :: sdk_call where
  "web_invitation_controller_create = (sdk_call_of POST ''/invitations'')
     \<lparr>sc_response_type := Some ''json'', sc_json_body := True\<rparr>"

definition web_invitation_controller_deactivate :: sdk_call where
  "web_invitation_controller_deactivate = sdk_call_of DELETE ''/invitations/{token}''"

definition web_invitation_controller_validate :: sdk_call where
  "web_invitation_controller_validate = (sdk_call_of GET ''/invitations/{token}'')
     \<lparr>sc_response_type := Some ''json''\<rparr>"

definition web_login_controller_register :: sdk_call where
  "web_login_controller_register = (sdk_call_of POST ''/auth/register'')
     \<lparr>sc_response_type := Some ''json'', sc_json_body := True\<rparr>"

definition web_login_controller_login :: sdk_call where
  "web_login_controller_login = (sdk_call_of POST ''/auth/login'')
     \<lparr>sc_response_type := Some ''json'', sc_json_body := True\<rparr>"

definition web_login_controller_login_with_backup :: sdk_call where
  "web_login_controller_login_with_backup = (sdk_call_of POST ''/auth/login/backup'')
     \<lparr>sc_response_type := Some ''json'', sc_json_body := True\<rparr>"

definition web_login_controller_refresh :: sdk_call where
  "web_login_controller_refresh = (sdk_call_of POST ''/auth/refresh'')
     \<lparr>sc_response_type := Some ''json''\<rparr>"

definition web_login_controller_logout :: sdk_call where
  "web_login_controller_logout = (sdk_call_of POST ''/auth/logout'')
     \<lparr>sc_json_body := True\<rparr>"

definition web_folder_controller_get_root :: sdk_call where
  "web_folder_controller_get_root = (sdk_call_of GET ''/folders/root'')
     \<lparr>sc_response_type := Some ''json''\<rparr>"

definition web_folder_controller_get_children :: sdk_call where
  "web_folder_controller_get_children = (sdk_call_of GET ''/folders/{id}/children'')
     \<lparr>sc_response_type := Some ''json''\<rparr>"

definition web_folder_controller_create :: sdk_call where
  "web_folder_controller_create = (sdk_call_of POST ''/folders'')
     \<lparr>sc_response_type := Some ''json'', sc_json_body := True\<rparr>"

definition web_folder_controller_remove :: sdk_call where
  "web_folder_controller_remove = sdk_call_of DELETE ''/folders/{id}''"

definition web_folder_controller_rename :: sdk_call where
  "web_folder_controller_rename = (sdk_call_of PATCH ''/folders/{id}'')
     \<lparr>sc_response_type := Some ''json'', sc_json_body := True\<rparr>"

definition web_folder_controller_move :: sdk_call where
  "web_folder_controller_move = (sdk_call_of PATCH ''/folders/{id}/move'')
     \<lparr>sc_response_type := Some ''json'', sc_json_body := True\<rparr>"

definition web_file_controller_search :: sdk_call where
  "web_file_controller_search = (sdk_call_of GET ''/files/search'')
     \<lparr>sc_response_type := Some ''json''\<rparr>"

definition web_file_controller_remove :: sdk_call where
  "web_file_controller_remove = sdk_call_of DELETE ''/files/{id}''"

definition web_file_controller_rename :: sdk_call where
  "web_file_controller_rename = (sdk_call_of PATCH ''/files/{id}'')
     \<lparr>sc_response_type := Some ''json'', sc_json_body := True\<rparr>"

definition web_file_controller_move :: sdk_call where
  "web_file_controller_move = (sdk_call_of PATCH ''/files/{id}/move'')
     \<lparr>sc_response_type := Some ''json'', sc_json_body := True\<rparr>"

definition web_file_controller_copy :: sdk_call where
  "web_file_controller_copy = (sdk_call_of POST ''/files/{id}/copy'')
     \<lparr>sc_response_type := Some ''json'', sc_json_body := True\<rparr>"

definition web_file_download_controller_download_file :: sdk_call where
  "web_file_download_controller_download_file = (sdk_call_of GET ''/files/{id}/download'')
     \<lparr>sc_response_type := Some ''blob''\<rparr>"

definition web_file_download_controller_download_zip :: sdk_call where
  "web_file_download_controller_download_zip = (sdk_call_of POST ''/files/download/zip'')
     \<lparr>sc_response_type := Some ''blob'', sc_json_body := True\<rparr>"

definition web_file_upload_controller_init :: sdk_call where
  "web_file_upload_controller_init = (sdk_call_of POST ''/files/upload-init'')
     \<lparr>sc_response_type := Some ''json'', sc_json_body := True\<rparr>"

definition web_file_upload_controller_complete :: sdk_call where
  "web_file_upload_controller_complete = (sdk_call_of POST ''/files/{sessionId}/upload-complete'')
     \<lparr>sc_response_type := Some ''json'', sc_json_body := True\<rparr>"

definition web_trash_controller_list :: sdk_call where
  "web_trash_controller_list = (sdk_call_of GET ''/trash'')
     \<lparr>sc_response_type := Some ''json''\<rparr>"

definition web_trash_controller_restore :: sdk_call where
  "web_trash_controller_restore = (sdk_call_of POST ''/trash/{id}/restore'')
     \<lparr>sc_json_body := True\<rparr>"

definition web_trash_controller_permanent_delete :: sdk_call where
  "web_trash_controller_permanent_delete = (sdk_call_of DELETE ''/trash/{id}'')
     \<lparr>sc_json_body := True\<rparr>"

definition web_drive_controller_get_my_drive :: sdk_call where
  "web_drive_controller_get_my_drive = (sdk_call_of GET ''/drives/me'')
     \<lparr>sc_response_type := Some ''json''\<rparr>"

definition web_drive_controller_get_drive :: sdk_call where
  "web_drive_controller_get_drive = (sdk_call_of GET ''/drives/{id}'')
     \<lparr>sc_response_type := Some ''json''\<rparr>"

definition web_mount_credential_controller_list :: sdk_call where
  "web_mount_credential_controller_list = (sdk_call_of GET ''/mount-credentials'')
     \<lparr>sc_response_type := Some ''json''\<rparr>"

definition web_mount_credential_controller_issue :: sdk_call where
  "web_mount_credential_controller_issue = (sdk_call_of POST ''/mount-credentials'')
     \<lparr>sc_response_type := Some ''json'', sc_json_body := True\<rparr>"

definition web_mount_credential_controller_revoke :: sdk_call where
  "web_mount_credential_controller_revoke = sdk_call_of DELETE ''/mount-credentials/{id}''"

definition web_calls :: "sdk_call list" where
  "web_calls = [web_health_controller_check, web_user_controller_me, web_device_controller_list,
     web_device_controller_register, web_device_controller_remove, web_trusted_device_controller_list,
     web_trusted_device_controller_register, web_trusted_device_controller_revoke,
     web_challenge_controller_get_status, web_challenge_controller_respond,
     web_challenge_controller_resend, web_challenge_controller_complete, web_totp_controller_start_setup,
     web_totp_controller_complete_setup, web_totp_controller_list, web_totp_controller_revoke,
     web_backup_code_controller_regenerate, web_invitation_controller_create,
     web_invitation_controller_deactivate, web_invitation_controller_validate,
     web_login_controller_register, web_login_controller_login, web_login_controller_login_with_backup,
     web_login_controller_refresh, web_login_controller_logout, web_folder_controller_get_root,
     web_folder_controller_get_children, web_folder_controller_create, web_folder_controller_remove,
     web_folder_controller_rename, web_folder_controller_move, web_file_controller_search,
     web_file_controller_remove, web_file_controller_rename, web_file_controller_move,
     web_file_controller_copy, web_file_download_controller_download_file,
     web_file_download_controller_download_zip, web_file_upload_controller_init,
     web_file_upload_controller_complete, web_trash_controller_list, web_trash_controller_restore,
     web_trash_controller_permanent_delete, web_drive_controller_get_my_drive,
     web_drive_controller_get_drive, web_mount_credential_controller_list,
     web_mount_credential_controller_issue, web_mount_credential_controller_revoke]"

subsection \<open>\<open>types.gen.ts\<close>\<close>

definition web_health_controller_check_data :: operation where
  "web_health_controller_check_data = \<lparr>op_body = None, op_path = [], op_query = [],
     op_url = ''/api/health'',
     op_errors = [],
     op_responses = [(200, [''object''])]\<rparr>"

definition web_user_controller_me_data :: operation where
  "web_user_controller_me_data = \<lparr>op_body = None, op_path = [], op_query = [],
     op_url = ''/user/me'',
     op_errors = [(401, [INVALID_CREDENTIALS])],
     op_responses = [(200, [''UserDto''])]\<rparr>"

definition web_device_controller_list_data :: operation where
  "web_device_controller_list_data = \<lparr>op_body = None, op_path = [], op_query = [],
     op_url = ''/devices'',
     op_errors = [],
     op_responses = [(200, [''DeviceResponseDto[]''])]\<rparr>"

definition web_device_controller_register_data :: operation where
  "web_device_controller_register_data = \<lparr>op_body = Some ''RegisterDeviceBodyDto'', op_path = [], op_query = [],
     op_url = ''/devices'',
     op_errors = [],
     op_responses = [(204, [])]\<rparr>"

definition web_device_controller_remove_data :: operation where
  "web_device_controller_remove_data = \<lparr>op_body = None, op_path = [''id''], op_query = [],
     op_url = ''/devices/{id}'',
     op_errors = [(404, [DEVICE_NOT_FOUND])],
     op_responses = [(204, [])]\<rparr>"

definition web_trusted_device_controller_list_data :: operation where
  "web_trusted_device_controller_list_data = \<lparr>op_body = None, op_path = [], op_query = [],
     op_url = ''/trusted-device'',
     op_errors = [],
     op_responses = [(200, [''TrustedDeviceResponseDto[]''])]\<rparr>"

definition web_trusted_device_controller_register_data :: operation where
  "web_trusted_device_controller_register_data = \<lparr>op_body = None, op_path = [], op_query = [],
     op_url = ''/trusted-device'',
     op_errors = [],
     op_responses = [(201, [''unknown''])]\<rparr>"

definition web_trusted_device_controller_revoke_data :: operation where
  "web_trusted_device_controller_revoke_data = \<lparr>op_body = None, op_path = [''id''], op_query = [],
     op_url = ''/trusted-device/{id}'',
     op_errors = [(404, [TRUSTED_DEVICE_NOT_FOUND])],
     op_responses = [(204, [])]\<rparr>"

definition web_challenge_controller_get_status_data :: operation where
  "web_challenge_controller_get_status_data = \<lparr>op_body = None, op_path = [''id''], op_query = [],
     op_url = ''/auth/2fa/challenge/{id}/status'',
     op_errors = [(404, [TWOFA_CHALLENGE_NOT_FOUND])],
     op_responses = [(200, [''ChallengeStatusPendingDto'', ''ChallengeStatusApprovedDto'', ''ChallengeStatusDeniedDto'', ''ChallengeStatusExpiredDto''])]\<rparr>"

definition web_challenge_controller_respond_data :: operation where
  "web_challenge_controller_respond_data = \<lparr>op_body = Some ''RespondChallengeBodyDto'', op_path = [''id''], op_query = [],
     op_url = ''/auth/2fa/challenge/{id}/respond'',
     op_errors = [(403, [FORBIDDEN]), (404, [TWOFA_CHALLENGE_NOT_FOUND])],
     op_responses = [(204, [])]\<rparr>"

definition web_challenge_controller_resend_data :: operation where
  "web_challenge_controller_resend_data = \<lparr>op_body = None, op_path = [''id''], op_query = [],
     op_url = ''/auth/2fa/challenge/{id}/resend'',
     op_errors = [(404, [TWOFA_CHALLENGE_NOT_FOUND])],
     op_responses = [(200, [''ResendChallengeResponseDto''])]\<rparr>"

definition web_challenge_controller_complete_data :: operation where
  "web_challenge_controller_complete_data = \<lparr>op_body = Some ''CompleteChallengeBodyDto'', op_path = [''id''], op_query = [],
     op_url = ''/auth/2fa/challenge/{id}/complete'',
     op_errors = [(400, [TWOFA_TOTP_INVALID_CODE]), (404, [TWOFA_CHALLENGE_NOT_FOUND]), (429, [TWOFA_TOTP_LOCKED])],
     op_responses = [(200, [''AuthenticatedResponseDto''])]\<rparr>"

definition web_totp_controller_start_setup_data :: operation where
  "web_totp_controller_start_setup_data = \<lparr>op_body = None, op_path = [], op_query = [],
     op_url = ''/2fa/totp/setup/start'',
     op_errors = [],
     op_responses = [(200, [''TotpSetupPendingDto'', ''TotpSetupEnrolledDto''])]\<rparr>"

definition web_totp_controller_complete_setup_data :: operation where
  "web_totp_controller_complete_setup_data = \<lparr>op_body = Some ''TotpSetupCompleteBodyDto'', op_path = [], op_query = [],
     op_url = ''/2fa/totp/setup/complete'',
     op_errors = [(400, [TWOFA_TOTP_INVALID_CODE, TWOFA_SETUP_NOT_SUPPORTED])],
     op_responses = [(204, [])]\<rparr>"

definition web_totp_controller_list_data :: operation where
  "web_totp_controller_list_data = \<lparr>op_body = None, op_path = [], op_query = [],
     op_url = ''/2fa/totp'',
     op_errors = [],
     op_responses = [(200, [''TotpListResponseDto''])]\<rparr>"

definition web_totp_controller_revoke_data :: operation where
  "web_totp_controller_revoke_data = \<lparr>op_body = None, op_path = [''id''], op_query = [],
     op_url = ''/2fa/totp/{id}'',
     op_errors = [(400, [TWOFA_LAST_STRATEGY_CANNOT_REMOVE]), (403, [FORBIDDEN])],
     op_responses = [(204, [])]\<rparr>"

definition web_backup_code_controller_regenerate_data :: operation where
  "web_backup_code_controller_regenerate_data = \<lparr>op_body = Some ''BackupCodeRegenerateBodyDto'', op_path = [], op_query = [],
     op_url = ''/backup-codes/regenerate'',
     op_errors = [(401, [INVALID_CREDENTIALS])],
     op_responses = [(200, [''BackupCodeRegenerateResponseDto''])]\<rparr>"

definition web_invitation_controller_create_data :: operation where
  "web_invitation_controller_create_data = \<lparr>op_body = Some ''CreateInvitationBodyDto'', op_path = [], op_query = [],
     op_url = ''/invitations'',
     op_errors = [],
     op_responses = [(201, [''InvitationResponseDto''])]\<rparr>"

definition web_invitation_controller_deactivate_data :: operation where
  "web_invitation_controller_deactivate_data = \<lparr>op_body = None, op_path = [''token''], op_query = [],
     op_url = ''/invitations/{token}'',
     op_errors = [(404, [INVITATION_NOT_FOUND])],
     op_responses = [(204, [])]\<rparr>"

definition web_invitation_controller_validate_data :: operation where
  "web_invitation_controller_validate_data = \<lparr>op_body = None, op_path = [''token''], op_query = [],
     op_url = ''/invitations/{token}'',
     op_errors = [],
     op_responses = [(200, [''ValidateInvitationResponseDto''])]\<rparr>"

definition web_login_controller_register_data :: operation where
  "web_login_controller_register_data = \<lparr>op_body = Some ''RegisterBodyDto'', op_path = [], op_query = [],
     op_url = ''/auth/register'',
     op_errors = [(404, [INVITATION_NOT_FOUND]), (409, [INVITATION_ALREADY_USED, USERNAME_TAKEN]), (410, [INVITATION_EXPIRED]), (500, [REGISTRATION_FAILED, ROLE_NOT_FOUND])],
     op_responses = [(201, [''RegisterResponseDto''])]\<rparr>"

definition web_login_controller_login_data :: operation where
  "web_login_controller_login_data = \<lparr>op_body = Some ''LoginBodyDto'', op_path = [], op_query = [],
     op_url = ''/auth/login'',
     op_errors = [(401, [INVALID_CREDENTIALS]), (423, [ACCOUNT_DISABLED])],
     op_responses = [(200, [''AuthenticatedResponseDto'', ''TwoFaRequiredResponseDto''])]\<rparr>"

definition web_login_controller_login_with_backup_data :: operation where
  "web_login_controller_login_with_backup_data = \<lparr>op_body = Some ''BackupLoginBodyDto'', op_path = [], op_query = [],
     op_url = ''/auth/login/backup'',
     op_errors = [(401, [INVALID_CREDENTIALS, BACKUP_CODE_INVALID]), (423, [ACCOUNT_DISABLED])],
     op_responses = [(200, [''AuthenticatedResponseDto'', ''TwoFaRequiredResponseDto''])]\<rparr>"

definition web_login_controller_refresh_data :: operation where
  "web_login_controller_refresh_data = \<lparr>op_body = None, op_path = [], op_query = [],
     op_url = ''/auth/refresh'',
     op_errors = [(401, [REFRESH_TOKEN_INVALID])],
     op_responses = [(200, [''AuthenticatedResponseDto'', ''TwoFaRequiredResponseDto''])]\<rparr>"

definition web_login_controller_logout_data :: operation where
  "web_login_controller_logout_data = \<lparr>op_body = Some ''LogoutBodyDto'', op_path = [], op_query = [],
     op_url = ''/auth/logout'',
     op_errors = [],
     op_responses = [(204, [])]\<rparr>"

definition web_folder_controller_get_root_data :: operation where
  "web_folder_controller_get_root_data = \<lparr>op_body = None, op_path = [], op_query = [],
     op_url = ''/folders/root'',
     op_errors = [],
     op_responses = [(200, [''FolderChildrenResponseDto''])]\<rparr>"

definition web_folder_controller_get_children_data :: operation where
  "web_folder_controller_get_children_data = \<lparr>op_body = None, op_path = [''id''], op_query = [],
     op_url = ''/folders/{id}/children'',
     op_errors = [(404, [FOLDER_NOT_FOUND])],
     op_responses = [(200, [''FolderChildrenResponseDto''])]\<rparr>"

definition web_folder_controller_create_data :: operation where
  "web_folder_controller_create_data = \<lparr>op_body = Some ''CreateFolderBodyDto'', op_path = [], op_query = [],
     op_url = ''/folders'',
     op_errors = [(400, [FOLDER_DEPTH_EXCEEDED]), (404, [FOLDER_NOT_FOUND])],
     op_responses = [(201, [''FolderItemDto''])]\<rparr>"

definition web_folder_controller_remove_data :: operation where
  "web_folder_controller_remove_data = \<lparr>op_body = None, op_path = [''id''], op_query = [],
     op_url = ''/folders/{id}'',
     op_errors = [(404, [FOLDER_NOT_FOUND])],
     op_responses = [(204, [])]\<rparr>"

definition web_folder_controller_rename_data :: operation where
  "web_folder_controller_rename_data = \<lparr>op_body = Some ''RenameFolderBodyDto'', op_path = [''id''], op_query = [],
     op_url = ''/folders/{id}'',
     op_errors = [(404, [FOLDER_NOT_FOUND])],
     op_responses = [(200, [''FolderItemDto''])]\<rparr>"

definition web_folder_controller_move_data :: operation where
  "web_folder_controller_move_data = \<lparr>op_body = Some ''MoveFolderBodyDto'', op_path = [''id''], op_query = [],
     op_url = ''/folders/{id}/move'',
     op_errors = [(400, [INVALID_MOVE_TARGET]), (404, [FOLDER_NOT_FOUND])],
     op_responses = [(200, [''FolderItemDto''])]\<rparr>"

definition web_file_controller_search_data :: operation where
  "web_file_controller_search_data = \<lparr>op_body = None, op_path = [], op_query = [''q'', ''scope'', ''folderId''],
     op_url = ''/files/search'',
     op_errors = [(404, [FOLDER_NOT_FOUND])],
     op_responses = [(200, [''FileSearchResponseDto''])]\<rparr>"

definition web_file_controller_remove_data :: operation where
  "web_file_controller_remove_data = \<lparr>op_body = None, op_path = [''id''], op_query = [],
     op_url = ''/files/{id}'',
     op_errors = [(404, [FILE_NOT_FOUND])],
     op_responses = [(204, [])]\<rparr>"

definition web_file_controller_rename_data :: operation where
  "web_file_controller_rename_data = \<lparr>op_body = Some ''RenameFileBodyDto'', op_path = [''id''], op_query = [],
     op_url = ''/files/{id}'',
     op_errors = [(404, [FILE_NOT_FOUND])],
     op_responses = [(200, [''FileItemDto''])]\<rparr>"

definition web_file_controller_move_data :: operation where
  "web_file_controller_move_data = \<lparr>op_body = Some ''MoveFileBodyDto'', op_path = [''id''], op_query = [],
     op_url = ''/files/{id}/move'',
     op_errors = [(404, [FILE_NOT_FOUND, FOLDER_NOT_FOUND])],
     op_responses = [(200, [''FileItemDto''])]\<rparr>"

definition web_file_controller_copy_data :: operation where
  "web_file_controller_copy_data = \<lparr>op_body = Some ''MoveFileBodyDto'', op_path = [''id''], op_query = [],
     op_url = ''/files/{id}/copy'',
     op_errors = [(404, [FILE_NOT_FOUND, FOLDER_NOT_FOUND])],
     op_responses = [(201, [''FileItemDto''])]\<rparr>"

definition web_file_download_controller_download_file_data :: operation where
  "web_file_download_controller_download_file_data = \<lparr>op_body = None, op_path = [''id''], op_query = [],
     op_url = ''/files/{id}/download'',
     op_errors = [(404, [FILE_NOT_FOUND])],
     op_responses = [(200, [''binary''])]\<rparr>"

definition web_file_download_controller_download_zip_data :: operation where
  "web_file_download_controller_download_zip_data = \<lparr>op_body = Some ''ZipDownloadBodyDto'', op_path = [], op_query = [],
     op_url = ''/files/download/zip'',
     op_errors = [(404, [FILE_NOT_FOUND])],
     op_responses = [(200, [''binary''])]\<rparr>"

definition web_file_upload_controller_init_data :: operation where
  "web_file_upload_controller_init_data = \<lparr>op_body = Some ''UploadInitBodyDto'', op_path = [], op_query = [],
     op_url = ''/files/upload-init'',
     op_errors = [(404, [FOLDER_NOT_FOUND]), (413, [FILE_TOO_LARGE])],
     op_responses = [(201, [''UploadInitResponseDto''])]\<rparr>"

definition web_file_upload_controller_complete_data :: operation where
  "web_file_upload_controller_complete_data = \<lparr>op_body = Some ''UploadCompleteBodyDto'', op_path = [''sessionId''], op_query = [],
     op_url = ''/files/{sessionId}/upload-complete'',
     op_errors = [(400, [UPLOAD_OBJECT_MISSING, UPLOAD_SIZE_MISMATCH]), (404, [UPLOAD_SESSION_NOT_FOUND]), (410, [UPLOAD_SESSION_EXPIRED])],
     op_responses = [(201, [''FileItemDto''])]\<rparr>"

definition web_trash_controller_list_data :: operation where
  "web_trash_controller_list_data = \<lparr>op_body = None, op_path = [], op_query = [],
     op_url = ''/trash'',
     op_errors = [],
     op_responses = [(200, [''TrashListResponseDto''])]\<rparr>"

definition web_trash_controller_restore_data :: operation where
  "web_trash_controller_restore_data = \<lparr>op_body = Some ''TrashActionBodyDto'', op_path = [''id''], op_query = [],
     op_url = ''/trash/{id}/restore'',
     op_errors = [(400, [PARENT_IN_TRASH]), (404, [FILE_NOT_FOUND, FOLDER_NOT_FOUND])],
     op_responses = [(204, [])]\<rparr>"

definition web_trash_controller_permanent_delete_data :: operation where
  "web_trash_controller_permanent_delete_data = \<lparr>op_body = Some ''TrashActionBodyDto'', op_path = [''id''], op_query = [],
     op_url = ''/trash/{id}'',
     op_errors = [(400, [PARENT_IN_TRASH]), (404, [FILE_NOT_FOUND, FOLDER_NOT_FOUND])],
     op_responses = [(204, [])]\<rparr>"

definition web_drive_controller_get_my_drive_data :: operation where
  "web_drive_controller_get_my_drive_data = \<lparr>op_body = None, op_path = [], op_query = [],
     op_url = ''/drives/me'',
     op_errors = [],
     op_responses = [(200, [''DriveDto''])]\<rparr>"

definition web_drive_controller_get_drive_data :: operation where
  "web_drive_controller_get_drive_data = \<lparr>op_body = None, op_path = [''id''], op_query = [],
     op_url = ''/drives/{id}'',
     op_errors = [(403, [DRIVE_FORBIDDEN]), (404, [DRIVE_NOT_FOUND])],
     op_responses = [(200, [''DriveDto''])]\<rparr>"

definition web_mount_credential_controller_list_data :: operation where
  "web_mount_credential_controller_list_data = \<lparr>op_body = None, op_path = [], op_query = [],
     op_url = ''/mount-credentials'',
     op_errors = [],
     op_responses = [(200, [''MountCredentialDto[]''])]\<rparr>"

definition web_mount_credential_controller_issue_data :: operation where
  "web_mount_credential_controller_issue_data = \<lparr>op_body = Some ''IssueMountCredentialDto'', op_path = [], op_query = [],
     op_url = ''/mount-credentials'',
     op_errors = [(403, [DRIVE_FORBIDDEN]), (404, [DRIVE_NOT_FOUND]), (409, [MOUNT_CREDENTIAL_DUPLICATE_PROTOCOL, STORAGE_AGENT_TARGET_CONFLICT]), (500, [MOUNT_CREDENTIAL_SECRET_WRITE_FAILED, STORAGE_AGENT_INTERNAL]), (503, [STORAGE_AGENT_UNAVAILABLE])],
     op_responses = [(201, [''IssueMountCredentialResponseDto''])]\<rparr>"

definition web_mount_credential_controller_revoke_data :: operation where
  "web_mount_credential_controller_revoke_data = \<lparr>op_body = None, op_path = [''id''], op_query = [],
     op_url = ''/mount-credentials/{id}'',
     op_errors = [(404, [MOUNT_CREDENTIAL_NOT_FOUND]), (410, [MOUNT_CREDENTIAL_REVOKED]), (500, [STORAGE_AGENT_INTERNAL]), (503, [STORAGE_AGENT_UNAVAILABLE])],
     op_responses = [(204, [])]\<rparr>"

subsection \<open>\<open>@tanstack/react-query.gen.ts\<close>\<close>

definition web_health_controller_check_options :: "call_options \<Rightarrow> query_key \<times> sdk_request" where
  "web_health_controller_check_options = query_options ''healthControllerCheck'' web_health_controller_check"

definition web_user_controller_me_options :: "call_options \<Rightarrow> query_key \<times> sdk_request" where
  "web_user_controller_me_options = query_options ''userControllerMe'' web_user_controller_me"

definition web_device_controller_list_options :: "call_options \<Rightarrow> query_key \<times> sdk_request" where
  "web_device_controller_list_options = query_options ''deviceControllerList'' web_device_controller_list"

definition web_device_controller_register_mutation :: "call_options \<Rightarrow> call_options \<Rightarrow> sdk_request" where
  "web_device_controller_register_mutation = mutation_options web_device_controller_register"

definition web_device_controller_remove_mutation :: "call_options \<Rightarrow> call_options \<Rightarrow> sdk_request" where
  "web_device_controller_remove_mutation = mutation_options web_device_controller_remove"

definition web_trusted_device_controller_list_options :: "call_options \<Rightarrow> query_key \<times> sdk_request" where
  "web_trusted_device_controller_list_options = query_options ''trustedDeviceControllerList'' web_trusted_device_controller_list"

definition web_trusted_device_controller_register_mutation :: "call_options \<Rightarrow> call_options \<Rightarrow> sdk_request" where
  "web_trusted_device_controller_register_mutation = mutation_options web_trusted_device_controller_register"

definition web_trusted_device_controller_revoke_mutation :: "call_options \<Rightarrow> call_options \<Rightarrow> sdk_request" where
  "web_trusted_device_controller_revoke_mutation = mutation_options web_trusted_device_controller_revoke"

definition web_challenge_controller_get_status_options :: "call_options \<Rightarrow> query_key \<times> sdk_request" where
  "web_challenge_controller_get_status_options = query_options ''challengeControllerGetStatus'' web_challenge_controller_get_status"

definition web_challenge_controller_respond_mutation :: "call_options \<Rightarrow> call_options \<Rightarrow> sdk_request" where
  "web_challenge_controller_respond_mutation = mutation_options web_challenge_controller_respond"

definition web_challenge_controller_resend_mutation :: "call_options \<Rightarrow> call_options \<Rightarrow> sdk_request" where
  "web_challenge_controller_resend_mutation = mutation_options web_challenge_controller_resend"

definition web_challenge_controller_complete_mutation :: "call_options \<Rightarrow> call_options \<Rightarrow> sdk_request" where
  "web_challenge_controller_complete_mutation = mutation_options web_challenge_controller_complete"

definition web_totp_controller_start_setup_mutation :: "call_options \<Rightarrow> call_options \<Rightarrow> sdk_request" where
  "web_totp_controller_start_setup_mutation = mutation_options web_totp_controller_start_setup"

definition web_totp_controller_complete_setup_mutation :: "call_options \<Rightarrow> call_options \<Rightarrow> sdk_request" where
  "web_totp_controller_complete_setup_mutation = mutation_options web_totp_controller_complete_setup"

definition web_totp_controller_list_options :: "call_options \<Rightarrow> query_key \<times> sdk_request" where
  "web_totp_controller_list_options = query_options ''totpControllerList'' web_totp_controller_list"

definition web_totp_controller_revoke_mutation :: "call_options \<Rightarrow> call_options \<Rightarrow> sdk_request" where
  "web_totp_controller_revoke_mutation = mutation_options web_totp_controller_revoke"

definition web_backup_code_controller_regenerate_mutation :: "call_options \<Rightarrow> call_options \<Rightarrow> sdk_request" where
  "web_backup_code_controller_regenerate_mutation = mutation_options web_backup_code_controller_regenerate"

definition web_invitation_controller_create_mutation :: "call_options \<Rightarrow> call_options \<Rightarrow> sdk_request" where
  "web_invitation_controller_create_mutation = mutation_options web_invitation_controller_create"

definition web_invitation_controller_deactivate_mutation :: "call_options \<Rightarrow> call_options \<Rightarrow> sdk_request" where
  "web_invitation_controller_deactivate_mutation = mutation_options web_invitation_controller_deactivate"

definition web_invitation_controller_validate_options :: "call_options \<Rightarrow> query_key \<times> sdk_request" where
  "web_invitation_controller_validate_options = query_options ''invitationControllerValidate'' web_invitation_controller_validate"

definition web_login_controller_register_mutation :: "call_options \<Rightarrow> call_options \<Rightarrow> sdk_request" where
  "web_login_controller_register_mutation = mutation_options web_login_controller_register"

definition web_login_controller_login_mutation :: "call_options \<Rightarrow> call_options \<Rightarrow> sdk_request" where
  "web_login_controller_login_mutation = mutation_options web_login_controller_login"

definition web_login_controller_login_with_backup_mutation :: "call_options \<Rightarrow> call_options \<Rightarrow> sdk_request" where
  "web_login_controller_login_with_backup_mutation = mutation_options web_login_controller_login_with_backup"

definition web_login_controller_refresh_mutation :: "call_options \<Rightarrow> call_options \<Rightarrow> sdk_request" where
  "web_login_controller_refresh_mutation = mutation_options web_login_controller_refresh"

definition web_login_controller_logout_mutation :: "call_options \<Rightarrow> call_options \<Rightarrow> sdk_request" where
  "web_login_controller_logout_mutation = mutation_options web_login_controller_logout"

definition web_folder_controller_get_root_options :: "call_options \<Rightarrow> query_key \<times> sdk_request" where
  "web_folder_controller_get_root_options = query_options ''folderControllerGetRoot'' web_folder_controller_get_root"

definition web_folder_controller_get_children_options :: "call_options \<Rightarrow> query_key \<times> sdk_request" where
  "web_folder_controller_get_children_options = query_options ''folderControllerGetChildren'' web_folder_controller_get_children"

definition web_folder_controller_create_mutation :: "call_options \<Rightarrow> call_options \<Rightarrow> sdk_request" where
  "web_folder_controller_create_mutation = mutation_options web_folder_controller_create"

definition web_folder_controller_remove_mutation :: "call_options \<Rightarrow> call_options \<Rightarrow> sdk_request" where
  "web_folder_controller_remove_mutation = mutation_options web_folder_controller_remove"

definition web_folder_controller_rename_mutation :: "call_options \<Rightarrow> call_options \<Rightarrow> sdk_request" where
  "web_folder_controller_rename_mutation = mutation_options web_folder_controller_rename"

definition web_folder_controller_move_mutation :: "call_options \<Rightarrow> call_options \<Rightarrow> sdk_request" where
  "web_folder_controller_move_mutation = mutation_options web_folder_controller_move"

definition web_file_controller_search_options :: "call_options \<Rightarrow> query_key \<times> sdk_request" where
  "web_file_controller_search_options = query_options ''fileControllerSearch'' web_file_controller_search"

definition web_file_controller_remove_mutation :: "call_options \<Rightarrow> call_options \<Rightarrow> sdk_request" where
  "web_file_controller_remove_mutation = mutation_options web_file_controller_remove"

definition web_file_controller_rename_mutation :: "call_options \<Rightarrow> call_options \<Rightarrow> sdk_request" where
  "web_file_controller_rename_mutation = mutation_options web_file_controller_rename"

definition web_file_controller_move_mutation :: "call_options \<Rightarrow> call_options \<Rightarrow> sdk_request" where
  "web_file_controller_move_mutation = mutation_options web_file_controller_move"

definition web_file_controller_copy_mutation :: "call_options \<Rightarrow> call_options \<Rightarrow> sdk_request" where
  "web_file_controller_copy_mutation = mutation_options web_file_controller_copy"

definition web_file_download_controller_download_file_options :: "call_options \<Rightarrow> query_key \<times> sdk_request" where
  "web_file_download_controller_download_file_options = query_options ''fileDownloadControllerDownloadFile'' web_file_download_controller_download_file"

definition web_file_download_controller_download_zip_mutation :: "call_options \<Rightarrow> call_options \<Rightarrow> sdk_request" where
  "web_file_download_controller_download_zip_mutation = mutation_options web_file_download_controller_download_zip"

definition web_file_upload_controller_init_mutation :: "call_options \<Rightarrow> call_options \<Rightarrow> sdk_request" where
  "web_file_upload_controller_init_mutation = mutation_options web_file_upload_controller_init"

definition web_file_upload_controller_complete_mutation :: "call_options \<Rightarrow> call_options \<Rightarrow> sdk_request" where
  "web_file_upload_controller_complete_mutation = mutation_options web_file_upload_controller_complete"

definition web_trash_controller_list_options :: "call_options \<Rightarrow> query_key \<times> sdk_request" where
  "web_trash_controller_list_options = query_options ''trashControllerList'' web_trash_controller_list"

definition web_trash_controller_restore_mutation :: "call_options \<Rightarrow> call_options \<Rightarrow> sdk_request" where
  "web_trash_controller_restore_mutation = mutation_options web_trash_controller_restore"

definition web_trash_controller_permanent_delete_mutation :: "call_options \<Rightarrow> call_options \<Rightarrow> sdk_request" where
  "web_trash_controller_permanent_delete_mutation = mutation_options web_trash_controller_permanent_delete"

definition web_drive_controller_get_my_drive_options :: "call_options \<Rightarrow> query_key \<times> sdk_request" where
  "web_drive_controller_get_my_drive_options = query_options ''driveControllerGetMyDrive'' web_drive_controller_get_my_drive"

definition web_drive_controller_get_drive_options :: "call_options \<Rightarrow> query_key \<times> sdk_request" where
  "web_drive_controller_get_drive_options = query_options ''driveControllerGetDrive'' web_drive_controller_get_drive"

definition web_mount_credential_controller_list_options :: "call_options \<Rightarrow> query_key \<times> sdk_request" where
  "web_mount_credential_controller_list_options = query_options ''mountCredentialControllerList'' web_mount_credential_controller_list"

definition web_mount_credential_controller_issue_mutation :: "call_options \<Rightarrow> call_options \<Rightarrow> sdk_request" where
  "web_mount_credential_controller_issue_mutation = mutation_options web_mount_credential_controller_issue"

definition web_mount_credential_controller_revoke_mutation :: "call_options \<Rightarrow> call_options \<Rightarrow> sdk_request" where
  "web_mount_credential_controller_revoke_mutation = mutation_options web_mount_credential_controller_revoke"

end
