(* ===== verification/AdminSdk.thy ===== *)
theory AdminSdk
  imports ApiClient
begin

text \<open>
  The generated API client of the admin console, \<open>src/services/admin/src/shared/api/generated\<close>: its calls
  (\<open>sdk.gen.ts\<close>), what its types say of them (\<open>types.gen.ts\<close>), and the queries and mutations made of
  them (\<open>@tanstack/react-query.gen.ts\<close>).
\<close>

subsection \<open>\<open>sdk.gen.ts\<close>\<close>

definition admin_health_controller_check :: sdk_call where
  "admin_health_controller_check = (sdk_call_of GET ''/api/health'')
     \<lparr>sc_response_type := Some ''json''\<rparr>"

definition admin_auth_controller_register :: sdk_call where
  "admin_auth_controller_register = (sdk_call_of POST ''/auth/register'')
     \<lparr>sc_response_type := Some ''json'', sc_json_body := True\<rparr>"

definition admin_auth_controller_login :: sdk_call where
  "admin_auth_controller_login = (sdk_call_of POST ''/auth/login'')
     \<lparr>sc_response_type := Some ''json'', sc_json_body := True\<rparr>"

definition admin_auth_controller_login_with_backup :: sdk_call where
  "admin_auth_controller_login_with_backup = (sdk_call_of POST ''/auth/login/backup'')
     \<lparr>sc_response_type := Some ''json'', sc_json_body := True\<rparr>"

definition admin_auth_controller_complete_two_fa :: sdk_call where
  "admin_auth_controller_complete_two_fa = (sdk_call_of POST ''/auth/2fa/challenge/{id}/complete'')
     \<lparr>sc_response_type := Some ''json''\<rparr>"

definition admin_auth_controller_refresh :: sdk_call where
  "admin_auth_controller_refresh = (sdk_call_of POST ''/auth/refresh'')
     \<lparr>sc_response_type := Some ''json''\<rparr>"

definition admin_auth_controller_logout :: sdk_call where
  "admin_auth_controller_logout = sdk_call_of POST ''/auth/logout''"

definition admin_auth_controller_me :: sdk_call where
  "admin_auth_controller_me = (sdk_call_of GET ''/auth/me'')
     \<lparr>sc_response_type := Some ''json''\<rparr>"

definition admin_device_controller_list :: sdk_call where
  "admin_device_controller_list = (sdk_call_of GET ''/devices'')
     \<lparr>sc_response_type := Some ''json''\<rparr>"

definition admin_device_controller_register :: sdk_call where
  "admin_device_controller_register = (sdk_call_of POST ''/devices'')
     \<lparr>sc_json_body := True\<rparr>"

definition admin_device_controller_remove :: sdk_call where
  "admin_device_controller_remove = sdk_call_of DELETE ''/devices/{id}''"

definition admin_two_fa_controller_get_status :: sdk_call where
  "admin_two_fa_controller_get_status = (sdk_call_of GET ''/auth/2fa/challenge/{id}/status'')
     \<lparr>sc_response_type := Some ''json''\<rparr>"

definition admin_two_fa_controller_respond :: sdk_call where
  "admin_two_fa_controller_respond = (sdk_call_of POST ''/auth/2fa/challenge/{id}/respond'')
     \<lparr>sc_json_body := True\<rparr>"

definition admin_two_fa_controller_resend :: sdk_call where
  "admin_two_fa_controller_resend = (sdk_call_of POST ''/auth/2fa/challenge/{id}/resend'')
     \<lparr>sc_response_type := Some ''json''\<rparr>"

definition admin_trusted_device_controller_list :: sdk_call where
  "admin_trusted_device_controller_list = (sdk_call_of GET ''/trusted-device'')
     \<lparr>sc_response_type := Some ''json''\<rparr>"

definition admin_trusted_device_controller_register :: sdk_call where
  "admin_trusted_device_controller_register = sdk_call_of POST ''/trusted-device''"

definition admin_trusted_device_controller_revoke :: sdk_call where
  "admin_trusted_device_controller_revoke = sdk_call_of DELETE ''/trusted-device/{id}''"

definition admin_invitation_controller_create :: sdk_call where
  "admin_invitation_controller_create = (sdk_call_of POST ''/invitations'')
     \<lparr>sc_response_type := Some ''json'', sc_json_body := True\<rparr>"

definition admin_invitation_controller_deactivate :: sdk_call where
  "admin_invitation_controller_deactivate = sdk_call_of DELETE ''/invitations/{token}''"

definition admin_invitation_controller_validate :: sdk_call where
  "admin_invitation_controller_validate = (sdk_call_of GET ''/invitations/{token}'')
     \<lparr>sc_response_type := Some ''json''\<rparr>"

definition admin_folder_controller_get_root :: sdk_call where
  "admin_folder_controller_get_root = (sdk_call_of GET ''/folders/root'')
     \<lparr>sc_response_type := Some ''json''\<rparr>"

definition admin_folder_controller_get_children :: sdk_call where
  "admin_folder_controller_get_children = (sdk_call_of GET ''/folders/{id}/children'')
     \<lparr>sc_response_type := Some ''json''\<rparr>"

definition admin_folder_controller_create :: sdk_call where
  "admin_folder_controller_create = (sdk_call_of POST ''/folders'')
     \<lparr>sc_response_type := Some ''json'', sc_json_body := True\<rparr>"

definition admin_folder_controller_remove :: sdk_call where
  "admin_folder_controller_remove = sdk_call_of DELETE ''/folders/{id}''"

definition admin_folder_controller_rename :: sdk_call where
  "admin_folder_controller_rename = (sdk_call_of PATCH ''/folders/{id}'')
     \<lparr>sc_response_type := Some ''json'', sc_json_body := True\<rparr>"

definition admin_folder_controller_move :: sdk_call where
  "admin_folder_controller_move = (sdk_call_of PATCH ''/folders/{id}/move'')
     \<lparr>sc_response_type := Some ''json'', sc_json_body := True\<rparr>"

definition admin_file_controller_search :: sdk_call where
  "admin_file_controller_search = (sdk_call_of GET ''/files/search'')
     \<lparr>sc_response_type := Some ''json''\<rparr>"

definition admin_file_controller_remove :: sdk_call where
  "admin_file_controller_remove = sdk_call_of DELETE ''/files/{id}''"

definition admin_file_controller_rename :: sdk_call where
  "admin_file_controller_rename = (sdk_call_of PATCH ''/files/{id}'')
     \<lparr>sc_response_type := Some ''json'', sc_json_body := True\<rparr>"

definition admin_file_controller_move :: sdk_call where
  "admin_file_controller_move = (sdk_call_of PATCH ''/files/{id}/move'')
     \<lparr>sc_response_type := Some ''json'', sc_json_body := True\<rparr>"

definition admin_file_controller_copy :: sdk_call where
  "admin_file_controller_copy = (sdk_call_of POST ''/files/{id}/copy'')
     \<lparr>sc_response_type := Some ''json'', sc_json_body := True\<rparr>"

definition admin_file_download_controller_download_file :: sdk_call where
  "admin_file_download_controller_download_file = (sdk_call_of GET ''/files/{id}/download'')
     \<lparr>sc_response_type := Some ''blob''\<rparr>"

definition admin_file_download_controller_download_zip :: sdk_call where
  "admin_file_download_controller_download_zip = (sdk_call_of POST ''/files/download/zip'')
     \<lparr>sc_response_type := Some ''blob'', sc_json_body := True\<rparr>"

definition admin_file_upload_controller_init :: sdk_call where
  "admin_file_upload_controller_init = (sdk_call_of POST ''/files/upload-init'')
     \<lparr>sc_response_type := Some ''json'', sc_json_body := True\<rparr>"

definition admin_file_upload_controller_complete :: sdk_call where
  "admin_file_upload_controller_complete = (sdk_call_of POST ''/files/{sessionId}/upload-complete'')
     \<lparr>sc_response_type := Some ''json'', sc_json_body := True\<rparr>"

definition admin_trash_controller_list :: sdk_call where
  "admin_trash_controller_list = (sdk_call_of GET ''/trash'')
     \<lparr>sc_response_type := Some ''json''\<rparr>"

definition admin_trash_controller_restore :: sdk_call where
  "admin_trash_controller_restore = (sdk_call_of POST ''/trash/{id}/restore'')
     \<lparr>sc_json_body := True\<rparr>"

definition admin_trash_controller_permanent_delete :: sdk_call where
  "admin_trash_controller_permanent_delete = (sdk_call_of DELETE ''/trash/{id}'')
     \<lparr>sc_json_body := True\<rparr>"

definition admin_user_admin_controller_list :: sdk_call where
  "admin_user_admin_controller_list = (sdk_call_of GET ''/admin/users'')
     \<lparr>sc_response_type := Some ''json''\<rparr>"

definition admin_invitation_admin_controller_create :: sdk_call where
  "admin_invitation_admin_controller_create = (sdk_call_of POST ''/admin/users/invitations'')
     \<lparr>sc_response_type := Some ''json'', sc_json_body := True\<rparr>"

definition admin_calls :: "sdk_call list" where
  "admin_calls = [admin_health_controller_check, admin_auth_controller_register, admin_auth_controller_login,
     admin_auth_controller_login_with_backup, admin_auth_controller_complete_two_fa,
     admin_auth_controller_refresh, admin_auth_controller_logout, admin_auth_controller_me,
     admin_device_controller_list, admin_device_controller_register, admin_device_controller_remove,
     admin_two_fa_controller_get_status, admin_two_fa_controller_respond, admin_two_fa_controller_resend,
     admin_trusted_device_controller_list, admin_trusted_device_controller_register,
     admin_trusted_device_controller_revoke, admin_invitation_controller_create,
     admin_invitation_controller_deactivate, admin_invitation_controller_validate,
     admin_folder_controller_get_root, admin_folder_controller_get_children,
     admin_folder_controller_create, admin_folder_controller_remove, admin_folder_controller_rename,
     admin_folder_controller_move, admin_file_controller_search, admin_file_controller_remove,
     admin_file_controller_rename, admin_file_controller_move, admin_file_controller_copy,
     admin_file_download_controller_download_file, admin_file_download_controller_download_zip,
     admin_file_upload_controller_init, admin_file_upload_controller_complete, admin_trash_controller_list,
     admin_trash_controller_restore, admin_trash_controller_permanent_delete,
     admin_user_admin_controller_list, admin_invitation_admin_controller_create]"

subsection \<open>\<open>types.gen.ts\<close>\<close>

definition admin_health_controller_check_data :: operation where
  "admin_health_controller_check_data = \<lparr>op_body = None, op_path = [], op_query = [],
     op_url = ''/api/health'',
     op_errors = [],
     op_responses = [(200, [''object''])]\<rparr>"

definition admin_auth_controller_register_data :: operation where
  "admin_auth_controller_register_data = \<lparr>op_body = Some ''RegisterBodyDto'', op_path = [], op_query = [],
     op_url = ''/auth/register'',
     op_errors = [(404, [INVITATION_NOT_FOUND]), (409, [INVITATION_ALREADY_USED, USERNAME_TAKEN]), (410, [INVITATION_EXPIRED]), (500, [REGISTRATION_FAILED, ROLE_NOT_FOUND])],
     op_responses = [(201, [''RegisterResponseDto''])]\<rparr>"

definition admin_auth_controller_login_data :: operation where
  "admin_auth_controller_login_data = \<lparr>op_body = Some ''LoginBodyDto'', op_path = [], op_query = [],
     op_url = ''/auth/login'',
     op_errors = [(401, [INVALID_CREDENTIALS]), (423, [ACCOUNT_DISABLED])],
     op_responses = [(200, [''AuthenticatedResponseDto'', ''TwoFaRequiredResponseDto''])]\<rparr>"

definition admin_auth_controller_login_with_backup_data :: operation where
  "admin_auth_controller_login_with_backup_data = \<lparr>op_body = Some ''BackupLoginBodyDto'', op_path = [], op_query = [],
     op_url = ''/auth/login/backup'',
     op_errors = [(401, [INVALID_CREDENTIALS, BACKUP_CODE_INVALID]), (423, [ACCOUNT_DISABLED])],
     op_responses = [(200, [''AuthenticatedResponseDto'', ''TwoFaRequiredResponseDto''])]\<rparr>"

definition admin_auth_controller_complete_two_fa_data :: operation where
  "admin_auth_controller_complete_two_fa_data = \<lparr>op_body = None, op_path = [''id''], op_query = [],
     op_url = ''/auth/2fa/challenge/{id}/complete'',
     op_errors = [(404, [TWOFA_CHALLENGE_NOT_FOUND])],
     op_responses = [(200, [''AuthenticatedResponseDto'', ''TwoFaRequiredResponseDto''])]\<rparr>"

definition admin_auth_controller_refresh_data :: operation where
  "admin_auth_controller_refresh_data = \<lparr>op_body = None, op_path = [], op_query = [],
     op_url = ''/auth/refresh'',
     op_errors = [(401, [REFRESH_TOKEN_INVALID])],
     op_responses = [(200, [''AuthenticatedResponseDto'', ''TwoFaRequiredResponseDto''])]\<rparr>"

definition admin_auth_controller_logout_data :: operation where
  "admin_auth_controller_logout_data = \<lparr>op_body = None, op_path = [], op_query = [],
     op_url = ''/auth/logout'',
     op_errors = [],
     op_responses = [(204, [])]\<rparr>"

definition admin_auth_controller_me_data :: operation where
  "admin_auth_controller_me_data = \<lparr>op_body = None, op_path = [], op_query = [],
     op_url = ''/auth/me'',
     op_errors = [(401, [INVALID_CREDENTIALS])],
     op_responses = [(200, [''UserDto''])]\<rparr>"

definition admin_device_controller_list_data :: operation where
  "admin_device_controller_list_data = \<lparr>op_body = None, op_path = [], op_query = [],
     op_url = ''/devices'',
     op_errors = [],
     op_responses = [(200, [''DeviceResponseDto[]''])]\<rparr>"

definition admin_device_controller_register_data :: operation where
  "admin_device_controller_register_data = \<lparr>op_body = Some ''RegisterDeviceBodyDto'', op_path = [], op_query = [],
     op_url = ''/devices'',
     op_errors = [],
     op_responses = [(204, [])]\<rparr>"

definition admin_device_controller_remove_data :: operation where
  "admin_device_controller_remove_data = \<lparr>op_body = None, op_path = [''id''], op_query = [],
     op_url = ''/devices/{id}'',
     op_errors = [(404, [DEVICE_NOT_FOUND])],
     op_responses = [(204, [])]\<rparr>"

definition admin_two_fa_controller_get_status_data :: operation where
  "admin_two_fa_controller_get_status_data = \<lparr>op_body = None, op_path = [''id''], op_query = [],
     op_url = ''/auth/2fa/challenge/{id}/status'',
     op_errors = [(404, [TWOFA_CHALLENGE_NOT_FOUND])],
     op_responses = [(200, [''ChallengeStatusPendingDto'', ''ChallengeStatusApprovedDto'', ''ChallengeStatusDeniedDto'', ''ChallengeStatusExpiredDto''])]\<rparr>"

definition admin_two_fa_controller_respond_data :: operation where
  "admin_two_fa_controller_respond_data = \<lparr>op_body = Some ''RespondChallengeBodyDto'', op_path = [''id''], op_query = [],
     op_url = ''/auth/2fa/challenge/{id}/respond'',
     op_errors = [(403, [FORBIDDEN]), (404, [TWOFA_CHALLENGE_NOT_FOUND])],
     op_responses = [(204, [])]\<rparr>"

definition admin_two_fa_controller_resend_data :: operation where
  "admin_two_fa_controller_resend_data = \<lparr>op_body = None, op_path = [''id''], op_query = [],
     op_url = ''/auth/2fa/challenge/{id}/resend'',
     op_errors = [(404, [TWOFA_CHALLENGE_NOT_FOUND])],
     op_responses = [(200, [''ResendChallengeResponseDto''])]\<rparr>"

definition admin_trusted_device_controller_list_data :: operation where
  "admin_trusted_device_controller_list_data = \<lparr>op_body = None, op_path = [], op_query = [],
     op_url = ''/trusted-device'',
     op_errors = [],
     op_responses = [(200, [''TrustedDeviceResponseDto[]''])]\<rparr>"

definition admin_trusted_device_controller_register_data :: operation where
  "admin_trusted_device_controller_register_data = \<lparr>op_body = None, op_path = [], op_query = [],
     op_url = ''/trusted-device'',
     op_errors = [],
     op_responses = [(201, [''unknown''])]\<rparr>"

definition admin_trusted_device_controller_revoke_data :: operation where
  "admin_trusted_device_controller_revoke_data = \<lparr>op_body = None, op_path = [''id''], op_query = [],
     op_url = ''/trusted-device/{id}'',
     op_errors = [(404, [TRUSTED_DEVICE_NOT_FOUND])],
     op_responses = [(204, [])]\<rparr>"

definition admin_invitation_controller_create_data :: operation where
  "admin_invitation_controller_create_data = \<lparr>op_body = Some ''CreateInvitationBodyDto'', op_path = [], op_query = [],
     op_url = ''/invitations'',
     op_errors = [],
     op_responses = [(201, [''InvitationResponseDto''])]\<rparr>"

definition admin_invitation_controller_deactivate_data :: operation where
  "admin_invitation_controller_deactivate_data = \<lparr>op_body = None, op_path = [''token''], op_query = [],
     op_url = ''/invitations/{token}'',
     op_errors = [(404, [INVITATION_NOT_FOUND])],
     op_responses = [(204, [])]\<rparr>"

definition admin_invitation_controller_validate_data :: operation where
  "admin_invitation_controller_validate_data = \<lparr>op_body = None, op_path = [''token''], op_query = [],
     op_url = ''/invitations/{token}'',
     op_errors = [],
     op_responses = [(200, [''ValidateInvitationResponseDto''])]\<rparr>"

definition admin_folder_controller_get_root_data :: operation where
  "admin_folder_controller_get_root_data = \<lparr>op_body = None, op_path = [], op_query = [],
     op_url = ''/folders/root'',
     op_errors = [],
     op_responses = [(200, [''FolderChildrenResponseDto''])]\<rparr>"

definition admin_folder_controller_get_children_data :: operation where
  "admin_folder_controller_get_children_data = \<lparr>op_body = None, op_path = [''id''], op_query = [],
     op_url = ''/folders/{id}/children'',
     op_errors = [(404, [FOLDER_NOT_FOUND])],
     op_responses = [(200, [''FolderChildrenResponseDto''])]\<rparr>"

definition admin_folder_controller_create_data :: operation where
  "admin_folder_controller_create_data = \<lparr>op_body = Some ''CreateFolderBodyDto'', op_path = [], op_query = [],
     op_url = ''/folders'',
     op_errors = [(400, [FOLDER_DEPTH_EXCEEDED]), (404, [FOLDER_NOT_FOUND])],
     op_responses = [(201, [''FolderItemDto''])]\<rparr>"

definition admin_folder_controller_remove_data :: operation where
  "admin_folder_controller_remove_data = \<lparr>op_body = None, op_path = [''id''], op_query = [],
     op_url = ''/folders/{id}'',
     op_errors = [(404, [FOLDER_NOT_FOUND])],
     op_responses = [(204, [])]\<rparr>"

definition admin_folder_controller_rename_data :: operation where
  "admin_folder_controller_rename_data = \<lparr>op_body = Some ''RenameFolderBodyDto'', op_path = [''id''], op_query = [],
     op_url = ''/folders/{id}'',
     op_errors = [(404, [FOLDER_NOT_FOUND])],
     op_responses = [(200, [''FolderItemDto''])]\<rparr>"

definition admin_folder_controller_move_data :: operation where
  "admin_folder_controller_move_data = \<lparr>op_body = Some ''MoveFolderBodyDto'', op_path = [''id''], op_query = [],
     op_url = ''/folders/{id}/move'',
     op_errors = [(400, [INVALID_MOVE_TARGET]), (404, [FOLDER_NOT_FOUND])],
     op_responses = [(200, [''FolderItemDto''])]\<rparr>"

definition admin_file_controller_search_data :: operation where
  "admin_file_controller_search_data = \<lparr>op_body = None, op_path = [], op_query = [''scope'', ''q'', ''folderId''],
     op_url = ''/files/search'',
     op_errors = [(404, [FOLDER_NOT_FOUND])],
     op_responses = [(200, [''FileSearchResponseDto''])]\<rparr>"

definition admin_file_controller_remove_data :: operation where
  "admin_file_controller_remove_data = \<lparr>op_body = None, op_path = [''id''], op_query = [],
     op_url = ''/files/{id}'',
     op_errors = [(404, [FILE_NOT_FOUND])],
     op_responses = [(204, [])]\<rparr>"

definition admin_file_controller_rename_data :: operation where
  "admin_file_controller_rename_data = \<lparr>op_body = Some ''RenameFileBodyDto'', op_path = [''id''], op_query = [],
     op_url = ''/files/{id}'',
     op_errors = [(404, [FILE_NOT_FOUND])],
     op_responses = [(200, [''FileItemDto''])]\<rparr>"

definition admin_file_controller_move_data :: operation where
  "admin_file_controller_move_data = \<lparr>op_body = Some ''MoveFileBodyDto'', op_path = [''id''], op_query = [],
     op_url = ''/files/{id}/move'',
     op_errors = [(404, [FILE_NOT_FOUND, FOLDER_NOT_FOUND])],
     op_responses = [(200, [''FileItemDto''])]\<rparr>"

definition admin_file_controller_copy_data :: operation where
  "admin_file_controller_copy_data = \<lparr>op_body = Some ''MoveFileBodyDto'', op_path = [''id''], op_query = [],
     op_url = ''/files/{id}/copy'',
     op_errors = [(404, [FILE_NOT_FOUND, FOLDER_NOT_FOUND])],
     op_responses = [(201, [''FileItemDto''])]\<rparr>"

definition admin_file_download_controller_download_file_data :: operation where
  "admin_file_download_controller_download_file_data = \<lparr>op_body = None, op_path = [''id''], op_query = [],
     op_url = ''/files/{id}/download'',
     op_errors = [(404, [FILE_NOT_FOUND])],
     op_responses = [(200, [''binary''])]\<rparr>"

definition admin_file_download_controller_download_zip_data :: operation where
  "admin_file_download_controller_download_zip_data = \<lparr>op_body = Some ''ZipDownloadBodyDto'', op_path = [], op_query = [],
     op_url = ''/files/download/zip'',
     op_errors = [(404, [FILE_NOT_FOUND])],
     op_responses = [(200, [''binary''])]\<rparr>"

definition admin_file_upload_controller_init_data :: operation where
  "admin_file_upload_controller_init_data = \<lparr>op_body = Some ''UploadInitBodyDto'', op_path = [], op_query = [],
     op_url = ''/files/upload-init'',
     op_errors = [(404, [FOLDER_NOT_FOUND]), (413, [FILE_TOO_LARGE])],
     op_responses = [(201, [''UploadInitResponseDto''])]\<rparr>"

definition admin_file_upload_controller_complete_data :: operation where
  "admin_file_upload_controller_complete_data = \<lparr>op_body = Some ''UploadCompleteBodyDto'', op_path = [''sessionId''], op_query = [],
     op_url = ''/files/{sessionId}/upload-complete'',
     op_errors = [(400, [UPLOAD_OBJECT_MISSING, UPLOAD_SIZE_MISMATCH]), (404, [UPLOAD_SESSION_NOT_FOUND]), (410, [UPLOAD_SESSION_EXPIRED])],
     op_responses = [(201, [''FileItemDto''])]\<rparr>"

definition admin_trash_controller_list_data :: operation where
  "admin_trash_controller_list_data = \<lparr>op_body = None, op_path = [], op_query = [],
     op_url = ''/trash'',
     op_errors = [],
     op_responses = [(200, [''TrashListResponseDto''])]\<rparr>"

definition admin_trash_controller_restore_data :: operation where
  "admin_trash_controller_restore_data = \<lparr>op_body = Some ''TrashActionBodyDto'', op_path = [''id''], op_query = [],
     op_url = ''/trash/{id}/restore'',
     op_errors = [(404, [FILE_NOT_FOUND, FOLDER_NOT_FOUND])],
     op_responses = [(204, [])]\<rparr>"

definition admin_trash_controller_permanent_delete_data :: operation where
  "admin_trash_controller_permanent_delete_data = \<lparr>op_body = Some ''TrashActionBodyDto'', op_path = [''id''], op_query = [],
     op_url = ''/trash/{id}'',
     op_errors = [(404, [FILE_NOT_FOUND, FOLDER_NOT_FOUND])],
     op_responses = [(204, [])]\<rparr>"

definition admin_user_admin_controller_list_data :: operation where
  "admin_user_admin_controller_list_data = \<lparr>op_body = None, op_path = [], op_query = [''@ListUsersQueryDto''],
     op_url = ''/admin/users'',
     op_errors = [],
     op_responses = [(200, [''AdminUserListResponseDto''])]\<rparr>"

definition admin_invitation_admin_controller_create_data :: operation where
  "admin_invitation_admin_controller_create_data = \<lparr>op_body = Some ''CreateInvitationBodyDto'', op_path = [], op_query = [],
     op_url = ''/admin/users/invitations'',
     op_errors = [],
     op_responses = [(201, [''InvitationResponseDto''])]\<rparr>"

subsection \<open>\<open>@tanstack/react-query.gen.ts\<close>\<close>

definition admin_health_controller_check_options :: "call_options \<Rightarrow> query_key \<times> sdk_request" where
  "admin_health_controller_check_options = query_options ''healthControllerCheck'' admin_health_controller_check"

definition admin_auth_controller_register_mutation :: "call_options \<Rightarrow> call_options \<Rightarrow> sdk_request" where
  "admin_auth_controller_register_mutation = mutation_options admin_auth_controller_register"

definition admin_auth_controller_login_mutation :: "call_options \<Rightarrow> call_options \<Rightarrow> sdk_request" where
  "admin_auth_controller_login_mutation = mutation_options admin_auth_controller_login"

definition admin_auth_controller_login_with_backup_mutation :: "call_options \<Rightarrow> call_options \<Rightarrow> sdk_request" where
  "admin_auth_controller_login_with_backup_mutation = mutation_options admin_auth_controller_login_with_backup"

definition admin_auth_controller_complete_two_fa_mutation :: "call_options \<Rightarrow> call_options \<Rightarrow> sdk_request" where
  "admin_auth_controller_complete_two_fa_mutation = mutation_options admin_auth_controller_complete_two_fa"

definition admin_auth_controller_refresh_mutation :: "call_options \<Rightarrow> call_options \<Rightarrow> sdk_request" where
  "admin_auth_controller_refresh_mutation = mutation_options admin_auth_controller_refresh"

definition admin_auth_controller_logout_mutation :: "call_options \<Rightarrow> call_options \<Rightarrow> sdk_request" where
  "admin_auth_controller_logout_mutation = mutation_options admin_auth_controller_logout"

definition admin_auth_controller_me_options :: "call_options \<Rightarrow> query_key \<times> sdk_request" where
  "admin_auth_controller_me_options = query_options ''authControllerMe'' admin_auth_controller_me"

definition admin_device_controller_list_options :: "call_options \<Rightarrow> query_key \<times> sdk_request" where
  "admin_device_controller_list_options = query_options ''deviceControllerList'' admin_device_controller_list"

definition admin_device_controller_register_mutation :: "call_options \<Rightarrow> call_options \<Rightarrow> sdk_request" where
  "admin_device_controller_register_mutation = mutation_options admin_device_controller_register"

definition admin_device_controller_remove_mutation :: "call_options \<Rightarrow> call_options \<Rightarrow> sdk_request" where
  "admin_device_controller_remove_mutation = mutation_options admin_device_controller_remove"

definition admin_two_fa_controller_get_status_options :: "call_options \<Rightarrow> query_key \<times> sdk_request" where
  "admin_two_fa_controller_get_status_options = query_options ''twoFaControllerGetStatus'' admin_two_fa_controller_get_status"

definition admin_two_fa_controller_respond_mutation :: "call_options \<Rightarrow> call_options \<Rightarrow> sdk_request" where
  "admin_two_fa_controller_respond_mutation = mutation_options admin_two_fa_controller_respond"

definition admin_two_fa_controller_resend_mutation :: "call_options \<Rightarrow> call_options \<Rightarrow> sdk_request" where
  "admin_two_fa_controller_resend_mutation = mutation_options admin_two_fa_controller_resend"

definition admin_trusted_device_controller_list_options :: "call_options \<Rightarrow> query_key \<times> sdk_request" where
  "admin_trusted_device_controller_list_options = query_options ''trustedDeviceControllerList'' admin_trusted_device_controller_list"

definition admin_trusted_device_controller_register_mutation :: "call_options \<Rightarrow> call_options \<Rightarrow> sdk_request" where
  "admin_trusted_device_controller_register_mutation = mutation_options admin_trusted_device_controller_register"

definition admin_trusted_device_controller_revoke_mutation :: "call_options \<Rightarrow> call_options \<Rightarrow> sdk_request" where
  "admin_trusted_device_controller_revoke_mutation = mutation_options admin_trusted_device_controller_revoke"

definition admin_invitation_controller_create_mutation :: "call_options \<Rightarrow> call_options \<Rightarrow> sdk_request" where
  "admin_invitation_controller_create_mutation = mutation_options admin_invitation_controller_create"

definition admin_invitation_controller_deactivate_mutation :: "call_options \<Rightarrow> call_options \<Rightarrow> sdk_request" where
  "admin_invitation_controller_deactivate_mutation = mutation_options admin_invitation_controller_deactivate"

definition admin_invitation_controller_validate_options :: "call_options \<Rightarrow> query_key \<times> sdk_request" where
  "admin_invitation_controller_validate_options = query_options ''invitationControllerValidate'' admin_invitation_controller_validate"

definition admin_folder_controller_get_root_options :: "call_options \<Rightarrow> query_key \<times> sdk_request" where
  "admin_folder_controller_get_root_options = query_options ''folderControllerGetRoot'' admin_folder_controller_get_root"

definition admin_folder_controller_get_children_options :: "call_options \<Rightarrow> query_key \<times> sdk_request" where
  "admin_folder_controller_get_children_options = query_options ''folderControllerGetChildren'' admin_folder_controller_get_children"

definition admin_folder_controller_create_mutation :: "call_options \<Rightarrow> call_options \<Rightarrow> sdk_request" where
  "admin_folder_controller_create_mutation = mutation_options admin_folder_controller_create"

definition admin_folder_controller_remove_mutation :: "call_options \<Rightarrow> call_options \<Rightarrow> sdk_request" where
  "admin_folder_controller_remove_mutation = mutation_options admin_folder_controller_remove"

definition admin_folder_controller_rename_mutation :: "call_options \<Rightarrow> call_options \<Rightarrow> sdk_request" where
  "admin_folder_controller_rename_mutation = mutation_options admin_folder_controller_rename"

definition admin_folder_controller_move_mutation :: "call_options \<Rightarrow> call_options \<Rightarrow> sdk_request" where
  "admin_folder_controller_move_mutation = mutation_options admin_folder_controller_move"

definition admin_file_controller_search_options :: "call_options \<Rightarrow> query_key \<times> sdk_request" where
  "admin_file_controller_search_options = query_options ''fileControllerSearch'' admin_file_controller_search"

definition admin_file_controller_remove_mutation :: "call_options \<Rightarrow> call_options \<Rightarrow> sdk_request" where
  "admin_file_controller_remove_mutation = mutation_options admin_file_controller_remove"

definition admin_file_controller_rename_mutation :: "call_options \<Rightarrow> call_options \<Rightarrow> sdk_request" where
  "admin_file_controller_rename_mutation = mutation_options admin_file_controller_rename"

definition admin_file_controller_move_mutation :: "call_options \<Rightarrow> call_options \<Rightarrow> sdk_request" where
  "admin_file_controller_move_mutation = mutation_options admin_file_controller_move"

definition admin_file_controller_copy_mutation :: "call_options \<Rightarrow> call_options \<Rightarrow> sdk_request" where
  "admin_file_controller_copy_mutation = mutation_options admin_file_controller_copy"

definition admin_file_download_controller_download_file_options :: "call_options \<Rightarrow> query_key \<times> sdk_request" where
  "admin_file_download_controller_download_file_options = query_options ''fileDownloadControllerDownloadFile'' admin_file_download_controller_download_file"

definition admin_file_download_controller_download_zip_mutation :: "call_options \<Rightarrow> call_options \<Rightarrow> sdk_request" where
  "admin_file_download_controller_download_zip_mutation = mutation_options admin_file_download_controller_download_zip"

definition admin_file_upload_controller_init_mutation :: "call_options \<Rightarrow> call_options \<Rightarrow> sdk_request" where
  "admin_file_upload_controller_init_mutation = mutation_options admin_file_upload_controller_init"

definition admin_file_upload_controller_complete_mutation :: "call_options \<Rightarrow> call_options \<Rightarrow> sdk_request" where
  "admin_file_upload_controller_complete_mutation = mutation_options admin_file_upload_controller_complete"

definition admin_trash_controller_list_options :: "call_options \<Rightarrow> query_key \<times> sdk_request" where
  "admin_trash_controller_list_options = query_options ''trashControllerList'' admin_trash_controller_list"

definition admin_trash_controller_restore_mutation :: "call_options \<Rightarrow> call_options \<Rightarrow> sdk_request" where
  "admin_trash_controller_restore_mutation = mutation_options admin_trash_controller_restore"

definition admin_trash_controller_permanent_delete_mutation :: "call_options \<Rightarrow> call_options \<Rightarrow> sdk_request" where
  "admin_trash_controller_permanent_delete_mutation = mutation_options admin_trash_controller_permanent_delete"

definition admin_user_admin_controller_list_options :: "call_options \<Rightarrow> query_key \<times> sdk_request" where
  "admin_user_admin_controller_list_options = query_options ''userAdminControllerList'' admin_user_admin_controller_list"

definition admin_invitation_admin_controller_create_mutation :: "call_options \<Rightarrow> call_options \<Rightarrow> sdk_request" where
  "admin_invitation_admin_controller_create_mutation = mutation_options admin_invitation_admin_controller_create"

end
