(* ===== verification/SdkProps.thy ===== *)
theory SdkProps
  imports WebSdk AdminSdk "HOL-Library.Multiset"
begin

text \<open>
  The generated clients against the API: each call of the web client is sent to the route
  of its operation, and its types say what the API documents; the calls of older clients
  that no route answers; and what a query's cache key says of its request.
\<close>

subsection \<open>The web client's calls\<close>

text \<open>What the decorators of a route document: its errors by status, and its response.\<close>

definition documented_errors :: "route \<Rightarrow> (nat \<times> error_code list) list" where
  "documented_errors r = map (\<lambda>s. (s, filter (\<lambda>c. error_status c = s) (ro_errors r)))
     (sort (remdups (map error_status (ro_errors r))))"

definition documented_responses :: "route \<Rightarrow> (nat \<times> string list) list" where
  "documented_responses r = (case ro_documented r of
     None \<Rightarrow> [(200, [''object''])]
   | Some s \<Rightarrow> [(s, if ro_response r \<noteq> [] then ro_response r else if s = 204 then [] else [''unknown''])])"

definition response_type_of :: "(nat \<times> string list) list \<Rightarrow> string option" where
  "response_type_of rs = (let ns = concat (map snd rs)
     in if ns = [] \<or> ns = [''unknown''] then None else if ns = [''binary''] then Some ''blob'' else Some ''json'')"

text \<open>A call, the types of its operation and a route of the API agree.\<close>

definition agrees :: "sdk_call \<times> operation \<times> route \<Rightarrow> bool" where
  "agrees x = (case x of (c, p, r) \<Rightarrow> call_fits c r \<and> op_url p = sc_url c \<and> op_path p = param_names c \<and>
     (op_body p \<noteq> None) = sc_json_body c \<and> op_responses p = documented_responses r \<and>
     op_errors p = documented_errors r \<and> sc_response_type c = response_type_of (op_responses p))"

text \<open>Every call with the types and the route of the same name; the API has no \<open>InvitationController.create\<close>.\<close>

definition web_table :: "(sdk_call \<times> operation \<times> route) list" where
  "web_table = [
     (web_health_controller_check, web_health_controller_check_data, health_check_route),
     (web_user_controller_me, web_user_controller_me_data, user_me_route),
     (web_device_controller_list, web_device_controller_list_data, device_list_route),
     (web_device_controller_register, web_device_controller_register_data, device_register_route),
     (web_device_controller_remove, web_device_controller_remove_data, device_remove_route),
     (web_trusted_device_controller_list, web_trusted_device_controller_list_data, trusted_device_list_route),
     (web_trusted_device_controller_register, web_trusted_device_controller_register_data, trusted_device_register_route),
     (web_trusted_device_controller_revoke, web_trusted_device_controller_revoke_data, trusted_device_revoke_route),
     (web_challenge_controller_get_status, web_challenge_controller_get_status_data, challenge_get_status_route),
     (web_challenge_controller_respond, web_challenge_controller_respond_data, challenge_respond_route),
     (web_challenge_controller_resend, web_challenge_controller_resend_data, challenge_resend_route),
     (web_challenge_controller_complete, web_challenge_controller_complete_data, challenge_complete_route),
     (web_totp_controller_start_setup, web_totp_controller_start_setup_data, totp_start_setup_route),
     (web_totp_controller_complete_setup, web_totp_controller_complete_setup_data, totp_complete_setup_route),
     (web_totp_controller_list, web_totp_controller_list_data, totp_list_route),
     (web_totp_controller_revoke, web_totp_controller_revoke_data, totp_revoke_route),
     (web_backup_code_controller_regenerate, web_backup_code_controller_regenerate_data, backup_code_regenerate_route),
     (web_invitation_controller_deactivate, web_invitation_controller_deactivate_data, invitation_deactivate_route),
     (web_invitation_controller_validate, web_invitation_controller_validate_data, invitation_validate_route),
     (web_login_controller_register, web_login_controller_register_data, login_register_route),
     (web_login_controller_login, web_login_controller_login_data, login_login_route),
     (web_login_controller_login_with_backup, web_login_controller_login_with_backup_data, login_login_with_backup_route),
     (web_login_controller_refresh, web_login_controller_refresh_data, login_refresh_route),
     (web_login_controller_logout, web_login_controller_logout_data, login_logout_route),
     (web_folder_controller_get_root, web_folder_controller_get_root_data, folder_get_root_route),
     (web_folder_controller_get_children, web_folder_controller_get_children_data, folder_get_children_route),
     (web_folder_controller_create, web_folder_controller_create_data, folder_create_route),
     (web_folder_controller_remove, web_folder_controller_remove_data, folder_remove_route),
     (web_folder_controller_rename, web_folder_controller_rename_data, folder_rename_route),
     (web_folder_controller_move, web_folder_controller_move_data, folder_move_route),
     (web_file_controller_search, web_file_controller_search_data, file_search_route),
     (web_file_controller_remove, web_file_controller_remove_data, file_remove_route),
     (web_file_controller_rename, web_file_controller_rename_data, file_rename_route),
     (web_file_controller_move, web_file_controller_move_data, file_move_route),
     (web_file_controller_copy, web_file_controller_copy_data, file_copy_route),
     (web_file_download_controller_download_file, web_file_download_controller_download_file_data, file_download_download_file_route),
     (web_file_download_controller_download_zip, web_file_download_controller_download_zip_data, file_download_download_zip_route),
     (web_file_upload_controller_init, web_file_upload_controller_init_data, file_upload_init_route),
     (web_file_upload_controller_complete, web_file_upload_controller_complete_data, file_upload_complete_route),
     (web_trash_controller_list, web_trash_controller_list_data, trash_list_route),
     (web_trash_controller_restore, web_trash_controller_restore_data, trash_restore_route),
     (web_trash_controller_permanent_delete, web_trash_controller_permanent_delete_data, trash_permanent_delete_route),
     (web_drive_controller_get_my_drive, web_drive_controller_get_my_drive_data, drive_get_my_drive_route),
     (web_drive_controller_get_drive, web_drive_controller_get_drive_data, drive_get_drive_route),
     (web_mount_credential_controller_list, web_mount_credential_controller_list_data, mount_credential_list_route),
     (web_mount_credential_controller_issue, web_mount_credential_controller_issue_data, mount_credential_issue_route),
     (web_mount_credential_controller_revoke, web_mount_credential_controller_revoke_data, mount_credential_revoke_route)]"

lemma web_table_complete: "insert web_invitation_controller_create (set (map fst web_table)) = set web_calls"
  by (simp add: web_table_def web_calls_def insert_commute)

lemma web_table_agrees: "list_all agrees web_table"
  by code_simp

lemma web_table_routes: "list_all (\<lambda>x. snd (snd x) \<in> set routes) web_table"
  by code_simp



end
