(* ===== verification/ClientGates.thy ===== *)
theory ClientGates
  imports SdkProps ClientAuth
begin

text \<open>
  What stands in front of the clients' pages: the generated list of public operations, the
  calls written by hand, the routes' gates \<open>PrivateRoute\<close> and \<open>AdminGate\<close>, and what the
  application does when it starts, each together with the API that answers.
\<close>

subsection \<open>\<open>public-paths.gen.ts\<close>\<close>

text \<open>
  A pattern lists the segments between the slashes of a regular expression: a text, or
  \<open>[^/]+\<close> (\<open>None\<close>).
\<close>

type_synonym path_pattern = "string option list"

definition pattern_test :: "path_pattern \<Rightarrow> string \<Rightarrow> bool" where
  "pattern_test re p \<longleftrightarrow> (let segs = split_on CHR ''/'' p in
     hd segs = [] \<and> list_all2 (\<lambda>x s. case x of Some t \<Rightarrow> s = t | None \<Rightarrow> s \<noteq> []) re (tl segs))"

definition path_candidates :: "string \<Rightarrow> string list" where
  "path_candidates url = (let pathOnly = hd (split_on CHR ''?'' url)
     in if starts_with pathOnly ''/api/'' then [pathOnly, drop 4 pathOnly] else [pathOnly])"

definition PUBLIC_PATH_REGEXES :: "path_pattern list" where
  "PUBLIC_PATH_REGEXES = [
     [Some ''api'', Some ''health''],
     [Some ''auth'', Some ''2fa'', Some ''challenge'', None, Some ''complete''],
     [Some ''auth'', Some ''2fa'', Some ''challenge'', None, Some ''resend''],
     [Some ''auth'', Some ''2fa'', Some ''challenge'', None, Some ''status''],
     [Some ''auth'', Some ''login''],
     [Some ''auth'', Some ''login'', Some ''backup''],
     [Some ''auth'', Some ''logout''],
     [Some ''auth'', Some ''refresh''],
     [Some ''auth'', Some ''register''],
     [Some ''invitations'', None]]"

definition web_is_public_path :: "string \<Rightarrow> bool" where
  "web_is_public_path url \<longleftrightarrow> list_ex (\<lambda>p. list_ex (\<lambda>re. pattern_test re p) PUBLIC_PATH_REGEXES) (path_candidates url)"

text \<open>The admin's list has the method as well.\<close>

definition PUBLIC_OPERATIONS :: "(http_method \<times> path_pattern) list" where
  "PUBLIC_OPERATIONS = [
     (GET, [Some ''api'', Some ''health'']),
     (POST, [Some ''auth'', Some ''2fa'', Some ''challenge'', None, Some ''complete'']),
     (POST, [Some ''auth'', Some ''2fa'', Some ''challenge'', None, Some ''resend'']),
     (GET, [Some ''auth'', Some ''2fa'', Some ''challenge'', None, Some ''status'']),
     (POST, [Some ''auth'', Some ''login'']),
     (POST, [Some ''auth'', Some ''login'', Some ''backup'']),
     (POST, [Some ''auth'', Some ''logout'']),
     (POST, [Some ''auth'', Some ''refresh'']),
     (POST, [Some ''auth'', Some ''register'']),
     (GET, [Some ''invitations'', None])]"

definition admin_is_public_path :: "http_method option \<Rightarrow> string \<Rightarrow> bool" where
  "admin_is_public_path method' url \<longleftrightarrow> (case method' of
     None \<Rightarrow> False
   | Some m \<Rightarrow> list_ex (\<lambda>(m', re). m' = m \<and> list_ex (pattern_test re) (path_candidates url)) PUBLIC_OPERATIONS)"

text \<open>A pattern against the segments of a route, whose parameter no text of a pattern can be.\<close>

fun covers :: "path_pattern \<Rightarrow> segment list \<Rightarrow> bool" where
  "covers [] [] = True"
| "covers (x # xs) (Lit s # rs) = ((case x of Some t \<Rightarrow> s = t | None \<Rightarrow> s \<noteq> []) \<and> covers xs rs)"
| "covers (x # xs) (Uuid # rs) = (x = None \<and> covers xs rs)"
| "covers _ _ = False"

definition no_uuid :: "path_pattern \<Rightarrow> bool" where
  "no_uuid re \<longleftrightarrow> list_all (\<lambda>x. case x of Some t \<Rightarrow> \<not> is_uuid t | None \<Rightarrow> True) re"

lemma covers_filled:
  "no_uuid re \<Longrightarrow> is_uuid v \<Longrightarrow>
     list_all2 (\<lambda>x s. case x of Some t \<Rightarrow> s = t | None \<Rightarrow> s \<noteq> []) re (map (\<lambda>r. fill r v) rs) = covers re rs"
proof (induction re rs rule: covers.induct)
  case (3 x xs rs)
  then show ?case using uuid_not_empty by (auto simp: no_uuid_def split: option.splits)
next
  case (2 x xs s rs)
  then show ?case by (auto simp: no_uuid_def split: option.splits)
qed auto

lemma patterns_no_uuid: "list_all no_uuid PUBLIC_PATH_REGEXES" "list_all (\<lambda>x. no_uuid (snd x)) PUBLIC_OPERATIONS"
  by code_simp+

text \<open>The paths the interceptor tests for a call that fits a route, and how a pattern meets them.\<close>

lemma call_candidates:
  assumes "call_fits c r" and "is_uuid v" and "gives v c path" and "plain_names q" and "ro_path r \<noteq> []"
  shows "path_candidates (sdk_url c path q) =
    [''/api'' @ join_with ''/'' ([] # filled r v), join_with ''/'' ([] # filled r v)]"
proof -
  let ?u = "join_with ''/'' ([] # filled r v)"
  have mark: "CHR ''?'' \<notin> set (''/api'' @ ?u)" using filled_url_plain [OF assms(1,2)] by simp
  have "hd (split_on CHR ''?'' (sdk_url c path q)) = ''/api'' @ ?u"
    using sdk_url_plain [OF assms(1-4)] split_on_none [OF mark] split_on_append [OF mark, of "query_serializer q"]
    by (auto simp: Let_def)
  moreover have "starts_with (''/api'' @ ?u) ''/api/''"
    using assms(5) by (cases "filled r v") (auto simp: filled_def starts_with_def)
  ultimately show ?thesis by (simp add: path_candidates_def Let_def)
qed

lemma pattern_test_filled:
  assumes "no_uuid re" and "is_uuid v" and "call_fits c r" and "ro_path r \<noteq> []"
  shows "pattern_test re (join_with ''/'' ([] # filled r v)) = covers re (ro_path r)"
    and "pattern_test re (''/api'' @ join_with ''/'' ([] # filled r v)) = covers re (Lit ''api'' # ro_path r)"
proof -
  have plain: "\<forall>x\<in>set (filled r v). CHR ''/'' \<notin> set x" using filled_plain [OF assms(3,2)] by blast
  then have 1: "split_on CHR ''/'' (join_with ''/'' ([] # filled r v)) = [] # filled r v" by (subst split_join) auto
  show "pattern_test re (join_with ''/'' ([] # filled r v)) = covers re (ro_path r)"
    unfolding pattern_test_def 1 Let_def list.sel using covers_filled [OF assms(1,2)] by (simp add: filled_def)
  have "''/api'' @ join_with ''/'' ([] # filled r v) = join_with ''/'' ([] # ''api'' # filled r v)"
    using assms(4) by (cases "filled r v") (auto simp: filled_def)
  then have 2: "split_on CHR ''/'' (''/api'' @ join_with ''/'' ([] # filled r v)) = [] # ''api'' # filled r v"
    using plain by (simp only:) (subst split_join, auto)
  show "pattern_test re (''/api'' @ join_with ''/'' ([] # filled r v)) = covers re (Lit ''api'' # ro_path r)"
    unfolding pattern_test_def 2 Let_def list.sel
    using covers_filled [OF assms(1,2), of "Lit ''api'' # ro_path r"] by (simp add: filled_def)
qed

definition covered :: "path_pattern \<Rightarrow> route \<Rightarrow> bool" where
  "covered re r \<longleftrightarrow> covers re (Lit ''api'' # ro_path r) \<or> covers re (ro_path r)"

lemma public_table:
  "list_all (\<lambda>(c, p, r). ro_path r \<noteq> [] \<and>
     list_ex (\<lambda>re. covered re r) PUBLIC_PATH_REGEXES = (ro_public r \<or> r = invitation_deactivate_route) \<and>
     list_ex (\<lambda>(m, re). m = ro_method r \<and> covered re r) PUBLIC_OPERATIONS = ro_public r) web_table"
  by code_simp



subsection \<open>Calls written by hand\<close>

text \<open>The URL axios makes of its base \<open>/api\<close> and a path.\<close>

definition axios_url :: "string \<Rightarrow> string" where
  "axios_url url = (if url = [] then ''/api'' else ''/api/'' @ dropWhile (\<lambda>c. c = CHR ''/'') url)"

definition hand_call :: "http_method \<Rightarrow> string \<Rightarrow> sdk_request" where
  "hand_call m url = \<lparr>sr_method = m, sr_url = axios_url url, sr_body = None\<rparr>"

definition backup_code_api_regenerate :: sdk_request where
  "backup_code_api_regenerate = hand_call POST ''/api/auth/backup-codes/regenerate''"

definition backup_code_api_count :: sdk_request where
  "backup_code_api_count = hand_call GET ''/api/auth/backup-codes/count''"

definition user_api_me :: sdk_request where
  "user_api_me = hand_call GET ''/auth/me''"

definition private_route_refresh :: sdk_request where
  "private_route_refresh = (hand_call POST ''/api/auth/refresh'')\<lparr>sr_body := Some ''{}''\<rparr>"

definition app_shell_refresh :: sdk_request where
  "app_shell_refresh = hand_call POST ''/auth/refresh''"

definition admin_private_route_refresh :: sdk_request where
  "admin_private_route_refresh = (hand_call POST ''/auth/refresh'')\<lparr>sr_body := Some ''{}''\<rparr>"

definition not_found :: fault where
  "not_found = HttpException 404 ''Not Found''"

definition api_answer :: "(string \<Rightarrow> jwt_payload option) \<Rightarrow> string option \<Rightarrow> sdk_request \<Rightarrow> (fault + (route \<times> auth_user option)) option" where
  "api_answer verify token rq = serve verify (sr_method rq) (sr_url rq) token"

lemma unrouted:
  "find_route (sr_method rq) (path_segments (drop 4 (sr_url rq))) = None \<Longrightarrow> starts_with (sr_url rq) ''/api'' \<Longrightarrow>
     api_answer verify token rq = Some (Inl not_found)"
  by (simp add: api_answer_def serve_def api_proxy_def admit_def not_found_def)

text \<open>
  Four calls of the web client that were written by hand miss the API. Three have the
  prefix \<open>/api\<close> twice, of which the proxy removes one, and one names a route that moved; the
  API answers each with 404, whatever token comes with it: the two calls for backup codes,
  the refresh of \<open>PrivateRoute\<close> and \<open>userApi.me\<close>.
\<close>

theorem hand_written_calls_miss:
  "list_all (\<lambda>rq. api_answer verify token rq = Some (Inl not_found))
     [backup_code_api_regenerate, backup_code_api_count, private_route_refresh, user_api_me]"
proof -
  have "list_all (\<lambda>rq. find_route (sr_method rq) (path_segments (drop 4 (sr_url rq))) = None \<and> starts_with (sr_url rq) ''/api'')
     [backup_code_api_regenerate, backup_code_api_count, private_route_refresh, user_api_me]" by code_simp
  then show ?thesis by (simp add: unrouted)
qed

text \<open>The other refreshes arrive.\<close>

lemma refreshes_arrive:
  "api_answer verify token app_shell_refresh = Some (Inr (login_refresh_route, None))"
  "api_answer verify token admin_private_route_refresh = Some (Inr (login_refresh_route, None))"
proof -
  have "find_route POST [''auth'', ''refresh''] = Some login_refresh_route" "ro_public login_refresh_route"
    "uuid_params (ro_path login_refresh_route) [''auth'', ''refresh'']" by code_simp+
  moreover have "sr_url app_shell_refresh = ''/api/auth/refresh''" "sr_url admin_private_route_refresh = ''/api/auth/refresh''"
    "path_segments ''/auth/refresh'' = [''auth'', ''refresh'']" by code_simp+
  ultimately show "api_answer verify token app_shell_refresh = Some (Inr (login_refresh_route, None))"
    "api_answer verify token admin_private_route_refresh = Some (Inr (login_refresh_route, None))"
    by (simp_all add: api_answer_def serve_def api_proxy_def starts_with_def admit_def guards_def jwt_guard_def permission_guard_def
        app_shell_refresh_def admin_private_route_refresh_def hand_call_def)
qed

subsection \<open>\<open>PrivateRoute.tsx\<close>, \<open>AppShell.tsx\<close>\<close>

datatype page = Blank | Redirect string | Children

text \<open>A page load: the store, and whether \<open>PrivateRoute\<close> still checks.\<close>

record load =
  ld_client :: client
  ld_checking :: bool

definition load_start :: "client \<Rightarrow> load" where
  "load_start c = \<lparr>ld_client = c, ld_checking = \<not> truthy (cl_access_token c)\<rparr>"

definition private_route_effect :: "client \<Rightarrow> sdk_request list" where
  "private_route_effect c = (if truthy (cl_access_token c) then [] else [private_route_refresh])"

definition private_route_answered :: "(string \<times> user_dto) option \<Rightarrow> load \<Rightarrow> load" where
  "private_route_answered answer l = (case answer of
     Some (token, user) \<Rightarrow> l\<lparr>ld_client := set_auth token user (ld_client l), ld_checking := False\<rparr>
   | None \<Rightarrow> l\<lparr>ld_checking := False\<rparr>)"

definition private_route :: "load \<Rightarrow> page" where
  "private_route l = (if ld_checking l then Blank
     else if \<not> truthy (cl_access_token (ld_client l)) then Redirect ''/login'' else Children)"

definition AUTH_ENTRY_PATHS :: "string list" where
  "AUTH_ENTRY_PATHS = [''/login'', ''/register'']"

definition app_shell_effect :: "string \<Rightarrow> client \<Rightarrow> sdk_request list" where
  "app_shell_effect path c =
     (if truthy (cl_access_token c) then []
      else if list_ex (starts_with path) AUTH_ENTRY_PATHS then []
      else [app_shell_refresh])"

definition app_shell_answered :: "login_response option \<Rightarrow> load \<Rightarrow> load" where
  "app_shell_answered body l = (case body of
     Some (AUTHENTICATED token user) \<Rightarrow> if token \<noteq> [] then l\<lparr>ld_client := set_auth token user (ld_client l)\<rparr> else l
   | _ \<Rightarrow> l)"

text \<open>
  Reloading a page of the web client: since \<open>PrivateRoute\<close>'s own refresh is never answered
  with a token, the page stays only if the shell's refresh is answered first.
\<close>

lemma reload_needs_the_shell:
  assumes "cl_access_token c = None" and "token \<noteq> []"
  shows "private_route (private_route_answered None (app_shell_answered (Some (AUTHENTICATED token user)) (load_start c))) = Children"
    and "private_route (private_route_answered None (load_start c)) = Redirect ''/login''"
  using assms by (simp_all add: private_route_def private_route_answered_def app_shell_answered_def load_start_def set_auth_def truthy_def)

subsection \<open>\<open>AdminGate.tsx\<close>\<close>

definition ADMIN_ENTRY_PERMISSION :: string where
  "ADMIN_ENTRY_PERMISSION = ''user:manage''"

text \<open>
  The query for the signed-in user: it loads, has failed, or has data, whose \<open>permissions\<close> may
  not be an array (\<open>None\<close>).
\<close>

datatype me_query = Loading | MeError | Me "string list option"

definition gate_denied :: "me_query \<Rightarrow> bool" where
  "gate_denied q \<longleftrightarrow> (case q of
     Loading \<Rightarrow> False
   | MeError \<Rightarrow> True
   | Me None \<Rightarrow> True
   | Me (Some ps) \<Rightarrow> ADMIN_ENTRY_PERMISSION \<notin> set ps)"

definition admin_gate :: "me_query \<Rightarrow> client \<Rightarrow> page \<times> client" where
  "admin_gate q c =
     (if q = Loading then Blank else if gate_denied q then Redirect ''/login?error=not_admin'' else Children,
      if gate_denied q then clear_auth c else c)"

text \<open>\<open>useMeQuery\<close> with the API's answer; \<open>handle\<close> gives the permissions a route's handler answers with.\<close>

definition admin_me_request :: sdk_request where
  "admin_me_request = snd (admin_auth_controller_me_options no_options)"

definition me_answered :: "(route \<times> auth_user option \<Rightarrow> string list option) \<Rightarrow> (fault + (route \<times> auth_user option)) option \<Rightarrow> me_query" where
  "me_answered handle answer = (case answer of Some (Inr x) \<Rightarrow> Me (handle x) | _ \<Rightarrow> MeError)"

text \<open>
  Nobody gets into the admin console with this API. The console asks for its user at
  \<open>/auth/me\<close>, which the API does not have (it is \<open>/user/me\<close> there), so whatever the token and
  its permissions, the answer is 404, and the gate clears the sign-in and sends the
  administrator back to the login.
\<close>

theorem admin_console_locked_out:
  "api_answer verify token admin_me_request = Some (Inl not_found) \<and>
   admin_gate (me_answered handle (api_answer verify token admin_me_request)) c =
     (Redirect ''/login?error=not_admin'', clear_auth c)"
proof -
  have "find_route (sr_method admin_me_request) (path_segments (drop 4 (sr_url admin_me_request))) = None"
    "starts_with (sr_url admin_me_request) ''/api''" by code_simp+
  then have "api_answer verify token admin_me_request = Some (Inl not_found)" by (rule unrouted)
  then show ?thesis by (simp add: admin_gate_def me_answered_def gate_denied_def)
qed

end
