(* ===== verification/ClientCache.thy ===== *)
theory ClientCache
  imports SdkProps
begin

text \<open>
  The cache of the web client's queries: TanStack Query keeps one answer for each key, so a
  key has to determine the request whose answer is kept under it.
\<close>

subsection \<open>Keys\<close>

text \<open>
  Two keys are one to the cache if they are equal as objects: the order of the fields does
  not matter, and fields without a value are left out.
\<close>

definition query_map :: "query \<Rightarrow> string \<rightharpoonup> param" where
  "query_map q = (\<lambda>n. Option.bind (map_of q n) id)"

definition same_key :: "query_key \<Rightarrow> query_key \<Rightarrow> bool" where
  "same_key k l \<longleftrightarrow> qk_id k = qk_id l \<and> co_base_url (qk_options k) = co_base_url (qk_options l) \<and>
     co_body (qk_options k) = co_body (qk_options l) \<and> co_headers (qk_options k) = co_headers (qk_options l) \<and>
     map_option map_of (co_path (qk_options k)) = map_option map_of (co_path (qk_options l)) \<and>
     map_option query_map (co_query (qk_options k)) = map_option query_map (co_query (qk_options l))"

text \<open>Options as a feature passes them: no other base, no body, texts in the path, each query field once.\<close>

definition query_call :: "call_options \<Rightarrow> bool" where
  "query_call opts \<longleftrightarrow> co_base_url opts = None \<and> co_body opts = None \<and>
     list_all (\<lambda>(n, v). case v of Primitive t \<Rightarrow> True | _ \<Rightarrow> False) (nullish (co_path opts) []) \<and>
     distinct (map fst (nullish (co_query opts) [])) \<and> plain_names (nullish (co_query opts) [])"

text \<open>The requests that read the same of the API: the order of a query's fields does not matter to it.\<close>

definition same_request :: "sdk_request \<Rightarrow> sdk_request \<Rightarrow> bool" where
  "same_request x y \<longleftrightarrow> sr_method x = sr_method y \<and> sr_body x = sr_body y \<and>
     takeWhile (\<lambda>c. c \<noteq> CHR ''?'') (sr_url x) = takeWhile (\<lambda>c. c \<noteq> CHR ''?'') (sr_url y) \<and>
     mset (parse_query (sr_url x)) = mset (parse_query (sr_url y))"

definition web_queries :: "(call_options \<Rightarrow> query_key \<times> sdk_request) list" where
  "web_queries = [web_health_controller_check_options, web_user_controller_me_options,
     web_device_controller_list_options, web_trusted_device_controller_list_options,
     web_challenge_controller_get_status_options, web_totp_controller_list_options,
     web_invitation_controller_validate_options, web_folder_controller_get_root_options,
     web_folder_controller_get_children_options, web_file_controller_search_options,
     web_file_download_controller_download_file_options, web_trash_controller_list_options,
     web_drive_controller_get_my_drive_options, web_drive_controller_get_drive_options,
     web_mount_credential_controller_list_options]"

definition web_query_table :: "(string \<times> sdk_call) list" where
  "web_query_table = [(''healthControllerCheck'', web_health_controller_check),
     (''userControllerMe'', web_user_controller_me),
     (''deviceControllerList'', web_device_controller_list),
     (''trustedDeviceControllerList'', web_trusted_device_controller_list),
     (''challengeControllerGetStatus'', web_challenge_controller_get_status),
     (''totpControllerList'', web_totp_controller_list),
     (''invitationControllerValidate'', web_invitation_controller_validate),
     (''folderControllerGetRoot'', web_folder_controller_get_root),
     (''folderControllerGetChildren'', web_folder_controller_get_children),
     (''fileControllerSearch'', web_file_controller_search),
     (''fileDownloadControllerDownloadFile'', web_file_download_controller_download_file),
     (''trashControllerList'', web_trash_controller_list),
     (''driveControllerGetMyDrive'', web_drive_controller_get_my_drive),
     (''driveControllerGetDrive'', web_drive_controller_get_drive),
     (''mountCredentialControllerList'', web_mount_credential_controller_list)]"

lemma web_queries_table: "web_queries = map (\<lambda>(i, c). query_options i c) web_query_table"
  by (simp add: web_queries_def web_query_table_def web_health_controller_check_options_def web_user_controller_me_options_def web_device_controller_list_options_def
    web_trusted_device_controller_list_options_def web_challenge_controller_get_status_options_def web_totp_controller_list_options_def
    web_invitation_controller_validate_options_def web_folder_controller_get_root_options_def web_folder_controller_get_children_options_def
    web_file_controller_search_options_def web_file_download_controller_download_file_options_def web_trash_controller_list_options_def
    web_drive_controller_get_my_drive_options_def web_drive_controller_get_drive_options_def web_mount_credential_controller_list_options_def)

lemma web_query_ids: "distinct (map fst web_query_table)"
  by code_simp

lemma sdk_send_url:
  assumes "query_call opts"
  shows "sr_url (snd (query_options i c opts)) = (let q = query_serializer (nullish (co_query opts) []);
     u = sdk_url c (map_option map_of (co_path opts)) [] in if q \<noteq> [] then u @ ''?'' @ q else u)"
proof -
  have "query_serializer [] = []" by (simp add: query_serializer_def)
  moreover have "spread opts (qk_options (create_query_key i opts)) = opts"
    using assms by (cases opts) (auto simp: spread_def create_query_key_def query_call_def or_else_def truthy_def split: option.split)
  ultimately show ?thesis
    using assms query_serializer_mark [of "nullish (co_query opts) []"]
    by (cases "co_path opts") (simp_all add: query_options_def sdk_send_def sdk_url_def build_url_def get_url_def query_call_def
        truthy_def starts_with_def Let_def)
qed

lemma web_query_urls: "list_all (\<lambda>(i, c). CHR ''?'' \<notin> set (sc_url c)) web_query_table"
  by code_simp

text \<open>A path of texts brings no question mark.\<close>

lemma replace_first_chars: "set (replace_first m t s) \<subseteq> set t \<union> set s"
proof (induction s)
  case (Cons c s)
  then show ?case using set_drop_subset [of "length m" "c # s"] by auto
qed auto

lemma path_params_chars: "n \<in> set (path_params s) \<Longrightarrow> set n \<subseteq> set s"
proof (induction s rule: path_params.induct)
  case (2 c cs)
  show ?case
  proof (cases "if c = CHR ''{'' then brace_name cs else None")
    case None
    then show ?thesis using 2 by auto
  next
    case (Some k)
    then have "set k \<subseteq> set cs" using set_takeWhileD by (fastforce simp: brace_name_def Let_def split: if_splits)
    then show ?thesis using 2 Some set_drop_subset [of "Suc (length k)" cs] by fastforce
  qed
qed simp

lemma match_name_chars: "set (match_name n) \<subseteq> set n"
proof -
  have "set (tl s) \<subseteq> set s" for s :: string by (cases s) auto
  then show ?thesis using in_set_butlastD [of _ n] by (fastforce simp: match_name_def Let_def split: if_splits)
qed

lemma path_url_plain:
  assumes "CHR ''?'' \<notin> set url" and "\<And>n v. path n = Some v \<Longrightarrow> \<exists>t. v = Primitive t"
  shows "CHR ''?'' \<notin> set (default_path_serializer path url)"
proof -
  have "CHR ''?'' \<notin> set (foldl (\<lambda>u m. case path (match_name m) of None \<Rightarrow> u
      | Some v \<Rightarrow> replace_first (''{'' @ m @ ''}'') (param_text m v) u) u ms)"
    if "CHR ''?'' \<notin> set u" "\<forall>m\<in>set ms. CHR ''?'' \<notin> set m" for u ms
    using that
  proof (induction ms arbitrary: u)
    case (Cons m ms)
    have "CHR ''?'' \<notin> set (param_text m v)" if "path (match_name m) = Some v" for v
      using assms(2) [OF that] Cons.prems(2) match_name_chars [of m] encode_chars_free
      by (fastforce simp: param_text_def Let_def serialize_primitive_param_def split: if_splits)
    then have "CHR ''?'' \<notin> set (case path (match_name m) of None \<Rightarrow> u
        | Some v \<Rightarrow> replace_first (''{'' @ m @ ''}'') (param_text m v) u)"
      using Cons.prems(1) replace_first_chars by (fastforce split: option.splits)
    with Cons show ?case by simp
  qed simp
  then show ?thesis using assms(1) path_params_chars unfolding default_path_serializer_def by blast
qed

lemma query_call_url_plain:
  assumes "(i, c) \<in> set web_query_table" and "query_call opts"
  shows "CHR ''?'' \<notin> set (sdk_url c (map_option map_of (co_path opts)) [])"
proof -
  have "CHR ''?'' \<notin> set (''/api'' @ (if starts_with (sc_url c) ''/'' then sc_url c else ''/'' @ sc_url c))"
    using assms(1) web_query_urls by (auto simp: list_all_iff)
  moreover have "\<exists>t. v = Primitive t" if "map_of (nullish (co_path opts) []) n = Some v" for n v
    using assms(2) map_of_SomeD [OF that] by (fastforce simp: query_call_def list_all_iff split: param.splits)
  ultimately have "CHR ''?'' \<notin> set (default_path_serializer (map_of (nullish (co_path opts) []))
      (''/api'' @ (if starts_with (sc_url c) ''/'' then sc_url c else ''/'' @ sc_url c)))"
    "CHR ''?'' \<notin> set (''/api'' @ (if starts_with (sc_url c) ''/'' then sc_url c else ''/'' @ sc_url c))"
    using path_url_plain by blast+
  then show ?thesis
    by (cases "co_path opts")
      (simp_all add: sdk_url_def build_url_def get_url_def truthy_def query_serializer_def starts_with_def Let_def split: if_splits)
qed

lemma query_map_pairs:
  assumes "distinct (map fst p)" and "distinct (map fst q)" and "query_map p = query_map q"
  shows "mset (concat (map query_pairs p)) = mset (concat (map query_pairs q))"
proof -
  have set: "set (filter (\<lambda>x. snd x \<noteq> None) p) = {(n, Some v) | n v. query_map p n = Some v}" if "distinct (map fst p)" for p :: query
    using that by (auto simp: query_map_def bind_eq_Some_conv)
  have drop: "mset (concat (map query_pairs p)) = (\<Sum>x\<in>#mset (filter (\<lambda>x. snd x \<noteq> None) p). mset (query_pairs x))" for p :: query
    by (induction p) (auto simp: query_pairs_def)
  have "mset (filter (\<lambda>x. snd x \<noteq> None) p) = mset (filter (\<lambda>x. snd x \<noteq> None) q)"
    using assms set by (subst set_eq_iff_mset_eq_distinct [symmetric]) (auto simp: distinct_map)
  then show ?thesis by (simp only: drop)
qed

text \<open>
  C37: the cache never answers one request with the answer to another. Whenever two of the
  web client's queries, with whatever options, have one key, they send the same request:
  the same method, URL and body, with the same query up to the order of its fields.
\<close>

theorem query_keys_identify_requests:
  assumes "f \<in> set web_queries" and "g \<in> set web_queries" and "query_call a" and "query_call b"
    and "same_key (fst (f a)) (fst (g b))"
  shows "same_request (snd (f a)) (snd (g b))"
proof -
  obtain i c where f: "(i, c) \<in> set web_query_table" "f = query_options i c"
    using assms(1) unfolding web_queries_table by auto
  obtain j e where g: "(j, e) \<in> set web_query_table" "g = query_options j e"
    using assms(2) unfolding web_queries_table by auto
  have key: "i = j" "map_option map_of (co_path a) = map_option map_of (co_path b)"
    "map_option query_map (co_query a) = map_option query_map (co_query b)"
    using assms(5) by (simp_all add: f g same_key_def query_options_def create_query_key_def Let_def)
  then have "c = e" using f(1) g(1) web_query_ids eq_key_imp_eq_value by fastforce
  let ?u = "sdk_url c (map_option map_of (co_path a)) []"
  let ?p = "nullish (co_query a) []" and ?q = "nullish (co_query b) []"
  have url: "sr_url (snd (f a)) = (if query_serializer ?p \<noteq> [] then ?u @ ''?'' @ query_serializer ?p else ?u)"
    "sr_url (snd (g b)) = (if query_serializer ?q \<noteq> [] then ?u @ ''?'' @ query_serializer ?q else ?u)"
    using sdk_send_url [OF assms(3)] sdk_send_url [OF assms(4)] key(2) \<open>c = e\<close> by (simp_all add: f g Let_def)
  have "query_map ?p = query_map ?q"
    using key(3) by (cases "co_query a"; cases "co_query b") auto
  then have "mset (concat (map query_pairs ?p)) = mset (concat (map query_pairs ?q))"
    using assms(3,4) by (intro query_map_pairs) (simp_all add: query_call_def)
  moreover have mark: "CHR ''?'' \<notin> set ?u" using query_call_url_plain f(1) assms(3) by blast
  ultimately have "mset (parse_query (sr_url (snd (f a)))) = mset (parse_query (sr_url (snd (g b))))"
    using parse_query_serializer [OF _ mark] assms(3,4) by (simp add: url query_call_def)
  moreover have "takeWhile (\<lambda>c. c \<noteq> CHR ''?'') (sr_url (snd (f a))) = takeWhile (\<lambda>c. c \<noteq> CHR ''?'') (sr_url (snd (g b)))"
    using mark by (simp add: url until_char)
  moreover have "sr_method (snd (f a)) = sr_method (snd (g b))" "sr_body (snd (f a)) = sr_body (snd (g b))"
    using assms(3,4) \<open>c = e\<close>
    by (simp_all add: f g query_options_def sdk_send_def spread_def create_query_key_def query_call_def or_else_def truthy_def Let_def)
  ultimately show ?thesis unfolding same_request_def by blast
qed

lemma query_keys_identify_requests_witness:
  "same_request
     (snd (web_file_controller_search_options (no_options\<lparr>co_query := Some [(''q'', Some (Primitive ''a&b'')), (''scope'', Some (Primitive ''all''))]\<rparr>)))
     (snd (web_file_controller_search_options (no_options\<lparr>co_query :=
       Some [(''folderId'', None), (''scope'', Some (Primitive ''all'')), (''q'', Some (Primitive ''a&b''))]\<rparr>)))"
proof (rule query_keys_identify_requests)
  show "web_file_controller_search_options \<in> set web_queries" by (simp add: web_queries_def)
  then show "web_file_controller_search_options \<in> set web_queries" .
  have names: "plain_name ''q''" "plain_name ''scope''" "plain_name ''folderId''"
    by (simp_all add: plain_name_def unreserved_chars_def)
  show "query_call (no_options\<lparr>co_query := Some [(''q'', Some (Primitive ''a&b'')), (''scope'', Some (Primitive ''all''))]\<rparr>)"
    "query_call (no_options\<lparr>co_query := Some [(''folderId'', None), (''scope'', Some (Primitive ''all'')), (''q'', Some (Primitive ''a&b''))]\<rparr>)"
    using names by (simp_all add: query_call_def no_options_def plain_names_def)
  show "same_key (fst (web_file_controller_search_options (no_options\<lparr>co_query := Some [(''q'', Some (Primitive ''a&b'')), (''scope'', Some (Primitive ''all''))]\<rparr>)))
     (fst (web_file_controller_search_options (no_options\<lparr>co_query :=
       Some [(''folderId'', None), (''scope'', Some (Primitive ''all'')), (''q'', Some (Primitive ''a&b''))]\<rparr>)))"
    by (simp add: same_key_def web_file_controller_search_options_def query_options_def create_query_key_def no_options_def Let_def
        query_map_def fun_eq_iff)
qed

subsection \<open>Mutations\<close>

definition web_mutations :: "(call_options \<Rightarrow> call_options \<Rightarrow> sdk_request) list" where
  "web_mutations = [web_device_controller_register_mutation, web_device_controller_remove_mutation,
     web_trusted_device_controller_register_mutation, web_trusted_device_controller_revoke_mutation,
     web_challenge_controller_respond_mutation, web_challenge_controller_resend_mutation,
     web_challenge_controller_complete_mutation, web_totp_controller_start_setup_mutation,
     web_totp_controller_complete_setup_mutation, web_totp_controller_revoke_mutation,
     web_backup_code_controller_regenerate_mutation, web_invitation_controller_create_mutation,
     web_invitation_controller_deactivate_mutation, web_login_controller_register_mutation,
     web_login_controller_login_mutation, web_login_controller_login_with_backup_mutation,
     web_login_controller_refresh_mutation, web_login_controller_logout_mutation,
     web_folder_controller_create_mutation, web_folder_controller_remove_mutation,
     web_folder_controller_rename_mutation, web_folder_controller_move_mutation,
     web_file_controller_remove_mutation, web_file_controller_rename_mutation,
     web_file_controller_move_mutation, web_file_controller_copy_mutation,
     web_file_download_controller_download_zip_mutation, web_file_upload_controller_init_mutation,
     web_file_upload_controller_complete_mutation, web_trash_controller_restore_mutation,
     web_trash_controller_permanent_delete_mutation, web_mount_credential_controller_issue_mutation,
     web_mount_credential_controller_revoke_mutation]"

definition web_mutation_calls :: "sdk_call list" where
  "web_mutation_calls = [web_device_controller_register, web_device_controller_remove,
     web_trusted_device_controller_register, web_trusted_device_controller_revoke,
     web_challenge_controller_respond, web_challenge_controller_resend, web_challenge_controller_complete,
     web_totp_controller_start_setup, web_totp_controller_complete_setup, web_totp_controller_revoke,
     web_backup_code_controller_regenerate, web_invitation_controller_create,
     web_invitation_controller_deactivate, web_login_controller_register, web_login_controller_login,
     web_login_controller_login_with_backup, web_login_controller_refresh, web_login_controller_logout,
     web_folder_controller_create, web_folder_controller_remove, web_folder_controller_rename,
     web_folder_controller_move, web_file_controller_remove, web_file_controller_rename,
     web_file_controller_move, web_file_controller_copy, web_file_download_controller_download_zip,
     web_file_upload_controller_init, web_file_upload_controller_complete, web_trash_controller_restore,
     web_trash_controller_permanent_delete, web_mount_credential_controller_issue,
     web_mount_credential_controller_revoke]"

lemma web_mutations_calls: "web_mutations = map mutation_options web_mutation_calls"
  by (simp add: web_mutations_def web_mutation_calls_def web_device_controller_register_mutation_def web_device_controller_remove_mutation_def
    web_trusted_device_controller_register_mutation_def web_trusted_device_controller_revoke_mutation_def
    web_challenge_controller_respond_mutation_def web_challenge_controller_resend_mutation_def
    web_challenge_controller_complete_mutation_def web_totp_controller_start_setup_mutation_def
    web_totp_controller_complete_setup_mutation_def web_totp_controller_revoke_mutation_def
    web_backup_code_controller_regenerate_mutation_def web_invitation_controller_create_mutation_def
    web_invitation_controller_deactivate_mutation_def web_login_controller_register_mutation_def
    web_login_controller_login_mutation_def web_login_controller_login_with_backup_mutation_def
    web_login_controller_refresh_mutation_def web_login_controller_logout_mutation_def
    web_folder_controller_create_mutation_def web_folder_controller_remove_mutation_def
    web_folder_controller_rename_mutation_def web_folder_controller_move_mutation_def
    web_file_controller_remove_mutation_def web_file_controller_rename_mutation_def
    web_file_controller_move_mutation_def web_file_controller_copy_mutation_def
    web_file_download_controller_download_zip_mutation_def web_file_upload_controller_init_mutation_def
    web_file_upload_controller_complete_mutation_def web_trash_controller_restore_mutation_def
    web_trash_controller_permanent_delete_mutation_def web_mount_credential_controller_issue_mutation_def
    web_mount_credential_controller_revoke_mutation_def)

text \<open>Each call of the client is behind one query or one mutation.\<close>

lemma queries_and_mutations: "set (map snd web_query_table) \<union> set web_mutation_calls = set web_calls"
  by (simp add: web_query_table_def web_mutation_calls_def web_calls_def insert_commute)

end
