(* ===== verification/ClientListing.thy ===== *)
theory ClientListing
  imports ClientCache DriveOps
begin

text \<open>
  The drive's pages of the web client and the API's database: which cached listings a
  mutation of \<open>features/*/api/mutation.ts\<close> invalidates, and what the others show afterwards.
\<close>

subsection \<open>Listings\<close>

text \<open>
  The listings the drive's pages show, the \<open>_id\<close> of their queries, and what the API reads
  from its tables for them (its own cache of listings aside).
\<close>

datatype view = RootListing | FolderListing uuid | TrashListing

definition view_id :: "view \<Rightarrow> string" where
  "view_id v = (case v of RootListing \<Rightarrow> ''folderControllerGetRoot''
     | FolderListing _ \<Rightarrow> ''folderControllerGetChildren'' | TrashListing \<Rightarrow> ''trashControllerList'')"

datatype answer = Listing "folder_row list \<times> file_row list" | TrashItems "trash_item list" | Refused fault

definition listing_of :: "fault + folder_row list \<times> file_row list \<Rightarrow> answer" where
  "listing_of r = (case r of Inl e \<Rightarrow> Refused e | Inr l \<Rightarrow> Listing l)"

definition view_answer :: "uuid \<Rightarrow> view \<Rightarrow> world \<Rightarrow> answer" where
  "view_answer u v w = (case v of
     RootListing \<Rightarrow> listing_of (fst (andThen (folder_find_root_children u) (\<lambda>fs.
       andThen (folder_find_root_files u) (\<lambda>gs. ret (fs, gs))) w))
   | FolderListing f \<Rightarrow> listing_of (fst (andThen (folder_find_by_id_and_user f u) (\<lambda>found. case found of
       None \<Rightarrow> throw FOLDER_NOT_FOUND
     | Some _ \<Rightarrow> andThen (folder_find_children f u) (\<lambda>fs.
         andThen (folder_find_files_by_folder f u) (\<lambda>gs. ret (fs, gs)))) w))
   | TrashListing \<Rightarrow> (case fst (trash_list u w) of Inl e \<Rightarrow> Refused e | Inr is \<Rightarrow> TrashItems is))"

subsection \<open>Mutations\<close>

text \<open>The identifiers whose queries a mutation's \<open>onSuccess\<close> invalidates, wherever their other fields point.\<close>

definition folder_create_on_success :: "string list" where
  "folder_create_on_success = [''folderControllerGetRoot'', ''folderControllerGetChildren'']"

definition folder_rename_on_success :: "string list" where
  "folder_rename_on_success = [''folderControllerGetRoot'', ''folderControllerGetChildren'']"

definition folder_move_on_success :: "string list" where
  "folder_move_on_success = [''folderControllerGetRoot'', ''folderControllerGetChildren'']"

definition folder_delete_on_success :: "string list" where
  "folder_delete_on_success = [''folderControllerGetRoot'', ''folderControllerGetChildren'']"

definition trash_restore_on_success :: "string list" where
  "trash_restore_on_success = [''trashControllerList'', ''folderControllerGetRoot'', ''folderControllerGetChildren'']"

definition trash_purge_on_success :: "string list" where
  "trash_purge_on_success = [''trashControllerList'']"

datatype drive_mutation = CreateFolder string "uuid option" | RenameFolder uuid string | MoveFolder uuid "uuid option"
  | DeleteFolder uuid | RestoreItem uuid trash_type | PurgeItem uuid trash_type

definition on_success :: "drive_mutation \<Rightarrow> string list" where
  "on_success m = (case m of
     CreateFolder _ _ \<Rightarrow> folder_create_on_success
   | RenameFolder _ _ \<Rightarrow> folder_rename_on_success
   | MoveFolder _ _ \<Rightarrow> folder_move_on_success
   | DeleteFolder _ \<Rightarrow> folder_delete_on_success
   | RestoreItem _ _ \<Rightarrow> trash_restore_on_success
   | PurgeItem _ _ \<Rightarrow> trash_purge_on_success)"

text \<open>The API's handler for a mutation of the user \<open>u\<close>, its answer left out.\<close>

definition run_mutation :: "host \<Rightarrow> uuid \<Rightarrow> drive_mutation \<Rightarrow> world \<Rightarrow> world" where
  "run_mutation H u m w = (case m of
     CreateFolder name p \<Rightarrow> snd (folder_create H u name p w)
   | RenameFolder f name \<Rightarrow> snd (folder_rename H u f name w)
   | MoveFolder f p \<Rightarrow> snd (folder_move H u f p w)
   | DeleteFolder f \<Rightarrow> snd (folder_remove H u f w)
   | RestoreItem i t \<Rightarrow> snd (trash_restore u i t w)
   | PurgeItem i t \<Rightarrow> snd (trash_permanent_delete H u i t w))"

subsection \<open>What a listing reads\<close>

definition live_rows :: "uuid \<Rightarrow> database \<Rightarrow> folder_row list \<times> file_row list" where
  "live_rows u d = (filter (\<lambda>r. fo_user_id r = u \<and> fo_soft_deleted_at r = None) (folders d),
     filter (\<lambda>r. fi_user_id r = u \<and> fi_soft_deleted_at r = None) (files d))"

definition dead_rows :: "database \<Rightarrow> (uuid option \<Rightarrow> millis option) \<times> folder_row list \<times> file_row list" where
  "dead_rows d = (deleted_at_of (folders d), filter (\<lambda>r. fo_soft_deleted_at r \<noteq> None) (folders d), files d)"

lemma find_filter: "find P xs = (case filter P xs of [] \<Rightarrow> None | x # _ \<Rightarrow> Some x)"
  by (induction xs) auto

lemma filter_same: "filter Q xs = filter Q ys \<Longrightarrow> (\<And>x. P x \<Longrightarrow> Q x) \<Longrightarrow> filter P xs = filter P ys"
proof -
  assume same: "filter Q xs = filter Q ys" and imp: "\<And>x. P x \<Longrightarrow> Q x"
  have "filter P zs = filter P (filter Q zs)" for zs using imp by (induction zs) auto
  with same show "filter P xs = filter P ys" by metis
qed

lemma view_answer_root:
  "view_answer u RootListing w = Listing
     (filter (\<lambda>r. fo_user_id r = u \<and> fo_parent_id r = None \<and> fo_soft_deleted_at r = None) (folders (db w)),
      filter (\<lambda>r. fi_user_id r = u \<and> fi_folder_id r = None \<and> fi_soft_deleted_at r = None) (files (db w)))"
  by (simp add: view_answer_def listing_of_def svc andThen_def folder_find_root_children_def folder_find_root_files_def)

lemma view_answer_folder:
  "view_answer u (FolderListing f) w = (if find (live_folder f u) (folders (db w)) = None
     then Refused (ApiException FOLDER_NOT_FOUND)
     else Listing
       (filter (\<lambda>r. fo_user_id r = u \<and> fo_parent_id r = Some f \<and> fo_soft_deleted_at r = None) (folders (db w)),
        filter (\<lambda>r. fi_user_id r = u \<and> fi_folder_id r = Some f \<and> fi_soft_deleted_at r = None) (files (db w))))"
  by (auto simp: view_answer_def listing_of_def svc andThen_def folder_find_by_id_and_user_def folder_find_children_def
      folder_find_files_by_folder_def split: option.split)

lemma live_view:
  assumes "live_rows u (db w) = live_rows u (db w')" and "v \<noteq> TrashListing"
  shows "view_answer u v w = view_answer u v w'"
proof -
  have live: "filter (\<lambda>r. fo_user_id r = u \<and> fo_soft_deleted_at r = None) (folders (db w)) =
      filter (\<lambda>r. fo_user_id r = u \<and> fo_soft_deleted_at r = None) (folders (db w'))"
    "filter (\<lambda>r. fi_user_id r = u \<and> fi_soft_deleted_at r = None) (files (db w)) =
      filter (\<lambda>r. fi_user_id r = u \<and> fi_soft_deleted_at r = None) (files (db w'))"
    using assms(1) by (simp_all add: live_rows_def)
  have folders: "filter P (folders (db w)) = filter P (folders (db w'))"
    if "\<And>r. P r \<Longrightarrow> fo_user_id r = u \<and> fo_soft_deleted_at r = None" for P
    by (rule filter_same [OF live(1)]) (rule that)
  have files: "filter P (files (db w)) = filter P (files (db w'))"
    if "\<And>r. P r \<Longrightarrow> fi_user_id r = u \<and> fi_soft_deleted_at r = None" for P
    by (rule filter_same [OF live(2)]) (rule that)
  have found: "find (live_folder f u) (folders (db w)) = find (live_folder f u) (folders (db w'))" for f
    unfolding find_filter by (subst folders) (simp_all add: live_folder_def)
  show ?thesis
  proof (cases v)
    case RootListing
    show ?thesis unfolding RootListing view_answer_root by (subst folders; (subst files)?) simp_all
  next
    case (FolderListing f)
    show ?thesis unfolding FolderListing view_answer_folder found by (subst folders; (subst files)?) simp_all
  qed (use assms(2) in simp)
qed

lemma dead_view:
  assumes "dead_rows (db w) = dead_rows (db w')"
  shows "view_answer u TrashListing w = view_answer u TrashListing w'"
proof -
  have dead: "deleted_at_of (folders (db w)) = deleted_at_of (folders (db w'))"
    "filter (\<lambda>r. fo_soft_deleted_at r \<noteq> None) (folders (db w)) = filter (\<lambda>r. fo_soft_deleted_at r \<noteq> None) (folders (db w'))"
    "files (db w) = files (db w')"
    using assms by (simp_all add: dead_rows_def)
  have "filter (\<lambda>f. fo_user_id f = u \<and> fo_soft_deleted_at f \<noteq> None \<and> Q f) (folders (db w)) =
      filter (\<lambda>f. fo_user_id f = u \<and> fo_soft_deleted_at f \<noteq> None \<and> Q f) (folders (db w'))" for Q
    by (rule filter_same [OF dead(2)]) simp
  then have "trash_find_all_deleted u w = (fst (trash_find_all_deleted u w'), w)"
    by (simp only: trash_find_all_deleted_def svc dead(1,3) Let_def fst_conv)
  then show ?thesis by (simp add: view_answer_def trash_list_def)
qed

subsection \<open>What a mutation leaves\<close>

lemma deleted_at_of_append: "fo_soft_deleted_at r = None \<Longrightarrow> deleted_at_of (rs @ [r]) = deleted_at_of rs"
  by (rule ext) (induction rs; simp add: deleted_at_of_def)

lemma deleted_at_of_update:
  "(\<And>r. fo_id (g r) = fo_id r \<and> fo_soft_deleted_at (g r) = fo_soft_deleted_at r) \<Longrightarrow>
     deleted_at_of (update_where P g rs) = deleted_at_of rs"
  by (rule ext) (induction rs; simp add: deleted_at_of_def update_where_def)

lemma dead_rows_insert:
  "fo_soft_deleted_at row = None \<Longrightarrow> dead_rows (d\<lparr>folders := folders d @ [row]\<rparr>) = dead_rows d"
  by (simp add: dead_rows_def deleted_at_of_append)

lemma dead_rows_update:
  assumes "\<And>r. fo_id (g r) = fo_id r \<and> fo_soft_deleted_at (g r) = fo_soft_deleted_at r"
  shows "dead_rows (d\<lparr>folders := update_where (live_folder f u) g (folders d)\<rparr>) = dead_rows d"
proof -
  have "filter (\<lambda>r. fo_soft_deleted_at r \<noteq> None) (update_where (live_folder f u) g rs) = filter (\<lambda>r. fo_soft_deleted_at r \<noteq> None) rs" for rs
    using assms by (induction rs) (auto simp: update_where_def live_folder_def)
  then show ?thesis using deleted_at_of_update [OF assms] by (simp add: dead_rows_def)
qed

lemma keeps_dead:
  "keeps (\<lambda>d. dead_rows d = x) (folder_create H u name p)"
  "keeps (\<lambda>d. dead_rows d = x) (folder_rename H u f name)"
  "keeps (\<lambda>d. dead_rows d = x) (folder_move H u f p)"
  by (auto simp: folder_create_def folder_insert_def folder_get_depth_def or_never_def folder_rename_def folder_repo_rename_def
      folder_move_def folder_repo_move_def folder_is_descendant_def folder_find_by_id_and_user_def Let_def
      dead_rows_insert dead_rows_update
      intro!: keeps_intro keeps_statement split: option.split)

text \<open>
  The trash page offers only what the trash lists; \<open>only_trash\<close> says that nothing live goes
  with it: no file of that identifier, or no folder and no file in the folder's subtree.
\<close>

definition only_trash :: "uuid \<Rightarrow> drive_mutation \<Rightarrow> database \<Rightarrow> bool" where
  "only_trash u m d = (case m of
     PurgeItem i TrashFile \<Rightarrow> list_all (\<lambda>r. fi_id r = i \<longrightarrow> fi_soft_deleted_at r \<noteq> None) (files d)
   | PurgeItem i TrashFolder \<Rightarrow> (case subtree (folders d) (subtree_root (folders d) i u) of
         None \<Rightarrow> True
       | Some is \<Rightarrow> list_all (\<lambda>r. fo_id r \<in> set is \<longrightarrow> fo_soft_deleted_at r \<noteq> None) (folders d) \<and>
           list_all (\<lambda>r. in_folders is (fi_folder_id r) \<longrightarrow> fi_soft_deleted_at r \<noteq> None) (files d))
   | _ \<Rightarrow> True)"

lemma filter_delete_other:
  "list_all (\<lambda>r. Q r \<longrightarrow> \<not> P r) xs \<Longrightarrow> filter P (delete_where Q xs) = filter P xs"
  by (induction xs) (auto simp: delete_where_def)

lemma live_rows_delete_files:
  assumes "list_all (\<lambda>r. Q r \<longrightarrow> fi_soft_deleted_at r \<noteq> None) (files d)"
  shows "live_rows x (d\<lparr>files := delete_where Q (files d)\<rparr>) = live_rows x d"
proof -
  have "filter (\<lambda>r. fi_user_id r = x \<and> fi_soft_deleted_at r = None) (delete_where Q (files d)) =
      filter (\<lambda>r. fi_user_id r = x \<and> fi_soft_deleted_at r = None) (files d)"
    by (rule filter_delete_other) (use assms in \<open>auto simp: list_all_iff\<close>)
  then show ?thesis by (simp add: live_rows_def)
qed

lemma live_rows_delete_tree:
  assumes "list_all (\<lambda>r. Q r \<longrightarrow> fi_soft_deleted_at r \<noteq> None) (files d)"
    and "list_all (\<lambda>r. P r \<longrightarrow> fo_soft_deleted_at r \<noteq> None) (folders d)"
  shows "live_rows x (d\<lparr>files := delete_where Q (files d), folders := delete_where P (folders d), upload_sessions := ss\<rparr>) = live_rows x d"
proof -
  have "filter (\<lambda>r. fo_user_id r = x \<and> fo_soft_deleted_at r = None) (delete_where P (folders d)) =
      filter (\<lambda>r. fo_user_id r = x \<and> fo_soft_deleted_at r = None) (folders d)"
    by (rule filter_delete_other) (use assms(2) in \<open>auto simp: list_all_iff\<close>)
  then show ?thesis using live_rows_delete_files [OF assms(1), of x] by (simp add: live_rows_def)
qed

lemma purge_leaves_live:
  assumes "only_trash u (PurgeItem i t) (db w)"
  shows "live_rows x (db (snd (trash_permanent_delete H u i t w))) = live_rows x (db w)"
proof -
  let ?P = "\<lambda>w'. live_rows x (db w') = live_rows x (db w)"
  have rest: "keeps (\<lambda>d. live_rows x d = live_rows x (db w)) m \<Longrightarrow> ?P v \<Longrightarrow> wp m (\<lambda>_. ?P) v" for m :: "unit svc" and v
    using keepsD [of "\<lambda>d. live_rows x d = live_rows x (db w)" m v] by (simp add: wp_snd)
  have "wp (trash_permanent_delete H u i t) (\<lambda>_. ?P) w"
  proof (cases t)
    case TrashFile
    then have dead: "list_all (\<lambda>r. fi_id r = i \<and> fi_user_id r = u \<longrightarrow> fi_soft_deleted_at r \<noteq> None) (files (db w))"
      using assms by (auto simp: only_trash_def list_all_iff)
    have "wp (trash_permanent_delete_file i u) (\<lambda>_. ?P) w"
      using live_rows_delete_files [OF dead] by (simp add: trash_permanent_delete_file_def wp)
    then have "wp (andThen (trash_permanent_delete_file i u) (\<lambda>minioKey.
             if \<not> truthy minioKey then throw FILE_NOT_FOUND
             else minio_remove_object H (the minioKey))) (\<lambda>_. ?P) w"
      by (rule wp_inv_first) (rule rest, intro keeps_intro)
    with TrashFile show ?thesis
      unfolding trash_permanent_delete_def trash_is_parent_in_trash_def wp_then by (simp add: wp_if wp_primitive)
  next
    case TrashFolder
    have "wp (trash_permanent_delete_folder_tree i u) (\<lambda>_. ?P) w"
      using assms TrashFolder live_rows_delete_tree
      by (auto simp: trash_permanent_delete_folder_tree_def user_subtree_def or_never_def wp only_trash_def split: option.split)
    then have "wp (andThen (trash_permanent_delete_folder_tree i u) (\<lambda>minioKeys.
             if length minioKeys > 0 then minio_remove_objects H minioKeys else ret ())) (\<lambda>_. ?P) w"
      by (rule wp_inv_first) (rule rest, intro keeps_intro)
    with TrashFolder show ?thesis
      unfolding trash_permanent_delete_def trash_is_parent_in_trash_def wp_then
      by (simp add: wp_if wp_primitive trash_find_deleted_folder_def wp_then wp_case_option split: option.split)
  qed
  then show ?thesis by (simp add: wp_snd)
qed


definition demo_trashed :: folder_row where
  "demo_trashed = \<lparr>fo_id = ''f'', fo_user_id = ''ada'', fo_parent_id = None, fo_name = ''f'', fo_soft_deleted_at = Some 1,
     fo_created_at = 0, fo_updated_at = 0\<rparr>"


text \<open>
  The deletion of a folder is the exception: it leaves the query of the trash valid, and the
  trash has a new item.
\<close>

lemma deletion_leaves_trash_cached:
  "view_id TrashListing \<notin> set (on_success (DeleteFolder ''f'')) \<and>
   view_answer ''ada'' TrashListing (run_mutation demo_host ''ada'' (DeleteFolder ''f'')
     (demo_world (empty_db\<lparr>users := [demo_user], folders := [demo_trashed\<lparr>fo_soft_deleted_at := None\<rparr>]\<rparr>))) \<noteq>
   view_answer ''ada'' TrashListing (demo_world (empty_db\<lparr>users := [demo_user], folders := [demo_trashed\<lparr>fo_soft_deleted_at := None\<rparr>]\<rparr>))"
proof -
  let ?w = "demo_world (empty_db\<lparr>users := [demo_user], folders := [demo_trashed\<lparr>fo_soft_deleted_at := None\<rparr>]\<rparr>)"
  have "wp (folder_remove demo_host ''ada'' ''f'') (\<lambda>_ w'. folders (db w') = [demo_trashed\<lparr>fo_soft_deleted_at := Some 0\<rparr>] \<and> files (db w') = []) ?w"
    by (simp add: folder_remove_def folder_soft_delete_cascade_def user_subtree_def or_never_def wp invalidate_listing_def
        demo_trashed_def live_folder_def subtree_root_def subtree.simps [of _ "[]"] subtree.simps [of _ "[''f'']"] children_of_def
        mark_folders_def mark_files_def update_where_def)
  moreover define v where "v = run_mutation demo_host ''ada'' (DeleteFolder ''f'') ?w"
  ultimately have after: "folders (db v) = [demo_trashed\<lparr>fo_soft_deleted_at := Some 0\<rparr>]" "files (db v) = []"
    by (simp_all add: run_mutation_def wp_snd)
  have "view_answer ''ada'' TrashListing v \<noteq> view_answer ''ada'' TrashListing ?w"
    by (simp add: view_answer_def trash_list_def trash_find_all_deleted_def svc after demo_trashed_def Let_def)
  then show ?thesis by (simp add: v_def on_success_def folder_delete_on_success_def view_id_def)
qed

end
