(* ===== verification/ClientViews.thy ===== *)
theory ClientViews
  imports ClientTwoFa ClientAuth Trash
begin

text \<open>
  The state that the web client's features keep for themselves: signing in and out and the
  device's push token, the page that answers a challenge, the issue of a mount credential,
  the breadcrumb trail, the back button, the preview of a file and the search field.
\<close>

subsection \<open>Signing in and out, \<open>usePushNotification.ts\<close>\<close>

text \<open>
  The application: the store, the push token that \<open>pushToken.ts\<close> keeps for the sign-out, and
  \<open>pendingTokenRef\<close>, the token that waits for a sign-in.
\<close>

record app =
  ap_client :: client
  ap_push_token :: "string option"
  ap_pending :: "string option"

datatype app_out = RegisterDevice string | Logout "string option" | GoTo string | ShowBackupCodes "string list"

definition set_push_token :: "string \<Rightarrow> app \<Rightarrow> app" where
  "set_push_token token a = a\<lparr>ap_push_token := Some token\<rparr>"

definition clear_push_token :: "app \<Rightarrow> app" where
  "clear_push_token a = a\<lparr>ap_push_token := None\<rparr>"

text \<open>The effect that runs when the access token changes.\<close>

definition access_token_effect :: "app \<Rightarrow> app \<times> app_out list" where
  "access_token_effect a =
     (if \<not> truthy (cl_access_token (ap_client a)) \<or> \<not> truthy (ap_pending a) then (a, [])
      else (a\<lparr>ap_pending := None\<rparr>, [RegisterDevice (the (ap_pending a))]))"

definition push_registered :: "string \<Rightarrow> app \<Rightarrow> app \<times> app_out list" where
  "push_registered token a =
     (let a' = set_push_token token a in
      if truthy (cl_access_token (ap_client a)) then (a', [RegisterDevice token])
      else (a'\<lparr>ap_pending := Some token\<rparr>, []))"

definition push_opened :: "payload \<Rightarrow> app_out list" where
  "push_opened data = (case resolve_deep_link data of None \<Rightarrow> [] | Some target \<Rightarrow> if target \<noteq> [] then [GoTo target] else [])"

definition signed_in_as :: "string \<Rightarrow> user_dto \<Rightarrow> app \<Rightarrow> app" where
  "signed_in_as token user a = a\<lparr>ap_client := set_auth token user (ap_client a)\<rparr>"

definition login_succeeded :: "login_response \<Rightarrow> app \<Rightarrow> app \<times> app_out list" where
  "login_succeeded data a = (case data of
     AUTHENTICATED token user \<Rightarrow> (signed_in_as token user a, [GoTo ''/drive''])
   | TWOFA_REQUIRED cid _ _ \<Rightarrow> (a, [GoTo (''/login/2fa?id='' @ cid)]))"

definition backup_login_succeeded :: "login_response \<Rightarrow> app \<Rightarrow> app \<times> app_out list" where
  "backup_login_succeeded data a = (case data of
     AUTHENTICATED token user \<Rightarrow> (signed_in_as token user a, [GoTo ''/drive''])
   | TWOFA_REQUIRED _ _ _ \<Rightarrow> (a, []))"

definition register_succeeded :: "register_response \<Rightarrow> app \<Rightarrow> app \<times> app_out list" where
  "register_succeeded data a = (signed_in_as (rgr_access_token data) (rgr_user data) a, [ShowBackupCodes (rgr_backup_codes data)])"

definition logout_body :: "bool \<Rightarrow> app \<Rightarrow> string option" where
  "logout_body isNativePlatform a = (if isNativePlatform then ap_push_token a else None)"

definition logout_settled :: "app \<Rightarrow> app \<times> app_out list" where
  "logout_settled a = ((clear_push_token a)\<lparr>ap_client := clear_auth (ap_client a)\<rparr>, [GoTo ''/login''])"

definition parse_api_error :: "(string option \<times> string option) option \<Rightarrow> string \<times> string \<Rightarrow> string \<times> string" where
  "parse_api_error data fallback = (case data of
     None \<Rightarrow> fallback
   | Some (code, message) \<Rightarrow> (nullish code (fst fallback), nullish message (snd fallback)))"

text \<open>The native application at work, a render after each event.\<close>

datatype app_event = PushRegistered string | LoggedIn login_response | LoggedOut

definition app_step :: "app_event \<Rightarrow> app \<Rightarrow> app \<times> app_out list" where
  "app_step e a =
     (case (case e of
          PushRegistered token \<Rightarrow> push_registered token a
        | LoggedIn data \<Rightarrow> login_succeeded data a
        | LoggedOut \<Rightarrow> (case logout_settled a of (a', out) \<Rightarrow> (a', Logout (logout_body True a) # out))) of
        (a1, out1) \<Rightarrow> (case access_token_effect a1 of (a2, out2) \<Rightarrow> (a2, out1 @ out2)))"

fun app_run :: "app_event list \<Rightarrow> app \<Rightarrow> app \<times> app_out list" where
  "app_run [] a = (a, [])"
| "app_run (e # es) a = (case app_step e a of (a', out) \<Rightarrow> (case app_run es a' of (a'', out') \<Rightarrow> (a'', out @ out')))"

definition app_start :: app where
  "app_start = \<lparr>ap_client = client_start, ap_push_token = None, ap_pending = None\<rparr>"

definition app_inv :: "app \<Rightarrow> bool" where
  "app_inv a \<longleftrightarrow> \<not> (truthy (cl_access_token (ap_client a)) \<and> truthy (ap_pending a))"

lemmas app_defs = app_step_def push_registered_def login_succeeded_def logout_settled_def access_token_effect_def
  set_push_token_def clear_push_token_def signed_in_as_def set_auth_def clear_auth_def truthy_def Let_def

lemma app_step_inv: "app_inv (fst (app_step e a))"
  by (cases e; cases "ap_pending a"; cases "cl_access_token (ap_client a)")
    (auto simp: app_inv_def app_defs split: login_response.split)

interpretation app: event_run app_step app_run app_inv
  by unfold_locales (simp_all add: app_step_inv)

text \<open>A token that the device hands out is sent to the API at once or waits, until a sign-in sends it.\<close>

lemma push_token_waits:
  "token \<noteq> [] \<Longrightarrow> case app_step (PushRegistered token) a of (a', out) \<Rightarrow> RegisterDevice token \<in> set out \<or> ap_pending a' = Some token"
  by (auto simp: app_defs)

lemma push_token_sent:
  "ap_pending a = Some token \<Longrightarrow> token \<noteq> [] \<Longrightarrow> app_inv a \<Longrightarrow> \<forall>t. e \<noteq> PushRegistered t \<Longrightarrow>
     case app_step e a of (a', out) \<Rightarrow>
       (if truthy (cl_access_token (ap_client a')) then RegisterDevice token \<in> set out \<and> ap_pending a' = None
        else ap_pending a' = Some token)"
  by (cases e) (auto simp: app_defs app_inv_def split: login_response.split)

definition no_token :: "app \<Rightarrow> bool" where
  "no_token a \<longleftrightarrow> \<not> truthy (ap_pending a) \<and> ap_push_token a = None"

lemma no_token_step:
  "\<not> truthy (ap_pending a) \<Longrightarrow> ap_push_token a = None \<or> e = LoggedOut \<Longrightarrow> \<forall>t. e \<noteq> PushRegistered t \<Longrightarrow>
     case app_step e a of (a', out) \<Rightarrow> no_token a' \<and> (\<forall>t. RegisterDevice t \<notin> set out)"
  by (cases e) (auto simp: no_token_def app_defs split: login_response.split)

lemma no_token_logout: "no_token a \<Longrightarrow> Logout (Some t) \<notin> set (snd (app_step e a))"
  by (cases e) (auto simp: no_token_def logout_body_def app_defs split: login_response.split)

lemma no_token_run:
  "no_token a \<Longrightarrow> \<forall>t. PushRegistered t \<notin> set es \<Longrightarrow>
     RegisterDevice t \<notin> set (snd (app_run es a)) \<and> Logout (Some t) \<notin> set (snd (app_run es a))"
proof (induction es arbitrary: a)
  case (Cons e es)
  obtain a' out where step: "app_step e a = (a', out)" by fastforce
  have e: "\<forall>t. e \<noteq> PushRegistered t" using Cons.prems(2) by auto
  have "no_token a'" "RegisterDevice t \<notin> set out"
    using no_token_step [OF _ _ e, of a] Cons.prems(1) step by (auto simp: no_token_def)
  moreover have "Logout (Some t) \<notin> set out" using no_token_logout [OF Cons.prems(1), of t e] step by simp
  ultimately show ?case using Cons.IH [of a'] Cons.prems(2) step by (auto split: prod.split)
qed simp



subsection \<open>\<open>useTwoFactorRespond.ts\<close>, \<open>useInvitationValidation.ts\<close>\<close>

datatype respond_status = RLoading | Selecting | RDone | RExpired

definition respond_polls :: "respond_status \<Rightarrow> bool" where
  "respond_polls s \<longleftrightarrow> s = RLoading \<or> s = Selecting"

text \<open>The effect, which runs when the poll's data or error changes.\<close>

definition respond_effect :: "bool \<Rightarrow> challenge_status_response option \<Rightarrow> respond_status \<Rightarrow> respond_status" where
  "respond_effect isError data s =
     (if isError then RExpired
      else case data of
        None \<Rightarrow> s
      | Some (StatusPending opts correctNum secs) \<Rightarrow> Selecting
      | Some _ \<Rightarrow> RExpired)"

definition respond_options :: "challenge_status_response option \<Rightarrow> string list" where
  "respond_options data = (case data of Some (StatusPending opts correctNum secs) \<Rightarrow> opts | _ \<Rightarrow> [])"

definition respond_succeeded :: "respond_status \<Rightarrow> respond_status" where
  "respond_succeeded s = RDone"

text \<open>Numbers are offered only while the challenge is pending; an answer that a late poll overtakes reads as expired.\<close>

lemma respond_offers: "respond_effect False data s = Selecting \<Longrightarrow> data \<noteq> None \<Longrightarrow>
    \<exists>opts n secs. data = Some (StatusPending opts n secs) \<and> respond_options data = opts"
  by (auto simp: respond_effect_def respond_options_def split: option.splits challenge_status_response.splits)

lemma late_poll_overtakes: "respond_effect False (Some (StatusApproved u)) (respond_succeeded s) = RExpired"
  by (simp add: respond_effect_def)

text \<open>Whether an invitation is valid, \<open>None\<close> while it is not known.\<close>

definition invitation_start :: "string \<Rightarrow> bool option" where
  "invitation_start token = (if token \<noteq> [] then None else Some False)"

definition invitation_effect :: "string \<Rightarrow> bool \<Rightarrow> bool option \<Rightarrow> bool option \<Rightarrow> bool option" where
  "invitation_effect token isError data valid =
     (if token = [] then valid
      else if isError \<or> data = None then Some False
      else data)"

text \<open>Its effect takes the absence of data while the query loads for an invalid invitation.\<close>

lemma invitation_invalid_while_loading: "token \<noteq> [] \<Longrightarrow> invitation_effect token False None (invitation_start token) = Some False"
  by (simp add: invitation_effect_def)

subsection \<open>\<open>useIssueMountCredential.ts\<close>\<close>

record issuing =
  is_issued :: "string option"
  is_in_flight :: bool

datatype issue_event = Issue "uuid option" | Issued "string option" | ClearIssued

text \<open>The bodies posted, and the state; the answer is the credential's password, or an error.\<close>

definition issue_step :: "issue_event \<Rightarrow> issuing \<Rightarrow> issuing \<times> uuid option list" where
  "issue_step e s = (case e of
     Issue driveId \<Rightarrow>
       if is_in_flight s then (s, [])
       else (s\<lparr>is_in_flight := True\<rparr>, [if truthy driveId then driveId else None])
   | Issued answer \<Rightarrow>
       (case answer of
          Some password \<Rightarrow> s\<lparr>is_issued := Some password, is_in_flight := False\<rparr>
        | None \<Rightarrow> s\<lparr>is_in_flight := False\<rparr>, [])
   | ClearIssued \<Rightarrow> (s\<lparr>is_issued := None\<rparr>, []))"

fun issue_run :: "issue_event list \<Rightarrow> issuing \<Rightarrow> issuing \<times> uuid option list" where
  "issue_run [] s = (s, [])"
| "issue_run (e # es) s = (case issue_step e s of (s', out) \<Rightarrow> (case issue_run es s' of (s'', out') \<Rightarrow> (s'', out @ out')))"

text \<open>One request at a time: the requests outrun the answers by the one in flight at most.\<close>

lemma issue_run_one_at_a_time:
  "length (snd (issue_run es s)) + (if is_in_flight s then 1 else 0) \<le> length (filter (\<lambda>e. \<exists>a. e = Issued a) es) + 1"
proof (induction es arbitrary: s)
  case (Cons e es)
  obtain s' out where step: "issue_step e s = (s', out)" by fastforce
  have "length out + (if is_in_flight s then 1 else 0) \<le> (if \<exists>a. e = Issued a then 1 else 0) + (if is_in_flight s' then 1 else 0)"
    using step by (cases e) (auto simp: issue_step_def split: if_splits)
  with Cons.IH [of s'] step show ?case by (auto split: prod.split)
qed simp

subsection \<open>\<open>useBreadcrumbTrail.ts\<close>\<close>

record crumb =
  cr_id :: uuid
  cr_name :: string

text \<open>The location: the search parameter \<open>folderId\<close>, and the trail in the history state, if any.\<close>

record location =
  lo_folder_id :: "uuid option"
  lo_trail :: "crumb list option"

definition trail_of :: "location \<Rightarrow> crumb list" where
  "trail_of l = (if truthy (lo_folder_id l) then nullish (lo_trail l) [] else [])"

definition open_folder :: "crumb \<Rightarrow> location \<Rightarrow> location" where
  "open_folder folder l = \<lparr>lo_folder_id = Some (cr_id folder), lo_trail = Some (trail_of l @ [folder])\<rparr>"

definition navigate_root :: "location \<Rightarrow> location" where
  "navigate_root l = \<lparr>lo_folder_id = None, lo_trail = Some []\<rparr>"

definition navigate_to_ancestor :: "int \<Rightarrow> location \<Rightarrow> location" where
  "navigate_to_ancestor depth l =
     (if depth < 0 \<or> int (length (trail_of l)) \<le> depth then l
      else let trimmed = take (nat depth + 1) (trail_of l)
           in \<lparr>lo_folder_id = Some (cr_id (last trimmed)), lo_trail = Some trimmed\<rparr>)"

datatype crumb_event = OpenFolder crumb | NavigateRoot | NavigateToAncestor int

definition crumb_step :: "crumb_event \<Rightarrow> location \<Rightarrow> location" where
  "crumb_step e l = (case e of
     OpenFolder f \<Rightarrow> open_folder f l | NavigateRoot \<Rightarrow> navigate_root l | NavigateToAncestor d \<Rightarrow> navigate_to_ancestor d l)"

text \<open>The trail ends with the folder that is shown.\<close>

definition trail_ok :: "location \<Rightarrow> bool" where
  "trail_ok l \<longleftrightarrow> trail_of l \<noteq> [] \<longrightarrow> lo_folder_id l = Some (cr_id (last (trail_of l)))"

lemma crumb_step_ok: "trail_ok l \<Longrightarrow> trail_ok (crumb_step e l)"
  by (cases e) (auto simp: trail_ok_def crumb_step_def open_folder_def navigate_root_def navigate_to_ancestor_def trail_of_def
      truthy_def Let_def split: if_splits)

interpretation crumbs: history crumb_step trail_ok
  by unfold_locales (rule crumb_step_ok)

lemma trail_stays_ok: "trail_ok (fold crumb_step es \<lparr>lo_folder_id = f, lo_trail = None\<rparr>)"
  by (rule crumbs.run_inv) (simp add: trail_ok_def trail_of_def)

subsection \<open>\<open>useBackButton.ts\<close>\<close>

definition DOUBLE_TAP_EXIT_TIMEOUT_MS :: int where
  "DOUBLE_TAP_EXIT_TIMEOUT_MS = 2000"

text \<open>The toast, and the time at which the pending timeout fires.\<close>

record back_button =
  bb_pending_exit :: bool
  bb_timeout :: "millis option"

datatype back_out = NavigateBack | ExitApp

text \<open>A press at the time \<open>now\<close>; a timeout that is due has fired before.\<close>

definition timeout_fires :: "millis \<Rightarrow> back_button \<Rightarrow> back_button" where
  "timeout_fires now s = (case bb_timeout s of
     Some t \<Rightarrow> if t \<le> now then s\<lparr>bb_pending_exit := False, bb_timeout := None\<rparr> else s
   | None \<Rightarrow> s)"

definition back_pressed :: "bool \<Rightarrow> millis \<Rightarrow> back_button \<Rightarrow> back_button \<times> back_out list" where
  "back_pressed isRoot now s =
     (if \<not> isRoot then (s, [NavigateBack])
      else if bb_timeout s \<noteq> None then (s\<lparr>bb_pending_exit := False, bb_timeout := None\<rparr>, [ExitApp])
      else (s\<lparr>bb_pending_exit := True, bb_timeout := Some (now + DOUBLE_TAP_EXIT_TIMEOUT_MS)\<rparr>, []))"

definition back_button_unmount :: "back_button \<Rightarrow> back_button" where
  "back_button_unmount s = s\<lparr>bb_timeout := None\<rparr>"

definition back_step :: "bool \<times> millis \<Rightarrow> back_button \<Rightarrow> back_button \<times> back_out list" where
  "back_step e s = (case e of (isRoot, now) \<Rightarrow> back_pressed isRoot now (timeout_fires now s))"

definition back_ok :: "back_button \<Rightarrow> bool" where
  "back_ok s \<longleftrightarrow> bb_pending_exit s = (bb_timeout s \<noteq> None)"

lemma back_step_ok: "back_ok s \<Longrightarrow> back_ok (fst (back_step e s))"
  by (cases e) (auto simp: back_ok_def back_step_def back_pressed_def timeout_fires_def split: option.split)

interpretation back_presses: history "\<lambda>e s. fst (back_step e s)" back_ok
  by unfold_locales (rule back_step_ok)

text \<open>The application exits only at a root destination, at a second press within the time of the toast.\<close>

lemma exit_needs_two_presses:
  assumes "snd (back_step (isRoot, now) s) = [ExitApp]" and "back_ok s"
  shows "isRoot \<and> bb_pending_exit s \<and> (\<exists>t. bb_timeout s = Some t \<and> now < t)"
  using assms by (auto simp: back_step_def back_pressed_def timeout_fires_def back_ok_def split: if_splits option.splits)

lemma toast_then_exit:
  assumes "back_ok s" and "bb_timeout s = None"
  shows "snd (back_step (True, now) s) = []"
    and "later < now + DOUBLE_TAP_EXIT_TIMEOUT_MS \<Longrightarrow> snd (back_step (True, later) (fst (back_step (True, now) s))) = [ExitApp]"
  using assms by (auto simp: back_step_def back_pressed_def timeout_fires_def)

subsection \<open>\<open>useFilePreview.ts\<close>\<close>

record preview_target =
  pt_id :: uuid
  pt_name :: string
  pt_mime_type :: string

text \<open>
  The preview; \<open>pv_ref\<close> is \<open>blobUrlRef\<close>. An object URL is the number of its creation and holds
  the file it was made of; \<open>pv_live\<close> lists those not revoked.
\<close>

record preview =
  pv_blob_url :: "nat option"
  pv_target :: "preview_target option"
  pv_open :: bool
  pv_ref :: "nat option"
  pv_live :: "(nat \<times> uuid) list"
  pv_made :: nat

definition is_image_mime_type :: "string \<Rightarrow> bool" where
  "is_image_mime_type mimeType \<longleftrightarrow> starts_with mimeType ''image/''"

definition revoke :: "preview \<Rightarrow> preview" where
  "revoke s = (case pv_ref s of
     None \<Rightarrow> s
   | Some url \<Rightarrow> s\<lparr>pv_live := filter (\<lambda>x. fst x \<noteq> url) (pv_live s), pv_ref := None\<rparr>)"

definition preview_close :: "preview \<Rightarrow> preview" where
  "preview_close s = revoke (s\<lparr>pv_open := False, pv_target := None, pv_blob_url := None\<rparr>)"

text \<open>\<open>open\<close> up to the download it awaits, and from the blob on.\<close>

definition preview_open :: "preview_target \<Rightarrow> preview \<Rightarrow> preview" where
  "preview_open next' s = (if \<not> is_image_mime_type (pt_mime_type next') then s
     else (revoke s)\<lparr>pv_target := Some next', pv_open := True\<rparr>)"

definition preview_loaded :: "uuid \<Rightarrow> preview \<Rightarrow> preview" where
  "preview_loaded fid s = s\<lparr>pv_live := (pv_made s, fid) # pv_live s, pv_made := Suc (pv_made s), pv_ref := Some (pv_made s),
     pv_blob_url := Some (pv_made s)\<rparr>"

definition preview_start :: preview where
  "preview_start = \<lparr>pv_blob_url = None, pv_target = None, pv_open = False, pv_ref = None, pv_live = [], pv_made = 0\<rparr>"

text \<open>One preview at a time shows its file and leaves nothing behind; downloads that overlap do neither.\<close>

lemma preview_one:
  assumes "is_image_mime_type (pt_mime_type t)"
  shows "let s = preview_loaded (pt_id t) (preview_open t preview_start) in
      map_of (pv_live s) (the (pv_blob_url s)) = Some (pt_id t) \<and> pv_target s = Some t \<and> pv_live (preview_close s) = []"
  using assms by (simp add: preview_loaded_def preview_open_def preview_close_def revoke_def preview_start_def Let_def)

lemma preview_overlap:
  assumes "is_image_mime_type (pt_mime_type t)" and "is_image_mime_type (pt_mime_type t')" and "pt_id t \<noteq> pt_id t'"
  shows "let s = preview_loaded (pt_id t) (preview_loaded (pt_id t') (preview_open t' (preview_open t preview_start))) in
      pv_target s = Some t' \<and> map_of (pv_live s) (the (pv_blob_url s)) = Some (pt_id t) \<and> pv_live (preview_close s) \<noteq> []"
  using assms by (simp add: preview_loaded_def preview_open_def preview_close_def revoke_def preview_start_def Let_def)

subsection \<open>\<open>useFileSearch.ts\<close>\<close>

definition DEBOUNCE_MS :: int where "DEBOUNCE_MS = 200"
definition MIN_QUERY_LENGTH :: nat where "MIN_QUERY_LENGTH = 2"

text \<open>The whitespace that \<open>trim\<close> removes, on texts of ASCII.\<close>

definition blank :: "char \<Rightarrow> bool" where
  "blank c \<longleftrightarrow> c \<in> set [CHR '' '', CHR 0x09, CHR 0x0A, CHR 0x0B, CHR 0x0C, CHR 0x0D]"

definition trim :: "string \<Rightarrow> string" where
  "trim s = rev (dropWhile blank (rev (dropWhile blank s)))"

type_synonym search_params = "string \<rightharpoonup> string"

definition read_scope :: "string option \<Rightarrow> string" where
  "read_scope raw = (if raw = Some ''folder'' then ''folder'' else ''all'')"

text \<open>The page's URL and the field: its value and scope, and the URL's last seen ones.\<close>

record search_field =
  sf_value :: string
  sf_scope :: string
  sf_composing :: bool
  sf_last_url_q :: string
  sf_last_url_scope :: string

definition url_q :: "search_params \<Rightarrow> string" where
  "url_q ps = nullish (ps ''q'') []"

definition url_scope :: "search_params \<Rightarrow> string" where
  "url_scope ps = read_scope (ps ''scope'')"

definition search_start :: "search_params \<Rightarrow> search_field" where
  "search_start ps = \<lparr>sf_value = url_q ps, sf_scope = url_scope ps, sf_composing = False,
     sf_last_url_q = url_q ps, sf_last_url_scope = url_scope ps\<rparr>"

definition search_render :: "search_params \<Rightarrow> search_field \<Rightarrow> search_field" where
  "search_render ps s =
     (let s1 = if url_q ps \<noteq> sf_last_url_q s then s\<lparr>sf_last_url_q := url_q ps, sf_value := url_q ps\<rparr> else s
      in if url_scope ps \<noteq> sf_last_url_scope s1 then s1\<lparr>sf_last_url_scope := url_scope ps, sf_scope := url_scope ps\<rparr> else s1)"

definition search_flush :: "search_field \<Rightarrow> search_params \<Rightarrow> search_params" where
  "search_flush s ps =
     (if MIN_QUERY_LENGTH \<le> length (trim (sf_value s)) then ps(''q'' \<mapsto> sf_value s, ''scope'' \<mapsto> sf_scope s)
      else ps(''q'' := None, ''scope'' := None))"

text \<open>Whether the effect starts the debounced update of the URL, which then does what \<open>flush\<close> does.\<close>

definition search_schedules :: "search_params \<Rightarrow> search_field \<Rightarrow> bool" where
  "search_schedules ps s \<longleftrightarrow> \<not> sf_composing s \<and> \<not> (sf_value s = url_q ps \<and> sf_scope s = url_scope ps)"

definition search_clear :: "search_field \<Rightarrow> search_params \<Rightarrow> search_field \<times> search_params" where
  "search_clear s ps = (s\<lparr>sf_value := [], sf_scope := ''all''\<rparr>, ps(''q'' := None, ''scope'' := None))"

definition is_searching :: "search_params \<Rightarrow> bool" where
  "is_searching ps \<longleftrightarrow> MIN_QUERY_LENGTH \<le> length (trim (url_q ps))"

text \<open>\<open>api/query.ts\<close>: the query sent, if the search is enabled.\<close>

definition search_enabled :: "string \<Rightarrow> string \<Rightarrow> uuid option \<Rightarrow> bool" where
  "search_enabled q scope folderId \<longleftrightarrow> MIN_QUERY_LENGTH \<le> length (trim q) \<and> (scope \<noteq> ''folder'' \<or> folderId \<noteq> None)"

definition search_query :: "string \<Rightarrow> string \<Rightarrow> uuid option \<Rightarrow> (string \<times> string) list" where
  "search_query q scope folderId = [(''q'', trim q), (''scope'', scope)] @
     (case folderId of None \<Rightarrow> [] | Some f \<Rightarrow> [(''folderId'', f)])"

lemma trim_Nil [simp]: "trim [] = []"
  by (simp add: trim_def)

text \<open>
  Once the URL follows a text that is long enough, the next render neither changes the field
  nor schedules another update, and the search is on; the other parameters stay.
\<close>

lemma search_settles:
  assumes "MIN_QUERY_LENGTH \<le> length (trim (sf_value s))" and "sf_scope s = ''all'' \<or> sf_scope s = ''folder''"
  shows "let ps' = search_flush s ps; s' = search_render ps' s in
    sf_value s' = sf_value s \<and> sf_scope s' = sf_scope s \<and> \<not> search_schedules ps' s' \<and> is_searching ps' \<and>
    (\<forall>k. k \<noteq> ''q'' \<longrightarrow> k \<noteq> ''scope'' \<longrightarrow> ps' k = ps k)"
  using assms by (auto simp: search_flush_def search_render_def search_schedules_def is_searching_def url_q_def url_scope_def read_scope_def Let_def)

lemma search_query_valid: "search_enabled q scope f \<Longrightarrow> scope = ''folder'' \<Longrightarrow> \<exists>g. (''folderId'', g) \<in> set (search_query q scope f)"
  by (cases f) (auto simp: search_enabled_def search_query_def)

subsection \<open>Listings, downloads and the theme\<close>

text \<open>\<open>useFileList.ts\<close>: of two queries the one that is shown.\<close>

definition active_listing :: "uuid option \<Rightarrow> 'q \<Rightarrow> 'q \<Rightarrow> 'q" where
  "active_listing folderId children root = (if truthy folderId then children else root)"

text \<open>\<open>useTrashList.ts\<close>: the latest first, in a stable sort.\<close>

definition sorted_trash :: "trash_item list option \<Rightarrow> trash_item list" where
  "sorted_trash items = sort_key (\<lambda>i. - ti_deleted_at i) (nullish items [])"

lemma trash_list_sorted: "trash_list u w = (Inr is, w') \<Longrightarrow> sorted_trash (Some is) = is"
  by (auto simp: trash_list_def trash_find_all_deleted_def svc sorted_trash_def Let_def intro!: sort_key_id_if_sorted)

text \<open>\<open>blob-to-base64.ts\<close>: the data after the comma of a data URL.\<close>

definition data_of_url :: "string \<Rightarrow> string" where
  "data_of_url result = (if CHR '','' \<in> set result then drop 1 (dropWhile (\<lambda>c. c \<noteq> CHR '','') result) else [])"

lemma data_of_url: "CHR '','' \<notin> set kind \<Longrightarrow> data_of_url (kind @ '','' @ data) = data"
  by (induction kind) (auto simp: data_of_url_def)

text \<open>\<open>theme.ts\<close>: whether the page is dark, from the stored theme and the system's.\<close>

definition theme_dark :: "string option \<Rightarrow> bool \<Rightarrow> bool" where
  "theme_dark stored systemDark \<longleftrightarrow> stored = Some ''dark'' \<or> (stored = Some ''system'' \<and> systemDark) \<or> (stored = None \<and> systemDark)"

end
