(* ===== verification/ClientForms.thy ===== *)
theory ClientForms
  imports ClientViews ClientListing Registration
begin

text \<open>
  The forms of the clients' pages: what they check before they send, the input of a backup
  code, the dialogs for folders and invitations. Messages are left out, their keys kept.
\<close>

subsection \<open>Signing in\<close>

text \<open>The keys of \<open>LOGIN_ERROR_MESSAGES\<close>, \<open>TWO_FACTOR_ERROR_MESSAGES\<close> and \<open>REGISTER_ERROR_MESSAGES\<close>.\<close>

datatype form_error = USERNAME_REQUIRED | PASSWORD_REQUIRED | BACKUP_CODE_REQUIRED | BACKUP_CODE_INVALID_PATTERN
  | NICKNAME_REQUIRED | PASSWORD_MIN_LENGTH | PASSWORD_CONFIRM_REQUIRED | PASSWORD_CONFIRM_NOT_VALIDE

text \<open>react-hook-form: a field's first error, and \<open>handleSubmit\<close>, which submits if no field has one.\<close>

definition required :: "form_error \<Rightarrow> string \<Rightarrow> form_error option" where
  "required e v = (if v = [] then Some e else None)"

definition check_field :: "form_error \<Rightarrow> bool \<Rightarrow> form_error option \<Rightarrow> form_error option" where
  "check_field e ok before = (case before of Some x \<Rightarrow> Some x | None \<Rightarrow> if ok then None else Some e)"

definition handle_submit :: "form_error option list \<Rightarrow> 'a \<Rightarrow> form_error list + 'a" where
  "handle_submit checks b = (case List.map_filter id checks of [] \<Rightarrow> Inr b | es \<Rightarrow> Inl es)"

definition login_form_submit :: "string \<Rightarrow> string \<Rightarrow> bool \<Rightarrow> form_error list + login_body" where
  "login_form_submit username password trustDevice =
     handle_submit [required USERNAME_REQUIRED username, required PASSWORD_REQUIRED password]
       \<lparr>lb_username = username, lb_password = password, lb_trust_device = Some trustDevice\<rparr>"

definition admin_login_form_submit :: "string \<Rightarrow> string \<Rightarrow> form_error list + login_body" where
  "admin_login_form_submit username password =
     handle_submit [required USERNAME_REQUIRED username, required PASSWORD_REQUIRED password]
       \<lparr>lb_username = username, lb_password = password, lb_trust_device = None\<rparr>"

definition LOGIN_ERROR_KEYS :: "string list" where
  "LOGIN_ERROR_KEYS = [''USERNAME_REQUIRED'', ''PASSWORD_REQUIRED'', ''INVALID_CREDENTIALS'', ''ACCOUNT_DISABLED'', ''UNKNOWN'']"

text \<open>The error of an answer that the form shows: the key of its message, if it has one.\<close>

definition login_root_error :: "(string option \<times> string option) option \<Rightarrow> string option" where
  "login_root_error data = (let code = fst (parse_api_error data (''UNKNOWN'', []))
     in if code \<in> set LOGIN_ERROR_KEYS then Some code else None)"

definition admin_login_root_error :: "(string option \<times> string option) option \<Rightarrow> string option" where
  "admin_login_root_error data = (let code = fst (parse_api_error data (''UNKNOWN'', []))
     in if code \<in> set LOGIN_ERROR_KEYS then Some code else Some ''UNKNOWN'')"

text \<open>
  The web client's form shows nothing for an answer whose code has no message, such as the
  \<open>HTTP_ERROR\<close> of a refused body or of the throttler; the admin client's form does.
\<close>

lemma login_error_unseen:
  "login_root_error (Some (Some ''HTTP_ERROR'', m)) = None" "admin_login_root_error data \<noteq> None"
  by (simp_all add: login_root_error_def admin_login_root_error_def parse_api_error_def nullish_def LOGIN_ERROR_KEYS_def Let_def)

subsection \<open>Registering\<close>

record register_form_values =
  rv_username :: string
  rv_nickname :: string
  rv_password :: string
  rv_password_confirm :: string

definition register_form_submit :: "uuid \<Rightarrow> register_form_values \<Rightarrow> form_error list + register_body" where
  "register_form_submit token v =
     handle_submit
       [required USERNAME_REQUIRED (rv_username v), required NICKNAME_REQUIRED (rv_nickname v),
        check_field PASSWORD_MIN_LENGTH (8 \<le> length (rv_password v)) (required PASSWORD_REQUIRED (rv_password v)),
        check_field PASSWORD_CONFIRM_NOT_VALIDE (rv_password_confirm v = rv_password v)
          (required PASSWORD_CONFIRM_REQUIRED (rv_password_confirm v))]
       \<lparr>rg_token = token, rg_username = rv_username v, rg_nickname = rv_nickname v, rg_password = rv_password v\<rparr>"

lemmas form_defs = handle_submit_def required_def check_field_def List.map_filter_simps

text \<open>What the register form sends the API accepts, unless a field is too long or the link no invitation.\<close>

lemma register_form_accepted:
  assumes "register_form_submit token v = Inr b"
  shows "register_body_valid b \<longleftrightarrow> is_uuid token \<and> length (rv_username v) \<le> 50 \<and> length (rv_nickname v) \<le> 50 \<and>
    length (rv_password v) \<le> 255"
  using assms by (auto simp: register_form_submit_def form_defs register_body_valid_def length_between_def
      Suc_le_eq split: if_splits option.splits)

subsection \<open>\<open>TwoFactorBackupEntry.tsx\<close>\<close>

definition upper_char :: "char \<Rightarrow> char" where
  "upper_char c = (let n = (of_char c :: nat) in if 97 \<le> n \<and> n \<le> 122 then char_of (n - 32) else c)"

text \<open>\<open>[A-Z0-9]\<close>.\<close>

definition code_char :: "char \<Rightarrow> bool" where
  "code_char c \<longleftrightarrow> (let n = (of_char c :: nat) in 65 \<le> n \<and> n \<le> 90 \<or> 48 \<le> n \<and> n \<le> 57)"

text \<open>
  \<open>replace(/([A-Z0-9]{4})([A-Z0-9]{1,4})/, '$1-$2')\<close>: the first place where five characters of
  the class follow each other gets a dash after the fourth.
\<close>

fun insert_dash :: "string \<Rightarrow> string" where
  "insert_dash [] = []"
| "insert_dash (c # cs) =
     (if 5 \<le> length (takeWhile code_char (c # cs)) then take 4 (c # cs) @ ''-'' @ drop 4 (c # cs)
      else c # insert_dash cs)"

definition format_backup_code :: "string \<Rightarrow> string" where
  "format_backup_code s = insert_dash (map upper_char s)"

text \<open>A key typed at the end of the input, whose \<open>maxLength\<close> is 9, and \<open>onChange\<close> after it.\<close>

definition backup_code_typed :: "char \<Rightarrow> string \<Rightarrow> string" where
  "backup_code_typed c v = (if length v < 9 then format_backup_code (v @ [c]) else v)"

text \<open>\<open>/^[A-Z0-9]{4}-[A-Z0-9]{4}$/\<close>.\<close>

definition backup_code_pattern :: "string \<Rightarrow> bool" where
  "backup_code_pattern v \<longleftrightarrow> length v = 9 \<and> list_all code_char (take 4 v) \<and> v ! 4 = CHR ''-'' \<and> list_all code_char (drop 5 v)"

definition backup_form_submit :: "string \<Rightarrow> string \<Rightarrow> string \<Rightarrow> form_error list + backup_login_body" where
  "backup_form_submit username password backupCode =
     handle_submit
       [required USERNAME_REQUIRED username, required PASSWORD_REQUIRED password,
        check_field BACKUP_CODE_INVALID_PATTERN (backup_code_pattern backupCode) (required BACKUP_CODE_REQUIRED backupCode)]
       \<lparr>bl_username = username, bl_password = password, bl_backup_code = backupCode\<rparr>"

text \<open>The ways to type a code: in any case, with its dash or without.\<close>

definition typed_as :: "string \<Rightarrow> string \<Rightarrow> bool" where
  "typed_as code t \<longleftrightarrow> map upper_char t = code \<or> map upper_char t = filter (\<lambda>c. c \<noteq> CHR ''-'') code"

lemma upper_char_code_char: "code_char c \<Longrightarrow> upper_char c = c"
  by (auto simp: code_char_def upper_char_def Let_def)

lemma upper_char_idem: "upper_char (upper_char c) = upper_char c"
proof -
  have "of_char (char_of n :: char) = n" if "n < 256" for n :: nat using that by simp
  then show ?thesis by (auto simp: upper_char_def Let_def simp del: of_char_of)
qed

lemma code_char_dash: "\<not> code_char CHR ''-''" "upper_char CHR ''-'' = CHR ''-''"
  by (simp_all add: code_char_def upper_char_def)

lemma hex_code_char: "c \<in> hex_chars \<Longrightarrow> code_char c"
  by (auto simp: hex_chars_def code_char_def)

lemma code_parts:
  assumes "code_format code"
  obtains a b c d e f g h where "code = [a, b, c, d, CHR ''-'', e, f, g, h]"
    "list_all code_char [a, b, c, d, e, f, g, h]"
proof -
  from assms have len: "length code = 9" and dash: "code ! 4 = CHR ''-''"
    and hex: "set (take 4 code) \<subseteq> hex_chars" "set (drop 5 code) \<subseteq> hex_chars" by (simp_all add: code_format_def)
  from len obtain a b c d x e f g h where "code = [a, b, c, d, x, e, f, g, h]"
    by (auto simp: length_Suc_conv eval_nat_numeral)
  with dash hex that show thesis by (simp add: hex_code_char)
qed

lemma typed_code:
  assumes "code_format code" and "typed_as code t"
  shows "fold backup_code_typed t [] = code"
proof -
  obtain a b c d e f g h where code: "code = [a, b, c, d, CHR ''-'', e, f, g, h]"
    and chars: "list_all code_char [a, b, c, d, e, f, g, h]" by (rule code_parts [OF assms(1)])
  have fold_upper: "fold backup_code_typed t v = fold backup_code_typed (map upper_char t) v" for v
  proof (induction t arbitrary: v)
    case (Cons x t)
    show ?case using Cons upper_char_idem by (simp add: backup_code_typed_def format_backup_code_def)
  qed simp
  have "x \<noteq> CHR ''-''" if "code_char x" for x using that code_char_dash by auto
  with chars have "filter (\<lambda>c. c \<noteq> CHR ''-'') code = [a, b, c, d, e, f, g, h]" by (simp add: code)
  with assms(2) consider "map upper_char t = code" | "map upper_char t = [a, b, c, d, e, f, g, h]"
    by (auto simp: typed_as_def)
  then show ?thesis
    using chars by cases (simp_all add: fold_upper code backup_code_typed_def format_backup_code_def upper_char_code_char code_char_dash)
qed

lemma code_pattern:
  assumes "code_format code"
  shows "backup_code_pattern code"
  by (rule code_parts [OF assms]) (simp add: backup_code_pattern_def)

lemma registered_code:
  assumes "registered H data u codes d d'" and "code \<in> set codes" and "\<And>i x. h_bcrypt_compare H x (h_bcrypt_hash H i x 10)"
  shows "\<exists>c. find (\<lambda>c. h_bcrypt_compare H code (bc_code_hash c)) (unused_of (u_id u) d') = Some c"
proof -
  from assms(1) obtain rs n where rs: "backup_codes d' = backup_codes d @ rs" "map bc_code_hash rs = code_hashes H n codes"
    "\<forall>r\<in>set rs. bc_user_id r = u_id u \<and> bc_used_at r = None" unfolding registered_def by blast
  from assms(2) obtain i where i: "i < length codes" "codes ! i = code" by (auto simp: in_set_conv_nth)
  have "length rs = length codes" using arg_cong [OF rs(2), of length] by (simp add: code_hashes_def)
  with i have row: "rs ! i \<in> set rs" by simp
  have "bc_code_hash (rs ! i) = h_bcrypt_hash H (n + i) code 10"
    using arg_cong [OF rs(2), of "\<lambda>hs. hs ! i"] i \<open>length rs = length codes\<close> by (simp add: code_hashes_def)
  with assms(3) have "h_bcrypt_compare H code (bc_code_hash (rs ! i))" by simp
  moreover have "rs ! i \<in> set (unused_of (u_id u) d')" using row rs(1,3) by (auto simp: unused_of_def)
  ultimately show ?thesis by (metis find_None_iff option.exhaust)
qed

text \<open>
  C12: a backup code signs its owner in, from the page that shows it to the form that takes it.
  Whichever of the codes that a registration showed is typed into the backup form, key by
  key, in upper or lower case and with or without the dash, with the user name and the
  password of the registration: the form sends a body the API accepts, and the API answers
  with tokens for that user.
\<close>

theorem registered_codes_sign_in:
  assumes "login_register H data w = (Inr resp, w1)" and "register_body_valid data"
    and "code \<in> set (rgr_backup_codes resp)" and "typed_as code t"
    and "\<And>i x. h_bcrypt_compare H x (h_bcrypt_hash H i x 10)" and "\<And>i. length (h_random_bytes H i 4) = 4"
    and "h_uuid H (draws w1 + 5) \<notin> rt_id ` set (refresh_tokens (db w1))"
  shows "\<exists>body token user w2.
    backup_form_submit (rg_username data) (rg_password data) (fold backup_code_typed t []) = Inr body \<and>
    backup_login_body_valid body \<and>
    login_controller_login_with_backup H body w1 = (Inr (AUTHENTICATED token user), w2) \<and> ud_id user = ud_id (rgr_user resp)"
proof -
  from register_succeeds [OF assms(1)] obtain u s d where reg: "registered H data u (rgr_backup_codes resp) (db w) d"
    and user: "ud_id (rgr_user resp) = u_id u" and db: "db w1 = d\<lparr>refresh_tokens := refresh_tokens (db w) @ [s]\<rparr>" by blast
  from reg obtain n where "rgr_backup_codes resp = fresh_codes H n" unfolding registered_def by blast
  with assms(3,6) have format: "code_format code" by (auto intro: fresh_codes_format)
  note typed = typed_code [OF format assms(4)] and pattern = code_pattern [OF format]
  have len: "length code = 9" using format by (simp add: code_format_def)
  define body where "body = \<lparr>bl_username = rg_username data, bl_password = rg_password data, bl_backup_code = code\<rparr>"
  have submit: "backup_form_submit (rg_username data) (rg_password data) (fold backup_code_typed t []) = Inr body"
    using assms(2) len pattern by (auto simp: backup_form_submit_def form_defs typed body_def register_body_valid_def length_between_def)
  have valid: "backup_login_body_valid body"
    using assms(2) len by (simp add: backup_login_body_valid_def body_def register_body_valid_def length_between_def)
  from reg have added: "user_added H data u (db w) d" by (simp add: registered_def)
  then have found: "find (\<lambda>r. u_username r = rg_username data) (users (db w1)) = Some u"
    by (simp add: user_added_def db find_appended_rows find_key_None)
  have "h_bcrypt_compare H (pepper_password H (rg_password data)) (u_password u)" "u_active u"
    using added assms(5) by (auto simp: user_added_def)
  moreover obtain c where "find (\<lambda>c. h_bcrypt_compare H code (bc_code_hash c)) (unused_of (u_id u) (db w1)) = Some c"
    using registered_code [OF reg assms(3,5)] by (auto simp: unused_of_def db)
  moreover have "user_exists (u_id u) (db w1)" using registered_found [OF reg] by (simp add: user_exists_def db)
  ultimately have "wp (login_controller_login_with_backup H body)
      (\<lambda>r w2. \<exists>token user. r = Inr (AUTHENTICATED token user) \<and> ud_id user = u_id u) w1"
    using found assms(7) by (simp add: login_controller_login_with_backup_def login_with_backup_code_def body_def wp
        user_find_by_username_def authenticated_def user_exists_def user_dto_of_def Let_def add.commute)
  then show ?thesis using submit valid user by (fastforce simp: wp_def split: prod.splits)
qed

lemma registered_codes_sign_in_witness:
  "\<exists>body token user w2 code resp w1. code \<in> set (rgr_backup_codes resp) \<and>
    login_register demo_host demo_register (demo_world demo_register_db) = (Inr resp, w1) \<and>
    backup_form_submit ''bob'' ''password'' (fold backup_code_typed (filter (\<lambda>c. c \<noteq> CHR ''-'') code) []) = Inr body \<and>
    login_controller_login_with_backup demo_host body w1 = (Inr (AUTHENTICATED token user), w2)"
proof -
  obtain resp w1 where run: "login_register demo_host demo_register (demo_world demo_register_db) = (Inr resp, w1)"
    and ids: "list_all (\<lambda>s. length (rt_id s) \<le> draws w1) (refresh_tokens (db w1))" using demo_registers by blast
  from register_succeeds [OF run] obtain n where codes: "rgr_backup_codes resp = fresh_codes demo_host n"
    unfolding registered_def by blast
  then have code: "hd (fresh_codes demo_host n) \<in> set (rgr_backup_codes resp)" by (simp add: fresh_codes_def upt_conv_Cons)
  from code codes have "code_format (hd (fresh_codes demo_host n))" by (metis demo_host_simps(4) fresh_codes_format length_replicate)
  then have typed: "typed_as (hd (fresh_codes demo_host n)) (filter (\<lambda>c. c \<noteq> CHR ''-'') (hd (fresh_codes demo_host n)))"
    by (rule code_parts) (simp add: typed_as_def upper_char_code_char code_char_dash)
  have "register_body_valid demo_register" by code_simp
  moreover have "h_uuid demo_host (draws w1 + 5) \<notin> rt_id ` set (refresh_tokens (db w1))"
    using ids by (fastforce simp: list_all_iff dest: arg_cong [of _ _ length])
  ultimately show ?thesis
    using registered_codes_sign_in [OF run _ code typed] run code by (fastforce simp: demo_register_def)
qed

end
