(* ===== verification/ClientDialogs.thy ===== *)
theory ClientDialogs
  imports ClientForms DriveProps
begin

text \<open>
  The dialogs for folders of the web client, and the tree in which a folder's new place is
  picked, against what the API accepts.
\<close>

subsection \<open>\<open>NewFolderButton.tsx\<close>, \<open>RenameFolderMenuItem.tsx\<close>\<close>

text \<open>A message of the dialog's own, or what \<open>parseApiError\<close> makes of the API's answer.\<close>

datatype dialog_error = NameMissing | SamePlace | Answered "string \<times> string"

record name_dialog =
  nd_open :: bool
  nd_name :: string
  nd_error :: "dialog_error option"
  nd_pending :: bool

definition new_folder_close :: "name_dialog \<Rightarrow> name_dialog" where
  "new_folder_close d = (if nd_pending d then d else d\<lparr>nd_open := False, nd_name := [], nd_error := None\<rparr>)"

definition new_folder_submit :: "uuid option \<Rightarrow> name_dialog \<Rightarrow> name_dialog \<times> drive_mutation option" where
  "new_folder_submit parentId d = (let trimmed = trim (nd_name d) in
     if length trimmed = 0 then (d\<lparr>nd_error := Some NameMissing\<rparr>, None)
     else (d\<lparr>nd_error := None, nd_pending := True\<rparr>, Some (CreateFolder trimmed parentId)))"

text \<open>The answer to the request, an error as the data of its response.\<close>

definition dialog_failed :: "(string option \<times> string option) option \<Rightarrow> dialog_error" where
  "dialog_failed data = Answered (parse_api_error data (''UNKNOWN'', []))"

definition new_folder_answered :: "(string option \<times> string option) option option \<Rightarrow> name_dialog \<Rightarrow> name_dialog" where
  "new_folder_answered failure d = (case failure of
     None \<Rightarrow> d\<lparr>nd_open := False, nd_name := [], nd_pending := False\<rparr>
   | Some data \<Rightarrow> d\<lparr>nd_error := Some (dialog_failed data), nd_pending := False\<rparr>)"

definition rename_dialog_start :: "folder_item \<Rightarrow> name_dialog" where
  "rename_dialog_start folder = \<lparr>nd_open = True, nd_name = foi_name folder, nd_error = None, nd_pending = False\<rparr>"

definition rename_close :: "folder_item \<Rightarrow> name_dialog \<Rightarrow> name_dialog" where
  "rename_close folder d = (if nd_pending d then d
     else d\<lparr>nd_open := False, nd_name := foi_name folder, nd_error := None\<rparr>)"

definition rename_submit :: "folder_item \<Rightarrow> name_dialog \<Rightarrow> name_dialog \<times> drive_mutation option" where
  "rename_submit folder d = (let trimmed = trim (nd_name d) in
     if length trimmed = 0 then (d\<lparr>nd_error := Some NameMissing\<rparr>, None)
     else if trimmed = foi_name folder then (d\<lparr>nd_open := False\<rparr>, None)
     else (d\<lparr>nd_error := None, nd_pending := True\<rparr>, Some (RenameFolder (foi_id folder) trimmed)))"

definition rename_answered :: "(string option \<times> string option) option option \<Rightarrow> name_dialog \<Rightarrow> name_dialog" where
  "rename_answered failure d = (case failure of
     None \<Rightarrow> d\<lparr>nd_open := False, nd_pending := False\<rparr>
   | Some data \<Rightarrow> d\<lparr>nd_error := Some (dialog_failed data), nd_pending := False\<rparr>)"

lemma length_trim: "length (trim s) \<le> length s"
  unfolding trim_def by (metis (no_types) length_dropWhile_le length_rev order_trans)

text \<open>What the two dialogs send the API accepts; their inputs take 255 characters.\<close>

lemma dialog_names_accepted:
  assumes "length (nd_name d) \<le> 255"
  shows "snd (new_folder_submit p d) = Some (CreateFolder name q) \<Longrightarrow> nullable_uuid_valid p \<Longrightarrow> create_folder_body_valid name q"
    and "snd (rename_submit folder d) = Some (RenameFolder i name) \<Longrightarrow>
       rename_folder_body_valid name \<and> name \<noteq> foi_name folder"
  using assms length_trim [of "nd_name d"]
  by (auto simp: new_folder_submit_def rename_submit_def create_folder_body_valid_def rename_folder_body_valid_def
      length_between_def Let_def Suc_le_eq split: if_splits)

subsection \<open>\<open>FolderTreePicker.tsx\<close>\<close>

text \<open>
  A mounted \<open>FolderTreeNode\<close>: its folder, its \<open>isExpanded\<close> and the nodes below it. Nodes are
  kept by the key of their folder when a listing comes; those of a closed node are unmounted.
\<close>

datatype tree_row = TreeRow (row_id: uuid) (row_expanded: bool) (row_children: "tree_row list")

definition mount_rows :: "tree_row list \<Rightarrow> folder_item list \<Rightarrow> tree_row list" where
  "mount_rows rows fs = map (\<lambda>folder. case find (\<lambda>r. row_id r = foi_id folder) rows of
     Some r \<Rightarrow> r | None \<Rightarrow> TreeRow (foi_id folder) False []) fs"

primrec children_arrive :: "uuid \<Rightarrow> folder_item list \<Rightarrow> tree_row \<Rightarrow> tree_row" where
  "children_arrive fid fs (TreeRow i e kids) = (let kids' = map (children_arrive fid fs) kids in
     TreeRow i e (if e \<and> i = fid then mount_rows kids' fs else kids'))"

definition toggle_row :: "uuid \<Rightarrow> tree_row \<Rightarrow> tree_row" where
  "toggle_row excludedFolderId r =
     (if row_id r = excludedFolderId then r else TreeRow (row_id r) (\<not> row_expanded r) [])"

text \<open>The node at the end of a path of folders, and a click on its arrow.\<close>

fun row_at :: "uuid list \<Rightarrow> tree_row list \<Rightarrow> tree_row option" where
  "row_at [] rows = None"
| "row_at (i # is) rows = (case find (\<lambda>r. row_id r = i) rows of
     None \<Rightarrow> None
   | Some r \<Rightarrow> if is = [] then Some r else row_at is (row_children r))"

fun toggle_at :: "uuid \<Rightarrow> uuid list \<Rightarrow> tree_row list \<Rightarrow> tree_row list" where
  "toggle_at excludedFolderId [] rows = rows"
| "toggle_at excludedFolderId (i # is) rows = map (\<lambda>r.
     if row_id r \<noteq> i then r
     else if is = [] then toggle_row excludedFolderId r
     else TreeRow (row_id r) (row_expanded r) (toggle_at excludedFolderId is (row_children r))) rows"

subsection \<open>\<open>MoveFolderMenuItem.tsx\<close>\<close>

record move_dialog =
  md_open :: bool
  md_rows :: "tree_row list"
  md_selected :: "uuid option"
  md_error :: "dialog_error option"
  md_pending :: bool

definition move_dialog_start :: "folder_item \<Rightarrow> move_dialog" where
  "move_dialog_start folder = \<lparr>md_open = True, md_rows = [], md_selected = foi_parent_id folder, md_error = None, md_pending = False\<rparr>"

definition move_close :: "move_dialog \<Rightarrow> move_dialog" where
  "move_close d = (if md_pending d then d else d\<lparr>md_open := False, md_error := None\<rparr>)"

definition move_submit :: "folder_item \<Rightarrow> move_dialog \<Rightarrow> move_dialog \<times> drive_mutation option" where
  "move_submit folder d =
     (if md_selected d = foi_parent_id folder then (d\<lparr>md_error := Some SamePlace\<rparr>, None)
      else (d\<lparr>md_error := None, md_pending := True\<rparr>, Some (MoveFolder (foi_id folder) (md_selected d))))"

definition move_answered :: "(string option \<times> string option) option option \<Rightarrow> move_dialog \<Rightarrow> move_dialog" where
  "move_answered failure d = (case failure of
     None \<Rightarrow> d\<lparr>md_open := False, md_pending := False\<rparr>
   | Some data \<Rightarrow> d\<lparr>md_error := Some (dialog_failed data), md_pending := False\<rparr>)"

text \<open>
  What may happen while the dialog is open: the listing of the root or of a folder comes,
  and the user opens or closes a node or picks one. \<open>listing\<close> is what the queries answer.
\<close>

datatype picker_event = RootArrives | ChildrenArrive uuid | Toggle "uuid list" | PickRoot | Pick "uuid list"

definition picker_step :: "(uuid option \<Rightarrow> folder_item list option) \<Rightarrow> uuid \<Rightarrow> picker_event \<Rightarrow> move_dialog \<Rightarrow> move_dialog" where
  "picker_step listing excludedFolderId e d = (case e of
     RootArrives \<Rightarrow> (case listing None of None \<Rightarrow> d | Some fs \<Rightarrow> d\<lparr>md_rows := mount_rows (md_rows d) fs\<rparr>)
   | ChildrenArrive fid \<Rightarrow> (case listing (Some fid) of None \<Rightarrow> d
       | Some fs \<Rightarrow> d\<lparr>md_rows := map (children_arrive fid fs) (md_rows d)\<rparr>)
   | Toggle path \<Rightarrow> d\<lparr>md_rows := toggle_at excludedFolderId path (md_rows d)\<rparr>
   | PickRoot \<Rightarrow> d\<lparr>md_selected := None\<rparr>
   | Pick path \<Rightarrow> (case row_at path (md_rows d) of
       None \<Rightarrow> d
     | Some r \<Rightarrow> if row_id r = excludedFolderId then d else d\<lparr>md_selected := Some (row_id r)\<rparr>))"

definition picker_run :: "(uuid option \<Rightarrow> folder_item list option) \<Rightarrow> uuid \<Rightarrow> picker_event list \<Rightarrow> move_dialog \<Rightarrow> move_dialog" where
  "picker_run listing excludedFolderId es d = fold (picker_step listing excludedFolderId) es d"

subsection \<open>What the tree offers\<close>

definition child_of :: "(uuid option \<Rightarrow> folder_item list option) \<Rightarrow> uuid option \<Rightarrow> uuid \<Rightarrow> bool" where
  "child_of listing p i \<longleftrightarrow> (\<exists>fs. listing p = Some fs \<and> i \<in> foi_id ` set fs)"

text \<open>The folders that can be reached in the tree without opening the excluded one.\<close>

inductive offered :: "(uuid option \<Rightarrow> folder_item list option) \<Rightarrow> uuid \<Rightarrow> uuid \<Rightarrow> bool" for listing ex where
  offered_root: "child_of listing None i \<Longrightarrow> offered listing ex i"
| offered_child: "offered listing ex i \<Longrightarrow> i \<noteq> ex \<Longrightarrow> child_of listing (Some i) j \<Longrightarrow> offered listing ex j"

text \<open>A mounted node is in its parent's listing, a closed one has none below it, the excluded one is closed.\<close>

fun row_ok :: "(uuid option \<Rightarrow> folder_item list option) \<Rightarrow> uuid \<Rightarrow> uuid option \<Rightarrow> tree_row \<Rightarrow> bool" where
  "row_ok listing ex p (TreeRow i e kids) \<longleftrightarrow> child_of listing p i \<and> (e \<longrightarrow> i \<noteq> ex) \<and> (\<not> e \<longrightarrow> kids = []) \<and>
     (\<forall>k\<in>set kids. row_ok listing ex (Some i) k)"

lemma row_ok_parts:
  "row_ok listing ex p r \<longleftrightarrow> child_of listing p (row_id r) \<and> (row_expanded r \<longrightarrow> row_id r \<noteq> ex) \<and>
     (\<not> row_expanded r \<longrightarrow> row_children r = []) \<and> (\<forall>k\<in>set (row_children r). row_ok listing ex (Some (row_id r)) k)"
  by (cases r) simp

lemma row_id_children_arrive [simp]: "row_id (children_arrive fid fs r) = row_id r"
  by (cases r) (simp add: Let_def)

lemma mount_rows_ok:
  assumes "\<forall>r\<in>set rows. row_ok listing ex p r" and "listing p = Some fs"
  shows "\<forall>r\<in>set (mount_rows rows fs). row_ok listing ex p r"
  using assms by (auto simp: mount_rows_def child_of_def split: option.split dest: find_Some_set)

lemma children_arrive_ok:
  assumes "listing (Some fid) = Some fs"
  shows "row_ok listing ex p r \<Longrightarrow> row_ok listing ex p (children_arrive fid fs r)"
proof (induction r arbitrary: p)
  case (TreeRow i e kids)
  then have "\<forall>k\<in>set (map (children_arrive fid fs) kids). row_ok listing ex (Some i) k" by auto
  moreover from this have "e \<and> i = fid \<Longrightarrow>
      \<forall>k\<in>set (mount_rows (map (children_arrive fid fs) kids) fs). row_ok listing ex (Some i) k"
    using assms by (intro mount_rows_ok) auto
  ultimately show ?case using TreeRow.prems by (simp add: Let_def)
qed

lemma toggle_at_ok:
  "\<forall>r\<in>set rows. row_ok listing ex p r \<Longrightarrow> \<forall>r\<in>set (toggle_at ex path rows). row_ok listing ex p r"
proof (induction ex path rows arbitrary: p rule: toggle_at.induct)
  case (2 ex i "is" rows)
  show ?case
  proof
    fix r' assume "r' \<in> set (toggle_at ex (i # is) rows)"
    then obtain r where r: "r \<in> set rows" "r' = (if row_id r \<noteq> i then r else if is = [] then toggle_row ex r
        else TreeRow (row_id r) (row_expanded r) (toggle_at ex is (row_children r)))"
      unfolding toggle_at.simps set_map by (elim imageE) (rule that)
    have ok: "row_ok listing ex p r" using 2(2) r(1) by blast
    have "\<forall>k\<in>set (toggle_at ex is (row_children r)). row_ok listing ex (Some (row_id r)) k" if "row_id r = i" "is \<noteq> []"
      using 2(1) [OF r(1)] that ok by (simp add: row_ok_parts [of _ _ _ r])
    moreover have "toggle_at ex is [] = []" by (cases "is") simp_all
    ultimately show "row_ok listing ex p r'" using ok r(2)
      by (auto simp: row_ok_parts [of _ _ _ r] toggle_row_def)
  qed
qed simp

lemma row_at_offered:
  "\<forall>r\<in>set rows. row_ok listing ex p r \<Longrightarrow> (\<And>i. p = Some i \<Longrightarrow> offered listing ex i \<and> i \<noteq> ex) \<Longrightarrow>
     row_at path rows = Some r \<Longrightarrow> offered listing ex (row_id r)"
proof (induction path rows arbitrary: p rule: row_at.induct)
  case (2 i "is" rows)
  from 2(4) obtain q where q: "find (\<lambda>r. row_id r = i) rows = Some q" by (auto split: option.splits)
  then have ok: "row_ok listing ex p q" using 2(2) find_Some_set by metis
  then have reach: "offered listing ex (row_id q)" using 2(3)
    by (cases p) (auto simp: row_ok_parts [of _ _ _ q] intro: offered.intros)
  show ?case
  proof (cases "is = []")
    case True
    with q 2(4) reach show ?thesis by simp
  next
    case False
    with q 2(4) have below: "row_at is (row_children q) = Some r" by simp
    then have "row_children q \<noteq> []" using False by (cases "is") auto
    with ok have "row_id q \<noteq> ex" by (auto simp: row_ok_parts [of _ _ _ q])
    with 2(1) [OF q False _ _ below] ok reach show ?thesis by (auto simp: row_ok_parts [of _ _ _ q])
  qed
qed simp

definition dialog_ok :: "(uuid option \<Rightarrow> folder_item list option) \<Rightarrow> folder_item \<Rightarrow> move_dialog \<Rightarrow> bool" where
  "dialog_ok listing folder d \<longleftrightarrow> (\<forall>r\<in>set (md_rows d). row_ok listing (foi_id folder) None r) \<and>
     (md_selected d = foi_parent_id folder \<or>
      (\<forall>t. md_selected d = Some t \<longrightarrow> offered listing (foi_id folder) t \<and> t \<noteq> foi_id folder))"

lemma picker_step_ok:
  assumes "dialog_ok listing folder d"
  shows "dialog_ok listing folder (picker_step listing (foi_id folder) e d)"
proof (cases e)
  case (Pick path)
  have "offered listing (foi_id folder) (row_id r)" if "row_at path (md_rows d) = Some r" for r
    by (rule row_at_offered [OF _ _ that, of _ _ None]) (use assms in \<open>auto simp: dialog_ok_def\<close>)
  then show ?thesis using assms Pick by (auto simp: dialog_ok_def picker_step_def split: option.split)
next
  case RootArrives
  then show ?thesis using assms mount_rows_ok [of "md_rows d" listing "foi_id folder" None]
    by (auto simp: dialog_ok_def picker_step_def split: option.split)
next
  case (ChildrenArrive fid)
  then show ?thesis using assms children_arrive_ok by (auto simp: dialog_ok_def picker_step_def split: option.split)
next
  case (Toggle path)
  then show ?thesis using assms toggle_at_ok by (auto simp: dialog_ok_def picker_step_def)
qed (use assms in \<open>simp add: dialog_ok_def picker_step_def\<close>)

interpretation picker: history "picker_step listing (foi_id folder)" "dialog_ok listing folder" for listing folder
  by unfold_locales (rule picker_step_ok)

subsection \<open>What the API makes of a move\<close>

text \<open>The queries' answers: the folders in what the API's tables give for a listing.\<close>

definition listing_folders :: "uuid \<Rightarrow> world \<Rightarrow> uuid option \<Rightarrow> folder_item list option" where
  "listing_folders u w p = (case view_answer u (case p of None \<Rightarrow> RootListing | Some f \<Rightarrow> FolderListing f) w of
     Listing (fs, _) \<Rightarrow> Some (map to_folder_item fs)
   | _ \<Rightarrow> None)"

lemma child_row:
  assumes "child_of (listing_folders u w) p i"
  shows "\<exists>r\<in>set (folders (db w)). live_folder i u r \<and> fo_parent_id r = p"
  using assms by (cases p) (auto simp: child_of_def listing_folders_def view_answer_root view_answer_folder
      live_folder_def to_folder_item_def split: if_splits)

lemma offered_row:
  "offered (listing_folders u w) ex t \<Longrightarrow> \<exists>r\<in>set (folders (db w)). live_folder t u r"
  by (cases rule: offered.cases) (auto dest: child_row)

lemma parent_rel_row:
  assumes "drive_ok d" and "r \<in> set (folders d)"
  shows "(p, fo_id r) \<in> parent_rel (folders d) \<longleftrightarrow> fo_parent_id r = Some p"
proof
  assume "(p, fo_id r) \<in> parent_rel (folders d)"
  then obtain s where s: "s \<in> set (folders d)" "fo_id s = fo_id r" "fo_parent_id s = Some p" by (auto simp: parent_rel_def)
  from assms(1) have "forest (folders d)" by (simp add: drive_ok_def)
  from forest_row_unique [OF this assms(2) s(1)] s show "fo_parent_id r = Some p" by simp
qed (use assms(2) in \<open>auto simp: parent_rel_def\<close>)

lemma offered_apart:
  assumes "drive_ok (db w)" and "offered (listing_folders u w) ex t"
  shows "t = ex \<or> (ex, t) \<notin> (parent_rel (folders (db w)))\<^sup>*"
  using assms(2)
proof induction
  case (offered_root i)
  from child_row [OF this] obtain r where r: "r \<in> set (folders (db w))" "fo_id r = i" "fo_parent_id r = None"
    by (auto simp: live_folder_def)
  have "(p, i) \<notin> parent_rel (folders (db w))" for p
    using parent_rel_row [OF assms(1) r(1), of p] r(2,3) by simp
  then show ?case using rtranclE [of ex i "parent_rel (folders (db w))" False] by blast
next
  case (offered_child i j)
  from child_row [OF offered_child.hyps(3)] obtain r where
    r: "r \<in> set (folders (db w))" "fo_id r = j" "fo_parent_id r = Some i" by (auto simp: live_folder_def)
  have "p = i" if "(p, j) \<in> parent_rel (folders (db w))" for p
    using parent_rel_row [OF assms(1) r(1), of p] r(2,3) that by simp
  moreover have "\<exists>p. (ex, p) \<in> (parent_rel (folders (db w)))\<^sup>* \<and> (p, j) \<in> parent_rel (folders (db w))"
    if "(ex, j) \<in> (parent_rel (folders (db w)))\<^sup>*" "j \<noteq> ex"
    using that by (cases rule: rtranclE) auto
  ultimately show ?case using offered_child by blast
qed

lemma find_update_where:
  "find p xs = Some x \<Longrightarrow> (\<And>x. p x \<Longrightarrow> p (f x)) \<Longrightarrow> find p (update_where p f xs) = Some (f x)"
  by (induction xs) (auto simp: update_where_def)

lemma move_accepted:
  assumes "drive_ok (db w)" and "find (live_folder fid u) (folders (db w)) = Some r"
    and "\<And>t. p = Some t \<Longrightarrow> (\<exists>s\<in>set (folders (db w)). live_folder t u s) \<and> (fid, t) \<notin> (parent_rel (folders (db w)))\<^sup>*"
    and "\<And>cs t k. h_unit H cs t (CacheDel k) = Inr ()"
  shows "\<exists>x. fst (folder_move H u fid p w) = Inr x \<and> foi_id x = fid \<and> foi_parent_id x = p"
proof -
  have live: "live_folder fid u r" using assms(2) by (rule find_Some_set [THEN conjunct2])
  have moved: "find (live_folder fid u) (update_where (live_folder fid u)
      (\<lambda>r. r\<lparr>fo_parent_id := p, fo_updated_at := t\<rparr>) (folders (db w))) =
      Some (r\<lparr>fo_parent_id := p, fo_updated_at := t\<rparr>)" for t
    using find_update_where [OF assms(2), of "\<lambda>r. r\<lparr>fo_parent_id := p, fo_updated_at := t\<rparr>"] by (simp add: live_folder_def)
  have fk: "folder_exists p (db w)" using assms(3) by (cases p) (auto simp: folder_exists_def live_folder_def)
  let ?k = "\<lambda>_ :: unit. andThen (folder_repo_move H fid u p) (\<lambda>row. case row of
           None \<Rightarrow> throw FOLDER_NOT_FOUND
         | Some q \<Rightarrow> andThen (promise_all [invalidate_listing H u (fo_parent_id r), invalidate_listing H u p])
               (\<lambda>_. ret (to_folder_item q)))"
  let ?Q = "\<lambda>y w'. \<exists>x. y = Inr x \<and> foi_id x = fid \<and> foi_parent_id x = p"
  have rest: "wp (?k y) ?Q w" for y
    using assms(2,4) moved fk live
    by (simp add: folder_repo_move_def wp invalidate_listing_def to_folder_item_def live_folder_def)
      (simp add: wp_def svc)
  have "wp (folder_move H u fid p) ?Q w"
  proof (cases p)
    case None
    with assms(2) rest show ?thesis unfolding None by (simp add: folder_move_def wp_then)
  next
    case (Some t)
    then obtain s where s: "find (live_folder t u) (folders (db w)) = Some s" using assms(3) by (metis find_None_set option.exhaust)
    have "wp (folder_is_descendant t fid) (\<lambda>y w'. y = Inr False \<and> w' = w) w"
      by (rule wp_is_descendant [OF assms(1) s]) (use assms(3) Some in auto)
    then have "folder_is_descendant t fid w = (Inr False, w)" by (simp add: wp_def split: prod.splits)
    with assms(2) s rest show ?thesis unfolding Some
      by (simp add: folder_move_def folder_find_by_id_and_user_def svc andThen_def wp_def)
  qed
  then show ?thesis by (auto simp: wp_def split: prod.splits)
qed

text \<open>
  C39: what the tree offers the API accepts. Whatever a user opens, closes and picks in the
  dialog that moves a folder, while the queries answer with what the API's tables hold: if
  the dialog sends a request, the API moves the folder there. It is never refused for a
  target below the folder itself or one that is missing, and never asked for the place
  where the folder already is.
\<close>

theorem picked_moves_are_accepted:
  assumes "drive_ok (db w)" and "find (live_folder fid u) (folders (db w)) = Some r"
    and "snd (move_submit (to_folder_item r)
      (picker_run (listing_folders u w) fid es (move_dialog_start (to_folder_item r)))) = Some (MoveFolder i p)"
    and "\<And>cs t k. h_unit H cs t (CacheDel k) = Inr ()"
  shows "i = fid \<and> p \<noteq> fo_parent_id r \<and>
    (\<exists>x. fst (folder_move H u fid p w) = Inr x \<and> foi_id x = fid \<and> foi_parent_id x = p)"
proof -
  let ?f = "to_folder_item r"
  have item: "foi_id ?f = fid" "foi_parent_id ?f = fo_parent_id r"
    using find_Some_set [OF assms(2)] by (simp_all add: to_folder_item_def live_folder_def)
  have "dialog_ok (listing_folders u w) ?f (move_dialog_start ?f)" by (simp add: dialog_ok_def move_dialog_start_def)
  then have "dialog_ok (listing_folders u w) ?f (picker_run (listing_folders u w) fid es (move_dialog_start ?f))"
    unfolding picker_run_def item(1) [symmetric] by (rule picker.run_inv)
  with assms(3) have "i = fid" "p \<noteq> fo_parent_id r"
    and picked: "\<And>t. p = Some t \<Longrightarrow> offered (listing_folders u w) fid t \<and> t \<noteq> fid"
    by (auto simp: move_submit_def dialog_ok_def item split: if_splits)
  moreover have "\<exists>x. fst (folder_move H u fid p w) = Inr x \<and> foi_id x = fid \<and> foi_parent_id x = p"
    by (rule move_accepted [OF assms(1,2) _ assms(4)])
      (use picked offered_row offered_apart [OF assms(1)] in blast)
  ultimately show ?thesis by blast
qed

subsection \<open>Every folder the listings lead to can be picked\<close>

lemma row_at_append:
  "path \<noteq> [] \<Longrightarrow> row_at path rows = Some r \<Longrightarrow> row_at (path @ [i]) rows = find (\<lambda>k. row_id k = i) (row_children r)"
  by (induction path rows rule: row_at.induct) (auto split: option.splits if_splits)

lemma find_map_same: "(\<And>x. P (f x) = P x) \<Longrightarrow> find P (map f xs) = map_option f (find P xs)"
  by (induction xs) auto

lemma find_mount_rows:
  "i \<in> foi_id ` set fs \<Longrightarrow> find (\<lambda>r. row_id r = i) (mount_rows rows fs) =
     Some (case find (\<lambda>r. row_id r = i) rows of Some r \<Rightarrow> r | None \<Rightarrow> TreeRow i False [])"
proof (induction fs)
  case (Cons a fs)
  have "row_id (case find (\<lambda>r. row_id r = foi_id a) rows of Some r \<Rightarrow> r | None \<Rightarrow> TreeRow (foi_id a) False []) = foi_id a"
    by (auto split: option.split dest: find_Some_set)
  then show ?case using Cons by (cases "foi_id a = i") (auto simp: mount_rows_def)
qed simp

lemma row_children_arrive:
  "row_children (children_arrive fid fs r) = (let kids = map (children_arrive fid fs) (row_children r) in
     if row_expanded r \<and> row_id r = fid then mount_rows kids fs else kids)"
  by (cases r) (simp add: Let_def)

lemma row_at_arrive:
  assumes "listing (Some fid) = Some fs"
  shows "\<forall>r\<in>set rows. row_ok listing ex p r \<Longrightarrow> row_at path rows = Some r \<Longrightarrow>
    row_at path (map (children_arrive fid fs) rows) = Some (children_arrive fid fs r)"
proof (induction path rows arbitrary: p rule: row_at.induct)
  case (2 i "is" rows)
  let ?g = "children_arrive fid fs"
  from 2(3) obtain q where q: "find (\<lambda>r. row_id r = i) rows = Some q" by (auto split: option.splits)
  then have ok: "row_ok listing ex p q" using 2(2) find_Some_set by metis
  show ?case
  proof (cases "is")
    case Nil
    with q 2(3) show ?thesis by (simp add: find_map_same)
  next
    case (Cons j js)
    with q 2(3) have below: "row_at is (row_children q) = Some r" by simp
    with Cons obtain k where k: "find (\<lambda>r. row_id r = j) (row_children q) = Some k" by (auto split: option.splits)
    then have "child_of listing (Some (row_id q)) j"
      using ok find_Some_set [OF k] by (auto simp: row_ok_parts [of _ _ _ q] row_ok_parts [of _ _ _ k])
    then have j: "row_id q = fid \<Longrightarrow> j \<in> foi_id ` set fs" using assms by (simp add: child_of_def)
    have "row_at is (map ?g (row_children q)) = Some (?g r)"
      by (rule 2(1) [OF q _ _ below]) (use Cons ok in \<open>auto simp: row_ok_parts [of _ _ _ q]\<close>)
    then show ?thesis using Cons q k j by (simp add: row_children_arrive Let_def find_mount_rows find_map_same)
  qed
qed simp

lemma row_at_toggle:
  "row_at path rows = Some r \<Longrightarrow> row_at path (toggle_at ex path rows) = Some (toggle_row ex r)"
proof (induction path rows rule: row_at.induct)
  case (2 i "is" rows)
  have "row_id (toggle_row ex r) = row_id r" for r by (simp add: toggle_row_def)
  with 2 show ?case by (auto simp: find_map_same split: option.splits if_splits dest: find_Some_set)
qed simp

lemma offered_mounted:
  assumes "offered listing ex t" and "foi_id folder = ex"
  shows "\<exists>es path r. path \<noteq> [] \<and> row_at path (md_rows (picker_run listing ex es (move_dialog_start folder))) = Some r \<and> row_id r = t"
  using assms(1)
proof induction
  case (offered_root i)
  then obtain fs where fs: "listing None = Some fs" "i \<in> foi_id ` set fs" by (auto simp: child_of_def)
  then have "row_at [i] (md_rows (picker_run listing ex [RootArrives] (move_dialog_start folder))) = Some (TreeRow i False [])"
    by (simp add: picker_run_def picker_step_def move_dialog_start_def find_mount_rows)
  then show ?case by (intro exI [of _ "[RootArrives]"] exI [of _ "[i]"]) simp
next
  case (offered_child i j)
  then obtain es path r where at: "path \<noteq> []" "row_at path (md_rows (picker_run listing ex es (move_dialog_start folder))) = Some r"
    "row_id r = i" by blast
  from offered_child.hyps(3) obtain fs where fs: "listing (Some i) = Some fs" "j \<in> foi_id ` set fs" by (auto simp: child_of_def)
  define es' where "es' = es @ (if row_expanded r then [] else [Toggle path])"
  define d where "d = picker_run listing ex es' (move_dialog_start folder)"
  obtain q where q: "row_at path (md_rows d) = Some q" "row_id q = i" "row_expanded q"
    using at offered_child.hyps(2) row_at_toggle [OF at(2), of ex]
    by (cases "row_expanded r") (auto simp: d_def es'_def picker_run_def picker_step_def toggle_row_def)
  have "dialog_ok listing folder (move_dialog_start folder)" by (simp add: dialog_ok_def move_dialog_start_def)
  then have "dialog_ok listing folder d"
    unfolding d_def picker_run_def assms(2) [symmetric] by (rule picker.run_inv)
  then have rows: "\<forall>r\<in>set (md_rows d). row_ok listing ex None r" by (simp add: dialog_ok_def assms(2))
  have "row_at (path @ [j]) (map (children_arrive i fs) (md_rows d)) = find (\<lambda>k. row_id k = j) (row_children (children_arrive i fs q))"
    by (rule row_at_append [OF at(1) row_at_arrive [OF fs(1) rows q(1)]])
  moreover obtain k where k: "find (\<lambda>k. row_id k = j) (row_children (children_arrive i fs q)) = Some k" "row_id k = j"
    using q(2,3) find_mount_rows [OF fs(2)] find_Some_set [OF find_mount_rows [OF fs(2)]]
    by (simp add: row_children_arrive Let_def)
  ultimately have "row_at (path @ [j]) (md_rows (picker_run listing ex (es' @ [ChildrenArrive i]) (move_dialog_start folder))) = Some k"
    using fs(1) by (simp add: d_def picker_run_def picker_step_def)
  then show ?case using k(2) by blast
qed

theorem offered_folders_can_be_picked:
  assumes "offered listing (foi_id folder) t" and "t \<noteq> foi_id folder"
  shows "\<exists>es. md_selected (picker_run listing (foi_id folder) es (move_dialog_start folder)) = Some t"
proof -
  from offered_mounted [OF assms(1) refl] obtain es path r where
    "row_at path (md_rows (picker_run listing (foi_id folder) es (move_dialog_start folder))) = Some r" "row_id r = t" by blast
  then have "md_selected (picker_run listing (foi_id folder) (es @ [Pick path]) (move_dialog_start folder)) = Some t"
    using assms(2) by (simp add: picker_run_def picker_step_def)
  then show ?thesis by blast
qed

text \<open>A user's folder \<open>g\<close> in \<open>f\<close>: the tree is opened, and the root picked.\<close>

lemma picked_moves_are_accepted_witness:
  "\<exists>x. fst (folder_move demo_host ''ada'' ''g'' None (demo_world (demo_drive None))) = Inr x \<and> foi_parent_id x = None"
proof -
  define r where "r = hd (filter (live_folder ''g'' ''ada'') (folders (demo_drive None)))"
  have r: "find (live_folder ''g'' ''ada'') (folders (db (demo_world (demo_drive None)))) = Some r" "fo_parent_id r = Some ''f''"
    by (simp_all add: r_def demo_drive_def demo_folder_def live_folder_def)
  have item: "foi_id (to_folder_item r) = ''g''" "foi_parent_id (to_folder_item r) = Some ''f''"
    using r(2) by (simp_all add: r_def demo_drive_def demo_folder_def live_folder_def to_folder_item_def)
  have "snd (move_submit (to_folder_item r) (picker_run (listing_folders ''ada'' (demo_world (demo_drive None))) ''g''
      [RootArrives, Toggle [''f''], ChildrenArrive ''f'', Pick [''f'', ''g''], Pick [''f''], PickRoot]
      (move_dialog_start (to_folder_item r)))) = Some (MoveFolder ''g'' None)"
    using item by (simp add: picker_run_def picker_step_def move_submit_def split: option.split)
  from picked_moves_are_accepted [OF _ r(1) this, of demo_host] show ?thesis using demo_drive_ok by auto
qed

end
