(* ===== verification/AdminClient.thy ===== *)
theory AdminClient
  imports ClientGates ClientForms
begin

text \<open>
  The admin client: its interceptors, which know the methods of the public operations and
  refuse a refresh without a token, and the dialog that invites a user.
\<close>

subsection \<open>\<open>shared/api/axiosInstance.ts\<close>\<close>

type_synonym public_operation = "http_method option \<Rightarrow> string \<Rightarrow> bool"

definition admin_request_interceptor :: "public_operation \<Rightarrow> client \<Rightarrow> api_request \<Rightarrow> api_request" where
  "admin_request_interceptor isPublicPath c r =
     (if rq_url r \<noteq> [] \<and> isPublicPath (rq_method r) (rq_url r) then r
      else if truthy (cl_access_token c) then r\<lparr>rq_auth := Some (bearer (the (cl_access_token c)))\<rparr>
      else r)"

definition admin_send :: "public_operation \<Rightarrow> client \<Rightarrow> api_request \<Rightarrow> client_out" where
  "admin_send isPublicPath c r = Send (admin_request_interceptor isPublicPath c r)"

text \<open>\<open>processQueue(error, token)\<close>; an error is thrown, so it is never a falsy value.\<close>

definition admin_process_queue :: "public_operation \<Rightarrow> client \<Rightarrow> bool \<Rightarrow> string option \<Rightarrow> client_out list" where
  "admin_process_queue isPublicPath c failed token = map (\<lambda>r.
     if failed then RejectRequest r
     else if truthy token then admin_send isPublicPath c (r\<lparr>rq_auth := Some (bearer (the token))\<rparr>)
     else RejectRequest r) (cl_failed_queue c)"

text \<open>\<open>config\<close>: whether the error carries the configuration of its request.\<close>

definition admin_response_error ::
    "public_operation \<Rightarrow> bool \<Rightarrow> api_request \<Rightarrow> nat option \<Rightarrow> client \<Rightarrow> client \<times> client_out list" where
  "admin_response_error isPublicPath config r status c =
     (if \<not> config then (c, [RejectRequest r])
      else if status \<noteq> Some 401 \<or> rq_retry r then (c, [RejectRequest r])
      else if rq_url r \<noteq> [] \<and> isPublicPath (rq_method r) (rq_url r) then (c, [RejectRequest r])
      else if cl_is_refreshing c then (c\<lparr>cl_failed_queue := cl_failed_queue c @ [r]\<rparr>, [])
      else (c\<lparr>cl_is_refreshing := True, cl_awaiting := r\<lparr>rq_retry := True\<rparr> # cl_awaiting c\<rparr>, [PostRefresh]))"

definition admin_refresh_answered ::
    "public_operation \<Rightarrow> api_request \<Rightarrow> string option \<Rightarrow> client \<Rightarrow> client \<times> client_out list" where
  "admin_refresh_answered isPublicPath r token c =
     (let c1 = c\<lparr>cl_awaiting := remove1 r (cl_awaiting c)\<rparr> in
      case token of
        Some t \<Rightarrow>
          let c2 = set_access_token t c1 in
          (c2\<lparr>cl_failed_queue := [], cl_is_refreshing := False\<rparr>,
           admin_send isPublicPath c2 (r\<lparr>rq_auth := Some (bearer t)\<rparr>) # admin_process_queue isPublicPath c2 False (Some t))
      | None \<Rightarrow>
          ((clear_auth c1)\<lparr>cl_failed_queue := [], cl_is_refreshing := False, cl_at_login := True\<rparr>,
           admin_process_queue isPublicPath c1 True None @ [RejectRequest r]))"

fun admin_step :: "public_operation \<Rightarrow> bool \<times> client_event \<Rightarrow> client \<Rightarrow> client \<times> client_out list" where
  "admin_step pub (config, Call i m url) c =
     (c, [admin_send pub c \<lparr>rq_id = i, rq_method = m, rq_url = url, rq_retry = False, rq_auth = None\<rparr>])"
| "admin_step pub (config, Failed r status) c = admin_response_error pub config r status c"
| "admin_step pub (config, Refreshed r token) c =
     (if r \<in> set (cl_awaiting c) then admin_refresh_answered pub r token c else (c, []))"

fun admin_run :: "public_operation \<Rightarrow> (bool \<times> client_event) list \<Rightarrow> client \<Rightarrow> client \<times> client_out list" where
  "admin_run pub [] c = (c, [])"
| "admin_run pub (e # es) c =
     (case admin_step pub e c of (c', out) \<Rightarrow> (case admin_run pub es c' of (c'', out') \<Rightarrow> (c'', out @ out')))"

lemma admin_step_inv: "client_inv c \<Longrightarrow> client_inv (fst (admin_step pub e c))"
proof (cases "(pub, e, c)" rule: admin_step.cases)
  case (3 pub' config r token c')
  assume "client_inv c"
  with 3 client_inv_awaiting [of c r] show ?thesis
    by (auto simp: client_inv_def admin_refresh_answered_def set_access_token_def clear_auth_def Let_def split: option.split)
qed (auto simp: client_inv_def admin_response_error_def)

interpretation admin_run: event_run "admin_step pub" "admin_run pub" client_inv for pub
  by unfold_locales (simp_all add: admin_step_inv)

lemma dealt_admin_send [simp]: "dealt_with (admin_send pub c r) = {#rq_id r#}"
  by (simp add: admin_send_def admin_request_interceptor_def)

lemma dealt_admin_queue [simp]:
  "sum_list (map dealt_with (admin_process_queue pub c failed token)) = mset (map rq_id (cl_failed_queue c))"
proof -
  have "sum_list (map (\<lambda>r. {#rq_id r#}) rs) = mset (map rq_id rs)" for rs by (induction rs) auto
  then show ?thesis by (cases failed; cases "truthy token") (simp_all add: admin_process_queue_def comp_def)
qed

lemma admin_step_accounts:
  assumes "client_inv c"
  shows "asked (snd e) + waiting c =
    sum_list (map dealt_with (snd (admin_step pub e c))) + waiting (fst (admin_step pub e c))"
proof (cases "(pub, e, c)" rule: admin_step.cases)
  case (3 pub' config r token c')
  with assms client_inv_awaiting [of c r] show ?thesis
    by (auto simp: waiting_def admin_refresh_answered_def set_access_token_def clear_auth_def Let_def split: option.split)
qed (auto simp: waiting_def admin_response_error_def)

text \<open>
  The admin client's interceptors lose or settle twice no request either, and when no
  refresh is under way nothing waits.
\<close>

theorem admin_settles_requests:
  "case admin_run pub es client_start of (c, out) \<Rightarrow>
     sum_list (map (asked \<circ> snd) es) = sum_list (map dealt_with out) + (if cl_is_refreshing c then waiting c else {#})"
proof -
  have "client_inv (fst (admin_run pub es client_start))" by (rule admin_run.run_inv [OF client_inv_start])
  moreover have "sum_list (map (asked \<circ> snd) es) + waiting client_start =
      sum_list (map dealt_with (snd (admin_run pub es client_start))) + waiting (fst (admin_run pub es client_start))"
    by (rule admin_run.run_accounts [OF _ client_inv_start]) (simp add: admin_step_accounts)
  ultimately show ?thesis by (auto simp: client_inv_def client_start_def waiting_def split: prod.split)
qed

text \<open>
  For one request the two clients' handlers agree, if the public operations do; they differ
  for a refresh that brings an empty token, whose queue only the admin client rejects.
\<close>

lemma admin_handlers_agree:
  "admin_request_interceptor pub c r = request_interceptor (pub (rq_method r)) c r"
  "admin_response_error pub True r status c = response_error (pub (rq_method r)) r status c"
  "t \<noteq> [] \<Longrightarrow> admin_process_queue (\<lambda>_. p) c False (Some t) = process_queue p c (Some t)"
  "admin_process_queue (\<lambda>_. p) c True None = process_queue p c None"
  "admin_process_queue pub c False (Some []) = map RejectRequest (cl_failed_queue c)"
  by (simp_all add: admin_request_interceptor_def request_interceptor_def admin_response_error_def response_error_def
      admin_process_queue_def process_queue_def admin_send_def send_def truthy_def)

subsection \<open>Signing in and out\<close>

definition admin_login_succeeded :: "login_response \<Rightarrow> client \<Rightarrow> client \<times> app_out list" where
  "admin_login_succeeded data c = (case data of
     AUTHENTICATED token user \<Rightarrow> (set_auth token user c, [GoTo ''/admin''])
   | TWOFA_REQUIRED cid _ _ \<Rightarrow> (c, [GoTo (''/login/2fa?id='' @ cid)]))"

definition admin_backup_login_succeeded :: "login_response \<Rightarrow> client \<Rightarrow> client \<times> app_out list" where
  "admin_backup_login_succeeded data c = (case data of
     AUTHENTICATED token user \<Rightarrow> (set_auth token user c, [GoTo ''/admin''])
   | TWOFA_REQUIRED _ _ _ \<Rightarrow> (c, []))"

definition admin_logout_settled :: "client \<Rightarrow> client \<times> app_out list" where
  "admin_logout_settled c = (clear_auth c, [GoTo ''/login''])"

subsection \<open>\<open>features/user-invite\<close>\<close>

record 'a invite_dialog =
  iv_invitation :: "'a option"
  iv_error :: bool
  iv_expires_in_days :: "int option"
  iv_copied :: bool

definition DEFAULT_EXPIRES_IN_DAYS :: int where "DEFAULT_EXPIRES_IN_DAYS = 7"
definition MIN_EXPIRES :: int where "MIN_EXPIRES = 1"
definition MAX_EXPIRES :: int where "MAX_EXPIRES = 30"

definition invite_start :: "'a invite_dialog" where
  "invite_start = \<lparr>iv_invitation = None, iv_error = False, iv_expires_in_days = Some DEFAULT_EXPIRES_IN_DAYS, iv_copied = False\<rparr>"

text \<open>The field is empty or a number; the form submits if no rule of the field is violated.\<close>

datatype expires_error = ExpiresRequired | ExpiresMin | ExpiresMax

definition expires_check :: "int option \<Rightarrow> expires_error option" where
  "expires_check v = (case v of
     None \<Rightarrow> Some ExpiresRequired
   | Some n \<Rightarrow> if MAX_EXPIRES < n then Some ExpiresMax else if n < MIN_EXPIRES then Some ExpiresMin else None)"

text \<open>The body that \<open>invite\<close> sends.\<close>

definition invite_submit :: "'a invite_dialog \<Rightarrow> 'a invite_dialog \<times> int option option" where
  "invite_submit d = (case expires_check (iv_expires_in_days d) of
     Some e \<Rightarrow> (d, None)
   | None \<Rightarrow> (d\<lparr>iv_error := False\<rparr>, Some (iv_expires_in_days d)))"

definition invite_answered :: "'a option option \<Rightarrow> 'a invite_dialog \<Rightarrow> 'a invite_dialog" where
  "invite_answered answer d = (case answer of
     None \<Rightarrow> d\<lparr>iv_error := True\<rparr>
   | Some None \<Rightarrow> d
   | Some (Some i) \<Rightarrow> d\<lparr>iv_invitation := Some i\<rparr>)"

definition invite_copy :: "bool \<Rightarrow> 'a invite_dialog \<Rightarrow> 'a invite_dialog" where
  "invite_copy written d = (if iv_invitation d = None then d else d\<lparr>iv_copied := written\<rparr>)"

definition invite_close :: "'a invite_dialog \<Rightarrow> 'a invite_dialog" where
  "invite_close d = invite_start"

text \<open>What the dialog sends the API accepts.\<close>

lemma invite_accepted: "snd (invite_submit d) = Some days \<Longrightarrow> create_invitation_body_valid days"
  by (auto simp: invite_submit_def expires_check_def create_invitation_body_valid_def MIN_EXPIRES_def MAX_EXPIRES_def
      split: option.splits if_splits)

end
