(* ===== verification/Overlapping.thy ===== *)
theory Overlapping
  imports Single_Use
begin

text \<open>
  Requests that overlap. A handler that checks first and writes afterwards is two atomic
  phases: what it reads, and what it does with it. Between them other requests may run, as
  between the query of a transaction at the isolation level read committed and its update,
  which waits for the row. A schedule says in which order the phases happen; what follows
  from where a handler checks is proved once here.
\<close>

text \<open>
  \<open>Begin n i\<close> starts the request \<open>i\<close> under the number \<open>n\<close>, \<open>Finish n\<close> ends it, and
  \<open>Between a\<close> is another operation of the component.
\<close>

datatype ('i, 'o) phase = Begin nat 'i | Finish nat | Between 'o

fun overlap_run :: "('i \<Rightarrow> 's \<Rightarrow> ('e + 'p) \<times> 's) \<Rightarrow> ('i \<Rightarrow> 'p \<Rightarrow> 's \<Rightarrow> ('e + 'a) \<times> 's) \<Rightarrow> ('o \<Rightarrow> 's \<Rightarrow> 's) \<Rightarrow>
    ('i, 'o) phase list \<Rightarrow> (nat \<rightharpoonup> 'i \<times> 'p) \<Rightarrow> 's \<Rightarrow> ('i \<times> ('e + 'a)) list \<times> 's" where
  "overlap_run reads writes other [] open_requests s = ([], s)"
| "overlap_run reads writes other (Begin n i # es) open_requests s =
     (case reads i s of
        (Inl e, s') \<Rightarrow> (case overlap_run reads writes other es open_requests s' of (rs, s'') \<Rightarrow> ((i, Inl e) # rs, s''))
      | (Inr p, s') \<Rightarrow> overlap_run reads writes other es (open_requests(n \<mapsto> (i, p))) s')"
| "overlap_run reads writes other (Finish n # es) open_requests s =
     (case open_requests n of
        None \<Rightarrow> overlap_run reads writes other es open_requests s
      | Some (i, p) \<Rightarrow> (case writes i p s of (r, s') \<Rightarrow>
          (case overlap_run reads writes other es (open_requests(n := None)) s' of (rs, s'') \<Rightarrow> ((i, r) # rs, s''))))"
| "overlap_run reads writes other (Between a # es) open_requests s =
     overlap_run reads writes other es open_requests (other a s)"

text \<open>
  The weaker contract: the first phase refuses a spent key. A request that begins once the
  key is spent fails.
\<close>

locale checked_first =
  fixes inv :: "'s \<Rightarrow> bool"
    and key :: "'i \<Rightarrow> 'k"
    and spent :: "'k \<Rightarrow> 's \<Rightarrow> bool"
    and reads :: "'i \<Rightarrow> 's \<Rightarrow> ('e + 'p) \<times> 's"
    and writes :: "'i \<Rightarrow> 'p \<Rightarrow> 's \<Rightarrow> ('e + 'a) \<times> 's"
    and other :: "'o \<Rightarrow> 's \<Rightarrow> 's"
  assumes inv_reads: "inv s \<Longrightarrow> inv (snd (reads i s))"
    and inv_writes: "inv s \<Longrightarrow> inv (snd (writes i p s))"
    and inv_other: "inv s \<Longrightarrow> inv (other a s)"
    and spent_reads: "inv s \<Longrightarrow> spent k s \<Longrightarrow> spent k (snd (reads i s))"
    and spent_writes: "inv s \<Longrightarrow> spent k s \<Longrightarrow> spent k (snd (writes i p s))"
    and spent_other: "inv s \<Longrightarrow> spent k s \<Longrightarrow> spent k (other a s)"
    and reads_refused: "inv s \<Longrightarrow> spent (key i) s \<Longrightarrow> isl (fst (reads i s))"
begin

text \<open>No request with the key \<open>k\<close> is between its phases.\<close>

definition none_open :: "'k \<Rightarrow> (nat \<rightharpoonup> 'i \<times> 'p) \<Rightarrow> bool" where
  "none_open k opens \<longleftrightarrow> (\<forall>n i p. opens n = Some (i, p) \<longrightarrow> key i \<noteq> k)"

lemma none_open_upd:
  "none_open k opens \<Longrightarrow> key i \<noteq> k \<Longrightarrow> none_open k (opens(n \<mapsto> (i, p)))"
  "none_open k opens \<Longrightarrow> none_open k (opens(n := None))"
  by (simp_all add: none_open_def)

theorem late_requests_fail:
  "inv s \<Longrightarrow> spent k s \<Longrightarrow> none_open k opens \<Longrightarrow>
     successes key k (fst (overlap_run reads writes other es opens s)) = 0"
proof (induction es arbitrary: s opens)
  case (Cons e es)
  show ?case
  proof (cases e)
    case (Begin n i)
    obtain r s' where run: "reads i s = (r, s')" by fastforce
    have s': "inv s'" "spent k s'"
      using inv_reads [OF Cons.prems(1), of i] spent_reads [OF Cons.prems(1,2), of i] run by simp_all
    have "key i \<noteq> k" if "r = Inr p" for p
      using reads_refused [OF Cons.prems(1), of i] Cons.prems(2) run that by auto
    with Cons.IH [OF s'] Cons.prems(3) Begin run show ?thesis
      by (cases r) (auto simp: case_prod_beta intro: none_open_upd)
  next
    case (Finish n)
    show ?thesis
    proof (cases "opens n")
      case None
      with Cons.IH [OF Cons.prems] Finish show ?thesis by simp
    next
      case (Some ip)
      obtain i p where ip: "ip = (i, p)" by fastforce
      obtain r s' where run: "writes i p s = (r, s')" by fastforce
      have s': "inv s'" "spent k s'"
        using inv_writes [OF Cons.prems(1), of i p] spent_writes [OF Cons.prems(1,2), of i p] run by simp_all
      have "key i \<noteq> k" using Cons.prems(3) Some ip by (auto simp: none_open_def)
      moreover have "successes key k (fst (overlap_run reads writes other es (opens(n := None)) s')) = 0"
        by (rule Cons.IH [OF s' none_open_upd(2) [OF Cons.prems(3)]])
      ultimately show ?thesis using Finish Some ip run by (simp add: case_prod_beta)
    qed
  next
    case (Between a)
    with Cons.IH [OF inv_other [OF Cons.prems(1)] spent_other [OF Cons.prems(1,2)] Cons.prems(3)]
    show ?thesis by simp
  qed
qed simp

end

text \<open>
  The stronger contract: the second phase asks again, in the same statement that spends
  the key. Then no schedule lets two requests with one key succeed.
\<close>

locale checked_again = checked_first +
  assumes writes_refused: "inv s \<Longrightarrow> spent (key i) s \<Longrightarrow> isl (fst (writes i p s))"
    and writes_spends: "inv s \<Longrightarrow> writes i p s = (Inr v, s') \<Longrightarrow> spent (key i) s'"
begin

lemma spent_all_fail:
  "inv s \<Longrightarrow> spent k s \<Longrightarrow> successes key k (fst (overlap_run reads writes other es opens s)) = 0"
proof (induction es arbitrary: s opens)
  case (Cons e es)
  show ?case
  proof (cases e)
    case (Begin n i)
    obtain r s' where run: "reads i s = (r, s')" by fastforce
    have s': "inv s'" "spent k s'"
      using inv_reads [OF Cons.prems(1), of i] spent_reads [OF Cons.prems, of i] run by simp_all
    from Cons.IH [OF s'] Begin run show ?thesis by (cases r) (auto simp: case_prod_beta)
  next
    case (Finish n)
    show ?thesis
    proof (cases "opens n")
      case None
      with Cons.IH [OF Cons.prems] Finish show ?thesis by simp
    next
      case (Some ip)
      obtain i p where ip: "ip = (i, p)" by fastforce
      obtain r s' where run: "writes i p s = (r, s')" by fastforce
      have s': "inv s'" "spent k s'"
        using inv_writes [OF Cons.prems(1), of i p] spent_writes [OF Cons.prems, of i p] run by simp_all
      have "key i = k \<Longrightarrow> isl r" using writes_refused [OF Cons.prems(1), of i p] Cons.prems(2) run by auto
      with Cons.IH [OF s'] Finish Some ip run show ?thesis by (auto simp: case_prod_beta)
    qed
  next
    case (Between a)
    with Cons.IH [OF inv_other [OF Cons.prems(1)] spent_other [OF Cons.prems]] show ?thesis by simp
  qed
qed simp

theorem overlapping_at_most_once:
  "inv s \<Longrightarrow> successes key k (fst (overlap_run reads writes other es opens s)) \<le> 1"
proof (induction es arbitrary: s opens)
  case (Cons e es)
  show ?case
  proof (cases e)
    case (Begin n i)
    obtain r s' where run: "reads i s = (r, s')" by fastforce
    have "inv s'" using inv_reads [OF Cons.prems, of i] run by simp
    from Cons.IH [OF this] Begin run show ?thesis by (cases r) (auto simp: case_prod_beta)
  next
    case (Finish n)
    show ?thesis
    proof (cases "opens n")
      case None
      with Cons.IH [OF Cons.prems] Finish show ?thesis by simp
    next
      case (Some ip)
      obtain i p where ip: "ip = (i, p)" by fastforce
      obtain r s' where run: "writes i p s = (r, s')" by fastforce
      have s': "inv s'" using inv_writes [OF Cons.prems, of i p] run by simp
      show ?thesis
      proof (cases "key i = k \<and> \<not> isl r")
        case True
        then obtain v where "writes i p s = (Inr v, s')" using run by (cases r) auto
        then have "spent k s'" using writes_spends [OF Cons.prems] True by blast
        from spent_all_fail [OF s' this] Finish Some ip run show ?thesis by (auto simp: case_prod_beta)
      next
        case False
        with Cons.IH [OF s'] Finish Some ip run show ?thesis by (auto simp: case_prod_beta)
      qed
    qed
  next
    case (Between a)
    with Cons.IH [OF inv_other [OF Cons.prems]] show ?thesis by simp
  qed
qed simp

end

text \<open>One request by itself, its phases next to each other, is the handler.\<close>

lemma overlap_run_alone:
  "(case reads i s of (Inl e, s') \<Rightarrow> (Inl e, s') | (Inr p, s') \<Rightarrow> writes i p s') = (r, s'') \<Longrightarrow>
     overlap_run reads writes other [Begin n i, Finish n] Map.empty s = ([(i, r)], s'')"
  by (auto split: prod.splits sum.splits)

end
