(* ===== verification/Interleaving.thy ===== *)
theory Interleaving
  imports Overlapping Registration Challenges
begin

text \<open>
  The handlers that check first and write afterwards, under requests that overlap. Each is
  split at the point where its transaction (or, without one, its promise) can be overtaken:
  after the query that looks for the row and before the update of that row. The update of
  an invitation asks again whether it is unused, so a registration is safe under every
  schedule. The updates of a refresh token, a backup code and an approved challenge
  go by the identifier alone, so there only requests that begin later are refused.
\<close>

subsection \<open>The phases of the handlers\<close>

text \<open>\<open>SessionService.rotate\<close>.\<close>

definition rotate_reads :: "host \<Rightarrow> string \<Rightarrow> (refresh_token_row \<times> millis) svc" where
  "rotate_reads H raw =
     andThen (new_date H) (\<lambda>now.
     andThen (session_find_active_by_hash (hash_token H raw) now) (\<lambda>matched.
       case matched of None \<Rightarrow> throw REFRESH_TOKEN_INVALID | Some m \<Rightarrow> ret (m, now)))"

definition rotate_writes :: "host \<Rightarrow> string \<Rightarrow> refresh_token_row \<times> millis \<Rightarrow> (uuid \<times> issued_refresh_token) svc" where
  "rotate_writes H raw found = run_in_tx H
     (andThen (session_revoke_by_id (rt_id (fst found)) (snd found)) (\<lambda>_.
      andThen (session_issue_for_user H (rt_user_id (fst found))) (\<lambda>issued.
        ret (rt_user_id (fst found), issued))))"

text \<open>\<open>BackupCodeService.consume\<close>.\<close>

definition consume_reads :: "host \<Rightarrow> uuid \<times> string \<Rightarrow> uuid svc" where
  "consume_reads H = (\<lambda>(userId, rawCode).
     andThen (backup_find_unused userId) (\<lambda>codes.
       case matched_code H rawCode codes of None \<Rightarrow> throw BACKUP_CODE_INVALID | Some matchedId \<Rightarrow> ret matchedId))"

definition consume_writes :: "host \<Rightarrow> uuid \<times> string \<Rightarrow> uuid \<Rightarrow> unit svc" where
  "consume_writes H ur matchedId = andThen (new_date H) (\<lambda>now. backup_mark_used matchedId now)"

text \<open>\<open>TwoFaService.claimApprovedChallenge\<close>.\<close>

definition claim_reads :: "uuid \<Rightarrow> challenge_row svc" where
  "claim_reads challengeId =
     andThen (challenge_find_by_id challengeId) (\<lambda>found. case found of
       None \<Rightarrow> throw TWOFA_CHALLENGE_NOT_FOUND
     | Some challenge \<Rightarrow>
         if ch_status challenge \<noteq> APPROVED then throw TWOFA_CHALLENGE_NOT_FOUND else ret challenge)"

definition claim_writes :: "uuid \<Rightarrow> challenge_row \<Rightarrow> uuid svc" where
  "claim_writes challengeId challenge =
     andThen (challenge_update_status challengeId EXPIRED None) (\<lambda>_. ret (ch_user_id challenge))"

text \<open>\<open>LoginService.register\<close>: the check of the invitation, and the rest of the transaction.\<close>

definition register_reads :: "host \<Rightarrow> register_body \<Rightarrow> invitation_row option svc" where
  "register_reads H data = invitation_validate_or_throw H (rg_token data)"

definition register_writes :: "host \<Rightarrow> register_body \<Rightarrow> invitation_row option \<Rightarrow> (uuid \<times> string list) svc" where
  "register_writes H data found = run_in_tx H
     (andThen (auth_hash_password H (rg_password data)) (\<lambda>hashedPassword.
      andThen (catching (user_create H (rg_username data) (rg_nickname data) hashedPassword)
        (\<lambda>err. if pg_code err = Some ''23505'' then throw USERNAME_TAKEN else raise err)) (\<lambda>inserted.
      andThen (auth_assign_default_role inserted) (\<lambda>_.
      andThen (backup_generate_for_user H inserted) (\<lambda>rawCodes.
      andThen (invitation_consume H (rg_token data) inserted) (\<lambda>_.
        ret (inserted, rawCodes)))))))"

subsection \<open>One after the other the phases are the handler\<close>

lemma andThen_assoc: "andThen (andThen m f) g = andThen m (\<lambda>x. andThen (f x) g)"
  by (rule ext) (simp add: andThen_def split: prod.split sum.split)

text \<open>A check that only reads may stand before the transaction as well as in it.\<close>

lemma reads_before_tx:
  assumes "\<not> in_tx w" and "m (w\<lparr>in_tx := True\<rparr>) = (fst (m w), (snd (m w))\<lparr>in_tx := True\<rparr>)"
    and "db (snd (m w)) = db w" and "\<not> in_tx (snd (m w))"
  shows "run_in_tx H (andThen m f) w = andThen m (\<lambda>x. run_in_tx H (f x)) w"
proof (cases "fst (m w)")
  case (Inl e)
  with assms show ?thesis
    by (cases "m w") (simp add: andThen_def run_in_tx_def tx_current_def db_transaction_def tx_run_def)
next
  case (Inr x)
  with assms show ?thesis
    by (cases "m w") (simp add: andThen_def run_in_tx_def tx_current_def db_transaction_def tx_run_def
        split: prod.split sum.split option.split)
qed

lemma rotate_phases: "\<not> in_tx w \<Longrightarrow> andThen (rotate_reads H raw) (rotate_writes H raw) w = session_rotate H raw w"
proof -
  assume w: "\<not> in_tx w"
  have "session_rotate H raw w = run_in_tx H (andThen (rotate_reads H raw) (\<lambda>found.
     andThen (session_revoke_by_id (rt_id (fst found)) (snd found)) (\<lambda>_.
      andThen (session_issue_for_user H (rt_user_id (fst found))) (\<lambda>issued. ret (rt_user_id (fst found), issued))))) w"
    unfolding session_rotate_def rotate_reads_def andThen_assoc
    by (intro arg_cong [where f = "\<lambda>m. run_in_tx H m w"] ext)
      (simp add: andThen_def svc session_find_active_by_hash_def split: option.split)
  also have "\<dots> = andThen (rotate_reads H raw) (rotate_writes H raw) w"
    unfolding rotate_writes_def
    by (rule reads_before_tx [OF w])
      (use w in \<open>simp_all add: rotate_reads_def andThen_def svc session_find_active_by_hash_def split: option.split\<close>)
  finally show ?thesis by (rule sym)
qed

lemma consume_phases: "andThen (consume_reads H ur) (consume_writes H ur) = backup_consume H (fst ur) (snd ur)"
  by (rule ext) (simp add: consume_reads_def consume_writes_def backup_consume_def andThen_def svc
      case_prod_beta backup_find_unused_def split: option.split)

lemma claim_phases: "andThen (claim_reads c) (claim_writes c) = twofa_claim_approved c"
  by (rule ext) (simp add: claim_reads_def claim_writes_def twofa_claim_approved_def andThen_def svc
      challenge_find_by_id_def split: option.split)

lemma validate_reads_only:
  "invitation_validate_or_throw H t (w\<lparr>in_tx := b\<rparr>) =
     (fst (invitation_validate_or_throw H t w), (snd (invitation_validate_or_throw H t w))\<lparr>in_tx := b\<rparr>)"
  "db (snd (invitation_validate_or_throw H t w)) = db w"
  "in_tx (snd (invitation_validate_or_throw H t w)) = in_tx w"
  by (simp_all add: invitation_validate_or_throw_def invitation_find_by_token_def invitation_get_exception_def
      andThen_def svc split: option.split)

lemma register_phases:
  "\<not> in_tx w \<Longrightarrow> andThen (register_reads H data) (register_writes H data) w = run_in_tx H (register_body_of H data) w"
  unfolding register_reads_def register_writes_def register_body_of_def
  by (subst reads_before_tx) (simp_all add: validate_reads_only)

subsection \<open>Registrations\<close>

lemma keeps_invitations_account [keeps_intro]:
  "keeps (\<lambda>d. Q (invitations d)) (auth_hash_password H pw)"
  "keeps (\<lambda>d. Q (invitations d)) (user_create H n k h)"
  "keeps (\<lambda>d. Q (invitations d)) (auth_assign_default_role u)"
  by (rule keepsI; simp add: auth_hash_password_def bcrypt_hash_def user_create_def user_repo_insert_def
      auth_assign_default_role_def role_find_by_name_service_def role_find_by_name_def
      role_assign_user_role_def role_insert_user_role_def wp split: option.split)+

lemma keeps_invitations_codes [keeps_intro]: "keeps (\<lambda>d. Q (invitations d)) (backup_generate_for_user H u)"
proof -
  have one: "keeps (\<lambda>d. Q (invitations d)) (backup_insert_one H u h)" for h
    by (rule keepsI) (simp add: backup_insert_one_def wp)
  have many: "keeps (\<lambda>d. Q (invitations d)) (backup_insert_many H u hs)" for hs
    unfolding keeps_def
  proof (intro allI impI)
    fix w :: world assume Q: "Q (invitations (db w))"
    have "keeps (\<lambda>d. Q (invitations d)) (for_each (backup_insert_one H u) hs)"
      by (intro keeps_intro one)
    from keepsD [OF this Q] Q show "Q (invitations (db (snd (backup_insert_many H u hs w))))"
      by (cases "for_each (backup_insert_one H u) hs w") (auto simp: backup_insert_many_def split: sum.split)
  qed
  have "keeps (\<lambda>d. Q (invitations d)) (generate_raw_codes H)"
    by (rule keeps_db_same) (simp add: generate_raw_codes_def generate_raw_codes_run)
  moreover have "keeps P (bcrypt_hash H c n)" for P c n
    unfolding bcrypt_hash_def by (intro keeps_intro)
  ultimately show ?thesis
    unfolding backup_generate_for_user_def using many by (auto intro!: keeps_intro)
qed

text \<open>What comes before the invitation is used, in the second phase.\<close>

definition account_made :: "host \<Rightarrow> register_body \<Rightarrow> (uuid \<times> string list) svc" where
  "account_made H data =
     andThen (auth_hash_password H (rg_password data)) (\<lambda>hashedPassword.
     andThen (catching (user_create H (rg_username data) (rg_nickname data) hashedPassword)
       (\<lambda>err. if pg_code err = Some ''23505'' then throw USERNAME_TAKEN else raise err)) (\<lambda>inserted.
     andThen (auth_assign_default_role inserted) (\<lambda>_.
     andThen (backup_generate_for_user H inserted) (\<lambda>rawCodes. ret (inserted, rawCodes)))))"

lemma register_writes_eq:
  "register_writes H data found = run_in_tx H (andThen (account_made H data) (\<lambda>(inserted, rawCodes).
     andThen (invitation_consume H (rg_token data) inserted) (\<lambda>_. ret (inserted, rawCodes))))"
  unfolding register_writes_def account_made_def andThen_assoc
  by (intro arg_cong [where f = "run_in_tx H"] arg_cong2 [where f = andThen] ext refl)
    (simp add: andThen_def svc split: prod.split sum.split)

lemma keeps_invitations_made: "keeps (\<lambda>d. Q (invitations d)) (account_made H data)"
  unfolding account_made_def by (intro keeps_intro)

lemma keeps_register_writes:
  assumes "\<And>t u. keeps P (invitation_consume H t u)" and "\<And>d. P d = Q (invitations d)"
  shows "keeps P (register_writes H data found)"
proof -
  have "P = (\<lambda>d. Q (invitations d))" using assms(2) by (intro ext)
  then show ?thesis
    unfolding register_writes_eq using assms(1) keeps_invitations_made [of Q H data]
    by (auto intro!: keeps_intro split: prod.split)
qed

lemma register_writes_Inr:
  assumes "register_writes H data found w = (Inr x, w')"
  obtains v v' u where "invitations (db v) = invitations (db w)"
    "invitation_consume H (rg_token data) u v = (Inr (), v')" "db w' = db v'"
proof -
  from assms obtain y where y: "andThen (account_made H data) (\<lambda>(inserted, rawCodes).
     andThen (invitation_consume H (rg_token data) inserted) (\<lambda>_. ret (inserted, rawCodes))) (w\<lparr>in_tx := True\<rparr>) = (Inr x, y)"
    "db w' = db y"
    unfolding register_writes_eq by (rule run_in_tx_Inr)
  then obtain u codes v where made: "account_made H data (w\<lparr>in_tx := True\<rparr>) = (Inr (u, codes), v)"
    and used: "invitation_consume H (rg_token data) u v = (Inr (), y)"
    by (auto simp: svc_elim svc)
  have "invitations (db v) = invitations (db w)"
    by (rule keeps_result [OF keeps_invitations_made [of "\<lambda>x. x = invitations (db w)"] _ made]) simp
  from that [OF this used y(2)] show thesis .
qed

lemma keeps_inv_register: "keeps (\<lambda>d. distinct (map inv_token (invitations d))) (register_writes H data found)"
  by (rule keeps_register_writes [where Q = "\<lambda>is. distinct (map inv_token is)"])
    (use invitation_consume_keeps in \<open>auto simp: keeps_def invitation_inv_def\<close>)

lemma keeps_spent_register: "keeps (invitation_spent t) (register_writes H data found)"
  by (rule keeps_register_writes [where Q = "\<lambda>is. \<exists>r\<in>set is. inv_token r = t \<and> inv_used_at r \<noteq> None"])
    (use invitation_spent_consume in \<open>auto simp: keeps_def invitation_spent_def\<close>)

lemma validate_spent:
  assumes "invitation_inv w" and "invitation_spent t (db w)"
  shows "isl (fst (invitation_validate_or_throw H t w))"
proof (cases "invitation_validate_or_throw H t w")
  case (Pair r w')
  have "\<not> (\<exists>x. r = Inr x)"
  proof
    assume "\<exists>x. r = Inr x"
    with Pair validate_Inr obtain y where "y \<in> set (invitations (db w))" "inv_token y = t" "inv_used_at y = None"
      by blast
    moreover from assms(2) obtain z where "z \<in> set (invitations (db w))" "inv_token z = t" "inv_used_at z \<noteq> None"
      by (auto simp: invitation_spent_def)
    ultimately show False
      using key_unique [of inv_token "invitations (db w)" y z] assms(1) by (simp add: invitation_inv_def)
  qed
  with Pair show ?thesis by (cases r) auto
qed

interpretation registering: checked_again invitation_inv rg_token "\<lambda>t w. invitation_spent t (db w)"
  "register_reads H" "register_writes H" "invitation_other H" for H
proof unfold_locales
  fix w :: world and i p a k
  assume inv: "invitation_inv w"
  show "invitation_inv (snd (register_reads H i w))"
    using inv by (simp add: register_reads_def validate_reads_only invitation_inv_def)
  show "invitation_inv (snd (register_writes H i p w))"
    using keepsD [OF keeps_inv_register, of w H i p] inv by (simp add: invitation_inv_def)
  show "invitation_inv (invitation_other H a w)" by (rule invitation_other_keeps [OF inv])
  show "invitation_spent k (db (snd (register_reads H i w)))" if "invitation_spent k (db w)"
    using that by (simp add: register_reads_def validate_reads_only)
  show "invitation_spent k (db (snd (register_writes H i p w)))" if "invitation_spent k (db w)"
    by (rule keepsD [OF keeps_spent_register that])
  show "invitation_spent k (db (invitation_other H a w))" if "invitation_spent k (db w)"
    by (rule invitation_spent_other [OF that])
  show "isl (fst (register_reads H i w))" if "invitation_spent (rg_token i) (db w)"
    unfolding register_reads_def by (rule validate_spent [OF inv that])
  show "invitation_spent (rg_token i) (db w')" if "register_writes H i p w = (Inr v, w')" for v w'
    using that by (rule register_writes_Inr) (auto dest: invitation_consume_spends)
  show "isl (fst (register_writes H i p w))" if spent: "invitation_spent (rg_token i) (db w)"
  proof (rule ccontr)
    assume "\<not> isl (fst (register_writes H i p w))"
    then obtain x w' where "register_writes H i p w = (Inr x, w')"
      by (cases "register_writes H i p w"; cases "fst (register_writes H i p w)") auto
    then obtain v v' u where v: "invitations (db v) = invitations (db w)"
      "invitation_consume H (rg_token i) u v = (Inr (), v')" by (rule register_writes_Inr)
    have "isl (fst (invitation_consume H (rg_token i) u v))"
      by (rule invitation_spent_refused)
        (use v(1) inv spent in \<open>simp_all add: invitation_inv_def invitation_spent_def\<close>)
    with v(2) show False by simp
  qed
qed

subsection \<open>Rotations of a refresh token\<close>

lemma rotate_reads_run:
  "rotate_reads H raw w =
     (case active_session (hash_token H raw) (h_clock H (draws w)) (refresh_tokens (db w)) of
        None \<Rightarrow> (Inl (ApiException REFRESH_TOKEN_INVALID), w\<lparr>draws := Suc (draws w)\<rparr>)
      | Some m \<Rightarrow> (Inr (m, h_clock H (draws w)), w\<lparr>draws := Suc (draws w)\<rparr>))"
  by (simp add: rotate_reads_def session_find_active_by_hash_def active_session_def andThen_def svc split: option.split)

lemma rotate_writes_effect:
  "rotate_writes H raw (m, now) w = (r, w') \<Longrightarrow>
     draws w \<le> draws w' \<and>
     (if isl r then refresh_tokens (db w') = refresh_tokens (db w) \<or>
          refresh_tokens (db w') = revoke_row (rt_id m) now (refresh_tokens (db w))
      else refresh_tokens (db w') = revoke_row (rt_id m) now (refresh_tokens (db w)) @
            [new_session_row H (rt_user_id m) (draws w)] \<and> draws w < draws w' \<and>
          h_uuid H (draws w + 3) \<notin> rt_id ` set (refresh_tokens (db w)))"
  by (erule wp_use)
    (auto simp: wp rotate_writes_def session_defs revoke_row_def new_session_row_def issued_hash_def
      issued_raw_def image_update_where eval_nat_numeral split: option.splits)

interpretation rotating: checked_first "session_inv H" "\<lambda>raw. raw" "session_spent H"
  "rotate_reads H" "rotate_writes H" "session_other H" for H
proof unfold_locales
  fix w :: world and raw raw' :: string and p :: "refresh_token_row \<times> millis" and a
  assume inv: "session_inv H w"
  obtain m now where p: "p = (m, now)" by fastforce
  obtain r w' where run: "rotate_writes H raw p w = (r, w')" by fastforce
  note eff = rotate_writes_effect [OF run [unfolded p]]
  show "session_inv H (snd (rotate_reads H raw w))"
    by (rule session_inv_same [OF inv]) (simp_all add: rotate_reads_run split: option.split)
  show "session_inv H (snd (rotate_writes H raw p w))"
  proof (cases "isl r")
    case True
    with eff run inv show ?thesis by (auto intro: session_inv_same session_inv_revoke)
  next
    case False
    let ?w1 = "w\<lparr>db := (db w)\<lparr>refresh_tokens := revoke_row (rt_id m) now (refresh_tokens (db w))\<rparr>\<rparr>"
    have "session_inv H ?w1" by (rule session_inv_revoke [OF inv]) simp_all
    then have "session_inv H w'"
      by (rule session_inv_append [where k = "draws w" and u = "rt_user_id m"]) (use eff False in auto)
    with run show ?thesis by simp
  qed
  show "session_inv H (session_other H a w)" by (rule session_other_keeps [OF inv])
  show "session_spent H raw' (snd (rotate_reads H raw w))" if "session_spent H raw' w"
    using that by (simp add: rotate_reads_run session_spent_def split: option.split)
  show "session_spent H raw' (snd (rotate_writes H raw p w))" if "session_spent H raw' w"
    using eff run session_spent_mono [OF that, of w'] session_spent_append [OF that, of w' "[]"]
    by (auto split: if_splits intro: session_spent_mono [OF that, where rs = "[]"])
  show "session_spent H raw' (session_other H a w)" if "session_spent H raw' w"
    by (rule session_spent_other [OF that])
  show "isl (fst (rotate_reads H raw w))" if "session_spent H raw w"
  proof -
    from that obtain x where x: "x \<in> set (refresh_tokens (db w))"
      "rt_token_hash x = hash_token H raw" "rt_revoked_at x \<noteq> None"
      by (auto simp: session_spent_def)
    have "active_session (hash_token H raw) (h_clock H (draws w)) (refresh_tokens (db w)) = None"
      unfolding active_session_def find_None_set
      using inv x key_unique [of rt_token_hash "refresh_tokens (db w)" x]
      by (metis session_inv_def)
    then show ?thesis by (simp add: rotate_reads_run)
  qed
qed

text \<open>Two rotations of one active token whose checks both come before the first update.\<close>

theorem overlapping_rotations_both_succeed:
  assumes "\<not> in_tx w" and "h_commit H (calls w) = None"
    and "active_session (hash_token H raw) (h_clock H (draws w)) (refresh_tokens (db w)) = Some m"
    and "active_session (hash_token H raw) (h_clock H (draws w + 1)) (refresh_tokens (db w)) = Some m"
    and "user_exists (rt_user_id m) (db w)"
    and "h_uuid H (draws w + 5) \<notin> rt_id ` set (refresh_tokens (db w))"
    and "h_uuid H (draws w + 9) \<notin> rt_id ` set (refresh_tokens (db w))"
    and "h_uuid H (draws w + 5) \<noteq> h_uuid H (draws w + 9)"
  shows "fst (overlap_run (rotate_reads H) (rotate_writes H) (session_other H)
      [Begin 0 raw, Begin 1 raw, Finish 0, Finish 1] Map.empty w) =
    [(raw, Inr (rt_user_id m, \<lparr>irt_raw = issued_raw H (draws w + 2), irt_exp_ms = h_refresh_exp_ms H\<rparr>)),
     (raw, Inr (rt_user_id m, \<lparr>irt_raw = issued_raw H (draws w + 6), irt_exp_ms = h_refresh_exp_ms H\<rparr>))]"
  using assms
  by (simp add: rotate_reads_run rotate_writes_def session_defs svc run_in_tx_def tx_current_def
      db_transaction_def tx_run_def andThen_def image_update_where issued_raw_def eval_nat_numeral)

subsection \<open>Backup codes and approved challenges\<close>

lemma consume_reads_run:
  "consume_reads H (u, raw) w =
     (case find (\<lambda>c. h_bcrypt_compare H raw (bc_code_hash c)) (unused_of u (db w)) of
        None \<Rightarrow> (Inl (ApiException BACKUP_CODE_INVALID), w) | Some c \<Rightarrow> (Inr (bc_id c), w))"
  by (simp add: consume_reads_def backup_find_unused_def matched_code_eq unused_of_def andThen_def svc split: option.split)

text \<open>Two uses of one backup code at once are both accepted, and so are two claims of one challenge.\<close>

theorem overlapping_codes_both_accepted:
  assumes "\<exists>c\<in>set (unused_of u (db w)). h_bcrypt_compare H raw (bc_code_hash c)"
  shows "fst (overlap_run (consume_reads H) (consume_writes H) other
      [Begin 0 (u, raw), Begin 1 (u, raw), Finish 0, Finish 1] Map.empty w) = [((u, raw), Inr ()), ((u, raw), Inr ())]"
proof -
  from assms obtain c where "find (\<lambda>c. h_bcrypt_compare H raw (bc_code_hash c)) (unused_of u (db w)) = Some c"
    by (cases "find (\<lambda>c. h_bcrypt_compare H raw (bc_code_hash c)) (unused_of u (db w))") (auto simp: find_None_iff)
  then show ?thesis
    by (simp add: consume_reads_run consume_writes_def backup_mark_used_def andThen_def svc)
qed

theorem overlapping_claims_both_succeed:
  assumes "challenge_of cid (db w) = Some c" and "ch_status c = APPROVED"
  shows "fst (overlap_run claim_reads claim_writes other
      [Begin 0 cid, Begin 1 cid, Finish 0, Finish 1] Map.empty w) =
    [(cid, Inr (ch_user_id c)), (cid, Inr (ch_user_id c))]"
  using assms
  by (simp add: claim_reads_def claim_writes_def challenge_find_by_id_def challenge_of_def
      challenge_update_status_def andThen_def svc)

subsection \<open>Properties\<close>

text \<open>
  C7: However registrations overlap, and whatever invitations are created, validated or
  deactivated between their steps, at most one of them takes a given invitation.
\<close>

theorem invitation_taken_once_under_overlap:
  "distinct (map inv_token (invitations (db w))) \<Longrightarrow>
     successes rg_token t (fst (overlap_run (register_reads H) (register_writes H) (invitation_other H) es open_requests w)) \<le> 1"
  by (rule registering.overlapping_at_most_once) (simp add: invitation_inv_def)

theorem invitation_taken_once_under_overlap_witness:
  "successes rg_token (rg_token demo_register) (fst (overlap_run (register_reads demo_host) (register_writes demo_host)
     (invitation_other demo_host) [Begin 0 demo_register, Begin 1 (demo_register\<lparr>rg_username := ''eve''\<rparr>),
       Between (CreateInvitation ''ada'' None), Finish 1, Finish 0] Map.empty (demo_world demo_register_db))) \<le> 1"
  by (rule invitation_taken_once_under_overlap) (simp add: demo_register_db_def)

text \<open>
  A refresh token that has been rotated or revoked is refused to every request that begins
  afterwards, however requests overlap. (Two that begin before the first update are both served:
  \<open>overlapping_rotations_both_succeed\<close>.)
\<close>

theorem spent_token_refused_under_overlap:
  assumes "session_inv H w" and "session_spent H raw w"
  shows "successes (\<lambda>r. r) raw (fst (overlap_run (rotate_reads H) (rotate_writes H) (session_other H) es Map.empty w)) = 0"
  by (rule rotating.late_requests_fail [OF assms]) (simp add: rotating.none_open_def)

definition demo_spent_session :: database where
  "demo_spent_session = demo_sessions\<lparr>refresh_tokens :=
     revoke_row ''row'' 0 (refresh_tokens demo_sessions)\<rparr>"

lemma session_inv_demo_spent: "session_inv demo_host (demo_world demo_spent_session)"
  by (rule session_inv_revoke [OF session_inv_demo, of _ "''row''" 0]) (simp_all add: demo_spent_session_def)

theorem spent_token_refused_under_overlap_witness:
  "successes (\<lambda>r. r) ''token'' (fst (overlap_run (rotate_reads demo_host) (rotate_writes demo_host)
     (session_other demo_host) [Begin 0 ''token'', Between (IssueSession ''ada''), Begin 1 ''token'', Finish 0, Finish 1]
     Map.empty (demo_world demo_spent_session))) = 0"
  by (rule spent_token_refused_under_overlap [OF session_inv_demo_spent])
    (simp add: session_spent_def demo_spent_session_def demo_sessions_def revoke_row_def hash_token_def)

text \<open>The overlap of two rotations, on the active session of the example.\<close>

lemma overlapping_rotations_both_succeed_witness:
  "successes (\<lambda>r. r) ''token'' (fst (overlap_run (rotate_reads demo_host) (rotate_writes demo_host)
     (session_other demo_host) [Begin 0 ''token'', Begin 1 ''token'', Finish 0, Finish 1]
     Map.empty (demo_world demo_sessions))) = 2"
  by (subst overlapping_rotations_both_succeed [where m = "hd (refresh_tokens demo_sessions)"])
    (simp_all add: demo_sessions_def active_session_def hash_token_def user_exists_def demo_user_def eval_nat_numeral)

end
