(* ===== verification/JsonTypes.thy ===== *)
theory JsonTypes
  imports Prelude
begin

text \<open>
  The bodies of requests and answers as JSON values, and the part of TypeScript's type
  language that the generated types of the clients use, with the judgement that a value
  has a type. It is structural: a value may have more fields than its type names, as what
  is received may; a field that may be missing is marked \<open>?\<close> and is not the same as one
  that may be \<open>null\<close>.
\<close>

datatype json =
    JNull
  | JBool bool
  | JNumber int
  | JString string
  | JArray "json list"
  | JObject "(string \<times> json) list"

datatype ts =
    TString
  | TNumber
  | TBoolean
  | TNull
  | TUnknown
  | TLiteral string
  | TArray ts
  | TRecord ts
  | TUnion "ts list"
  | TObject "(string \<times> bool \<times> ts) list"

text \<open>A field \<open>k: t\<close> and one \<open>k?: t\<close>.\<close>

definition field :: "string \<Rightarrow> ts \<Rightarrow> string \<times> bool \<times> ts" where
  "field k t = (k, False, t)"

definition optional :: "string \<Rightarrow> ts \<Rightarrow> string \<times> bool \<times> ts" where
  "optional k t = (k, True, t)"

text \<open>The recursion of the judgement is on the type: a field's type is smaller than the object's, and so on.\<close>

lemma field_size: "f \<in> set fs \<Longrightarrow> size (snd (snd f)) < size (TObject fs)"
  by (induction fs) auto

function has_type :: "ts \<Rightarrow> json \<Rightarrow> bool" where
  "has_type TString j = (case j of JString _ \<Rightarrow> True | _ \<Rightarrow> False)"
| "has_type TNumber j = (case j of JNumber _ \<Rightarrow> True | _ \<Rightarrow> False)"
| "has_type TBoolean j = (case j of JBool _ \<Rightarrow> True | _ \<Rightarrow> False)"
| "has_type TNull j = (j = JNull)"
| "has_type TUnknown j = True"
| "has_type (TLiteral s) j = (j = JString s)"
| "has_type (TArray t) j = (case j of JArray js \<Rightarrow> list_all (has_type t) js | _ \<Rightarrow> False)"
| "has_type (TRecord t) j = (case j of JObject m \<Rightarrow> list_all (\<lambda>f. has_type t (snd f)) m | _ \<Rightarrow> False)"
| "has_type (TUnion ts) j = list_ex (\<lambda>t. has_type t j) ts"
| "has_type (TObject fs) j = (case j of
     JObject m \<Rightarrow> list_all (\<lambda>f. case map_of m (fst f) of
       None \<Rightarrow> fst (snd f)
     | Some v \<Rightarrow> has_type (snd (snd f)) v) fs
   | _ \<Rightarrow> False)"
  by pat_completeness auto

termination
  by (relation "measure (size \<circ> fst)")
    (auto simp: less_Suc_eq_le dest!: field_size intro: size_list_estimation' [OF _ order_refl])

subsection \<open>What an operation declares\<close>

text \<open>
  The type a response is declared with by name: a DTO, an array of one, any object, or
  \<open>unknown\<close>.
\<close>

definition type_named :: "(string \<times> ts) list \<Rightarrow> string \<Rightarrow> ts option" where
  "type_named types n =
     (if n = ''object'' then Some (TRecord TUnknown)
      else if n = ''unknown'' then Some TUnknown
      else if drop (length n - 2) n = ''[]'' then map_option TArray (map_of types (take (length n - 2) n))
      else map_of types n)"

text \<open>
  An answer with a status and a body, or none, is one of the responses that are declared:
  no body where the type is \<open>void\<close> or \<open>unknown\<close>, or else a body of one of the types.
\<close>

definition declared :: "(string \<times> ts) list \<Rightarrow> (nat \<times> string list) list \<Rightarrow> nat \<Rightarrow> json option \<Rightarrow> bool" where
  "declared types responses status body \<longleftrightarrow> (case map_of responses status of
     None \<Rightarrow> False
   | Some ns \<Rightarrow> (case body of
       None \<Rightarrow> ns = [] \<or> ns = [''unknown'']
     | Some j \<Rightarrow> list_ex (\<lambda>n. case type_named types n of None \<Rightarrow> False | Some t \<Rightarrow> has_type t j) ns))"

text \<open>A column or field that may be \<open>null\<close>, and a list.\<close>

definition or_null :: "('a \<Rightarrow> json) \<Rightarrow> 'a option \<Rightarrow> json" where
  "or_null f x = (case x of None \<Rightarrow> JNull | Some v \<Rightarrow> f v)"

definition json_list :: "('a \<Rightarrow> json) \<Rightarrow> 'a list \<Rightarrow> json" where
  "json_list f xs = JArray (map f xs)"

end
