(* ===== verification/WebTypes.thy ===== *)
theory WebTypes
  imports JsonTypes
begin

text \<open>
  The types of bodies and answers in the web client's generated API client
  (\<open>src/services/web/src/shared/api/generated/types.gen.ts\<close>), one definition each; the types of
  its operations are in \<open>WebSdk\<close>.
\<close>

definition web_client_options :: ts where
  "web_client_options = TObject [field ''baseURL'' TString]"

definition web_user_dto :: ts where
  "web_user_dto = TObject [field ''id'' TString, field ''permissions'' (TArray TString), field ''username'' TString,
     field ''nickname'' TString]"

definition web_error_response_dto :: ts where
  "web_error_response_dto = TObject [field ''code'' TString, field ''message'' TString]"

definition web_device_response_dto :: ts where
  "web_device_response_dto = TObject [field ''id'' TString, optional ''userAgent'' TString, field ''createdAt'' TString]"

definition web_register_device_body_dto :: ts where
  "web_register_device_body_dto = TObject [field ''pushToken'' TString]"

definition web_trusted_device_response_dto :: ts where
  "web_trusted_device_response_dto = TObject [field ''id'' TString, optional ''userAgent'' TString, field ''createdAt'' TString]"

definition web_challenge_status_pending_dto :: ts where
  "web_challenge_status_pending_dto = TObject [field ''status'' (TLiteral ''PENDING''), field ''options'' (TArray TString),
     field ''correctNum'' TString, field ''remainingSeconds'' TNumber]"

definition web_challenge_status_approved_dto :: ts where
  "web_challenge_status_approved_dto = TObject [field ''status'' (TLiteral ''APPROVED''), field ''userId'' TString]"

definition web_challenge_status_denied_dto :: ts where
  "web_challenge_status_denied_dto = TObject [field ''status'' (TLiteral ''DENIED'')]"

definition web_challenge_status_expired_dto :: ts where
  "web_challenge_status_expired_dto = TObject [field ''status'' (TLiteral ''EXPIRED'')]"

definition web_respond_challenge_body_dto :: ts where
  "web_respond_challenge_body_dto = TObject [field ''selectedNumber'' TString]"

definition web_resend_challenge_response_dto :: ts where
  "web_resend_challenge_response_dto = TObject [field ''challengeId'' TString, field ''options'' (TArray TString), field ''expiresAt'' TString]"

definition web_complete_challenge_body_dto :: ts where
  "web_complete_challenge_body_dto = TObject [optional ''type'' (TRecord TUnknown), optional ''code'' TString, optional ''trustDevice'' TBoolean]"

definition web_authenticated_response_dto :: ts where
  "web_authenticated_response_dto = TObject [field ''status'' (TLiteral ''AUTHENTICATED''), field ''accessToken'' TString,
     field ''user'' web_user_dto]"

definition web_totp_setup_pending_dto :: ts where
  "web_totp_setup_pending_dto = TObject [field ''status'' (TLiteral ''PENDING''), field ''secret'' TString, field ''otpauthUri'' TString]"

definition web_totp_setup_enrolled_dto :: ts where
  "web_totp_setup_enrolled_dto = TObject [field ''status'' (TLiteral ''ENROLLED''), field ''id'' TString]"

definition web_totp_setup_complete_body_dto :: ts where
  "web_totp_setup_complete_body_dto = TObject [field ''secret'' TString, field ''code'' TString]"

definition web_totp_instance_dto :: ts where
  "web_totp_instance_dto = TObject [field ''id'' TString, field ''lastUsedAt'' (TUnion [TString, TNull]), field ''createdAt'' TString]"

definition web_totp_list_response_dto :: ts where
  "web_totp_list_response_dto = TObject [field ''instances'' (TArray web_totp_instance_dto)]"

definition web_backup_code_regenerate_body_dto :: ts where
  "web_backup_code_regenerate_body_dto = TObject [field ''currentPassword'' TString]"

definition web_backup_code_regenerate_response_dto :: ts where
  "web_backup_code_regenerate_response_dto = TObject [field ''backupCodes'' (TArray TString)]"

definition web_create_invitation_body_dto :: ts where
  "web_create_invitation_body_dto = TObject [optional ''expiresInDays'' TNumber]"

definition web_invitation_response_dto :: ts where
  "web_invitation_response_dto = TObject [field ''token'' TString, field ''url'' TString, field ''expiresAt'' TString]"

definition web_validate_invitation_response_dto :: ts where
  "web_validate_invitation_response_dto = TObject [field ''valid'' TBoolean]"

definition web_two_fa_required_response_dto :: ts where
  "web_two_fa_required_response_dto = TObject [field ''status'' (TLiteral ''2FA_REQUIRED''), field ''challengeId'' TString,
     field ''options'' (TArray TString), field ''expiresAt'' TString]"

definition web_register_body_dto :: ts where
  "web_register_body_dto = TObject [field ''token'' TString, field ''username'' TString, field ''nickname'' TString,
     field ''password'' TString]"

definition web_register_response_dto :: ts where
  "web_register_response_dto = TObject [field ''accessToken'' TString, field ''user'' web_user_dto, field ''backupCodes'' (TArray TString)]"

definition web_login_body_dto :: ts where
  "web_login_body_dto = TObject [field ''username'' TString, field ''password'' TString, optional ''trustDevice'' TBoolean]"

definition web_backup_login_body_dto :: ts where
  "web_backup_login_body_dto = TObject [field ''username'' TString, field ''password'' TString, field ''backupCode'' TString]"

definition web_logout_body_dto :: ts where
  "web_logout_body_dto = TObject [optional ''pushToken'' TString]"

definition web_folder_item_dto :: ts where
  "web_folder_item_dto = TObject [field ''id'' TString, field ''parentId'' (TUnion [TString, TNull]), field ''name'' TString,
     field ''createdAt'' TString, field ''updatedAt'' TString]"

definition web_file_item_dto :: ts where
  "web_file_item_dto = TObject [field ''id'' TString, field ''folderId'' (TUnion [TString, TNull]), field ''name'' TString,
     field ''size'' TNumber, field ''mimeType'' TString, field ''createdAt'' TString,
     field ''updatedAt'' TString]"

definition web_folder_children_response_dto :: ts where
  "web_folder_children_response_dto = TObject [field ''folders'' (TArray web_folder_item_dto), field ''files'' (TArray web_file_item_dto)]"

definition web_create_folder_body_dto :: ts where
  "web_create_folder_body_dto = TObject [field ''name'' TString, field ''parentId'' (TUnion [TString, TNull])]"

definition web_rename_folder_body_dto :: ts where
  "web_rename_folder_body_dto = TObject [field ''name'' TString]"

definition web_move_folder_body_dto :: ts where
  "web_move_folder_body_dto = TObject [field ''parentId'' (TUnion [TString, TNull])]"

definition web_object :: ts where
  "web_object = TRecord TUnknown"

definition web_file_search_response_dto :: ts where
  "web_file_search_response_dto = TObject [field ''files'' (TArray web_file_item_dto)]"

definition web_rename_file_body_dto :: ts where
  "web_rename_file_body_dto = TObject [field ''name'' TString]"

definition web_move_file_body_dto :: ts where
  "web_move_file_body_dto = TObject [field ''folderId'' (TUnion [TString, TNull])]"

definition web_zip_download_body_dto :: ts where
  "web_zip_download_body_dto = TObject [field ''fileIds'' (TArray TString)]"

definition web_upload_init_body_dto :: ts where
  "web_upload_init_body_dto = TObject [field ''size'' TNumber, optional ''folderId'' TString, field ''name'' TString,
     field ''mimeType'' TString]"

definition web_upload_part_dto :: ts where
  "web_upload_part_dto = TObject [field ''partNumber'' TNumber, field ''uploadUrl'' TString]"

definition web_upload_init_response_dto :: ts where
  "web_upload_init_response_dto = TObject [field ''sessionId'' TString, field ''uploadHeaders'' (TRecord TString),
     field ''parts'' (TArray web_upload_part_dto), field ''expiresAt'' TString]"

definition web_upload_complete_part_dto :: ts where
  "web_upload_complete_part_dto = TObject [field ''partNumber'' TNumber, field ''etag'' TString]"

definition web_upload_complete_body_dto :: ts where
  "web_upload_complete_body_dto = TObject [field ''parts'' (TArray web_upload_complete_part_dto)]"

definition web_trash_item_dto :: ts where
  "web_trash_item_dto = TObject [field ''id'' TString, field ''type'' (TUnion [TLiteral ''file'', TLiteral ''folder'']),
     field ''name'' TString, field ''deletedAt'' TString]"

definition web_trash_list_response_dto :: ts where
  "web_trash_list_response_dto = TObject [field ''items'' (TArray web_trash_item_dto)]"

definition web_trash_action_body_dto :: ts where
  "web_trash_action_body_dto = TObject [field ''type'' (TRecord TUnknown)]"

definition web_drive_dto :: ts where
  "web_drive_dto = TObject [field ''id'' TString, field ''kind'' (TLiteral ''PRIVATE''), field ''name'' TString,
     field ''mountPath'' TString, field ''createdAt'' TString]"

definition web_issue_mount_credential_dto :: ts where
  "web_issue_mount_credential_dto = TObject [optional ''driveId'' TString]"

definition web_issue_mount_credential_response_dto :: ts where
  "web_issue_mount_credential_response_dto = TObject [field ''id'' TString, field ''driveId'' TString, field ''protocol'' (TLiteral ''iscsi''),
     field ''iqn'' (TUnion [TString, TNull]), field ''password'' TString, field ''script'' TString,
     field ''osUsername'' TString, field ''portalHost'' TString, field ''portalPort'' TNumber,
     field ''createdAt'' TString]"

definition web_mount_credential_dto :: ts where
  "web_mount_credential_dto = TObject [field ''id'' TString, field ''driveId'' TString, field ''protocol'' (TLiteral ''iscsi''),
     field ''iqn'' (TUnion [TString, TNull]), field ''osUsername'' TString,
     field ''portalHost'' TString, field ''portalPort'' TNumber, field ''createdAt'' TString]"

definition web_types :: "(string \<times> ts) list" where
  "web_types = [
     (''UserDto'', web_user_dto), (''ErrorResponseDto'', web_error_response_dto),
     (''DeviceResponseDto'', web_device_response_dto),
     (''RegisterDeviceBodyDto'', web_register_device_body_dto),
     (''TrustedDeviceResponseDto'', web_trusted_device_response_dto),
     (''ChallengeStatusPendingDto'', web_challenge_status_pending_dto),
     (''ChallengeStatusApprovedDto'', web_challenge_status_approved_dto),
     (''ChallengeStatusDeniedDto'', web_challenge_status_denied_dto),
     (''ChallengeStatusExpiredDto'', web_challenge_status_expired_dto),
     (''RespondChallengeBodyDto'', web_respond_challenge_body_dto),
     (''ResendChallengeResponseDto'', web_resend_challenge_response_dto),
     (''CompleteChallengeBodyDto'', web_complete_challenge_body_dto),
     (''AuthenticatedResponseDto'', web_authenticated_response_dto),
     (''TotpSetupPendingDto'', web_totp_setup_pending_dto),
     (''TotpSetupEnrolledDto'', web_totp_setup_enrolled_dto),
     (''TotpSetupCompleteBodyDto'', web_totp_setup_complete_body_dto),
     (''TotpInstanceDto'', web_totp_instance_dto),
     (''TotpListResponseDto'', web_totp_list_response_dto),
     (''BackupCodeRegenerateBodyDto'', web_backup_code_regenerate_body_dto),
     (''BackupCodeRegenerateResponseDto'', web_backup_code_regenerate_response_dto),
     (''CreateInvitationBodyDto'', web_create_invitation_body_dto),
     (''InvitationResponseDto'', web_invitation_response_dto),
     (''ValidateInvitationResponseDto'', web_validate_invitation_response_dto),
     (''TwoFaRequiredResponseDto'', web_two_fa_required_response_dto),
     (''RegisterBodyDto'', web_register_body_dto), (''RegisterResponseDto'', web_register_response_dto),
     (''LoginBodyDto'', web_login_body_dto), (''BackupLoginBodyDto'', web_backup_login_body_dto),
     (''LogoutBodyDto'', web_logout_body_dto), (''FolderItemDto'', web_folder_item_dto),
     (''FileItemDto'', web_file_item_dto),
     (''FolderChildrenResponseDto'', web_folder_children_response_dto),
     (''CreateFolderBodyDto'', web_create_folder_body_dto),
     (''RenameFolderBodyDto'', web_rename_folder_body_dto),
     (''MoveFolderBodyDto'', web_move_folder_body_dto), (''Object'', web_object),
     (''FileSearchResponseDto'', web_file_search_response_dto),
     (''RenameFileBodyDto'', web_rename_file_body_dto), (''MoveFileBodyDto'', web_move_file_body_dto),
     (''ZipDownloadBodyDto'', web_zip_download_body_dto),
     (''UploadInitBodyDto'', web_upload_init_body_dto), (''UploadPartDto'', web_upload_part_dto),
     (''UploadInitResponseDto'', web_upload_init_response_dto),
     (''UploadCompletePartDto'', web_upload_complete_part_dto),
     (''UploadCompleteBodyDto'', web_upload_complete_body_dto), (''TrashItemDto'', web_trash_item_dto),
     (''TrashListResponseDto'', web_trash_list_response_dto),
     (''TrashActionBodyDto'', web_trash_action_body_dto), (''DriveDto'', web_drive_dto),
     (''IssueMountCredentialDto'', web_issue_mount_credential_dto),
     (''IssueMountCredentialResponseDto'', web_issue_mount_credential_response_dto),
     (''MountCredentialDto'', web_mount_credential_dto)]"

end
