(* ===== verification/AdminTypes.thy ===== *)
theory AdminTypes
  imports JsonTypes
begin

text \<open>
  The types of bodies and answers in the admin client's generated API client
  (\<open>src/services/admin/src/shared/api/generated/types.gen.ts\<close>), which was generated from an older API.
\<close>

definition admin_client_options :: ts where
  "admin_client_options = TObject [field ''baseURL'' TString]"

definition admin_user_dto :: ts where
  "admin_user_dto = TObject [field ''id'' TString, field ''username'' TString, field ''nickname'' TString,
     field ''permissions'' (TArray TString)]"

definition admin_authenticated_response_dto :: ts where
  "admin_authenticated_response_dto = TObject [field ''status'' (TLiteral ''AUTHENTICATED''), field ''accessToken'' TString,
     field ''user'' admin_user_dto]"

definition admin_two_fa_required_response_dto :: ts where
  "admin_two_fa_required_response_dto = TObject [field ''status'' (TLiteral ''2FA_REQUIRED''), field ''challengeId'' TString,
     field ''options'' (TArray TString), field ''expiresAt'' TString]"

definition admin_register_body_dto :: ts where
  "admin_register_body_dto = TObject [field ''token'' TString, field ''username'' TString, field ''nickname'' TString,
     field ''password'' TString]"

definition admin_register_response_dto :: ts where
  "admin_register_response_dto = TObject [field ''accessToken'' TString, field ''user'' admin_user_dto,
     field ''backupCodes'' (TArray TString)]"

definition admin_error_response_dto :: ts where
  "admin_error_response_dto = TObject [field ''code'' TString, field ''message'' TString]"

definition admin_login_body_dto :: ts where
  "admin_login_body_dto = TObject [field ''username'' TString, field ''password'' TString]"

definition admin_backup_login_body_dto :: ts where
  "admin_backup_login_body_dto = TObject [field ''username'' TString, field ''password'' TString, field ''backupCode'' TString]"

definition admin_device_response_dto :: ts where
  "admin_device_response_dto = TObject [field ''id'' TString, optional ''userAgent'' TString, field ''createdAt'' TString]"

definition admin_register_device_body_dto :: ts where
  "admin_register_device_body_dto = TObject [field ''pushToken'' TString]"

definition admin_challenge_status_pending_dto :: ts where
  "admin_challenge_status_pending_dto = TObject [field ''status'' (TLiteral ''PENDING''), field ''options'' (TArray TString),
     field ''correctNum'' TString, field ''remainingSeconds'' TNumber]"

definition admin_challenge_status_approved_dto :: ts where
  "admin_challenge_status_approved_dto = TObject [field ''status'' (TLiteral ''APPROVED''), field ''accessToken'' TString,
     field ''user'' admin_user_dto]"

definition admin_challenge_status_denied_dto :: ts where
  "admin_challenge_status_denied_dto = TObject [field ''status'' (TLiteral ''DENIED'')]"

definition admin_challenge_status_expired_dto :: ts where
  "admin_challenge_status_expired_dto = TObject [field ''status'' (TLiteral ''EXPIRED'')]"

definition admin_respond_challenge_body_dto :: ts where
  "admin_respond_challenge_body_dto = TObject [field ''selectedNumber'' TString]"

definition admin_resend_challenge_response_dto :: ts where
  "admin_resend_challenge_response_dto = TObject [field ''challengeId'' TString, field ''options'' (TArray TString), field ''expiresAt'' TString]"

definition admin_trusted_device_response_dto :: ts where
  "admin_trusted_device_response_dto = TObject [field ''id'' TString, optional ''userAgent'' TString, field ''createdAt'' TString]"

definition admin_create_invitation_body_dto :: ts where
  "admin_create_invitation_body_dto = TObject [optional ''expiresInDays'' TNumber]"

definition admin_invitation_response_dto :: ts where
  "admin_invitation_response_dto = TObject [field ''token'' TString, field ''url'' TString, field ''expiresAt'' TString]"

definition admin_validate_invitation_response_dto :: ts where
  "admin_validate_invitation_response_dto = TObject [field ''valid'' TBoolean]"

definition admin_folder_item_dto :: ts where
  "admin_folder_item_dto = TObject [field ''id'' TString, field ''parentId'' (TUnion [TString, TNull]), field ''name'' TString,
     field ''createdAt'' TString, field ''updatedAt'' TString]"

definition admin_file_item_dto :: ts where
  "admin_file_item_dto = TObject [field ''id'' TString, field ''folderId'' (TUnion [TString, TNull]), field ''name'' TString,
     field ''size'' TNumber, field ''mimeType'' TString, field ''createdAt'' TString,
     field ''updatedAt'' TString]"

definition admin_folder_children_response_dto :: ts where
  "admin_folder_children_response_dto = TObject [field ''folders'' (TArray admin_folder_item_dto), field ''files'' (TArray admin_file_item_dto)]"

definition admin_create_folder_body_dto :: ts where
  "admin_create_folder_body_dto = TObject [field ''name'' TString, field ''parentId'' (TUnion [TString, TNull])]"

definition admin_rename_folder_body_dto :: ts where
  "admin_rename_folder_body_dto = TObject [field ''name'' TString]"

definition admin_move_folder_body_dto :: ts where
  "admin_move_folder_body_dto = TObject [field ''parentId'' (TUnion [TString, TNull])]"

definition admin_file_search_response_dto :: ts where
  "admin_file_search_response_dto = TObject [field ''files'' (TArray admin_file_item_dto)]"

definition admin_rename_file_body_dto :: ts where
  "admin_rename_file_body_dto = TObject [field ''name'' TString]"

definition admin_move_file_body_dto :: ts where
  "admin_move_file_body_dto = TObject [field ''folderId'' (TUnion [TString, TNull])]"

definition admin_zip_download_body_dto :: ts where
  "admin_zip_download_body_dto = TObject [field ''fileIds'' (TArray TString)]"

definition admin_upload_init_body_dto :: ts where
  "admin_upload_init_body_dto = TObject [field ''size'' TNumber, optional ''folderId'' TString, field ''name'' TString,
     field ''mimeType'' TString]"

definition admin_upload_part_dto :: ts where
  "admin_upload_part_dto = TObject [field ''partNumber'' TNumber, field ''uploadUrl'' TString]"

definition admin_upload_init_response_dto :: ts where
  "admin_upload_init_response_dto = TObject [field ''sessionId'' TString, field ''uploadHeaders'' (TRecord TString),
     field ''parts'' (TArray admin_upload_part_dto), field ''expiresAt'' TString]"

definition admin_upload_complete_part_dto :: ts where
  "admin_upload_complete_part_dto = TObject [field ''partNumber'' TNumber, field ''etag'' TString]"

definition admin_upload_complete_body_dto :: ts where
  "admin_upload_complete_body_dto = TObject [field ''parts'' (TArray admin_upload_complete_part_dto)]"

definition admin_trash_item_dto :: ts where
  "admin_trash_item_dto = TObject [field ''id'' TString, field ''type'' (TUnion [TLiteral ''file'', TLiteral ''folder'']),
     field ''name'' TString, field ''deletedAt'' TString]"

definition admin_trash_list_response_dto :: ts where
  "admin_trash_list_response_dto = TObject [field ''items'' (TArray admin_trash_item_dto)]"

definition admin_trash_action_body_dto :: ts where
  "admin_trash_action_body_dto = TObject [field ''type'' (TUnion [TLiteral ''file'', TLiteral ''folder''])]"

definition admin_admin_user_list_item_dto :: ts where
  "admin_admin_user_list_item_dto = TObject [field ''id'' TString, field ''username'' TString, field ''nickname'' TString,
     field ''createdAt'' TString, field ''roleNames'' (TArray TString)]"

definition admin_admin_user_list_response_dto :: ts where
  "admin_admin_user_list_response_dto = TObject [field ''items'' (TArray admin_admin_user_list_item_dto), field ''total'' TNumber,
     field ''limit'' TNumber, field ''offset'' TNumber]"

definition admin_list_users_query_dto :: ts where
  "admin_list_users_query_dto = TObject [optional ''limit'' TNumber, optional ''offset'' TNumber]"

definition admin_types :: "(string \<times> ts) list" where
  "admin_types = [
     (''UserDto'', admin_user_dto), (''AuthenticatedResponseDto'', admin_authenticated_response_dto),
     (''TwoFaRequiredResponseDto'', admin_two_fa_required_response_dto),
     (''RegisterBodyDto'', admin_register_body_dto),
     (''RegisterResponseDto'', admin_register_response_dto),
     (''ErrorResponseDto'', admin_error_response_dto), (''LoginBodyDto'', admin_login_body_dto),
     (''BackupLoginBodyDto'', admin_backup_login_body_dto),
     (''DeviceResponseDto'', admin_device_response_dto),
     (''RegisterDeviceBodyDto'', admin_register_device_body_dto),
     (''ChallengeStatusPendingDto'', admin_challenge_status_pending_dto),
     (''ChallengeStatusApprovedDto'', admin_challenge_status_approved_dto),
     (''ChallengeStatusDeniedDto'', admin_challenge_status_denied_dto),
     (''ChallengeStatusExpiredDto'', admin_challenge_status_expired_dto),
     (''RespondChallengeBodyDto'', admin_respond_challenge_body_dto),
     (''ResendChallengeResponseDto'', admin_resend_challenge_response_dto),
     (''TrustedDeviceResponseDto'', admin_trusted_device_response_dto),
     (''CreateInvitationBodyDto'', admin_create_invitation_body_dto),
     (''InvitationResponseDto'', admin_invitation_response_dto),
     (''ValidateInvitationResponseDto'', admin_validate_invitation_response_dto),
     (''FolderItemDto'', admin_folder_item_dto), (''FileItemDto'', admin_file_item_dto),
     (''FolderChildrenResponseDto'', admin_folder_children_response_dto),
     (''CreateFolderBodyDto'', admin_create_folder_body_dto),
     (''RenameFolderBodyDto'', admin_rename_folder_body_dto),
     (''MoveFolderBodyDto'', admin_move_folder_body_dto),
     (''FileSearchResponseDto'', admin_file_search_response_dto),
     (''RenameFileBodyDto'', admin_rename_file_body_dto),
     (''MoveFileBodyDto'', admin_move_file_body_dto),
     (''ZipDownloadBodyDto'', admin_zip_download_body_dto),
     (''UploadInitBodyDto'', admin_upload_init_body_dto), (''UploadPartDto'', admin_upload_part_dto),
     (''UploadInitResponseDto'', admin_upload_init_response_dto),
     (''UploadCompletePartDto'', admin_upload_complete_part_dto),
     (''UploadCompleteBodyDto'', admin_upload_complete_body_dto),
     (''TrashItemDto'', admin_trash_item_dto),
     (''TrashListResponseDto'', admin_trash_list_response_dto),
     (''TrashActionBodyDto'', admin_trash_action_body_dto),
     (''AdminUserListItemDto'', admin_admin_user_list_item_dto),
     (''AdminUserListResponseDto'', admin_admin_user_list_response_dto),
     (''ListUsersQueryDto'', admin_list_users_query_dto)]"

end
