(* ===== verification/Answers.thy ===== *)
theory Answers
  imports Routes JsonTypes
begin

text \<open>
  What the API answers: the JSON of every response class under \<open>src/services/api/src\<close>
  (\<open>JSON.stringify\<close> of what a handler returns: a date is its ISO string, an absent value of
  a column is \<open>null\<close>), and the answer of every route with a JSON body or none, as one function
  of the request.
\<close>

subsection \<open>Responses as JSON\<close>

definition json_date :: "millis \<Rightarrow> json" where
  "json_date t = JString (iso_string t)"

definition json_user :: "user_dto \<Rightarrow> json" where
  "json_user u = JObject [(''id'', JString (ud_id u)), (''username'', JString (ud_username u)),
     (''nickname'', JString (ud_nickname u)), (''permissions'', json_list JString (ud_permissions u))]"

definition json_login :: "login_response \<Rightarrow> json" where
  "json_login r = (case r of
     AUTHENTICATED accessToken user \<Rightarrow> JObject [(''status'', JString ''AUTHENTICATED''),
       (''accessToken'', JString accessToken), (''user'', json_user user)]
   | TWOFA_REQUIRED challengeId options expiresAt \<Rightarrow> JObject [(''status'', JString ''2FA_REQUIRED''),
       (''challengeId'', JString challengeId), (''options'', json_list JString options), (''expiresAt'', json_date expiresAt)])"

definition json_register :: "register_response \<Rightarrow> json" where
  "json_register r = JObject [(''accessToken'', JString (rgr_access_token r)), (''user'', json_user (rgr_user r)),
     (''backupCodes'', json_list JString (rgr_backup_codes r))]"

definition json_device :: "device_response \<Rightarrow> json" where
  "json_device r = JObject [(''id'', JString (der_id r)), (''userAgent'', or_null JString (der_user_agent r)),
     (''createdAt'', json_date (der_created_at r))]"

definition json_trusted_device :: "trusted_device_response \<Rightarrow> json" where
  "json_trusted_device r = JObject [(''id'', JString (tdr_id r)), (''userAgent'', or_null JString (tdr_user_agent r)),
     (''createdAt'', json_date (tdr_created_at r))]"

definition json_status :: "challenge_status_response \<Rightarrow> json" where
  "json_status r = (case r of
     StatusPending options correctNum remainingSeconds \<Rightarrow> JObject [(''status'', JString ''PENDING''),
       (''options'', json_list JString options), (''correctNum'', JString correctNum),
       (''remainingSeconds'', JNumber remainingSeconds)]
   | StatusApproved userId \<Rightarrow> JObject [(''status'', JString ''APPROVED''), (''userId'', JString userId)]
   | StatusDenied \<Rightarrow> JObject [(''status'', JString ''DENIED'')]
   | StatusExpired \<Rightarrow> JObject [(''status'', JString ''EXPIRED'')])"

definition json_resend :: "resend_response \<Rightarrow> json" where
  "json_resend r = JObject [(''challengeId'', JString (rr_challenge_id r)), (''options'', json_list JString (rr_options r)),
     (''expiresAt'', json_date (rr_expires_at r))]"

definition json_totp_setup :: "setup_start_result \<Rightarrow> json" where
  "json_totp_setup r = (case r of
     SetupEnrolled i \<Rightarrow> JObject [(''status'', JString ''ENROLLED''), (''id'', JString i)]
   | SetupPending secret otpauthUri \<Rightarrow> JObject [(''status'', JString ''PENDING''), (''secret'', JString secret),
       (''otpauthUri'', JString otpauthUri)])"

definition json_totp_list :: "strategy_instance list \<Rightarrow> json" where
  "json_totp_list is = JObject [(''instances'', json_list (\<lambda>i. JObject [(''id'', JString (si_id i)),
     (''createdAt'', json_date (si_created_at i)), (''lastUsedAt'', or_null json_date (si_last_used_at i))]) is)]"

definition json_backup_codes :: "string list \<Rightarrow> json" where
  "json_backup_codes codes = JObject [(''backupCodes'', json_list JString codes)]"

definition json_invitation :: "invitation_response \<Rightarrow> json" where
  "json_invitation r = JObject [(''token'', JString (ir_token r)), (''url'', JString (ir_url r)),
     (''expiresAt'', json_date (ir_expires_at r))]"

definition json_validity :: "bool \<Rightarrow> json" where
  "json_validity valid = JObject [(''valid'', JBool valid)]"

definition json_folder_item :: "folder_item \<Rightarrow> json" where
  "json_folder_item f = JObject [(''id'', JString (foi_id f)), (''name'', JString (foi_name f)),
     (''parentId'', or_null JString (foi_parent_id f)), (''createdAt'', json_date (foi_created_at f)),
     (''updatedAt'', json_date (foi_updated_at f))]"

definition json_file_item :: "file_item \<Rightarrow> json" where
  "json_file_item f = JObject [(''id'', JString (fii_id f)), (''name'', JString (fii_name f)),
     (''folderId'', or_null JString (fii_folder_id f)), (''size'', JNumber (fii_size f)),
     (''mimeType'', JString (fii_mime_type f)), (''createdAt'', json_date (fii_created_at f)),
     (''updatedAt'', json_date (fii_updated_at f))]"

text \<open>A file of a listing is a whole row (\<open>{ ...r }\<close>).\<close>

definition json_file_row :: "file_row \<Rightarrow> json" where
  "json_file_row f = JObject [(''id'', JString (fi_id f)), (''userId'', JString (fi_user_id f)),
     (''folderId'', or_null JString (fi_folder_id f)), (''name'', JString (fi_name f)),
     (''minioKey'', JString (fi_minio_key f)), (''size'', JNumber (fi_size f)), (''mimeType'', JString (fi_mime_type f)),
     (''softDeletedAt'', or_null json_date (fi_soft_deleted_at f)), (''createdAt'', json_date (fi_created_at f)),
     (''updatedAt'', json_date (fi_updated_at f))]"

definition json_children :: "folder_children \<Rightarrow> json" where
  "json_children c = JObject [(''folders'', json_list json_folder_item (fc_folders c)),
     (''files'', json_list json_file_row (fc_files c))]"

definition json_search :: "file_item list \<Rightarrow> json" where
  "json_search fs = JObject [(''files'', json_list json_file_item fs)]"

definition json_upload_init :: "upload_init_response \<Rightarrow> json" where
  "json_upload_init r = JObject [(''sessionId'', JString (uir_session_id r)),
     (''parts'', json_list (\<lambda>(partNumber, uploadUrl). JObject [(''partNumber'', JNumber (int partNumber)),
        (''uploadUrl'', JString uploadUrl)]) (uir_parts r)),
     (''uploadHeaders'', JObject [(''Content-Type'', JString (uir_content_type r))]),
     (''expiresAt'', json_date (uir_expires_at r))]"

definition json_trash_type :: "trash_type \<Rightarrow> json" where
  "json_trash_type t = JString (case t of TrashFile \<Rightarrow> ''file'' | TrashFolder \<Rightarrow> ''folder'')"

definition json_trash :: "trash_item list \<Rightarrow> json" where
  "json_trash is = JObject [(''items'', json_list (\<lambda>i. JObject [(''id'', JString (ti_id i)),
     (''type'', json_trash_type (ti_type i)), (''name'', JString (ti_name i)),
     (''deletedAt'', json_date (ti_deleted_at i))]) is)]"

definition json_drive :: "drive_dto \<Rightarrow> json" where
  "json_drive d = JObject [(''id'', JString (dd_id d)), (''name'', JString (dd_name d)), (''kind'', JString (dd_kind d)),
     (''mountPath'', JString (dd_mount_path d)), (''createdAt'', json_date (dd_created_at d))]"

text \<open>A port that is not a number is \<open>NaN\<close>, which \<open>JSON.stringify\<close> writes as \<open>null\<close>.\<close>

definition credential_fields :: "mount_credential_dto \<Rightarrow> (string \<times> json) list" where
  "credential_fields m = [(''id'', JString (md_id m)), (''driveId'', JString (md_drive_id m)),
     (''protocol'', JString (md_protocol m)), (''osUsername'', JString (md_os_username m)),
     (''iqn'', or_null JString (md_iqn m)), (''portalHost'', JString (md_portal_host m)),
     (''portalPort'', or_null JNumber (md_portal_port m)), (''createdAt'', json_date (md_created_at m))]"

definition json_credential :: "mount_credential_dto \<Rightarrow> json" where
  "json_credential m = JObject (credential_fields m)"

definition json_issued :: "issue_response \<Rightarrow> json" where
  "json_issued r = JObject (credential_fields (is_credential r) @
     [(''password'', JString (is_password r)), (''script'', JString (is_script r))])"

definition json_users :: "admin_user_list \<Rightarrow> json" where
  "json_users l = JObject [(''items'', json_list (\<lambda>i. JObject [(''id'', JString (au_id (ai_user i))),
       (''username'', JString (au_username (ai_user i))), (''nickname'', JString (au_nickname (ai_user i))),
       (''createdAt'', json_date (au_created_at (ai_user i))), (''roleNames'', json_list JString (ai_role_names i))]) (al_items l)),
     (''total'', JNumber (int (al_total l))), (''limit'', JNumber (int (al_limit l))), (''offset'', JNumber (int (al_offset l)))]"

subsection \<open>Requests and their answers\<close>

text \<open>
  A request with what its handler is given of it: path parameters, query, body, cookies and
  user agent. The health check and the two downloads do not answer with JSON of the
  repository's own.
\<close>

datatype api_request =
    RqMe
  | RqDevices
  | RqDeviceRegister string "string option"
  | RqDeviceRemove uuid
  | RqTrusted
  | RqTrustedRegister "string option"
  | RqTrustedRevoke uuid
  | RqStatus uuid
  | RqRespond uuid string
  | RqResend uuid
  | RqComplete uuid complete_challenge_body "string option"
  | RqTotpStart
  | RqTotpComplete setup_payload
  | RqTotpList
  | RqTotpRevoke uuid
  | RqBackupCodes string
  | RqInvitationValidate uuid
  | RqInvitationDeactivate uuid
  | RqRegister register_body
  | RqLogin login_body cookies "string option"
  | RqLoginBackup backup_login_body
  | RqRefresh cookies
  | RqLogout cookies "string option"
  | RqFolderRoot
  | RqFolderChildren uuid
  | RqFolderCreate string "uuid option"
  | RqFolderRename uuid string
  | RqFolderMove uuid "uuid option"
  | RqFolderRemove uuid
  | RqFileSearch file_search_query
  | RqFileRename uuid string
  | RqFileMove uuid "uuid option"
  | RqFileCopy uuid "uuid option"
  | RqFileRemove uuid
  | RqUploadInit upload_init_body
  | RqUploadComplete uuid "(nat \<times> string) list"
  | RqTrash
  | RqTrashRestore uuid trash_type
  | RqTrashDelete uuid trash_type
  | RqMyDrive
  | RqDrive uuid
  | RqMountIssue "uuid option"
  | RqMounts
  | RqMountRevoke uuid
  | RqUsers list_users_query
  | RqInvite "int option"

definition request_route :: "api_request \<Rightarrow> route" where
  "request_route q = (case q of
     RqMe \<Rightarrow> user_me_route
   | RqDevices \<Rightarrow> device_list_route
   | RqDeviceRegister _ _ \<Rightarrow> device_register_route
   | RqDeviceRemove _ \<Rightarrow> device_remove_route
   | RqTrusted \<Rightarrow> trusted_device_list_route
   | RqTrustedRegister _ \<Rightarrow> trusted_device_register_route
   | RqTrustedRevoke _ \<Rightarrow> trusted_device_revoke_route
   | RqStatus _ \<Rightarrow> challenge_get_status_route
   | RqRespond _ _ \<Rightarrow> challenge_respond_route
   | RqResend _ \<Rightarrow> challenge_resend_route
   | RqComplete _ _ _ \<Rightarrow> challenge_complete_route
   | RqTotpStart \<Rightarrow> totp_start_setup_route
   | RqTotpComplete _ \<Rightarrow> totp_complete_setup_route
   | RqTotpList \<Rightarrow> totp_list_route
   | RqTotpRevoke _ \<Rightarrow> totp_revoke_route
   | RqBackupCodes _ \<Rightarrow> backup_code_regenerate_route
   | RqInvitationValidate _ \<Rightarrow> invitation_validate_route
   | RqInvitationDeactivate _ \<Rightarrow> invitation_deactivate_route
   | RqRegister _ \<Rightarrow> login_register_route
   | RqLogin _ _ _ \<Rightarrow> login_login_route
   | RqLoginBackup _ \<Rightarrow> login_login_with_backup_route
   | RqRefresh _ \<Rightarrow> login_refresh_route
   | RqLogout _ _ \<Rightarrow> login_logout_route
   | RqFolderRoot \<Rightarrow> folder_get_root_route
   | RqFolderChildren _ \<Rightarrow> folder_get_children_route
   | RqFolderCreate _ _ \<Rightarrow> folder_create_route
   | RqFolderRename _ _ \<Rightarrow> folder_rename_route
   | RqFolderMove _ _ \<Rightarrow> folder_move_route
   | RqFolderRemove _ \<Rightarrow> folder_remove_route
   | RqFileSearch _ \<Rightarrow> file_search_route
   | RqFileRename _ _ \<Rightarrow> file_rename_route
   | RqFileMove _ _ \<Rightarrow> file_move_route
   | RqFileCopy _ _ \<Rightarrow> file_copy_route
   | RqFileRemove _ \<Rightarrow> file_remove_route
   | RqUploadInit _ \<Rightarrow> file_upload_init_route
   | RqUploadComplete _ _ \<Rightarrow> file_upload_complete_route
   | RqTrash \<Rightarrow> trash_list_route
   | RqTrashRestore _ _ \<Rightarrow> trash_restore_route
   | RqTrashDelete _ _ \<Rightarrow> trash_permanent_delete_route
   | RqMyDrive \<Rightarrow> drive_get_my_drive_route
   | RqDrive _ \<Rightarrow> drive_get_drive_route
   | RqMountIssue _ \<Rightarrow> mount_credential_issue_route
   | RqMounts \<Rightarrow> mount_credential_list_route
   | RqMountRevoke _ \<Rightarrow> mount_credential_revoke_route
   | RqUsers _ \<Rightarrow> user_admin_list_route
   | RqInvite _ \<Rightarrow> invitation_admin_create_route)"

text \<open>A handler's result as the body of the answer; a handler without one answers an empty body.\<close>

definition answered :: "('a \<Rightarrow> json) \<Rightarrow> 'a svc \<Rightarrow> json option svc" where
  "answered enc m = andThen m (\<lambda>x. ret (Some (enc x)))"

definition nothing :: "unit svc \<Rightarrow> json option svc" where
  "nothing m = andThen m (\<lambda>_. ret None)"

definition answer :: "host \<Rightarrow> auth_user \<Rightarrow> api_request \<Rightarrow> json option svc" where
  "answer H user q = (case q of
     RqMe \<Rightarrow> answered json_user (user_controller_me user)
   | RqDevices \<Rightarrow> answered (json_list json_device) (device_controller_list user)
   | RqDeviceRegister a b \<Rightarrow> nothing (device_controller_register H user a b)
   | RqDeviceRemove a \<Rightarrow> nothing (device_controller_remove user a)
   | RqTrusted \<Rightarrow> answered (json_list json_trusted_device) (trusted_controller_list user)
   | RqTrustedRegister a \<Rightarrow> nothing (trusted_controller_register H user a)
   | RqTrustedRevoke a \<Rightarrow> nothing (trusted_controller_revoke user a)
   | RqStatus a \<Rightarrow> answered json_status (challenge_controller_get_status H a)
   | RqRespond a b \<Rightarrow> nothing (challenge_controller_respond H user a b)
   | RqResend a \<Rightarrow> answered json_resend (challenge_controller_resend H a)
   | RqComplete a b c \<Rightarrow> answered json_login (challenge_controller_complete H a b c)
   | RqTotpStart \<Rightarrow> answered json_totp_setup (totp_controller_start_setup H user)
   | RqTotpComplete a \<Rightarrow> nothing (totp_controller_complete_setup H user a)
   | RqTotpList \<Rightarrow> answered json_totp_list (totp_controller_list H user)
   | RqTotpRevoke a \<Rightarrow> nothing (totp_controller_revoke H user a)
   | RqBackupCodes a \<Rightarrow> answered json_backup_codes (backup_controller_regenerate H user a)
   | RqInvitationValidate a \<Rightarrow> answered json_validity (invitation_controller_validate H a)
   | RqInvitationDeactivate a \<Rightarrow> nothing (invitation_controller_deactivate H a)
   | RqRegister a \<Rightarrow> answered json_register (login_controller_register H a)
   | RqLogin a b c \<Rightarrow> answered json_login (login_controller_login H a b c)
   | RqLoginBackup a \<Rightarrow> answered json_login (login_controller_login_with_backup H a)
   | RqRefresh a \<Rightarrow> answered json_login (login_controller_refresh H a)
   | RqLogout a b \<Rightarrow> nothing (login_controller_logout H a b)
   | RqFolderRoot \<Rightarrow> answered json_children (folder_controller_get_root H user)
   | RqFolderChildren a \<Rightarrow> answered json_children (folder_controller_get_children H user a)
   | RqFolderCreate a b \<Rightarrow> answered json_folder_item (folder_controller_create H user a b)
   | RqFolderRename a b \<Rightarrow> answered json_folder_item (folder_controller_rename H user a b)
   | RqFolderMove a b \<Rightarrow> answered json_folder_item (folder_controller_move H user a b)
   | RqFolderRemove a \<Rightarrow> nothing (folder_controller_remove H user a)
   | RqFileSearch a \<Rightarrow> answered json_search (file_controller_search user a)
   | RqFileRename a b \<Rightarrow> answered json_file_item (file_controller_rename H user a b)
   | RqFileMove a b \<Rightarrow> answered json_file_item (file_controller_move H user a b)
   | RqFileCopy a b \<Rightarrow> answered json_file_item (file_controller_copy H user a b)
   | RqFileRemove a \<Rightarrow> nothing (file_controller_remove H user a)
   | RqUploadInit a \<Rightarrow> answered json_upload_init (upload_controller_init H user a)
   | RqUploadComplete a b \<Rightarrow> answered json_file_item (upload_controller_complete H user a b)
   | RqTrash \<Rightarrow> answered json_trash (trash_controller_list user)
   | RqTrashRestore a b \<Rightarrow> nothing (trash_controller_restore user a b)
   | RqTrashDelete a b \<Rightarrow> nothing (trash_controller_permanent_delete H user a b)
   | RqMyDrive \<Rightarrow> answered json_drive (drive_controller_get_my_drive H user)
   | RqDrive a \<Rightarrow> answered json_drive (drive_controller_get_drive user a)
   | RqMountIssue a \<Rightarrow> answered json_issued (mount_controller_issue H user a)
   | RqMounts \<Rightarrow> answered (json_list json_credential) (mount_controller_list H user)
   | RqMountRevoke a \<Rightarrow> nothing (mount_controller_revoke H user a)
   | RqUsers a \<Rightarrow> answered json_users (user_admin_controller_list a)
   | RqInvite a \<Rightarrow> answered json_invitation (invitation_admin_controller_create H user a))"

subsection \<open>Two bodies as they arrive\<close>

text \<open>
  What \<open>TrashActionBodyDto\<close> and the field \<open>type\<close> of \<open>CompleteChallengeBodyDto\<close> let through
  of a JSON body: one of two strings, which for the latter may be missing or \<open>null\<close>.
\<close>

definition json_field :: "string \<Rightarrow> json \<Rightarrow> json option" where
  "json_field k j = (case j of JObject m \<Rightarrow> map_of m k | _ \<Rightarrow> None)"

definition trash_action_of :: "json \<Rightarrow> trash_type option" where
  "trash_action_of j =
     (if json_field ''type'' j = Some (JString ''file'') then Some TrashFile
      else if json_field ''type'' j = Some (JString ''folder'') then Some TrashFolder
      else None)"

definition complete_type_valid :: "json \<Rightarrow> bool" where
  "complete_type_valid j \<longleftrightarrow>
     json_field ''type'' j \<in> {None, Some JNull, Some (JString ''PUSH''), Some (JString ''TOTP'')}"

end
