(* ===== verification/AnswerProps.thy ===== *)
theory AnswerProps
  imports Answers WebTypes AdminTypes SdkProps MountProps
begin

text \<open>
  The answers of the API against the types the clients declare for them: each has, with its
  status, a type that the web client's operation names, as long as no device was registered
  without a user agent and the portal's port is a number; and where the admin client's
  older types and the types of two bodies disagree with the API.
\<close>

named_theorems typed "types by their names, the responses of routes and the types of answers"

lemma web_type_named [typed]:
  "type_named web_types ''UserDto'' = Some web_user_dto"
  "type_named web_types ''DeviceResponseDto[]'' = Some (TArray web_device_response_dto)"
  "type_named web_types ''TrustedDeviceResponseDto[]'' = Some (TArray web_trusted_device_response_dto)"
  "type_named web_types ''ChallengeStatusPendingDto'' = Some web_challenge_status_pending_dto"
  "type_named web_types ''ChallengeStatusApprovedDto'' = Some web_challenge_status_approved_dto"
  "type_named web_types ''ChallengeStatusDeniedDto'' = Some web_challenge_status_denied_dto"
  "type_named web_types ''ChallengeStatusExpiredDto'' = Some web_challenge_status_expired_dto"
  "type_named web_types ''ResendChallengeResponseDto'' = Some web_resend_challenge_response_dto"
  "type_named web_types ''AuthenticatedResponseDto'' = Some web_authenticated_response_dto"
  "type_named web_types ''TwoFaRequiredResponseDto'' = Some web_two_fa_required_response_dto"
  "type_named web_types ''TotpSetupPendingDto'' = Some web_totp_setup_pending_dto"
  "type_named web_types ''TotpSetupEnrolledDto'' = Some web_totp_setup_enrolled_dto"
  "type_named web_types ''TotpListResponseDto'' = Some web_totp_list_response_dto"
  "type_named web_types ''BackupCodeRegenerateResponseDto'' = Some web_backup_code_regenerate_response_dto"
  "type_named web_types ''ValidateInvitationResponseDto'' = Some web_validate_invitation_response_dto"
  "type_named web_types ''RegisterResponseDto'' = Some web_register_response_dto"
  "type_named web_types ''FolderChildrenResponseDto'' = Some web_folder_children_response_dto"
  "type_named web_types ''FolderItemDto'' = Some web_folder_item_dto"
  "type_named web_types ''FileSearchResponseDto'' = Some web_file_search_response_dto"
  "type_named web_types ''FileItemDto'' = Some web_file_item_dto"
  "type_named web_types ''UploadInitResponseDto'' = Some web_upload_init_response_dto"
  "type_named web_types ''TrashListResponseDto'' = Some web_trash_list_response_dto"
  "type_named web_types ''DriveDto'' = Some web_drive_dto"
  "type_named web_types ''IssueMountCredentialResponseDto'' = Some web_issue_mount_credential_response_dto"
  "type_named web_types ''MountCredentialDto[]'' = Some (TArray web_mount_credential_dto)"
  by code_simp+

lemma documented [typed]:
  "documented_responses user_me_route = [(200, [''UserDto''])]" "ro_status user_me_route = 200"
  "documented_responses device_list_route = [(200, [''DeviceResponseDto[]''])]" "ro_status device_list_route = 200"
  "documented_responses device_register_route = [(204, [])]" "ro_status device_register_route = 204"
  "documented_responses device_remove_route = [(204, [])]" "ro_status device_remove_route = 204"
  "documented_responses trusted_device_list_route = [(200, [''TrustedDeviceResponseDto[]''])]" "ro_status trusted_device_list_route = 200"
  "documented_responses trusted_device_register_route = [(201, [''unknown''])]" "ro_status trusted_device_register_route = 201"
  "documented_responses trusted_device_revoke_route = [(204, [])]" "ro_status trusted_device_revoke_route = 204"
  "documented_responses challenge_get_status_route = [(200, [''ChallengeStatusPendingDto'', ''ChallengeStatusApprovedDto'', ''ChallengeStatusDeniedDto'', ''ChallengeStatusExpiredDto''])]" "ro_status challenge_get_status_route = 200"
  "documented_responses challenge_respond_route = [(204, [])]" "ro_status challenge_respond_route = 204"
  "documented_responses challenge_resend_route = [(200, [''ResendChallengeResponseDto''])]" "ro_status challenge_resend_route = 200"
  "documented_responses challenge_complete_route = [(200, [''AuthenticatedResponseDto''])]" "ro_status challenge_complete_route = 200"
  "documented_responses totp_start_setup_route = [(200, [''TotpSetupPendingDto'', ''TotpSetupEnrolledDto''])]" "ro_status totp_start_setup_route = 200"
  "documented_responses totp_complete_setup_route = [(204, [])]" "ro_status totp_complete_setup_route = 204"
  "documented_responses totp_list_route = [(200, [''TotpListResponseDto''])]" "ro_status totp_list_route = 200"
  "documented_responses totp_revoke_route = [(204, [])]" "ro_status totp_revoke_route = 204"
  "documented_responses backup_code_regenerate_route = [(200, [''BackupCodeRegenerateResponseDto''])]" "ro_status backup_code_regenerate_route = 200"
  "documented_responses invitation_validate_route = [(200, [''ValidateInvitationResponseDto''])]" "ro_status invitation_validate_route = 200"
  "documented_responses invitation_deactivate_route = [(204, [])]" "ro_status invitation_deactivate_route = 204"
  "documented_responses login_register_route = [(201, [''RegisterResponseDto''])]" "ro_status login_register_route = 201"
  "documented_responses login_login_route = [(200, [''AuthenticatedResponseDto'', ''TwoFaRequiredResponseDto''])]" "ro_status login_login_route = 200"
  "documented_responses login_login_with_backup_route = [(200, [''AuthenticatedResponseDto'', ''TwoFaRequiredResponseDto''])]" "ro_status login_login_with_backup_route = 200"
  "documented_responses login_refresh_route = [(200, [''AuthenticatedResponseDto'', ''TwoFaRequiredResponseDto''])]" "ro_status login_refresh_route = 200"
  "documented_responses login_logout_route = [(204, [])]" "ro_status login_logout_route = 204"
  "documented_responses folder_get_root_route = [(200, [''FolderChildrenResponseDto''])]" "ro_status folder_get_root_route = 200"
  "documented_responses folder_get_children_route = [(200, [''FolderChildrenResponseDto''])]" "ro_status folder_get_children_route = 200"
  "documented_responses folder_create_route = [(201, [''FolderItemDto''])]" "ro_status folder_create_route = 201"
  "documented_responses folder_rename_route = [(200, [''FolderItemDto''])]" "ro_status folder_rename_route = 200"
  "documented_responses folder_move_route = [(200, [''FolderItemDto''])]" "ro_status folder_move_route = 200"
  "documented_responses folder_remove_route = [(204, [])]" "ro_status folder_remove_route = 204"
  "documented_responses file_search_route = [(200, [''FileSearchResponseDto''])]" "ro_status file_search_route = 200"
  "documented_responses file_rename_route = [(200, [''FileItemDto''])]" "ro_status file_rename_route = 200"
  "documented_responses file_move_route = [(200, [''FileItemDto''])]" "ro_status file_move_route = 200"
  "documented_responses file_copy_route = [(201, [''FileItemDto''])]" "ro_status file_copy_route = 201"
  "documented_responses file_remove_route = [(204, [])]" "ro_status file_remove_route = 204"
  "documented_responses file_upload_init_route = [(201, [''UploadInitResponseDto''])]" "ro_status file_upload_init_route = 201"
  "documented_responses file_upload_complete_route = [(201, [''FileItemDto''])]" "ro_status file_upload_complete_route = 201"
  "documented_responses trash_list_route = [(200, [''TrashListResponseDto''])]" "ro_status trash_list_route = 200"
  "documented_responses trash_restore_route = [(204, [])]" "ro_status trash_restore_route = 204"
  "documented_responses trash_permanent_delete_route = [(204, [])]" "ro_status trash_permanent_delete_route = 204"
  "documented_responses drive_get_my_drive_route = [(200, [''DriveDto''])]" "ro_status drive_get_my_drive_route = 200"
  "documented_responses drive_get_drive_route = [(200, [''DriveDto''])]" "ro_status drive_get_drive_route = 200"
  "documented_responses mount_credential_issue_route = [(201, [''IssueMountCredentialResponseDto''])]" "ro_status mount_credential_issue_route = 201"
  "documented_responses mount_credential_list_route = [(200, [''MountCredentialDto[]''])]" "ro_status mount_credential_list_route = 200"
  "documented_responses mount_credential_revoke_route = [(204, [])]" "ro_status mount_credential_revoke_route = 204"
  "documented_responses user_admin_list_route = [(200, [''AdminUserListResponseDto''])]" "ro_status user_admin_list_route = 200"
  "documented_responses invitation_admin_create_route = [(201, [''InvitationResponseDto''])]" "ro_status invitation_admin_create_route = 201"
  by code_simp+


subsection \<open>The types of the answers\<close>

lemmas web_type_defs = field_def optional_def web_user_dto_def web_device_response_dto_def
  web_trusted_device_response_dto_def web_challenge_status_pending_dto_def web_challenge_status_approved_dto_def
  web_challenge_status_denied_dto_def web_challenge_status_expired_dto_def web_resend_challenge_response_dto_def
  web_authenticated_response_dto_def web_two_fa_required_response_dto_def web_totp_setup_pending_dto_def
  web_totp_setup_enrolled_dto_def web_totp_instance_dto_def web_totp_list_response_dto_def
  web_backup_code_regenerate_response_dto_def web_invitation_response_dto_def web_validate_invitation_response_dto_def
  web_register_response_dto_def web_folder_item_dto_def web_file_item_dto_def web_folder_children_response_dto_def
  web_file_search_response_dto_def web_upload_part_dto_def web_upload_init_response_dto_def web_trash_item_dto_def
  web_trash_list_response_dto_def web_drive_dto_def web_issue_mount_credential_response_dto_def web_mount_credential_dto_def

lemmas json_encoders = json_date_def json_list_def or_null_def list_all_iff

lemma answers_typed [typed]:
  "has_type web_user_dto (json_user u)"
  "has_type web_authenticated_response_dto (json_login (AUTHENTICATED a u))"
  "has_type web_two_fa_required_response_dto (json_login (TWOFA_REQUIRED i os t))"
  "has_type web_register_response_dto (json_register r)"
  "has_type web_challenge_status_pending_dto (json_status (StatusPending os cn secs))"
  "has_type web_challenge_status_approved_dto (json_status (StatusApproved i))"
  "has_type web_challenge_status_denied_dto (json_status StatusDenied)"
  "has_type web_challenge_status_expired_dto (json_status StatusExpired)"
  "has_type web_resend_challenge_response_dto (json_resend rr)"
  "has_type web_totp_setup_pending_dto (json_totp_setup (SetupPending x y))"
  "has_type web_totp_setup_enrolled_dto (json_totp_setup (SetupEnrolled i))"
  "has_type web_totp_list_response_dto (json_totp_list is)"
  "has_type web_backup_code_regenerate_response_dto (json_backup_codes os)"
  "has_type web_validate_invitation_response_dto (json_validity b)"
  by (simp_all add: web_type_defs json_encoders json_user_def json_login_def json_register_def json_status_def json_resend_def
      json_totp_setup_def json_totp_list_def json_backup_codes_def json_validity_def split: option.split)

lemma drive_answers_typed [typed]:
  "has_type web_folder_item_dto (json_folder_item f)"
  "has_type web_file_item_dto (json_file_item g)"
  "has_type web_file_item_dto (json_file_row row)"
  "has_type web_folder_children_response_dto (json_children c)"
  "has_type web_file_search_response_dto (json_search fs)"
  "has_type web_upload_init_response_dto (json_upload_init ui)"
  "has_type web_trash_list_response_dto (json_trash ts)"
  "dd_kind d = ''PRIVATE'' \<Longrightarrow> has_type web_drive_dto (json_drive d)"
  by (simp_all add: web_type_defs json_encoders json_folder_item_def json_file_item_def json_file_row_def json_children_def
      json_search_def json_upload_init_def json_trash_def json_trash_type_def json_drive_def
      split: option.split prod.split trash_type.split)

text \<open>What the types ask of the values that the database and the configuration decide.\<close>

lemma device_typed:
  "has_type web_device_response_dto (json_device r) \<longleftrightarrow> der_user_agent r \<noteq> None"
  "has_type web_trusted_device_response_dto (json_trusted_device t) \<longleftrightarrow> tdr_user_agent t \<noteq> None"
  by (auto simp: web_type_defs json_encoders json_device_def json_trusted_device_def split: option.split)

lemma credential_typed:
  "has_type web_mount_credential_dto (json_credential m) \<longleftrightarrow> md_protocol m = ''iscsi'' \<and> md_portal_port m \<noteq> None"
  "has_type web_issue_mount_credential_response_dto (json_issued r) \<longleftrightarrow>
     md_protocol (is_credential r) = ''iscsi'' \<and> md_portal_port (is_credential r) \<noteq> None"
  by (auto simp: web_type_defs json_encoders json_credential_def json_issued_def credential_fields_def split: option.split)

subsection \<open>What handlers return\<close>

text \<open>A method whose every result satisfies \<open>P\<close>, through the combinators.\<close>

definition yields :: "('a \<Rightarrow> bool) \<Rightarrow> 'a svc \<Rightarrow> bool" where
  "yields P m \<longleftrightarrow> (\<forall>w x w'. m w = (Inr x, w') \<longrightarrow> P x)"

lemma yieldsD: "yields P m \<Longrightarrow> m w = (Inr x, w') \<Longrightarrow> P x"
  by (auto simp: yields_def)

named_theorems yielding "methods whose results have a property"

lemma yields_primitive [yielding]:
  "P x \<Longrightarrow> yields P (ret x)" "yields P (raise e)" "yields P (throw c)"
  by (simp_all add: yields_def svc)

lemma yields_andThen [yielding]: "(\<And>x. yields P (f x)) \<Longrightarrow> yields P (andThen m f)"
  by (auto simp: yields_def andThen_Inr)

lemma yields_step: "yields Q m \<Longrightarrow> (\<And>x. Q x \<Longrightarrow> yields P (f x)) \<Longrightarrow> yields P (andThen m f)"
  unfolding yields_def andThen_Inr by blast

lemma yields_catching [yielding]: "yields P m \<Longrightarrow> (\<And>e. yields P (h e)) \<Longrightarrow> yields P (catching m h)"
  by (auto simp: yields_def catching_def split: prod.splits sum.splits)

lemma yields_run_in_tx [yielding]: "yields P m \<Longrightarrow> yields P (run_in_tx H m)"
  unfolding yields_def by (meson run_in_tx_Inr)

lemma yields_if [yielding]: "yields P m \<Longrightarrow> yields P n \<Longrightarrow> yields P (if b then m else n)"
  by simp

lemma yields_case_option [yielding]:
  "yields P m \<Longrightarrow> (\<And>x. yields P (f x)) \<Longrightarrow> yields P (case v of None \<Rightarrow> m | Some x \<Rightarrow> f x)"
  by (cases v) auto

text \<open>A second factor that is completed signs in.\<close>

lemma complete_signs_in: "yields (\<lambda>r. \<exists>t u. r = AUTHENTICATED t u) (challenge_controller_complete H cid body agent)"
proof -
  have "yields (\<lambda>r. \<exists>t u. r = AUTHENTICATED t u) (auth_issue_after_two_fa H u)" for u
    unfolding auth_issue_after_two_fa_def by (intro yielding exI) (rule refl)
  then have "yields (\<lambda>r. \<exists>t u. r = AUTHENTICATED t u) (twofa_issue_authenticated_response H u raw)" for u raw
    unfolding twofa_issue_authenticated_response_def by (rule yields_step) (intro yielding)
  then show ?thesis unfolding challenge_controller_complete_def by (rule yields_andThen)
qed

text \<open>The port of the portal, as the environment gives it, is a number.\<close>

definition port_is_number :: "host \<Rightarrow> bool" where
  "port_is_number H \<longleftrightarrow> (\<forall>v. h_config H ''STORAGE_AGENT_PORTAL_PORT'' = Some v \<longrightarrow> parse_int v \<noteq> None)"

lemma portal_port: "port_is_number H \<Longrightarrow> yields (\<lambda>p. po_port p \<noteq> None) (portal_of H)"
  by (auto simp: yields_def portal_of_def port_is_number_def svc_elim svc split: option.splits)

lemma issue_target_protocol: "yields (\<lambda>row. mc_protocol row = PROTOCOL_ISCSI) (issue_target H u drive s p iqn)"
proof -
  have "yields (\<lambda>row. mc_protocol row = PROTOCOL_ISCSI) (mount_insert_issued H i u PROTOCOL_ISCSI n s iqn')" for i n iqn'
    unfolding mount_insert_issued_def Let_def by (intro yielding) simp
  then show ?thesis unfolding issue_target_def by (rule yields_step) (intro yielding)
qed

definition credential_answer_ok :: "issue_response \<Rightarrow> bool" where
  "credential_answer_ok r \<longleftrightarrow> md_protocol (is_credential r) = ''iscsi'' \<and> md_portal_port (is_credential r) \<noteq> None"

lemma issue_answer_ok:
  assumes "port_is_number H" and "mc_protocol row = PROTOCOL_ISCSI"
  shows "yields credential_answer_ok (issue_answer H drive s p iqn row)"
  unfolding issue_answer_def
  by (rule yields_step [OF portal_port [OF assms(1)]], rule yields_primitive)
    (simp add: credential_answer_ok_def to_mount_credential_dto_def assms(2) PROTOCOL_ISCSI_def)

lemma issue_ok:
  assumes "port_is_number H"
  shows "yields credential_answer_ok (mount_controller_issue H user d)"
proof -
  have body: "yields credential_answer_ok (andThen (issue_target H u drive s p iqn) (issue_answer H drive s p iqn))"
    for u drive s p iqn
    by (rule yields_step [OF issue_target_protocol issue_answer_ok [OF assms]])
  have "yields credential_answer_ok (issue_guarded H u drive s p iqn)" for u drive s p iqn
  proof -
    have "yields credential_answer_ok (catching (run_in_tx H (andThen (issue_target H u drive s p iqn)
        (issue_answer H drive s p iqn))) (issue_rollback H b s iqn))" for b
      unfolding issue_rollback_def by (intro yielding body)
    then show ?thesis by (auto simp: yields_def issue_guarded_def Let_def)
  qed
  then show ?thesis
    unfolding mount_controller_issue_def mount_issue_def Let_def by (intro yielding)
qed

lemma issue_listed:
  "mount_controller_issue H user d w = (Inr x, w') \<Longrightarrow> port_is_number H \<Longrightarrow>
     md_protocol (is_credential x) = ''iscsi'' \<and> md_portal_port (is_credential x) \<noteq> None"
  using yieldsD [OF issue_ok] unfolding credential_answer_ok_def by blast

text \<open>Lists and drives, from the rows they are made of.\<close>

lemma devices_listed:
  "device_controller_list user w = (Inr xs, w') \<Longrightarrow> (\<forall>r\<in>set (devices (db w)). dv_user_agent r \<noteq> None) \<Longrightarrow>
     \<forall>x\<in>set xs. der_user_agent x \<noteq> None"
  by (auto simp: device_controller_list_def device_list_def device_find_by_user_id_def svc svc_elim)

lemma trusted_listed:
  "trusted_controller_list user w = (Inr xs, w') \<Longrightarrow> (\<forall>r\<in>set (trusted_devices (db w)). td_user_agent r \<noteq> None) \<Longrightarrow>
     \<forall>x\<in>set xs. tdr_user_agent x \<noteq> None"
  by (auto simp: trusted_controller_list_def trusted_list_def trusted_find_by_user_id_def svc svc_elim)

lemma credentials_listed:
  "mount_controller_list H user w = (Inr xs, w') \<Longrightarrow> port_is_number H \<Longrightarrow> mounts_ok (db w) \<Longrightarrow>
     \<forall>x\<in>set xs. md_protocol x = ''iscsi'' \<and> md_portal_port x \<noteq> None"
  by (auto simp: mount_controller_list_def mount_list_active_def mount_find_active_by_user_id_def svc svc_elim
      mounts_ok_def PROTOCOL_ISCSI_def to_mount_credential_dto_def dest!: yieldsD [OF portal_port])

lemma drive_listed:
  "drive_controller_get_my_drive H user w = (Inr x, w') \<Longrightarrow> dd_kind x = ''PRIVATE''"
  "drive_controller_get_drive user i w = (Inr x, w') \<Longrightarrow> (\<forall>r\<in>set (drives (db w)). dr_kind r = ''PRIVATE'') \<Longrightarrow>
     dd_kind x = ''PRIVATE''"
proof -
  have insert: "yields (\<lambda>r. dr_kind r = ''PRIVATE'') (drive_insert H i u n PERSONAL_DRIVE_KIND path)" for i u n path
    unfolding drive_insert_def Let_def PERSONAL_DRIVE_KIND_def by (intro yielding) simp
  have "yields (\<lambda>r. dr_kind r = ''PRIVATE'') (drive_ensure_personal H u)" for u
    unfolding drive_ensure_personal_def drive_find_personal_by_owner_id_def
    by (rule yields_step [where Q = "\<lambda>found. \<forall>d. found = Some d \<longrightarrow> dr_kind d = ''PRIVATE''"])
      (auto simp: yields_def [of _ "query q" for q] svc KIND_PRIVATE_def split: option.split
        intro!: yielding insert dest: find_Some_set)
  then have "yields (\<lambda>x. dd_kind x = ''PRIVATE'') (drive_controller_get_my_drive H user)"
    unfolding drive_controller_get_my_drive_def
    by (rule yields_step) (auto intro: yielding simp: to_drive_dto_def)
  then show "drive_controller_get_my_drive H user w = (Inr x, w') \<Longrightarrow> dd_kind x = ''PRIVATE''" by (rule yieldsD)
  show "drive_controller_get_drive user i w = (Inr x, w') \<Longrightarrow> (\<forall>r\<in>set (drives (db w)). dr_kind r = ''PRIVATE'') \<Longrightarrow>
     dd_kind x = ''PRIVATE''"
    by (auto simp: drive_controller_get_drive_def drive_find_by_id_or_throw_def drive_find_by_id_def to_drive_dto_def
        svc svc_elim split: option.splits if_splits dest!: find_Some_set)
qed

subsection \<open>Every answer has a declared type\<close>

text \<open>What the values in the database and the environment have to be.\<close>

definition answerable :: "host \<Rightarrow> database \<Rightarrow> bool" where
  "answerable H d \<longleftrightarrow> port_is_number H \<and> mounts_ok d \<and> (\<forall>r\<in>set (drives d). dr_kind r = ''PRIVATE'') \<and>
     (\<forall>r\<in>set (devices d). dv_user_agent r \<noteq> None) \<and> (\<forall>r\<in>set (trusted_devices d). td_user_agent r \<noteq> None)"

lemma answered_Inr: "answered enc m w = (Inr body, w') \<Longrightarrow> \<exists>x. m w = (Inr x, w') \<and> body = Some (enc x)"
  by (auto simp: answered_def svc_elim svc)

lemma nothing_Inr: "nothing m w = (Inr body, w') \<Longrightarrow> body = None"
  by (auto simp: nothing_def svc_elim svc)

definition fits :: "api_request \<Rightarrow> json option \<Rightarrow> bool" where
  "fits q body \<longleftrightarrow> declared web_types (documented_responses (request_route q)) (ro_status (request_route q)) body"

lemma login_fits: "has_type web_authenticated_response_dto (json_login r) \<or> has_type web_two_fa_required_response_dto (json_login r)"
  by (cases r) (simp_all add: typed)

lemma status_fits: "list_ex (\<lambda>t. has_type t (json_status r)) [web_challenge_status_pending_dto,
    web_challenge_status_approved_dto, web_challenge_status_denied_dto, web_challenge_status_expired_dto]"
  by (cases r) (simp_all add: typed del: has_type.simps)

lemma setup_fits: "has_type web_totp_setup_pending_dto (json_totp_setup r) \<or> has_type web_totp_setup_enrolled_dto (json_totp_setup r)"
  by (cases r) (simp_all add: typed del: has_type.simps)

lemma web_answer_fits:
  assumes "answer H user q w = (Inr body, w')" and "answerable H (db w)"
    and "\<not> (\<exists>lq. q = RqUsers lq)" and "\<not> (\<exists>days. q = RqInvite days)"
  shows "fits q body"
  using assms
  by (cases q)
    (auto simp: answer_def fits_def declared_def request_route_def typed answerable_def list_all_iff
      json_list_def device_typed credential_typed login_fits status_fits [simplified] setup_fits
      dest!: answered_Inr nothing_Inr dest: devices_listed trusted_listed credentials_listed drive_listed
        issue_listed yieldsD [OF complete_signs_in])


definition demo_answering :: world where
  "demo_answering = demo_world (empty_db\<lparr>users := [demo_user], devices :=
     [\<lparr>dv_id = ''1'', dv_user_id = ''ada'', dv_push_token = ''t'', dv_user_agent = Some ''phone'', dv_created_at = 0\<rparr>]\<rparr>)"


subsection \<open>Where the types and the API disagree\<close>

text \<open>The answers for the administration, and the approved challenge the admin client's older types expect.\<close>

lemma admin_answers_typed:
  "has_type admin_admin_user_list_response_dto (json_users l)"
  "has_type admin_invitation_response_dto (json_invitation r)"
  "\<not> has_type admin_challenge_status_approved_dto (json_status (StatusApproved i))"
  by (simp_all add: field_def admin_admin_user_list_response_dto_def admin_admin_user_list_item_dto_def
      admin_invitation_response_dto_def admin_challenge_status_approved_dto_def json_users_def json_invitation_def
      json_status_def json_encoders)

text \<open>
  The web client's types want an object where the API reads one of two words: no body they
  allow is accepted for the trash, nor one with a type for a second factor. The admin
  client's type of the first is right.
\<close>

lemma bodies_refused:
  "has_type web_trash_action_body_dto j \<Longrightarrow> trash_action_of j = None"
  "has_type web_complete_challenge_body_dto j \<Longrightarrow> json_field ''type'' j \<noteq> None \<Longrightarrow> \<not> complete_type_valid j"
  "has_type admin_trash_action_body_dto j \<Longrightarrow> trash_action_of j \<noteq> None"
  by (auto simp: web_trash_action_body_dto_def web_complete_challenge_body_dto_def admin_trash_action_body_dto_def
      field_def optional_def trash_action_of_def complete_type_valid_def json_field_def
      split: json.splits option.splits)

lemma nameless_device_untyped:
  "\<not> has_type web_device_response_dto (json_device \<lparr>der_id = i, der_user_agent = None, der_created_at = t\<rparr>)"
  by (simp add: device_typed)

end
