(* ===== verification/ClientRouter.thy ===== *)
theory ClientRouter
  imports ClientViews ClientTwoFa ClientGates AdminClient
begin

text \<open>
  The pages of the clients and the ways to them: the route objects of
  \<open>app/providers/router/config.tsx\<close> of both clients, and every place the modelled code
  navigates to. The router is a library; of it the model uses what it documents: a route
  object matches a path by the segments of its whole path, ignoring case, empty segments
  and the query, a parameter takes any one segment, \<open>*\<close> takes the rest, and among the
  objects that match the more specific one is shown.
\<close>

subsection \<open>Route objects\<close>

datatype element = Page string | Wrap string | NavigateTo string

text \<open>
  A path, unless the object is an index or only a layout; whether it is an index; the
  elements it shows, from the outside in; its handle's \<open>isRootDestination\<close>; its children.
\<close>

datatype route_object = RouteObject (ro_path_of: "string option") (ro_is_index: bool) (ro_elements: "element list")
  (ro_is_root: bool) (ro_children: "route_object list")

abbreviation route_at :: "string \<Rightarrow> element list \<Rightarrow> route_object list \<Rightarrow> route_object" where
  "route_at p els kids \<equiv> RouteObject (Some p) False els False kids"

abbreviation index_route :: "element list \<Rightarrow> bool \<Rightarrow> route_object" where
  "index_route els root \<equiv> RouteObject None True els root []"

datatype pattern = Static string | Dynamic string | Splat

definition pattern_of :: "string \<Rightarrow> pattern" where
  "pattern_of s = (if s = ''*'' then Splat else case s of [] \<Rightarrow> Static s | c # cs \<Rightarrow> if c = CHR '':'' then Dynamic cs else Static s)"

definition segments :: "string \<Rightarrow> string list" where
  "segments p = filter (\<lambda>s. s \<noteq> []) (split_on CHR ''/'' p)"

record branch =
  br_path :: "pattern list"
  br_index :: bool
  br_elements :: "element list"
  br_root :: bool

text \<open>Every object with a path, and every index, with the paths and elements above it.\<close>

function branches :: "pattern list \<Rightarrow> element list \<Rightarrow> route_object list \<Rightarrow> branch list" where
  "branches ps els [] = []"
| "branches ps els (RouteObject p i e r kids # rs) =
     (let ps' = ps @ (case p of None \<Rightarrow> [] | Some s \<Rightarrow> map pattern_of (segments s)); els' = els @ e in
      branches ps' els' kids @
      (if p = None \<and> \<not> i then [] else [\<lparr>br_path = ps', br_index = i, br_elements = els', br_root = r\<rparr>]) @
      branches ps els rs)"
  by pat_completeness auto

termination by (relation "measure (\<lambda>(_, _, rs). size_list size rs)") auto

fun path_matches :: "pattern list \<Rightarrow> string list \<Rightarrow> bool" where
  "path_matches [] ss = (ss = [])"
| "path_matches (Splat # ps) ss = True"
| "path_matches (Dynamic n # ps) ss = (case ss of [] \<Rightarrow> False | s # ss' \<Rightarrow> path_matches ps ss')"
| "path_matches (Static t # ps) ss = (case ss of [] \<Rightarrow> False | s # ss' \<Rightarrow> lower s = lower t \<and> path_matches ps ss')"

text \<open>The path of a location, without its query and fragment.\<close>

definition pathname :: "string \<Rightarrow> string" where
  "pathname url = takeWhile (\<lambda>c. c \<noteq> CHR ''?'' \<and> c \<noteq> CHR ''#'') url"

definition matching :: "route_object list \<Rightarrow> string \<Rightarrow> branch list" where
  "matching rs url = filter (\<lambda>b. path_matches (br_path b) (segments (pathname url))) (branches [] [] rs)"

text \<open>
  The router's choice among the branches that match: one of them, an index rather than the
  layout around it, and \<open>*\<close> last.
\<close>

definition prefers :: "branch \<Rightarrow> branch \<Rightarrow> bool" where
  "prefers a b \<longleftrightarrow> br_path a = br_path b \<and> br_index a \<and> \<not> br_index b \<or> Splat \<in> set (br_path b) \<and> Splat \<notin> set (br_path a)"

definition ranks :: "(branch list \<Rightarrow> branch option) \<Rightarrow> bool" where
  "ranks pick \<longleftrightarrow> (\<forall>bs. case pick bs of
     None \<Rightarrow> bs = [] | Some b \<Rightarrow> b \<in> set bs \<and> (\<forall>a\<in>set bs. \<not> prefers a b))"

definition opens :: "(branch list \<Rightarrow> branch option) \<Rightarrow> route_object list \<Rightarrow> string \<Rightarrow> branch option" where
  "opens pick rs url = pick (matching rs url)"

definition shown :: "(branch list \<Rightarrow> branch option) \<Rightarrow> route_object list \<Rightarrow> string \<Rightarrow> element option" where
  "shown pick rs url = map_option (\<lambda>b. last (br_elements b)) (opens pick rs url)"

subsection \<open>The web client's routes\<close>

definition web_root_routes :: "route_object list" where
  "web_root_routes = [route_at ''/'' [Wrap ''main''] [index_route [NavigateTo ''/login''] False]]"

definition web_register_routes :: "route_object list" where
  "web_register_routes = [route_at ''/register'' [Wrap ''AuthLayout'']
     [route_at '':token'' [Page ''RegisterPage''] [],
      route_at '':token/backup'' [Page ''BackupCodeIssuePage''] []]]"

definition web_auth_routes :: "route_object list" where
  "web_auth_routes = [route_at ''/login'' [Wrap ''AuthLayout'']
     [index_route [Page ''LoginPage''] True,
      route_at ''2fa'' [Page ''TwoFAWaitPage''] [],
      route_at ''backup'' [Page ''TwoFABackupPage''] []]]"

definition web_app_routes :: "route_object list" where
  "web_app_routes = [
     route_at ''/drive'' [Wrap ''PrivateRoute'', Wrap ''DriveLayout''] [index_route [Page ''DrivePage''] True],
     route_at ''/trash'' [Wrap ''PrivateRoute'', Wrap ''DriveLayout''] [index_route [Page ''TrashPage''] False],
     route_at ''/settings'' [Wrap ''PrivateRoute'', Wrap ''DriveLayout'']
       [index_route [Page ''SettingsPage''] False, route_at ''devices'' [Page ''DevicesPage''] []],
     RouteObject (Some ''/2fa/:id'') False [Page ''TwoFAApprovalPage''] True []]"

definition web_preview_routes :: "route_object list" where
  "web_preview_routes = [route_at ''/preview'' []
     [index_route [Page ''TwoFactorWaiting''] False,
      route_at ''1'' [Page ''TwoFactorApprovalPage''] [],
      route_at ''2'' [Page ''TwoFactorBackupEntry''] [],
      route_at ''4'' [Page ''TrustedDeviceSection''] [],
      route_at ''5'' [Page ''TrustThisDeviceCheckbox''] []]]"

definition web_routes :: "route_object list" where
  "web_routes = [RouteObject None False [Wrap ''AppShell''] False
     (web_root_routes @ web_register_routes @ web_auth_routes @ web_app_routes @ web_preview_routes)]"

subsection \<open>The admin client's routes\<close>

definition admin_root_routes :: "route_object list" where
  "admin_root_routes = [route_at ''/'' [NavigateTo ''/admin''] []]"

definition admin_auth_routes :: "route_object list" where
  "admin_auth_routes = [route_at ''/login'' [Wrap ''AuthLayout'']
     [index_route [Page ''LoginPage''] False,
      route_at ''2fa'' [Page ''TwoFAWaitPage''] [],
      route_at ''backup'' [Page ''TwoFABackupPage''] []]]"

definition admin_console_routes :: "route_object list" where
  "admin_console_routes = [route_at ''/admin'' [Wrap ''PrivateRoute'', Wrap ''AdminGate'', Wrap ''AdminLayout'']
     [index_route [NavigateTo ''/admin/users''] False,
      route_at ''users'' [Page ''AdminUsersPage''] []]]"

definition admin_fallback_routes :: "route_object list" where
  "admin_fallback_routes = [route_at ''*'' [NavigateTo ''/admin''] []]"

definition admin_app_routes :: "route_object list" where
  "admin_app_routes = [RouteObject None False [Wrap ''AppShell''] False
     (admin_root_routes @ admin_auth_routes @ admin_console_routes @ admin_fallback_routes)]"

subsection \<open>Where a location leads\<close>

text \<open>Redirects followed, at most \<open>n\<close> objects in all.\<close>

fun lands :: "nat \<Rightarrow> (branch list \<Rightarrow> branch option) \<Rightarrow> route_object list \<Rightarrow> string \<Rightarrow> element option" where
  "lands 0 pick rs url = None"
| "lands (Suc n) pick rs url = (case shown pick rs url of
     Some (NavigateTo t) \<Rightarrow> lands n pick rs t
   | e \<Rightarrow> e)"

text \<open>The first match is preferred to the others: then it is the router's choice, whatever else decides.\<close>

definition best :: "branch list \<Rightarrow> element \<Rightarrow> bool" where
  "best bs e \<longleftrightarrow> (case bs of [] \<Rightarrow> False | b # bs' \<Rightarrow> list_all (prefers b) bs' \<and> last (br_elements b) = e)"

lemma best_shown: "ranks pick \<Longrightarrow> best (matching rs url) e \<Longrightarrow> shown pick rs url = Some e"
  unfolding ranks_def best_def shown_def opens_def
  by (cases "matching rs url"; cases "pick (matching rs url)") (auto simp: list_all_iff split: option.splits dest!: spec [of _ "matching rs url"])

lemma best_lands: "ranks pick \<Longrightarrow> best (matching rs url) (Page p) \<Longrightarrow> lands (Suc n) pick rs url = Some (Page p)"
  by (simp add: best_shown)

lemma best_redirects:
  "ranks pick \<Longrightarrow> best (matching rs url) (NavigateTo t) \<Longrightarrow> lands (Suc n) pick rs url = lands n pick rs t"
  by (simp add: best_shown)

text \<open>What a location matches depends on its segments only.\<close>

lemma matching_cong: "segments (pathname url) = segments (pathname url') \<Longrightarrow> matching rs url = matching rs url'"
  by (simp add: matching_def)

text \<open>A choice there is: the first match to which none is preferred.\<close>

definition first_best :: "branch list \<Rightarrow> branch option" where
  "first_best bs = (case find (\<lambda>b. list_all (\<lambda>a. \<not> prefers a b) bs) bs of None \<Rightarrow> (case bs of [] \<Rightarrow> None | b # _ \<Rightarrow> Some b) | Some b \<Rightarrow> Some b)"

text \<open>One segment of a path, as the identifiers of this API are.\<close>

definition one_segment :: "string \<Rightarrow> bool" where
  "one_segment s \<longleftrightarrow> s \<noteq> [] \<and> CHR ''/'' \<notin> set s \<and> CHR ''?'' \<notin> set s \<and> CHR ''#'' \<notin> set s"

lemma static_pages:
  "best (matching web_routes ''/'') (NavigateTo ''/login'')"
  "best (matching web_routes ''/login'') (Page ''LoginPage'')"
  "best (matching web_routes ''/login/2fa'') (Page ''TwoFAWaitPage'')"
  "best (matching web_routes ''/login/backup'') (Page ''TwoFABackupPage'')"
  "best (matching web_routes ''/drive'') (Page ''DrivePage'')"
  "best (matching web_routes ''/trash'') (Page ''TrashPage'')"
  "best (matching web_routes ''/settings'') (Page ''SettingsPage'')"
  "best (matching web_routes ''/settings/devices'') (Page ''DevicesPage'')"
  "best (matching admin_app_routes ''/'') (NavigateTo ''/admin'')"
  "best (matching admin_app_routes ''/login'') (Page ''LoginPage'')"
  "best (matching admin_app_routes ''/login/2fa'') (Page ''TwoFAWaitPage'')"
  "best (matching admin_app_routes ''/login/backup'') (Page ''TwoFABackupPage'')"
  "best (matching admin_app_routes ''/admin'') (NavigateTo ''/admin/users'')"
  "best (matching admin_app_routes ''/admin/users'') (Page ''AdminUsersPage'')"
  by code_simp+

lemma web_branches: "branches [] [] web_routes =
    [\<lparr>br_path = [], br_index = True, br_elements = [Wrap ''AppShell'', Wrap ''main'', NavigateTo ''/login''], br_root = False\<rparr>,
     \<lparr>br_path = [], br_index = False, br_elements = [Wrap ''AppShell'', Wrap ''main''], br_root = False\<rparr>,
     \<lparr>br_path = [Static ''register'', Dynamic ''token''], br_index = False, br_elements = [Wrap ''AppShell'', Wrap ''AuthLayout'', Page ''RegisterPage''], br_root = False\<rparr>,
     \<lparr>br_path = [Static ''register'', Dynamic ''token'', Static ''backup''], br_index = False, br_elements = [Wrap ''AppShell'', Wrap ''AuthLayout'', Page ''BackupCodeIssuePage''], br_root = False\<rparr>,
     \<lparr>br_path = [Static ''register''], br_index = False, br_elements = [Wrap ''AppShell'', Wrap ''AuthLayout''], br_root = False\<rparr>,
     \<lparr>br_path = [Static ''login''], br_index = True, br_elements = [Wrap ''AppShell'', Wrap ''AuthLayout'', Page ''LoginPage''], br_root = True\<rparr>,
     \<lparr>br_path = [Static ''login'', Static ''2fa''], br_index = False, br_elements = [Wrap ''AppShell'', Wrap ''AuthLayout'', Page ''TwoFAWaitPage''], br_root = False\<rparr>,
     \<lparr>br_path = [Static ''login'', Static ''backup''], br_index = False, br_elements = [Wrap ''AppShell'', Wrap ''AuthLayout'', Page ''TwoFABackupPage''], br_root = False\<rparr>,
     \<lparr>br_path = [Static ''login''], br_index = False, br_elements = [Wrap ''AppShell'', Wrap ''AuthLayout''], br_root = False\<rparr>,
     \<lparr>br_path = [Static ''drive''], br_index = True, br_elements = [Wrap ''AppShell'', Wrap ''PrivateRoute'', Wrap ''DriveLayout'', Page ''DrivePage''], br_root = True\<rparr>,
     \<lparr>br_path = [Static ''drive''], br_index = False, br_elements = [Wrap ''AppShell'', Wrap ''PrivateRoute'', Wrap ''DriveLayout''], br_root = False\<rparr>,
     \<lparr>br_path = [Static ''trash''], br_index = True, br_elements = [Wrap ''AppShell'', Wrap ''PrivateRoute'', Wrap ''DriveLayout'', Page ''TrashPage''], br_root = False\<rparr>,
     \<lparr>br_path = [Static ''trash''], br_index = False, br_elements = [Wrap ''AppShell'', Wrap ''PrivateRoute'', Wrap ''DriveLayout''], br_root = False\<rparr>,
     \<lparr>br_path = [Static ''settings''], br_index = True, br_elements = [Wrap ''AppShell'', Wrap ''PrivateRoute'', Wrap ''DriveLayout'', Page ''SettingsPage''], br_root = False\<rparr>,
     \<lparr>br_path = [Static ''settings'', Static ''devices''], br_index = False, br_elements = [Wrap ''AppShell'', Wrap ''PrivateRoute'', Wrap ''DriveLayout'', Page ''DevicesPage''], br_root = False\<rparr>,
     \<lparr>br_path = [Static ''settings''], br_index = False, br_elements = [Wrap ''AppShell'', Wrap ''PrivateRoute'', Wrap ''DriveLayout''], br_root = False\<rparr>,
     \<lparr>br_path = [Static ''2fa'', Dynamic ''id''], br_index = False, br_elements = [Wrap ''AppShell'', Page ''TwoFAApprovalPage''], br_root = True\<rparr>,
     \<lparr>br_path = [Static ''preview''], br_index = True, br_elements = [Wrap ''AppShell'', Page ''TwoFactorWaiting''], br_root = False\<rparr>,
     \<lparr>br_path = [Static ''preview'', Static ''1''], br_index = False, br_elements = [Wrap ''AppShell'', Page ''TwoFactorApprovalPage''], br_root = False\<rparr>,
     \<lparr>br_path = [Static ''preview'', Static ''2''], br_index = False, br_elements = [Wrap ''AppShell'', Page ''TwoFactorBackupEntry''], br_root = False\<rparr>,
     \<lparr>br_path = [Static ''preview'', Static ''4''], br_index = False, br_elements = [Wrap ''AppShell'', Page ''TrustedDeviceSection''], br_root = False\<rparr>,
     \<lparr>br_path = [Static ''preview'', Static ''5''], br_index = False, br_elements = [Wrap ''AppShell'', Page ''TrustThisDeviceCheckbox''], br_root = False\<rparr>,
     \<lparr>br_path = [Static ''preview''], br_index = False, br_elements = [Wrap ''AppShell''], br_root = False\<rparr>]"
  by code_simp

text \<open>The words of the web client's paths are in lower case, and a parameter takes any segment.\<close>

lemma lower_words:
  "lower ''register'' = ''register''" "lower ''login'' = ''login''" "lower ''drive'' = ''drive''" "lower ''trash'' = ''trash''"
  "lower ''settings'' = ''settings''" "lower ''2fa'' = ''2fa''" "lower ''preview'' = ''preview''" "lower ''backup'' = ''backup''"
  by code_simp+

lemma segments_one: "one_segment s \<Longrightarrow> segments s = [s]"
  by (simp add: segments_def one_segment_def split_on_none)

lemma segments_words:
  assumes "one_segment s"
  shows "segments (''/register/'' @ s) = [''register'', s]"
    and "segments (''/register/'' @ s @ ''/backup'') = [''register'', s, ''backup'']"
    and "segments (''/2fa/'' @ s) = [''2fa'', s]"
  using assms split_on_append [of "CHR ''/''" s "''backup''"]
  by (simp_all add: segments_def one_segment_def split_on_none)

lemma pathname_words:
  assumes "one_segment s"
  shows "pathname (''/register/'' @ s) = ''/register/'' @ s"
    and "pathname (''/register/'' @ s @ ''/backup'') = ''/register/'' @ s @ ''/backup''"
    and "pathname (''/2fa/'' @ s) = ''/2fa/'' @ s"
proof -
  have "\<forall>c\<in>set s. c \<noteq> CHR ''?'' \<and> c \<noteq> CHR ''#''" using assms by (auto simp: one_segment_def)
  then show "pathname (''/register/'' @ s) = ''/register/'' @ s"
    "pathname (''/register/'' @ s @ ''/backup'') = ''/register/'' @ s @ ''/backup''"
    "pathname (''/2fa/'' @ s) = ''/2fa/'' @ s"
    by (simp_all add: pathname_def takeWhile_append2 takeWhile_eq_all_conv)
qed

lemma dynamic_pages:
  assumes "one_segment s"
  shows "best (matching web_routes (''/register/'' @ s)) (Page ''RegisterPage'')"
    and "best (matching web_routes (''/register/'' @ s @ ''/backup'')) (Page ''BackupCodeIssuePage'')"
    and "best (matching web_routes (''/2fa/'' @ s)) (Page ''TwoFAApprovalPage'')"
  unfolding matching_def pathname_words [OF assms] segments_words [OF assms] web_branches
  by (simp_all add: lower_words best_def)

lemma pathname_query: "pathname (''/login/2fa?id='' @ cid) = ''/login/2fa''"
  by (simp add: pathname_def)

subsection \<open>Where the web client goes\<close>

text \<open>\<open>drive-sidebar/model/navigation.ts\<close>, and the menu of \<open>DriveLayout.tsx\<close>.\<close>

definition DRIVE_NAV_ITEMS :: "string list" where
  "DRIVE_NAV_ITEMS = [''/drive'', ''/trash'', ''/settings'']"

definition user_navigation :: "string list" where
  "user_navigation = [''/settings/profiles'', ''/settings'', ''#'']"

definition SETTINGS_ITEMS :: "string list" where
  "SETTINGS_ITEMS = [''/settings/devices'']"

text \<open>A location the client goes to, from what its features return, and the page that is meant.\<close>

inductive web_link :: "string \<Rightarrow> string \<Rightarrow> bool" where
  signed_in: "GoTo t \<in> set (snd (login_succeeded (AUTHENTICATED token u) a)) \<Longrightarrow> web_link t ''DrivePage''"
| second_factor: "GoTo t \<in> set (snd (login_succeeded (TWOFA_REQUIRED cid os expires) a)) \<Longrightarrow> web_link t ''TwoFAWaitPage''"
| backup_signed_in: "GoTo t \<in> set (snd (backup_login_succeeded data a)) \<Longrightarrow> web_link t ''DrivePage''"
| signed_out: "GoTo t \<in> set (snd (logout_settled a)) \<Longrightarrow> web_link t ''LoginPage''"
| denied: "Navigate t \<in> set (snd (status_effect trustDevice data s)) \<Longrightarrow> web_link t ''LoginPage''"
| completed: "Navigate t \<in> set (complete_answer ''/drive'' (Inr (AUTHENTICATED token u))) \<Longrightarrow> web_link t ''DrivePage''"
| not_completed: "Navigate t \<in> set (complete_answer ''/drive'' (Inl e)) \<Longrightarrow> web_link t ''LoginPage''"
| gate: "private_route l = Redirect t \<Longrightarrow> web_link t ''LoginPage''"
| invited: "invitation_create H creator days w = (Inr r, w') \<Longrightarrow> h_config H ''APP_BASE_URL'' = Some base \<Longrightarrow>
    ir_url r = base @ t \<Longrightarrow> one_segment (ir_token r) \<Longrightarrow> web_link t ''RegisterPage''"
| registered: "one_segment token \<Longrightarrow> web_link (''/register/'' @ token @ ''/backup'') ''BackupCodeIssuePage''"
| pushed: "resolve_deep_link (received (message_of job)) = Some t \<Longrightarrow> one_segment (job_challenge_id job) \<Longrightarrow>
    web_link t ''TwoFAApprovalPage''"
| navigation: "(t, p) \<in> set (zip DRIVE_NAV_ITEMS [''DrivePage'', ''TrashPage'', ''SettingsPage'']) \<Longrightarrow> web_link t p"
| settings: "t \<in> set SETTINGS_ITEMS \<Longrightarrow> web_link t ''DevicesPage''"
| with_backup_code: "web_link ''/login/backup'' ''TwoFABackupPage''"
| start: "web_link ''/'' ''LoginPage''"

lemma login_errors:
  "matching web_routes ''/login?error=2fa_denied'' = matching web_routes ''/login''"
  "matching web_routes ''/login?error=2fa_failed'' = matching web_routes ''/login''"
  "matching web_routes (''/login/2fa?id='' @ cid) = matching web_routes ''/login/2fa''"
  by (intro matching_cong; simp add: pathname_def)+


text \<open>The router's choice exists: preferring is ordered.\<close>

definition specificity :: "branch \<Rightarrow> nat" where
  "specificity b = (if Splat \<in> set (br_path b) then 0 else 2) + (if br_index b then 1 else 0)"

lemma prefers_specific: "prefers a b \<Longrightarrow> specificity b < specificity a"
  by (auto simp: prefers_def specificity_def)

lemma ranks_first_best: "ranks first_best"
proof -
  have some: "\<exists>b\<in>set bs. list_all (\<lambda>a. \<not> prefers a b) bs" if "bs \<noteq> []" for bs :: "branch list"
  proof -
    define m where "m = Max (specificity ` set bs)"
    have "m \<in> specificity ` set bs" unfolding m_def using that by (intro Max_in) auto
    then obtain b where b: "b \<in> set bs" "specificity b = m" by auto
    have "specificity a \<le> specificity b" if "a \<in> set bs" for a
      unfolding b(2) m_def using that by simp
    then have "\<not> prefers a b" if "a \<in> set bs" for a using prefers_specific that by (meson not_le)
    with b(1) show ?thesis by (auto simp: list_all_iff)
  qed
  show ?thesis
    unfolding ranks_def
  proof (intro allI)
    fix bs :: "branch list"
    show "case first_best bs of None \<Rightarrow> bs = [] | Some b \<Rightarrow> b \<in> set bs \<and> (\<forall>a\<in>set bs. \<not> prefers a b)"
    proof (cases "find (\<lambda>b. list_all (\<lambda>a. \<not> prefers a b) bs) bs")
      case None
      then have "bs = []" using some [of bs] by (auto simp: find_None_iff)
      then show ?thesis by (simp add: first_best_def)
    next
      case (Some b)
      then have "b \<in> set bs \<and> list_all (\<lambda>a. \<not> prefers a b) bs" using find_Some_set by fastforce
      with Some show ?thesis by (simp add: first_best_def list_all_iff)
    qed
  qed
qed


subsection \<open>Pages behind the gates\<close>

text \<open>The drive's pages are shown by \<open>PrivateRoute\<close> only, and the console's by both gates.\<close>

definition behind :: "element list \<Rightarrow> string list \<Rightarrow> branch \<Rightarrow> bool" where
  "behind gates pages b \<longleftrightarrow> list_ex (\<lambda>p. last (br_elements b) = Page p) pages \<longrightarrow> list_all (\<lambda>g. g \<in> set (br_elements b)) gates"

lemma pages_behind_gates:
  "list_all (behind [Wrap ''PrivateRoute''] [''DrivePage'', ''TrashPage'', ''SettingsPage'', ''DevicesPage'']) (branches [] [] web_routes)"
  "list_all (behind [Wrap ''PrivateRoute'', Wrap ''AdminGate''] [''AdminUsersPage'']) (branches [] [] admin_app_routes)"
  by code_simp+

text \<open>Root destinations, where the back button asks before it leaves the application.\<close>

lemma root_destinations:
  "map (\<lambda>b. last (br_elements b)) (filter br_root (branches [] [] web_routes)) =
     [Page ''LoginPage'', Page ''DrivePage'', Page ''TwoFAApprovalPage'']"
  by code_simp

text \<open>Two entries of the menu under the user's name lead nowhere: to no page, and to the page itself.\<close>

lemma user_navigation_dead:
  "matching web_routes ''/settings/profiles'' = []" "segments (pathname ''#'') = []"
  by code_simp+

subsection \<open>The admin client leads every location to a page\<close>

lemma admin_branches: "branches [] [] admin_app_routes =
    [\<lparr>br_path = [], br_index = False, br_elements = [Wrap ''AppShell'', NavigateTo ''/admin''], br_root = False\<rparr>,
     \<lparr>br_path = [Static ''login''], br_index = True, br_elements = [Wrap ''AppShell'', Wrap ''AuthLayout'', Page ''LoginPage''], br_root = False\<rparr>,
     \<lparr>br_path = [Static ''login'', Static ''2fa''], br_index = False, br_elements = [Wrap ''AppShell'', Wrap ''AuthLayout'', Page ''TwoFAWaitPage''], br_root = False\<rparr>,
     \<lparr>br_path = [Static ''login'', Static ''backup''], br_index = False, br_elements = [Wrap ''AppShell'', Wrap ''AuthLayout'', Page ''TwoFABackupPage''], br_root = False\<rparr>,
     \<lparr>br_path = [Static ''login''], br_index = False, br_elements = [Wrap ''AppShell'', Wrap ''AuthLayout''], br_root = False\<rparr>,
     \<lparr>br_path = [Static ''admin''], br_index = True, br_elements = [Wrap ''AppShell'', Wrap ''PrivateRoute'', Wrap ''AdminGate'', Wrap ''AdminLayout'', NavigateTo ''/admin/users''], br_root = False\<rparr>,
     \<lparr>br_path = [Static ''admin'', Static ''users''], br_index = False, br_elements = [Wrap ''AppShell'', Wrap ''PrivateRoute'', Wrap ''AdminGate'', Wrap ''AdminLayout'', Page ''AdminUsersPage''], br_root = False\<rparr>,
     \<lparr>br_path = [Static ''admin''], br_index = False, br_elements = [Wrap ''AppShell'', Wrap ''PrivateRoute'', Wrap ''AdminGate'', Wrap ''AdminLayout''], br_root = False\<rparr>,
     \<lparr>br_path = [Splat], br_index = False, br_elements = [Wrap ''AppShell'', NavigateTo ''/admin''], br_root = False\<rparr>]"
  by code_simp

lemma admin_words: "lower ''admin'' = ''admin''" "lower ''users'' = ''users''"
  by code_simp+

definition admin_targets :: "element list" where
  "admin_targets = [NavigateTo ''/admin'', NavigateTo ''/admin/users'', Page ''LoginPage'', Page ''TwoFAWaitPage'',
     Page ''TwoFABackupPage'', Page ''AdminUsersPage'']"

lemma admin_shown: "\<exists>e\<in>set admin_targets. best (matching admin_app_routes url) e"
proof -
  obtain ss where ss: "segments (pathname url) = ss" by simp
  have "list_ex (best (filter (\<lambda>b. path_matches (br_path b) ss) (branches [] [] admin_app_routes))) admin_targets"
    unfolding admin_branches admin_targets_def
    by (cases ss; cases "tl ss"; cases "tl (tl ss)") (auto simp: lower_words admin_words best_def prefers_def)
  then show ?thesis by (auto simp: matching_def ss list_ex_iff)
qed

text \<open>
  Every location of the admin client, whatever is typed, ends after at most two redirects
  at a page: an unknown one at the console.
\<close>

theorem admin_location_ends_at_page:
  assumes "ranks pick"
  shows "\<exists>p\<in>{''LoginPage'', ''TwoFAWaitPage'', ''TwoFABackupPage'', ''AdminUsersPage''}.
    lands 3 pick admin_app_routes url = Some (Page p)"
proof -
  note sp = static_pages
  have three: "(3::nat) = Suc (Suc (Suc 0))" by simp
  have users: "lands (Suc n) pick admin_app_routes ''/admin/users'' = Some (Page ''AdminUsersPage'')" for n
    by (rule best_lands [OF assms sp(14)])
  have admin: "lands (Suc (Suc n)) pick admin_app_routes ''/admin'' = Some (Page ''AdminUsersPage'')" for n
    unfolding best_redirects [OF assms sp(13)] by (rule users)
  from admin_shown [of url] obtain e where e: "e \<in> set admin_targets" "best (matching admin_app_routes url) e" by blast
  from e(1) consider "e = NavigateTo ''/admin''" | "e = NavigateTo ''/admin/users''"
    | p where "e = Page p" "p \<in> {''LoginPage'', ''TwoFAWaitPage'', ''TwoFABackupPage'', ''AdminUsersPage''}"
    by (auto simp: admin_targets_def)
  then show ?thesis
  proof cases
    case 1
    with best_redirects [OF assms, of admin_app_routes url] e(2) admin show ?thesis unfolding three by auto
  next
    case 2
    with best_redirects [OF assms, of admin_app_routes url] e(2) users show ?thesis unfolding three by auto
  next
    case 3
    with best_lands [OF assms, of admin_app_routes url] e(2) show ?thesis unfolding three by blast
  qed
qed

theorem admin_location_ends_at_page_witness:
  "\<exists>p\<in>{''LoginPage'', ''TwoFAWaitPage'', ''TwoFABackupPage'', ''AdminUsersPage''}.
    lands 3 first_best admin_app_routes ''/no/such/page'' = Some (Page p)"
  by (rule admin_location_ends_at_page [OF ranks_first_best])

end
