(* ===== verification/ClientPages.thy ===== *)
theory ClientPages
  imports ClientDialogs
begin

text \<open>
  The drive's page of the web client: the breadcrumb bar, the list of files, the search field
  with the URL it writes, the dialogs that ask before something is deleted, and the buttons
  that upload and download. What a component shows is a list of what it offers; styles and
  texts are left out.
\<close>

subsection \<open>\<open>DriveBreadcrumb.tsx\<close>\<close>

datatype breadcrumb_item = RootItem | AncestorItem crumb nat

definition VISIBLE_TAIL_COUNT :: nat where "VISIBLE_TAIL_COUNT = 2"

definition breadcrumb_items :: "crumb list \<Rightarrow> breadcrumb_item list" where
  "breadcrumb_items trail = RootItem # map (\<lambda>(i, folder). AncestorItem folder i) (enumerate 0 trail)"

definition should_collapse :: "breadcrumb_item list \<Rightarrow> bool" where
  "should_collapse items \<longleftrightarrow> VISIBLE_TAIL_COUNT < length items"

definition hidden_items :: "breadcrumb_item list \<Rightarrow> breadcrumb_item list" where
  "hidden_items items = (if should_collapse items then take (length items - VISIBLE_TAIL_COUNT) items else [])"

definition visible_items :: "breadcrumb_item list \<Rightarrow> breadcrumb_item list" where
  "visible_items items = (if should_collapse items then drop (length items - VISIBLE_TAIL_COUNT) items else items)"

definition lost_trail :: "location \<Rightarrow> bool" where
  "lost_trail l \<longleftrightarrow> lo_folder_id l \<noteq> None \<and> trail_of l = []"

text \<open>
  What the bar shows: the root's button, which may be the current page, or the menu of the
  hidden items; the text that stands for a folder whose trail is lost; a folder of the trail
  as text, if it is the current one, or as a button.
\<close>

datatype crumb_view = RootButton bool | EllipsisMenu "breadcrumb_item list" | CurrentFolder | CrumbText crumb | CrumbButton crumb nat

definition crumb_view_of :: "crumb list \<Rightarrow> breadcrumb_item \<Rightarrow> crumb_view list" where
  "crumb_view_of trail item = (case item of
     RootItem \<Rightarrow> []
   | AncestorItem folder i \<Rightarrow> [if i = length trail - 1 then CrumbText folder else CrumbButton folder i])"

definition drive_breadcrumb :: "location \<Rightarrow> crumb_view list" where
  "drive_breadcrumb l = (let trail = trail_of l; items = breadcrumb_items trail in
     (if should_collapse items then [EllipsisMenu (hidden_items items)] else [RootButton (lo_folder_id l = None)]) @
     (if lost_trail l \<and> \<not> should_collapse items then [CurrentFolder] else []) @
     concat (map (crumb_view_of trail) (visible_items items)))"

text \<open>What can be clicked in the bar, and what a click does.\<close>

definition clickable :: "crumb_view \<Rightarrow> breadcrumb_item list" where
  "clickable v = (case v of RootButton _ \<Rightarrow> [RootItem] | EllipsisMenu items \<Rightarrow> items | CrumbButton f i \<Rightarrow> [AncestorItem f i]
   | CurrentFolder \<Rightarrow> [] | CrumbText _ \<Rightarrow> [])"

definition click_item :: "breadcrumb_item \<Rightarrow> location \<Rightarrow> location" where
  "click_item item = (case item of RootItem \<Rightarrow> navigate_root | AncestorItem _ i \<Rightarrow> navigate_to_ancestor (int i))"

lemma length_breadcrumb_items [simp]: "length (breadcrumb_items trail) = Suc (length trail)"
  by (simp add: breadcrumb_items_def)

lemma breadcrumb_items_nonempty [simp]: "breadcrumb_items trail \<noteq> []"
  by (simp add: breadcrumb_items_def)

lemma collapse_iff: "should_collapse (breadcrumb_items trail) \<longleftrightarrow> 2 \<le> length trail"
  by (auto simp: should_collapse_def VISIBLE_TAIL_COUNT_def)

lemma hidden_visible: "hidden_items items @ visible_items items = items"
  by (simp add: hidden_items_def visible_items_def)

lemma breadcrumb_items_snoc:
  "breadcrumb_items (trail @ [f]) = breadcrumb_items trail @ [AncestorItem f (length trail)]"
  by (simp add: breadcrumb_items_def enumerate_append_eq)

lemma item_index: "AncestorItem g i \<in> set (breadcrumb_items trail) \<Longrightarrow> i < length trail \<and> trail ! i = g"
  by (auto simp: breadcrumb_items_def in_set_enumerate_eq)

text \<open>
  The bar offers every place above the current one exactly once, in order from the root on,
  however long the trail is, and the current folder as text.
\<close>

lemma crumbs_of_ancestors:
  assumes "set items \<subseteq> set (breadcrumb_items trail)"
  shows "concat (map clickable (concat (map (crumb_view_of (trail @ [f])) items))) = filter (\<lambda>i. i \<noteq> RootItem) items"
proof -
  have "concat (map clickable (crumb_view_of (trail @ [f]) i)) = filter (\<lambda>i. i \<noteq> RootItem) [i]" if "i \<in> set items" for i
    using item_index [of _ _ trail] that assms by (cases i) (fastforce simp: crumb_view_of_def clickable_def)+
  then show ?thesis by (induction items) auto
qed

lemma current_is_text:
  "crumb_view_of (trail @ [f]) (AncestorItem f (length trail)) = [CrumbText f]"
  by (simp add: crumb_view_of_def)

lemma breadcrumb_offers:
  "concat (map clickable (drive_breadcrumb l)) =
     (if trail_of l = [] then [RootItem] else butlast (breadcrumb_items (trail_of l)))"
proof (cases "trail_of l" rule: rev_cases)
  case Nil
  then show ?thesis
    by (auto simp: drive_breadcrumb_def Let_def breadcrumb_items_def should_collapse_def VISIBLE_TAIL_COUNT_def
        visible_items_def crumb_view_of_def clickable_def)
next
  case (snoc trail f)
  define items where "items = breadcrumb_items trail"
  obtain vs where vs: "visible_items (items @ [AncestorItem f (length trail)]) = vs @ [AncestorItem f (length trail)]"
    "hidden_items (items @ [AncestorItem f (length trail)]) @ vs = items"
  proof -
    let ?all = "items @ [AncestorItem f (length trail)]"
    have "visible_items ?all \<noteq> []"
      by (simp add: visible_items_def should_collapse_def VISIBLE_TAIL_COUNT_def)
    then obtain vs x where "visible_items ?all = vs @ [x]" by (cases "visible_items ?all" rule: rev_cases) auto
    with hidden_visible [of ?all] have "visible_items ?all = vs @ [AncestorItem f (length trail)] \<and> hidden_items ?all @ vs = items"
      by (metis append.assoc append1_eq_conv)
    then show thesis using that by blast
  qed
  have sub: "set vs \<subseteq> set (breadcrumb_items trail)" using arg_cong [OF vs(2), of set] unfolding items_def [symmetric] by auto
  have root: "items = RootItem # tl items" "RootItem \<notin> set (tl items)"
    by (auto simp: items_def breadcrumb_items_def)
  then have ancestors: "filter (\<lambda>i. i \<noteq> RootItem) (tl items) = tl items" by (auto simp: filter_id_conv)
  show ?thesis
  proof (cases "should_collapse (items @ [AncestorItem f (length trail)])")
    case True
    then have "2 \<le> length (trail @ [f])" unfolding items_def breadcrumb_items_snoc [symmetric] by (simp only: collapse_iff)
    then have "hidden_items (items @ [AncestorItem f (length trail)]) \<noteq> []"
      using True by (auto simp: hidden_items_def VISIBLE_TAIL_COUNT_def items_def)
    then obtain hs where hs: "hidden_items (items @ [AncestorItem f (length trail)]) = RootItem # hs" "hs @ vs = tl items"
      using vs(2) root(1) by (metis append_Cons list.exhaust list.inject)
    have "set vs \<subseteq> set (tl items)" using hs(2) by (metis Un_upper2 set_append)
    then have "filter (\<lambda>i. i \<noteq> RootItem) vs = vs" using root(2) by (auto simp: filter_id_conv)
    then show ?thesis
      using True snoc vs crumbs_of_ancestors [OF sub]
      by (simp add: drive_breadcrumb_def Let_def breadcrumb_items_snoc items_def [symmetric] clickable_def current_is_text lost_trail_def)
  next
    case False
    then have "vs = items" using vs(2) by (simp add: hidden_items_def)
    moreover have "filter (\<lambda>i. i \<noteq> RootItem) items = tl items" by (subst root(1)) (simp add: ancestors)
    ultimately show ?thesis using False snoc vs(1) crumbs_of_ancestors [OF sub] root(1) [symmetric]
      by (simp add: drive_breadcrumb_def Let_def breadcrumb_items_snoc items_def [symmetric] clickable_def current_is_text lost_trail_def)
  qed
qed

text \<open>A click on a folder of the bar goes to it, with the trail that led there; one on the root starts over.\<close>

lemma click_ancestor:
  assumes "AncestorItem f i \<in> set (breadcrumb_items (trail_of l))" and "cr_id f \<noteq> []"
  shows "lo_folder_id (click_item (AncestorItem f i) l) = Some (cr_id f)"
    and "trail_of (click_item (AncestorItem f i) l) = take (i + 1) (trail_of l)"
proof -
  from item_index [OF assms(1)] have i: "i < length (trail_of l)" "trail_of l ! i = f" by auto
  then have "last (take (i + 1) (trail_of l)) = f" by (simp add: take_Suc_conv_app_nth)
  then have "click_item (AncestorItem f i) l = \<lparr>lo_folder_id = Some (cr_id f), lo_trail = Some (take (i + 1) (trail_of l))\<rparr>"
    using i(1) by (simp add: click_item_def navigate_to_ancestor_def Let_def nat_add_distrib)
  then show "lo_folder_id (click_item (AncestorItem f i) l) = Some (cr_id f)"
    "trail_of (click_item (AncestorItem f i) l) = take (i + 1) (trail_of l)"
    using assms(2) by (simp_all add: trail_of_def truthy_def)
qed

lemma click_root: "click_item RootItem l = \<lparr>lo_folder_id = None, lo_trail = Some []\<rparr>"
  by (simp add: click_item_def navigate_root_def)

subsection \<open>\<open>SearchInput.tsx\<close>, \<open>DrivePage.tsx\<close>\<close>

text \<open>
  The page's location: its search parameters, of which \<open>folderId\<close> is one, and the trail of its
  history state. \<open>setSearchParams\<close> navigates with new parameters and no state.
\<close>

record drive_location =
  dl_params :: search_params
  dl_trail :: "crumb list option"

definition drive_crumbs :: "drive_location \<Rightarrow> location" where
  "drive_crumbs l = \<lparr>lo_folder_id = dl_params l ''folderId'', lo_trail = dl_trail l\<rparr>"

definition set_search_params :: "search_params \<Rightarrow> drive_location \<Rightarrow> drive_location" where
  "set_search_params ps l = \<lparr>dl_params = ps, dl_trail = None\<rparr>"

definition navigate_crumbs :: "location \<Rightarrow> drive_location" where
  "navigate_crumbs l = \<lparr>dl_params = (case lo_folder_id l of None \<Rightarrow> Map.empty | Some f \<Rightarrow> [''folderId'' \<mapsto> f]), dl_trail = lo_trail l\<rparr>"

datatype search_event = Type string | PickScope string | Key string | ClickClear | Debounced | CompositionStart | CompositionEnd

definition scope_disabled :: "uuid option \<Rightarrow> string \<Rightarrow> bool" where
  "scope_disabled folderId scope \<longleftrightarrow> scope = ''folder'' \<and> folderId = None"

definition search_input_step :: "search_event \<Rightarrow> search_field \<times> drive_location \<Rightarrow> search_field \<times> drive_location" where
  "search_input_step e st = (case st of (s, l) \<Rightarrow>
     let ps = dl_params l;
         clear = (case search_clear s ps of (s', ps') \<Rightarrow> (s', set_search_params ps' l));
         flush = (s, set_search_params (search_flush s ps) l)
     in case e of
       Type v \<Rightarrow> (s\<lparr>sf_value := v\<rparr>, l)
     | PickScope scope \<Rightarrow> if scope_disabled (ps ''folderId'') scope then (s, l) else (s\<lparr>sf_scope := scope\<rparr>, l)
     | Key k \<Rightarrow> if k = ''Escape'' then clear else if k = ''Enter'' then flush else (s, l)
     | ClickClear \<Rightarrow> if sf_value s \<noteq> [] then clear else (s, l)
     | Debounced \<Rightarrow> if search_schedules ps s then flush else (s, l)
     | CompositionStart \<Rightarrow> (s\<lparr>sf_composing := True\<rparr>, l)
     | CompositionEnd \<Rightarrow> (s\<lparr>sf_composing := False\<rparr>, l))"

text \<open>Each event is followed by a render, which takes over what changed in the URL.\<close>

definition search_page_step :: "search_event \<Rightarrow> search_field \<times> drive_location \<Rightarrow> search_field \<times> drive_location" where
  "search_page_step e st = (case search_input_step e st of (s, l) \<Rightarrow> (search_render (dl_params l) s, l))"

definition search_scopes_ok :: "search_field \<times> drive_location \<Rightarrow> bool" where
  "search_scopes_ok st \<longleftrightarrow> sf_last_url_q (fst st) = url_q (dl_params (snd st)) \<and> sf_last_url_scope (fst st) = url_scope (dl_params (snd st))"

lemma search_page_step_ok: "search_scopes_ok (search_page_step e st)"
  by (cases "search_input_step e st") (simp add: search_page_step_def search_scopes_ok_def search_render_def Let_def)

lemma search_keeps_folder:
  "dl_params (snd (search_page_step e st)) ''folderId'' = dl_params (snd st) ''folderId''"
  by (cases st; cases e) (simp_all add: search_page_step_def search_input_step_def search_clear_def search_flush_def
      set_search_params_def Let_def)

interpretation search_page: history_frame search_page_step "\<lambda>_. True" "\<lambda>_. True" "\<lambda>st. dl_params (snd st) ''folderId''"
  by unfold_locales (simp_all add: search_keeps_folder)

text \<open>However the field is used, the page stays at its folder.\<close>

lemma search_stays_in_folder:
  "dl_params (snd (fold search_page_step es st)) ''folderId'' = dl_params (snd st) ''folderId''"
  by (rule search_page.run_part) simp_all

text \<open>A click in the bar or on a folder ends the search and goes where the trail says.\<close>

lemma crumbs_end_search:
  "drive_crumbs (navigate_crumbs l) = l" "\<not> is_searching (dl_params (navigate_crumbs l))"
  by (simp_all add: drive_crumbs_def navigate_crumbs_def is_searching_def url_q_def MIN_QUERY_LENGTH_def split: option.split)

text \<open>
  The trail, though, is lost with the first text that reaches the URL, and clearing the field
  does not bring it back: the bar then offers the root only, and the trail of a folder that is
  opened next lacks what is above it.
\<close>

lemma search_loses_trail:
  assumes "dl_params l ''folderId'' = Some f" and "f \<noteq> []" and "e = Key ''Enter'' \<or> e = Key ''Escape''"
  shows "let l' = snd (search_page_step e (s, l)) in
    drive_breadcrumb (drive_crumbs l') = [RootButton False, CurrentFolder] \<and>
    trail_of (open_folder g (drive_crumbs l')) = (if cr_id g = [] then [] else [g])"
proof -
  have "drive_crumbs (snd (search_page_step e (s, l))) = \<lparr>lo_folder_id = Some f, lo_trail = None\<rparr>"
    using assms by (auto simp: search_page_step_def search_input_step_def Let_def drive_crumbs_def set_search_params_def
        search_clear_def search_flush_def)
  then show ?thesis using assms(2)
    by (simp add: drive_breadcrumb_def Let_def trail_of_def truthy_def nullish_def breadcrumb_items_def should_collapse_def
        VISIBLE_TAIL_COUNT_def lost_trail_def visible_items_def crumb_view_of_def open_folder_def)
qed

subsection \<open>\<open>FileList.tsx\<close> and the other lists\<close>

text \<open>
  What a component shows of a query: a placeholder, an error, that there is nothing, or the
  items.
\<close>

datatype 'a list_view = Skeleton | LoadError | EmptyState | Items 'a

definition browse_mode_list :: "bool \<Rightarrow> bool \<Rightarrow> 'a list \<Rightarrow> 'b list \<Rightarrow> ('a list \<times> 'b list) list_view" where
  "browse_mode_list isLoading error fs gs =
     (if isLoading then Skeleton
      else if error then LoadError
      else if length fs = 0 \<and> length gs = 0 then EmptyState
      else Items (fs, gs))"

definition search_mode_list :: "bool \<Rightarrow> 'b list \<Rightarrow> 'b list list_view" where
  "search_mode_list isLoading gs = (if isLoading then Skeleton else if length gs = 0 then EmptyState else Items gs)"

text \<open>A query: whether it is loading, its error and its data. The hooks read data that is missing as none.\<close>

record 'a query =
  qu_loading :: bool
  qu_error :: bool
  qu_data :: "'a option"

definition use_file_list :: "uuid option \<Rightarrow> folder_children query \<Rightarrow> folder_children query \<Rightarrow>
    (folder_item list \<times> file_row list) list_view" where
  "use_file_list folderId children root = (let active = active_listing folderId children root in
     browse_mode_list (qu_loading active) (qu_error active)
       (case qu_data active of None \<Rightarrow> [] | Some d \<Rightarrow> fc_folders d)
       (case qu_data active of None \<Rightarrow> [] | Some d \<Rightarrow> fc_files d))"

definition trash_list_view :: "trash_item list query \<Rightarrow> trash_item list list_view" where
  "trash_list_view q = (let items = sorted_trash (qu_data q) in
     if qu_loading q then Skeleton
     else if qu_error q then LoadError
     else if \<not> qu_loading q \<and> length items = 0 then EmptyState
     else Items items)"

definition drive_mount_panel :: "'d query \<Rightarrow> 'c list query \<Rightarrow> 'c list list_view" where
  "drive_mount_panel drive credentials =
     (if qu_loading drive \<or> qu_loading credentials then Skeleton
      else if qu_error drive \<or> qu_error credentials then LoadError
      else case qu_data credentials of
        None \<Rightarrow> EmptyState
      | Some cs \<Rightarrow> if length cs > 0 then Items cs else EmptyState)"

definition trusted_device_section :: "'d list query \<Rightarrow> 'd list list_view" where
  "trusted_device_section q = (let devices = nullish (qu_data q) [] in
     if qu_loading q then Skeleton else if length devices = 0 then EmptyState else Items devices)"

definition user_list_section :: "admin_user_list query \<Rightarrow> admin_user_item list list_view" where
  "user_list_section q = (if qu_loading q then Skeleton
     else case qu_data q of
       None \<Rightarrow> LoadError
     | Some d \<Rightarrow> if qu_error q then LoadError
         else if length (al_items d) = 0 then EmptyState else Items (al_items d))"

definition search_result_list :: "file_item list query \<Rightarrow> file_item list list_view" where
  "search_result_list q = search_mode_list (qu_loading q) (nullish (qu_data q) [])"

text \<open>A query that failed has an error and no data, or the data of an earlier answer.\<close>

definition failed :: "'a query \<Rightarrow> bool" where
  "failed q \<longleftrightarrow> \<not> qu_loading q \<and> qu_error q"

lemmas list_views = browse_mode_list_def search_mode_list_def use_file_list_def trash_list_view_def drive_mount_panel_def
  trusted_device_section_def user_list_section_def search_result_list_def failed_def Let_def

text \<open>
  The lists of the drive, the trash, the mounts and the admin's users tell a failure from an
  empty answer; those of trusted devices and of a search do not.
\<close>

lemma failures_shown:
  "failed (active_listing f c r) \<Longrightarrow> use_file_list f c r = LoadError"
  "failed t \<Longrightarrow> trash_list_view t = LoadError"
  "failed m \<Longrightarrow> \<not> qu_loading d \<Longrightarrow> drive_mount_panel d m = LoadError"
  "failed d \<Longrightarrow> \<not> qu_loading m \<Longrightarrow> drive_mount_panel d m = LoadError"
  "failed u \<Longrightarrow> user_list_section u = LoadError"
  by (simp_all add: list_views split: option.split)

lemma failures_hidden:
  "failed q \<Longrightarrow> qu_data q = None \<Longrightarrow> trusted_device_section q = EmptyState"
  "failed s \<Longrightarrow> qu_data s = None \<Longrightarrow> search_result_list s = EmptyState"
  by (simp_all add: list_views)

text \<open>An answer that arrived is shown as it is, the trash as the API sorted it.\<close>

definition arrived :: "'a \<Rightarrow> 'a query" where
  "arrived d = \<lparr>qu_loading = False, qu_error = False, qu_data = Some d\<rparr>"

lemma answers_shown:
  "use_file_list None c (arrived d) = (if fc_folders d = [] \<and> fc_files d = [] then EmptyState else Items (fc_folders d, fc_files d))"
  "trash_list u w = (Inr is, w') \<Longrightarrow> trash_list_view (arrived is) = (if is = [] then EmptyState else Items is)"
  "drive_mount_panel (arrived d) (arrived cs) = (if cs = [] then EmptyState else Items cs)"
  by (auto simp: list_views arrived_def active_listing_def truthy_def trash_list_sorted split: if_splits)

text \<open>What a click on a file does: an image is previewed, another file is downloaded.\<close>

datatype file_click = PreviewFile preview_target | DownloadFile uuid string

definition handle_file_click :: "uuid \<Rightarrow> string \<Rightarrow> string \<Rightarrow> file_click" where
  "handle_file_click fid name mimeType =
     (if is_image_mime_type mimeType then PreviewFile \<lparr>pt_id = fid, pt_name = name, pt_mime_type = mimeType\<rparr>
      else DownloadFile fid name)"

lemma previewed_files_open:
  "handle_file_click fid name mimeType = PreviewFile t \<Longrightarrow>
     pv_open (preview_open t s) \<and> pv_target (preview_open t s) = Some t \<and> pt_id t = fid"
  by (auto simp: handle_file_click_def preview_open_def revoke_def split: if_splits option.split)

text \<open>Which dialog of a folder's row is open.\<close>

datatype folder_modal_kind = RenameModal | MoveModal | DeleteModal

definition modal_open :: "folder_modal_kind \<Rightarrow> folder_modal_kind option \<Rightarrow> bool" where
  "modal_open kind modalKind \<longleftrightarrow> modalKind = Some kind"

lemma one_modal: "modal_open k m \<Longrightarrow> modal_open k' m \<Longrightarrow> k = k'"
  by (simp add: modal_open_def)

text \<open>\<open>DrivePage\<close>: while a search is on, its results take the place of the listing, the bar and the mounts.\<close>

datatype drive_region = SearchBanner string | Breadcrumb "crumb_view list" | Toolbar | SearchResults "file_item list list_view"
  | FolderContents "(folder_item list \<times> file_row list) list_view" | MountPanel

definition drive_page :: "drive_location \<Rightarrow> file_item list query \<Rightarrow> folder_children query \<Rightarrow> folder_children query \<Rightarrow> drive_region list" where
  "drive_page l found children root = (let ps = dl_params l; folderId = ps ''folderId'' in
     if is_searching ps then [SearchBanner (url_q ps), Toolbar,
       SearchResults (search_result_list found)]
     else [Breadcrumb (drive_breadcrumb (drive_crumbs l)), Toolbar, FolderContents (use_file_list folderId children root), MountPanel])"

text \<open>
  A search by an address that has the scope \<open>folder\<close> but no folder is never sent; the page
  then shows that nothing was found.
\<close>

lemma folder_search_without_folder:
  assumes "is_searching (dl_params l)" and "dl_params l ''scope'' = Some ''folder''" and "dl_params l ''folderId'' = None"
  shows "\<not> search_enabled (url_q (dl_params l)) (url_scope (dl_params l)) None"
    and "SearchResults EmptyState \<in> set (drive_page l \<lparr>qu_loading = False, qu_error = False, qu_data = None\<rparr> c r)"
  using assms by (simp_all add: search_enabled_def url_scope_def read_scope_def drive_page_def Let_def list_views)

subsection \<open>Dialogs that ask first\<close>

text \<open>
  \<open>DeleteFolderDialog\<close>, \<open>PurgeConfirmDialog\<close> and \<open>TrustedDeviceRevokeDialog\<close>: each is shown
  for a request that its owner has set (the open row, the item, the device), sends it when it
  is confirmed, and stays with the error when the API refuses. The page behind an open dialog
  takes no clicks, and the buttons take none while a request is under way.
\<close>

record 'm confirm_dialog =
  cd_request :: "'m option"
  cd_error :: "dialog_error option"
  cd_pending :: bool

definition confirm_start :: "'m confirm_dialog" where
  "confirm_start = \<lparr>cd_request = None, cd_error = None, cd_pending = False\<rparr>"

definition confirm_open :: "'m \<Rightarrow> 'm confirm_dialog \<Rightarrow> 'm confirm_dialog" where
  "confirm_open m d = (if cd_request d = None then d\<lparr>cd_request := Some m\<rparr> else d)"

definition confirm_close :: "'m confirm_dialog \<Rightarrow> 'm confirm_dialog" where
  "confirm_close d = (if cd_pending d then d else d\<lparr>cd_request := None, cd_error := None\<rparr>)"

definition confirm_submit :: "'m confirm_dialog \<Rightarrow> 'm confirm_dialog \<times> 'm list" where
  "confirm_submit d = (case cd_request d of
     None \<Rightarrow> (d, [])
   | Some m \<Rightarrow> if cd_pending d then (d, []) else (d\<lparr>cd_error := None, cd_pending := True\<rparr>, [m]))"

definition confirm_answered :: "(string option \<times> string option) option option \<Rightarrow> 'm confirm_dialog \<Rightarrow> 'm confirm_dialog" where
  "confirm_answered failure d = (if \<not> cd_pending d then d else case failure of
     None \<Rightarrow> d\<lparr>cd_request := None, cd_pending := False\<rparr>
   | Some data \<Rightarrow> d\<lparr>cd_error := Some (dialog_failed data), cd_pending := False\<rparr>)"

datatype 'm confirm_event = Ask 'm | Dismiss | Confirm | Settled "(string option \<times> string option) option option"

definition confirm_step :: "'m confirm_event \<Rightarrow> 'm confirm_dialog \<Rightarrow> 'm confirm_dialog \<times> 'm list" where
  "confirm_step e d = (case e of
     Ask m \<Rightarrow> (confirm_open m d, [])
   | Dismiss \<Rightarrow> (confirm_close d, [])
   | Confirm \<Rightarrow> confirm_submit d
   | Settled failure \<Rightarrow> (confirm_answered failure d, []))"

fun confirm_run :: "'m confirm_event list \<Rightarrow> 'm confirm_dialog \<Rightarrow> 'm confirm_dialog \<times> 'm list" where
  "confirm_run [] d = (d, [])"
| "confirm_run (e # es) d = (case confirm_step e d of (d', out) \<Rightarrow> (case confirm_run es d' of (d'', out') \<Rightarrow> (d'', out @ out')))"

text \<open>The three dialogs, each with what it sends for its folder, item or device; and the button that restores an item.\<close>

definition delete_folder_step :: "folder_item confirm_event \<Rightarrow> folder_item confirm_dialog \<Rightarrow> folder_item confirm_dialog \<times> drive_mutation list" where
  "delete_folder_step e d = apsnd (map (\<lambda>folder. DeleteFolder (foi_id folder))) (confirm_step e d)"

definition purge_confirm_step :: "trash_item confirm_event \<Rightarrow> trash_item confirm_dialog \<Rightarrow> trash_item confirm_dialog \<times> drive_mutation list" where
  "purge_confirm_step e d = apsnd (map (\<lambda>item. PurgeItem (ti_id item) (ti_type item))) (confirm_step e d)"

definition revoke_device_step ::
  "trusted_device_response confirm_event \<Rightarrow> trusted_device_response confirm_dialog \<Rightarrow> trusted_device_response confirm_dialog \<times> uuid list" where
  "revoke_device_step e d = apsnd (map tdr_id) (confirm_step e d)"

record restore_button =
  rb_error :: "dialog_error option"
  rb_pending :: bool

definition restore_click :: "trash_item \<Rightarrow> restore_button \<Rightarrow> restore_button \<times> drive_mutation list" where
  "restore_click item s = (if rb_pending s then (s, [])
     else (s\<lparr>rb_error := None, rb_pending := True\<rparr>, [RestoreItem (ti_id item) (ti_type item)]))"

definition restore_answered :: "(string option \<times> string option) option option \<Rightarrow> restore_button \<Rightarrow> restore_button" where
  "restore_answered failure s = (case failure of
     None \<Rightarrow> s\<lparr>rb_pending := False\<rparr>
   | Some data \<Rightarrow> s\<lparr>rb_error := Some (dialog_failed data), rb_pending := False\<rparr>)"

definition dialog_inv :: "'m confirm_dialog \<Rightarrow> bool" where
  "dialog_inv d \<longleftrightarrow> (cd_pending d \<longrightarrow> cd_request d \<noteq> None \<and> cd_error d = None) \<and> (cd_error d \<noteq> None \<longrightarrow> cd_request d \<noteq> None)"

lemmas confirm_defs = confirm_step_def confirm_open_def confirm_close_def confirm_submit_def confirm_answered_def

lemma confirm_step_inv: "dialog_inv d \<Longrightarrow> dialog_inv (fst (confirm_step e d))"
  by (cases e; cases "cd_request d") (auto simp: dialog_inv_def confirm_defs split: option.split)

interpretation confirmation: event_run confirm_step confirm_run dialog_inv
  by unfold_locales (simp_all add: confirm_step_inv)

text \<open>
  Nothing is sent that was not asked about and confirmed: over any run there are no more
  requests than confirmations, one at most is unanswered, and each is one that a dialog was
  opened for.
\<close>

lemma requests_confirmed:
  "length (snd (confirm_run es d)) \<le> length (filter (\<lambda>e. e = Confirm) es)"
proof (induction es arbitrary: d)
  case (Cons e es)
  have "length (snd (confirm_step e d)) \<le> (if e = Confirm then 1 else 0)"
    by (cases e) (auto simp: confirm_defs split: option.split)
  with Cons.IH [of "fst (confirm_step e d)"] show ?case unfolding confirmation.run_parts by auto
qed simp

lemma requests_one_at_a_time:
  "length (snd (confirm_run es d)) + (if cd_pending d then 1 else 0) \<le> length (filter (\<lambda>e. \<exists>f. e = Settled f) es) + 1"
proof (induction es arbitrary: d)
  case (Cons e es)
  have "length (snd (confirm_step e d)) + (if cd_pending d then 1 else 0) \<le>
      (if \<exists>f. e = Settled f then 1 else 0) + (if cd_pending (fst (confirm_step e d)) then 1 else 0)"
    by (cases e) (auto simp: confirm_defs split: option.split)
  with Cons.IH [of "fst (confirm_step e d)"] show ?case unfolding confirmation.run_parts by auto
qed simp

lemma requests_asked:
  "m \<in> set (snd (confirm_run es d)) \<Longrightarrow> Ask m \<in> set es \<or> cd_request d = Some m"
proof (induction es arbitrary: d)
  case (Cons e es)
  have "m \<in> set (snd (confirm_step e d)) \<or> cd_request (fst (confirm_step e d)) = Some m \<Longrightarrow> e = Ask m \<or> cd_request d = Some m"
    by (cases e) (auto simp: confirm_defs split: option.splits if_splits)
  with Cons.IH [of "fst (confirm_step e d)"] Cons.prems show ?case unfolding confirmation.run_parts by auto
qed simp

lemma nothing_without_confirmation: "Confirm \<notin> set es \<Longrightarrow> snd (confirm_run es d) = []"
proof -
  assume "Confirm \<notin> set es"
  then have "filter (\<lambda>e. e = Confirm) es = []" by (auto simp: filter_empty_conv)
  then show ?thesis using requests_confirmed [of es d] by simp
qed

text \<open>A dialog that is confirmed once sends exactly what it was opened for, and closes when the API agrees.\<close>

lemma confirmed_once:
  "confirm_run [Ask m, Confirm, Settled None] confirm_start = (confirm_start, [m])"
  by (simp add: confirm_defs confirm_start_def)

lemma what_dialogs_send:
  "snd (delete_folder_step Confirm (confirm_open f confirm_start)) = [DeleteFolder (foi_id f)]"
  "snd (purge_confirm_step Confirm (confirm_open i confirm_start)) = [PurgeItem (ti_id i) (ti_type i)]"
  "snd (revoke_device_step Confirm (confirm_open t confirm_start)) = [tdr_id t]"
  by (simp_all add: delete_folder_step_def purge_confirm_step_def revoke_device_step_def confirm_defs confirm_start_def)

text \<open>A refusal keeps the dialog open with what the API said, and the same request can be sent again; a dismissal forgets it.\<close>

lemma refused_can_retry:
  assumes "cd_request d = Some m" and "cd_pending d"
  shows "let d' = confirm_answered (Some data) d in
      cd_error d' = Some (dialog_failed data) \<and> confirm_submit d' = (d'\<lparr>cd_error := None, cd_pending := True\<rparr>, [m]) \<and>
      confirm_close d' = confirm_start\<lparr>confirm_dialog.more := confirm_dialog.more d\<rparr>"
  using assms by (simp add: confirm_answered_def confirm_submit_def confirm_close_def confirm_start_def Let_def)

text \<open>\<open>RevokeMountCredentialButton\<close>: the browser's own question.\<close>

definition revoke_mount_click :: "bool \<Rightarrow> uuid \<Rightarrow> uuid list" where
  "revoke_mount_click confirmed credentialId = (if \<not> confirmed then [] else [credentialId])"

subsection \<open>\<open>UploadButton.tsx\<close>, \<open>DownloadButton.tsx\<close>\<close>

record upload_button =
  ub_progress :: "nat option"
  ub_error :: "string option"
  ub_pending :: bool

datatype 'f upload_event = ChooseFile "'f option" | Progress nat | UploadSucceeded | UploadFailed string

text \<open>The button is disabled while an upload runs; reports of progress come from the running upload.\<close>

definition upload_button_step :: "'f upload_event \<Rightarrow> upload_button \<Rightarrow> upload_button \<times> 'f list" where
  "upload_button_step e s = (case e of
     ChooseFile None \<Rightarrow> (s, [])
   | ChooseFile (Some file) \<Rightarrow>
       if ub_pending s then (s, []) else (s\<lparr>ub_error := None, ub_progress := Some 0, ub_pending := True\<rparr>, [file])
   | Progress n \<Rightarrow> (if ub_pending s then s\<lparr>ub_progress := Some n\<rparr> else s, [])
   | UploadSucceeded \<Rightarrow> (if ub_pending s then s\<lparr>ub_progress := None, ub_error := None, ub_pending := False\<rparr> else s, [])
   | UploadFailed message \<Rightarrow>
       (if ub_pending s then s\<lparr>ub_error := Some message, ub_progress := None, ub_pending := False\<rparr> else s, []))"

text \<open>The bar of progress is shown just while an upload runs, and an error only when none does.\<close>

definition upload_button_inv :: "upload_button \<Rightarrow> bool" where
  "upload_button_inv s \<longleftrightarrow> (ub_progress s \<noteq> None \<longleftrightarrow> ub_pending s) \<and> (ub_error s \<noteq> None \<longrightarrow> \<not> ub_pending s)"

lemma upload_button_step_inv: "upload_button_inv s \<Longrightarrow> upload_button_inv (fst (upload_button_step e s))"
  by (auto simp: upload_button_inv_def upload_button_step_def split: upload_event.split option.split)

interpretation uploads: history "\<lambda>e s. fst (upload_button_step e s)" upload_button_inv
  by unfold_locales (rule upload_button_step_inv)

lemma progress_while_uploading:
  "upload_button_inv (fold (\<lambda>e s. fst (upload_button_step e s)) es \<lparr>ub_progress = None, ub_error = None, ub_pending = False\<rparr>)"
  by (rule uploads.run_inv) (simp add: upload_button_inv_def)

text \<open>
  \<open>useDownloadFile\<close> and the alert of its button. Once the file is here, the native application
  writes it into the folder of documents, and the browser saves it through a link whose object
  URL is revoked by a timer; the alert opens when the saved place changes.
\<close>

datatype download_out = WriteFile string string | ClickLink nat string | RevokeUrl nat

record download_button =
  db_saved_uri :: "string option"
  db_alert :: bool
  db_live :: "nat list"
  db_made :: nat

definition download_start :: download_button where
  "download_start = \<lparr>db_saved_uri = None, db_alert = False, db_live = [], db_made = 0\<rparr>"

definition set_last_saved_uri :: "string \<Rightarrow> download_button \<Rightarrow> download_button" where
  "set_last_saved_uri uri s =
     (if db_saved_uri s = Some uri then s
      else s\<lparr>db_saved_uri := Some uri, db_alert := (if uri \<noteq> [] then True else db_alert s)\<rparr>)"

text \<open>\<open>dataUrl\<close> is the file as the reader gives it, \<open>written\<close> the place it was written to, if it was.\<close>

definition native_download :: "string \<Rightarrow> string \<Rightarrow> string option \<Rightarrow> download_button \<Rightarrow> download_button \<times> download_out list" where
  "native_download fileName dataUrl written s =
     (case written of None \<Rightarrow> s | Some uri \<Rightarrow> set_last_saved_uri uri s, [WriteFile fileName (data_of_url dataUrl)])"

definition browser_download :: "string \<Rightarrow> download_button \<Rightarrow> download_button \<times> download_out list" where
  "browser_download fileName s =
     (s\<lparr>db_live := db_made s # db_live s, db_made := Suc (db_made s)\<rparr>, [ClickLink (db_made s) fileName])"

definition revoke_timer :: "nat \<Rightarrow> download_button \<Rightarrow> download_button \<times> download_out list" where
  "revoke_timer url s = (s\<lparr>db_live := remove1 url (db_live s)\<rparr>, [RevokeUrl url])"

definition dismiss_alert :: "download_button \<Rightarrow> download_button" where
  "dismiss_alert s = s\<lparr>db_alert := False\<rparr>"

text \<open>
  The first download to a place is reported. The second of the same file goes to the same
  place and is not, once the alert was dismissed.
\<close>

lemma saved_reported:
  "uri \<noteq> [] \<Longrightarrow> db_alert (fst (native_download name url (Some uri) download_start))"
  by (simp add: native_download_def set_last_saved_uri_def download_start_def)

lemma saved_again_unreported:
  "\<not> db_alert (fst (native_download name' url' (Some uri) (dismiss_alert (fst (native_download name url (Some uri) s)))))"
  by (simp add: native_download_def set_last_saved_uri_def dismiss_alert_def)

text \<open>In the browser nothing stays: the timers of all downloads revoke all of their URLs.\<close>

lemma download_urls_revoked:
  "db_live (fold (\<lambda>url s. fst (revoke_timer url s)) [db_made s..<db_made s + length names]
     (fold (\<lambda>name s. fst (browser_download name s)) names s)) = db_live s"
proof -
  have made: "db_live (fold (\<lambda>name s. fst (browser_download name s)) names s) = rev [db_made s..<db_made s + length names] @ db_live s"
    for s
  proof (induction names arbitrary: s)
    case (Cons name names)
    have "[db_made s..<db_made s + length (name # names)] = db_made s # [Suc (db_made s)..<Suc (db_made s) + length names]"
      by (subst upt_conv_Cons) simp_all
    with Cons.IH [of "fst (browser_download name s)"] show ?case by (simp add: browser_download_def)
  qed simp
  have gone: "db_live (fold (\<lambda>url s. fst (revoke_timer url s)) us t) = ls" if "db_live t = rev us @ ls" "distinct us" for us t ls
    using that
  proof (induction us arbitrary: t)
    case (Cons u us)
    from Cons.prems have "db_live (fst (revoke_timer u t)) = rev us @ ls"
      by (simp add: revoke_timer_def remove1_append)
    with Cons show ?case by simp
  qed simp
  show ?thesis by (rule gone [OF made]) simp
qed

end
