(* ===== verification/ClientAccount.thy ===== *)
theory ClientAccount
  imports ClientViews ClientGates
begin

text \<open>
  The pages of the web client around an account: the dialog that shows a mount's password
  once, the backup codes, the page that waits for the second factor, the pages of login and
  registration, and the toasts.
\<close>

subsection \<open>\<open>IssueMountCredentialButton.tsx\<close>\<close>

text \<open>The state of \<open>useIssueMountCredential\<close> and whether the password is shown in the clear.\<close>

record issue_button = issuing +
  ib_show_password :: bool

datatype issue_button_event = ClickIssue "uuid option" | IssueSettled "string option" | ToggleShow | CloseIssued | Unmount

definition issue_button_start :: issue_button where
  "issue_button_start = \<lparr>is_issued = None, is_in_flight = False, ib_show_password = False\<rparr>"

definition hook_step :: "issue_event \<Rightarrow> issue_button \<Rightarrow> issue_button" where
  "hook_step e s = (case fst (issue_step e (issuing.truncate s)) of h \<Rightarrow>
     s\<lparr>is_issued := is_issued h, is_in_flight := is_in_flight h\<rparr>)"

text \<open>The dialog, and with it the buttons for showing and closing, is there while something is issued.\<close>

definition issue_button_step :: "issue_button_event \<Rightarrow> issue_button \<Rightarrow> issue_button" where
  "issue_button_step e s = (case e of
     ClickIssue driveId \<Rightarrow> hook_step (Issue driveId) (s\<lparr>ib_show_password := False\<rparr>)
   | IssueSettled answer \<Rightarrow> hook_step (Issued answer) s
   | ToggleShow \<Rightarrow> if is_issued s = None then s else s\<lparr>ib_show_password := \<not> ib_show_password s\<rparr>
   | CloseIssued \<Rightarrow> if is_issued s = None then s else hook_step ClearIssued (s\<lparr>ib_show_password := False\<rparr>)
   | Unmount \<Rightarrow> hook_step ClearIssued s)"

datatype password_view = Masked nat | Clear string

definition password_text :: "issue_button \<Rightarrow> password_view option" where
  "password_text s = (case is_issued s of
     None \<Rightarrow> None
   | Some password \<Rightarrow> Some (if ib_show_password s then Clear password else Masked (min (length password) 24)))"

definition issue_script_name :: "uuid \<Rightarrow> string" where
  "issue_script_name i = ''mount-'' @ i @ ''.ps1''"

lemmas issue_button_defs = issue_button_step_def hook_step_def issue_step_def issuing.truncate_def password_text_def

text \<open>The password is in the clear only after the button that shows it, and nowhere once the dialog closed.\<close>

definition hidden_unless_issued :: "issue_button \<Rightarrow> bool" where
  "hidden_unless_issued s \<longleftrightarrow> (is_issued s = None \<longrightarrow> \<not> ib_show_password s)"

lemma issue_button_step_inv:
  "e \<noteq> Unmount \<Longrightarrow> hidden_unless_issued s \<Longrightarrow> hidden_unless_issued (issue_button_step e s)"
  by (cases e) (auto simp: hidden_unless_issued_def issue_button_defs split: option.split)

lemma password_closed: "password_text (issue_button_step CloseIssued s) = None" "password_text (issue_button_step Unmount s) = None"
  by (auto simp: issue_button_defs split: option.split)

lemma password_shown_on_demand:
  assumes "hidden_unless_issued s" and "e \<noteq> ToggleShow" and "password_text (issue_button_step e s) = Some (Clear p)"
  shows "ib_show_password s \<and> is_issued s \<noteq> None"
  using assms by (cases e) (auto simp: hidden_unless_issued_def issue_button_defs split: option.splits if_splits)

lemma fresh_password_masked:
  assumes "hidden_unless_issued s" and "is_issued s = None"
  shows "password_text (issue_button_step (IssueSettled (Some p)) s) = Some (Masked (min (length p) 24))"
  using assms by (simp add: hidden_unless_issued_def issue_button_defs)

text \<open>
  A page that is used until it is left: the states of a mounted component.
\<close>

interpretation issue_dialog: history "\<lambda>e s. if e = Unmount then s else issue_button_step e s" hidden_unless_issued
  by unfold_locales (simp add: issue_button_step_inv)

lemma issue_dialog_hides:
  "Unmount \<notin> set es \<Longrightarrow> hidden_unless_issued (fold issue_button_step es issue_button_start)"
proof -
  assume *: "Unmount \<notin> set es"
  have "fold issue_button_step es s = fold (\<lambda>e s. if e = Unmount then s else issue_button_step e s) es s" for s
    using * by (intro fold_cong) auto
  then show ?thesis using issue_dialog.run_inv [of issue_button_start es]
    by (simp add: hidden_unless_issued_def issue_button_start_def)
qed

subsection \<open>\<open>useBackupCode.ts\<close>, \<open>BackupCodeSection.tsx\<close>\<close>

record backup_section =
  bs_count :: "nat option"
  bs_codes :: "string list option"
  bs_regenerating :: bool

definition backup_section_start :: backup_section where
  "backup_section_start = \<lparr>bs_count = None, bs_codes = None, bs_regenerating = False\<rparr>"

text \<open>The effect of the first render.\<close>

definition backup_section_mount :: "sdk_request list" where
  "backup_section_mount = [backup_code_api_count]"

text \<open>An answer is what came back, or \<open>None\<close> where the call failed; the user confirms a new set or does not.\<close>

datatype backup_event = CountAnswered "nat option" | Regenerate bool | CodesAnswered "string list option" | CodesSeen

definition backup_section_step :: "backup_event \<Rightarrow> backup_section \<Rightarrow> backup_section \<times> sdk_request list" where
  "backup_section_step e s = (case e of
     CountAnswered None \<Rightarrow> (s, [])
   | CountAnswered (Some n) \<Rightarrow> (s\<lparr>bs_count := Some n\<rparr>, [])
   | Regenerate confirmed \<Rightarrow>
       if bs_regenerating s \<or> \<not> confirmed then (s, [])
       else (s\<lparr>bs_regenerating := True\<rparr>, [backup_code_api_regenerate])
   | CodesAnswered None \<Rightarrow> (s\<lparr>bs_regenerating := False\<rparr>, [])
   | CodesAnswered (Some codes) \<Rightarrow> (s\<lparr>bs_codes := Some codes, bs_count := Some (length codes), bs_regenerating := False\<rparr>, [])
   | CodesSeen \<Rightarrow> (s\<lparr>bs_codes := None\<rparr>, []))"

fun backup_section_run :: "backup_event list \<Rightarrow> backup_section \<Rightarrow> backup_section \<times> sdk_request list" where
  "backup_section_run [] s = (s, [])"
| "backup_section_run (e # es) s = (case backup_section_step e s of (s', out) \<Rightarrow>
     (case backup_section_run es s' of (s'', out') \<Rightarrow> (s'', out @ out')))"

interpretation backup_codes: event_run backup_section_step backup_section_run "\<lambda>_. True"
  by unfold_locales simp_all

text \<open>With an API that answers, the count is that of the codes shown until they are put away.\<close>

lemma codes_counted:
  "case backup_section_step (CodesAnswered (Some codes)) s of (s', _) \<Rightarrow> bs_codes s' = Some codes \<and> bs_count s' = Some (length codes)"
  by (simp add: backup_section_step_def)

text \<open>
  The API that there is answers none of its calls: whatever the user does, the section shows
  neither a count nor codes.
\<close>

lemma section_requests:
  "rq \<in> set (backup_section_mount @ snd (backup_section_run es s)) \<Longrightarrow> api_answer verify token rq = Some (Inl not_found)"
proof -
  have step: "set (snd (backup_section_step e s)) \<subseteq> {backup_code_api_regenerate}" for e s
    by (auto simp: backup_section_step_def split: backup_event.split option.split if_split)
  have "set (snd (backup_section_run es s)) \<subseteq> {backup_code_api_regenerate}"
  proof (induction es arbitrary: s)
    case (Cons e es)
    with step [of e s] show ?case unfolding backup_codes.run_parts by fastforce
  qed simp
  then show "rq \<in> set (backup_section_mount @ snd (backup_section_run es s)) \<Longrightarrow> api_answer verify token rq = Some (Inl not_found)"
    using hand_written_calls_miss [of verify token] by (auto simp: backup_section_mount_def)
qed

definition call_failed :: "backup_event \<Rightarrow> bool" where
  "call_failed e \<longleftrightarrow> (case e of CountAnswered a \<Rightarrow> a = None | CodesAnswered a \<Rightarrow> a = None | _ \<Rightarrow> True)"

lemma section_stays_empty:
  "list_all call_failed es \<Longrightarrow> bs_count s = None \<Longrightarrow> bs_codes s = None \<Longrightarrow>
     bs_count (fst (backup_section_run es s)) = None \<and> bs_codes (fst (backup_section_run es s)) = None"
proof (induction es arbitrary: s)
  case (Cons e es)
  have "bs_count (fst (backup_section_step e s)) = None \<and> bs_codes (fst (backup_section_step e s)) = None"
    using Cons.prems by (auto simp: backup_section_step_def call_failed_def split: backup_event.splits option.split)
  with Cons show ?case unfolding backup_codes.run_parts by simp
qed simp

subsection \<open>\<open>BackupCodeIssuePage.tsx\<close>\<close>

record codes_page =
  cp_codes :: "string list"
  cp_copied :: bool
  cp_confirmed :: bool

definition codes_page_start :: "string list option \<Rightarrow> codes_page" where
  "codes_page_start state = \<lparr>cp_codes = nullish state [], cp_copied = False, cp_confirmed = False\<rparr>"

definition codes_page_render :: "codes_page \<Rightarrow> app_out list" where
  "codes_page_render s = (if length (cp_codes s) = 0 then [GoTo ''/drive''] else [])"

definition codes_page_copy :: "codes_page \<Rightarrow> codes_page \<times> string" where
  "codes_page_copy s = (s\<lparr>cp_copied := True\<rparr>, join_with [CHR 0x0A] (cp_codes s))"

definition codes_page_confirm :: "bool \<Rightarrow> codes_page \<Rightarrow> codes_page" where
  "codes_page_confirm checked s = s\<lparr>cp_confirmed := checked\<rparr>"

definition codes_page_done :: "codes_page \<Rightarrow> app_out list" where
  "codes_page_done s = (if \<not> cp_confirmed s then [] else [GoTo ''/drive''])"

text \<open>
  After a registration the page shows its codes and is left only once they are confirmed; what
  is copied, read line by line, is the codes.
\<close>

lemma codes_page_after_register:
  assumes "snd (register_succeeded data a) = [ShowBackupCodes codes]" and "codes \<noteq> []" and "\<forall>c\<in>set codes. CHR 0x0A \<notin> set c"
  shows "let s = codes_page_start (Some codes) in
    cp_codes s = rgr_backup_codes data \<and> codes_page_render s = [] \<and> codes_page_done s = [] \<and>
    codes_page_done (codes_page_confirm True s) = [GoTo ''/drive''] \<and>
    split_on CHR 0x0A (snd (codes_page_copy s)) = rgr_backup_codes data"
  using assms by (auto simp: codes_page_start_def codes_page_render_def codes_page_done_def codes_page_confirm_def
      codes_page_copy_def register_succeeded_def Let_def split_join)

subsection \<open>\<open>TwoFactorWaiting.tsx\<close>\<close>

text \<open>What the hook makes of the last status, and the time left as text.\<close>

definition pending_data :: "challenge_status_response option \<Rightarrow> string list \<times> string \<times> int" where
  "pending_data data = (case data of Some (StatusPending opts correctNum secs) \<Rightarrow> (opts, correctNum, secs) | _ \<Rightarrow> ([], [], 0))"

definition pad_start :: "string \<Rightarrow> string" where
  "pad_start s = replicate (2 - length s) (CHR ''0'') @ s"

definition time_left :: "int \<Rightarrow> string \<times> string" where
  "time_left remainingSeconds =
     (pad_start (int_to_string (remainingSeconds div 60)), pad_start (int_to_string (remainingSeconds mod 60)))"

lemma string_to_nat_pad: "string_to_nat (pad_start s) = string_to_nat s"
proof -
  have "foldl (\<lambda>a c. 10 * a + (of_char c - 48)) 0 (replicate n (CHR ''0'') @ s) = foldl (\<lambda>a c. 10 * a + (of_char c - 48)) (0 :: nat) s" for n
    by (induction n) (simp_all add: of_char_def)
  then show ?thesis by (simp add: pad_start_def string_to_nat_def)
qed

lemma length_nat_to_string: "n < 100 \<Longrightarrow> length (nat_to_string n) \<le> 2"
proof (cases "n < 10")
  case False
  moreover assume "n < 100"
  then have "n div 10 < 10" by simp
  ultimately show ?thesis by (simp add: nat_to_string.simps [of n] nat_to_string.simps [of "n div 10"])
qed (simp add: nat_to_string.simps)

text \<open>The time that is shown is the time the API gave, the seconds always in two digits.\<close>

lemma time_left_reads_back:
  assumes "0 \<le> s"
  shows "int (60 * string_to_nat (fst (time_left s)) + string_to_nat (snd (time_left s))) = s"
    and "length (snd (time_left s)) = 2"
proof -
  have "0 \<le> s div 60" "0 \<le> s mod 60" using assms by auto
  then have parts: "int_to_string (s div 60) = nat_to_string (nat (s div 60))" "int_to_string (s mod 60) = nat_to_string (nat (s mod 60))"
    "nat (s div 60) = nat s div 60" "nat (s mod 60) = nat s mod 60"
    using assms by (auto simp: int_to_string_def nat_div_distrib nat_mod_distrib)
  then show "int (60 * string_to_nat (fst (time_left s)) + string_to_nat (snd (time_left s))) = s"
    using assms by (simp add: time_left_def string_to_nat_pad string_to_nat_to_string)
  have "nat (s mod 60) < 100" unfolding parts(4) by (rule less_trans [of _ 60]) simp_all
  from length_nat_to_string [OF this] show "length (snd (time_left s)) = 2"
    by (simp add: time_left_def pad_start_def parts(2))
qed

lemma api_time_shown:
  assumes "twofa_get_status H c w = (Inr r, w')"
  shows "0 \<le> snd (snd (pending_data (Some r)))"
  using assms by (cases r) (auto simp: twofa_get_status_def challenge_find_by_id_def svc_elim svc pending_data_def
      split: challenge_status.splits option.splits if_splits)

subsection \<open>Pages of login and registration\<close>

text \<open>\<open>LoginPage\<close>: the message for the address's error, which is taken off the address; it is looked at once.\<close>

datatype login_error_text = TwoFaFailed

definition ERROR_MESSAGES :: "string \<Rightarrow> login_error_text option" where
  "ERROR_MESSAGES k = (if k = ''2fa_failed'' then Some TwoFaFailed else None)"

record login_page =
  lp_error :: "login_error_text option"
  lp_consumed :: bool

definition login_page_effect :: "string option \<Rightarrow> login_page \<Rightarrow> login_page \<times> bool" where
  "login_page_effect errorKey s =
     (if lp_consumed s then (s, False)
      else if \<not> truthy errorKey then (s, False)
      else (s\<lparr>lp_consumed := True, lp_error := (case ERROR_MESSAGES (the errorKey) of None \<Rightarrow> lp_error s | Some text \<Rightarrow> Some text)\<rparr>, True))"

text \<open>A second look changes nothing; of the errors the waiting page sends, the one for a refusal shows nothing.\<close>

lemma login_error_once: "login_page_effect e (fst (login_page_effect (Some k) s)) = (fst (login_page_effect (Some k) s), False)"
  if "k \<noteq> []"
  using that by (auto simp: login_page_effect_def truthy_def)

lemma login_errors_shown:
  "lp_error (fst (login_page_effect (Some ''2fa_failed'') \<lparr>lp_error = None, lp_consumed = False\<rparr>)) = Some TwoFaFailed"
  "lp_error (fst (login_page_effect (Some ''2fa_denied'') \<lparr>lp_error = None, lp_consumed = False\<rparr>)) = None"
  by (simp_all add: login_page_effect_def truthy_def ERROR_MESSAGES_def)

text \<open>\<open>RegisterPage\<close>: what it shows of the invitation, and where it goes with the codes.\<close>

datatype register_view = CheckingLink | InvalidLink | RegisterFormFor string

definition register_page :: "string \<Rightarrow> bool option \<Rightarrow> register_view" where
  "register_page token valid = (case valid of None \<Rightarrow> CheckingLink | Some False \<Rightarrow> InvalidLink | Some True \<Rightarrow> RegisterFormFor token)"

definition register_page_success :: "string \<Rightarrow> string" where
  "register_page_success token = ''/register/'' @ token @ ''/backup''"

lemma register_form_for_valid:
  "register_page token (invitation_effect token isError data (invitation_start token)) = RegisterFormFor t \<Longrightarrow>
     t = token \<and> token \<noteq> [] \<and> \<not> isError \<and> data = Some True"
  by (auto simp: register_page_def invitation_effect_def invitation_start_def split: option.splits bool.splits if_splits)

text \<open>\<open>TwoFAApprovalPage\<close>: closing it goes back, or to the drive where there is nothing to go back to.\<close>

definition approval_page_close :: "nat \<Rightarrow> page_out option" where
  "approval_page_close historyLength = (if 1 < historyLength then None else Some (Navigate ''/drive''))"

definition approval_page_key :: "string \<Rightarrow> bool" where
  "approval_page_key key \<longleftrightarrow> key = ''Escape''"

text \<open>\<open>TwoFactorApprovalPage\<close>: one view per status; the numbers can be clicked in one of them only.\<close>

datatype approval_view = ApprovalLoading | ApprovalExpired | ApprovalDone | ApprovalNumbers "string list"

definition approval_page_view :: "respond_status \<Rightarrow> string list \<Rightarrow> approval_view" where
  "approval_page_view s opts = (case s of RLoading \<Rightarrow> ApprovalLoading | RExpired \<Rightarrow> ApprovalExpired | RDone \<Rightarrow> ApprovalDone
     | Selecting \<Rightarrow> ApprovalNumbers opts)"

lemma numbers_offered_when_pending:
  assumes "approval_page_view (respond_effect False data RLoading) (respond_options data) = ApprovalNumbers ns"
  shows "\<exists>n secs. data = Some (StatusPending ns n secs)"
  using assms by (auto simp: approval_page_view_def respond_effect_def respond_options_def split: option.splits challenge_status_response.splits)

subsection \<open>\<open>ToastProvider.tsx\<close>, \<open>theme-provider.tsx\<close>\<close>

text \<open>
  The toasts that wait and the one that is shown. After each event the effects run: the first
  that waits is shown when none is. A toast goes when it is dismissed or its time is over.
\<close>

record 'a toasts =
  to_queue :: "'a list"
  to_current :: "'a option"

datatype 'a toast_event = ShowToast 'a | DismissToast | ToastTimeout

definition toast_effect :: "'a toasts \<Rightarrow> 'a toasts \<times> 'a list" where
  "toast_effect s = (case (to_current s, to_queue s) of
     (None, next' # rest) \<Rightarrow> (\<lparr>to_queue = rest, to_current = Some next'\<rparr>, [next'])
   | _ \<Rightarrow> (s, []))"

definition toast_step :: "'a toast_event \<Rightarrow> 'a toasts \<Rightarrow> 'a toasts \<times> 'a list" where
  "toast_step e s = toast_effect (case e of
     ShowToast t \<Rightarrow> s\<lparr>to_queue := to_queue s @ [t]\<rparr>
   | DismissToast \<Rightarrow> s\<lparr>to_current := None\<rparr>
   | ToastTimeout \<Rightarrow> s\<lparr>to_current := None\<rparr>)"

fun toast_run :: "'a toast_event list \<Rightarrow> 'a toasts \<Rightarrow> 'a toasts \<times> 'a list" where
  "toast_run [] s = (s, [])"
| "toast_run (e # es) s = (case toast_step e s of (s', out) \<Rightarrow> (case toast_run es s' of (s'', out') \<Rightarrow> (s'', out @ out')))"

definition toast_inv :: "'a toasts \<Rightarrow> bool" where
  "toast_inv s \<longleftrightarrow> (to_current s = None \<longrightarrow> to_queue s = [])"

lemma toast_step_inv: "toast_inv s \<Longrightarrow> toast_inv (fst (toast_step e s))"
  by (cases e; cases "to_current s"; cases "to_queue s") (auto simp: toast_inv_def toast_step_def toast_effect_def)

interpretation toasting: event_run toast_step toast_run toast_inv
  by unfold_locales (simp_all add: toast_step_inv)

definition toast_asked :: "'a toast_event list \<Rightarrow> 'a list" where
  "toast_asked es = concat (map (\<lambda>e. case e of ShowToast t \<Rightarrow> [t] | _ \<Rightarrow> []) es)"

text \<open>Every toast is shown, once and in its turn, or still waits; none waits while nothing is shown.\<close>

lemma toasts_in_order:
  "to_queue s @ toast_asked es = snd (toast_run es s) @ to_queue (fst (toast_run es s))"
proof (induction es arbitrary: s)
  case (Cons e es)
  have "to_queue s @ toast_asked [e] = snd (toast_step e s) @ to_queue (fst (toast_step e s))"
    by (cases e; cases "to_current s"; cases "to_queue s") (auto simp: toast_asked_def toast_step_def toast_effect_def)
  moreover have "toast_asked (e # es) = toast_asked [e] @ toast_asked es" by (simp add: toast_asked_def)
  ultimately have "to_queue s @ toast_asked (e # es) =
      snd (toast_step e s) @ to_queue (fst (toast_step e s)) @ toast_asked es" by simp
  then show ?case unfolding Cons.IH [of "fst (toast_step e s)"] toasting.run_parts by simp
qed (simp add: toast_asked_def)

text \<open>The theme that is resolved for the components is the one that the page is drawn in.\<close>

definition resolved_theme :: "string \<Rightarrow> bool \<Rightarrow> string" where
  "resolved_theme theme systemDark = (if theme = ''system'' then (if systemDark then ''dark'' else ''light'') else theme)"

definition start_theme :: "string option \<Rightarrow> string" where
  "start_theme stored = (if truthy stored then the stored else ''system'')"

lemma theme_consistent:
  "theme \<in> {''light'', ''dark'', ''system''} \<Longrightarrow> theme_dark (Some theme) systemDark \<longleftrightarrow> resolved_theme theme systemDark = ''dark''"
  by (auto simp: theme_dark_def resolved_theme_def)

lemma first_visit_follows_system: "theme_dark None systemDark \<longleftrightarrow> theme_dark (Some (start_theme None)) systemDark"
  by (simp add: theme_dark_def start_theme_def truthy_def)

end
