(* ===== verification/Startup.thy ===== *)
theory Startup
  imports Users Invitations Mounts
begin

text \<open>
  The start of the API: what its parts read from the environment when they are made
  (\<open>main.ts\<close>, \<open>app.module.ts\<close>, the constructors of the services), the tables it prepares
  before it listens, and what it reads only later.
\<close>

subsection \<open>The environment\<close>

type_synonym environment = "string \<Rightarrow> string option"

text \<open>\<open>x || d\<close> on a text that may be missing.\<close>

definition or_else :: "string option \<Rightarrow> string \<Rightarrow> string" where
  "or_else x d = (if truthy x then the x else d)"

text \<open>\<open>Number(s)\<close> on a decimal integer: blanks around it do not matter, an empty text is 0; \<open>None\<close> is \<open>NaN\<close>.\<close>

definition number_of :: "string \<Rightarrow> int option" where
  "number_of s =
     (let t = trim s;
          neg = (t \<noteq> [] \<and> hd t = CHR ''-'');
          ds = (if t \<noteq> [] \<and> (hd t = CHR ''-'' \<or> hd t = CHR ''+'') then tl t else t)
      in if t = [] then Some 0
         else if ds \<noteq> [] \<and> set ds \<subseteq> digit_chars then Some (if neg then - int (string_to_nat ds) else int (string_to_nat ds))
         else None)"

text \<open>A URL as the library takes it apart: protocol, host name and port, empty where it is the default.\<close>

record url_parts =
  url_protocol :: string
  url_hostname :: string
  url_port :: string

subsection \<open>Services\<close>

record minio_client =
  mi_end_point :: string
  mi_port :: "int option"
  mi_use_ssl :: bool

text \<open>\<open>MinioService\<close>: the client inside the network, and the one whose addresses are handed out.\<close>

definition minio_internal :: "string \<Rightarrow> minio_client" where
  "minio_internal endpoint =
     (let parts = split_on CHR '':'' endpoint;
          portStr = (if 1 < length parts then Some (parts ! 1) else None)
      in \<lparr>mi_end_point = hd parts, mi_port = (if truthy portStr then parse_int (the portStr) else Some 9000), mi_use_ssl = False\<rparr>)"

definition minio_presign :: "url_parts \<Rightarrow> minio_client" where
  "minio_presign u =
     \<lparr>mi_end_point = url_hostname u,
      mi_port = (if url_port u \<noteq> [] then parse_int (url_port u) else if url_protocol u = ''https:'' then Some 443 else Some 80),
      mi_use_ssl = (url_protocol u = ''https:'')\<rparr>"

text \<open>\<open>SecretStoreFactory.onModuleInit\<close>, with the system's directory for temporary files.\<close>

definition secret_dir :: "string \<Rightarrow> environment \<Rightarrow> string" where
  "secret_dir tmpdir env = nullish (env ''STORAGE_SECRET_DIR'') (tmpdir @ ''/terab-secrets'')"

text \<open>\<open>LoggerModule.forRoot\<close> and \<open>buildLoggerParams\<close>.\<close>

datatype transport = PinoPretty | PinoRoll string "int option"

definition REDACT_PATHS :: "string list" where
  "REDACT_PATHS = [''*.password'', ''*.token'', ''*.refreshToken'', ''*.accessToken'', ''*.secret'', ''*.apiKey'', ''*.authorization'',
     ''spans[*].args.password'', ''spans[*].args.token'', ''spans[*].args.accessToken'', ''spans[*].args.refreshToken'']"

record logger_params =
  lg_level :: string
  lg_redact :: "string list"
  lg_censor :: string
  lg_transport :: transport

definition build_logger_params :: "string \<Rightarrow> int option \<Rightarrow> logger_params" where
  "build_logger_params env logMaxFiles =
     \<lparr>lg_level = (if env = ''dev'' then ''debug'' else ''warn''), lg_redact = REDACT_PATHS, lg_censor = ''***'',
      lg_transport = (if env = ''dev'' then PinoPretty else PinoRoll ''/app/logs/app.log'' logMaxFiles)\<rparr>"

definition logger_module :: "environment \<Rightarrow> logger_params" where
  "logger_module env = build_logger_params (nullish (env ''NODE_ENV'') ''prod'')
     (case env ''LOG_MAX_FILES'' of None \<Rightarrow> Some 30 | Some v \<Rightarrow> number_of v)"

text \<open>\<open>genReqId\<close>, with the header \<open>x-request-id\<close> if it was sent once.\<close>

definition gen_req_id :: "string option \<Rightarrow> uuid \<Rightarrow> string" where
  "gen_req_id existing fresh = or_else existing fresh"

subsection \<open>\<open>bootstrap\<close>\<close>

text \<open>
  What the application is made with. A variable that is read with \<open>getOrThrow\<close> by a provider
  has to be set, though it may be empty; which of several that are missing is named depends on
  the order in which the container makes the providers.
\<close>

definition REQUIRED :: "string list" where
  "REQUIRED = [''REDIS_URL'', ''DATABASE_URL'', ''MINIO_ENDPOINT'', ''MINIO_PUBLIC_ENDPOINT'', ''MINIO_ROOT_USER'',
     ''MINIO_ROOT_PASSWORD'', ''MINIO_DEFAULT_BUCKETS'', ''TWOFA_MASTER_KEY'', ''JWT_ACCESS_EXPIRY_MS'',
     ''JWT_REFRESH_EXPIRY_MS'', ''PASSWORD_PEPPER'', ''JWT_SECRET'', ''STORAGE_AGENT_SOCKET_PATH'', ''CORS_ALLOWED_ORIGINS'']"

datatype start_error = Missing "string list" | InvalidUrl | BadMasterKey

record settings =
  st_host :: string
  st_port :: string
  st_origins :: "string list"
  st_swagger :: bool
  st_access_exp_ms :: "int option"
  st_refresh_exp_ms :: "int option"
  st_pepper :: string
  st_master_key :: "byte list"
  st_minio :: minio_client
  st_presign :: minio_client
  st_bucket :: string
  st_secret_dir :: string
  st_logger :: logger_params

definition allowed_origins :: "string \<Rightarrow> string list" where
  "allowed_origins v = map trim (split_on CHR '','' v)"

definition bootstrap :: "(string \<Rightarrow> byte list) \<Rightarrow> (string \<Rightarrow> url_parts option) \<Rightarrow> string \<Rightarrow> environment \<Rightarrow> start_error + settings" where
  "bootstrap fromBase64 parseUrl tmpdir env =
     (let missing = filter (\<lambda>k. env k = None) REQUIRED; v = (\<lambda>k. the (env k)); key = fromBase64 (v ''TWOFA_MASTER_KEY'') in
      if missing \<noteq> [] then Inl (Missing missing)
      else case parseUrl (v ''MINIO_PUBLIC_ENDPOINT'') of
        None \<Rightarrow> Inl InvalidUrl
      | Some publicUrl \<Rightarrow>
          if length key \<noteq> 32 then Inl BadMasterKey
          else Inr \<lparr>st_host = or_else (env ''HOST'') ''0.0.0.0'', st_port = or_else (env ''PORT'') ''3000'',
            st_origins = allowed_origins (v ''CORS_ALLOWED_ORIGINS''), st_swagger = (env ''NODE_ENV'' = Some ''dev''),
            st_access_exp_ms = number_of (v ''JWT_ACCESS_EXPIRY_MS''), st_refresh_exp_ms = number_of (v ''JWT_REFRESH_EXPIRY_MS''),
            st_pepper = v ''PASSWORD_PEPPER'', st_master_key = key,
            st_minio = minio_internal (v ''MINIO_ENDPOINT''), st_presign = minio_presign publicUrl,
            st_bucket = v ''MINIO_DEFAULT_BUCKETS'', st_secret_dir = secret_dir tmpdir env, st_logger = logger_module env\<rparr>)"

text \<open>It starts exactly if everything it needs at once is there, whatever the rest says.\<close>

lemma starts_iff:
  "(\<exists>s. bootstrap b u t env = Inr s) \<longleftrightarrow>
     (\<forall>k\<in>set REQUIRED. env k \<noteq> None) \<and> u (the (env ''MINIO_PUBLIC_ENDPOINT'')) \<noteq> None \<and>
     length (b (the (env ''TWOFA_MASTER_KEY''))) = 32"
  by (auto simp: bootstrap_def Let_def filter_empty_conv split: option.split)

lemma started:
  assumes "bootstrap b u t env = Inr s"
  shows "length (st_master_key s) = 32" "k \<in> set REQUIRED \<Longrightarrow> env k \<noteq> None" "st_host s \<noteq> []" "st_port s \<noteq> []"
  using assms by (auto simp: bootstrap_def Let_def filter_empty_conv or_else_def truthy_def split: option.splits if_splits)

lemma nat_to_string_nonempty: "nat_to_string n \<noteq> []"
  by (subst nat_to_string.simps) simp

lemma digit_not_space: "c \<in> digit_chars \<Longrightarrow> \<not> is_space c \<and> c \<noteq> CHR ''-'' \<and> c \<noteq> CHR ''+''"
  by (auto simp: digit_chars_def is_space_def)

lemma number_reads_back: "parse_int (nat_to_string n) = Some (int n)" "number_of (nat_to_string n) = Some (int n)"
proof -
  obtain c cs where s: "nat_to_string n = c # cs" using nat_to_string_nonempty by (cases "nat_to_string n") auto
  have digits: "set (c # cs) \<subseteq> digit_chars" using nat_to_string_chars [of n] unfolding s .
  then have first: "\<not> is_space c" "c \<noteq> CHR ''-''" "c \<noteq> CHR ''+''" using digit_not_space [of c] by auto
  have "hd (rev (c # cs)) \<in> set (c # cs)" using hd_in_set [of "rev (c # cs)"] by (metis list.discI rev_is_Nil_conv set_rev)
  then have "\<not> is_space (hd (rev (c # cs)))" using digits digit_not_space by blast
  then have last: "dropWhile is_space (rev (c # cs)) = rev (c # cs)" by (simp only: dropWhile_eq_self_iff simp_thms)
  have all: "takeWhile (\<lambda>c. c \<in> digit_chars) (c # cs) = c # cs" using digits by (simp add: takeWhile_eq_all_conv subset_iff)
  have same: "string_to_nat (c # cs) = n" unfolding s [symmetric] by (rule string_to_nat_to_string)
  show "parse_int (nat_to_string n) = Some (int n)"
    unfolding s parse_int_def Let_def using first all same by simp
  have "trim (c # cs) = c # cs" using first last by (simp add: trim_def)
  then show "number_of (nat_to_string n) = Some (int n)"
    unfolding s number_of_def Let_def using first digits same by simp
qed

text \<open>The endpoint of the object store reads back, and without a port it is the usual one.\<close>

lemma minio_endpoint_reads_back:
  assumes "CHR '':'' \<notin> set host"
  shows "minio_internal host = \<lparr>mi_end_point = host, mi_port = Some 9000, mi_use_ssl = False\<rparr>"
    and "minio_internal (host @ '':'' @ nat_to_string p) = \<lparr>mi_end_point = host, mi_port = Some (int p), mi_use_ssl = False\<rparr>"
proof -
  show "minio_internal host = \<lparr>mi_end_point = host, mi_port = Some 9000, mi_use_ssl = False\<rparr>"
    using assms by (simp add: minio_internal_def split_on_none truthy_def)
  have digits: "set (nat_to_string p) \<subseteq> digit_chars" by (rule nat_to_string_chars)
  then have "CHR '':'' \<notin> set (nat_to_string p)" by (auto simp: digit_chars_def)
  then have parts: "split_on CHR '':'' (host @ '':'' @ nat_to_string p) = [host, nat_to_string p]"
    using assms by (simp add: split_on_append split_on_none)
  have "parse_int (nat_to_string p) = Some (int p)" by (rule number_reads_back)
  then show "minio_internal (host @ '':'' @ nat_to_string p) = \<lparr>mi_end_point = host, mi_port = Some (int p), mi_use_ssl = False\<rparr>"
    unfolding minio_internal_def parts by (simp add: truthy_def nat_to_string_nonempty)
qed

text \<open>
  Numbers are not checked: a period of validity that is not a number lets the application
  start, and every token it signs afterwards has none.
\<close>

lemma periods_unchecked:
  assumes "bootstrap b u t env = Inr s"
  shows "bootstrap b u t (env(''JWT_ACCESS_EXPIRY_MS'' \<mapsto> ''15m'')) = Inr (s\<lparr>st_access_exp_ms := None\<rparr>)"
proof -
  have "number_of ''15m'' = None" by code_simp
  with assms show ?thesis
    by (auto simp: bootstrap_def Let_def filter_empty_conv secret_dir_def logger_module_def split: option.splits if_splits)
qed

text \<open>CORS: a page may send credentials exactly if its origin is one of the list, blanks aside.\<close>

definition cors_allows :: "settings \<Rightarrow> string \<Rightarrow> bool" where
  "cors_allows s origin \<longleftrightarrow> origin \<in> set (st_origins s)"

lemma cors_listed:
  assumes "bootstrap b u t env = Inr s" and "env ''CORS_ALLOWED_ORIGINS'' = Some (join_with '','' os)" and "os \<noteq> []"
    and "\<forall>o'\<in>set os. CHR '','' \<notin> set o'"
  shows "cors_allows s origin \<longleftrightarrow> (\<exists>o'\<in>set os. origin = trim o')"
proof -
  have "st_origins s = map trim os"
    using assms by (auto simp: bootstrap_def Let_def allowed_origins_def split_join split: option.splits if_splits)
  then show ?thesis by (auto simp: cors_allows_def)
qed

subsection \<open>Before it listens\<close>

text \<open>
  \<open>listen\<close> first runs the initialisation of the modules, of which the database's counts: the
  migration and the seeds. When it fails for good, the process ends.
\<close>

definition start_api :: "host \<Rightarrow> (string \<Rightarrow> byte list) \<Rightarrow> (string \<Rightarrow> url_parts option) \<Rightarrow> string \<Rightarrow> world \<Rightarrow>
    ((start_error + fault) + settings) \<times> world" where
  "start_api H fromBase64 parseUrl tmpdir w = (case bootstrap fromBase64 parseUrl tmpdir (h_config H) of
     Inl e \<Rightarrow> (Inl (Inl e), w)
   | Inr s \<Rightarrow> (case database_on_module_init H w of (Inl e, w') \<Rightarrow> (Inl (Inr e), w') | (Inr _, w') \<Rightarrow> (Inr s, w')))"

definition rbac_part :: "database \<Rightarrow> role_row list \<times> permission_row list \<times> role_permission_row list" where
  "rbac_part d = (roles d, permissions d, role_permissions d)"

lemma owner_seed_frame: "keeps (\<lambda>d. rbac_part d = x) (owner_seed H)"
  unfolding owner_seed_def Let_def user_find_by_username_def role_find_by_name_def user_repo_insert_def role_insert_user_role_def
  by (intro keeps_intro keeps_statement) (simp_all add: rbac_part_def)

lemma owner_seed_draws: "draws w \<le> draws (snd (owner_seed H w))"
proof -
  have "wp (owner_seed H) (\<lambda>_ w'. draws w \<le> draws w') w"
    unfolding owner_seed_def Let_def user_find_by_username_def role_find_by_name_def user_repo_insert_def role_insert_user_role_def
    by (simp add: wp split: option.split)
  then show ?thesis by (simp add: wp_snd)
qed

lemma seed_inv_mono: "seed_inv H w \<Longrightarrow> rbac_part (db w') = rbac_part (db w) \<Longrightarrow> draws w \<le> draws w' \<Longrightarrow> seed_inv H w'"
  by (auto simp: seed_inv_def rbac_part_def)

lemma seeded_part: "rbac_part (db w') = rbac_part (db w) \<Longrightarrow> rbac_seeded (db w') = rbac_seeded (db w)"
  by (simp add: rbac_seeded_def rbac_part_def has_permission_row_def has_role_row_def role_permission_entries_def)

lemma owner_seed_keeps:
  "seed_inv H w \<Longrightarrow> seed_inv H (snd (owner_seed H w))" "rbac_seeded (db (snd (owner_seed H w))) = rbac_seeded (db w)"
proof -
  have part: "rbac_part (db (snd (owner_seed H w))) = rbac_part (db w)" by (rule keepsD [OF owner_seed_frame refl])
  show "seed_inv H w \<Longrightarrow> seed_inv H (snd (owner_seed H w))" by (rule seed_inv_mono [OF _ part owner_seed_draws])
  show "rbac_seeded (db (snd (owner_seed H w))) = rbac_seeded (db w)" by (rule seeded_part [OF part])
qed

lemma database_seed_keeps:
  assumes "seed_inv H w"
  shows "seed_inv H (snd (database_seed H w)) \<and> (fst (database_seed H w) = Inr () \<longrightarrow> rbac_seeded (db (snd (database_seed H w))))"
proof -
  obtain w1 where "rbac_seed H w = (Inr (), w1)" "seed_inv H w1" "rbac_seeded (db w1)"
    using rbac_seed_run [OF assms] by blast
  then show ?thesis using owner_seed_keeps [of H w1] by (simp add: database_seed_def andThen_def)
qed

lemma init_attempts_seed:
  "seed_inv H w \<Longrightarrow> n \<noteq> 0 \<Longrightarrow> database_init_attempts H n w = (Inr (), w') \<Longrightarrow> rbac_seeded (db w')"
proof (induction n arbitrary: w)
  case (Suc n)
  obtain r w1 where migrate: "call_unit H Migrate w = (r, w1)" by fastforce
  then have w1: "seed_inv H w1" using Suc.prems(1)
    by (auto simp: call_unit_def svc seed_inv_def split: sum.splits)
  obtain r2 w2 where seed: "database_seed H w1 = (r2, w2)" by fastforce
  with database_seed_keeps [OF w1] have w2: "seed_inv H w2" "r2 = Inr () \<Longrightarrow> rbac_seeded (db w2)" by auto
  show ?case
  proof (cases "andThen (call_unit H Migrate) (\<lambda>_. database_seed H) w")
    case (Pair r3 w3)
    then have w3: "seed_inv H w3" "r3 = Inr () \<Longrightarrow> rbac_seeded (db w3)"
      using migrate seed w1 w2 by (auto simp: andThen_def split: sum.splits)
    show ?thesis
    proof (cases r3)
      case (Inr x)
      then show ?thesis using Suc.prems(3) Pair w3 by (auto simp: catching_def)
    next
      case (Inl e)
      then show ?thesis using Suc.prems(3) Pair w3(1) Suc.IH [of w3] by (auto simp: catching_def svc split: if_splits)
    qed
  qed
qed simp

text \<open>Once the API listens, the roles and permissions its guards look up are there, however often it had to try.\<close>

lemma started_with_roles:
  assumes "start_api H b u t w = (Inr s, w')" and "seed_inv H w"
  shows "rbac_seeded (db w')" "length (st_master_key s) = 32"
proof -
  from assms(1) have "bootstrap b u t (h_config H) = Inr s" and run: "database_on_module_init H w = (Inr (), w')"
    by (auto simp: start_api_def split: sum.splits prod.splits)
  then show "length (st_master_key s) = 32" by (simp add: started(1))
  show "rbac_seeded (db w')" using init_attempts_seed [OF assms(2) _ run [unfolded database_on_module_init_def]] by simp
qed

subsection \<open>What is read later\<close>

text \<open>
  The address of the application is read only when an invitation is made. Without it the
  application starts, and each such request fails after the invitation was stored, which no
  transaction takes back.
\<close>

lemma invitation_left_behind:
  assumes "h_config H ''APP_BASE_URL'' = None" and "user_exists u (db w)"
    and "h_uuid H (draws w + 1) \<notin> inv_id ` set (invitations (db w))" and "h_uuid H (draws w + 2) \<notin> inv_token ` set (invitations (db w))"
  shows "\<exists>row. invitation_create H u days w = (Inl (RawError ''APP_BASE_URL''), snd (invitation_create H u days w)) \<and>
     invitations (db (snd (invitation_create H u days w))) = invitations (db w) @ [row]"
  using assms by (auto simp: invitation_create_def invitation_insert_def andThen_def svc Let_def)

lemma base_url_not_required: "''APP_BASE_URL'' \<notin> set REQUIRED"
  by code_simp

end
