(* ===== verification/SdkRuntime.thy ===== *)
theory SdkRuntime
  imports Mounts JsonTypes "HOL-Library.AList"
begin

text \<open>
  The runtime of the generated clients (\<open>shared/api/generated/core\<close> and \<open>client\<close>, the same in
  both) beyond what the calls of the pages need: streams of server-sent events, headers and
  credentials, a request with what may go wrong in it, the arguments of flat calls, and the values
  of cache keys.
\<close>

subsection \<open>\<open>serverSentEvents.gen.ts\<close>: cutting a stream into events\<close>

text \<open>
  \<open>buffer.replace(/\r\n?/g, '\n')\<close>; the flag says that the character before was a carriage
  return, whose line feed is dropped.
\<close>

fun normalize_lines :: "bool \<Rightarrow> string \<Rightarrow> string" where
  "normalize_lines cr [] = []"
| "normalize_lines cr (c # cs) =
     (if c = CHR 0x0D then CHR 0x0A # normalize_lines True cs
      else if c = CHR 0x0A \<and> cr then normalize_lines False cs
      else c # normalize_lines False cs)"

text \<open>\<open>buffer.split('\n\n')\<close>.\<close>

fun split_blank :: "string \<Rightarrow> string list" where
  "split_blank [] = [[]]"
| "split_blank [c] = [[c]]"
| "split_blank (c # d # cs) =
     (if c = CHR 0x0A \<and> d = CHR 0x0A then [] # split_blank cs
      else (case split_blank (d # cs) of [] \<Rightarrow> [[c]] | s # ss \<Rightarrow> (c # s) # ss))"

text \<open>One \<open>read\<close> of the body: the chunks that are complete, and what is kept for the next.\<close>

definition sse_read :: "string \<Rightarrow> string \<Rightarrow> string list \<times> string" where
  "sse_read buffer v = (let chunks = split_blank (normalize_lines False (buffer @ v)) in (butlast chunks, last chunks))"

fun sse_chunks :: "string \<Rightarrow> string list \<Rightarrow> string list \<times> string" where
  "sse_chunks buffer [] = ([], buffer)"
| "sse_chunks buffer (v # vs) = (case sse_read buffer v of (cs, buffer') \<Rightarrow>
     (case sse_chunks buffer' vs of (cs', b) \<Rightarrow> (cs @ cs', b)))"

lemma split_blank_nonempty [simp]: "split_blank s \<noteq> []"
  by (induction s rule: split_blank.induct) (auto split: list.split)

lemma split_blank_append:
  "split_blank (a @ b) = butlast (split_blank a) @ split_blank (last (split_blank a) @ b)"
proof (induction a rule: split_blank.induct)
  case (3 c d cs)
  show ?case
  proof (cases "c = CHR 0x0A \<and> d = CHR 0x0A")
    case True
    with 3(1) show ?thesis by simp
  next
    case False
    obtain s ss where s: "split_blank (d # cs) = s # ss" by (cases "split_blank (d # cs)") auto
    show ?thesis
    proof (cases ss)
      case Nil
      have hd: "\<exists>t. s = d # t" using s Nil by (cases cs) (auto split: if_splits list.splits)
      from 3(2) [OF False] s Nil have "split_blank (d # cs @ b) = split_blank (s @ b)" by simp
      then show ?thesis using False s Nil hd by auto
    next
      case (Cons t ts)
      with 3(2) [OF False] s have "split_blank (d # cs @ b) = butlast (s # ss) @ split_blank (last (s # ss) @ b)" by simp
      then show ?thesis using False s Cons by auto
    qed
  qed
qed simp_all

definition no_cr :: "string \<Rightarrow> bool" where
  "no_cr s \<longleftrightarrow> CHR 0x0D \<notin> set s"

lemma normalize_no_cr: "no_cr s \<Longrightarrow> normalize_lines False s = s"
  by (induction s) (auto simp: no_cr_def)

lemma normalize_makes_no_cr: "no_cr (normalize_lines cr s)"
  by (induction cr s rule: normalize_lines.induct) (auto simp: no_cr_def)

lemma normalize_append:
  "(s = [] \<longrightarrow> \<not> cr) \<Longrightarrow> (s \<noteq> [] \<longrightarrow> last s \<noteq> CHR 0x0D) \<Longrightarrow> normalize_lines cr (s @ t) = normalize_lines cr s @ normalize_lines False t"
  by (induction cr s rule: normalize_lines.induct) (auto split: if_splits)

lemma no_cr_append [simp]: "no_cr (a @ b) \<longleftrightarrow> no_cr a \<and> no_cr b"
  by (simp add: no_cr_def)

lemma split_blank_no_cr: "no_cr s \<Longrightarrow> c \<in> set (split_blank s) \<Longrightarrow> no_cr c"
  by (induction s arbitrary: c rule: split_blank.induct) (auto simp: no_cr_def split: list.splits if_splits)

text \<open>
  However the body is cut into pieces, the reader yields the events of the whole, as long as
  no piece ends in a carriage return.
\<close>

lemma sse_chunks_whole:
  assumes "no_cr buffer" and "split_blank buffer = [buffer]" and "\<forall>v\<in>set vs. v \<noteq> [] \<longrightarrow> last v \<noteq> CHR 0x0D"
  shows "sse_chunks buffer vs = (let cs = split_blank (buffer @ normalize_lines False (concat vs)) in (butlast cs, last cs))"
  using assms
proof (induction vs arbitrary: buffer)
  case (Cons v vs)
  have v: "v \<noteq> [] \<longrightarrow> last v \<noteq> CHR 0x0D" using Cons.prems(3) by simp
  have n: "normalize_lines False (buffer @ v) = buffer @ normalize_lines False v"
  proof -
    have "buffer \<noteq> [] \<longrightarrow> last buffer \<noteq> CHR 0x0D" using Cons.prems(1) unfolding no_cr_def by (metis last_in_set)
    then show ?thesis using normalize_append [of buffer False v] normalize_no_cr [OF Cons.prems(1)] by simp
  qed
  let ?cs = "split_blank (buffer @ normalize_lines False v)"
  have "no_cr (buffer @ normalize_lines False v)" using Cons.prems(1) normalize_makes_no_cr by simp
  then have b: "no_cr (last ?cs)" by (rule split_blank_no_cr) simp
  have whole: "split_blank (last ?cs) = [last ?cs]"
    using split_blank_append [of "buffer @ normalize_lines False v" "[]"] append_butlast_last_id [of ?cs]
    by (metis append_Nil2 same_append_eq split_blank_nonempty)
  have rest: "normalize_lines False (concat (v # vs)) = normalize_lines False v @ normalize_lines False (concat vs)"
    using normalize_append [of v False "concat vs"] v by simp
  have "split_blank (buffer @ normalize_lines False (concat (v # vs))) =
      butlast ?cs @ split_blank (last ?cs @ normalize_lines False (concat vs))"
    unfolding rest append_assoc [symmetric] by (rule split_blank_append)
  then show ?case using Cons.IH [OF b whole] Cons.prems(3)
    by (simp add: sse_read_def n Let_def butlast_append)
qed simp

lemma sse_reader_agrees:
  assumes "\<forall>v\<in>set vs. v \<noteq> [] \<longrightarrow> last v \<noteq> CHR 0x0D"
  shows "sse_chunks [] vs = sse_chunks [] [concat vs]"
  using sse_chunks_whole [of "[]" vs] assms by (simp add: no_cr_def sse_read_def Let_def)

text \<open>
  A piece that ends between the two characters of a line's end makes an end of event of them:
  one event with two lines of data becomes two events.
\<close>

lemma sse_cut_line_end:
  "sse_chunks [] [''data: a'' @ [CHR 0x0D, CHR 0x0A] @ ''data: b'' @ [CHR 0x0D, CHR 0x0A, CHR 0x0D, CHR 0x0A]] =
     ([''data: a'' @ [CHR 0x0A] @ ''data: b''], [])"
  "sse_chunks [] [''data: a'' @ [CHR 0x0D], [CHR 0x0A] @ ''data: b'' @ [CHR 0x0D, CHR 0x0A, CHR 0x0D, CHR 0x0A]] =
     ([''data: a'', ''data: b''], [])"
  by code_simp+

subsection \<open>Events and reconnections\<close>

text \<open>
  What an event carries: its data, missing, a text, or what the validator and the transformer
  make of the JSON; its name, and the identifier and the delay that are current.
\<close>

datatype 'd event_data = NoEventData | TextData string | JsonData 'd

record 'd stream_event =
  se_data :: "'d event_data"
  se_event :: "string option"
  se_id :: "string option"
  se_retry :: int

record sse_state =
  ss_last_event_id :: "string option"
  ss_retry_delay :: int

text \<open>\<open>line.replace(/^data:\s*/, '')\<close>, for a line that starts with the field's name.\<close>

definition field_value :: "string \<Rightarrow> string \<Rightarrow> string" where
  "field_value name line = dropWhile is_space (drop (length name) line)"

definition sse_line :: "string \<Rightarrow> (string list \<times> string option) \<times> sse_state \<Rightarrow> (string list \<times> string option) \<times> sse_state" where
  "sse_line line st = (case st of ((dataLines, eventName), s) \<Rightarrow>
     if starts_with line ''data:'' then ((dataLines @ [field_value ''data:'' line], eventName), s)
     else if starts_with line ''event:'' then ((dataLines, Some (field_value ''event:'' line)), s)
     else if starts_with line ''id:'' then ((dataLines, eventName), s\<lparr>ss_last_event_id := Some (field_value ''id:'' line)\<rparr>)
     else if starts_with line ''retry:'' then
       ((dataLines, eventName), (case parse_int (field_value ''retry:'' line) of None \<Rightarrow> s | Some parsed \<Rightarrow> s\<lparr>ss_retry_delay := parsed\<rparr>))
     else ((dataLines, eventName), s))"

text \<open>
  A chunk as an event, or \<open>None\<close> where the validator or the transformer throws (\<open>accept\<close> is what they
  make of parsed data, \<open>parse\<close> is \<open>JSON.parse\<close>); the identifier and the delay are taken over before.
\<close>

definition sse_chunk :: "(string \<Rightarrow> json option) \<Rightarrow> (json \<Rightarrow> 'd option) \<Rightarrow> string \<Rightarrow> sse_state \<Rightarrow> 'd stream_event option \<times> sse_state" where
  "sse_chunk parse accept chunk s =
     (case fold sse_line (split_on CHR 0x0A chunk) (([], None), s) of ((dataLines, eventName), s') \<Rightarrow>
       let rawData = join_with [CHR 0x0A] dataLines;
           event = (\<lambda>d. \<lparr>se_data = d, se_event = eventName, se_id = ss_last_event_id s', se_retry = ss_retry_delay s'\<rparr>)
       in (if dataLines = [] then Some (event NoEventData)
           else case parse rawData of
             None \<Rightarrow> Some (event (TextData rawData))
           | Some j \<Rightarrow> map_option (\<lambda>d. event (JsonData d)) (accept j), s'))"

text \<open>The events of a connection's chunks, and whether all were accepted.\<close>

fun sse_events :: "(string \<Rightarrow> json option) \<Rightarrow> (json \<Rightarrow> 'd option) \<Rightarrow> string list \<Rightarrow> sse_state \<Rightarrow>
    'd stream_event list \<times> sse_state \<times> bool" where
  "sse_events parse accept [] s = ([], s, True)"
| "sse_events parse accept (c # cs) s = (case sse_chunk parse accept c s of
     (None, s') \<Rightarrow> ([], s', False)
   | (Some e, s') \<Rightarrow> (case sse_events parse accept cs s' of (es, s'', ok) \<Rightarrow> (e # es, s'', ok)))"

text \<open>
  An attempt to connect: aborted before, refused (no connection, a status that is not ok, no
  body), or a body that was read in pieces and then ended, or broke.
\<close>

datatype connection = Aborted | RefusedConnection | Body "string list" bool

datatype sse_end = Finished | GaveUp | Waiting

text \<open>A request with the header \<open>Last-Event-ID\<close>, an event that is handed out, the report of an error, a pause.\<close>

datatype 'd sse_out = Connect "string option" | Emit "'d stream_event" | SseError | Sleep int

definition sse_backoff :: "int option \<Rightarrow> int \<Rightarrow> nat \<Rightarrow> int" where
  "sse_backoff sseMaxRetryDelay retryDelay attempt = min (retryDelay * 2 ^ (attempt - 1)) (nullish sseMaxRetryDelay 30000)"

text \<open>\<open>createStream\<close>, on the connections as they turn out; \<open>attempt\<close> counts those made before.\<close>

fun create_stream :: "(string \<Rightarrow> json option) \<Rightarrow> (json \<Rightarrow> 'd option) \<Rightarrow> nat option \<Rightarrow> int option \<Rightarrow>
    connection list \<Rightarrow> nat \<Rightarrow> sse_state \<Rightarrow> 'd sse_out list \<times> sse_end" where
  "create_stream parse accept maxAttempts maxDelay [] attempt s = ([], Waiting)"
| "create_stream parse accept maxAttempts maxDelay (c # cs) attempt s =
     (let failed = (\<lambda>events s'.
        if maxAttempts \<noteq> None \<and> the maxAttempts \<le> Suc attempt
        then (Connect (ss_last_event_id s) # map Emit events @ [SseError], GaveUp)
        else (case create_stream parse accept maxAttempts maxDelay cs (Suc attempt) s' of (out, e) \<Rightarrow>
          (Connect (ss_last_event_id s) # map Emit events @
             [SseError, Sleep (sse_backoff maxDelay (ss_retry_delay s') (Suc attempt))] @ out, e)))
      in case c of
        Aborted \<Rightarrow> ([], Finished)
      | RefusedConnection \<Rightarrow> failed [] s
      | Body vs ended \<Rightarrow> (case sse_events parse accept (fst (sse_chunks [] vs)) s of (events, s', ok) \<Rightarrow>
          if ok \<and> ended then (Connect (ss_last_event_id s) # map Emit events, Finished) else failed events s'))"

definition sse_start :: "int option \<Rightarrow> sse_state" where
  "sse_start sseDefaultRetryDelay = \<lparr>ss_last_event_id = None, ss_retry_delay = nullish sseDefaultRetryDelay 3000\<rparr>"

definition connects :: "'d sse_out list \<Rightarrow> nat" where
  "connects out = length (filter (\<lambda>x. \<exists>i. x = Connect i) out)"

lemma connects_simps [simp]:
  "connects [] = 0" "connects (Connect i # out) = Suc (connects out)" "connects (Emit e # out) = connects out"
  "connects (SseError # out) = connects out" "connects (Sleep n # out) = connects out"
  "connects (out @ out') = connects out + connects out'" "connects (map Emit es) = 0"
  by (auto simp: connects_def filter_empty_conv)

text \<open>With a limit the stream connects no more often, and with as many failures it ends.\<close>

lemma stream_attempts_bounded:
  "attempt < n \<Longrightarrow> connects (fst (create_stream parse accept (Some n) d cs attempt s)) + attempt \<le> n"
proof (induction cs arbitrary: attempt s)
  case (Cons c cs)
  have "Suc attempt < n \<Longrightarrow> Suc (connects (fst (create_stream parse accept (Some n) d cs (Suc attempt) s')) + attempt) \<le> n" for s'
    using Cons.IH [of "Suc attempt" s'] by simp
  with Cons.prems show ?case by (auto simp: Let_def case_prod_beta not_le split: connection.split)
qed simp

lemma stream_gives_up:
  "attempt < n \<Longrightarrow> n \<le> attempt + length cs \<Longrightarrow> snd (create_stream parse accept (Some n) d cs attempt s) \<noteq> Waiting"
proof (induction cs arbitrary: attempt s)
  case (Cons c cs)
  have "Suc attempt < n \<Longrightarrow> snd (create_stream parse accept (Some n) d cs (Suc attempt) s') \<noteq> Waiting" for s'
    using Cons.IH [of "Suc attempt" s'] Cons.prems by simp
  then show ?case by (auto simp: Let_def case_prod_beta not_le split: connection.split)
qed simp

text \<open>No pause is longer than the limit for pauses.\<close>

lemma stream_pauses_bounded:
  "Sleep t \<in> set (fst (create_stream parse accept m d cs attempt s)) \<Longrightarrow> t \<le> nullish d 30000"
proof (induction cs arbitrary: attempt s)
  case (Cons c cs)
  then show ?case by (auto simp: Let_def sse_backoff_def case_prod_beta split: connection.splits if_splits)
qed simp

text \<open>
  A connection that breaks is taken up with the identifier of the last event that was seen:
  the next request carries it.
\<close>

lemma stream_resumes:
  assumes "sse_events parse accept (fst (sse_chunks [] vs)) s = (events, s', True)" and "m = None \<or> Suc attempt < the m"
  shows "\<exists>out. fst (create_stream parse accept m d (Body vs False # Body us True # cs) attempt s) =
     Connect (ss_last_event_id s) # map Emit events @ SseError # Sleep (sse_backoff d (ss_retry_delay s') (Suc attempt)) #
       Connect (ss_last_event_id s') # out"
  using assms by (auto simp: Let_def case_prod_beta split: option.split)

subsection \<open>\<open>client/utils.gen.ts\<close>: headers\<close>

text \<open>
  A header's value as it may be given, and as it is kept: a text, a list, or the headers for a
  method under one of axios's keywords.
\<close>

datatype header_value = HNull | HUndefined | HText string | HList "string list" | HObject "(string \<times> string) list"

definition axiosHeadersKeywords :: "string list" where
  "axiosHeadersKeywords = [''common'', ''delete'', ''get'', ''head'', ''patch'', ''post'', ''put'']"

type_synonym merged_headers = "string \<rightharpoonup> header_value"

text \<open>\<open>[...(merged[key] ?? []), ...values]\<close>: a text is spread into its characters; an object cannot be spread.\<close>

definition spread_header :: "header_value option \<Rightarrow> string list option" where
  "spread_header h = (case h of None \<Rightarrow> Some [] | Some (HList vs) \<Rightarrow> Some vs | Some (HText t) \<Rightarrow> Some (map (\<lambda>c. [c]) t) | Some _ \<Rightarrow> None)"

text \<open>\<open>{ ...a, ...b }\<close> on the entries of what is spread: a text or a list has its places as keys.\<close>

definition places :: "string list \<Rightarrow> (string \<times> string) list" where
  "places vs = map (\<lambda>(i, v). (nat_to_string i, v)) (enumerate 0 vs)"

definition entries_of :: "header_value option \<Rightarrow> (string \<times> string) list" where
  "entries_of h = (case h of Some (HObject fs) \<Rightarrow> fs | Some (HText t) \<Rightarrow> places (map (\<lambda>c. [c]) t) | Some (HList vs) \<Rightarrow> places vs
     | _ \<Rightarrow> [])"

definition spread_over :: "(string \<times> string) list \<Rightarrow> (string \<times> string) list \<Rightarrow> (string \<times> string) list" where
  "spread_over gs fs = map (\<lambda>g. (fst g, nullish (map_of fs (fst g)) (snd g))) gs @ filter (\<lambda>f. fst f \<notin> fst ` set gs) fs"

text \<open>
  One entry; \<open>None\<close> is the exception. Under a keyword whatever is an object, \<open>null\<close> and lists
  among it, is merged into what is there; any other object is written as JSON.
\<close>

definition merge_header :: "((string \<times> string) list \<Rightarrow> string) \<Rightarrow> string \<times> header_value \<Rightarrow> merged_headers \<Rightarrow> merged_headers option" where
  "merge_header stringify e m = (case e of (key, v) \<Rightarrow>
     if key \<in> set axiosHeadersKeywords \<and> (case v of HObject _ \<Rightarrow> True | HList _ \<Rightarrow> True | HNull \<Rightarrow> True | _ \<Rightarrow> False)
     then Some (m(key \<mapsto> HObject (spread_over (entries_of (m key)) (entries_of (Some v)))))
     else (case v of
        HNull \<Rightarrow> Some (m(key := None))
      | HList vs \<Rightarrow> if vs = [] then Some m else map_option (\<lambda>us. m(key \<mapsto> HList (us @ vs))) (spread_header (m key))
      | HUndefined \<Rightarrow> Some m
      | HObject fs \<Rightarrow> Some (m(key \<mapsto> HText (stringify fs)))
      | HText t \<Rightarrow> Some (m(key \<mapsto> HText t))))"

fun merge_entries :: "((string \<times> string) list \<Rightarrow> string) \<Rightarrow> (string \<times> header_value) list \<Rightarrow> merged_headers \<Rightarrow> merged_headers option" where
  "merge_entries stringify [] m = Some m"
| "merge_entries stringify (e # es) m = Option.bind (merge_header stringify e m) (merge_entries stringify es)"

definition merge_headers :: "((string \<times> string) list \<Rightarrow> string) \<Rightarrow> (string \<times> header_value) list option list \<Rightarrow> merged_headers option" where
  "merge_headers stringify headers = merge_entries stringify (concat (map (\<lambda>h. nullish h []) headers)) Map.empty"

lemma merge_entries_append:
  "merge_entries f (es @ es') m = Option.bind (merge_entries f es m) (merge_entries f es')"
  by (induction es arbitrary: m) (auto split: bind_split)

lemma merge_other:
  "merge_entries f es m = Some m' \<Longrightarrow> k \<notin> fst ` set es \<Longrightarrow> m' k = m k"
proof (induction es arbitrary: m)
  case (Cons e es)
  then obtain m1 where "merge_header f e m = Some m1" "merge_entries f es m1 = Some m'" by (auto split: bind_splits)
  moreover from this(1) Cons.prems(2) have "m1 k = m k"
    by (cases e) (auto simp: merge_header_def split: header_value.splits if_splits)
  ultimately show ?case using Cons by auto
qed simp

text \<open>
  The headers of a request over those of the client: a text of the request wins, \<open>null\<close> takes a
  header away, \<open>undefined\<close> leaves the client's, and what the request does not name stays.
\<close>

lemma request_headers_win:
  assumes "merge_headers f [Some base, Some (own @ [(k, v)])] = Some m" and "merge_entries f (base @ own) Map.empty = Some m0"
  shows "v = HText t \<Longrightarrow> m k = Some (HText t)" "v = HNull \<Longrightarrow> k \<notin> set axiosHeadersKeywords \<Longrightarrow> m k = None" "v = HUndefined \<Longrightarrow> m k = m0 k"
    "k' \<noteq> k \<Longrightarrow> m k' = m0 k'"
proof -
  have "merge_header f (k, v) m0 = Some m"
    using assms by (auto simp: merge_headers_def merge_entries_append split: bind_splits)
  then show "v = HText t \<Longrightarrow> m k = Some (HText t)" "v = HNull \<Longrightarrow> k \<notin> set axiosHeadersKeywords \<Longrightarrow> m k = None" "v = HUndefined \<Longrightarrow> m k = m0 k"
    "k' \<noteq> k \<Longrightarrow> m k' = m0 k'"
    by (auto simp: merge_header_def split: header_value.splits if_splits)
qed

subsection \<open>\<open>core/auth.gen.ts\<close> and \<open>setAuthParams\<close>\<close>

datatype auth_place = InHeader | InQuery | InCookie
datatype token_scheme = Basic | Bearer

record auth =
  au_in :: auth_place
  au_name :: "string option"
  au_scheme :: "token_scheme option"

definition get_auth_token :: "(string \<Rightarrow> string) \<Rightarrow> auth \<Rightarrow> string option \<Rightarrow> string option" where
  "get_auth_token btoa a token =
     (if \<not> truthy token then None
      else Some (case au_scheme a of
        Some Bearer \<Rightarrow> ''Bearer '' @ the token | Some Basic \<Rightarrow> ''Basic '' @ btoa (the token) | None \<Rightarrow> the token))"

record auth_options =
  ao_headers :: merged_headers
  ao_query :: "string \<rightharpoonup> string"

definition text_includes :: "string \<Rightarrow> string \<Rightarrow> bool" where
  "text_includes s t \<longleftrightarrow> list_ex (\<lambda>i. starts_with (drop i s) t) [0..<Suc (length s)]"

definition check_for_existence :: "auth_options \<Rightarrow> string option \<Rightarrow> bool" where
  "check_for_existence o' name =
     (if \<not> truthy name then False
      else if ao_headers o' (the name) \<noteq> None \<or> truthy (ao_query o' (the name)) then True
      else case ao_headers o' ''Cookie'' of Some (HText c) \<Rightarrow> c \<noteq> [] \<and> text_includes c (the name @ ''='') | _ \<Rightarrow> False)"

text \<open>A header in a template literal, where there is one: a list's elements are joined, an object only says that it is one.\<close>

definition header_text :: "header_value option \<Rightarrow> string option" where
  "header_text h = (case h of
     Some (HText c) \<Rightarrow> if c = [] then None else Some c
   | Some (HList vs) \<Rightarrow> Some (join_with '','' vs)
   | Some (HObject _) \<Rightarrow> Some ''[object Object]''
   | _ \<Rightarrow> None)"

definition set_auth_param :: "(string \<Rightarrow> string) \<Rightarrow> (auth \<Rightarrow> string option) \<Rightarrow> auth \<Rightarrow> auth_options \<Rightarrow> auth_options" where
  "set_auth_param btoa credentials a o' =
     (if check_for_existence o' (au_name a) then o'
      else case get_auth_token btoa a (credentials a) of
        None \<Rightarrow> o'
      | Some token \<Rightarrow> (let name = nullish (au_name a) ''Authorization'' in
          if token = [] then o'
          else case au_in a of
            InQuery \<Rightarrow> o'\<lparr>ao_query := (ao_query o')(name \<mapsto> token)\<rparr>
          | InCookie \<Rightarrow> (let value' = name @ ''='' @ token in
              o'\<lparr>ao_headers := (ao_headers o')(''Cookie'' \<mapsto> HText (case header_text (ao_headers o' ''Cookie'') of
                Some c \<Rightarrow> c @ ''; '' @ value' | None \<Rightarrow> value'))\<rparr>)
          | InHeader \<Rightarrow> o'\<lparr>ao_headers := (ao_headers o')(name \<mapsto> HText token)\<rparr>))"

definition set_auth_params :: "(string \<Rightarrow> string) \<Rightarrow> (auth \<Rightarrow> string option) \<Rightarrow> auth list \<Rightarrow> auth_options \<Rightarrow> auth_options" where
  "set_auth_params btoa credentials security o' = fold (set_auth_param btoa credentials) security o'"

text \<open>
  A named credential is set once: what the caller gave under its name stays, and setting it
  again changes nothing. One without a name always goes into \<open>Authorization\<close>, over what is there.
\<close>

lemma given_credentials_stay:
  assumes "ao_headers o' n = Some h" and "n \<noteq> []" and "n \<noteq> ''Cookie''"
    and "\<forall>a\<in>set security. au_name a \<noteq> None" 
  shows "ao_headers (set_auth_params btoa credentials security o') n = Some h"
  unfolding set_auth_params_def using assms(1,4)
proof (induction security arbitrary: o')
  case (Cons a security)
  have "ao_headers (set_auth_param btoa credentials a o') n = Some h"
    using Cons.prems assms(2,3)
    by (auto simp: set_auth_param_def check_for_existence_def truthy_def Let_def split: option.splits auth_place.splits)
  with Cons show ?case by simp
qed simp

lemma unnamed_credentials_overwrite:
  assumes "au_name a = None" and "au_in a = InHeader" and "au_scheme a = Some Bearer" and "credentials a = Some t" and "t \<noteq> []"
  shows "ao_headers (set_auth_param btoa credentials a o') ''Authorization'' = Some (HText (''Bearer '' @ t))"
  using assms by (simp add: set_auth_param_def check_for_existence_def truthy_def get_auth_token_def Let_def)

text \<open>Where no credential goes into the query, the query stays as it is.\<close>

lemma query_kept_by_headers:
  "\<forall>a\<in>set security. au_in a \<noteq> InQuery \<Longrightarrow> ao_query (set_auth_params btoa credentials security o') = ao_query o'"
  unfolding set_auth_params_def
proof (induction security arbitrary: o')
  case (Cons a security)
  have "ao_query (set_auth_param btoa credentials a o') = ao_query o'"
    using Cons.prems by (simp add: set_auth_param_def Let_def split: option.split auth_place.split)
  with Cons show ?case by simp
qed simp

lemma headers_kept_by_query:
  "\<forall>a\<in>set security. au_in a = InQuery \<Longrightarrow> ao_headers (set_auth_params btoa credentials security o') = ao_headers o'"
  unfolding set_auth_params_def
proof (induction security arbitrary: o')
  case (Cons a security)
  have "ao_headers (set_auth_param btoa credentials a o') = ao_headers o'"
    using Cons.prems by (simp add: set_auth_param_def Let_def split: option.split)
  with Cons show ?case by simp
qed simp

subsection \<open>\<open>client.gen.ts\<close>: a request, from its options to its outcome\<close>

text \<open>
  The options of a call over those of the client, but for the headers, which are merged. The
  types of bodies, answers and exceptions are open; so is how the URL is made of the query.
\<close>

record ('b, 'r, 'e) client_call =
  cc_headers :: "(string \<times> header_value) list option"
  cc_query :: "(string \<rightharpoonup> string) option"
  cc_security :: "auth list option"
  cc_body :: "'b option"
  cc_body_serializer :: "('b \<Rightarrow> 'e + 'b) option"
  cc_serialized_body :: "'b option option"
  cc_params_serializer :: bool
  cc_response_json :: bool
  cc_response_validator :: "('r option \<Rightarrow> 'e option) option"
  cc_response_transformer :: "('r option \<Rightarrow> 'e + 'r option) option"
  cc_throw_on_error :: bool

datatype 'b request_data = NoData | NullData | SendData 'b

text \<open>\<open>getValidRequestBody\<close>; \<open>serializedBody\<close> may be absent, or there and \<open>undefined\<close>.\<close>

definition get_valid_request_body :: "('b \<Rightarrow> bool) \<Rightarrow> ('b, 'r, 'e) client_call \<Rightarrow> 'b request_data" where
  "get_valid_request_body empty_text c = (case cc_body c of
     None \<Rightarrow> NoData
   | Some b \<Rightarrow>
       if cc_body_serializer c \<noteq> None then
         (case cc_serialized_body c of
            Some None \<Rightarrow> NullData
          | Some (Some sb) \<Rightarrow> if empty_text sb then NullData else SendData sb
          | None \<Rightarrow> if empty_text b then NullData else SendData b)
       else SendData b)"

record ('b, 'r, 'e) prepared =
  pr_call :: "('b, 'r, 'e) client_call"
  pr_headers :: merged_headers
  pr_url :: string

text \<open>
  \<open>beforeRequest\<close>. \<open>setAuthParams\<close> gets a copy of the options: what it sets in their headers and
  in a query that is there is seen, since the objects are shared; a query that it creates is
  only the copy's. \<open>spread_error\<close> is the exception of \<open>mergeHeaders\<close>.
\<close>

definition before_request :: "(string \<Rightarrow> string) \<Rightarrow> ((string \<times> string) list \<Rightarrow> string) \<Rightarrow> (auth \<Rightarrow> string option) \<Rightarrow> 'e \<Rightarrow>
    (('b, 'r, 'e) client_call \<Rightarrow> merged_headers \<Rightarrow> 'e option) \<Rightarrow> ((string \<rightharpoonup> string) option \<Rightarrow> string) \<Rightarrow>
    (string \<times> header_value) list option \<Rightarrow> ('b, 'r, 'e) client_call \<Rightarrow> 'e + ('b, 'r, 'e) prepared" where
  "before_request btoa stringify credentials spread_error requestValidator url_of base c =
     (case merge_headers stringify [base, cc_headers c] of
        None \<Rightarrow> Inl spread_error
      | Some h \<Rightarrow>
          let o' = set_auth_params btoa credentials (nullish (cc_security c) [])
                \<lparr>ao_headers = h, ao_query = nullish (cc_query c) Map.empty\<rparr>;
              c' = c\<lparr>cc_query := (if cc_query c = None then None else Some (ao_query o'))\<rparr>
          in (case requestValidator c' (ao_headers o') of
                Some e \<Rightarrow> Inl e
              | None \<Rightarrow>
                  (case (case cc_body c of
                      None \<Rightarrow> Inr None
                    | Some b \<Rightarrow> (case cc_body_serializer c of None \<Rightarrow> Inr (Some b) | Some f \<Rightarrow> map_sum id Some (f b))) of
                     Inl e \<Rightarrow> Inl e
                   | Inr body \<Rightarrow> Inr \<lparr>pr_call = c'\<lparr>cc_body := body\<rparr>, pr_headers = ao_headers o',
                       pr_url = url_of (if cc_params_serializer c then None else cc_query c')\<rparr>)))"

text \<open>What axios is called with; an answer is its data, an exception may carry the data of an answer.\<close>

record 'b axios_request =
  ax_url :: string
  ax_headers :: merged_headers
  ax_data :: "'b request_data"
  ax_params :: "(string \<rightharpoonup> string) option"

definition axios_call :: "('b \<Rightarrow> bool) \<Rightarrow> ('b, 'r, 'e) prepared \<Rightarrow> 'b axios_request" where
  "axios_call empty_text p = \<lparr>ax_url = pr_url p, ax_headers = pr_headers p,
     ax_data = get_valid_request_body empty_text (pr_call p),
     ax_params = (if cc_params_serializer (pr_call p) then cc_query (pr_call p) else None)\<rparr>"

definition checked_response :: "('b, 'r, 'e) client_call \<Rightarrow> 'r option \<Rightarrow> 'e + 'r option" where
  "checked_response c data =
     (if \<not> cc_response_json c then Inr data
      else case (case cc_response_validator c of None \<Rightarrow> None | Some v \<Rightarrow> v data) of
        Some e \<Rightarrow> Inl e
      | None \<Rightarrow> (case cc_response_transformer c of None \<Rightarrow> Inr data | Some f \<Rightarrow> f data))"

datatype ('r, 'e) call_outcome = Answered 'r | Failed 'e 'r | Thrown 'e

text \<open>\<open>request\<close>: what is thrown before the call to axios is thrown on, whatever \<open>throwOnError\<close> says.\<close>

definition client_request :: "('b \<Rightarrow> bool) \<Rightarrow> 'r \<Rightarrow> ('e \<Rightarrow> 'r option) \<Rightarrow> ('b axios_request \<Rightarrow> 'e + 'r option) \<Rightarrow>
    'e + ('b, 'r, 'e) prepared \<Rightarrow> ('r, 'e) call_outcome" where
  "client_request empty_text emptyObject response_of axios prep = (case prep of
     Inl e \<Rightarrow> Thrown e
   | Inr p \<Rightarrow>
       (case (case axios (axios_call empty_text p) of Inl e \<Rightarrow> Inl e | Inr data \<Rightarrow> checked_response (pr_call p) data) of
          Inr data \<Rightarrow> Answered (nullish data emptyObject)
        | Inl e \<Rightarrow> if cc_throw_on_error (pr_call p) then Thrown e else Failed e (nullish (response_of e) emptyObject)))"

lemma before_request_keeps_throw:
  "before_request btoa f cr te v u base c = Inr p \<Longrightarrow> cc_throw_on_error (pr_call p) = cc_throw_on_error c"
  by (auto simp: before_request_def Let_def split: option.splits sum.splits)

text \<open>
  A call without \<open>throwOnError\<close> only throws what came up before it was sent; one with it never
  returns a failure.
\<close>

lemma quiet_calls_throw_early:
  assumes "client_request et eo ro axios (before_request btoa f cr te v u base c) = Thrown e"
  shows "cc_throw_on_error c \<or> before_request btoa f cr te v u base c = Inl e"
  using assms before_request_keeps_throw [of btoa f cr te v u base c]
  by (auto simp: client_request_def split: sum.splits if_splits)

lemma throwing_calls_never_fail:
  "cc_throw_on_error c \<Longrightarrow> client_request et eo ro axios (before_request btoa f cr te v u base c) \<noteq> Failed e d"
  using before_request_keeps_throw [of btoa f cr te v u base c]
  by (auto simp: client_request_def split: sum.splits)

text \<open>
  Credentials for the query reach a call that has a query; one that has none is sent without
  them, as if it had no security.
\<close>

lemma query_credentials_lost:
  assumes "cc_query c = None" and "cc_security c = Some security" and "\<forall>a\<in>set security. au_in a = InQuery"
    and "\<And>c' c'' h. c'\<lparr>cc_security := None\<rparr> = c''\<lparr>cc_security := None\<rparr> \<Longrightarrow> v c' h = v c'' h"
  shows "map_sum id (axios_call et) (before_request btoa f cr te v u base c) =
     map_sum id (axios_call et) (before_request btoa f cr te v u base (c\<lparr>cc_security := None\<rparr>))"
proof -
  have "v (c\<lparr>cc_security := None, cc_query := None\<rparr>) h = v (c\<lparr>cc_query := None\<rparr>) h" for h
    by (rule assms(4)) simp
  then show ?thesis
    using assms(1-3) headers_kept_by_query [OF assms(3)]
    by (simp add: before_request_def Let_def axios_call_def get_valid_request_body_def set_auth_params_def split: option.split sum.split)
qed

subsection \<open>\<open>params.gen.ts\<close>\<close>

datatype slot = BodySlot | HeadersSlot | PathSlot | QuerySlot

text \<open>A \<open>Field\<close> with a place, one that only names a slot, and \<open>Fields\<close>.\<close>

datatype field_config = InField slot "string option" "string option" | AliasField string slot
  | Fields "(slot \<times> bool) list" "field_config list"

datatype key_target = KeyIn slot "string option" | KeyAlias slot

text \<open>\<open>field.map || key\<close>.\<close>

definition or_key :: "string option \<Rightarrow> string \<Rightarrow> string" where
  "or_key n k = (if truthy n then the n else k)"

definition extraPrefixes :: "(string \<times> slot) list" where
  "extraPrefixes = [(''$body_'', BodySlot), (''$headers_'', HeadersSlot), (''$path_'', PathSlot), (''$query_'', QuerySlot)]"

fun build_key_map :: "field_config list \<Rightarrow> (string \<rightharpoonup> key_target) \<Rightarrow> (string \<rightharpoonup> key_target)" where
  "build_key_map [] m = m"
| "build_key_map (InField s k n # fs) m = build_key_map fs (if truthy k then m(the k \<mapsto> KeyIn s n) else m)"
| "build_key_map (AliasField k s # fs) m = build_key_map fs (m(k \<mapsto> KeyAlias s))"
| "build_key_map (Fields extra args # fs) m = build_key_map fs (build_key_map args m)"

text \<open>
  A slot holds the entries set one by one, or a value that was given for it as a whole; what
  setting a property does to such a value is \<open>assign\<close> (an object: on a primitive it would throw).
\<close>

datatype 'v slot_value = Entries "(string \<times> 'v) list" | Whole 'v

definition set_entry :: "('v \<Rightarrow> string \<Rightarrow> 'v \<Rightarrow> 'v) \<Rightarrow> string \<Rightarrow> 'v \<Rightarrow> 'v slot_value \<Rightarrow> 'v slot_value" where
  "set_entry assign k x sv = (case sv of Entries es \<Rightarrow> Entries (AList.update k x es) | Whole v \<Rightarrow> Whole (assign v k x))"

type_synonym 'v params = "slot \<Rightarrow> 'v slot_value"

text \<open>One property of an argument, under the configuration that is current.\<close>

definition place_entry :: "('v \<Rightarrow> string \<Rightarrow> 'v \<Rightarrow> 'v) \<Rightarrow> (string \<rightharpoonup> key_target) \<Rightarrow> (slot \<times> bool) list \<Rightarrow> string \<times> 'v \<Rightarrow> 'v params \<Rightarrow> 'v params" where
  "place_entry assign keys allowExtra e p = (case e of (key, x) \<Rightarrow>
     (case keys key of
        Some (KeyIn s n) \<Rightarrow> p(s := set_entry assign (or_key n key) x (p s))
      | Some (KeyAlias s) \<Rightarrow> p(s := Whole x)
      | None \<Rightarrow> (case find (\<lambda>pre. starts_with key (fst pre)) extraPrefixes of
          Some (prefix, s) \<Rightarrow> p(s := set_entry assign (drop (length prefix) key) x (p s))
        | None \<Rightarrow> (case find snd allowExtra of
            Some (s, _) \<Rightarrow> p(s := set_entry assign key x (p s))
          | None \<Rightarrow> p))))"

definition client_arg :: "('v \<Rightarrow> string \<Rightarrow> 'v \<Rightarrow> 'v) \<Rightarrow> ('v \<Rightarrow> (string \<times> 'v) list) \<Rightarrow> (string \<rightharpoonup> key_target) \<Rightarrow> field_config \<Rightarrow> 'v \<Rightarrow> 'v params \<Rightarrow> 'v params" where
  "client_arg assign entries keys config arg p = (case config of
     InField _ k _ \<Rightarrow>
       if truthy k then (case keys (the k) of Some (KeyIn s n) \<Rightarrow> p(s := set_entry assign (or_key n (the k)) arg (p s)) | _ \<Rightarrow> p)
       else p(BodySlot := Whole arg)
   | AliasField _ _ \<Rightarrow> fold (place_entry assign keys []) (entries arg) p
   | Fields extra _ \<Rightarrow> fold (place_entry assign keys extra) (entries arg) p)"

text \<open>An argument beyond the configurations is taken under the last one.\<close>

fun client_args :: "('v \<Rightarrow> string \<Rightarrow> 'v \<Rightarrow> 'v) \<Rightarrow> ('v \<Rightarrow> (string \<times> 'v) list) \<Rightarrow> (string \<rightharpoonup> key_target) \<Rightarrow> field_config list \<Rightarrow>
    field_config option \<Rightarrow> 'v list \<Rightarrow> 'v params \<Rightarrow> 'v params" where
  "client_args assign entries keys configs config [] p = p"
| "client_args assign entries keys configs config (arg # args) p =
     (let config' = (case configs of f # _ \<Rightarrow> Some f | [] \<Rightarrow> config) in
      client_args assign entries keys (tl configs) config' args
        (case config' of None \<Rightarrow> p | Some c \<Rightarrow> client_arg assign entries keys c arg p))"

definition strip_empty_slots :: "('v \<Rightarrow> bool) \<Rightarrow> 'v params \<Rightarrow> slot \<Rightarrow> 'v slot_value option" where
  "strip_empty_slots emptyObject p s = (case p s of
     Entries es \<Rightarrow> if es = [] then None else Some (Entries es)
   | Whole v \<Rightarrow> if emptyObject v then None else Some (Whole v))"

definition build_client_params :: "('v \<Rightarrow> string \<Rightarrow> 'v \<Rightarrow> 'v) \<Rightarrow> ('v \<Rightarrow> (string \<times> 'v) list) \<Rightarrow> ('v \<Rightarrow> bool) \<Rightarrow>
    'v list \<Rightarrow> field_config list \<Rightarrow> slot \<Rightarrow> 'v slot_value option" where
  "build_client_params assign entries emptyObject args configs =
     strip_empty_slots emptyObject (client_args assign entries (build_key_map configs Map.empty) configs None args (\<lambda>_. Entries []))"

text \<open>
  Properties that the configuration knows, each by a name of its own in its slot, arrive there
  and nothing else does.
\<close>

definition known_places :: "(string \<rightharpoonup> key_target) \<Rightarrow> (string \<times> 'v) list \<Rightarrow> bool" where
  "known_places keys es \<longleftrightarrow> distinct (map fst es) \<and> (\<forall>k\<in>fst ` set es. \<exists>s n. keys k = Some (KeyIn s n)) \<and>
     (\<forall>k\<in>fst ` set es. \<forall>k'\<in>fst ` set es. \<forall>s n n'. keys k = Some (KeyIn s n) \<longrightarrow> keys k' = Some (KeyIn s n') \<longrightarrow>
        or_key n k = or_key n' k' \<longrightarrow> k = k')"

definition placed :: "(string \<rightharpoonup> key_target) \<Rightarrow> slot \<Rightarrow> (string \<times> 'v) list \<Rightarrow> (string \<times> 'v) list" where
  "placed keys s es = List.map_filter (\<lambda>(k, x). case keys k of Some (KeyIn s' n) \<Rightarrow> if s' = s then Some (or_key n k, x) else None | _ \<Rightarrow> None) es"

lemma placed_snoc: "placed keys s (es @ [(k, x)]) = placed keys s es @
    (case keys k of Some (KeyIn s' n) \<Rightarrow> if s' = s then [(or_key n k, x)] else [] | _ \<Rightarrow> [])"
  by (auto simp: placed_def map_filter_def split: option.split key_target.split)

lemma update_new: "k \<notin> fst ` set es \<Longrightarrow> AList.update k x es = es @ [(k, x)]"
  by (induction es) auto

lemma known_properties_placed:
  "known_places keys es \<Longrightarrow> fold (place_entry assign keys extra) es (\<lambda>_. Entries []) = (\<lambda>s. Entries (placed keys s es))"
proof (induction es rule: rev_induct)
  case Nil
  show ?case by (simp add: placed_def map_filter_def)
next
  case (snoc e es)
  obtain k x where e: "e = (k, x)" by (cases e)
  have "known_places keys es" using snoc.prems by (auto simp: known_places_def)
  then have IH: "fold (place_entry assign keys extra) es (\<lambda>_. Entries []) = (\<lambda>s. Entries (placed keys s es))" by (rule snoc.IH)
  obtain s n where k: "keys k = Some (KeyIn s n)" using snoc.prems e by (auto simp: known_places_def)
  have "or_key n k \<notin> fst ` set (placed keys s es)"
  proof
    assume "or_key n k \<in> fst ` set (placed keys s es)"
    then obtain k' x' n' where "(k', x') \<in> set es" "keys k' = Some (KeyIn s n')" "or_key n' k' = or_key n k"
      by (auto simp: placed_def map_filter_def split: option.splits key_target.splits if_splits)
    note k' = this
    have "k' \<in> fst ` set (es @ [e])" "k \<in> fst ` set (es @ [e])" using k'(1) e by force+
    with k k' snoc.prems have "k = k'" unfolding known_places_def by metis
    moreover have "k' \<noteq> k" using k'(1) snoc.prems e by (force simp: known_places_def)
    ultimately show False by simp
  qed
  then have "set_entry assign (or_key n k) x (Entries (placed keys s es)) = Entries (placed keys s (es @ [(k, x)]))"
    using k by (simp add: set_entry_def update_new placed_snoc)
  moreover have "placed keys s' (es @ [(k, x)]) = placed keys s' es" if "s' \<noteq> s" for s'
    using k that by (simp add: placed_snoc)
  moreover have "place_entry assign keys extra (k, x) p = p(s := set_entry assign (or_key n k) x (p s))" for p
    using k by (simp add: place_entry_def)
  ultimately show ?case using e by (simp add: IH fun_eq_iff)
qed

lemma flat_call_params:
  assumes "known_places (build_key_map [Fields extra args] Map.empty) (entries arg)"
  shows "build_client_params assign entries emptyObject [arg] [Fields extra args] s =
     (let es = placed (build_key_map args Map.empty) s (entries arg) in if es = [] then None else Some (Entries es))"
  using assms by (simp add: build_client_params_def client_arg_def known_properties_placed strip_empty_slots_def Let_def)

subsection \<open>\<open>queryKeySerializer.gen.ts\<close>\<close>

text \<open>
  Values of JavaScript as they may be given for a key: plain objects and instances of other
  classes by their own properties, search parameters as their pairs.
\<close>

datatype js_value = VNull | VUndefined | VFunction | VBool bool | VNum int | VBigInt int | VStr string | VDate millis
  | VArr "js_value list" | VObj "(string \<times> js_value) list" | VInstance "(string \<times> js_value) list" | VParams "(string \<times> string) list"

text \<open>
  \<open>stringifyToJsonValue\<close>: \<open>JSON.stringify\<close> with the replacer, and \<open>JSON.parse\<close> after it. What is
  \<open>undefined\<close> is left out of an object and \<open>null\<close> in an array; search parameters have no
  properties of their own.
\<close>

fun stringify_to_json :: "js_value \<Rightarrow> json option" where
  "stringify_to_json VNull = Some JNull"
| "stringify_to_json VUndefined = None"
| "stringify_to_json VFunction = None"
| "stringify_to_json (VBool b) = Some (JBool b)"
| "stringify_to_json (VNum n) = Some (JNumber n)"
| "stringify_to_json (VBigInt n) = Some (JString (int_to_string n))"
| "stringify_to_json (VStr s) = Some (JString s)"
| "stringify_to_json (VDate t) = Some (JString (iso_string t))"
| "stringify_to_json (VArr vs) = Some (JArray (map (\<lambda>v. nullish (stringify_to_json v) JNull) vs))"
| "stringify_to_json (VObj fs) = Some (JObject (concat (map (\<lambda>f. case stringify_to_json (snd f) of None \<Rightarrow> [] | Some j \<Rightarrow> [(fst f, j)]) fs)))"
| "stringify_to_json (VInstance fs) = Some (JObject (concat (map (\<lambda>f. case stringify_to_json (snd f) of None \<Rightarrow> [] | Some j \<Rightarrow> [(fst f, j)]) fs)))"
| "stringify_to_json (VParams ps) = Some (JObject [])"

text \<open>
  \<open>serializeSearchParams\<close>; \<open>rank\<close> stands for \<open>localeCompare\<close>, and no name is one that every object
  inherits (\<open>constructor\<close>, say, which \<open>result[key]\<close> would find).
\<close>

definition add_param :: "string \<times> string \<Rightarrow> (string \<times> json) list \<Rightarrow> (string \<times> json) list" where
  "add_param e result = (case e of (key, v) \<Rightarrow>
     (case map_of result key of
        None \<Rightarrow> AList.update key (JString v) result
      | Some (JArray js) \<Rightarrow> AList.update key (JArray (js @ [JString v])) result
      | Some j \<Rightarrow> AList.update key (JArray [j, JString v]) result))"

definition serialize_search_params :: "(string \<Rightarrow> nat) \<Rightarrow> (string \<times> string) list \<Rightarrow> json" where
  "serialize_search_params rank ps = JObject (fold add_param (sort_key (\<lambda>e. rank (fst e)) ps) [])"

definition serialize_query_key_value :: "(string \<Rightarrow> nat) \<Rightarrow> js_value \<Rightarrow> json option" where
  "serialize_query_key_value rank v = (case v of
     VNull \<Rightarrow> Some JNull
   | VStr s \<Rightarrow> Some (JString s)
   | VNum n \<Rightarrow> Some (JNumber n)
   | VBool b \<Rightarrow> Some (JBool b)
   | VUndefined \<Rightarrow> None
   | VFunction \<Rightarrow> None
   | VBigInt n \<Rightarrow> Some (JString (int_to_string n))
   | VDate t \<Rightarrow> Some (JString (iso_string t))
   | VArr vs \<Rightarrow> stringify_to_json (VArr vs)
   | VParams ps \<Rightarrow> Some (serialize_search_params rank ps)
   | VObj fs \<Rightarrow> stringify_to_json (VObj fs)
   | VInstance _ \<Rightarrow> None)"

text \<open>JSON is its own key, so a key that was made can be used as one again.\<close>

fun value_of_json :: "json \<Rightarrow> js_value" where
  "value_of_json JNull = VNull"
| "value_of_json (JBool b) = VBool b"
| "value_of_json (JNumber n) = VNum n"
| "value_of_json (JString s) = VStr s"
| "value_of_json (JArray js) = VArr (map value_of_json js)"
| "value_of_json (JObject fs) = VObj (map (\<lambda>f. (fst f, value_of_json (snd f))) fs)"

lemma stringify_json: "stringify_to_json (value_of_json j) = Some j"
proof (induction j)
  case (JArray js)
  then show ?case by (simp add: map_idI)
next
  case (JObject fs)
  have "concat (map (\<lambda>f. case stringify_to_json (value_of_json (snd f)) of None \<Rightarrow> [] | Some j \<Rightarrow> [(fst f, j)]) gs) = gs"
    if "set gs \<subseteq> set fs" for gs
    using that
  proof (induction gs)
    case (Cons g gs)
    then have "stringify_to_json (value_of_json (snd g)) = Some (snd g)"
      using JObject [of g "snd g"] by (cases g) auto
    with Cons show ?case by simp
  qed simp
  from this [OF order_refl] show ?case by (simp add: comp_def cong: option.case_cong)
qed simp_all

lemma query_key_value_stable: "serialize_query_key_value rank (value_of_json j) = Some j"
  using stringify_json [of j] by (cases j) (simp_all add: serialize_query_key_value_def)

end
