(* ===== verification/Spec2Isabelle.thy ===== *)
theory Spec2Isabelle
  imports Prelude ErrorCodes Schema World Wp Single_Use Tokens Demo Sessions Users Devices Auth
    Invitations BackupCodes TwoFa Challenges ChallengeLife TotpLockout Login Registration
    Folders Files Trash Uploads FolderForest DriveInvariant DriveOps DriveProps FileProps
    Drives Mounts MountProps Routes RouteProps UploadProps Logging LoggingProps
    ClientUpload ClientAuth ClientSession ClientTwoFa
    ApiClient WebSdk AdminSdk SdkProps ClientGates ClientCache ClientListing ClientViews
    ClientForms ClientDialogs AdminClient Overlapping Interleaving
    JsonTypes WebTypes AdminTypes Answers AnswerProps ClientRouter ClientPages ClientAccount Startup
    SdkRuntime
begin

text \<open>
  A verification library for Terab, a private cloud drive: the API server
  \<open>src/services/api\<close> (NestJS, drizzle on PostgreSQL, MinIO, Redis, BullMQ), the push worker
  \<open>src/services/mq\<close>, and the logic of the web and admin clients \<open>src/services/web\<close> and
  \<open>src/services/admin\<close>.

  \<^bold>\<open>The program.\<close> Controllers take HTTP requests past guards to services; services call
  repositories, and the repositories one relational database; around them are an object
  store, a cache, a queue, a storage agent, secret files and cookies. The clients hold
  an access token, refresh it with a cookie, upload files in parts and poll two-factor
  challenges.

  \<^bold>\<open>The model.\<close> A service method is a function from a world to a fault or a value and a
  world (\<open>World\<close>): the database as a record of lists of rows (\<open>Schema\<close>), the calls made
  to the outside so far, the number of clock and random values drawn, and whether a
  transaction is open. The answers of everything outside the repository are the parameter
  \<open>host\<close>: functions of the calls made before, arbitrary unless a property names what it
  needs of them. \<open>Wp\<close> computes weakest preconditions through the combinators, and collects
  the methods that keep a property of the database. \<open>Single_Use\<close> holds the contracts several
  components share, as locales: keys that work once, invariants over histories of
  operations, and operations that leave a part of the state alone; the components interpret
  them on their own operations. \<open>Overlapping\<close> holds the contracts of requests that overlap:
  a schedule of the reading and the writing phases of several requests.

  \<^item> \<open>ErrorCodes\<close>, \<open>RouteProps\<close>, \<open>Routes\<close>: the error vocabulary and the exception filter
    (\<open>common\<close>); every controller's routes, their dispatch, the JWT and permission guards and
    the small controllers (\<open>app.module.ts\<close>, \<open>common/guards\<close>, \<open>user\<close>, \<open>admin\<close>, \<open>health\<close>).
  \<^item> \<open>Tokens\<close>, \<open>Sessions\<close>, \<open>Auth\<close>, \<open>Login\<close>, \<open>Registration\<close>: \<open>security\<close>, \<open>auth/session\<close>,
    \<open>auth/auth.service.ts\<close>, \<open>auth/login.service.ts\<close> and its controller.
  \<^item> \<open>Users\<close>, \<open>Invitations\<close>, \<open>Devices\<close>: \<open>user\<close>, \<open>auth/role\<close>, \<open>database/seed\<close>; \<open>invitation\<close>;
    \<open>device\<close> and \<open>trusted-device\<close>.
  \<^item> \<open>TwoFa\<close>, \<open>Challenges\<close>, \<open>ChallengeLife\<close>, \<open>TotpLockout\<close>, \<open>BackupCodes\<close>: \<open>twofa\<close>.
  \<^item> \<open>Folders\<close>, \<open>Files\<close>, \<open>Trash\<close>, \<open>Uploads\<close>: \<open>folder\<close>, \<open>file\<close> and \<open>minio\<close>, \<open>trash\<close>; their
    properties are in \<open>FolderForest\<close>, \<open>DriveInvariant\<close>, \<open>DriveOps\<close>, \<open>DriveProps\<close>, \<open>FileProps\<close>
    and \<open>UploadProps\<close>.
  \<^item> \<open>Drives\<close>, \<open>Mounts\<close>, \<open>MountProps\<close>: \<open>drive\<close>, the client \<open>storage-agent\<close>, \<open>mount-credential\<close>.
  \<^item> \<open>Logging\<close>, \<open>LoggingProps\<close>: \<open>logger\<close>.
  \<^item> \<open>Startup\<close>: what the API reads from its environment when it starts (\<open>main.ts\<close>,
    \<open>app.module.ts\<close>, constructors), and the tables it prepares before it listens.
  \<^item> \<open>Interleaving\<close>: the phases of the rotation of a token, the claim of a challenge, the use of
    a backup code and the registration, and what holds of them under every schedule.
  \<^item> \<open>JsonTypes\<close>, \<open>WebTypes\<close>, \<open>AdminTypes\<close>, \<open>Answers\<close>, \<open>AnswerProps\<close>: JSON values and the types
    of \<open>shared/api/generated/types.gen.ts\<close> of both clients, the API's answers as JSON, and the
    proof that they have the types the clients declare.
  \<^item> \<open>ClientUpload\<close>, \<open>ClientAuth\<close>, \<open>ClientSession\<close>, \<open>ClientTwoFa\<close>: the web client's upload
    pool; its interceptors, alone and with the API behind them; the push worker, the deep
    links and the pages that wait for a second factor.
  \<^item> \<open>ApiClient\<close>, \<open>WebSdk\<close>, \<open>AdminSdk\<close>, \<open>SdkProps\<close>: the generated clients
    (\<open>shared/api/generated\<close>): how an operation becomes a request line, one definition per
    operation of each client, and the proof that they meet the API's routes. \<open>SdkRuntime\<close> is the rest of
    their runtime: the reader of server-sent events and its reconnections, headers, credentials,
    a request from its options to its outcome, flat arguments and the values of cache keys.
  \<^item> \<open>ClientGates\<close>, \<open>ClientCache\<close>, \<open>ClientListing\<close>, \<open>ClientViews\<close>: the gates of the clients'
    routes and the calls written by hand; the keys of the query cache; the listings the drive's
    mutations invalidate; and the state of the pages and small helpers.
  \<^item> \<open>ClientForms\<close>, \<open>ClientDialogs\<close>, \<open>AdminClient\<close>: what the forms check and send, the dialogs for
    folders with the tree in which a new place is picked, and the admin client's interceptors
    and dialog.
  \<^item> \<open>ClientPages\<close>, \<open>ClientAccount\<close>: the drive's page (breadcrumb bar, lists, search field, the
    dialogs that ask first, the buttons for uploads and downloads), and the pages around an
    account (the mount's password, backup codes, the wait for the second factor, login,
    registration, toasts).
  \<^item> \<open>ClientRouter\<close>: the route objects of both clients (\<open>app/providers/router\<close>), the page a path
    lands on, and every place the modelled code navigates to.

  Each definition carries the name of the code it models, with a prefix for the
  component (\<open>session_rotate\<close> is \<open>SessionService.rotate\<close>); \<open>Demo\<close> is a concrete host on
  which the hypotheses of the properties are shown to hold together.

  \<^bold>\<open>What is shown.\<close> Refresh tokens, invitations, backup codes and challenges work at most
  once over any history, by the contract of \<open>Single_Use\<close>; an invitation does so even when
  registrations overlap, whereas a token, a code or an approval that two overlapping requests
  have both read serves them both. Logins, registrations and
  rotations have their complete results, errors included; a failed registration or mount
  changes nothing. Challenges move along their state machine and are approved by their owner
  only; the TOTP lockout holds although every attempt rolls back. Folders stay a forest and
  users isolated from one another over any history of drive requests, which makes the
  recursive queries return. An upload's completion refines a machine of pending and stored
  files, the client's pool delivers the file byte for byte in any interleaving, and the
  clean-up ends what expired. The client's single refresh loses no request and keeps the
  session alive against the API's rotating tokens. The routes let through whom they say,
  the mount script survives PowerShell's quoting, and the log hides the secrets it masks
  without changing what a traced method does. Every call of the generated clients is served by
  the route it was generated from, with the path parameters it was given; the cache's keys
  tell requests apart; a listing the cache holds as valid is the one the API would give now;
  a push reaches the challenge it was sent for; a device that signed out gets no more of
  them; a backup code that was shown signs its owner in however it is typed; the move dialog
  offers exactly what the API accepts; nobody gets past the admin client's gate, which
  asks a path no route serves. What the API answers has, with its status, a type the web
  client declares for the operation, and the places where the types disagree with the API are
  named. Every link the web client follows, those of a push among them, opens the page it
  is meant for. The breadcrumb bar offers every place above the folder once and in order, no
  dialog sends what was not asked and confirmed, a mount's password is in the clear on demand
  only, and toasts come in turn.

  \<^bold>\<open>Conventions.\<close> Outside \<open>Interleaving\<close> a request handler runs on its own, as one step;
  there the handlers that check before they write are two steps, split where the isolation
  level of their transactions (read committed) lets another request in. Transactions restore the database on a fault
  and on a failed commit, not the outside. A database error passes through as it is thrown,
  with its SQLSTATE and constraint. Lengths of \<open>varchar\<close> columns are not enforced. Unordered
  selects give the rows in insertion order and \<open>ORDER BY\<close> is stable. Strings are their UTF-8
  bytes, \<open>toLowerCase\<close>, \<open>ILIKE\<close> and \<open>trim\<close> act on ASCII, and messages in Korean are left out.
  JSON numbers are integers. \<open>set\<close> skips undefined fields as drizzle does. Bodies are
  validated by the predicates that stand for the decorators of their classes. The JWT
  library's verification and the throttler's counting are the libraries'. \<open>Math.ceil\<close> of the
  quotients that occur is exact in floating point, as the definitions say.

  \<^bold>\<open>Bounds.\<close> The recursive queries and the loop that draws a challenge's numbers are
  \<open>partial_function\<close>s: not returning is the value \<open>None\<close>, the fault \<open>NeverReturns\<close> of a
  method, and that they do return is proved. The masker's walk recurses on what is left of
  its depth limit, ten, so no fuel is lost. The loops of the upload pool have the bounds of
  \<open>upload_pool_ends\<close>.

  \<^bold>\<open>Not modelled.\<close> Markup and styles (of React components the state and what they offer are modelled where it
  depends on more than a prop) and the hooks that only pass a
  generated operation on; of the generated clients the serializers of bodies (no call of this
  repository sends a form or a multipart body through them); the libraries behind the clients' routers
  and caches; the modules that only wire NestJS providers; what the drivers do with their
  settings (database pool, MinIO, Redis, Firebase, pino); the storage agent, a Go program; deployment files and
  the tests.
\<close>

end
